(* ===== verification/Prelude.thy ===== *)
theory Prelude
  imports Main "HOL-Library.Word" "HOL-Library.Signed_Division"
begin

text \<open>
  Shared vocabulary of the GlobMint backend development: Go's \<open>int64\<close> arithmetic (as integers with the
  wrap-around written out), the parts of the packages \<open>strings\<close>, \<open>strconv\<close> and \<open>fmt\<close> the code uses, the
  domain errors of \<open>src/backend/internal/domain/errors.go\<close>, and the shape of a fallible stateful Go
  function \<open>func (...) (T, error)\<close> with its reasoning rules.

  Strings are byte strings (\<^typ>\<open>string\<close>); case folding and white space are those of ASCII.
\<close>

named_theorems int64_simps \<open>int64 values that do not wrap\<close>
named_theorems go_simps \<open>evaluation of fallible stateful computations\<close>
named_theorems go_elims \<open>inversion of a computation that returned a value\<close>
named_theorems keeps_intros \<open>computations that keep a predicate of the state\<close>

section \<open>Go's int64\<close>

type_synonym int64 = int

definition max_int64 :: int where "max_int64 = 9223372036854775807"
definition min_int64 :: int where "min_int64 = - 9223372036854775808"

definition in64 :: "int \<Rightarrow> bool" where
  "in64 x \<longleftrightarrow> min_int64 \<le> x \<and> x \<le> max_int64"

text \<open>Every \<open>+\<close>, \<open>-\<close> and \<open>*\<close> on \<open>int64\<close> in the source is followed by this reduction in the model.\<close>

definition wrap64 :: "int \<Rightarrow> int" where
  "wrap64 x = (x + 9223372036854775808) mod 18446744073709551616 - 9223372036854775808"

lemmas int64_bounds = in64_def max_int64_def min_int64_def

lemma wrap64_id [int64_simps]: "in64 x \<Longrightarrow> wrap64 x = x"
  by (simp add: wrap64_def int64_bounds)

lemma in64_wrap64 [simp, intro]: "in64 (wrap64 x)"
proof -
  have "0 \<le> (x + 9223372036854775808) mod 18446744073709551616"
    and "(x + 9223372036854775808) mod 18446744073709551616 < 18446744073709551616"
    by simp_all
  then show ?thesis by (simp add: wrap64_def int64_bounds)
qed

lemma wrap64_wrap64 [simp]: "wrap64 (wrap64 x) = wrap64 x"
  by (rule wrap64_id) simp

text \<open>The reduction is the one of two's complement 64-bit words.\<close>

lemma wrap64_sint: "wrap64 x = sint (word_of_int x :: 64 word)"
proof -
  have "sint (word_of_int x :: 64 word) = signed_take_bit 63 x"
    by (simp add: sint_sbintrunc')
  also have "\<dots> = take_bit 64 (x + 2 ^ 63) - 2 ^ 63"
    by (simp add: signed_take_bit_eq_take_bit_shift)
  also have "\<dots> = wrap64 x"
    by (simp add: wrap64_def take_bit_eq_mod)
  finally show ?thesis by simp
qed

text \<open>How a sum of two \<open>int64\<close> values wraps: at most once, in the direction of the overflow.\<close>

lemma wrap64_over:
  assumes "max_int64 < x" and "x \<le> 2 * max_int64 + 1"
  shows "wrap64 x = x - 18446744073709551616"
proof -
  have "(x + 9223372036854775808) mod 18446744073709551616
      = (x + 9223372036854775808 - 18446744073709551616) mod 18446744073709551616"
    by (rule minus_mod_self2 [symmetric])
  also have "\<dots> = x + 9223372036854775808 - 18446744073709551616"
    using assms by (intro mod_pos_pos_trivial) (simp_all add: max_int64_def)
  finally show ?thesis by (simp add: wrap64_def)
qed

lemma wrap64_under:
  assumes "x < min_int64" and "2 * min_int64 \<le> x"
  shows "wrap64 x = x + 18446744073709551616"
proof -
  have "(x + 9223372036854775808) mod 18446744073709551616
      = (x + 9223372036854775808 + 18446744073709551616) mod 18446744073709551616"
    by (rule mod_add_self2 [symmetric])
  also have "\<dots> = x + 9223372036854775808 + 18446744073709551616"
    using assms by (intro mod_pos_pos_trivial) (simp_all add: min_int64_def)
  finally show ?thesis by (simp add: wrap64_def)
qed

lemma int64_cases:
  obtains (ok) "in64 x" | (over) "max_int64 < x" | (under) "x < min_int64"
  by (meson in64_def not_le)

text \<open>Go's \<open>/\<close> and \<open>%\<close> truncate towards zero: \<open>sdiv\<close> and \<open>smod\<close>.\<close>

lemma sdiv_nonneg: "0 \<le> (a::int) \<Longrightarrow> 0 < b \<Longrightarrow> a sdiv b = a div b"
  by (cases "a = 0") (auto simp: signed_divide_int_def)

lemma smod_nonneg: "0 \<le> (a::int) \<Longrightarrow> 0 < b \<Longrightarrow> a smod b = a mod b"
  by (cases "a = 0") (auto simp: signed_modulo_int_def)

section \<open>Characters and strings\<close>

definition is_space :: "char \<Rightarrow> bool" where
  "is_space c \<longleftrightarrow> of_char c \<in> {9::nat, 10, 11, 12, 13, 32}"

definition is_digit :: "char \<Rightarrow> bool" where
  "is_digit c \<longleftrightarrow> 48 \<le> (of_char c :: nat) \<and> of_char c \<le> (57::nat)"

definition digit_val :: "char \<Rightarrow> nat" where
  "digit_val c = of_char c - 48"

definition digit_char :: "nat \<Rightarrow> char" where
  "digit_char n = char_of (48 + n mod 10)"

lemma digit_char_digit [simp]: "is_digit (digit_char n)"
  by (auto simp: is_digit_def digit_char_def)

lemma digit_val_digit_char [simp]: "n < 10 \<Longrightarrow> digit_val (digit_char n) = n"
  by (simp add: digit_val_def digit_char_def)

definition to_lower :: "char \<Rightarrow> char" where
  "to_lower c = (if 65 \<le> (of_char c :: nat) \<and> of_char c \<le> (90::nat) then char_of ((of_char c :: nat) + 32) else c)"

definition to_upper :: "char \<Rightarrow> char" where
  "to_upper c = (if 97 \<le> (of_char c :: nat) \<and> of_char c \<le> (122::nat) then char_of ((of_char c :: nat) - 32) else c)"

text \<open>\<open>strings.ToLower\<close>, \<open>strings.ToUpper\<close>, \<open>strings.EqualFold\<close>, \<open>strings.TrimSpace\<close>, \<open>strings.Split\<close>
  on a one-byte separator, \<open>strings.HasPrefix\<close>, \<open>strings.TrimPrefix\<close> and \<open>strings.Contains\<close>.\<close>

definition ToLower :: "string \<Rightarrow> string" where "ToLower s = map to_lower s"
definition ToUpper :: "string \<Rightarrow> string" where "ToUpper s = map to_upper s"
definition EqualFold :: "string \<Rightarrow> string \<Rightarrow> bool" where "EqualFold a b \<longleftrightarrow> ToLower a = ToLower b"

definition TrimSpace :: "string \<Rightarrow> string" where
  "TrimSpace s = rev (dropWhile is_space (rev (dropWhile is_space s)))"

fun split_on :: "char \<Rightarrow> string \<Rightarrow> string list" where
  "split_on c [] = [[]]"
| "split_on c (x # xs) =
     (if x = c then [] # split_on c xs
      else (case split_on c xs of [] \<Rightarrow> [[x]] | p # ps \<Rightarrow> (x # p) # ps))"

fun HasPrefix :: "string \<Rightarrow> string \<Rightarrow> bool" where
  "HasPrefix s [] = True"
| "HasPrefix [] (p # ps) = False"
| "HasPrefix (x # xs) (p # ps) = (x = p \<and> HasPrefix xs ps)"

definition TrimPrefix :: "string \<Rightarrow> string \<Rightarrow> string" where
  "TrimPrefix s p = (if HasPrefix s p then drop (length p) s else s)"

fun Contains :: "string \<Rightarrow> string \<Rightarrow> bool" where
  "Contains [] p = (p = [])"
| "Contains (x # xs) p = (HasPrefix (x # xs) p \<or> Contains xs p)"

lemma EqualFold_refl [simp]: "EqualFold a a"
  by (simp add: EqualFold_def)

lemma EqualFold_sym: "EqualFold a b \<longleftrightarrow> EqualFold b a"
  by (auto simp: EqualFold_def)

lemma to_lower_to_lower [simp]: "to_lower (to_lower c) = to_lower c"
  by (auto simp: to_lower_def)

lemma ToLower_ToLower [simp]: "ToLower (ToLower s) = ToLower s"
  by (simp add: ToLower_def)

lemma ToLower_Nil_iff [simp]: "ToLower s = [] \<longleftrightarrow> s = []"
  by (simp add: ToLower_def)

lemma TrimSpace_id: "(\<forall>c\<in>set s. \<not> is_space c) \<Longrightarrow> TrimSpace s = s"
proof -
  have drop_none: "dropWhile is_space xs = xs" if "\<forall>c\<in>set xs. \<not> is_space c" for xs
    using that by (cases xs) auto
  assume "\<forall>c\<in>set s. \<not> is_space c"
  then show ?thesis by (simp add: TrimSpace_def drop_none)
qed

lemma split_on_nonempty [simp]: "split_on c s \<noteq> []"
  by (induction s) (auto split: list.splits)

lemma split_on_none: "c \<notin> set s \<Longrightarrow> split_on c s = [s]"
  by (induction s) auto

lemma split_on_append: "c \<notin> set a \<Longrightarrow> split_on c (a @ c # b) = a # split_on c b"
  by (induction a) auto

subsection \<open>Decimal printing and parsing\<close>

text \<open>\<open>%d\<close> and \<open>%02d\<close> of package \<open>fmt\<close>; \<open>strconv.ParseInt(s, 10, 64)\<close> with its two error kinds.\<close>

fun show_nat :: "nat \<Rightarrow> string" where
  "show_nat n = (if n < 10 then [digit_char n] else show_nat (n div 10) @ [digit_char (n mod 10)])"

declare show_nat.simps [simp del]

definition show_int :: "int \<Rightarrow> string" where
  "show_int n = (if n < 0 then ''-'' @ show_nat (nat (- n)) else show_nat (nat n))"

definition pad0 :: "nat \<Rightarrow> string \<Rightarrow> string" where
  "pad0 w s = replicate (w - length s) (digit_char 0) @ s"

definition fmt02d :: "int \<Rightarrow> string" where
  "fmt02d n = (if n < 0 then ''-'' @ pad0 1 (show_nat (nat (- n))) else pad0 2 (show_nat (nat n)))"

datatype num_err = ErrSyntax | ErrRange

fun parse_uint_loop :: "nat \<Rightarrow> string \<Rightarrow> num_err + nat" where
  "parse_uint_loop n [] = Inr n"
| "parse_uint_loop n (c # cs) =
     (if \<not> is_digit c then Inl ErrSyntax
      else if 1844674407370955162 \<le> n then Inl ErrRange
      else if 18446744073709551615 < n * 10 + digit_val c then Inl ErrRange
      else parse_uint_loop (n * 10 + digit_val c) cs)"

definition ParseUint :: "string \<Rightarrow> num_err + nat" where
  "ParseUint s = (if s = [] then Inl ErrSyntax else parse_uint_loop 0 s)"

definition parse_signed :: "bool \<Rightarrow> string \<Rightarrow> num_err + int" where
  "parse_signed neg s =
     (case ParseUint s of
        Inl ErrSyntax \<Rightarrow> Inl ErrSyntax
      | Inl ErrRange \<Rightarrow> Inl ErrRange
      | Inr un \<Rightarrow>
          (if \<not> neg \<and> 9223372036854775808 \<le> un then Inl ErrRange
           else if neg \<and> 9223372036854775808 < un then Inl ErrRange
           else Inr (if neg then - int un else int un)))"

definition ParseInt :: "string \<Rightarrow> num_err + int64" where
  "ParseInt s =
     (case s of
        [] \<Rightarrow> Inl ErrSyntax
      | c # cs \<Rightarrow>
          (if c = CHR ''+'' then parse_signed False cs
           else if c = CHR ''-'' then parse_signed True cs
           else parse_signed False s))"

lemma show_nat_digits: "\<forall>c\<in>set (show_nat n). is_digit c"
proof (induction n rule: show_nat.induct)
  case (1 n)
  then show ?case
    by (cases "n < 10") (auto simp: show_nat.simps [of n])
qed

lemma show_nat_nonempty [simp]: "show_nat n \<noteq> []"
  by (subst show_nat.simps) simp

definition dec_val :: "string \<Rightarrow> nat" where
  "dec_val s = foldl (\<lambda>n c. n * 10 + digit_val c) 0 s"

lemma dec_val_snoc: "dec_val (s @ [c]) = dec_val s * 10 + digit_val c"
  by (simp add: dec_val_def)

lemma dec_val_show_nat [simp]: "dec_val (show_nat n) = n"
proof (induction n rule: show_nat.induct)
  case (1 n)
  show ?case
  proof (cases "n < 10")
    case True
    then show ?thesis by (subst show_nat.simps) (simp add: dec_val_def)
  next
    case False
    then have "dec_val (show_nat n) = dec_val (show_nat (n div 10)) * 10 + n mod 10"
      by (simp add: show_nat.simps [of n] dec_val_snoc)
    also have "\<dots> = n" using 1 False by simp
    finally show ?thesis .
  qed
qed

lemma dec_val_append: "dec_val (a @ b) = dec_val a * 10 ^ length b + dec_val b"
proof (induction b rule: rev_induct)
  case (snoc c b)
  have "dec_val (a @ b @ [c]) = dec_val (a @ b) * 10 + digit_val c" using dec_val_snoc [of "a @ b" c] by simp
  then show ?case using snoc by (simp add: dec_val_snoc algebra_simps)
qed (simp add: dec_val_def)

lemma dec_val_zeros: "dec_val (replicate n (digit_char 0)) = 0"
  by (induction n) (simp_all add: dec_val_def)

lemma show_nat_length: "n < 10 ^ k \<Longrightarrow> 0 < k \<Longrightarrow> length (show_nat n) \<le> k"
proof (induction k arbitrary: n)
  case (Suc k)
  show ?case
  proof (cases "n < 10")
    case True
    then show ?thesis by (subst show_nat.simps) simp
  next
    case False
    then have "0 < k" using Suc.prems(1) by (cases k) auto
    moreover have "n div 10 < 10 ^ k" using Suc.prems(1) by (simp add: div_less_iff_less_mult mult.commute)
    ultimately show ?thesis using Suc.IH False by (subst show_nat.simps) simp
  qed
qed simp

lemma pad0_digits: "n < 10 ^ k \<Longrightarrow> 0 < k \<Longrightarrow> length (pad0 k (show_nat n)) = k \<and> dec_val (pad0 k (show_nat n)) = n
    \<and> (\<forall>c\<in>set (pad0 k (show_nat n)). is_digit c)"
  using show_nat_length [of n k] show_nat_digits [of n]
  by (auto simp: pad0_def dec_val_append dec_val_zeros)

lemma foldl_dec_mono: "n \<le> foldl (\<lambda>n c. n * 10 + digit_val c) n s"
proof (induction s arbitrary: n)
  case (Cons c s)
  have "n \<le> n * 10 + digit_val c" by simp
  also have "\<dots> \<le> foldl (\<lambda>n c. n * 10 + digit_val c) (n * 10 + digit_val c) s" by (rule Cons)
  finally show ?case by simp
qed simp

lemma parse_uint_loop_ok:
  assumes "\<forall>c\<in>set s. is_digit c" and "foldl (\<lambda>n c. n * 10 + digit_val c) n s \<le> 9223372036854775807"
  shows "parse_uint_loop n s = Inr (foldl (\<lambda>n c. n * 10 + digit_val c) n s)"
  using assms
proof (induction s arbitrary: n)
  case Nil
  then show ?case by simp
next
  case (Cons c s)
  have "n * 10 + digit_val c \<le> foldl (\<lambda>n c. n * 10 + digit_val c) (n * 10 + digit_val c) s"
    by (rule foldl_dec_mono)
  with Cons.prems(2) have le: "n * 10 + digit_val c \<le> 9223372036854775807" by simp
  moreover have "parse_uint_loop (n * 10 + digit_val c) s
      = Inr (foldl (\<lambda>n c. n * 10 + digit_val c) (n * 10 + digit_val c) s)"
    using Cons by simp
  ultimately show ?case using Cons.prems(1) by simp
qed

lemma ParseInt_digits:
  assumes "s \<noteq> []" and "\<forall>c\<in>set s. is_digit c" and "dec_val s \<le> 9223372036854775807"
  shows "ParseInt s = Inr (int (dec_val s))"
proof -
  obtain c cs where s: "s = c # cs" using assms(1) by (cases s) auto
  then have "c \<noteq> CHR ''+''" and "c \<noteq> CHR ''-''"
    using assms(2) by (auto simp: is_digit_def)
  moreover have "parse_uint_loop 0 s = Inr (dec_val s)"
    unfolding dec_val_def by (rule parse_uint_loop_ok) (use assms in \<open>simp_all add: dec_val_def\<close>)
  ultimately show ?thesis
    using assms s by (simp add: ParseInt_def parse_signed_def ParseUint_def)
qed

lemma ParseInt_nonneg:
  assumes "ParseInt s = Inr m" and "s \<noteq> []" and "hd s \<noteq> CHR ''-''"
  shows "0 \<le> m \<and> m \<le> max_int64"
  using assms
  by (cases s) (auto simp: ParseInt_def parse_signed_def max_int64_def split: if_splits sum.splits num_err.splits)

section \<open>Bytes\<close>

type_synonym byte = "8 word"

text \<open>The conversions \<open>[]byte(s)\<close> and \<open>string(b)\<close>, and the big-endian bytes of a number, most significant first.\<close>

definition bytes_of :: "string \<Rightarrow> byte list" where
  "bytes_of s = map of_char s"

definition string_of :: "byte list \<Rightarrow> string" where
  "string_of bs = map (\<lambda>b. char_of (unat b)) bs"

lemma string_of_bytes_of [simp]: "string_of (bytes_of s) = s"
proof -
  have "char_of (unat (of_char c :: byte)) = c" for c
  proof -
    have "unat (of_char c :: byte) = unat (of_nat (of_char c) :: byte)" by (cases c) (simp add: horner_sum_simps)
    also have "\<dots> = of_char c"
      using nat_of_char_less_256 [of c] by (simp add: unsigned_of_nat take_bit_nat_eq_self)
    finally show ?thesis by simp
  qed
  then show ?thesis by (simp add: string_of_def bytes_of_def comp_def)
qed

primrec be_bytes :: "nat \<Rightarrow> nat \<Rightarrow> byte list" where
  "be_bytes 0 n = []"
| "be_bytes (Suc k) n = be_bytes k (n div 256) @ [of_nat (n mod 256)]"

lemma be_bytes_length [simp]: "length (be_bytes k n) = k"
  by (induction k arbitrary: n) simp_all

lemma byte_of_nat_inj: "m < 256 \<Longrightarrow> n < 256 \<Longrightarrow> (of_nat m :: byte) = of_nat n \<Longrightarrow> m = n"
  by (simp add: word_of_nat_eq_iff take_bit_nat_eq_self)

lemma be_bytes_inj: "m < 256 ^ k \<Longrightarrow> n < 256 ^ k \<Longrightarrow> be_bytes k m = be_bytes k n \<Longrightarrow> m = n"
proof (induction k arbitrary: m n)
  case (Suc k)
  from Suc.prems(3) have "(of_nat (m mod 256) :: byte) = of_nat (n mod 256)" by simp
  then have "m mod 256 = n mod 256" by (intro byte_of_nat_inj) simp_all
  moreover have "m div 256 = n div 256"
    using Suc.prems by (intro Suc.IH) (simp_all add: less_mult_imp_div_less mult.commute)
  ultimately show ?case by (metis div_mult_mod_eq)
qed simp

end
