(* ===== verification/Money.thy ===== *)
theory Money
  imports Prelude
begin

text \<open>
  Fixed-point money: \<open>src/backend/internal/domain/money/money.go\<close> (the \<open>Money\<close> type, its parser, its
  checked arithmetic, ratio multiplication and printer) and the withdrawal fee schedule of
  \<open>src/backend/internal/domain/fees/fees.go\<close>. The lemmas show that the checked operations are exact or
  report an overflow, that ratios round to nearest, that the parser inverts the printer, and that the
  overflow-free evaluation order of the fee computes the documented formula.
\<close>

section \<open>The type and its errors\<close>

record money =
  minor :: int64

datatype money_err =
  ErrEmptyAmount | ErrTooManyFractionalDigits | ErrNegative | ErrOverflow | ErrDivideByZero
| ErrInvalidAmountString | ErrBasisPointsRange

definition MinorUnit :: int64 where "MinorUnit = 100"

definition FromMinorUnits :: "int64 \<Rightarrow> money" where
  "FromMinorUnits m = \<lparr>minor = m\<rparr>"

definition Minor :: "money \<Rightarrow> int64" where "Minor m = minor m"

definition Major :: "money \<Rightarrow> int64" where "Major m = minor m sdiv MinorUnit"

definition IsNegative :: "money \<Rightarrow> bool" where "IsNegative m \<longleftrightarrow> minor m < 0"

definition IsZero :: "money \<Rightarrow> bool" where "IsZero m \<longleftrightarrow> minor m = 0"

definition Compare :: "money \<Rightarrow> money \<Rightarrow> int" where
  "Compare m other = (if minor m < minor other then -1 else if minor m > minor other then 1 else 0)"

section \<open>Parsing\<close>

fun pad_frac :: "string \<Rightarrow> string" where
  "pad_frac [] = ''00''"
| "pad_frac [c] = [c, CHR ''0'']"
| "pad_frac cs = cs"

definition FromMajorUnits :: "string \<Rightarrow> money_err + money" where
  "FromMajorUnits s0 =
     (let s = TrimSpace s0 in
      case s of
        [] \<Rightarrow> Inl ErrEmptyAmount
      | c # cs \<Rightarrow>
          (let neg = (c = CHR ''-'');
               s = (if neg then cs else s);
               parts = split_on (CHR ''.'') s;
               whole = hd parts;
               frac = (if length parts = 2 then parts ! 1 else []);
               whole = (if whole = [] then ''0'' else whole)
           in if 18 < length frac then Inl ErrTooManyFractionalDigits
              else (case ParseInt (whole @ pad_frac frac) of
                      Inl ErrRange \<Rightarrow> Inl ErrOverflow
                    | Inl ErrSyntax \<Rightarrow> Inl ErrInvalidAmountString
                    | Inr m \<Rightarrow> if neg then Inl ErrNegative else Inr \<lparr>minor = m\<rparr>)))"

section \<open>Arithmetic\<close>

definition Add :: "money \<Rightarrow> money \<Rightarrow> money_err + money" where
  "Add m other =
     (let sum = wrap64 (minor m + minor other)
      in if (sum > minor m) \<noteq> (minor other > 0) then Inl ErrOverflow else Inr \<lparr>minor = sum\<rparr>)"

definition Sub :: "money \<Rightarrow> money \<Rightarrow> money_err + money" where
  "Sub m other =
     (let diff = wrap64 (minor m - minor other)
      in if (diff < minor m) \<noteq> (minor other > 0) then Inl ErrOverflow else Inr \<lparr>minor = diff\<rparr>)"

definition MulRatio :: "money \<Rightarrow> int64 \<Rightarrow> int64 \<Rightarrow> money_err + money" where
  "MulRatio m num den =
     (if den = 0 then Inl ErrDivideByZero
      else if num = 0 \<or> minor m = 0 then Inr \<lparr>minor = 0\<rparr>
      else (let n = minor m * num;
                q = n sdiv den;
                r = n smod den;
                q = (if 2 * \<bar>r\<bar> \<ge> \<bar>den\<bar> then (if n \<ge> 0 then q + 1 else q - 1) else q)
            in if in64 q then Inr \<lparr>minor = q\<rparr> else Inl ErrOverflow))"

definition Percent :: "money \<Rightarrow> int64 \<Rightarrow> money_err + money" where
  "Percent m basisPoints =
     (if basisPoints < 0 \<or> basisPoints > 10000 then Inl ErrBasisPointsRange
      else MulRatio m basisPoints 10000)"

section \<open>Printing\<close>

definition String :: "money \<Rightarrow> string" where
  "String m =
     (let neg = minor m < 0;
          abs = (if neg then wrap64 (- minor m) else minor m);
          whole = abs sdiv MinorUnit;
          frac = abs smod MinorUnit
      in (if neg then ''-'' else []) @ show_int whole @ ''.'' @ fmt02d frac)"

section \<open>Fees\<close>

definition ComputeWithdrawalFee :: "int64 \<Rightarrow> int64 \<Rightarrow> int64 \<Rightarrow> int64 \<Rightarrow> int64" where
  "ComputeWithdrawalFee amountMinor bps minMinor capMinor =
     (if amountMinor \<le> 0 \<or> bps \<le> 0 then 0
      else (let raw = wrap64 (wrap64 (amountMinor sdiv 10000 * bps) + wrap64 (amountMinor smod 10000 * bps) sdiv 10000);
                raw = (if raw > capMinor then capMinor else raw);
                raw = (if raw < minMinor then minMinor else raw)
            in if raw < 0 then 0 else raw))"

section \<open>Checked addition and subtraction\<close>

lemma Add_exact:
  assumes "in64 (minor a)" and "in64 (minor b)"
  shows "Add a b = (if in64 (minor a + minor b) then Inr \<lparr>minor = minor a + minor b\<rparr> else Inl ErrOverflow)"
proof (cases "minor a + minor b" rule: int64_cases)
  case ok
  then show ?thesis by (simp add: Add_def wrap64_id)
next
  case over
  then have "wrap64 (minor a + minor b) = minor a + minor b - 18446744073709551616"
    using assms by (intro wrap64_over) (auto simp: int64_bounds)
  then show ?thesis using over assms by (auto simp: Add_def int64_bounds)
next
  case under
  then have "wrap64 (minor a + minor b) = minor a + minor b + 18446744073709551616"
    using assms by (intro wrap64_under) (auto simp: int64_bounds)
  then show ?thesis using under assms by (auto simp: Add_def int64_bounds)
qed

lemma Sub_exact:
  assumes "in64 (minor a)" and "in64 (minor b)"
  shows "Sub a b = (if in64 (minor a - minor b) then Inr \<lparr>minor = minor a - minor b\<rparr> else Inl ErrOverflow)"
proof (cases "minor a - minor b" rule: int64_cases)
  case ok
  then show ?thesis by (simp add: Sub_def wrap64_id)
next
  case over
  then have "wrap64 (minor a - minor b) = minor a - minor b - 18446744073709551616"
    using assms by (intro wrap64_over) (auto simp: int64_bounds)
  then show ?thesis using over assms by (auto simp: Sub_def int64_bounds)
next
  case under
  then have "wrap64 (minor a - minor b) = minor a - minor b + 18446744073709551616"
    using assms by (intro wrap64_under) (auto simp: int64_bounds)
  then show ?thesis using under assms by (auto simp: Sub_def int64_bounds)
qed

section \<open>Ratios round to nearest\<close>

lemma sdiv_smod_bounds:
  fixes n d :: int
  assumes "0 < d"
  shows "n = n sdiv d * d + n smod d" and "\<bar>n smod d\<bar> < d"
    and "0 \<le> n \<Longrightarrow> 0 \<le> n smod d" and "n \<le> 0 \<Longrightarrow> n smod d \<le> 0"
proof -
  show "n = n sdiv d * d + n smod d" by (metis sdiv_mult_smod_eq)
  show "0 \<le> n \<Longrightarrow> 0 \<le> n smod d" and "n \<le> 0 \<Longrightarrow> n smod d \<le> 0"
    using assms by (auto intro: smod_int_compares)
  show "\<bar>n smod d\<bar> < d"
    using assms smod_int_compares [of n d] by (cases "0 \<le> n") auto
qed

definition round_quot :: "int \<Rightarrow> int \<Rightarrow> int" where
  "round_quot n d =
     (if 2 * \<bar>n smod d\<bar> \<ge> \<bar>d\<bar> then (if n \<ge> 0 then n sdiv d + 1 else n sdiv d - 1) else n sdiv d)"

lemma MulRatio_round_quot:
  "MulRatio m num den =
     (if den = 0 then Inl ErrDivideByZero
      else if num = 0 \<or> minor m = 0 then Inr \<lparr>minor = 0\<rparr>
      else if in64 (round_quot (minor m * num) den) then Inr \<lparr>minor = round_quot (minor m * num) den\<rparr>
      else Inl ErrOverflow)"
  by (simp add: MulRatio_def round_quot_def Let_def)

text \<open>The value computed before the range check is a nearest integer to \<open>n / d\<close>, and on a tie the one
  farther from zero.\<close>

lemma round_nearest:
  fixes n d :: int
  assumes d: "0 < d"
  shows "2 * \<bar>round_quot n d * d - n\<bar> \<le> d"
    and "2 * \<bar>round_quot n d * d - n\<bar> = d \<Longrightarrow> \<bar>n\<bar> < \<bar>round_quot n d * d\<bar>"
proof -
  define q0 r where "q0 = n sdiv d" and "r = n smod d"
  have n: "q0 * d = n - r" and r: "\<bar>r\<bar> < d" "0 \<le> n \<Longrightarrow> 0 \<le> r" "n \<le> 0 \<Longrightarrow> r \<le> 0"
    using sdiv_smod_bounds [OF d, of n] by (simp_all add: q0_def r_def)
  have "round_quot n d = (if 2 * \<bar>r\<bar> \<ge> d then (if n \<ge> 0 then q0 + 1 else q0 - 1) else q0)"
    using d by (simp add: round_quot_def q0_def r_def)
  then have prod: "round_quot n d * d
      = n + (if 2 * \<bar>r\<bar> \<ge> d then (if n \<ge> 0 then d - r else - d - r) else - r)"
    using n by (auto simp: algebra_simps)
  then show "2 * \<bar>round_quot n d * d - n\<bar> \<le> d" using r by auto
  assume "2 * \<bar>round_quot n d * d - n\<bar> = d"
  with prod show "\<bar>n\<bar> < \<bar>round_quot n d * d\<bar>" using r d by (auto split: if_splits)
qed

lemma round_quot_le:
  assumes "0 < d" and "n \<le> m * d" and "0 \<le> n"
  shows "0 \<le> round_quot n d" and "round_quot n d \<le> m"
proof -
  have near: "2 * \<bar>round_quot n d * d - n\<bar> \<le> d"
    and tie: "2 * \<bar>round_quot n d * d - n\<bar> = d \<Longrightarrow> \<bar>n\<bar> < \<bar>round_quot n d * d\<bar>"
    using round_nearest [OF assms(1)] by blast+
  show "0 \<le> round_quot n d"
  proof (rule ccontr)
    assume "\<not> 0 \<le> round_quot n d"
    then have "round_quot n d * d \<le> - 1 * d" using assms(1) by (intro mult_right_mono) auto
    with near assms show False by auto
  qed
  show "round_quot n d \<le> m"
  proof (rule ccontr)
    assume "\<not> round_quot n d \<le> m"
    then have "(m + 1) * d \<le> round_quot n d * d" using assms(1) by (intro mult_right_mono) auto
    with near assms show False by (auto simp: algebra_simps)
  qed
qed

section \<open>Printing and parsing\<close>

lemma fmt02d_two:
  assumes "0 \<le> f" and "f < 100"
  shows "fmt02d f = [digit_char (nat f div 10), digit_char (nat f mod 10)]"
proof (cases "nat f < 10")
  case True
  then show ?thesis using assms
    by (simp add: fmt02d_def pad0_def show_nat.simps [of "nat f"])
next
  case False
  then have "nat f div 10 < 10" using assms by auto
  then show ?thesis using assms False
    by (simp add: fmt02d_def pad0_def show_nat.simps [of "nat f"] show_nat.simps [of "nat f div 10"])
qed

lemma String_nonneg:
  assumes "0 \<le> m"
  shows "String \<lparr>minor = m\<rparr>
    = show_nat (nat (m div 100)) @ CHR ''.'' # [digit_char (nat (m mod 100) div 10), digit_char (nat (m mod 100) mod 10)]"
  using assms by (simp add: String_def Let_def MinorUnit_def sdiv_nonneg smod_nonneg fmt02d_two show_int_def)

lemma digit_not_special: "is_digit c \<Longrightarrow> \<not> is_space c \<and> c \<noteq> CHR ''.'' \<and> c \<noteq> CHR ''-''"
  by (auto simp: is_digit_def is_space_def)

lemma dec_val_two:
  assumes "a < 10" and "b < 10"
  shows "dec_val (s @ [digit_char a, digit_char b]) = dec_val s * 100 + a * 10 + b"
proof -
  have "dec_val ((s @ [digit_char a]) @ [digit_char b]) = dec_val s * 100 + a * 10 + b"
    unfolding dec_val_snoc using assms by simp
  then show ?thesis by simp
qed

text \<open>The parser after trimming: a leading minus never yields an amount, otherwise the parts are parsed.\<close>

definition parse_parts :: "string list \<Rightarrow> money_err + money" where
  "parse_parts parts =
     (let frac = (if length parts = 2 then parts ! 1 else []);
          whole = (if hd parts = [] then ''0'' else hd parts)
      in if 18 < length frac then Inl ErrTooManyFractionalDigits
         else (case ParseInt (whole @ pad_frac frac) of
                 Inl ErrRange \<Rightarrow> Inl ErrOverflow
               | Inl ErrSyntax \<Rightarrow> Inl ErrInvalidAmountString
               | Inr m \<Rightarrow> Inr \<lparr>minor = m\<rparr>))"

lemma FromMajorUnits_parts:
  assumes "TrimSpace s = t" and "t \<noteq> []" and "hd t \<noteq> CHR ''-''"
  shows "FromMajorUnits s = parse_parts (split_on (CHR ''.'') t)"
  using assms by (cases t) (simp_all add: FromMajorUnits_def parse_parts_def Let_def del: split_on.simps split: sum.split num_err.split)

lemma FromMajorUnits_minus:
  assumes "TrimSpace s = CHR ''-'' # cs"
  shows "FromMajorUnits s \<noteq> Inr v"
  by (simp add: FromMajorUnits_def assms Let_def split: sum.splits num_err.splits)

lemma FromMajorUnits_digits:
  assumes w: "w \<noteq> []" "\<forall>c\<in>set w. is_digit c" and ab: "a < 10" "b < 10"
    and bound: "dec_val w * 100 + a * 10 + b \<le> 9223372036854775807"
  shows "FromMajorUnits (w @ CHR ''.'' # [digit_char a, digit_char b])
    = Inr \<lparr>minor = int (dec_val w * 100 + a * 10 + b)\<rparr>"
proof -
  let ?f = "[digit_char a, digit_char b]"
  let ?s = "w @ CHR ''.'' # ?f"
  have w': "\<forall>c\<in>set w. \<not> is_space c \<and> c \<noteq> CHR ''.'' \<and> c \<noteq> CHR ''-''"
    using w(2) digit_not_special by blast
  have f': "\<forall>c\<in>set ?f. is_digit c" by simp
  then have f'': "\<forall>c\<in>set ?f. \<not> is_space c \<and> c \<noteq> CHR ''.''"
    using digit_not_special by blast
  have trim: "TrimSpace ?s = ?s"
    by (rule TrimSpace_id) (use w' f'' in \<open>auto simp: is_space_def\<close>)
  have split: "split_on (CHR ''.'') ?s = [w, ?f]"
    using w' f'' by (subst split_on_append) (auto simp: split_on_none)
  have hd: "?s \<noteq> []" "hd ?s \<noteq> CHR ''-''" using w(1) w' by (cases w; simp)+
  have parse: "ParseInt (w @ ?f) = Inr (int (dec_val w * 100 + a * 10 + b))"
    using w f' bound by (subst ParseInt_digits) (auto simp: dec_val_two [OF ab])
  show ?thesis
    using w(1) by (simp only: FromMajorUnits_parts [OF trim hd] split) (simp add: parse_parts_def parse)
qed

lemmas parse_eval = FromMajorUnits_def TrimSpace_def is_space_def ParseInt_def parse_signed_def
  ParseUint_def is_digit_def digit_val_def

section \<open>The properties of money and fees\<close>

text \<open>C6. Parsing inverts printing: for every non-negative representable amount the decimal string that
  \<open>Money.String\<close> prints is accepted by \<open>FromMajorUnits\<close> and yields the same amount.\<close>

theorem money_roundtrip:
  assumes "0 \<le> m" and "m \<le> max_int64"
  shows "FromMajorUnits (String (FromMinorUnits m)) = Inr (FromMinorUnits m)"
proof -
  have m: "int (nat (m div 100) * 100 + nat (m mod 100) div 10 * 10 + nat (m mod 100) mod 10) = m"
    using assms by (simp add: zdiv_int zmod_int) presburger
  then have "nat (m div 100) * 100 + nat (m mod 100) div 10 * 10 + nat (m mod 100) mod 10 \<le> 9223372036854775807"
    using assms by (simp only: max_int64_def)
  moreover have "nat (m mod 100) div 10 < 10" by (simp add: less_mult_imp_div_less nat_less_iff)
  ultimately show ?thesis
    unfolding FromMinorUnits_def String_nonneg [OF assms(1)]
    by (subst FromMajorUnits_digits) (use show_nat_digits m in auto)
qed

theorem money_roundtrip_witness:
  "0 \<le> (125000050::int) \<and> (125000050::int) \<le> max_int64
   \<and> FromMajorUnits (String (FromMinorUnits 125000050)) = Inr (FromMinorUnits 125000050)"
  using money_roundtrip [of 125000050]
  by (simp add: max_int64_def)

text \<open>An amount the parser accepts is never negative and always fits 64 bits, whatever the input
  string (a sign, several dots, surrounding blanks).\<close>

lemma FromMajorUnits_nonneg:
  assumes "FromMajorUnits s = Inr v"
  shows "0 \<le> minor v \<and> minor v \<le> max_int64"
proof -
  have ne: "TrimSpace s \<noteq> []"
    using assms by (auto simp: FromMajorUnits_def)
  have hd: "hd (TrimSpace s) \<noteq> CHR ''-''"
    using assms ne FromMajorUnits_minus by (cases "TrimSpace s") auto
  define parts where "parts = split_on (CHR ''.'') (TrimSpace s)"
  define w where "w = (if hd parts = [] then ''0'' else hd parts)"
  have "parse_parts parts = Inr v"
    using assms FromMajorUnits_parts [OF refl ne hd] by (simp add: parts_def)
  then obtain f where parse: "ParseInt (w @ f) = Inr (minor v)"
    by (auto simp: parse_parts_def w_def Let_def split: if_splits sum.splits num_err.splits)
  have "hd w \<noteq> CHR ''-'' \<and> w \<noteq> []"
    using ne hd by (cases "TrimSpace s") (auto simp: w_def parts_def split: list.splits)
  then show ?thesis using ParseInt_nonneg [OF parse] by auto
qed

text \<open>\<open>Add\<close> and \<open>Sub\<close> on 64-bit amounts are exact when the mathematical result fits 64 bits and
  report \<open>ErrOverflow\<close> exactly when it does not: the comparison of the wrapped result with an operand
  detects every overflow and nothing else.\<close>

lemma Add_Sub_exact:
  assumes "in64 (minor a)" and "in64 (minor b)"
  shows "Add a b = (if in64 (minor a + minor b) then Inr \<lparr>minor = minor a + minor b\<rparr> else Inl ErrOverflow)
    \<and> Sub a b = (if in64 (minor a - minor b) then Inr \<lparr>minor = minor a - minor b\<rparr> else Inl ErrOverflow)"
  using Add_exact [OF assms] Sub_exact [OF assms] by simp_all

text \<open>\<open>MulRatio\<close> by a positive denominator never wraps: it returns an integer nearest to
  \<open>minor * num / den\<close>, the one farther from zero on a tie, or \<open>ErrOverflow\<close> when that integer does not
  fit 64 bits; it has no other outcome.\<close>

lemma MulRatio_nearest:
  assumes "0 < den"
  shows "case MulRatio m num den of
           Inr r \<Rightarrow> 2 * \<bar>minor r * den - minor m * num\<bar> \<le> den
                  \<and> (2 * \<bar>minor r * den - minor m * num\<bar> = den \<longrightarrow> \<bar>minor m * num\<bar> < \<bar>minor r * den\<bar>)
                  \<and> in64 (minor r)
         | Inl e \<Rightarrow> e = ErrOverflow \<and> (\<exists>q. \<not> in64 q \<and> 2 * \<bar>q * den - minor m * num\<bar> \<le> den)"
  using round_nearest [OF assms, of "minor m * num"] assms
  by (auto simp: MulRatio_round_quot int64_bounds)

lemma Percent_between:
  assumes "0 \<le> minor m" and "in64 (minor m)"
  shows "if bp < 0 \<or> 10000 < bp then Percent m bp = Inl ErrBasisPointsRange
         else \<exists>r. Percent m bp = Inr r \<and> 0 \<le> minor r \<and> minor r \<le> minor m"
proof (cases "bp < 0 \<or> 10000 < bp")
  case False
  then have "minor m * bp \<le> minor m * 10000" and "0 \<le> minor m * bp"
    using assms by (auto intro: mult_left_mono)
  then have "0 \<le> round_quot (minor m * bp) 10000" and "round_quot (minor m * bp) 10000 \<le> minor m"
    by (auto intro: round_quot_le)
  with assms False show ?thesis by (auto simp: Percent_def MulRatio_round_quot int64_bounds)
qed (simp add: Percent_def)

lemma fee_split:
  assumes "0 < a" and "in64 a" and "0 < bps" and "bps \<le> 10000"
  shows "wrap64 (wrap64 (a sdiv 10000 * bps) + wrap64 (a smod 10000 * bps) sdiv 10000) = a * bps div 10000"
proof -
  have d: "a sdiv 10000 = a div 10000" and m: "a smod 10000 = a mod 10000"
    using assms by (simp_all add: sdiv_nonneg smod_nonneg)
  have m0: "0 \<le> a mod 10000 * bps" using assms by simp
  have "a mod 10000 * bps \<le> 9999 * 10000" using assms by (intro mult_mono) auto
  then have m1: "wrap64 (a mod 10000 * bps) = a mod 10000 * bps"
    using m0 by (intro wrap64_id) (simp add: int64_bounds)
  have d0: "0 \<le> a div 10000 * bps" using assms by simp
  have "a div 10000 * bps \<le> a div 10000 * 10000" using assms by (intro mult_left_mono) auto
  also have "\<dots> \<le> a" by simp
  finally have d1: "a div 10000 * bps \<le> a" .
  then have d2: "wrap64 (a div 10000 * bps) = a div 10000 * bps"
    using d0 assms unfolding int64_bounds by (intro wrap64_id) (unfold int64_bounds, linarith)
  have "a * bps = a div 10000 * bps * 10000 + a mod 10000 * bps"
    by (subst div_mult_mod_eq [of a 10000, symmetric]) (simp only: algebra_simps)
  then have eq: "a * bps div 10000 = a div 10000 * bps + a mod 10000 * bps div 10000" by simp
  have "a * bps div 10000 \<le> a * 10000 div 10000"
    using assms by (intro zdiv_mono1 mult_left_mono) auto
  then have "wrap64 (a * bps div 10000) = a * bps div 10000"
    using assms by (intro wrap64_id) (auto simp: int64_bounds intro: order_trans [OF _ pos_imp_zdiv_nonneg_iff [THEN iffD2]])
  then show ?thesis using d m d2 m1 m0 by (simp add: eq sdiv_nonneg)
qed

text \<open>C7. For basis points in (0, 10000] the overflow-avoiding evaluation order of the withdrawal fee
  computes exactly \<open>max (min (amount * bps div 10000) cap) min\<close> (floored at zero) on every positive
  64-bit amount, and it is zero when the amount or the rate is not positive.\<close>

theorem fee_formula:
  assumes "in64 a" and "bps \<le> 10000"
  shows "ComputeWithdrawalFee a bps lo cap =
    (if 0 < a \<and> 0 < bps then max 0 (max lo (min cap (a * bps div 10000))) else 0)"
  using assms by (auto simp: ComputeWithdrawalFee_def Let_def fee_split)

theorem fee_formula_witness:
  "in64 max_int64 \<and> (50::int) \<le> 10000
   \<and> ComputeWithdrawalFee max_int64 50 100 200000 = 200000 \<and> ComputeWithdrawalFee 1000000 50 100 200000 = 5000"
  using fee_formula [of max_int64 50 100 200000] fee_formula [of 1000000 50 100 200000]
  by (simp add: int64_bounds)

end
