(* ===== verification/Errors.thy ===== *)
theory Errors
  imports Money
begin

text \<open>
  The domain errors of \<open>src/backend/internal/domain/errors.go\<close> and their translation at the HTTP
  boundary (\<open>ErrorCode\<close> of the same file, \<open>errorStatus\<close> and \<open>safeMessage\<close> of
  \<open>src/backend/internal/httpapi/respond.go\<close>). Next to the sentinel errors of the package stand the
  errors of the database driver the code distinguishes (no rows, unique violation, any other), money
  errors, errors made on the spot (\<open>ErrOpaque\<close>), run-time panics (\<open>ErrPanic\<close>, which code that inspects
  errors must let through) and errors wrapped with \<open>%w\<close> (\<open>Wrap\<close>), through which
  \<open>errors.Is\<close> sees.
\<close>

datatype err =
    ErrNotFound | ErrConflict | ErrUnauthenticated | ErrDuplicateEmail | ErrInvalidCredentials
| ErrInvalidToken | ErrUserLocked | ErrInsufficientBalance | ErrInvalidAmount | ErrInvalidEmail
| ErrBadRequest | ErrIdempotentReplay | ErrAccountNotFound | ErrUnsupportedCurrency
| ErrRateNotFound | ErrRateExpired | ErrRateExceeded | ErrInvalidAddress | ErrInvalidPin
| ErrInvalidCode | ErrLimitExceeded | ErrFeatureDisabled | ErrTooManyAttempts
| ErrTwoFactorRequired | ErrTwoFactorInvalid | ErrOTPCooldown | ErrOTPExpired | ErrOTPNotFound
| ErrWithdrawSignatureRequired | ErrInvalidSignature | ErrSignatureExpired
| ErrWithdrawRequiresCustody | ErrCustodyAlreadyClaimed | ErrInvalidOperation | ErrInvalidSalt
| ErrNoLinkedWallet | ErrSaltImmutable | ErrNoRows | ErrUniqueViolation | ErrDB | ErrScan
| ErrMoney money_err | ErrOpaque string | ErrPanic string | Wrap string err

fun root :: "err \<Rightarrow> err" where
  "root (Wrap s e) = root e"
| "root e = e"

text \<open>\<open>errors.Is(err, target)\<close> for a sentinel target.\<close>

definition errIs :: "err \<Rightarrow> err \<Rightarrow> bool" where
  "errIs err target \<longleftrightarrow> root err = target"

lemma errIs_Wrap [simp]: "errIs (Wrap s e) t = errIs e t"
  by (simp add: errIs_def)

definition ErrorCode :: "err \<Rightarrow> string" where
  "ErrorCode err =
     (if errIs err ErrNotFound \<or> errIs err ErrAccountNotFound \<or> errIs err ErrRateNotFound then ''NOT_FOUND''
      else if errIs err ErrConflict \<or> errIs err ErrIdempotentReplay \<or> errIs err ErrRateExpired \<or> errIs err ErrCustodyAlreadyClaimed then ''CONFLICT''
      else if errIs err ErrUnauthenticated \<or> errIs err ErrInvalidToken then ''UNAUTHENTICATED''
      else if errIs err ErrDuplicateEmail then ''EMAIL_ALREADY_REGISTERED''
      else if errIs err ErrInvalidCredentials then ''INVALID_CREDENTIALS''
      else if errIs err ErrUserLocked then ''ACCOUNT_LOCKED''
      else if errIs err ErrInsufficientBalance then ''INSUFFICIENT_BALANCE''
      else if errIs err ErrInvalidAmount \<or> errIs err ErrBadRequest \<or> errIs err ErrUnsupportedCurrency \<or> errIs err ErrRateExceeded \<or> errIs err ErrInvalidAddress \<or> errIs err ErrInvalidSalt \<or> errIs err ErrInvalidEmail then ''INVALID_REQUEST''
      else if errIs err ErrInvalidPin then ''INVALID_PIN''
      else if errIs err ErrInvalidCode \<or> errIs err ErrOTPExpired \<or> errIs err ErrOTPNotFound then ''INVALID_CODE''
      else if errIs err ErrInvalidSignature then ''INVALID_SIGNATURE''
      else if errIs err ErrNoLinkedWallet then ''WALLET_LINK_REQUIRED''
      else if errIs err ErrSaltImmutable then ''SALT_IMMUTABLE''
      else if errIs err ErrInvalidOperation then ''INVALID_OPERATION''
      else if errIs err ErrSignatureExpired then ''SIGNATURE_EXPIRED''
      else if errIs err ErrWithdrawSignatureRequired \<or> errIs err ErrWithdrawRequiresCustody then ''SIGNATURE_REQUIRED''
      else if errIs err ErrLimitExceeded then ''LIMIT_EXCEEDED''
      else if errIs err ErrFeatureDisabled then ''FEATURE_DISABLED''
      else if errIs err ErrTooManyAttempts \<or> errIs err ErrOTPCooldown then ''TOO_MANY_REQUESTS''
      else if errIs err ErrTwoFactorRequired then ''TWO_FACTOR_REQUIRED''
      else if errIs err ErrTwoFactorInvalid then ''TWO_FACTOR_INVALID''
      else ''INTERNAL_ERROR'')"

definition safeMessage :: "err \<Rightarrow> string" where
  "safeMessage err =
     (if errIs err ErrInvalidCredentials then ''Invalid email or password.''
      else if errIs err ErrInvalidToken then ''Your session is invalid or has expired.''
      else if errIs err ErrUnauthenticated then ''You must be authenticated to perform this action.''
      else if errIs err ErrUserLocked then ''Your account is locked. Contact support.''
      else if errIs err ErrNotFound \<or> errIs err ErrAccountNotFound \<or> errIs err ErrRateNotFound then ''The requested resource was not found.''
      else if errIs err ErrDuplicateEmail then ''An account with this email already exists.''
      else if errIs err ErrInsufficientBalance then ''You do not have enough available funds.''
      else if errIs err ErrRateExpired then ''The exchange rate has expired. Please request a new quote.''
      else if errIs err ErrRateExceeded then ''The amount is outside the allowed range for this exchange rate.''
      else if errIs err ErrUnsupportedCurrency then ''The currency is not supported.''
      else if errIs err ErrIdempotentReplay then ''This request was already processed.''
      else if errIs err ErrConflict then ''The request conflicts with existing data.''
      else if errIs err ErrInvalidAmount then ''The amount provided is invalid.''
      else if errIs err ErrInvalidEmail then ''Please enter a valid email address.''
      else if errIs err ErrInvalidAddress then ''A valid Ethereum deposit address is required.''
      else if errIs err ErrInvalidPin then ''Invalid PIN. Please try again.''
      else if errIs err ErrInvalidCode \<or> errIs err ErrOTPExpired \<or> errIs err ErrOTPNotFound then ''The verification code is invalid or has expired.''
      else if errIs err ErrOTPCooldown then ''Please wait a moment before requesting another code.''
      else if errIs err ErrLimitExceeded then ''This transaction exceeds an account limit. Please try again later.''
      else if errIs err ErrFeatureDisabled then ''This feature is currently disabled.''
      else if errIs err ErrTooManyAttempts then ''Too many attempts. Please wait and try again.''
      else if errIs err ErrTwoFactorInvalid then ''The two-factor challenge has expired. Please sign in again.''
      else if errIs err ErrBadRequest then ''The request could not be processed.''
      else ''Something went wrong. Please try again.'')"

definition errorStatus :: "err \<Rightarrow> nat" where
  "errorStatus err =
     (if errIs err ErrInvalidCredentials \<or> errIs err ErrUnauthenticated \<or> errIs err ErrInvalidToken then 401
      else if errIs err ErrUserLocked then 403
      else if errIs err ErrNotFound \<or> errIs err ErrAccountNotFound \<or> errIs err ErrRateNotFound then 404
      else if errIs err ErrConflict \<or> errIs err ErrDuplicateEmail \<or> errIs err ErrIdempotentReplay \<or> errIs err ErrRateExpired then 409
      else if errIs err ErrInvalidAmount \<or> errIs err ErrInsufficientBalance \<or> errIs err ErrBadRequest \<or> errIs err ErrUnsupportedCurrency \<or> errIs err ErrRateExceeded \<or> errIs err ErrInvalidAddress \<or> errIs err ErrInvalidPin \<or> errIs err ErrInvalidCode \<or> errIs err ErrOTPExpired \<or> errIs err ErrOTPNotFound \<or> errIs err ErrInvalidEmail then 400
      else if errIs err ErrLimitExceeded \<or> errIs err ErrFeatureDisabled then 403
      else if errIs err ErrTooManyAttempts \<or> errIs err ErrOTPCooldown then 429
      else if errIs err ErrTwoFactorRequired then 200
      else 500)"

section \<open>What the boundary shows\<close>

text \<open>All three depend on the innermost error only.\<close>

lemma boundary_root:
  "ErrorCode (root e) = ErrorCode e" "errorStatus (root e) = errorStatus e" "safeMessage (root e) = safeMessage e"
proof -
  have "root (root e) = root e" by (induction e) simp_all
  then show "ErrorCode (root e) = ErrorCode e" "errorStatus (root e) = errorStatus e" "safeMessage (root e) = safeMessage e"
    by (simp_all add: ErrorCode_def errorStatus_def safeMessage_def errIs_def)
qed

lemma root_not_Wrap: "root e \<noteq> Wrap s e'"
  by (induction e) simp_all

text \<open>The domain errors that have a code of their own but no status of their own.\<close>

definition uncovered :: "err list" where
  "uncovered = [ErrTwoFactorInvalid, ErrWithdrawSignatureRequired, ErrInvalidSignature, ErrSignatureExpired,
     ErrWithdrawRequiresCustody, ErrCustodyAlreadyClaimed, ErrInvalidOperation, ErrInvalidSalt,
     ErrNoLinkedWallet, ErrSaltImmutable]"

text \<open>What a client can learn from an error response: an error without an API code (driver errors, opaque
  and money errors) is answered with status 500 and the generic message, never with its own text; and the
  errors answered with status 500 are exactly those together with ten domain errors that do have a code,
  among them the signature errors of a withdrawal.\<close>

lemma boundary_no_leak:
  "(ErrorCode e = ''INTERNAL_ERROR'' \<longrightarrow>
      errorStatus e = 500 \<and> safeMessage e = ''Something went wrong. Please try again.'')
   \<and> (errorStatus e = 500 \<longleftrightarrow> ErrorCode e = ''INTERNAL_ERROR'' \<or> root e \<in> set uncovered)"
proof -
  have "(ErrorCode (root e) = ''INTERNAL_ERROR'' \<longrightarrow>
      errorStatus (root e) = 500 \<and> safeMessage (root e) = ''Something went wrong. Please try again.'')
   \<and> (errorStatus (root e) = 500 \<longleftrightarrow> ErrorCode (root e) = ''INTERNAL_ERROR'' \<or> root e \<in> set uncovered)"
    by (cases "root e")
      (simp_all add: root_not_Wrap ErrorCode_def errorStatus_def safeMessage_def errIs_def uncovered_def)
  then show ?thesis by (simp add: boundary_root)
qed

end
