(* ===== verification/Domain.thy ===== *)
theory Domain
  imports Errors
begin

text \<open>
  The data model: the structs of \<open>src/backend/internal/domain\<close> as records (a field carries its struct's
  prefix, because record fields share one name space) and the database of
  \<open>src/backend/internal/storage/postgres/migrations\<close> as a record of tables. A table is the list of its
  rows in insertion order; columns that no struct shows (the notification preferences of a user, the
  recovery cache of a clone) are fields of an extended row record. Identifiers are the canonical text of
  a UUID. Times are nanoseconds since the epoch.
\<close>

type_synonym time = int

definition second :: int where "second = 1000000000"
definition minute :: int where "minute = 60 * second"
definition hour :: int where "hour = 60 * minute"

datatype jval = JStr string | JInt int | JBool bool

type_synonym metadata = "string \<rightharpoonup> jval"

section \<open>Accounts and the ledger\<close>

type_synonym AccountKind = string
definition AccountKindAvailable :: AccountKind where "AccountKindAvailable = ''available''"
definition AccountKindSavings :: AccountKind where "AccountKindSavings = ''savings''"
definition AccountKindPlatformFees :: AccountKind where "AccountKindPlatformFees = ''platform_fees''"

definition PlatformUserID :: string where
  "PlatformUserID = ''00000000-0000-0000-0000-000000000001''"

record Account =
  acc_ID :: string
  acc_UserID :: string
  acc_Kind :: AccountKind
  acc_Currency :: string
  acc_CreatedAt :: time

record BalanceSnapshot =
  bs_AccountID :: string
  bs_Kind :: AccountKind
  bs_Currency :: string
  bs_Amount :: int64

type_synonym TransactionType = string
definition TransactionTypeDeposit :: TransactionType where "TransactionTypeDeposit = ''deposit''"
definition TransactionTypeWithdrawal :: TransactionType where "TransactionTypeWithdrawal = ''withdrawal''"
definition TransactionTypeConversion :: TransactionType where "TransactionTypeConversion = ''conversion''"
definition TransactionTypeTransfer :: TransactionType where "TransactionTypeTransfer = ''transfer''"

datatype TransactionStatus =
  StatusCreated | StatusPendingAuthentication | StatusAuthorized | StatusProcessing | StatusSubmitted
| StatusConfirmed | StatusCompleted | StatusFailed | StatusCancelled | StatusReversed | StatusExpired

datatype LedgerMovement = MovementCredit | MovementDebit

record Transaction =
  txn_ID :: string
  txn_UserID :: string
  txn_Type :: TransactionType
  txn_Status :: TransactionStatus
  txn_Currency :: string
  txn_AmountMinor :: int64
  txn_FeeMinor :: int64
  txn_ExchangeRate :: string
  txn_Reference :: string
  txn_ProviderRef :: string
  txn_IdempotencyKey :: string
  txn_Metadata :: metadata
  txn_CreatedAt :: time
  txn_UpdatedAt :: time

record LedgerEntry =
  le_ID :: string
  le_TransactionID :: string
  le_AccountID :: string
  le_UserID :: string
  le_Movement :: LedgerMovement
  le_Currency :: string
  le_AmountMinor :: int64
  le_CreatedAt :: time

section \<open>Users and sessions\<close>

datatype UserStatus = UserStatusPending | UserStatusActive | UserStatusSuspended | UserStatusLocked | UserStatusSystem

record User =
  u_ID :: string
  u_Email :: string
  u_Phone :: string
  u_FirstName :: string
  u_LastName :: string
  u_PasswordHash :: string
  u_PINHash :: string
  u_TOTPSecret :: string
  u_TOTPEnabled :: bool
  u_Status :: UserStatus
  u_CreatedAt :: time
  u_UpdatedAt :: time
  u_EmailVerifiedAt :: "time option"

record user_row = User +
  notify_new_signin :: bool
  notify_failed_login :: bool

record Session =
  s_ID :: string
  s_UserID :: string
  s_TokenHash :: string
  s_Device :: string
  s_IP :: string
  s_ExpiresAt :: time
  s_RevokedAt :: "time option"
  s_CreatedAt :: time
  s_LastActiveAt :: time

record EmailOTP =
  otp_Email :: string
  otp_CodeHash :: string
  otp_ExpiresAt :: time
  otp_NextSendAt :: "time option"
  otp_Attempts :: int
  otp_FirstName :: string
  otp_LastName :: string
  otp_Phone :: string
  otp_PasswordHash :: string
  otp_CreatedAt :: time
  otp_UpdatedAt :: time

section \<open>Payees, payout accounts and rates\<close>

record Beneficiary =
  ben_ID :: string
  ben_UserID :: string
  ben_Name :: string
  ben_Address :: string
  ben_AccountNumber :: string
  ben_IsFavorite :: bool
  ben_CreatedAt :: time

record BankAccount =
  ba_ID :: string
  ba_UserID :: string
  ba_BankName :: string
  ba_BankCode :: string
  ba_AccountNumber :: string
  ba_AccountName :: string
  ba_IsDefault :: bool
  ba_CreatedAt :: time

record ExchangeRate =
  er_ID :: string
  er_Base :: string
  er_Quote :: string
  er_Rate :: int64
  er_FeeBPS :: int
  er_MinMinor :: int64
  er_MaxMinor :: int64
  er_Status :: string
  er_CreatedAt :: time
  er_UpdatedAt :: time

section \<open>Savings addresses and privacy salts\<close>

record DepositAddress =
  da_UserID :: string
  da_Address :: string
  da_CreatedAt :: time
  da_UpdatedAt :: time

record UserSaltLink =
  sl_UserID :: string
  sl_Address :: string
  sl_Salt :: "8 word list"
  sl_Derivation :: string
  sl_SourceAddress :: string

record salt_row =
  salt_UserID :: string
  salt_Salt :: "8 word list"
  salt_Derivation :: string
  salt_SourceAddress :: string

section \<open>Security feed and inbox\<close>

type_synonym SecurityEventType = string

datatype EventSeverity = SeverityUnset | SeverityInfo | SeverityWarn | SeverityCritical

record SecurityEvent =
  se_ID :: string
  se_UserID :: string
  se_Type :: SecurityEventType
  se_Severity :: EventSeverity
  se_Title :: string
  se_Detail :: string
  se_IP :: string
  se_UserAgent :: string
  se_DeviceID :: string
  se_Device :: string
  se_Metadata :: metadata
  se_CreatedAt :: time

type_synonym NotificationCategory = string

record Notification =
  nt_ID :: string
  nt_UserID :: string
  nt_Category :: NotificationCategory
  nt_Title :: string
  nt_Body :: string
  nt_IsRead :: bool
  nt_CreatedAt :: time

section \<open>Vault clones, elevations and the indexer's log\<close>

record VaultClone =
  vc_UserID :: string
  vc_CloneAddress :: string
  vc_FactoryAddress :: string
  vc_DeployTxHash :: string
  vc_ChainID :: int
  vc_CreatedAt :: time

record CloneRecovery =
  cr_Owner :: string
  cr_RecoveryAddress :: string
  cr_RecoveryDelay :: int
  cr_RecoveryRequestedAt :: int

record clone_row = VaultClone +
  clone_recovery :: CloneRecovery

record WithdrawSignature =
  ws_Signature :: string
  ws_Deadline :: int
  ws_RelayNonce :: nat
  ws_RelayAmountBase :: int64

fun HasSignature :: "WithdrawSignature option \<Rightarrow> bool" where
  "HasSignature None = False"
| "HasSignature (Some s) = (ws_Signature s \<noteq> [])"

datatype ElevationStatus =
  ElevationPending | ElevationBroadcasting | ElevationBroadcast | ElevationCancelled | ElevationExpired

record WithdrawalElevation =
  we_ID :: string
  we_UserID :: string
  we_Destination :: string
  we_AmountNgnMinor :: int64
  we_FeeMinor :: int64
  we_Status :: ElevationStatus
  we_RequestedAt :: time
  we_ReleaseAfter :: time
  we_BroadcastTxHash :: string
  we_BroadcastAt :: "time option"
  we_IdempotencyKey :: string
  we_Signature :: string
  we_Deadline :: int
  we_SignedNonce :: nat
  we_SignedAmountBase :: int64
  we_ExpiredReason :: string

definition HasSignedIntent :: "WithdrawalElevation \<Rightarrow> bool" where
  "HasSignedIntent e \<longleftrightarrow> we_Signature e \<noteq> []"

datatype IndexerEventType = IndexerEventDeposited | IndexerEventUnattributed

record IndexerEvent =
  ie_TxHash :: string
  ie_LogIndex :: nat
  ie_BlockNumber :: nat
  ie_EventType :: IndexerEventType
  ie_From :: string
  ie_To :: string
  ie_ValueBase :: int64

section \<open>Waiting list\<close>

record WaitlistSignup =
  wl_Email :: string
  wl_Source :: string
  wl_IPHash :: string
  wl_UserAgent :: string

section \<open>The database\<close>

record db =
  users :: "user_row list"
  sessions :: "Session list"
  accounts :: "Account list"
  transactions :: "Transaction list"
  ledger_entries :: "LedgerEntry list"
  balances :: "string \<rightharpoonup> int64"
  beneficiaries :: "Beneficiary list"
  bank_accounts :: "BankAccount list"
  exchange_rates :: "ExchangeRate list"
  deposit_addresses :: "DepositAddress list"
  user_salts :: "salt_row list"
  security_events :: "SecurityEvent list"
  notifications :: "Notification list"
  indexer_state :: "nat option"
  indexer_events :: "IndexerEvent list"
  withdrawal_elevations :: "WithdrawalElevation list"
  user_vault_clones :: "clone_row list"
  email_otps :: "EmailOTP list"
  waitlist :: "WaitlistSignup list"

definition empty_db :: db where
  "empty_db = \<lparr>users = [], sessions = [], accounts = [], transactions = [], ledger_entries = [],
     balances = Map.empty, beneficiaries = [], bank_accounts = [], exchange_rates = [],
     deposit_addresses = [], user_salts = [], security_events = [], notifications = [],
     indexer_state = None, indexer_events = [], withdrawal_elevations = [], user_vault_clones = [],
     email_otps = [], waitlist = []\<rparr>"

end
