(* ===== verification/World.thy ===== *)
theory World
  imports Domain
begin

text \<open>
  Fallible stateful computations and the world they run in. A Go function
  \<open>func (...) (T, error)\<close> that touches the database is a computation from a world to an error or a value
  together with the world it leaves; \<open>bnd\<close> is the idiom \<open>if err != nil { return err }\<close>, \<open>attempt\<close>
  hands the error to code that inspects it, and \<open>ignore\<close> is \<open>_ = f()\<close>.

  A world has the database, the state of the current transaction, the clock, the supply of
  \<open>gen_random_uuid()\<close> and of \<open>newRandRef\<close>, the log of published hub events and sent mails, and a list of
  faults: every SQL statement, \<open>BEGIN\<close> and \<open>COMMIT\<close> takes one element and fails when it is true, so a
  theorem for every list covers every pattern of database failures. A service with in-memory state of its
  own extends the record. As in PostgreSQL a failed statement changes nothing and aborts the enclosing
  transaction, whose later statements and commit then fail; an empty result and a value that cannot be
  scanned do not abort it. A failed commit is a rolled back one.
\<close>

section \<open>Computations\<close>

type_synonym ('w, 'a) go = "'w \<Rightarrow> (err + 'a) \<times> 'w"

definition ret :: "'a \<Rightarrow> ('w, 'a) go" where "ret v w = (Inr v, w)"
definition fail :: "err \<Rightarrow> ('w, 'a) go" where "fail e w = (Inl e, w)"

definition bnd :: "('w, 'a) go \<Rightarrow> ('a \<Rightarrow> ('w, 'b) go) \<Rightarrow> ('w, 'b) go" where
  "bnd m f w = (case m w of (Inl e, w1) \<Rightarrow> (Inl e, w1) | (Inr v, w1) \<Rightarrow> f v w1)"

definition attempt :: "('w, 'a) go \<Rightarrow> ('w, err + 'a) go" where
  "attempt m w = (case m w of (r, w1) \<Rightarrow> (Inr r, w1))"

definition ignore :: "('w, 'a) go \<Rightarrow> ('w, unit) go" where
  "ignore m w = (case m w of (r, w1) \<Rightarrow> (Inr (), w1))"

definition lift :: "err + 'a \<Rightarrow> ('w, 'a) go" where "lift r w = (r, w)"

definition on_err :: "(err \<Rightarrow> err) \<Rightarrow> ('w, 'a) go \<Rightarrow> ('w, 'a) go" where
  "on_err g m w = (case m w of (Inl e, w1) \<Rightarrow> (Inl (g e), w1) | (Inr v, w1) \<Rightarrow> (Inr v, w1))"

definition gets :: "('w \<Rightarrow> 'a) \<Rightarrow> ('w, 'a) go" where "gets f w = (Inr (f w), w)"
definition modify :: "('w \<Rightarrow> 'w) \<Rightarrow> ('w, unit) go" where "modify f w = (Inr (), f w)"

text \<open>\<open>if b { return e }\<close>\<close>

definition reject :: "bool \<Rightarrow> err \<Rightarrow> ('w, unit) go" where
  "reject b e = (if b then fail e else ret ())"

text \<open>\<open>for _, x := range xs { ... }\<close>, left at the first error, and with its results collected.\<close>

fun for_range :: "'a list \<Rightarrow> ('a \<Rightarrow> ('w, unit) go) \<Rightarrow> ('w, unit) go" where
  "for_range [] f = ret ()"
| "for_range (x # xs) f = bnd (f x) (\<lambda>_. for_range xs f)"

fun for_collect :: "'a list \<Rightarrow> ('a \<Rightarrow> ('w, 'b) go) \<Rightarrow> ('w, 'b list) go" where
  "for_collect [] f = ret []"
| "for_collect (x # xs) f = bnd (f x) (\<lambda>y. bnd (for_collect xs f) (\<lambda>ys. ret (y # ys)))"

lemma go_basic [go_simps]:
  "ret v w = (Inr v, w)" "fail e w = (Inl e, w)" "lift r w = (r, w)"
  "gets f w = (Inr (f w), w)" "modify g w = (Inr (), g w)"
  by (simp_all add: ret_def fail_def lift_def gets_def modify_def)

lemma bnd_Inr [go_simps]: "m w = (Inr v, w1) \<Longrightarrow> bnd m f w = f v w1"
  by (simp add: bnd_def)

lemma bnd_Inl [go_simps]: "m w = (Inl e, w1) \<Longrightarrow> bnd m f w = (Inl e, w1)"
  by (simp add: bnd_def)

lemma attempt_eq [go_simps]: "attempt m w = (Inr (fst (m w)), snd (m w))"
  by (simp add: attempt_def split: prod.splits)

lemma ignore_eq [go_simps]: "ignore m w = (Inr (), snd (m w))"
  by (simp add: ignore_def split: prod.splits)

lemma bnd_okE [go_elims]:
  assumes "bnd m f w = (Inr v, w')"
  obtains x w1 where "m w = (Inr x, w1)" and "f x w1 = (Inr v, w')"
  using assms by (auto simp: bnd_def split: prod.splits sum.splits)

lemma bnd_errE:
  assumes "bnd m f w = (Inl e, w')"
  obtains "m w = (Inl e, w')" | x w1 where "m w = (Inr x, w1)" and "f x w1 = (Inl e, w')"
  using assms by (auto simp: bnd_def split: prod.splits sum.splits)

lemma bnd_cases:
  assumes "bnd m f w = (r, w')"
  obtains (stop) e where "m w = (Inl e, w')" "r = Inl e" | (go) x w1 where "m w = (Inr x, w1)" "f x w1 = (r, w')"
  using assms by (auto simp: bnd_def split: prod.splits sum.splits)

lemma ret_okE [go_elims]: "ret x w = (Inr v, w') \<Longrightarrow> (x = v \<Longrightarrow> w = w' \<Longrightarrow> P) \<Longrightarrow> P"
  by (simp add: ret_def)

lemma fail_okE [go_elims]: "fail e w = (Inr v, w') \<Longrightarrow> P"
  by (simp add: fail_def)

lemma gets_okE [go_elims]: "gets f w = (Inr v, w') \<Longrightarrow> (v = f w \<Longrightarrow> w = w' \<Longrightarrow> P) \<Longrightarrow> P"
  by (auto simp: gets_def)

lemma lift_okE [go_elims]: "lift r w = (Inr v, w') \<Longrightarrow> (r = Inr v \<Longrightarrow> w = w' \<Longrightarrow> P) \<Longrightarrow> P"
  by (simp add: lift_def)

lemma reject_okE [go_elims]: "reject b e w = (Inr v, w') \<Longrightarrow> (\<not> b \<Longrightarrow> w = w' \<Longrightarrow> P) \<Longrightarrow> P"
  by (simp add: reject_def ret_def fail_def split: if_splits)

lemma on_err_okE [go_elims]: "on_err g m w = (Inr v, w') \<Longrightarrow> (m w = (Inr v, w') \<Longrightarrow> P) \<Longrightarrow> P"
  by (auto simp: on_err_def split: prod.splits sum.splits)

lemma attempt_okE [go_elims]: "attempt m w = (Inr r, w') \<Longrightarrow> (m w = (r, w') \<Longrightarrow> P) \<Longrightarrow> P"
  by (auto simp: attempt_def split: prod.splits)

lemma bnd_reject [go_simps]: "bnd (reject b e) f w = (if b then (Inl e, w) else f () w)"
  by (simp add: bnd_def reject_def ret_def fail_def)

lemma bnd_basic [go_simps]:
  "bnd (gets g) f1 w = f1 (g w) w" "bnd (modify h) f2 w = f2 () (h w)" "bnd (ret v) f3 w = f3 v w"
  "bnd (ignore m) f2 w = f2 () (snd (m w))" "bnd (attempt m) f4 w = f4 (fst (m w)) (snd (m w))"
  by (simp_all add: bnd_def go_basic attempt_eq ignore_eq)

lemma bnd_ret: "bnd (ret v) f = f v"
  by (rule ext) (simp add: bnd_def ret_def)

lemma bnd_assoc: "bnd (bnd m f) g = bnd m (\<lambda>x. bnd (f x) g)"
  by (rule ext) (simp add: bnd_def split: prod.split sum.split)

lemma bnd_fail [go_simps]: "bnd (fail e) f = fail e"
  by (simp add: fun_eq_iff bnd_def fail_def)

section \<open>The world\<close>

datatype tx_state = NoTx | InTx | Aborted

record Event =
  ev_Type :: string
  ev_UserID :: string
  ev_Kind :: string

record world =
  wdb :: db
  faults :: "bool list"
  txst :: tx_state
  clock :: time
  uuid :: "nat \<Rightarrow> string"
  uuid_n :: nat
  randref :: "nat \<Rightarrow> string"
  rand_n :: nat
  hub_log :: "Event list"
  mail_log :: "(string \<times> string list) list"

definition consume :: "'z world_scheme \<Rightarrow> bool \<times> 'z world_scheme" where
  "consume w = (case faults w of [] \<Rightarrow> (False, w) | b # bs \<Rightarrow> (b, w\<lparr>faults := bs\<rparr>))"

definition abort :: "'z world_scheme \<Rightarrow> 'z world_scheme" where
  "abort w = (if txst w = InTx then w\<lparr>txst := Aborted\<rparr> else w)"

text \<open>An SQL statement: from a fresh UUID, \<open>now()\<close> and the database to an error, or a result and the
  changed database.\<close>

type_synonym 'a query = "string \<Rightarrow> time \<Rightarrow> db \<Rightarrow> err + 'a \<times> db"

definition stmt :: "'a query \<Rightarrow> ('z world_scheme, 'a) go" where
  "stmt q w =
     (if txst w = Aborted then (Inl ErrDB, w)
      else case consume w of (bad, w0) \<Rightarrow>
        (let w1 = w0\<lparr>uuid_n := Suc (uuid_n w0)\<rparr> in
         if bad then (Inl ErrDB, abort w1)
         else case q (uuid w0 (uuid_n w0)) (clock w0) (wdb w0) of
                Inl e \<Rightarrow> (Inl e, if e = ErrNoRows \<or> e = ErrScan then w1 else abort w1)
              | Inr (v, d) \<Rightarrow> (Inr v, w1\<lparr>wdb := d\<rparr>)))"

text \<open>A statement that only reads.\<close>

definition select :: "(db \<Rightarrow> err + 'a) \<Rightarrow> 'a query" where
  "select f = (\<lambda>_ _ d. case f d of Inl e \<Rightarrow> Inl e | Inr v \<Rightarrow> Inr (v, d))"

text \<open>\<open>Store.RunInTx\<close>\<close>

definition RunInTx :: "('z world_scheme, 'a) go \<Rightarrow> ('z world_scheme, 'a) go" where
  "RunInTx fn w =
     (case consume w of (bad, w0) \<Rightarrow>
        if bad then (Inl (Wrap ''begin tx'' ErrDB), w0)
        else case fn (w0\<lparr>txst := InTx\<rparr>) of
               (Inl e, w1) \<Rightarrow> (Inl e, w1\<lparr>wdb := wdb w, txst := NoTx\<rparr>)
             | (Inr v, w1) \<Rightarrow>
                 (case consume w1 of (bad, w2) \<Rightarrow>
                    if bad \<or> txst w1 = Aborted then (Inl ErrDB, w2\<lparr>wdb := wdb w, txst := NoTx\<rparr>)
                    else (Inr v, w2\<lparr>txst := NoTx\<rparr>)))"

text \<open>\<open>newRandRef\<close> (\<open>services/ref.go\<close>)\<close>

definition newRandRef :: "('z world_scheme, string) go" where
  "newRandRef w = (Inr (randref w (rand_n w)), w\<lparr>rand_n := Suc (rand_n w)\<rparr>)"

text \<open>Everything of a world that database work leaves alone.\<close>

definition env :: "'z world_scheme \<Rightarrow> time \<times> (nat \<Rightarrow> string) \<times> (nat \<Rightarrow> string) \<times> Event list \<times> (string \<times> string list) list \<times> 'z" where
  "env w = (clock w, uuid w, randref w, hub_log w, mail_log w, world.more w)"

lemma consume_frame [simp]:
  assumes "consume w = (b, w0)"
  shows "wdb w0 = wdb w" "txst w0 = txst w" "env w0 = env w" "uuid_n w0 = uuid_n w" "rand_n w0 = rand_n w"
    "clock w0 = clock w"
  using assms by (auto simp: consume_def env_def split: list.splits)

lemma abort_frame [simp]: "wdb (abort w) = wdb w" "env (abort w) = env w" "clock (abort w) = clock w"
  by (simp_all add: abort_def env_def)

lemma env_clock: "env w' = env w \<Longrightarrow> clock w' = clock w"
  by (simp add: env_def)

lemma env_upd [simp]: "env (w\<lparr>wdb := d\<rparr>) = env w" "env (w\<lparr>txst := t\<rparr>) = env w" "env (w\<lparr>uuid_n := n\<rparr>) = env w"
  "env (w\<lparr>rand_n := n\<rparr>) = env w" "env (w\<lparr>faults := fs\<rparr>) = env w"
  by (simp_all add: env_def)

lemma consume_no_faults [simp]: "faults w = [] \<Longrightarrow> consume w = (False, w)"
  by (simp add: consume_def)

lemma stmt_okE [go_elims]:
  assumes "stmt q w = (Inr v, w')"
  obtains id where "q id (clock w) (wdb w) = Inr (v, wdb w')" and "env w' = env w" and "txst w' = txst w"
proof -
  obtain b w0 where c: "consume w = (b, w0)" by (cases "consume w")
  with assms obtain d where
    "q (uuid w0 (uuid_n w0)) (clock w0) (wdb w0) = Inr (v, d)"
    and "w' = w0\<lparr>uuid_n := Suc (uuid_n w0), wdb := d\<rparr>"
    by (auto simp: stmt_def Let_def split: if_splits sum.splits)
  with c that show ?thesis by (simp add: consume_frame [OF c])
qed

lemma select_okE [go_elims]:
  "select f i t d = Inr (v, d') \<Longrightarrow> (f d = Inr v \<Longrightarrow> d' = d \<Longrightarrow> P) \<Longrightarrow> P"
  by (auto simp: select_def split: sum.splits)

lemma stmt_err:
  assumes "stmt q w = (Inl e, w')"
  shows "wdb w' = wdb w" and "env w' = env w"
  using assms
  by (auto simp: stmt_def Let_def split: if_splits sum.splits prod.splits)

lemma stmt_no_faults [go_simps]:
  assumes "faults w = []" and "txst w \<noteq> Aborted"
  shows "stmt q w =
    (let w1 = w\<lparr>uuid_n := Suc (uuid_n w)\<rparr> in
     case q (uuid w (uuid_n w)) (clock w) (wdb w) of
       Inl e \<Rightarrow> (Inl e, if e = ErrNoRows \<or> e = ErrScan then w1 else abort w1)
     | Inr (v, d) \<Rightarrow> (Inr v, w1\<lparr>wdb := d\<rparr>))"
  using assms by (simp add: stmt_def)

lemma newRandRef_okE [go_elims]:
  "newRandRef w = (Inr r, w') \<Longrightarrow> (wdb w' = wdb w \<Longrightarrow> env w' = env w \<Longrightarrow> txst w' = txst w \<Longrightarrow> P) \<Longrightarrow> P"
  by (auto simp: newRandRef_def)

text \<open>A transaction either fails and leaves the database as it was, whatever its body did, or its body
  succeeded and its effect is kept.\<close>

lemma RunInTx_err:
  assumes "RunInTx fn w = (Inl e, w')"
  shows "wdb w' = wdb w"
  using assms
  by (auto simp: RunInTx_def split: prod.splits if_splits sum.splits)

lemma RunInTx_okE [go_elims]:
  assumes "RunInTx fn w = (Inr v, w')"
  obtains w0 w1 where "wdb w0 = wdb w" "env w0 = env w" "txst w0 = InTx" "fn w0 = (Inr v, w1)"
    "wdb w' = wdb w1" "env w' = env w1"
proof -
  obtain b w0 where c: "consume w = (b, w0)" by (cases "consume w")
  obtain r w1 where f: "fn (w0\<lparr>txst := InTx\<rparr>) = (r, w1)" by (cases "fn (w0\<lparr>txst := InTx\<rparr>)")
  obtain b' w2 where c': "consume w1 = (b', w2)" by (cases "consume w1")
  from assms have "\<not> b" "r = Inr v" "w' = w2\<lparr>txst := NoTx\<rparr>"
    by (auto simp: RunInTx_def c f c' split: if_splits sum.splits)
  then show ?thesis
    using f that [of "w0\<lparr>txst := InTx\<rparr>" w1] by (simp add: consume_frame [OF c] consume_frame [OF c'])
qed

section \<open>Computations that keep a relation of the databases\<close>

definition pres :: "(db \<Rightarrow> db \<Rightarrow> bool) \<Rightarrow> ('z world_scheme, 'a) go \<Rightarrow> bool" where
  "pres Q m \<longleftrightarrow> (\<forall>w. Q (wdb w) (wdb (snd (m w))))"

lemma presD: "pres Q m \<Longrightarrow> m w = (r, w') \<Longrightarrow> Q (wdb w) (wdb w')"
  by (metis pres_def snd_conv)

locale db_preorder =
  fixes Q :: "db \<Rightarrow> db \<Rightarrow> bool"
  assumes refl: "Q d d"
    and trans: "Q d1 d2 \<Longrightarrow> Q d2 d3 \<Longrightarrow> Q d1 d3"
begin

lemma pres_ret: "pres Q (ret v)"
  by (simp add: pres_def ret_def refl)

lemma pres_fail: "pres Q (fail e)"
  by (simp add: pres_def fail_def refl)

lemma pres_lift: "pres Q (lift r)"
  by (simp add: pres_def lift_def refl)

lemma pres_gets: "pres Q (gets f)"
  by (simp add: pres_def gets_def refl)

lemma pres_reject: "pres Q (reject b e)"
  by (simp add: pres_def reject_def ret_def fail_def refl)

lemma pres_newRandRef: "pres Q newRandRef"
  by (simp add: pres_def newRandRef_def refl)

lemma pres_modify: "(\<And>w. wdb (f w) = wdb w) \<Longrightarrow> pres Q (modify f)"
  by (simp add: pres_def modify_def refl)

lemma pres_bnd: "pres Q m \<Longrightarrow> (\<And>v. pres Q (f v)) \<Longrightarrow> pres Q (bnd m f)"
  unfolding pres_def bnd_def
  by (auto split: prod.splits sum.splits intro: trans) (metis snd_conv trans)+

lemma pres_attempt: "pres Q m \<Longrightarrow> pres Q (attempt m)"
  by (simp add: pres_def attempt_eq)

lemma pres_ignore: "pres Q m \<Longrightarrow> pres Q (ignore m)"
  by (simp add: pres_def ignore_eq)

lemma pres_on_err: "pres Q m \<Longrightarrow> pres Q (on_err g m)"
  unfolding pres_def on_err_def by (auto split: prod.splits sum.splits) (metis snd_conv)+

lemma pres_if: "(b \<Longrightarrow> pres Q m) \<Longrightarrow> (\<not> b \<Longrightarrow> pres Q m') \<Longrightarrow> pres Q (if b then m else m')"
  by simp

lemma pres_option: "pres Q m \<Longrightarrow> (\<And>x. pres Q (f x)) \<Longrightarrow> pres Q (case o' of None \<Rightarrow> m | Some x \<Rightarrow> f x)"
  by (cases o') simp_all

lemma pres_sum: "(\<And>e. pres Q (g e)) \<Longrightarrow> (\<And>x. pres Q (f x)) \<Longrightarrow> pres Q (case r of Inl e \<Rightarrow> g e | Inr x \<Rightarrow> f x)"
  by (cases r) simp_all

lemma pres_prod: "(\<And>a b. pres Q (f a b)) \<Longrightarrow> pres Q (case p of (a, b) \<Rightarrow> f a b)"
  by (cases p) simp_all

lemma pres_Let: "(\<And>v. pres Q (f v)) \<Longrightarrow> pres Q (Let x f)"
  by (simp add: Let_def)

lemma pres_for_range: "(\<And>x. pres Q (f x)) \<Longrightarrow> pres Q (for_range xs f)"
  by (induction xs) (simp_all add: pres_ret pres_bnd)

lemma pres_for_collect: "(\<And>x. pres Q (f x)) \<Longrightarrow> pres Q (for_collect xs f)"
  by (induction xs) (simp_all add: pres_ret pres_bnd)

lemma pres_stmt:
  assumes "\<And>id t d v d'. q id t d = Inr (v, d') \<Longrightarrow> Q d d'"
  shows "pres Q (stmt q)"
  unfolding pres_def
proof
  fix w :: "'z world_scheme"
  obtain r w' where s: "stmt q w = (r, w')" by (cases "stmt q w")
  show "Q (wdb w) (wdb (snd (stmt q w)))"
  proof (cases r)
    case (Inl e)
    then show ?thesis using s stmt_err(1) [of q w e w'] by (simp add: refl)
  next
    case (Inr v)
    then show ?thesis using s assms by (auto elim!: stmt_okE)
  qed
qed

lemma pres_select: "pres Q (stmt (select f))"
  by (rule pres_stmt) (auto elim!: select_okE intro: refl)

lemma pres_RunInTx:
  fixes fn :: "('z world_scheme, 'a) go"
  assumes "pres Q fn"
  shows "pres Q (RunInTx fn)"
  unfolding pres_def
proof
  fix w :: "'z world_scheme"
  obtain r w' where s: "RunInTx fn w = (r, w')" by (cases "RunInTx fn w")
  show "Q (wdb w) (wdb (snd (RunInTx fn w)))"
  proof (cases r)
    case (Inl e)
    then show ?thesis using s RunInTx_err [of fn w e w'] by (simp add: refl)
  next
    case (Inr v)
    with s obtain w0 w1 where "wdb w0 = wdb w" "fn w0 = (Inr v, w1)" "wdb w' = wdb w1"
      by (auto elim: RunInTx_okE)
    then show ?thesis using s presD [OF assms, of w0] by simp
  qed
qed

lemmas pres_rules = pres_ret pres_fail pres_lift pres_gets pres_reject pres_newRandRef pres_bnd
  pres_attempt pres_ignore pres_on_err pres_if pres_option pres_sum pres_prod pres_Let pres_for_range
  pres_for_collect pres_RunInTx pres_select

end

text \<open>A relation that holds of any two databases whose ledger tables agree, or between which the ledger
  only grew, is carried through every computation built from these combinators. Rows of the accounts table are
  only ever added.\<close>

definition tables_same :: "db \<Rightarrow> db \<Rightarrow> bool" where
  "tables_same d d' \<longleftrightarrow> transactions d' = transactions d \<and> ledger_entries d' = ledger_entries d
     \<and> balances d' = balances d"

definition ledger_same :: "db \<Rightarrow> db \<Rightarrow> bool" where
  "ledger_same d d' \<longleftrightarrow> tables_same d d' \<and> (\<exists>as. accounts d' = accounts d @ as)"

definition ledger_grows :: "db \<Rightarrow> db \<Rightarrow> bool" where
  "ledger_grows d d' \<longleftrightarrow> (\<exists>ts. transactions d' = transactions d @ ts)
     \<and> (\<exists>es. ledger_entries d' = ledger_entries d @ es)"

interpretation same: db_preorder ledger_same
  by unfold_locales (auto simp: ledger_same_def tables_same_def)

interpretation grows: db_preorder ledger_grows
  by unfold_locales (auto simp: ledger_grows_def)

interpretation fixed: db_preorder "(=)"
  by unfold_locales auto

lemma grows_if_tables: "tables_same d d' \<Longrightarrow> ledger_grows d d'"
  by (auto simp: tables_same_def ledger_grows_def)

lemma same_tables: "ledger_same d d' \<Longrightarrow> tables_same d d'"
  by (simp add: ledger_same_def)

lemma same_accounts: "ledger_same d d' \<Longrightarrow> set (accounts d) \<subseteq> set (accounts d')"
  by (auto simp: ledger_same_def)

lemmas grows_if_same = grows_if_tables [OF same_tables]

lemma pres_mono: "pres Q m \<Longrightarrow> (\<And>d d'. Q d d' \<Longrightarrow> Q' d d') \<Longrightarrow> pres Q' m"
  by (auto simp: pres_def)

end
