(* ===== verification/Store.thy ===== *)
theory Store
  imports World
begin

text \<open>
  The repositories of \<open>src/backend/internal/storage/postgres\<close>: one definition per method, named
  \<open><Repository>_<Method>\<close>, each a single SQL statement on the tables of the database with the constraints
  the migrations put on them (primary keys, unique indexes, foreign keys). \<open>mapPgErr\<close> is applied exactly
  where the code applies it: the methods that return the driver's error unmapped keep \<open>ErrNoRows\<close>.
\<close>

definition mapPgErr :: "err \<Rightarrow> err" where
  "mapPgErr e = (if errIs e ErrNoRows then ErrNotFound
                 else if errIs e ErrUniqueViolation then ErrConflict else e)"

section \<open>SQL building blocks\<close>

definition first_row :: "('r \<Rightarrow> bool) \<Rightarrow> 'r list \<Rightarrow> err + 'r" where
  "first_row P rs = (case List.find P rs of None \<Rightarrow> Inl ErrNoRows | Some r \<Rightarrow> Inr r)"

definition update_where :: "('r \<Rightarrow> bool) \<Rightarrow> ('r \<Rightarrow> 'r) \<Rightarrow> 'r list \<Rightarrow> 'r list" where
  "update_where P f rs = map (\<lambda>r. if P r then f r else r) rs"

definition count_where :: "('r \<Rightarrow> bool) \<Rightarrow> 'r list \<Rightarrow> int" where
  "count_where P rs = int (length (filter P rs))"

definition order_by_desc :: "('r \<Rightarrow> int) \<Rightarrow> 'r list \<Rightarrow> 'r list" where
  "order_by_desc f rs = sort_key (\<lambda>r. - f r) rs"

definition has_user :: "db \<Rightarrow> string \<Rightarrow> bool" where
  "has_user d uid \<longleftrightarrow> (\<exists>u\<in>set (users d). u_ID u = uid)"

definition mapped :: "('w, 'a) go \<Rightarrow> ('w, 'a) go" where
  "mapped m = on_err mapPgErr m"

text \<open>\<open>tag, err := Exec(...)\<close> followed by the check that a row was affected.\<close>

definition affecting :: "('w, int) go \<Rightarrow> ('w, unit) go" where
  "affecting m = bnd (mapped m) (\<lambda>n. reject (n = 0) ErrNotFound)"

lemma first_row_okD: "first_row P rs = Inr r \<Longrightarrow> r \<in> set rs \<and> P r"
  by (auto simp: first_row_def find_Some_iff split: option.splits)

lemma first_row_errD: "first_row P rs = Inl e \<Longrightarrow> e = ErrNoRows \<and> (\<forall>r\<in>set rs. \<not> P r)"
  by (auto simp: first_row_def find_None_iff split: option.splits)

lemma mapped_okE [go_elims]: "mapped m w = (Inr v, w') \<Longrightarrow> (m w = (Inr v, w') \<Longrightarrow> P) \<Longrightarrow> P"
  unfolding mapped_def by (erule on_err_okE)

section \<open>Users\<close>

definition UserRepo_Create :: "User \<Rightarrow> ('z world_scheme, user_row) go" where
  "UserRepo_Create u = mapped (stmt (\<lambda>i t d.
     if \<exists>r\<in>set (users d). u_Email r = u_Email u \<or> u_ID r = i then Inl ErrUniqueViolation
     else let r = \<lparr>u_ID = i, u_Email = u_Email u, u_Phone = u_Phone u, u_FirstName = u_FirstName u,
                   u_LastName = u_LastName u, u_PasswordHash = u_PasswordHash u, u_PINHash = [],
                   u_TOTPSecret = [], u_TOTPEnabled = False, u_Status = u_Status u, u_CreatedAt = t,
                   u_UpdatedAt = t, u_EmailVerifiedAt = u_EmailVerifiedAt u,
                   notify_new_signin = True, notify_failed_login = True\<rparr>
          in Inr (r, d\<lparr>users := users d @ [r]\<rparr>)))"

definition UserRepo_FindByID :: "string \<Rightarrow> ('z world_scheme, user_row) go" where
  "UserRepo_FindByID uid = mapped (stmt (select (\<lambda>d. first_row (\<lambda>u. u_ID u = uid) (users d))))"

definition UserRepo_FindByEmail :: "string \<Rightarrow> ('z world_scheme, user_row) go" where
  "UserRepo_FindByEmail email = mapped (stmt (select (\<lambda>d. first_row (\<lambda>u. u_Email u = email) (users d))))"

definition UserRepo_update :: "string \<Rightarrow> (user_row \<Rightarrow> user_row) \<Rightarrow> ('z world_scheme, unit) go" where
  "UserRepo_update uid f = affecting (stmt (\<lambda>_ t d.
     Inr (count_where (\<lambda>u. u_ID u = uid) (users d),
          d\<lparr>users := update_where (\<lambda>u. u_ID u = uid) (\<lambda>u. (f u)\<lparr>u_UpdatedAt := t\<rparr>) (users d)\<rparr>)))"

definition UserRepo_UpdateStatus :: "string \<Rightarrow> UserStatus \<Rightarrow> ('z world_scheme, unit) go" where
  "UserRepo_UpdateStatus uid status = UserRepo_update uid (\<lambda>u. u\<lparr>u_Status := status\<rparr>)"

definition UserRepo_UpdatePIN :: "string \<Rightarrow> string \<Rightarrow> ('z world_scheme, unit) go" where
  "UserRepo_UpdatePIN uid pinHash = UserRepo_update uid (\<lambda>u. u\<lparr>u_PINHash := pinHash\<rparr>)"

definition UserRepo_UpdatePassword :: "string \<Rightarrow> string \<Rightarrow> ('z world_scheme, unit) go" where
  "UserRepo_UpdatePassword uid passwordHash = UserRepo_update uid (\<lambda>u. u\<lparr>u_PasswordHash := passwordHash\<rparr>)"

definition UserRepo_UpdateTOTP :: "string \<Rightarrow> string \<Rightarrow> bool \<Rightarrow> ('z world_scheme, unit) go" where
  "UserRepo_UpdateTOTP uid secret enabled =
     UserRepo_update uid (\<lambda>u. u\<lparr>u_TOTPSecret := secret, u_TOTPEnabled := enabled\<rparr>)"

definition UserRepo_MarkEmailVerified :: "string \<Rightarrow> ('z world_scheme, unit) go" where
  "UserRepo_MarkEmailVerified uid = affecting (stmt (\<lambda>_ t d.
     Inr (count_where (\<lambda>u. u_ID u = uid) (users d),
          d\<lparr>users := update_where (\<lambda>u. u_ID u = uid)
                (\<lambda>u. u\<lparr>u_EmailVerifiedAt := (case u_EmailVerifiedAt u of None \<Rightarrow> Some t | Some x \<Rightarrow> Some x),
                       u_UpdatedAt := t\<rparr>) (users d)\<rparr>)))"

definition UserRepo_NotificationPrefs :: "string \<Rightarrow> ('z world_scheme, bool \<times> bool) go" where
  "UserRepo_NotificationPrefs uid = mapped (stmt (select (\<lambda>d.
     map_sum id (\<lambda>u. (notify_new_signin u, notify_failed_login u)) (first_row (\<lambda>u. u_ID u = uid) (users d)))))"

definition UserRepo_UpdateNotificationPrefs :: "string \<Rightarrow> bool \<Rightarrow> bool \<Rightarrow> ('z world_scheme, unit) go" where
  "UserRepo_UpdateNotificationPrefs uid newSignin failedLogin =
     UserRepo_update uid (\<lambda>u. u\<lparr>notify_new_signin := newSignin, notify_failed_login := failedLogin\<rparr>)"

section \<open>Sessions\<close>

definition SessionRepo_Create :: "Session \<Rightarrow> ('z world_scheme, Session) go" where
  "SessionRepo_Create s = mapped (stmt (\<lambda>i t d.
     if \<exists>r\<in>set (sessions d). s_TokenHash r = s_TokenHash s \<or> s_ID r = i then Inl ErrUniqueViolation
     else if \<not> has_user d (s_UserID s) then Inl ErrDB
     else let r = s\<lparr>s_ID := i, s_RevokedAt := None, s_CreatedAt := t, s_LastActiveAt := t\<rparr>
          in Inr (r, d\<lparr>sessions := sessions d @ [r]\<rparr>)))"

definition SessionRepo_FindByID :: "string \<Rightarrow> ('z world_scheme, Session) go" where
  "SessionRepo_FindByID sid = stmt (select (\<lambda>d. first_row (\<lambda>s. s_ID s = sid) (sessions d)))"

definition SessionRepo_FindByTokenHash :: "string \<Rightarrow> ('z world_scheme, Session) go" where
  "SessionRepo_FindByTokenHash h = stmt (select (\<lambda>d. first_row (\<lambda>s. s_TokenHash s = h) (sessions d)))"

definition SessionRepo_ListActiveByUser :: "string \<Rightarrow> ('z world_scheme, Session list) go" where
  "SessionRepo_ListActiveByUser uid = mapped (stmt (\<lambda>_ t d.
     Inr (order_by_desc s_LastActiveAt
            (filter (\<lambda>s. s_UserID s = uid \<and> s_RevokedAt s = None \<and> s_ExpiresAt s > t) (sessions d)), d)))"

definition SessionRepo_revoke_where :: "(Session \<Rightarrow> bool) \<Rightarrow> ('z world_scheme, int) go" where
  "SessionRepo_revoke_where P = stmt (\<lambda>_ t d.
     Inr (count_where (\<lambda>s. P s \<and> s_RevokedAt s = None) (sessions d),
          d\<lparr>sessions := update_where (\<lambda>s. P s \<and> s_RevokedAt s = None) (\<lambda>s. s\<lparr>s_RevokedAt := Some t\<rparr>) (sessions d)\<rparr>))"

definition SessionRepo_Revoke :: "string \<Rightarrow> ('z world_scheme, unit) go" where
  "SessionRepo_Revoke sid = affecting (SessionRepo_revoke_where (\<lambda>s. s_ID s = sid))"

definition SessionRepo_RevokeAllForUser :: "string \<Rightarrow> ('z world_scheme, unit) go" where
  "SessionRepo_RevokeAllForUser uid =
     bnd (mapped (SessionRepo_revoke_where (\<lambda>s. s_UserID s = uid))) (\<lambda>_. ret ())"

definition SessionRepo_RevokeAllExcept :: "string \<Rightarrow> string \<Rightarrow> ('z world_scheme, unit) go" where
  "SessionRepo_RevokeAllExcept uid keepID =
     bnd (mapped (SessionRepo_revoke_where (\<lambda>s. s_UserID s = uid \<and> s_ID s \<noteq> keepID))) (\<lambda>_. ret ())"

definition SessionRepo_TouchLastActive :: "string \<Rightarrow> ('z world_scheme, unit) go" where
  "SessionRepo_TouchLastActive sid = mapped (stmt (\<lambda>_ t d.
     Inr ((), d\<lparr>sessions := update_where (\<lambda>s. s_ID s = sid) (\<lambda>s. s\<lparr>s_LastActiveAt := t\<rparr>) (sessions d)\<rparr>)))"

definition SessionRepo_CountRecentByDevice :: "string \<Rightarrow> string \<Rightarrow> time \<Rightarrow> ('z world_scheme, int) go" where
  "SessionRepo_CountRecentByDevice uid device since = mapped (stmt (select (\<lambda>d.
     Inr (count_where (\<lambda>s. s_UserID s = uid \<and> s_Device s = device \<and> s_CreatedAt s \<ge> since) (sessions d)))))"

section \<open>Accounts and balances\<close>

definition AccountRepo_EnsureAccount :: "string \<Rightarrow> AccountKind \<Rightarrow> string \<Rightarrow> ('z world_scheme, Account) go" where
  "AccountRepo_EnsureAccount uid kind currency = mapped (stmt (\<lambda>i t d.
     case List.find (\<lambda>a. acc_UserID a = uid \<and> acc_Kind a = kind \<and> acc_Currency a = currency) (accounts d) of
       Some a \<Rightarrow> Inr (a, d)
     | None \<Rightarrow>
         if \<exists>a\<in>set (accounts d). acc_ID a = i then Inl ErrUniqueViolation
         else if \<not> has_user d uid then Inl ErrDB
         else let a = \<lparr>acc_ID = i, acc_UserID = uid, acc_Kind = kind, acc_Currency = currency, acc_CreatedAt = t\<rparr>
              in Inr (a, d\<lparr>accounts := accounts d @ [a]\<rparr>)))"

definition AccountRepo_EnsureDefaultAccounts :: "string \<Rightarrow> ('z world_scheme, unit) go" where
  "AccountRepo_EnsureDefaultAccounts uid =
     for_range [AccountKindAvailable, AccountKindSavings]
       (\<lambda>kind. bnd (AccountRepo_EnsureAccount uid kind ''NGN'') (\<lambda>_. ret ()))"

definition AccountRepo_FindByID :: "string \<Rightarrow> ('z world_scheme, Account) go" where
  "AccountRepo_FindByID aid = stmt (select (\<lambda>d. first_row (\<lambda>a. acc_ID a = aid) (accounts d)))"

definition AccountRepo_FindByUserAndKind :: "string \<Rightarrow> AccountKind \<Rightarrow> string \<Rightarrow> ('z world_scheme, Account) go" where
  "AccountRepo_FindByUserAndKind uid kind currency = stmt (select (\<lambda>d.
     first_row (\<lambda>a. acc_UserID a = uid \<and> acc_Kind a = kind \<and> acc_Currency a = currency) (accounts d)))"

definition AccountRepo_ListByUser :: "string \<Rightarrow> ('z world_scheme, Account list) go" where
  "AccountRepo_ListByUser uid = mapped (stmt (select (\<lambda>d.
     Inr (sort_key acc_CreatedAt (filter (\<lambda>a. acc_UserID a = uid) (accounts d))))))"

definition AccountRepo_GetBalance :: "string \<Rightarrow> ('z world_scheme, int64) go" where
  "AccountRepo_GetBalance aid = bnd (attempt (stmt (select (\<lambda>d.
       case balances d aid of None \<Rightarrow> Inl ErrNoRows | Some b \<Rightarrow> Inr b))))
     (\<lambda>r. case r of
            Inl e \<Rightarrow> if mapPgErr e = ErrNotFound then ret 0 else fail (mapPgErr e)
          | Inr b \<Rightarrow> ret b)"

definition AccountRepo_SetBalance :: "string \<Rightarrow> int64 \<Rightarrow> ('z world_scheme, unit) go" where
  "AccountRepo_SetBalance aid amount = mapped (stmt (\<lambda>_ t d.
     if \<not> (\<exists>a\<in>set (accounts d). acc_ID a = aid) then Inl ErrDB
     else Inr ((), d\<lparr>balances := (balances d)(aid \<mapsto> amount)\<rparr>)))"

section \<open>The ledger\<close>

definition LedgerRepo_CreateTransaction :: "Transaction \<Rightarrow> ('z world_scheme, Transaction) go" where
  "LedgerRepo_CreateTransaction t0 = mapped (stmt (\<lambda>i t d.
     if (\<exists>r\<in>set (transactions d). txn_ID r = i \<or>
           (txn_IdempotencyKey t0 \<noteq> [] \<and> txn_IdempotencyKey r = txn_IdempotencyKey t0))
     then Inl ErrUniqueViolation
     else if \<not> has_user d (txn_UserID t0) then Inl ErrDB
     else let r = t0\<lparr>txn_ID := i, txn_CreatedAt := t, txn_UpdatedAt := t\<rparr>
          in Inr (r, d\<lparr>transactions := transactions d @ [r]\<rparr>)))"

definition LedgerRepo_FindTransactionByID :: "string \<Rightarrow> ('z world_scheme, Transaction) go" where
  "LedgerRepo_FindTransactionByID tid = stmt (select (\<lambda>d. first_row (\<lambda>r. txn_ID r = tid) (transactions d)))"

definition LedgerRepo_FindTransactionByIDempotencyKey :: "string \<Rightarrow> ('z world_scheme, Transaction) go" where
  "LedgerRepo_FindTransactionByIDempotencyKey key =
     mapped (stmt (select (\<lambda>d. first_row (\<lambda>r. txn_IdempotencyKey r = key) (transactions d))))"

definition LedgerRepo_ListTransactionsByUser :: "string \<Rightarrow> ('z world_scheme, Transaction list) go" where
  "LedgerRepo_ListTransactionsByUser uid = mapped (stmt (select (\<lambda>d.
     Inr (order_by_desc txn_CreatedAt (filter (\<lambda>r. txn_UserID r = uid) (transactions d))))))"

definition LedgerRepo_InsertEntry :: "LedgerEntry \<Rightarrow> ('z world_scheme, unit) go" where
  "LedgerRepo_InsertEntry e = mapped (stmt (\<lambda>i t d.
     if \<exists>r\<in>set (ledger_entries d). le_ID r = i then Inl ErrUniqueViolation
     else if \<not> (\<exists>r\<in>set (transactions d). txn_ID r = le_TransactionID e)
             \<or> \<not> (\<exists>a\<in>set (accounts d). acc_ID a = le_AccountID e) \<or> \<not> has_user d (le_UserID e)
     then Inl ErrDB
     else Inr ((), d\<lparr>ledger_entries := ledger_entries d @ [e\<lparr>le_ID := i, le_CreatedAt := t\<rparr>]\<rparr>)))"

definition signed_amount :: "LedgerEntry \<Rightarrow> int" where
  "signed_amount e = (case le_Movement e of MovementCredit \<Rightarrow> le_AmountMinor e | MovementDebit \<Rightarrow> - le_AmountMinor e)"

definition ledger_sum :: "db \<Rightarrow> string \<Rightarrow> int" where
  "ledger_sum d aid = sum_list (map signed_amount (filter (\<lambda>e. le_AccountID e = aid) (ledger_entries d)))"

definition LedgerRepo_SumBalanceByAccount :: "string \<Rightarrow> ('z world_scheme, int64) go" where
  "LedgerRepo_SumBalanceByAccount aid = mapped (stmt (select (\<lambda>d.
     if in64 (ledger_sum d aid) then Inr (ledger_sum d aid) else Inl ErrScan)))"

definition withdrawals_since :: "db \<Rightarrow> string \<Rightarrow> time \<Rightarrow> int" where
  "withdrawals_since d uid since = sum_list (map txn_AmountMinor
     (filter (\<lambda>r. txn_UserID r = uid \<and> txn_Type r = ''withdrawal'' \<and> txn_Status r \<noteq> StatusFailed
                \<and> txn_Status r \<noteq> StatusCancelled \<and> txn_CreatedAt r \<ge> since) (transactions d)))"

definition LedgerRepo_SumWithdrawalsSince :: "string \<Rightarrow> time \<Rightarrow> ('z world_scheme, int64) go" where
  "LedgerRepo_SumWithdrawalsSince uid since = mapped (stmt (select (\<lambda>d.
     if in64 (withdrawals_since d uid since) then Inr (withdrawals_since d uid since) else Inl ErrScan)))"

definition LedgerRepo_ListEntriesByAccount :: "string \<Rightarrow> ('z world_scheme, LedgerEntry list) go" where
  "LedgerRepo_ListEntriesByAccount aid = mapped (stmt (select (\<lambda>d.
     Inr (sort_key le_CreatedAt (filter (\<lambda>e. le_AccountID e = aid) (ledger_entries d))))))"

end
