(* ===== verification/Repos.thy ===== *)
theory Repos
  imports Store
begin

text \<open>
  The remaining repositories of \<open>src/backend/internal/storage/postgres\<close>: payees, payout accounts, exchange
  rates, deposit addresses, privacy salts, the security feed, the inbox, the indexer's cursor and event
  log, time-locked withdrawals, vault clones, e-mail codes and the waiting list.
\<close>

section \<open>Payees and payout accounts\<close>

definition BeneficiaryRepo_Create :: "Beneficiary \<Rightarrow> ('z world_scheme, Beneficiary) go" where
  "BeneficiaryRepo_Create b0 =
     (let b = (if ben_Address b0 = [] \<and> ben_AccountNumber b0 \<noteq> [] then b0\<lparr>ben_Address := ben_AccountNumber b0\<rparr> else b0)
      in mapped (stmt (\<lambda>i t d.
           if \<exists>r\<in>set (beneficiaries d). ben_ID r = i \<or>
                (ben_UserID r = ben_UserID b \<and> ben_Address r = ben_Address b) then Inl ErrUniqueViolation
           else if \<not> has_user d (ben_UserID b) then Inl ErrDB
           else let r = b\<lparr>ben_ID := i, ben_AccountNumber := ben_Address b, ben_CreatedAt := t\<rparr>
                in Inr (r, d\<lparr>beneficiaries := beneficiaries d @ [r]\<rparr>))))"

definition BeneficiaryRepo_ListByUser :: "string \<Rightarrow> ('z world_scheme, Beneficiary list) go" where
  "BeneficiaryRepo_ListByUser uid = mapped (stmt (select (\<lambda>d.
     Inr (order_by_desc ben_CreatedAt (filter (\<lambda>b. ben_UserID b = uid) (beneficiaries d))))))"

definition BeneficiaryRepo_Update :: "Beneficiary \<Rightarrow> ('z world_scheme, unit) go" where
  "BeneficiaryRepo_Update b = affecting (stmt (\<lambda>_ t d.
     let hit = (\<lambda>r. ben_ID r = ben_ID b \<and> ben_UserID r = ben_UserID b)
     in if (\<exists>r\<in>set (beneficiaries d). hit r) \<and>
           (\<exists>r\<in>set (beneficiaries d). \<not> hit r \<and> ben_UserID r = ben_UserID b \<and> ben_Address r = ben_Address b)
        then Inl ErrUniqueViolation
        else Inr (count_where hit (beneficiaries d),
                  d\<lparr>beneficiaries := update_where hit
                       (\<lambda>r. r\<lparr>ben_Name := ben_Name b, ben_Address := ben_Address b,
                              ben_AccountNumber := ben_Address b, ben_IsFavorite := ben_IsFavorite b\<rparr>)
                       (beneficiaries d)\<rparr>)))"

definition BeneficiaryRepo_Delete :: "string \<Rightarrow> string \<Rightarrow> ('z world_scheme, unit) go" where
  "BeneficiaryRepo_Delete uid bid = affecting (stmt (\<lambda>_ t d.
     let hit = (\<lambda>r. ben_ID r = bid \<and> ben_UserID r = uid)
     in Inr (count_where hit (beneficiaries d), d\<lparr>beneficiaries := filter (\<lambda>r. \<not> hit r) (beneficiaries d)\<rparr>)))"

definition BeneficiaryRepo_ToggleFavorite :: "string \<Rightarrow> string \<Rightarrow> ('z world_scheme, unit) go" where
  "BeneficiaryRepo_ToggleFavorite uid bid = affecting (stmt (\<lambda>_ t d.
     let hit = (\<lambda>r. ben_ID r = bid \<and> ben_UserID r = uid)
     in Inr (count_where hit (beneficiaries d),
             d\<lparr>beneficiaries := update_where hit (\<lambda>r. r\<lparr>ben_IsFavorite := \<not> ben_IsFavorite r\<rparr>) (beneficiaries d)\<rparr>)))"

definition BeneficiaryRepo_FindByAddress :: "string \<Rightarrow> string \<Rightarrow> ('z world_scheme, Beneficiary) go" where
  "BeneficiaryRepo_FindByAddress uid address = mapped (stmt (select (\<lambda>d.
     first_row (\<lambda>b. ben_UserID b = uid \<and> ben_Address b = address) (beneficiaries d))))"

definition BankAccountRepo_Create :: "BankAccount \<Rightarrow> ('z world_scheme, BankAccount) go" where
  "BankAccountRepo_Create a = mapped (stmt (\<lambda>i t d.
     if \<exists>r\<in>set (bank_accounts d). ba_ID r = i \<or>
          (ba_UserID r = ba_UserID a \<and> ba_BankCode r = ba_BankCode a \<and> ba_AccountNumber r = ba_AccountNumber a)
     then Inl ErrUniqueViolation
     else if \<not> has_user d (ba_UserID a) then Inl ErrDB
     else let r = a\<lparr>ba_ID := i, ba_CreatedAt := t\<rparr> in Inr (r, d\<lparr>bank_accounts := bank_accounts d @ [r]\<rparr>)))"

definition BankAccountRepo_ListByUser :: "string \<Rightarrow> ('z world_scheme, BankAccount list) go" where
  "BankAccountRepo_ListByUser uid = mapped (stmt (select (\<lambda>d.
     Inr (order_by_desc ba_CreatedAt (filter (\<lambda>a. ba_UserID a = uid) (bank_accounts d))))))"

definition BankAccountRepo_Delete :: "string \<Rightarrow> string \<Rightarrow> ('z world_scheme, unit) go" where
  "BankAccountRepo_Delete uid aid = affecting (stmt (\<lambda>_ t d.
     let hit = (\<lambda>r. ba_ID r = aid \<and> ba_UserID r = uid)
     in Inr (count_where hit (bank_accounts d), d\<lparr>bank_accounts := filter (\<lambda>r. \<not> hit r) (bank_accounts d)\<rparr>)))"

definition BankAccountRepo_SetDefault :: "string \<Rightarrow> string \<Rightarrow> ('z world_scheme, unit) go" where
  "BankAccountRepo_SetDefault uid aid = affecting (stmt (\<lambda>_ t d.
     Inr (count_where (\<lambda>r. ba_UserID r = uid) (bank_accounts d),
          d\<lparr>bank_accounts := update_where (\<lambda>r. ba_UserID r = uid) (\<lambda>r. r\<lparr>ba_IsDefault := (ba_ID r = aid)\<rparr>) (bank_accounts d)\<rparr>)))"

definition BankAccountRepo_SetNotDefault :: "string \<Rightarrow> ('z world_scheme, unit) go" where
  "BankAccountRepo_SetNotDefault uid = mapped (stmt (\<lambda>_ t d.
     Inr ((), d\<lparr>bank_accounts := update_where (\<lambda>r. ba_UserID r = uid) (\<lambda>r. r\<lparr>ba_IsDefault := False\<rparr>) (bank_accounts d)\<rparr>)))"

section \<open>Exchange rates\<close>

definition ExchangeRateRepo_FindByPair :: "string \<Rightarrow> string \<Rightarrow> ('z world_scheme, ExchangeRate) go" where
  "ExchangeRateRepo_FindByPair base quote = mapped (stmt (select (\<lambda>d.
     first_row (\<lambda>r. er_Base r = base \<and> er_Quote r = quote \<and> er_Status r = ''active'') (exchange_rates d))))"

definition ExchangeRateRepo_UpdateRate :: "string \<Rightarrow> string \<Rightarrow> int64 \<Rightarrow> ('z world_scheme, unit) go" where
  "ExchangeRateRepo_UpdateRate base quote rateMinor = affecting (stmt (\<lambda>_ t d.
     let hit = (\<lambda>r. er_Base r = base \<and> er_Quote r = quote \<and> er_Status r = ''active'')
     in Inr (count_where hit (exchange_rates d),
             d\<lparr>exchange_rates := update_where hit (\<lambda>r. r\<lparr>er_Rate := rateMinor, er_UpdatedAt := t\<rparr>) (exchange_rates d)\<rparr>)))"

definition ExchangeRateRepo_UpsertRate :: "string \<Rightarrow> string \<Rightarrow> int64 \<Rightarrow> ('z world_scheme, unit) go" where
  "ExchangeRateRepo_UpsertRate base quote rateMinor = mapped (stmt (\<lambda>i t d.
     let hit = (\<lambda>r. er_Base r = base \<and> er_Quote r = quote)
     in if \<exists>r\<in>set (exchange_rates d). hit r
        then Inr ((), d\<lparr>exchange_rates := update_where hit
               (\<lambda>r. r\<lparr>er_Rate := rateMinor, er_Status := ''active'', er_UpdatedAt := t\<rparr>) (exchange_rates d)\<rparr>)
        else if \<exists>r\<in>set (exchange_rates d). er_ID r = i then Inl ErrUniqueViolation
        else Inr ((), d\<lparr>exchange_rates := exchange_rates d @
               [\<lparr>er_ID = i, er_Base = base, er_Quote = quote, er_Rate = rateMinor, er_FeeBPS = 50,
                 er_MinMinor = 1000, er_MaxMinor = 1000000000, er_Status = ''active'',
                 er_CreatedAt = t, er_UpdatedAt = t\<rparr>]\<rparr>)))"

section \<open>Deposit addresses and salts\<close>

definition DepositAddressRepo_FindByUser :: "string \<Rightarrow> ('z world_scheme, DepositAddress) go" where
  "DepositAddressRepo_FindByUser uid =
     mapped (stmt (select (\<lambda>d. first_row (\<lambda>a. da_UserID a = uid) (deposit_addresses d))))"

definition DepositAddressRepo_Set :: "string \<Rightarrow> string \<Rightarrow> ('z world_scheme, DepositAddress) go" where
  "DepositAddressRepo_Set uid address = mapped (stmt (\<lambda>_ t d.
     if \<exists>a\<in>set (deposit_addresses d). da_UserID a \<noteq> uid \<and> da_Address a = address then Inl ErrUniqueViolation
     else case List.find (\<lambda>a. da_UserID a = uid) (deposit_addresses d) of
            Some a \<Rightarrow>
              (let a' = a\<lparr>da_Address := address, da_UpdatedAt := t\<rparr>
               in Inr (a', d\<lparr>deposit_addresses := update_where (\<lambda>r. da_UserID r = uid) (\<lambda>_. a') (deposit_addresses d)\<rparr>))
          | None \<Rightarrow>
              if \<not> has_user d uid then Inl ErrDB
              else let a = \<lparr>da_UserID = uid, da_Address = address, da_CreatedAt = t, da_UpdatedAt = t\<rparr>
                   in Inr (a, d\<lparr>deposit_addresses := deposit_addresses d @ [a]\<rparr>)))"

definition DepositAddressRepo_OwnerOf :: "string \<Rightarrow> ('z world_scheme, string) go" where
  "DepositAddressRepo_OwnerOf address =
     bnd (attempt (stmt (select (\<lambda>d. first_row (\<lambda>a. da_Address a = address) (deposit_addresses d)))))
       (\<lambda>r. case r of
              Inl e \<Rightarrow> if mapPgErr e = ErrNotFound then ret [] else fail (mapPgErr e)
            | Inr a \<Rightarrow> ret (da_UserID a))"

definition UserSaltsRepo_upsert :: "string \<Rightarrow> (salt_row \<Rightarrow> salt_row) \<Rightarrow> ('z world_scheme, unit) go" where
  "UserSaltsRepo_upsert uid f = stmt (\<lambda>_ t d.
     if \<exists>r\<in>set (user_salts d). salt_UserID r = uid
     then Inr ((), d\<lparr>user_salts := update_where (\<lambda>r. salt_UserID r = uid) f (user_salts d)\<rparr>)
     else if \<not> has_user d uid then Inl ErrDB
     else Inr ((), d\<lparr>user_salts := user_salts d @
            [f \<lparr>salt_UserID = uid, salt_Salt = [], salt_Derivation = ''random'', salt_SourceAddress = []\<rparr>]\<rparr>))"

definition UserSaltsRepo_Upsert :: "string \<Rightarrow> 8 word list \<Rightarrow> ('z world_scheme, unit) go" where
  "UserSaltsRepo_Upsert uid salt = UserSaltsRepo_upsert uid (\<lambda>r. r\<lparr>salt_Salt := salt\<rparr>)"

definition UserSaltsRepo_UpsertWithDerivation ::
    "string \<Rightarrow> 8 word list \<Rightarrow> string \<Rightarrow> string \<Rightarrow> ('z world_scheme, unit) go" where
  "UserSaltsRepo_UpsertWithDerivation uid salt derivation sourceAddress =
     UserSaltsRepo_upsert uid (\<lambda>r. r\<lparr>salt_Salt := salt, salt_Derivation := derivation, salt_SourceAddress := sourceAddress\<rparr>)"

definition UserSaltsRepo_FindByUser :: "string \<Rightarrow> ('z world_scheme, 8 word list) go" where
  "UserSaltsRepo_FindByUser uid = mapped (stmt (select (\<lambda>d.
     map_sum id salt_Salt (first_row (\<lambda>r. salt_UserID r = uid) (user_salts d)))))"

definition UserSaltsRepo_Delete :: "string \<Rightarrow> ('z world_scheme, unit) go" where
  "UserSaltsRepo_Delete uid = stmt (\<lambda>_ t d.
     Inr ((), d\<lparr>user_salts := filter (\<lambda>r. salt_UserID r \<noteq> uid) (user_salts d)\<rparr>))"

definition UserSaltsRepo_ListLinks :: "('z world_scheme, UserSaltLink list) go" where
  "UserSaltsRepo_ListLinks = stmt (select (\<lambda>d. Inr (map (\<lambda>s.
     \<lparr>sl_UserID = salt_UserID s,
      sl_Address = (case List.find (\<lambda>a. da_UserID a = salt_UserID s) (deposit_addresses d) of
                      None \<Rightarrow> [] | Some a \<Rightarrow> da_Address a),
      sl_Salt = salt_Salt s, sl_Derivation = salt_Derivation s, sl_SourceAddress = salt_SourceAddress s\<rparr>)
     (user_salts d))))"

section \<open>Security feed and inbox\<close>

definition SecurityEventRepo_Create :: "SecurityEvent \<Rightarrow> ('z world_scheme, unit) go" where
  "SecurityEventRepo_Create e = mapped (stmt (\<lambda>i t d.
     if \<exists>r\<in>set (security_events d). se_ID r = i then Inl ErrUniqueViolation
     else if \<not> has_user d (se_UserID e) then Inl ErrDB
     else Inr ((), d\<lparr>security_events := security_events d @
            [e\<lparr>se_ID := i, se_CreatedAt := t,
               se_Severity := (if se_Severity e = SeverityUnset then SeverityInfo else se_Severity e)\<rparr>]\<rparr>)))"

definition SecurityEventRepo_ListByUser :: "string \<Rightarrow> int \<Rightarrow> ('z world_scheme, SecurityEvent list) go" where
  "SecurityEventRepo_ListByUser uid limit = mapped (stmt (select (\<lambda>d.
     if limit < 0 then Inl ErrDB
     else Inr (take (nat limit) (order_by_desc se_CreatedAt (filter (\<lambda>e. se_UserID e = uid) (security_events d)))))))"

definition SecurityEventRepo_ListByUserPaged ::
    "string \<Rightarrow> int \<Rightarrow> int \<Rightarrow> ('z world_scheme, SecurityEvent list \<times> int) go" where
  "SecurityEventRepo_ListByUserPaged uid limit0 offset0 =
     (let limit = (if limit0 \<le> 0 then 50 else limit0);
          offset = (if offset0 < 0 then 0 else offset0)
      in mapped (stmt (select (\<lambda>d.
           let mine = order_by_desc se_CreatedAt (filter (\<lambda>e. se_UserID e = uid) (security_events d));
               page = take (nat limit) (drop (nat offset) mine)
           in Inr (page, if page = [] then 0 else int (length mine))))))"

definition NotificationRepo_Create :: "string \<Rightarrow> NotificationCategory \<Rightarrow> string \<Rightarrow> string \<Rightarrow> ('z world_scheme, unit) go" where
  "NotificationRepo_Create uid category title body = mapped (stmt (\<lambda>i t d.
     if \<exists>r\<in>set (notifications d). nt_ID r = i then Inl ErrUniqueViolation
     else if \<not> has_user d uid then Inl ErrDB
     else Inr ((), d\<lparr>notifications := notifications d @
            [\<lparr>nt_ID = i, nt_UserID = uid, nt_Category = category, nt_Title = title, nt_Body = body,
              nt_IsRead = False, nt_CreatedAt = t\<rparr>]\<rparr>)))"

definition NotificationRepo_ListByUser :: "string \<Rightarrow> int \<Rightarrow> ('z world_scheme, Notification list) go" where
  "NotificationRepo_ListByUser uid limit = mapped (stmt (select (\<lambda>d.
     if limit < 0 then Inl ErrDB
     else Inr (take (nat limit) (order_by_desc nt_CreatedAt (filter (\<lambda>n. nt_UserID n = uid) (notifications d)))))))"

definition NotificationRepo_CountUnread :: "string \<Rightarrow> ('z world_scheme, int) go" where
  "NotificationRepo_CountUnread uid = mapped (stmt (select (\<lambda>d.
     Inr (count_where (\<lambda>n. nt_UserID n = uid \<and> \<not> nt_IsRead n) (notifications d)))))"

definition NotificationRepo_MarkRead :: "string \<Rightarrow> string \<Rightarrow> ('z world_scheme, unit) go" where
  "NotificationRepo_MarkRead uid nid = affecting (stmt (\<lambda>_ t d.
     let hit = (\<lambda>n. nt_ID n = nid \<and> nt_UserID n = uid \<and> \<not> nt_IsRead n)
     in Inr (count_where hit (notifications d),
             d\<lparr>notifications := update_where hit (\<lambda>n. n\<lparr>nt_IsRead := True\<rparr>) (notifications d)\<rparr>)))"

definition NotificationRepo_MarkAllRead :: "string \<Rightarrow> ('z world_scheme, unit) go" where
  "NotificationRepo_MarkAllRead uid = mapped (stmt (\<lambda>_ t d.
     Inr ((), d\<lparr>notifications := update_where (\<lambda>n. nt_UserID n = uid \<and> \<not> nt_IsRead n)
                 (\<lambda>n. n\<lparr>nt_IsRead := True\<rparr>) (notifications d)\<rparr>)))"

section \<open>The indexer's cursor and event log\<close>

definition IndexerStateRepo_LastBlock :: "('z world_scheme, nat) go" where
  "IndexerStateRepo_LastBlock = stmt (select (\<lambda>d.
     case indexer_state d of None \<Rightarrow> Inl ErrNoRows | Some n \<Rightarrow> Inr n))"

definition IndexerStateRepo_SetLastBlock :: "nat \<Rightarrow> ('z world_scheme, unit) go" where
  "IndexerStateRepo_SetLastBlock lastBlock = stmt (\<lambda>_ t d. Inr ((), d\<lparr>indexer_state := Some lastBlock\<rparr>))"

definition same_log :: "string \<Rightarrow> nat \<Rightarrow> IndexerEvent \<Rightarrow> bool" where
  "same_log txHash logIndex e \<longleftrightarrow> ie_TxHash e = txHash \<and> ie_LogIndex e = logIndex"

definition IndexerEventRepo_Insert :: "IndexerEvent \<Rightarrow> ('z world_scheme, unit) go" where
  "IndexerEventRepo_Insert evt = stmt (\<lambda>_ t d.
     if \<exists>e\<in>set (indexer_events d). same_log (ie_TxHash evt) (ie_LogIndex evt) e then Inr ((), d)
     else Inr ((), d\<lparr>indexer_events := indexer_events d @ [evt]\<rparr>))"

definition IndexerEventRepo_ListByRange :: "nat \<Rightarrow> nat \<Rightarrow> ('z world_scheme, IndexerEvent list) go" where
  "IndexerEventRepo_ListByRange fromBlock toBlock = stmt (select (\<lambda>d.
     Inr (sort_key ie_BlockNumber (sort_key ie_LogIndex
            (filter (\<lambda>e. fromBlock \<le> ie_BlockNumber e \<and> ie_BlockNumber e \<le> toBlock) (indexer_events d))))))"

definition IndexerEventRepo_ListUnattributed :: "int \<Rightarrow> ('z world_scheme, IndexerEvent list) go" where
  "IndexerEventRepo_ListUnattributed limit0 =
     (let limit = (if limit0 \<le> 0 then 200 else limit0)
      in stmt (select (\<lambda>d.
           Inr (take (nat limit) (order_by_desc (\<lambda>e. int (ie_BlockNumber e)) (order_by_desc (\<lambda>e. int (ie_LogIndex e))
                  (rev (filter (\<lambda>e. ie_EventType e = IndexerEventUnattributed) (indexer_events d)))))))))"

definition IndexerEventRepo_FindByTxAndLog :: "string \<Rightarrow> nat \<Rightarrow> ('z world_scheme, IndexerEvent) go" where
  "IndexerEventRepo_FindByTxAndLog txHash logIndex =
     mapped (stmt (select (\<lambda>d. first_row (same_log txHash logIndex) (indexer_events d))))"

definition IndexerEventRepo_MarkAttributed :: "string \<Rightarrow> nat \<Rightarrow> ('z world_scheme, unit) go" where
  "IndexerEventRepo_MarkAttributed txHash logIndex = affecting (stmt (\<lambda>_ t d.
     let hit = (\<lambda>e. same_log txHash logIndex e \<and> ie_EventType e = IndexerEventUnattributed)
     in Inr (count_where hit (indexer_events d),
             d\<lparr>indexer_events := update_where hit (\<lambda>e. e\<lparr>ie_EventType := IndexerEventDeposited\<rparr>) (indexer_events d)\<rparr>)))"

section \<open>Time-locked withdrawals\<close>

definition same_content :: "string \<Rightarrow> string \<Rightarrow> int64 \<Rightarrow> WithdrawalElevation \<Rightarrow> bool" where
  "same_content uid destination amount e \<longleftrightarrow>
     we_UserID e = uid \<and> we_Destination e = destination \<and> we_AmountNgnMinor e = amount \<and> we_Status e = ElevationPending"

definition ElevationRepo_Create :: "WithdrawalElevation \<Rightarrow> ('z world_scheme, WithdrawalElevation) go" where
  "ElevationRepo_Create e = stmt (\<lambda>i t d.
     let eid = (if we_ID e = [] then i else we_ID e)
     in if (\<exists>r\<in>set (withdrawal_elevations d). we_ID r = eid) \<or>
           (we_Status e = ElevationPending \<and>
            (\<exists>r\<in>set (withdrawal_elevations d). same_content (we_UserID e) (we_Destination e) (we_AmountNgnMinor e) r))
        then Inl ErrUniqueViolation
        else Inr (e\<lparr>we_ID := eid\<rparr>,
                  d\<lparr>withdrawal_elevations := withdrawal_elevations d @
                      [e\<lparr>we_ID := eid, we_RequestedAt := t, we_BroadcastTxHash := [], we_BroadcastAt := None,
                         we_ExpiredReason := []\<rparr>]\<rparr>))"

definition ElevationRepo_FindByUserAndID :: "string \<Rightarrow> string \<Rightarrow> ('z world_scheme, WithdrawalElevation) go" where
  "ElevationRepo_FindByUserAndID uid eid = stmt (select (\<lambda>d.
     first_row (\<lambda>e. we_ID e = eid \<and> we_UserID e = uid) (withdrawal_elevations d)))"

definition ElevationRepo_FindDuePending :: "time \<Rightarrow> ('z world_scheme, WithdrawalElevation list) go" where
  "ElevationRepo_FindDuePending now = stmt (select (\<lambda>d.
     Inr (take 100 (sort_key we_ReleaseAfter
            (filter (\<lambda>e. we_Status e = ElevationPending \<and> we_ReleaseAfter e \<le> now) (withdrawal_elevations d))))))"

definition ElevationRepo_FindPendingByContent :: "string \<Rightarrow> string \<Rightarrow> int64 \<Rightarrow> ('z world_scheme, WithdrawalElevation) go" where
  "ElevationRepo_FindPendingByContent uid destination amount = stmt (select (\<lambda>d.
     first_row (same_content uid destination amount) (withdrawal_elevations d)))"

definition ElevationRepo_ListPendingByUser :: "string \<Rightarrow> ('z world_scheme, WithdrawalElevation list) go" where
  "ElevationRepo_ListPendingByUser uid = stmt (select (\<lambda>d.
     Inr (order_by_desc we_RequestedAt
            (filter (\<lambda>e. we_UserID e = uid \<and> we_Status e = ElevationPending) (withdrawal_elevations d)))))"

definition ElevationRepo_ClaimForBroadcast :: "string \<Rightarrow> ('z world_scheme, bool) go" where
  "ElevationRepo_ClaimForBroadcast eid = stmt (\<lambda>_ t d.
     let hit = (\<lambda>e. we_ID e = eid \<and> we_Status e = ElevationPending)
     in Inr (\<exists>e\<in>set (withdrawal_elevations d). hit e,
             d\<lparr>withdrawal_elevations := update_where hit (\<lambda>e. e\<lparr>we_Status := ElevationBroadcasting\<rparr>) (withdrawal_elevations d)\<rparr>))"

definition ElevationRepo_MarkBroadcast :: "string \<Rightarrow> string \<Rightarrow> ('z world_scheme, unit) go" where
  "ElevationRepo_MarkBroadcast eid txHash = stmt (\<lambda>_ t d.
     Inr ((), d\<lparr>withdrawal_elevations := update_where (\<lambda>e. we_ID e = eid)
            (\<lambda>e. e\<lparr>we_Status := ElevationBroadcast, we_BroadcastTxHash := txHash, we_BroadcastAt := Some t\<rparr>)
            (withdrawal_elevations d)\<rparr>))"

definition ElevationRepo_ReleaseClaim :: "string \<Rightarrow> ('z world_scheme, unit) go" where
  "ElevationRepo_ReleaseClaim eid = stmt (\<lambda>_ t d.
     let hit = (\<lambda>e. we_ID e = eid \<and> we_Status e = ElevationBroadcasting)
     in if \<exists>e\<in>set (withdrawal_elevations d). hit e \<and>
             (\<exists>r\<in>set (withdrawal_elevations d). same_content (we_UserID e) (we_Destination e) (we_AmountNgnMinor e) r)
        then Inl ErrUniqueViolation
        else Inr ((), d\<lparr>withdrawal_elevations := update_where hit
               (\<lambda>e. e\<lparr>we_Status := ElevationPending\<rparr>) (withdrawal_elevations d)\<rparr>))"

definition ElevationRepo_MarkExpired :: "string \<Rightarrow> string \<Rightarrow> ('z world_scheme, unit) go" where
  "ElevationRepo_MarkExpired eid reason = stmt (\<lambda>_ t d.
     Inr ((), d\<lparr>withdrawal_elevations := update_where
            (\<lambda>e. we_ID e = eid \<and> (we_Status e = ElevationPending \<or> we_Status e = ElevationBroadcasting))
            (\<lambda>e. e\<lparr>we_Status := ElevationExpired, we_ExpiredReason := reason\<rparr>) (withdrawal_elevations d)\<rparr>))"

definition ElevationRepo_CancelPending :: "string \<Rightarrow> string \<Rightarrow> ('z world_scheme, unit) go" where
  "ElevationRepo_CancelPending uid eid = bnd (stmt (\<lambda>_ t d.
     let hit = (\<lambda>e. we_ID e = eid \<and> we_UserID e = uid \<and> we_Status e = ElevationPending)
     in Inr (count_where hit (withdrawal_elevations d),
             d\<lparr>withdrawal_elevations := update_where hit (\<lambda>e. e\<lparr>we_Status := ElevationCancelled\<rparr>) (withdrawal_elevations d)\<rparr>)))
     (\<lambda>n. reject (n = 0) ErrNotFound)"

section \<open>Vault clones\<close>

definition no_recovery :: CloneRecovery where
  "no_recovery = \<lparr>cr_Owner = [], cr_RecoveryAddress = [], cr_RecoveryDelay = 0, cr_RecoveryRequestedAt = 0\<rparr>"

definition VaultCloneRepo_Ensure :: "VaultClone \<Rightarrow> ('z world_scheme, unit) go" where
  "VaultCloneRepo_Ensure c = mapped (stmt (\<lambda>_ t d.
     if \<exists>r\<in>set (user_vault_clones d). vc_UserID r = vc_UserID c then Inr ((), d)
     else if \<exists>r\<in>set (user_vault_clones d). vc_CloneAddress r = vc_CloneAddress c then Inl ErrUniqueViolation
     else Inr ((), d\<lparr>user_vault_clones := user_vault_clones d @
            [VaultClone.extend (c\<lparr>vc_CreatedAt := t\<rparr>) \<lparr>clone_recovery = no_recovery\<rparr>]\<rparr>)))"

definition VaultCloneRepo_ByUser :: "string \<Rightarrow> ('z world_scheme, clone_row option) go" where
  "VaultCloneRepo_ByUser uid = mapped (stmt (select (\<lambda>d.
     Inr (List.find (\<lambda>c. vc_UserID c = uid) (user_vault_clones d)))))"

definition VaultCloneRepo_All :: "('z world_scheme, clone_row list) go" where
  "VaultCloneRepo_All = stmt (select (\<lambda>d. Inr (sort_key vc_CreatedAt (user_vault_clones d))))"

definition VaultCloneRepo_CacheRecovery :: "string \<Rightarrow> CloneRecovery \<Rightarrow> ('z world_scheme, unit) go" where
  "VaultCloneRepo_CacheRecovery uid rec = mapped (stmt (\<lambda>_ t d.
     Inr ((), d\<lparr>user_vault_clones := update_where (\<lambda>c. vc_UserID c = uid)
            (\<lambda>c. c\<lparr>clone_recovery := rec\<lparr>cr_RecoveryRequestedAt :=
                     (if cr_RecoveryRequestedAt rec > 0 then cr_RecoveryRequestedAt rec else 0)\<rparr>\<rparr>)
            (user_vault_clones d)\<rparr>)))"

definition VaultCloneRepo_RecoveryCache :: "string \<Rightarrow> ('z world_scheme, CloneRecovery option) go" where
  "VaultCloneRepo_RecoveryCache uid = mapped (stmt (select (\<lambda>d.
     Inr (map_option clone_recovery (List.find (\<lambda>c. vc_UserID c = uid) (user_vault_clones d))))))"

section \<open>E-mail codes and waiting list\<close>

definition EmailOTPRepo_Upsert :: "EmailOTP \<Rightarrow> ('z world_scheme, unit) go" where
  "EmailOTPRepo_Upsert otp = mapped (stmt (\<lambda>_ t d.
     if \<exists>r\<in>set (email_otps d). otp_Email r = otp_Email otp
     then Inr ((), d\<lparr>email_otps := update_where (\<lambda>r. otp_Email r = otp_Email otp)
            (\<lambda>r. r\<lparr>otp_CodeHash := otp_CodeHash otp, otp_ExpiresAt := otp_ExpiresAt otp,
                   otp_NextSendAt := otp_NextSendAt otp, otp_Attempts := 0, otp_UpdatedAt := t\<rparr>) (email_otps d)\<rparr>)
     else Inr ((), d\<lparr>email_otps := email_otps d @
            [otp\<lparr>otp_Attempts := 0, otp_CreatedAt := t, otp_UpdatedAt := t\<rparr>]\<rparr>)))"

definition EmailOTPRepo_FindByEmail :: "string \<Rightarrow> ('z world_scheme, EmailOTP) go" where
  "EmailOTPRepo_FindByEmail email = mapped (stmt (select (\<lambda>d. first_row (\<lambda>r. otp_Email r = email) (email_otps d))))"

definition EmailOTPRepo_IncrementAttempts :: "string \<Rightarrow> ('z world_scheme, unit) go" where
  "EmailOTPRepo_IncrementAttempts email = mapped (stmt (\<lambda>_ t d.
     Inr ((), d\<lparr>email_otps := update_where (\<lambda>r. otp_Email r = email)
            (\<lambda>r. r\<lparr>otp_Attempts := otp_Attempts r + 1, otp_UpdatedAt := t\<rparr>) (email_otps d)\<rparr>)))"

definition EmailOTPRepo_Clear :: "string \<Rightarrow> ('z world_scheme, unit) go" where
  "EmailOTPRepo_Clear email = mapped (stmt (\<lambda>_ t d.
     Inr ((), d\<lparr>email_otps := filter (\<lambda>r. otp_Email r \<noteq> email) (email_otps d)\<rparr>)))"

definition WaitlistRepo_Join :: "WaitlistSignup \<Rightarrow> ('z world_scheme, unit) go" where
  "WaitlistRepo_Join signup = mapped (stmt (\<lambda>_ t d.
     if \<exists>r\<in>set (waitlist d). ToLower (wl_Email r) = ToLower (wl_Email signup) then Inr ((), d)
     else Inr ((), d\<lparr>waitlist := waitlist d @ [signup]\<rparr>)))"

definition WaitlistRepo_Count :: "('z world_scheme, int) go" where
  "WaitlistRepo_Count = mapped (stmt (select (\<lambda>d. Inr (int (length (waitlist d))))))"

section \<open>What the statements leave alone\<close>

named_theorems repo_defs \<open>definitions of repository methods\<close>

declare UserRepo_Create_def [repo_defs] UserRepo_update_def [repo_defs] UserRepo_UpdateStatus_def [repo_defs]
  UserRepo_UpdatePIN_def [repo_defs] UserRepo_UpdatePassword_def [repo_defs] UserRepo_UpdateTOTP_def [repo_defs]
  UserRepo_MarkEmailVerified_def [repo_defs] UserRepo_UpdateNotificationPrefs_def [repo_defs]
  SessionRepo_Create_def [repo_defs] SessionRepo_ListActiveByUser_def [repo_defs]
  SessionRepo_revoke_where_def [repo_defs] SessionRepo_Revoke_def [repo_defs]
  SessionRepo_RevokeAllForUser_def [repo_defs] SessionRepo_RevokeAllExcept_def [repo_defs]
  SessionRepo_TouchLastActive_def [repo_defs] AccountRepo_EnsureAccount_def [repo_defs]
  AccountRepo_EnsureDefaultAccounts_def [repo_defs]
  BeneficiaryRepo_Create_def [repo_defs] BeneficiaryRepo_Update_def [repo_defs]
  BeneficiaryRepo_Delete_def [repo_defs] BeneficiaryRepo_ToggleFavorite_def [repo_defs]
  BankAccountRepo_Create_def [repo_defs] BankAccountRepo_Delete_def [repo_defs]
  BankAccountRepo_SetDefault_def [repo_defs] BankAccountRepo_SetNotDefault_def [repo_defs]
  ExchangeRateRepo_UpdateRate_def [repo_defs] ExchangeRateRepo_UpsertRate_def [repo_defs]
  DepositAddressRepo_Set_def [repo_defs] UserSaltsRepo_upsert_def [repo_defs] UserSaltsRepo_Upsert_def [repo_defs]
  UserSaltsRepo_UpsertWithDerivation_def [repo_defs] UserSaltsRepo_Delete_def [repo_defs]
  SecurityEventRepo_Create_def [repo_defs] NotificationRepo_Create_def [repo_defs]
  NotificationRepo_MarkRead_def [repo_defs] NotificationRepo_MarkAllRead_def [repo_defs]
  IndexerStateRepo_SetLastBlock_def [repo_defs] IndexerEventRepo_Insert_def [repo_defs]
  IndexerEventRepo_MarkAttributed_def [repo_defs] ElevationRepo_Create_def [repo_defs]
  ElevationRepo_ClaimForBroadcast_def [repo_defs] ElevationRepo_MarkBroadcast_def [repo_defs]
  ElevationRepo_ReleaseClaim_def [repo_defs] ElevationRepo_MarkExpired_def [repo_defs]
  ElevationRepo_CancelPending_def [repo_defs] VaultCloneRepo_Ensure_def [repo_defs]
  VaultCloneRepo_CacheRecovery_def [repo_defs] EmailOTPRepo_Upsert_def [repo_defs]
  EmailOTPRepo_IncrementAttempts_def [repo_defs] EmailOTPRepo_Clear_def [repo_defs] WaitlistRepo_Join_def [repo_defs]

text \<open>No repository other than the ledger's, and of the account repository only \<open>SetBalance\<close>, touches
  the ledger tables.\<close>

lemma same_mapped [keeps_intros]: "pres ledger_same m \<Longrightarrow> pres ledger_same (mapped m)"
  unfolding mapped_def by (rule same.pres_on_err)

lemma same_affecting [keeps_intros]: "pres ledger_same m \<Longrightarrow> pres ledger_same (affecting m)"
  unfolding affecting_def by (intro same.pres_bnd same.pres_reject same_mapped)

lemma fixed_mapped [keeps_intros]: "pres (=) m \<Longrightarrow> pres (=) (mapped m)"
  unfolding mapped_def by (rule fixed.pres_on_err)

lemma same_stmtI:
  assumes "\<And>i t d v d'. q i t d = Inr (v, d') \<Longrightarrow>
    transactions d' = transactions d \<and> ledger_entries d' = ledger_entries d \<and> balances d' = balances d
      \<and> (\<exists>as. accounts d' = accounts d @ as)"
  shows "pres ledger_same (stmt q)"
  by (rule same.pres_stmt) (use assms in \<open>auto simp: ledger_same_def tables_same_def\<close>)

lemmas same_rules = same.pres_rules same_mapped same_affecting

lemma repos_ledger_same [keeps_intros]:
  "pres ledger_same (UserRepo_Create u)" "pres ledger_same (UserRepo_update uid f)"
  "pres ledger_same (UserRepo_UpdateStatus uid st)" "pres ledger_same (UserRepo_UpdatePIN uid s)"
  "pres ledger_same (UserRepo_UpdatePassword uid s)" "pres ledger_same (UserRepo_UpdateTOTP uid s b)"
  "pres ledger_same (UserRepo_MarkEmailVerified uid)" "pres ledger_same (UserRepo_UpdateNotificationPrefs uid b b')"
  "pres ledger_same (SessionRepo_Create se)" "pres ledger_same (SessionRepo_ListActiveByUser uid)"
  "pres ledger_same (SessionRepo_Revoke uid)" "pres ledger_same (SessionRepo_RevokeAllForUser uid)"
  "pres ledger_same (SessionRepo_RevokeAllExcept uid k)" "pres ledger_same (SessionRepo_TouchLastActive uid)"
  "pres ledger_same (AccountRepo_EnsureAccount uid kind cur)" "pres ledger_same (AccountRepo_EnsureDefaultAccounts uid)"
  by (auto simp: repo_defs Let_def split: if_splits option.splits intro!: same_rules same_stmtI)

lemma repos_ledger_same2 [keeps_intros]:
  "pres ledger_same (BeneficiaryRepo_Create b)" "pres ledger_same (BeneficiaryRepo_Update b)"
  "pres ledger_same (BeneficiaryRepo_Delete uid s)" "pres ledger_same (BeneficiaryRepo_ToggleFavorite uid s)"
  "pres ledger_same (BankAccountRepo_Create ba)" "pres ledger_same (BankAccountRepo_Delete uid s)"
  "pres ledger_same (BankAccountRepo_SetDefault uid s)" "pres ledger_same (BankAccountRepo_SetNotDefault uid)"
  "pres ledger_same (ExchangeRateRepo_UpdateRate s t x)" "pres ledger_same (ExchangeRateRepo_UpsertRate s t x)"
  "pres ledger_same (DepositAddressRepo_Set uid s)" "pres ledger_same (UserSaltsRepo_Upsert uid bs)"
  "pres ledger_same (UserSaltsRepo_UpsertWithDerivation uid bs s t)" "pres ledger_same (UserSaltsRepo_Delete uid)"
  "pres ledger_same (SecurityEventRepo_Create se)" "pres ledger_same (NotificationRepo_Create uid s t u)"
  "pres ledger_same (NotificationRepo_MarkRead uid s)" "pres ledger_same (NotificationRepo_MarkAllRead uid)"
  by (auto simp: repo_defs Let_def split: if_splits option.splits intro!: same_rules same_stmtI)

lemma repos_ledger_same3 [keeps_intros]:
  "pres ledger_same (IndexerStateRepo_SetLastBlock n)" "pres ledger_same (IndexerEventRepo_Insert ie)"
  "pres ledger_same (IndexerEventRepo_MarkAttributed s n)" "pres ledger_same (ElevationRepo_Create el)"
  "pres ledger_same (ElevationRepo_ClaimForBroadcast s)" "pres ledger_same (ElevationRepo_MarkBroadcast s t)"
  "pres ledger_same (ElevationRepo_ReleaseClaim s)" "pres ledger_same (ElevationRepo_MarkExpired s t)"
  "pres ledger_same (ElevationRepo_CancelPending uid s)" "pres ledger_same (VaultCloneRepo_Ensure c)"
  "pres ledger_same (VaultCloneRepo_CacheRecovery uid rec)" "pres ledger_same (EmailOTPRepo_Upsert o')"
  "pres ledger_same (EmailOTPRepo_IncrementAttempts s)" "pres ledger_same (EmailOTPRepo_Clear s)"
  "pres ledger_same (WaitlistRepo_Join si)"
  by (auto simp: repo_defs Let_def split: if_splits option.splits intro!: same_rules same_stmtI)

text \<open>The methods that only read.\<close>

lemmas reads_defs = UserRepo_FindByID_def UserRepo_FindByEmail_def UserRepo_NotificationPrefs_def SessionRepo_FindByID_def
  SessionRepo_FindByTokenHash_def SessionRepo_CountRecentByDevice_def AccountRepo_FindByID_def
  AccountRepo_FindByUserAndKind_def AccountRepo_ListByUser_def AccountRepo_GetBalance_def
  LedgerRepo_FindTransactionByID_def LedgerRepo_FindTransactionByIDempotencyKey_def
  LedgerRepo_ListTransactionsByUser_def LedgerRepo_SumBalanceByAccount_def LedgerRepo_SumWithdrawalsSince_def
  LedgerRepo_ListEntriesByAccount_def BeneficiaryRepo_ListByUser_def BeneficiaryRepo_FindByAddress_def
  BankAccountRepo_ListByUser_def ExchangeRateRepo_FindByPair_def DepositAddressRepo_FindByUser_def
  DepositAddressRepo_OwnerOf_def UserSaltsRepo_FindByUser_def UserSaltsRepo_ListLinks_def
  SecurityEventRepo_ListByUser_def SecurityEventRepo_ListByUserPaged_def NotificationRepo_ListByUser_def
  NotificationRepo_CountUnread_def IndexerStateRepo_LastBlock_def IndexerEventRepo_ListByRange_def
  IndexerEventRepo_ListUnattributed_def IndexerEventRepo_FindByTxAndLog_def ElevationRepo_FindByUserAndID_def
  ElevationRepo_FindDuePending_def ElevationRepo_FindPendingByContent_def ElevationRepo_ListPendingByUser_def
  VaultCloneRepo_ByUser_def VaultCloneRepo_All_def VaultCloneRepo_RecoveryCache_def
  EmailOTPRepo_FindByEmail_def WaitlistRepo_Count_def

lemma repos_read [keeps_intros]:
  "pres (=) (UserRepo_FindByID s)" "pres (=) (UserRepo_FindByEmail s)" "pres (=) (UserRepo_NotificationPrefs s)"
  "pres (=) (SessionRepo_FindByID s)" "pres (=) (SessionRepo_FindByTokenHash s)"
  "pres (=) (SessionRepo_CountRecentByDevice s t x)" "pres (=) (AccountRepo_FindByID s)"
  "pres (=) (AccountRepo_FindByUserAndKind s t u)" "pres (=) (AccountRepo_ListByUser s)"
  "pres (=) (AccountRepo_GetBalance s)" "pres (=) (LedgerRepo_FindTransactionByID s)"
  "pres (=) (LedgerRepo_FindTransactionByIDempotencyKey s)" "pres (=) (LedgerRepo_ListTransactionsByUser s)"
  "pres (=) (LedgerRepo_SumBalanceByAccount s)" "pres (=) (LedgerRepo_SumWithdrawalsSince s x)"
  "pres (=) (LedgerRepo_ListEntriesByAccount s)" "pres (=) (BeneficiaryRepo_ListByUser s)"
  "pres (=) (BeneficiaryRepo_FindByAddress s t)" "pres (=) (BankAccountRepo_ListByUser s)"
  "pres (=) (ExchangeRateRepo_FindByPair s t)" "pres (=) (DepositAddressRepo_FindByUser s)"
  "pres (=) (DepositAddressRepo_OwnerOf s)" "pres (=) (UserSaltsRepo_FindByUser s)" "pres (=) UserSaltsRepo_ListLinks"
  by (simp_all add: reads_defs Let_def fixed.pres_rules fixed_mapped)

lemma repos_read2 [keeps_intros]:
  "pres (=) (SecurityEventRepo_ListByUser s n)" "pres (=) (SecurityEventRepo_ListByUserPaged s n m)"
  "pres (=) (NotificationRepo_ListByUser s n)" "pres (=) (NotificationRepo_CountUnread s)"
  "pres (=) IndexerStateRepo_LastBlock" "pres (=) (IndexerEventRepo_ListByRange a b)"
  "pres (=) (IndexerEventRepo_ListUnattributed n)" "pres (=) (IndexerEventRepo_FindByTxAndLog s a)"
  "pres (=) (ElevationRepo_FindByUserAndID s t)" "pres (=) (ElevationRepo_FindDuePending n)"
  "pres (=) (ElevationRepo_FindPendingByContent s t n)" "pres (=) (ElevationRepo_ListPendingByUser s)"
  "pres (=) (VaultCloneRepo_ByUser s)" "pres (=) VaultCloneRepo_All" "pres (=) (VaultCloneRepo_RecoveryCache s)"
  "pres (=) (EmailOTPRepo_FindByEmail s)" "pres (=) WaitlistRepo_Count"
  by (simp_all add: reads_defs Let_def fixed.pres_rules fixed_mapped)

lemma same_if_fixed [keeps_intros]: "pres (=) m \<Longrightarrow> pres ledger_same m"
  by (erule pres_mono) (auto intro: same.refl)

lemma grows_if_pres_same: "pres ledger_same m \<Longrightarrow> pres ledger_grows m"
  by (erule pres_mono) (auto intro: grows_if_same)

end
