(* ===== verification/Ledger.thy ===== *)
theory Ledger
  imports Repos
begin

text \<open>
  The ledger service (\<open>src/backend/internal/services/ledger.go\<close>) and the balance service
  (\<open>services/balance.go\<close>): a movement is one transaction row, one entry and one update of the balance
  projection in a single database transaction, guarded by an idempotency key.

  The lemmas describe a movement exactly, for every pattern of database failures: it fails and leaves the
  database unchanged, or replays an earlier transaction with the same key and leaves it unchanged, or
  appends one transaction and one entry and moves the projection by the same amount. From this follow the
  agreement of the projection with the ledger, the absence of overdrafts and the effect of a replay.
\<close>

record LedgerMoveRequest =
  lm_UserID :: string
  lm_AccountKind :: AccountKind
  lm_Currency :: string
  lm_Type :: TransactionType
  lm_AmountMinor :: int64
  lm_FeeMinor :: int64
  lm_ExchangeRate :: string
  lm_Reference :: string
  lm_ProviderRef :: string
  lm_IdempotencyKey :: string
  lm_Metadata :: "metadata option"

definition defaultMetadata :: "metadata option \<Rightarrow> metadata" where
  "defaultMetadata m = (case m of None \<Rightarrow> Map.empty | Some x \<Rightarrow> x)"

text \<open>The idempotency fast path shared by every money operation, and the recovery after a unique
  violation of the key by a concurrent duplicate.\<close>

definition find_replay :: "string \<Rightarrow> ('z world_scheme, Transaction option) go" where
  "find_replay key =
     (if key = [] then ret None
      else bnd (attempt (LedgerRepo_FindTransactionByIDempotencyKey key))
             (\<lambda>r. case r of
                    Inr existing \<Rightarrow> ret (Some existing)
                  | Inl e \<Rightarrow> if errIs e ErrNotFound then ret None else fail e))"

definition or_replay :: "string \<Rightarrow> ('z world_scheme, Transaction) go \<Rightarrow> ('z world_scheme, Transaction) go" where
  "or_replay key m =
     bnd (attempt m)
       (\<lambda>r. case r of
              Inr t \<Rightarrow> ret t
            | Inl e \<Rightarrow>
                if key \<noteq> [] \<and> errIs e ErrConflict
                then bnd (attempt (LedgerRepo_FindTransactionByIDempotencyKey key))
                       (\<lambda>f. case f of Inr existing \<Rightarrow> ret existing | Inl _ \<Rightarrow> fail e)
                else fail e)"

text \<open>An entry followed by the update of the projection.\<close>

definition post :: "Transaction \<Rightarrow> string \<Rightarrow> string \<Rightarrow> LedgerMovement \<Rightarrow> string \<Rightarrow> int64 \<Rightarrow> int64 \<Rightarrow> ('z world_scheme, unit) go" where
  "post txn accountID userID movement currency amount newBalance =
     bnd (LedgerRepo_InsertEntry
            \<lparr>le_ID = [], le_TransactionID = txn_ID txn, le_AccountID = accountID, le_UserID = userID,
             le_Movement = movement, le_Currency = currency, le_AmountMinor = amount, le_CreatedAt = 0\<rparr>)
       (\<lambda>_. AccountRepo_SetBalance accountID newBalance)"

definition pick_reference :: "string \<Rightarrow> TransactionType \<Rightarrow> ('z world_scheme, string) go" where
  "pick_reference reference ty =
     (if reference = [] then bnd newRandRef (\<lambda>r. ret (ty @ ''-'' @ r)) else ret reference)"

definition request_txn :: "LedgerMoveRequest \<Rightarrow> string \<Rightarrow> Transaction" where
  "request_txn req reference =
     \<lparr>txn_ID = [], txn_UserID = lm_UserID req, txn_Type = lm_Type req, txn_Status = StatusCompleted,
      txn_Currency = lm_Currency req, txn_AmountMinor = lm_AmountMinor req, txn_FeeMinor = lm_FeeMinor req,
      txn_ExchangeRate = lm_ExchangeRate req, txn_Reference = reference, txn_ProviderRef = lm_ProviderRef req,
      txn_IdempotencyKey = lm_IdempotencyKey req, txn_Metadata = defaultMetadata (lm_Metadata req),
      txn_CreatedAt = 0, txn_UpdatedAt = 0\<rparr>"

definition move_total :: "LedgerMoveRequest \<Rightarrow> LedgerMovement \<Rightarrow> int64" where
  "move_total req movement =
     (if movement = MovementDebit then wrap64 (lm_AmountMinor req + lm_FeeMinor req) else lm_AmountMinor req)"

definition move_body :: "LedgerMoveRequest \<Rightarrow> LedgerMovement \<Rightarrow> ('z world_scheme, Transaction) go" where
  "move_body req movement =
     bnd (AccountRepo_FindByUserAndKind (lm_UserID req) (lm_AccountKind req) (lm_Currency req)) (\<lambda>account.
     bnd (LedgerRepo_SumBalanceByAccount (acc_ID account)) (\<lambda>current.
     let totalMovement = move_total req movement in
     bnd (reject (movement = MovementDebit \<and> current < totalMovement) ErrInsufficientBalance) (\<lambda>_.
     bnd (reject (totalMovement > 0 \<and> wrap64 (current + totalMovement) < 0) ErrInsufficientBalance) (\<lambda>_.
     let newBalance = (if movement = MovementCredit then wrap64 (current + totalMovement)
                       else wrap64 (current - totalMovement)) in
     bnd (pick_reference (lm_Reference req) (lm_Type req)) (\<lambda>reference.
     bnd (LedgerRepo_CreateTransaction (request_txn req reference)) (\<lambda>txn.
     bnd (post txn (acc_ID account) (lm_UserID req) movement (lm_Currency req) totalMovement newBalance) (\<lambda>_.
     ret txn)))))))"

definition move :: "LedgerMoveRequest \<Rightarrow> LedgerMovement \<Rightarrow> ('z world_scheme, Transaction) go" where
  "move req movement =
     bnd (find_replay (lm_IdempotencyKey req)) (\<lambda>existing.
     case existing of
       Some t \<Rightarrow> ret t
     | None \<Rightarrow> or_replay (lm_IdempotencyKey req) (RunInTx (move_body req movement)))"

definition Credit :: "LedgerMoveRequest \<Rightarrow> ('z world_scheme, Transaction) go" where
  "Credit req = (if lm_AmountMinor req \<le> 0 then fail ErrInvalidAmount else move req MovementCredit)"

definition Debit :: "LedgerMoveRequest \<Rightarrow> ('z world_scheme, Transaction) go" where
  "Debit req =
     (if wrap64 (lm_AmountMinor req + lm_FeeMinor req) \<le> 0 then fail ErrInvalidAmount
      else move req MovementDebit)"

definition Transactions :: "string \<Rightarrow> ('z world_scheme, Transaction list) go" where
  "Transactions userID = LedgerRepo_ListTransactionsByUser userID"

section \<open>Balances\<close>

definition snapshot :: "Account \<Rightarrow> int64 \<Rightarrow> BalanceSnapshot" where
  "snapshot a amount = \<lparr>bs_AccountID = acc_ID a, bs_Kind = acc_Kind a, bs_Currency = acc_Currency a, bs_Amount = amount\<rparr>"

definition Balance_List :: "string \<Rightarrow> ('z world_scheme, BalanceSnapshot list) go" where
  "Balance_List userID =
     bnd (AccountRepo_ListByUser userID) (\<lambda>accs.
     for_collect accs (\<lambda>a. bnd (AccountRepo_GetBalance (acc_ID a)) (\<lambda>amount. ret (snapshot a amount))))"

definition Balance_Get :: "string \<Rightarrow> string \<Rightarrow> ('z world_scheme, BalanceSnapshot) go" where
  "Balance_Get userID accountID =
     bnd (AccountRepo_FindByID accountID) (\<lambda>account.
     bnd (reject (acc_UserID account \<noteq> userID) ErrNotFound) (\<lambda>_.
     bnd (AccountRepo_GetBalance accountID) (\<lambda>amount. ret (snapshot account amount))))"

section \<open>The ledger seen abstractly\<close>

definition balance_of :: "db \<Rightarrow> string \<Rightarrow> int64" where
  "balance_of d aid = (case balances d aid of None \<Rightarrow> 0 | Some b \<Rightarrow> b)"

text \<open>The projection agrees with the immutable entries (as 64-bit numbers).\<close>

definition projection_ok :: "db \<Rightarrow> bool" where
  "projection_ok d \<longleftrightarrow> (\<forall>aid. balance_of d aid = wrap64 (ledger_sum d aid))"

definition signed_by :: "LedgerMovement \<Rightarrow> int \<Rightarrow> int" where
  "signed_by mv x = (case mv of MovementCredit \<Rightarrow> x | MovementDebit \<Rightarrow> - x)"

text \<open>What one \<open>post\<close> does to the database.\<close>

definition posted :: "db \<Rightarrow> Transaction \<Rightarrow> string \<Rightarrow> LedgerMovement \<Rightarrow> int64 \<Rightarrow> int64 \<Rightarrow> db \<Rightarrow> bool" where
  "posted d t aid mv amount newBalance d' \<longleftrightarrow>
     (\<exists>e. d' = d\<lparr>ledger_entries := ledger_entries d @ [e], balances := (balances d)(aid \<mapsto> newBalance)\<rparr>
        \<and> le_AccountID e = aid \<and> le_TransactionID e = txn_ID t \<and> le_Movement e = mv \<and> le_AmountMinor e = amount)"

text \<open>A transaction row appended; a non-empty key must be new.\<close>

definition recorded :: "db \<Rightarrow> Transaction \<Rightarrow> db \<Rightarrow> bool" where
  "recorded d t d' \<longleftrightarrow> d' = d\<lparr>transactions := transactions d @ [t]\<rparr> \<and>
     (\<forall>r\<in>set (transactions d). txn_ID r \<noteq> txn_ID t \<and>
        (txn_IdempotencyKey t \<noteq> [] \<longrightarrow> txn_IdempotencyKey r \<noteq> txn_IdempotencyKey t))"

lemma signed_by_simps [simp]: "signed_by MovementCredit x = x" "signed_by MovementDebit x = - x"
  by (simp_all add: signed_by_def)

lemma ledger_sum_snoc:
  "ledger_sum (d\<lparr>ledger_entries := ledger_entries d @ [e]\<rparr>) aid
     = ledger_sum d aid + (if le_AccountID e = aid then signed_by (le_Movement e) (le_AmountMinor e) else 0)"
  by (simp add: ledger_sum_def signed_amount_def signed_by_def)

lemma ledger_sum_upd [simp]:
  "ledger_sum (d\<lparr>balances := b\<rparr>) = ledger_sum d" "ledger_sum (d\<lparr>transactions := ts\<rparr>) = ledger_sum d"
  "ledger_sum (d\<lparr>accounts := as\<rparr>) = ledger_sum d"
  by (simp_all add: ledger_sum_def fun_eq_iff)

lemma posted_sum:
  assumes "posted d t a mv amount nb d'"
  shows "ledger_sum d' aid = ledger_sum d aid + (if a = aid then signed_by mv amount else 0)"
proof -
  from assms obtain e where d': "d' = d\<lparr>ledger_entries := ledger_entries d @ [e], balances := (balances d)(a \<mapsto> nb)\<rparr>"
    and e: "le_AccountID e = a" "le_Movement e = mv" "le_AmountMinor e = amount"
    by (auto simp: posted_def)
  show ?thesis unfolding d' by (simp add: ledger_sum_snoc e)
qed

lemma posted_balance:
  assumes "posted d t a mv amount nb d'"
  shows "balance_of d' aid = (if a = aid then nb else balance_of d aid)"
  using assms by (auto simp: posted_def balance_of_def)

lemma posted_frame:
  assumes "posted d t a mv amount nb d'"
  shows "accounts d' = accounts d" "transactions d' = transactions d" "users d' = users d"
    "\<exists>es. ledger_entries d' = ledger_entries d @ es" "exchange_rates d' = exchange_rates d"
  using assms by (auto simp: posted_def)

lemma recorded_frame:
  assumes "recorded d t d'"
  shows "accounts d' = accounts d" "transactions d' = transactions d @ [t]" "ledger_sum d' = ledger_sum d"
    "balance_of d' = balance_of d" "ledger_entries d' = ledger_entries d" "users d' = users d"
  using assms by (auto simp: recorded_def balance_of_def fun_eq_iff)

lemma projection_posted:
  assumes "projection_ok d" and "posted d t a mv amount nb d'"
    and "nb = wrap64 (ledger_sum d a + signed_by mv amount)"
  shows "projection_ok d'"
  using assms by (auto simp: projection_ok_def posted_sum [OF assms(2)] posted_balance [OF assms(2)])

lemma projection_recorded: "projection_ok d \<Longrightarrow> recorded d t d' \<Longrightarrow> projection_ok d'"
  by (simp add: projection_ok_def recorded_frame)

lemma projection_tables: "projection_ok d \<Longrightarrow> tables_same d d' \<Longrightarrow> projection_ok d'"
  by (simp add: projection_ok_def tables_same_def balance_of_def ledger_sum_def)

lemmas projection_same = projection_tables [OF _ same_tables]

section \<open>Rules for the ledger's statements\<close>

lemma FindByUserAndKind_okE [go_elims]:
  assumes "AccountRepo_FindByUserAndKind uid kind cur w = (Inr a, w')"
  obtains "a \<in> set (accounts (wdb w))" "acc_UserID a = uid" "acc_Kind a = kind" "acc_Currency a = cur"
    "wdb w' = wdb w" "env w' = env w"
  using assms unfolding AccountRepo_FindByUserAndKind_def
  by (auto elim!: stmt_okE select_okE dest!: first_row_okD)

lemma SumBalance_okE [go_elims]:
  assumes "LedgerRepo_SumBalanceByAccount aid w = (Inr s, w')"
  obtains "s = ledger_sum (wdb w) aid" "in64 s" "wdb w' = wdb w" "env w' = env w"
  using assms unfolding LedgerRepo_SumBalanceByAccount_def
  by (auto elim!: mapped_okE stmt_okE select_okE split: if_splits)

lemma FindKey_okE [go_elims]:
  assumes "LedgerRepo_FindTransactionByIDempotencyKey key w = (Inr t, w')"
  obtains "t \<in> set (transactions (wdb w))" "txn_IdempotencyKey t = key" "wdb w' = wdb w" "env w' = env w"
  using assms unfolding LedgerRepo_FindTransactionByIDempotencyKey_def
  by (auto elim!: mapped_okE stmt_okE select_okE dest!: first_row_okD)

lemma CreateTransaction_okE [go_elims]:
  assumes "LedgerRepo_CreateTransaction t0 w = (Inr t, w')"
  obtains i where "t = t0\<lparr>txn_ID := i, txn_CreatedAt := clock w, txn_UpdatedAt := clock w\<rparr>"
    "recorded (wdb w) t (wdb w')" "env w' = env w" "has_user (wdb w) (txn_UserID t)"
proof -
  from assms have "\<exists>i. t = t0\<lparr>txn_ID := i, txn_CreatedAt := clock w, txn_UpdatedAt := clock w\<rparr>
    \<and> recorded (wdb w) t (wdb w') \<and> env w' = env w \<and> has_user (wdb w) (txn_UserID t)"
    unfolding LedgerRepo_CreateTransaction_def
    by (auto elim!: mapped_okE stmt_okE simp: recorded_def Let_def split: if_splits)
  then show ?thesis using that by blast
qed

lemma InsertEntry_okE [go_elims]:
  assumes "LedgerRepo_InsertEntry e w = (Inr v, w')"
  obtains i where "wdb w' = (wdb w)\<lparr>ledger_entries := ledger_entries (wdb w) @ [e\<lparr>le_ID := i, le_CreatedAt := clock w\<rparr>]\<rparr>"
    "env w' = env w"
proof -
  let ?q = "\<lambda>i t d. if \<exists>r\<in>set (ledger_entries d). le_ID r = i then Inl ErrUniqueViolation
     else if \<not> (\<exists>r\<in>set (transactions d). txn_ID r = le_TransactionID e)
             \<or> \<not> (\<exists>a\<in>set (accounts d). acc_ID a = le_AccountID e) \<or> \<not> has_user d (le_UserID e)
     then Inl ErrDB
     else Inr ((), d\<lparr>ledger_entries := ledger_entries d @ [e\<lparr>le_ID := i, le_CreatedAt := t\<rparr>]\<rparr>)"
  from assms obtain i where q: "?q i (clock w) (wdb w) = Inr (v, wdb w')" and "env w' = env w"
    unfolding LedgerRepo_InsertEntry_def by (elim mapped_okE stmt_okE) blast
  moreover from q have "wdb w' = (wdb w)\<lparr>ledger_entries := ledger_entries (wdb w) @ [e\<lparr>le_ID := i, le_CreatedAt := clock w\<rparr>]\<rparr>"
    by (simp split: if_splits)
  ultimately show ?thesis using that by blast
qed

lemma post_okE [go_elims]:
  assumes "post txn aid uid mv cur amount nb w = (Inr v, w')"
  obtains "posted (wdb w) txn aid mv amount nb (wdb w')" "env w' = env w"
proof -
  from assms obtain w1 where
    ins: "LedgerRepo_InsertEntry \<lparr>le_ID = [], le_TransactionID = txn_ID txn, le_AccountID = aid, le_UserID = uid,
             le_Movement = mv, le_Currency = cur, le_AmountMinor = amount, le_CreatedAt = 0\<rparr> w = (Inr (), w1)"
    and set: "AccountRepo_SetBalance aid nb w1 = (Inr v, w')"
    unfolding post_def by (auto elim!: bnd_okE)
  from ins have "\<exists>e. wdb w1 = (wdb w)\<lparr>ledger_entries := ledger_entries (wdb w) @ [e]\<rparr> \<and>
    le_AccountID e = aid \<and> le_TransactionID e = txn_ID txn \<and> le_Movement e = mv \<and> le_AmountMinor e = amount"
    and env1: "env w1 = env w"
    by (elim InsertEntry_okE; force)+
  moreover from set have "wdb w' = (wdb w1)\<lparr>balances := (balances (wdb w1))(aid \<mapsto> nb)\<rparr>" and env2: "env w' = env w1"
    unfolding AccountRepo_SetBalance_def by (auto elim!: mapped_okE stmt_okE split: if_splits)
  ultimately have "posted (wdb w) txn aid mv amount nb (wdb w')" by (auto simp: posted_def)
  then show ?thesis using that env1 env2 by simp
qed

lemma pick_reference_okE [go_elims]:
  assumes "pick_reference reference ty w = (Inr r, w')"
  obtains "wdb w' = wdb w" "env w' = env w" "reference \<noteq> [] \<Longrightarrow> r = reference"
  using assms unfolding pick_reference_def
  by (auto elim!: bnd_okE ret_okE newRandRef_okE split: if_splits)

lemma find_replay_okE [go_elims]:
  assumes "find_replay key w = (Inr r, w')"
  obtains "r = None" "wdb w' = wdb w" "env w' = env w"
  | t where "r = Some t" "key \<noteq> []" "t \<in> set (transactions (wdb w))" "txn_IdempotencyKey t = key" "wdb w' = wdb w" "env w' = env w"
proof (cases "key = []")
  case True
  then show ?thesis using assms that(1) by (auto simp: find_replay_def elim!: ret_okE)
next
  case False
  with assms obtain x w1 where x: "LedgerRepo_FindTransactionByIDempotencyKey key w = (x, w1)"
    and k: "(case x of Inr existing \<Rightarrow> ret (Some existing) | Inl e \<Rightarrow> if errIs e ErrNotFound then ret None else fail e) w1 = (Inr r, w')"
    by (auto simp: find_replay_def elim!: bnd_okE attempt_okE)
  show ?thesis
  proof (cases x)
    case (Inl e)
    have "wdb w1 = wdb w" "env w1 = env w"
      using x Inl unfolding LedgerRepo_FindTransactionByIDempotencyKey_def mapped_def on_err_def
      by (auto split: prod.splits sum.splits dest: stmt_err)
    with Inl k that(1) show ?thesis by (auto elim!: ret_okE fail_okE split: if_splits)
  next
    case (Inr t)
    with x k that(2) [of t] False show ?thesis by (auto elim!: FindKey_okE ret_okE)
  qed
qed

lemma find_replay_fixed: "pres (=) (find_replay key)"
  unfolding find_replay_def by (intro fixed.pres_rules repos_read)

lemma or_replay_ok:
  assumes "or_replay key m w = (Inr t, w')"
  shows "m w = (Inr t, w') \<or>
    (\<exists>e w1. m w = (Inl e, w1) \<and> key \<noteq> [] \<and> t \<in> set (transactions (wdb w1)) \<and> txn_IdempotencyKey t = key
       \<and> wdb w' = wdb w1)"
  using assms unfolding or_replay_def
  by (auto elim!: bnd_okE attempt_okE ret_okE fail_okE FindKey_okE split: sum.splits if_splits)

lemma or_replay_err:
  assumes "or_replay key m w = (Inl e, w')"
  shows "\<exists>w1. m w = (Inl e, w1) \<and> wdb w' = wdb w1"
proof -
  obtain r w1 where m: "m w = (r, w1)" by (cases "m w")
  obtain f w2 where f: "LedgerRepo_FindTransactionByIDempotencyKey key w1 = (f, w2)"
    by (cases "LedgerRepo_FindTransactionByIDempotencyKey key w1")
  have "wdb w2 = wdb w1" using presD [OF repos_read(12) f] by simp
  then show ?thesis
    using assms m f unfolding or_replay_def
    by (auto simp: go_simps bnd_def split: sum.splits if_splits)
qed

section \<open>What a movement does\<close>

text \<open>The specification of a movement: the account the request names exists, a debit is covered, the total
  does not push the balance over the 64-bit range, and exactly one transaction and one entry are added.\<close>

definition moved :: "LedgerMoveRequest \<Rightarrow> LedgerMovement \<Rightarrow> db \<Rightarrow> Transaction \<Rightarrow> db \<Rightarrow> bool" where
  "moved req mv d t d' \<longleftrightarrow>
     (\<exists>acc d1. acc \<in> set (accounts d) \<and> acc_UserID acc = lm_UserID req \<and> acc_Kind acc = lm_AccountKind req
        \<and> acc_Currency acc = lm_Currency req
        \<and> in64 (ledger_sum d (acc_ID acc))
        \<and> (mv = MovementDebit \<longrightarrow> move_total req mv \<le> ledger_sum d (acc_ID acc))
        \<and> (0 < move_total req mv \<longrightarrow> 0 \<le> wrap64 (ledger_sum d (acc_ID acc) + move_total req mv))
        \<and> recorded d t d1
        \<and> posted d1 t (acc_ID acc) mv (move_total req mv)
            (wrap64 (ledger_sum d (acc_ID acc) + signed_by mv (move_total req mv))) d')
     \<and> (\<exists>reference i now. t = (request_txn req reference)\<lparr>txn_ID := i, txn_CreatedAt := now, txn_UpdatedAt := now\<rparr>)"

definition replayed :: "string \<Rightarrow> db \<Rightarrow> Transaction \<Rightarrow> bool" where
  "replayed key d t \<longleftrightarrow> key \<noteq> [] \<and> t \<in> set (transactions d) \<and> txn_IdempotencyKey t = key"

lemma move_body_ok:
  fixes w :: "'z world_scheme"
  assumes "move_body req mv w = (Inr t, w')"
  shows "moved req mv (wdb w) t (wdb w')"
proof -
  from assms obtain acc w1 where
    find: "AccountRepo_FindByUserAndKind (lm_UserID req) (lm_AccountKind req) (lm_Currency req) w = (Inr acc, w1)"
    and k1: "bnd (LedgerRepo_SumBalanceByAccount (acc_ID acc)) (\<lambda>current.
     let totalMovement = move_total req mv in
     bnd (reject (mv = MovementDebit \<and> current < totalMovement) ErrInsufficientBalance) (\<lambda>_.
     bnd (reject (totalMovement > 0 \<and> wrap64 (current + totalMovement) < 0) ErrInsufficientBalance) (\<lambda>_.
     let newBalance = (if mv = MovementCredit then wrap64 (current + totalMovement)
                       else wrap64 (current - totalMovement)) in
     bnd (pick_reference (lm_Reference req) (lm_Type req)) (\<lambda>reference.
     bnd (LedgerRepo_CreateTransaction (request_txn req reference)) (\<lambda>txn.
     bnd (post txn (acc_ID acc) (lm_UserID req) mv (lm_Currency req) totalMovement newBalance) (\<lambda>_.
     ret txn)))))) w1 = (Inr t, w')"
    unfolding move_body_def by (rule bnd_okE)
  from find have acc: "acc \<in> set (accounts (wdb w))" "acc_UserID acc = lm_UserID req" "acc_Kind acc = lm_AccountKind req"
      "acc_Currency acc = lm_Currency req" "wdb w1 = wdb w"
    by (elim FindByUserAndKind_okE; simp)+
  from k1 obtain s w2 where s: "LedgerRepo_SumBalanceByAccount (acc_ID acc) w1 = (Inr s, w2)"
    and covered: "mv = MovementDebit \<longrightarrow> move_total req mv \<le> s"
    and fits: "0 < move_total req mv \<longrightarrow> 0 \<le> wrap64 (s + move_total req mv)"
    and k2: "bnd (pick_reference (lm_Reference req) (lm_Type req)) (\<lambda>reference.
     bnd (LedgerRepo_CreateTransaction (request_txn req reference)) (\<lambda>txn.
     bnd (post txn (acc_ID acc) (lm_UserID req) mv (lm_Currency req) (move_total req mv)
       (if mv = MovementCredit then wrap64 (s + move_total req mv) else wrap64 (s - move_total req mv))) (\<lambda>_.
     ret txn))) w2 = (Inr t, w')"
    unfolding Let_def by (elim bnd_okE [where m = "LedgerRepo_SumBalanceByAccount (acc_ID acc)"])
      (auto simp: bnd_reject split: if_splits)
  from s have s: "s = ledger_sum (wdb w) (acc_ID acc)" "in64 s" "wdb w2 = wdb w"
    using acc(5) by (elim SumBalance_okE; simp)+
  from k2 obtain ref and w3 w4 :: "'z world_scheme" where ref: "wdb w3 = wdb w2"
    and create: "LedgerRepo_CreateTransaction (request_txn req ref) w3 = (Inr t, w4)"
    and post: "posted (wdb w4) t (acc_ID acc) mv (move_total req mv)
      (if mv = MovementCredit then wrap64 (s + move_total req mv) else wrap64 (s - move_total req mv)) (wdb w')"
    by (elim bnd_okE pick_reference_okE post_okE ret_okE) (hypsubst, rule that, assumption+)
  from create obtain i where t: "t = (request_txn req ref)\<lparr>txn_ID := i, txn_CreatedAt := clock w3, txn_UpdatedAt := clock w3\<rparr>"
    and rec: "recorded (wdb w3) t (wdb w4)"
    by (elim CreateTransaction_okE)
  have nb: "(if mv = MovementCredit then wrap64 (s + move_total req mv) else wrap64 (s - move_total req mv))
      = wrap64 (s + signed_by mv (move_total req mv))"
    by (cases mv) simp_all
  show ?thesis
    unfolding moved_def
    using acc s covered fits ref rec post [unfolded nb] t by auto
qed

lemma move_outcome:
  assumes "move req mv w = (r, w')"
  shows "case r of Inl e \<Rightarrow> wdb w' = wdb w
    | Inr t \<Rightarrow> moved req mv (wdb w) t (wdb w') \<or> replayed (lm_IdempotencyKey req) (wdb w) t \<and> wdb w' = wdb w"
proof -
  let ?key = "lm_IdempotencyKey req"
  obtain x w1 where f: "find_replay ?key w = (x, w1)" by (cases "find_replay ?key w")
  have same1: "wdb w1 = wdb w" using presD [OF find_replay_fixed f] by simp
  let ?tx = "RunInTx (move_body req mv)"
  have tx_err: "wdb w2 = wdb w1" if "?tx w1 = (Inl e, w2)" for e w2
    using that by (rule RunInTx_err)
  have tx_ok: "moved req mv (wdb w) t (wdb w2)" if "?tx w1 = (Inr t, w2)" for t w2
    using that same1 by (elim RunInTx_okE) (drule move_body_ok, simp)
  show ?thesis
  proof (cases x)
    case (Inl e)
    then show ?thesis using assms f same1 by (auto simp: move_def bnd_def)
  next
    case (Inr ex)
    show ?thesis
    proof (cases ex)
      case (Some t)
      then show ?thesis using assms f Inr same1
        by (auto simp: move_def bnd_def ret_def replayed_def elim!: find_replay_okE)
    next
      case None
      then have m: "or_replay ?key ?tx w1 = (r, w')" using assms f Inr by (simp add: move_def bnd_def)
      show ?thesis
      proof (cases r)
        case (Inl e)
        then show ?thesis using or_replay_err [OF m [unfolded Inl]] tx_err same1 by auto
      next
        case (Inr t)
        from or_replay_ok [OF m [unfolded Inr]] show ?thesis
        proof
          assume "?tx w1 = (Inr t, w')"
          then show ?thesis using tx_ok Inr by simp
        next
          assume "\<exists>e w2. ?tx w1 = (Inl e, w2) \<and> ?key \<noteq> [] \<and> t \<in> set (transactions (wdb w2))
            \<and> txn_IdempotencyKey t = ?key \<and> wdb w' = wdb w2"
          then show ?thesis
          proof (elim exE conjE)
            fix e w2
            assume tx: "?tx w1 = (Inl e, w2)" and "?key \<noteq> []" "t \<in> set (transactions (wdb w2))"
              "txn_IdempotencyKey t = ?key" "wdb w' = wdb w2"
            moreover have "wdb w2 = wdb w" using tx_err [OF tx] same1 by simp
            ultimately show ?thesis using Inr by (simp add: replayed_def)
          qed
        qed
      qed
    qed
  qed
qed

lemma moved_ledger:
  assumes "moved req mv d t d'"
  obtains acc where "acc \<in> set (accounts d)" "acc_UserID acc = lm_UserID req" "acc_Kind acc = lm_AccountKind req"
    "acc_Currency acc = lm_Currency req" "in64 (ledger_sum d (acc_ID acc))"
    "mv = MovementDebit \<Longrightarrow> move_total req mv \<le> ledger_sum d (acc_ID acc)"
    "0 < move_total req mv \<Longrightarrow> 0 \<le> wrap64 (ledger_sum d (acc_ID acc) + move_total req mv)"
    "\<And>aid. ledger_sum d' aid = ledger_sum d aid + (if aid = acc_ID acc then signed_by mv (move_total req mv) else 0)"
    "accounts d' = accounts d"
proof -
  from assms obtain acc d1 where acc: "acc \<in> set (accounts d)" "acc_UserID acc = lm_UserID req"
      "acc_Kind acc = lm_AccountKind req" "acc_Currency acc = lm_Currency req" "in64 (ledger_sum d (acc_ID acc))"
      "mv = MovementDebit \<longrightarrow> move_total req mv \<le> ledger_sum d (acc_ID acc)"
      "0 < move_total req mv \<longrightarrow> 0 \<le> wrap64 (ledger_sum d (acc_ID acc) + move_total req mv)"
    and rec: "recorded d t d1"
    and post: "posted d1 t (acc_ID acc) mv (move_total req mv)
      (wrap64 (ledger_sum d (acc_ID acc) + signed_by mv (move_total req mv))) d'"
    unfolding moved_def by blast
  show ?thesis
    using acc by (intro that) (auto simp: posted_sum [OF post] posted_frame [OF post] recorded_frame [OF rec])
qed

lemma moved_projection:
  assumes "moved req mv d t d'" and "projection_ok d"
  shows "projection_ok d'"
proof -
  from assms(1) obtain acc :: Account and d1 where rec: "recorded d t d1"
    and post: "posted d1 t (acc_ID acc) mv (move_total req mv)
      (wrap64 (ledger_sum d (acc_ID acc) + signed_by mv (move_total req mv))) d'"
    unfolding moved_def by blast
  show ?thesis
    by (rule projection_posted [OF projection_recorded [OF assms(2) rec] post]) (simp add: recorded_frame [OF rec])
qed

text \<open>How an effect shows in the log: one new transaction with a new key, and entries of it.\<close>

definition logged :: "string \<Rightarrow> db \<Rightarrow> Transaction \<Rightarrow> db \<Rightarrow> bool" where
  "logged key d t d' \<longleftrightarrow> transactions d' = transactions d @ [t] \<and> txn_IdempotencyKey t = key
     \<and> (\<forall>r\<in>set (transactions d). txn_ID r \<noteq> txn_ID t \<and> (key \<noteq> [] \<longrightarrow> txn_IdempotencyKey r \<noteq> key))
     \<and> (\<exists>es. ledger_entries d' = ledger_entries d @ es \<and> (\<forall>e\<in>set es. le_TransactionID e = txn_ID t))"

lemma logged_recorded_posted:
  assumes "recorded d t d1" and "posted d1 t a mv amount nb d2"
  shows "logged (txn_IdempotencyKey t) d t d2"
  using assms by (auto simp: recorded_def posted_def logged_def)

lemma logged_posted:
  assumes "logged key d t d1" and "posted d1 t a mv amount nb d2"
  shows "logged key d t d2"
  using assms by (auto simp: posted_def logged_def)

lemma moved_logged: "moved req mv d t d' \<Longrightarrow> logged (lm_IdempotencyKey req) d t d'"
  unfolding moved_def using logged_recorded_posted by (fastforce simp: request_txn_def)

section \<open>The contract of a money operation\<close>

text \<open>Every operation that moves money (credit, debit, deposit, withdrawal, external withdrawal, transfer,
  conversion) meets the same contract with its own effect: failing it leaves the ledger tables alone;
  succeeding it either returns an earlier transaction with the request's key, the ledger unchanged, or has
  its effect between two steps that leave the ledger alone (inbox, accounts). The contract alone gives
  that the log only grows, that keys stay unique and that a request is carried out at most once; where the
  effect keeps the projection right, so does the operation.\<close>

definition keys_unique :: "db \<Rightarrow> bool" where
  "keys_unique d \<longleftrightarrow>
     distinct (map txn_IdempotencyKey (filter (\<lambda>t. txn_IdempotencyKey t \<noteq> []) (transactions d)))"

lemma keys_unique_tables: "keys_unique d \<Longrightarrow> tables_same d d' \<Longrightarrow> keys_unique d'"
  by (simp add: keys_unique_def tables_same_def)

lemmas keys_unique_same = keys_unique_tables [OF _ same_tables]

lemma keys_unique_logged: "keys_unique d \<Longrightarrow> logged key d t d' \<Longrightarrow> keys_unique d'"
  by (auto simp: keys_unique_def logged_def)

lemma keys_unique_eq:
  assumes "keys_unique d" "replayed key d t" "replayed key d t'"
  shows "t = t'"
proof -
  have "inj_on txn_IdempotencyKey (set (filter (\<lambda>t. txn_IdempotencyKey t \<noteq> []) (transactions d)))"
    using assms(1) by (simp add: keys_unique_def distinct_map)
  then show ?thesis using assms(2,3) by (auto simp: replayed_def inj_on_def)
qed

locale keyed_operation =
  fixes op :: "'r \<Rightarrow> ('z world_scheme, Transaction) go"
    and key :: "'r \<Rightarrow> string"
    and eff :: "'r \<Rightarrow> db \<Rightarrow> Transaction \<Rightarrow> db \<Rightarrow> bool"
    and pre :: "'r \<Rightarrow> db \<Rightarrow> bool"
  assumes failure: "op r w = (Inl e, w') \<Longrightarrow> pre r (wdb w) \<Longrightarrow> ledger_same (wdb w) (wdb w')"
    and success: "op r w = (Inr t, w') \<Longrightarrow> pre r (wdb w) \<Longrightarrow>
      replayed (key r) (wdb w) t \<and> ledger_same (wdb w) (wdb w') \<or>
      (\<exists>d1 d2. ledger_same (wdb w) d1 \<and> eff r d1 t d2 \<and> ledger_same d2 (wdb w'))"
    and eff_logged: "eff r d t d' \<Longrightarrow> logged (key r) d t d'"
begin

lemma outcome_cases:
  assumes "op r w = (res, w')" and "pre r (wdb w)"
  obtains (unchanged) "ledger_same (wdb w) (wdb w')" "\<And>t. res = Inr t \<Longrightarrow> replayed (key r) (wdb w) t"
  | (effect) t d1 d2 where "res = Inr t" "ledger_same (wdb w) d1" "eff r d1 t d2" "ledger_same d2 (wdb w')"
proof (cases res)
  case (Inl e)
  then show ?thesis using failure assms unchanged by auto
next
  case (Inr t)
  then show ?thesis using success [of r w t w'] assms unchanged effect by auto
qed

lemma keeps_keys_unique: "op r w = (res, w') \<Longrightarrow> pre r (wdb w) \<Longrightarrow> keys_unique (wdb w) \<Longrightarrow> keys_unique (wdb w')"
  by (elim outcome_cases) (metis keys_unique_same keys_unique_logged eff_logged)+

lemma log_grows: "op r w = (res, w') \<Longrightarrow> pre r (wdb w) \<Longrightarrow> ledger_grows (wdb w) (wdb w')"
proof (elim outcome_cases)
  assume "ledger_same (wdb w) (wdb w')"
  then show ?thesis by (rule grows_if_same)
next
  fix t d1 d2
  assume "ledger_same (wdb w) d1" "eff r d1 t d2" "ledger_same d2 (wdb w')"
  then show ?thesis using eff_logged [of r d1 t d2] by (auto simp: logged_def ledger_same_def tables_same_def ledger_grows_def)
qed

lemma at_most_once:
  assumes run: "op r w = (res, w')" "pre r (wdb w)" and "keys_unique (wdb w)" and "replayed (key r) (wdb w) t"
  shows "ledger_same (wdb w) (wdb w') \<and> (\<forall>t'. res = Inr t' \<longrightarrow> t' = t)"
  using run
proof (cases rule: outcome_cases)
  case unchanged
  then show ?thesis using assms keys_unique_eq by blast
next
  case (effect t' d1 d2)
  then have "t \<in> set (transactions d1)" using assms(4) by (simp add: ledger_same_def tables_same_def replayed_def)
  then show ?thesis using eff_logged [OF effect(3)] assms(4) by (auto simp: logged_def replayed_def)
qed

lemma success_recorded:
  assumes "op r w = (Inr t, w')" "pre r (wdb w)" and "key r \<noteq> []"
  shows "replayed (key r) (wdb w') t"
  using assms(1,2)
proof (cases rule: outcome_cases)
  case unchanged
  then show ?thesis by (auto simp: replayed_def ledger_same_def tables_same_def)
next
  case (effect t' d1 d2)
  then show ?thesis using eff_logged [OF effect(3)] assms(3) by (auto simp: logged_def replayed_def ledger_same_def tables_same_def)
qed

end

locale money_operation = keyed_operation +
  assumes eff_projection: "eff r d t d' \<Longrightarrow> projection_ok d \<Longrightarrow> projection_ok d'"
begin

lemma keeps_projection: "op r w = (res, w') \<Longrightarrow> pre r (wdb w) \<Longrightarrow> projection_ok (wdb w) \<Longrightarrow> projection_ok (wdb w')"
  by (elim outcome_cases) (metis projection_same eff_projection)+

end

lemma move_failure: "move req mv w = (Inl e, w') \<Longrightarrow> ledger_same (wdb w) (wdb w')"
  using move_outcome [of req mv w "Inl e" w'] by (simp add: same.refl)

lemma move_success:
  assumes "move req mv w = (Inr t, w')"
  shows "replayed (lm_IdempotencyKey req) (wdb w) t \<and> ledger_same (wdb w) (wdb w') \<or>
     (\<exists>d1 d2. ledger_same (wdb w) d1 \<and> moved req mv d1 t d2 \<and> ledger_same d2 (wdb w'))"
  using move_outcome [OF assms] same.refl by auto

interpretation credit: money_operation Credit lm_IdempotencyKey "\<lambda>r. moved r MovementCredit" "\<lambda>_ _. True"
proof unfold_locales
  show "ledger_same (wdb w) (wdb w')" if "Credit r w = (Inl e, w')" for r and w :: "'z world_scheme" and e w'
    using that move_failure by (auto simp: Credit_def fail_def same.refl split: if_splits)
  show "replayed (lm_IdempotencyKey r) (wdb w) t \<and> ledger_same (wdb w) (wdb w') \<or>
      (\<exists>d1 d2. ledger_same (wdb w) d1 \<and> moved r MovementCredit d1 t d2 \<and> ledger_same d2 (wdb w'))"
    if "Credit r w = (Inr t, w')" for r and w :: "'z world_scheme" and t w'
    using that by (intro move_success) (simp add: Credit_def fail_def split: if_splits)
qed (simp_all add: moved_projection moved_logged)

interpretation debit: money_operation Debit lm_IdempotencyKey "\<lambda>r. moved r MovementDebit" "\<lambda>_ _. True"
proof unfold_locales
  show "ledger_same (wdb w) (wdb w')" if "Debit r w = (Inl e, w')" for r and w :: "'z world_scheme" and e w'
    using that move_failure by (auto simp: Debit_def fail_def same.refl split: if_splits)
  show "replayed (lm_IdempotencyKey r) (wdb w) t \<and> ledger_same (wdb w) (wdb w') \<or>
      (\<exists>d1 d2. ledger_same (wdb w) d1 \<and> moved r MovementDebit d1 t d2 \<and> ledger_same d2 (wdb w'))"
    if "Debit r w = (Inr t, w')" for r and w :: "'z world_scheme" and t w'
    using that by (intro move_success) (simp add: Debit_def fail_def split: if_splits)
qed (simp_all add: moved_projection moved_logged)

end
