(* ===== verification/MoneyService.thy ===== *)
theory MoneyService
  imports Ledger
begin

text \<open>
  The money service (\<open>src/backend/internal/services/money.go\<close>): deposits, withdrawals, external
  withdrawals with a platform fee, transfers, conversion quotes and conversions, payees and payout
  accounts. Inbox notifications, mails and hub events are best effort: their failures never reach the
  result. \<open>money_cfg\<close> says which optional collaborators are wired.
\<close>

record money_cfg =
  has_mailer :: bool
  has_hub :: bool

section \<open>Notifications\<close>

definition notifyChanged :: "money_cfg \<Rightarrow> string \<Rightarrow> ('z world_scheme, unit) go" where
  "notifyChanged cfg userID =
     (if \<not> has_hub cfg then ret ()
      else modify (\<lambda>w. w\<lparr>hub_log := hub_log w @ [\<lparr>ev_Type = ''data.changed'', ev_UserID = userID, ev_Kind = ''all''\<rparr>]\<rparr>))"

definition notify :: "string \<Rightarrow> NotificationCategory \<Rightarrow> string \<Rightarrow> string \<Rightarrow> ('z world_scheme, unit) go" where
  "notify userID category title body = ignore (NotificationRepo_Create userID category title body)"

text \<open>The naira sign is the UTF-8 sequence E2 82 A6.\<close>

definition formatMinor :: "int64 \<Rightarrow> string \<Rightarrow> string" where
  "formatMinor amount currency =
     (let symbol = (if currency = ''NGN'' then [CHR 0xE2, CHR 0x82, CHR 0xA6] else currency @ '' '');
          abs = (if amount < 0 then wrap64 (- amount) else amount)
      in symbol @ show_int (abs sdiv 100) @ ''.'' @ fmt02d (abs smod 100))"

definition emailUser :: "money_cfg \<Rightarrow> string \<Rightarrow> string \<Rightarrow> string \<Rightarrow> int64 \<Rightarrow> ('z world_scheme, unit) go" where
  "emailUser cfg userID template currency amountMinor =
     (if \<not> has_mailer cfg \<or> userID = [] \<or> userID = PlatformUserID then ret ()
      else bnd (attempt (UserRepo_FindByID userID)) (\<lambda>r. case r of
             Inl _ \<Rightarrow> ret ()
           | Inr u \<Rightarrow>
               if u_Email u = [] \<or> u_Status u \<noteq> UserStatusActive then ret ()
               else modify (\<lambda>w. w\<lparr>mail_log := mail_log w @
                      [(template, [u_Email u, TrimSpace (u_FirstName u @ '' '' @ u_LastName u),
                                   formatMinor amountMinor currency])]\<rparr>)))"

definition or_NGN :: "string \<Rightarrow> string" where
  "or_NGN currency = (if currency = [] then ''NGN'' else currency)"

section \<open>Deposits and withdrawals\<close>

definition deposit_request :: "string \<Rightarrow> string \<Rightarrow> int64 \<Rightarrow> string \<Rightarrow> LedgerMoveRequest" where
  "deposit_request userID currency amountMinor key =
     \<lparr>lm_UserID = userID, lm_AccountKind = AccountKindAvailable, lm_Currency = currency,
      lm_Type = TransactionTypeDeposit, lm_AmountMinor = amountMinor, lm_FeeMinor = 0, lm_ExchangeRate = [],
      lm_Reference = [], lm_ProviderRef = [], lm_IdempotencyKey = key, lm_Metadata = None\<rparr>"

definition Deposit :: "money_cfg \<Rightarrow> string \<Rightarrow> string \<Rightarrow> int64 \<Rightarrow> string \<Rightarrow> ('z world_scheme, Transaction) go" where
  "Deposit cfg userID currency0 amountMinor key =
     (let currency = or_NGN currency0 in
      bnd (find_replay key) (\<lambda>existing. case existing of
        Some t \<Rightarrow> ret t
      | None \<Rightarrow>
          bnd (Credit (deposit_request userID currency amountMinor key)) (\<lambda>txn.
          bnd (notify userID ''deposit'' ''Money received''
                 (formatMinor amountMinor currency @ '' arrived in your available balance.'')) (\<lambda>_.
          bnd (emailUser cfg userID ''SendMoneyReceived'' currency amountMinor) (\<lambda>_.
          bnd (notifyChanged cfg userID) (\<lambda>_. ret txn))))))"

definition Withdraw :: "money_cfg \<Rightarrow> LedgerMoveRequest \<Rightarrow> string \<Rightarrow> ('z world_scheme, Transaction) go" where
  "Withdraw cfg req0 key =
     (let req = req0\<lparr>lm_Currency := or_NGN (lm_Currency req0), lm_IdempotencyKey := key\<rparr> in
      bnd (find_replay key) (\<lambda>existing. case existing of
        Some t \<Rightarrow> ret t
      | None \<Rightarrow>
          bnd (Debit req) (\<lambda>txn.
          bnd (notify (lm_UserID req) ''withdrawal'' ''Withdrawal sent''
                 (formatMinor (lm_AmountMinor req) (lm_Currency req) @ '' sent from your available balance.'')) (\<lambda>_.
          bnd (emailUser cfg (lm_UserID req) ''SendMoneySent'' (lm_Currency req) (lm_AmountMinor req)) (\<lambda>_.
          bnd (notifyChanged cfg (lm_UserID req)) (\<lambda>_. ret txn))))))"

text \<open>The settlement of an external withdrawal inside its transaction.\<close>

definition settle_fee :: "LedgerMoveRequest \<Rightarrow> Transaction \<Rightarrow> ('z world_scheme, unit) go" where
  "settle_fee req txn =
     (if lm_FeeMinor req > 0 then
        bnd (AccountRepo_EnsureAccount PlatformUserID AccountKindPlatformFees (lm_Currency req)) (\<lambda>feeAcct.
        bnd (LedgerRepo_SumBalanceByAccount (acc_ID feeAcct)) (\<lambda>feeBalance.
        post txn (acc_ID feeAcct) PlatformUserID MovementCredit (lm_Currency req) (lm_FeeMinor req)
          (wrap64 (feeBalance + lm_FeeMinor req))))
      else ret ())"

definition external_body :: "LedgerMoveRequest \<Rightarrow> int64 \<Rightarrow> ('z world_scheme, Transaction) go" where
  "external_body req totalMinor =
     bnd (AccountRepo_FindByUserAndKind (lm_UserID req) (lm_AccountKind req) (lm_Currency req)) (\<lambda>from.
     bnd (LedgerRepo_SumBalanceByAccount (acc_ID from)) (\<lambda>fromBalance.
     bnd (reject (fromBalance < totalMinor) ErrInsufficientBalance) (\<lambda>_.
     bnd (pick_reference (lm_Reference req) (lm_Type req)) (\<lambda>reference.
     bnd (LedgerRepo_CreateTransaction (request_txn req reference)) (\<lambda>txn.
     bnd (post txn (acc_ID from) (lm_UserID req) MovementDebit (lm_Currency req) totalMinor (wrap64 (fromBalance - totalMinor))) (\<lambda>_.
     bnd (settle_fee req txn) (\<lambda>_. ret txn)))))))"

definition WithdrawExternal :: "money_cfg \<Rightarrow> LedgerMoveRequest \<Rightarrow> string \<Rightarrow> ('z world_scheme, Transaction) go" where
  "WithdrawExternal cfg req0 key =
     (let req = req0\<lparr>lm_Currency := or_NGN (lm_Currency req0), lm_IdempotencyKey := key\<rparr> in
      if lm_AmountMinor req \<le> 0 \<or> lm_FeeMinor req < 0 then fail ErrInvalidAmount
      else
        (let totalMinor = wrap64 (lm_AmountMinor req + lm_FeeMinor req) in
         bnd (find_replay key) (\<lambda>existing. case existing of
           Some t \<Rightarrow> ret t
         | None \<Rightarrow>
             bnd (RunInTx (external_body req totalMinor)) (\<lambda>result.
             bnd (emailUser cfg (lm_UserID req) ''SendMoneySent'' (lm_Currency req) (lm_AmountMinor req)) (\<lambda>_.
             bnd (notifyChanged cfg (lm_UserID req)) (\<lambda>_. ret result))))))"

section \<open>Transfers\<close>

record TransferRequest =
  tr_UserID :: string
  tr_FromKind :: AccountKind
  tr_ToKind :: AccountKind
  tr_Currency :: string
  tr_AmountMinor :: int64
  tr_FeeMinor :: int64
  tr_ExchangeRate :: string
  tr_Reference :: string
  tr_ProviderRef :: string
  tr_IdempotencyKey :: string
  tr_Metadata :: "metadata option"
  tr_Destination :: string
  tr_Description :: string

definition metadataWith :: "metadata option \<Rightarrow> string \<Rightarrow> string \<Rightarrow> metadata" where
  "metadataWith base description destination =
     (let m = defaultMetadata base;
          m = (if description \<noteq> [] then m(''description'' \<mapsto> JStr description) else m)
      in if destination \<noteq> [] then m(''destination'' \<mapsto> JStr destination) else m)"

definition transfer_txn :: "TransferRequest \<Rightarrow> string \<Rightarrow> Transaction" where
  "transfer_txn req reference =
     \<lparr>txn_ID = [], txn_UserID = tr_UserID req, txn_Type = TransactionTypeTransfer, txn_Status = StatusCompleted,
      txn_Currency = tr_Currency req, txn_AmountMinor = tr_AmountMinor req, txn_FeeMinor = tr_FeeMinor req,
      txn_ExchangeRate = tr_ExchangeRate req, txn_Reference = reference, txn_ProviderRef = tr_ProviderRef req,
      txn_IdempotencyKey = tr_IdempotencyKey req,
      txn_Metadata = metadataWith (tr_Metadata req) (tr_Description req) (tr_Destination req),
      txn_CreatedAt = 0, txn_UpdatedAt = 0\<rparr>"

definition transfer_fee :: "TransferRequest \<Rightarrow> Transaction \<Rightarrow> Account \<Rightarrow> int64 \<Rightarrow> ('z world_scheme, unit) go" where
  "transfer_fee req txn from fromBalance =
     (if tr_FeeMinor req > 0 then
        post txn (acc_ID from) (tr_UserID req) MovementDebit (tr_Currency req) (tr_FeeMinor req)
          (wrap64 (wrap64 (fromBalance - tr_AmountMinor req) - tr_FeeMinor req))
      else ret ())"

definition transfer_credit :: "TransferRequest \<Rightarrow> Transaction \<Rightarrow> ('z world_scheme, unit) go" where
  "transfer_credit req txn =
     (if tr_ToKind req \<noteq> [] then
        bnd (AccountRepo_FindByUserAndKind (tr_UserID req) (tr_ToKind req) (tr_Currency req)) (\<lambda>to.
        bnd (LedgerRepo_SumBalanceByAccount (acc_ID to)) (\<lambda>toBalance.
        post txn (acc_ID to) (tr_UserID req) MovementCredit (tr_Currency req) (tr_AmountMinor req)
          (wrap64 (toBalance + tr_AmountMinor req))))
      else ret ())"

definition transfer_body :: "TransferRequest \<Rightarrow> int64 \<Rightarrow> ('z world_scheme, Transaction) go" where
  "transfer_body req totalMinor =
     bnd (AccountRepo_FindByUserAndKind (tr_UserID req) (tr_FromKind req) (tr_Currency req)) (\<lambda>from.
     bnd (LedgerRepo_SumBalanceByAccount (acc_ID from)) (\<lambda>fromBalance.
     bnd (reject (fromBalance < totalMinor) ErrInsufficientBalance) (\<lambda>_.
     bnd (pick_reference (tr_Reference req) TransactionTypeTransfer) (\<lambda>reference.
     bnd (LedgerRepo_CreateTransaction (transfer_txn req reference)) (\<lambda>txn.
     bnd (post txn (acc_ID from) (tr_UserID req) MovementDebit (tr_Currency req) (tr_AmountMinor req)
            (wrap64 (fromBalance - tr_AmountMinor req))) (\<lambda>_.
     bnd (transfer_fee req txn from fromBalance) (\<lambda>_.
     bnd (transfer_credit req txn) (\<lambda>_. ret txn))))))))"

definition transfer_dest :: "TransferRequest \<Rightarrow> string" where
  "transfer_dest req =
     (let dest = tr_ToKind req;
          dest = (if dest = [] then tr_Destination req else dest)
      in if dest = [] then ''external account'' else dest)"

definition Transfer :: "money_cfg \<Rightarrow> TransferRequest \<Rightarrow> ('z world_scheme, Transaction) go" where
  "Transfer cfg req0 =
     (if tr_AmountMinor req0 \<le> 0 then fail ErrInvalidAmount
      else
        (let totalMinor = wrap64 (tr_AmountMinor req0 + tr_FeeMinor req0);
             req = req0\<lparr>tr_Currency := or_NGN (tr_Currency req0)\<rparr> in
         bnd (find_replay (tr_IdempotencyKey req)) (\<lambda>existing. case existing of
           Some t \<Rightarrow> ret t
         | None \<Rightarrow>
             bnd (attempt (RunInTx (transfer_body req totalMinor))) (\<lambda>r. case r of
               Inr result \<Rightarrow>
                 bnd (notify (tr_UserID req) ''transfer'' ''Transfer completed''
                        (formatMinor (tr_AmountMinor req) (tr_Currency req) @ '' moved to '' @ transfer_dest req @ ''.'')) (\<lambda>_.
                 bnd (if tr_ToKind req = []
                      then emailUser cfg (tr_UserID req) ''SendMoneySent'' (tr_Currency req) (tr_AmountMinor req)
                      else ret ()) (\<lambda>_.
                 bnd (notifyChanged cfg (tr_UserID req)) (\<lambda>_. ret result)))
             | Inl e \<Rightarrow> or_replay (tr_IdempotencyKey req) (fail e)))))"

section \<open>Conversions\<close>

record Quote =
  q_InputAmount :: int64
  q_InputCurrency :: string
  q_OutputAmount :: int64
  q_OutputCurrency :: string
  q_Rate :: int64
  q_FeeBPS :: int
  q_FeeAmount :: int64
  q_MinMinor :: int64
  q_MaxMinor :: int64

definition GetRate :: "string \<Rightarrow> string \<Rightarrow> ('z world_scheme, ExchangeRate) go" where
  "GetRate base quote = ExchangeRateRepo_FindByPair base quote"

definition convertCrossQuotes :: "int64 \<Rightarrow> int64 \<Rightarrow> string \<Rightarrow> string \<Rightarrow> err + int64" where
  "convertCrossQuotes baseMinor rate base quote =
     (if rate \<le> 0 then Inl ErrInvalidAmount
      else if quote = ''NGN'' then
        (case MulRatio (FromMinorUnits baseMinor) rate MinorUnit of Inl e \<Rightarrow> Inl (ErrMoney e) | Inr m \<Rightarrow> Inr (Minor m))
      else if base = ''NGN'' then
        (case MulRatio (FromMinorUnits baseMinor) MinorUnit rate of Inl e \<Rightarrow> Inl (ErrMoney e) | Inr m \<Rightarrow> Inr (Minor m))
      else Inl ErrUnsupportedCurrency)"

text \<open>The arithmetic of a quote, from the rate row.\<close>

definition quote_from_rate :: "int64 \<Rightarrow> string \<Rightarrow> string \<Rightarrow> ExchangeRate \<Rightarrow> err + Quote" where
  "quote_from_rate amountMinor fromCurrency toCurrency rate =
     (if er_Rate rate \<le> 0 then Inl ErrRateNotFound
      else if amountMinor < er_MinMinor rate \<or> amountMinor > er_MaxMinor rate then Inl ErrRateExceeded
      else
        (let input = FromMinorUnits amountMinor in
         case Percent input (er_FeeBPS rate) of
           Inl _ \<Rightarrow> Inl ErrBadRequest
         | Inr fee \<Rightarrow>
             (case Sub input fee of
                Inl _ \<Rightarrow> Inl ErrBadRequest
              | Inr net \<Rightarrow>
                  (case convertCrossQuotes (Minor net) (er_Rate rate) fromCurrency toCurrency of
                     Inl _ \<Rightarrow> Inl ErrBadRequest
                   | Inr output \<Rightarrow>
                       Inr \<lparr>q_InputAmount = amountMinor, q_InputCurrency = fromCurrency, q_OutputAmount = output,
                            q_OutputCurrency = toCurrency, q_Rate = er_Rate rate, q_FeeBPS = er_FeeBPS rate,
                            q_FeeAmount = Minor fee, q_MinMinor = er_MinMinor rate, q_MaxMinor = er_MaxMinor rate\<rparr>))))"

definition QuoteConversion :: "int64 \<Rightarrow> string \<Rightarrow> string \<Rightarrow> ('z world_scheme, Quote) go" where
  "QuoteConversion amountMinor fromCurrency toCurrency =
     (if amountMinor \<le> 0 then fail ErrInvalidAmount
      else bnd (ExchangeRateRepo_FindByPair fromCurrency toCurrency) (\<lambda>rate.
           lift (quote_from_rate amountMinor fromCurrency toCurrency rate)))"

definition conversion_txn :: "string \<Rightarrow> Quote \<Rightarrow> string \<Rightarrow> string \<Rightarrow> Transaction" where
  "conversion_txn userID quote key reference =
     \<lparr>txn_ID = [], txn_UserID = userID, txn_Type = TransactionTypeConversion, txn_Status = StatusCompleted,
      txn_Currency = q_InputCurrency quote, txn_AmountMinor = q_InputAmount quote, txn_FeeMinor = q_FeeAmount quote,
      txn_ExchangeRate = String (FromMinorUnits (q_Rate quote)), txn_Reference = reference, txn_ProviderRef = [],
      txn_IdempotencyKey = key,
      txn_Metadata = [''from_currency'' \<mapsto> JStr (q_InputCurrency quote), ''to_currency'' \<mapsto> JStr (q_OutputCurrency quote),
                      ''output_amount'' \<mapsto> JInt (q_OutputAmount quote)],
      txn_CreatedAt = 0, txn_UpdatedAt = 0\<rparr>"

definition convert_body :: "string \<Rightarrow> Quote \<Rightarrow> string \<Rightarrow> ('z world_scheme, Transaction) go" where
  "convert_body userID quote key =
     bnd (AccountRepo_FindByUserAndKind userID AccountKindAvailable (q_InputCurrency quote)) (\<lambda>from.
     bnd (AccountRepo_FindByUserAndKind userID AccountKindAvailable (q_OutputCurrency quote)) (\<lambda>to.
     bnd (LedgerRepo_SumBalanceByAccount (acc_ID from)) (\<lambda>fromBal.
     bnd (reject (fromBal < q_InputAmount quote) ErrInsufficientBalance) (\<lambda>_.
     bnd (LedgerRepo_SumBalanceByAccount (acc_ID to)) (\<lambda>toBal.
     bnd (pick_reference [] TransactionTypeConversion) (\<lambda>reference.
     bnd (LedgerRepo_CreateTransaction (conversion_txn userID quote key reference)) (\<lambda>txn.
     bnd (post txn (acc_ID from) userID MovementDebit (q_InputCurrency quote) (q_InputAmount quote)
            (wrap64 (fromBal - q_InputAmount quote))) (\<lambda>_.
     bnd (post txn (acc_ID to) userID MovementCredit (q_OutputCurrency quote) (q_OutputAmount quote)
            (wrap64 (toBal + q_OutputAmount quote))) (\<lambda>_.
     ret txn)))))))))"

definition Convert :: "money_cfg \<Rightarrow> string \<Rightarrow> int64 \<Rightarrow> string \<Rightarrow> string \<Rightarrow> string \<Rightarrow> ('z world_scheme, Transaction) go" where
  "Convert cfg userID amountMinor fromCurrency toCurrency key =
     bnd (QuoteConversion amountMinor fromCurrency toCurrency) (\<lambda>quote.
     bnd (AccountRepo_EnsureAccount userID AccountKindAvailable fromCurrency) (\<lambda>_.
     bnd (AccountRepo_EnsureAccount userID AccountKindAvailable toCurrency) (\<lambda>_.
     bnd (find_replay key) (\<lambda>existing. case existing of
       Some t \<Rightarrow> ret t
     | None \<Rightarrow>
         bnd (attempt (RunInTx (convert_body userID quote key))) (\<lambda>r. case r of
           Inr result \<Rightarrow>
             bnd (notify userID ''conversion'' ''Conversion completed''
                    (formatMinor (q_InputAmount quote) fromCurrency @ [CHR '' '', CHR 0xE2, CHR 0x86, CHR 0x92, CHR '' ''] @
                     formatMinor (q_OutputAmount quote) toCurrency @ ''.'')) (\<lambda>_.
             bnd (notifyChanged cfg userID) (\<lambda>_. ret result))
         | Inl e \<Rightarrow> or_replay key (fail e))))))"

section \<open>Payees and payout accounts\<close>

definition CreateBeneficiary :: "string \<Rightarrow> Beneficiary \<Rightarrow> ('z world_scheme, Beneficiary) go" where
  "CreateBeneficiary userID b = BeneficiaryRepo_Create (b\<lparr>ben_UserID := userID\<rparr>)"

definition ListBeneficiaries :: "string \<Rightarrow> ('z world_scheme, Beneficiary list) go" where
  "ListBeneficiaries userID = BeneficiaryRepo_ListByUser userID"

definition UpdateBeneficiary :: "string \<Rightarrow> Beneficiary \<Rightarrow> ('z world_scheme, unit) go" where
  "UpdateBeneficiary userID b =
     (if ben_ID b = [] then fail ErrNotFound else BeneficiaryRepo_Update (b\<lparr>ben_UserID := userID\<rparr>))"

definition DeleteBeneficiary :: "string \<Rightarrow> string \<Rightarrow> ('z world_scheme, unit) go" where
  "DeleteBeneficiary userID bid = BeneficiaryRepo_Delete userID bid"

definition ToggleBeneficiaryFavorite :: "string \<Rightarrow> string \<Rightarrow> ('z world_scheme, unit) go" where
  "ToggleBeneficiaryFavorite userID bid = BeneficiaryRepo_ToggleFavorite userID bid"

definition ResolveAccount :: "string \<Rightarrow> string \<Rightarrow> ('z world_scheme, Beneficiary) go" where
  "ResolveAccount userID address = BeneficiaryRepo_FindByAddress userID address"

definition CreateBankAccount :: "string \<Rightarrow> BankAccount \<Rightarrow> ('z world_scheme, BankAccount) go" where
  "CreateBankAccount userID a0 =
     (let a = a0\<lparr>ba_UserID := userID\<rparr> in
      bnd (if ba_IsDefault a then BankAccountRepo_SetNotDefault userID else ret ()) (\<lambda>_.
      BankAccountRepo_Create a))"

definition ListBankAccounts :: "string \<Rightarrow> ('z world_scheme, BankAccount list) go" where
  "ListBankAccounts userID = BankAccountRepo_ListByUser userID"

definition DeleteBankAccount :: "string \<Rightarrow> string \<Rightarrow> ('z world_scheme, unit) go" where
  "DeleteBankAccount userID aid = BankAccountRepo_Delete userID aid"

definition SetDefaultBankAccount :: "string \<Rightarrow> string \<Rightarrow> ('z world_scheme, unit) go" where
  "SetDefaultBankAccount userID aid = BankAccountRepo_SetDefault userID aid"

end
