(* ===== verification/MoneyLaws.thy ===== *)
theory MoneyLaws
  imports MoneyService
begin

text \<open>
  The laws of the money service. Every operation of \<open>MoneyService\<close> is shown to meet the contract
  \<open>money_operation\<close> of theory \<open>Ledger\<close> with its own effect, given as the list of postings it makes; the
  properties of the service (agreement of projection and ledger, at most one execution per key, no
  overdraft, conservation of money) follow from the contract and the effects.
\<close>

section \<open>Chains of postings\<close>

lemma wrap64_add_left: "wrap64 (wrap64 a + b) = wrap64 (a + b)"
proof -
  have "(wrap64 a + b + 9223372036854775808) mod 18446744073709551616
      = ((a + 9223372036854775808) mod 18446744073709551616 + b) mod 18446744073709551616"
    by (simp add: wrap64_def algebra_simps)
  also have "\<dots> = (a + b + 9223372036854775808) mod 18446744073709551616"
    by (subst mod_add_left_eq) (simp add: algebra_simps)
  finally show ?thesis by (simp add: wrap64_def)
qed

lemma wrap64_diff_left: "wrap64 (wrap64 a - b) = wrap64 (a - b)"
  using wrap64_add_left [of a "- b"] by simp

fun posts :: "db \<Rightarrow> Transaction \<Rightarrow> (string \<times> LedgerMovement \<times> int64) list \<Rightarrow> db \<Rightarrow> bool" where
  "posts d t [] d' = ledger_same d d'"
| "posts d t ((a, mv, x) # ps) d' =
     (\<exists>d1 d2. ledger_same d d1 \<and> posted d1 t a mv x (wrap64 (ledger_sum d1 a + signed_by mv x)) d2 \<and> posts d2 t ps d')"

definition net :: "(string \<times> LedgerMovement \<times> int64) list \<Rightarrow> string \<Rightarrow> int" where
  "net ps aid = sum_list (map (\<lambda>(a, mv, x). if a = aid then signed_by mv x else 0) ps)"

lemma net_simps [simp]: "net [] aid = 0"
  "net ((a, mv, x) # ps) aid = (if a = aid then signed_by mv x else 0) + net ps aid"
  by (simp_all add: net_def)

lemma ledger_sum_same: "ledger_same d d' \<Longrightarrow> ledger_sum d' = ledger_sum d"
  by (simp add: ledger_same_def tables_same_def ledger_sum_def fun_eq_iff)

lemma posts_sum: "posts d t ps d' \<Longrightarrow> ledger_sum d' aid = ledger_sum d aid + net ps aid"
proof (induction d t ps d' rule: posts.induct)
  case (2 d t a mv x ps d')
  then show ?case by (auto simp: posted_sum ledger_sum_same)
qed (simp add: ledger_sum_same)

lemma posts_accounts: "posts d t ps d' \<Longrightarrow> set (accounts d) \<subseteq> set (accounts d')"
proof (induction d t ps d' rule: posts.induct)
  case (2 d t a mv x ps d')
  then show ?case using same_accounts posted_frame(1) by (fastforce simp: subset_iff)
qed (use same_accounts in auto)

lemma posts_projection: "posts d t ps d' \<Longrightarrow> projection_ok d \<Longrightarrow> projection_ok d'"
proof (induction d t ps d' rule: posts.induct)
  case (2 d t a mv x ps d')
  then obtain d1 d2 where "ledger_same d d1" "posts d2 t ps d'"
    and post: "posted d1 t a mv x (wrap64 (ledger_sum d1 a + signed_by mv x)) d2" by auto
  then have "projection_ok d2"
    using projection_posted [OF projection_same [OF 2(3)] post] by simp
  then show ?case using 2(1) \<open>posts d2 t ps d'\<close> by blast
qed (auto intro: projection_same)

lemma logged_same: "logged key d t d1 \<Longrightarrow> ledger_same d1 d2 \<Longrightarrow> logged key d t d2"
  by (simp add: logged_def ledger_same_def tables_same_def)

lemma posts_logged: "posts d t ps d' \<Longrightarrow> logged key d0 t d \<Longrightarrow> logged key d0 t d'"
proof (induction d t ps d' rule: posts.induct)
  case (2 d t a mv x ps d')
  then obtain d1 d2 where "ledger_same d d1" "posts d2 t ps d'"
    and post: "posted d1 t a mv x (wrap64 (ledger_sum d1 a + signed_by mv x)) d2" by auto
  then have "logged key d0 t d2"
    using logged_posted [OF logged_same [OF 2(3)] post] by simp
  then show ?case using 2(1) \<open>posts d2 t ps d'\<close> by blast
qed (auto intro: logged_same)

lemma logged_recorded: "recorded d t d' \<Longrightarrow> logged (txn_IdempotencyKey t) d t d'"
  by (simp add: recorded_def logged_def)

text \<open>A transaction row followed by postings.\<close>

definition booked :: "db \<Rightarrow> Transaction \<Rightarrow> (string \<times> LedgerMovement \<times> int64) list \<Rightarrow> db \<Rightarrow> bool" where
  "booked d t ps d' \<longleftrightarrow> (\<exists>d1. recorded d t d1 \<and> posts d1 t ps d')"

lemma bookedI: "recorded d t d1 \<Longrightarrow> posts d1 t ps d' \<Longrightarrow> booked d t ps d'"
  by (auto simp: booked_def)

lemma booked_sum: "booked d t ps d' \<Longrightarrow> ledger_sum d' aid = ledger_sum d aid + net ps aid"
  by (auto simp: booked_def posts_sum recorded_frame)

lemma booked_accounts: "booked d t ps d' \<Longrightarrow> set (accounts d) \<subseteq> set (accounts d')"
  using posts_accounts by (fastforce simp: booked_def recorded_frame)

lemma booked_projection: "booked d t ps d' \<Longrightarrow> projection_ok d \<Longrightarrow> projection_ok d'"
  by (auto simp: booked_def intro: posts_projection projection_recorded)

lemma booked_logged: "booked d t ps d' \<Longrightarrow> logged (txn_IdempotencyKey t) d t d'"
  by (auto simp: booked_def intro: posts_logged logged_recorded)

section \<open>Meeting the contract\<close>

definition contract :: "string \<Rightarrow> (db \<Rightarrow> Transaction \<Rightarrow> db \<Rightarrow> bool) \<Rightarrow> err + Transaction \<Rightarrow> db \<Rightarrow> db \<Rightarrow> bool" where
  "contract key eff r d d' =
     (case r of
        Inl e \<Rightarrow> ledger_same d d'
      | Inr t \<Rightarrow> replayed key d t \<and> ledger_same d d' \<or>
                 (\<exists>d1 d2. ledger_same d d1 \<and> eff d1 t d2 \<and> ledger_same d2 d'))"

definition meets :: "(db \<Rightarrow> bool) \<Rightarrow> string \<Rightarrow> (db \<Rightarrow> Transaction \<Rightarrow> db \<Rightarrow> bool) \<Rightarrow> ('z world_scheme, Transaction) go \<Rightarrow> bool" where
  "meets P key eff m \<longleftrightarrow> (\<forall>w r w'. m w = (r, w') \<longrightarrow> P (wdb w) \<longrightarrow> contract key eff r (wdb w) (wdb w'))"

lemma meetsD: "meets P key eff m \<Longrightarrow> m w = (r, w') \<Longrightarrow> P (wdb w) \<Longrightarrow> contract key eff r (wdb w) (wdb w')"
  by (simp add: meets_def)

lemma replayed_same: "replayed key d t \<Longrightarrow> ledger_same d' d \<Longrightarrow> replayed key d' t"
  by (simp add: replayed_def ledger_same_def tables_same_def)

lemma contract_before:
  "ledger_same d0 d \<Longrightarrow> contract key eff r d d' \<Longrightarrow> contract key eff r d0 d'"
  unfolding contract_def by (cases r) (auto intro: same.trans replayed_same)

lemma contract_after:
  "contract key eff r d d' \<Longrightarrow> ledger_same d' d2 \<Longrightarrow> contract key eff r d d2"
  unfolding contract_def by (cases r) (auto intro: same.trans)

lemma meets_fail: "meets P key eff (fail e)"
  by (auto simp: meets_def fail_def contract_def same.refl)

lemma meets_if: "(b \<Longrightarrow> meets P key eff m) \<Longrightarrow> (\<not> b \<Longrightarrow> meets P key eff m') \<Longrightarrow> meets P key eff (if b then m else m')"
  by simp

lemma meets_before:
  assumes "pres ledger_same m" and "pres (\<lambda>d d'. P d \<longrightarrow> P d') m" and "\<And>v. meets P key eff (f v)"
  shows "meets P key eff (bnd m f)"
  unfolding meets_def
proof (intro allI impI)
  fix w r w'
  assume run: "bnd m f w = (r, w')" and P: "P (wdb w)"
  obtain x w1 where m: "m w = (x, w1)" by (cases "m w")
  have same: "ledger_same (wdb w) (wdb w1)" and P1: "P (wdb w1)"
    using presD [OF assms(1) m] presD [OF assms(2) m] P by simp_all
  show "contract key eff r (wdb w) (wdb w')"
  proof (cases x)
    case (Inl e)
    with run m same show ?thesis by (auto simp: bnd_def contract_def)
  next
    case (Inr v)
    with run m have "f v w1 = (r, w')" by (simp add: bnd_def)
    from contract_before [OF same meetsD [OF assms(3) this P1]] show ?thesis .
  qed
qed

lemma meets_replay:
  assumes "meets P key eff m"
  shows "meets P key eff (bnd (find_replay key) (\<lambda>ex. case ex of Some t \<Rightarrow> ret t | None \<Rightarrow> m))"
  unfolding meets_def
proof (intro allI impI)
  fix w r w'
  assume run: "bnd (find_replay key) (\<lambda>ex. case ex of Some t \<Rightarrow> ret t | None \<Rightarrow> m) w = (r, w')" and P: "P (wdb w)"
  obtain x w1 where f: "find_replay key w = (x, w1)" by (cases "find_replay key w")
  have w1: "wdb w1 = wdb w" using presD [OF find_replay_fixed f] by simp
  show "contract key eff r (wdb w) (wdb w')"
  proof (cases x)
    case (Inl e)
    with run f w1 show ?thesis by (auto simp: bnd_def contract_def same.refl)
  next
    case (Inr ex)
    from f [unfolded Inr] show ?thesis
    proof (cases rule: find_replay_okE)
      case 1
      then have "m w1 = (r, w')" using run f Inr by (simp add: bnd_def)
      then show ?thesis using meetsD [OF assms, of w1] P w1 by simp
    next
      case (2 t)
      then show ?thesis using run f Inr w1 by (auto simp: bnd_def ret_def contract_def replayed_def same.refl)
    qed
  qed
qed

lemma meets_RunInTx:
  fixes body :: "('z world_scheme, Transaction) go"
  assumes "\<And>w t w'. body w = (Inr t, w') \<Longrightarrow> P (wdb w) \<Longrightarrow> eff (wdb w) t (wdb w')"
  shows "meets P key eff (RunInTx body)"
  unfolding meets_def
proof (intro allI impI)
  fix w :: "'z world_scheme" and r w'
  assume run: "RunInTx body w = (r, w')" and P: "P (wdb w)"
  show "contract key eff r (wdb w) (wdb w')"
  proof (cases r)
    case (Inl e)
    then show ?thesis using RunInTx_err [of body w e w'] run by (simp add: contract_def same.refl)
  next
    case (Inr t)
    from run [unfolded Inr] obtain w0 w1 where "wdb w0 = wdb w" "body w0 = (Inr t, w1)" "wdb w' = wdb w1"
      by (rule RunInTx_okE)
    then have "eff (wdb w) t (wdb w')" using assms [of w0 t w1] P by simp
    then show ?thesis using Inr same.refl by (auto simp: contract_def)
  qed
qed

text \<open>Work after the effect that cannot fail and leaves the ledger alone.\<close>

definition tail :: "Transaction \<Rightarrow> ('z world_scheme, Transaction) go \<Rightarrow> bool" where
  "tail t g \<longleftrightarrow> pres ledger_same g \<and> (\<forall>w. fst (g w) = Inr t)"

definition never_fails :: "('w, unit) go \<Rightarrow> bool" where
  "never_fails m \<longleftrightarrow> (\<forall>w. fst (m w) = Inr ())"

lemma tail_ret: "tail t (ret t)"
  by (simp add: tail_def same.pres_ret) (simp add: ret_def)

lemma tail_bnd: "pres ledger_same m \<Longrightarrow> never_fails m \<Longrightarrow> tail t g \<Longrightarrow> tail t (bnd m (\<lambda>_. g))"
  unfolding tail_def never_fails_def
  by (auto intro!: same.pres_bnd simp: bnd_def split: prod.splits sum.splits) (metis fst_conv sum.distinct(1))+

lemma meets_tail:
  assumes "meets P key eff m" and "\<And>t. tail t (g t)"
  shows "meets P key eff (bnd m g)"
  unfolding meets_def
proof (intro allI impI)
  fix w r w'
  assume run: "bnd m g w = (r, w')" and P: "P (wdb w)"
  obtain x w1 where m: "m w = (x, w1)" by (cases "m w")
  have c: "contract key eff x (wdb w) (wdb w1)" by (rule meetsD [OF assms(1) m P])
  show "contract key eff r (wdb w) (wdb w')"
  proof (cases x)
    case (Inl e)
    with run m c show ?thesis by (auto simp: bnd_def)
  next
    case (Inr t)
    with run m have g: "g t w1 = (r, w')" by (simp add: bnd_def)
    then have "r = Inr t" using assms(2) [of t] by (metis fst_conv tail_def)
    moreover have "ledger_same (wdb w1) (wdb w')" using g assms(2) [of t] by (auto simp: tail_def dest: presD)
    ultimately show ?thesis using c Inr contract_after by blast
  qed
qed

lemma or_replay_fixed: "pres (=) m \<Longrightarrow> pres (=) (or_replay key m)"
  unfolding or_replay_def by (intro fixed.pres_rules repos_read)

lemma meets_or_replay_tail:
  assumes "meets P key eff m" and "\<And>t. tail t (g t)"
  shows "meets P key eff (bnd (attempt m) (\<lambda>r. case r of Inr t \<Rightarrow> g t | Inl e \<Rightarrow> or_replay key (fail e)))"
  unfolding meets_def
proof (intro allI impI)
  fix w r w'
  assume run: "bnd (attempt m) (\<lambda>r. case r of Inr t \<Rightarrow> g t | Inl e \<Rightarrow> or_replay key (fail e)) w = (r, w')"
    and P: "P (wdb w)"
  obtain x w1 where m: "m w = (x, w1)" by (cases "m w")
  have c: "contract key eff x (wdb w) (wdb w1)" by (rule meetsD [OF assms(1) m P])
  show "contract key eff r (wdb w) (wdb w')"
  proof (cases x)
    case (Inr t)
    then have "bnd m g w = (r, w')" using run m by (simp add: bnd_def attempt_def)
    then show ?thesis using meetsD [OF meets_tail [OF assms]] P by blast
  next
    case (Inl e)
    then have o: "or_replay key (fail e) w1 = (r, w')" using run m by (simp add: bnd_def attempt_def)
    have w': "wdb w' = wdb w1" using presD [OF or_replay_fixed [OF fixed.pres_fail] o] by simp
    have same: "ledger_same (wdb w) (wdb w1)" using c Inl by (simp add: contract_def)
    show ?thesis
    proof (cases r)
      case (Inl e')
      then show ?thesis using w' same by (simp add: contract_def)
    next
      case (Inr t)
      then have "replayed key (wdb w1) t"
        using or_replay_ok [OF o [unfolded Inr]] by (auto simp: fail_def replayed_def)
      then show ?thesis using Inr w' same replayed_same by (auto simp: contract_def)
    qed
  qed
qed

section \<open>The side effects of the money service\<close>

lemma notify_same: "pres ledger_same (notify u c t b)"
  unfolding notify_def by (intro same.pres_ignore keeps_intros)

lemma notifyChanged_same: "pres ledger_same (notifyChanged cfg u)"
  unfolding notifyChanged_def by (intro same.pres_if same.pres_ret same.pres_modify) simp

lemma emailUser_same: "pres ledger_same (emailUser cfg u tpl cur x)"
  unfolding emailUser_def
  by (intro same.pres_if same.pres_ret same.pres_bnd same.pres_attempt same_if_fixed repos_read same.pres_sum
      same.pres_modify) simp

lemma never_fails_side: "never_fails (notify u c t b)" "never_fails (notifyChanged cfg u)"
  "never_fails (emailUser cfg u tpl cur x)" "never_fails (ret ())"
  by (auto simp: never_fails_def notify_def notifyChanged_def emailUser_def ignore_eq ret_def modify_def bnd_def
      attempt_eq split: sum.splits)

lemmas tail_rules = tail_ret tail_bnd notify_same notifyChanged_same emailUser_same never_fails_side same.pres_ret

lemma meets_move:
  assumes "\<And>w r w'. m w = (r, w') \<Longrightarrow> contract key eff r (wdb w) (wdb w')"
  shows "meets P key eff m"
  using assms by (simp add: meets_def)

lemma meets_Credit: "lm_IdempotencyKey r = key \<Longrightarrow> meets P key (moved r MovementCredit) (Credit r)"
  by (rule meets_move) (auto simp: contract_def credit.failure dest: credit.success split: sum.splits)

lemma meets_Debit: "lm_IdempotencyKey r = key \<Longrightarrow> meets P key (moved r MovementDebit) (Debit r)"
  by (rule meets_move) (auto simp: contract_def debit.failure dest: debit.success split: sum.splits)

section \<open>The effects of the operations\<close>

definition owns :: "db \<Rightarrow> string \<Rightarrow> AccountKind \<Rightarrow> string \<Rightarrow> Account \<Rightarrow> bool" where
  "owns d uid kind cur a \<longleftrightarrow> a \<in> set (accounts d) \<and> acc_UserID a = uid \<and> acc_Kind a = kind \<and> acc_Currency a = cur"

text \<open>An external withdrawal debits the user by amount and fee and credits the fee to the platform.\<close>

definition external_effect :: "LedgerMoveRequest \<Rightarrow> db \<Rightarrow> Transaction \<Rightarrow> db \<Rightarrow> bool" where
  "external_effect req d t d' \<longleftrightarrow>
     (\<exists>from feeAcct :: Account. owns d (lm_UserID req) (lm_AccountKind req) (lm_Currency req) from
        \<and> wrap64 (lm_AmountMinor req + lm_FeeMinor req) \<le> ledger_sum d (acc_ID from)
        \<and> (0 < lm_FeeMinor req \<longrightarrow> owns d' PlatformUserID AccountKindPlatformFees (lm_Currency req) feeAcct)
        \<and> booked d t ((acc_ID from, MovementDebit, wrap64 (lm_AmountMinor req + lm_FeeMinor req))
             # (if lm_FeeMinor req > 0 then [(acc_ID feeAcct, MovementCredit, lm_FeeMinor req)] else [])) d')
     \<and> txn_IdempotencyKey t = lm_IdempotencyKey req"

text \<open>A transfer debits the source by amount and fee and credits the amount to the other account, if the
  request names one.\<close>

definition transfer_effect :: "TransferRequest \<Rightarrow> db \<Rightarrow> Transaction \<Rightarrow> db \<Rightarrow> bool" where
  "transfer_effect req d t d' \<longleftrightarrow>
     (\<exists>from to. owns d (tr_UserID req) (tr_FromKind req) (tr_Currency req) from
        \<and> wrap64 (tr_AmountMinor req + tr_FeeMinor req) \<le> ledger_sum d (acc_ID from)
        \<and> (tr_ToKind req \<noteq> [] \<longrightarrow> owns d (tr_UserID req) (tr_ToKind req) (tr_Currency req) to)
        \<and> booked d t ((acc_ID from, MovementDebit, tr_AmountMinor req)
             # (if tr_FeeMinor req > 0 then [(acc_ID from, MovementDebit, tr_FeeMinor req)] else [])
             @ (if tr_ToKind req \<noteq> [] then [(acc_ID to, MovementCredit, tr_AmountMinor req)] else [])) d')
     \<and> txn_IdempotencyKey t = tr_IdempotencyKey req"

definition accounts_unique :: "db \<Rightarrow> bool" where
  "accounts_unique d \<longleftrightarrow> distinct (map acc_ID (accounts d))"

definition convert_effect :: "string \<Rightarrow> Quote \<Rightarrow> string \<Rightarrow> db \<Rightarrow> Transaction \<Rightarrow> db \<Rightarrow> bool" where
  "convert_effect userID quote key d t d' \<longleftrightarrow>
     (\<exists>from to. owns d userID AccountKindAvailable (q_InputCurrency quote) from
        \<and> owns d userID AccountKindAvailable (q_OutputCurrency quote) to
        \<and> q_InputAmount quote \<le> ledger_sum d (acc_ID from)
        \<and> booked d t [(acc_ID from, MovementDebit, q_InputAmount quote), (acc_ID to, MovementCredit, q_OutputAmount quote)] d')
     \<and> txn_IdempotencyKey t = key"

lemma posts_single:
  assumes "posted d t a mv x nb d'" and "nb = wrap64 (ledger_sum d a + signed_by mv x)"
  shows "posts d t [(a, mv, x)] d'"
  using assms same.refl by auto

lemma posts_append: "posts d t ps d1 \<Longrightarrow> posts d1 t qs d' \<Longrightarrow> posts d t (ps @ qs) d'"
proof (induction d t ps d1 rule: posts.induct)
  case (1 d t d1)
  then show ?case
  proof (cases qs)
    case (Cons q qs')
    then show ?thesis using 1 by (cases q) (auto intro: same.trans)
  qed (auto intro: same.trans)
qed auto

declare posts.simps [simp del]

lemma EnsureAccount_okE:
  assumes "AccountRepo_EnsureAccount uid kind cur w = (Inr a, w')"
  obtains "ledger_same (wdb w) (wdb w')" "owns (wdb w') uid kind cur a"
    "accounts_unique (wdb w) \<Longrightarrow> accounts_unique (wdb w')"
    "env w' = env w"
proof -
  let ?P = "\<lambda>a. acc_UserID a = uid \<and> acc_Kind a = kind \<and> acc_Currency a = cur"
  let ?new = "\<lambda>i. \<lparr>acc_ID = i, acc_UserID = uid, acc_Kind = kind, acc_Currency = cur, acc_CreatedAt = clock w\<rparr>"
  from assms obtain i where env: "env w' = env w" and q: "(case List.find ?P (accounts (wdb w)) of
      Some a \<Rightarrow> Inr (a, wdb w)
    | None \<Rightarrow> if \<exists>a\<in>set (accounts (wdb w)). acc_ID a = i then Inl ErrUniqueViolation
              else if \<not> has_user (wdb w) uid then Inl ErrDB
              else let a = ?new i in Inr (a, (wdb w)\<lparr>accounts := accounts (wdb w) @ [a]\<rparr>)) = Inr (a, wdb w')"
    unfolding AccountRepo_EnsureAccount_def by (elim mapped_okE stmt_okE) blast
  show ?thesis
  proof (cases "List.find ?P (accounts (wdb w))")
    case None
    with q have "wdb w' = (wdb w)\<lparr>accounts := accounts (wdb w) @ [a]\<rparr>" "a = ?new i"
      "\<forall>a\<in>set (accounts (wdb w)). acc_ID a \<noteq> i"
      by (auto simp: Let_def split: if_splits)
    then show ?thesis using env by (intro that) (auto simp: ledger_same_def tables_same_def accounts_unique_def owns_def)
  next
    case (Some b)
    with q have "wdb w' = wdb w" "?P a" "a \<in> set (accounts (wdb w))" by (auto simp: find_Some_iff)
    then show ?thesis using env by (intro that) (auto simp: same.refl owns_def)
  qed
qed

lemma settle_fee_ok:
  assumes "settle_fee req txn w = (Inr v, w')"
  shows "\<exists>feeAcct :: Account. (0 < lm_FeeMinor req \<longrightarrow> owns (wdb w') PlatformUserID AccountKindPlatformFees (lm_Currency req) feeAcct) \<and>
    posts (wdb w) txn (if lm_FeeMinor req > 0 then [(acc_ID feeAcct, MovementCredit, lm_FeeMinor req)] else []) (wdb w')"
proof (cases "lm_FeeMinor req > 0")
  case True
  with assms obtain a w1 s w2 where
    ens: "AccountRepo_EnsureAccount PlatformUserID AccountKindPlatformFees (lm_Currency req) w = (Inr a, w1)"
    and sum: "LedgerRepo_SumBalanceByAccount (acc_ID a) w1 = (Inr s, w2)"
    and post: "post txn (acc_ID a) PlatformUserID MovementCredit (lm_Currency req) (lm_FeeMinor req)
      (wrap64 (s + lm_FeeMinor req)) w2 = (Inr v, w')"
    unfolding settle_fee_def by (auto elim!: bnd_okE)
  from sum have s: "s = ledger_sum (wdb w1) (acc_ID a)" "wdb w2 = wdb w1" by (auto elim: SumBalance_okE)
  from post have p: "posted (wdb w1) txn (acc_ID a) MovementCredit (lm_FeeMinor req)
      (wrap64 (ledger_sum (wdb w1) (acc_ID a) + signed_by MovementCredit (lm_FeeMinor req))) (wdb w')"
    using s by (auto elim!: post_okE)
  from ens have same: "ledger_same (wdb w) (wdb w1)"
    and a: "owns (wdb w1) PlatformUserID AccountKindPlatformFees (lm_Currency req) a"
    by (auto elim: EnsureAccount_okE)
  from a have own: "owns (wdb w') PlatformUserID AccountKindPlatformFees (lm_Currency req) a"
    by (simp add: owns_def posted_frame(1) [OF p])
  from same p have "posts (wdb w) txn [(acc_ID a, MovementCredit, lm_FeeMinor req)] (wdb w')"
    unfolding posts.simps using same.refl by blast
  with own True show ?thesis by (intro exI [of _ a]) simp
next
  case False
  then have "w' = w" using assms by (simp add: settle_fee_def ret_def)
  then show ?thesis using False same.refl posts.simps(1) by simp
qed

lemma external_body_ok:
  fixes w :: "'z world_scheme"
  assumes "external_body req (wrap64 (lm_AmountMinor req + lm_FeeMinor req)) w = (Inr t, w')"
  shows "external_effect req (wdb w) t (wdb w')"
proof -
  let ?total = "wrap64 (lm_AmountMinor req + lm_FeeMinor req)"
  from assms obtain from' and w1 w2 w3 w4 w5 :: "'z world_scheme" and s ref where
    find: "AccountRepo_FindByUserAndKind (lm_UserID req) (lm_AccountKind req) (lm_Currency req) w = (Inr from', w1)"
    and sum: "LedgerRepo_SumBalanceByAccount (acc_ID from') w1 = (Inr s, w2)"
    and cov: "?total \<le> s"
    and ref: "pick_reference (lm_Reference req) (lm_Type req) w2 = (Inr ref, w3)"
    and create: "LedgerRepo_CreateTransaction (request_txn req ref) w3 = (Inr t, w4)"
    and post: "post t (acc_ID from') (lm_UserID req) MovementDebit (lm_Currency req) ?total (wrap64 (s - ?total)) w4 = (Inr (), w5)"
    and fee: "settle_fee req t w5 = (Inr (), w')"
    unfolding external_body_def
    by (elim bnd_okE reject_okE ret_okE) (hypsubst, rule that, assumption+, simp, assumption+, simp_all)
  have w: "wdb w1 = wdb w" "s = ledger_sum (wdb w) (acc_ID from')" "wdb w3 = wdb w"
    using find sum ref by (auto elim!: FindByUserAndKind_okE SumBalance_okE pick_reference_okE)
  have own: "owns (wdb w) (lm_UserID req) (lm_AccountKind req) (lm_Currency req) from'"
    using find by (auto elim!: FindByUserAndKind_okE simp: owns_def)
  from create w have rec: "recorded (wdb w) t (wdb w4)" and key: "txn_IdempotencyKey t = lm_IdempotencyKey req"
    by (auto elim!: CreateTransaction_okE simp: request_txn_def)
  from post have "posts (wdb w4) t [(acc_ID from', MovementDebit, ?total)] (wdb w5)"
    using w rec by (elim post_okE) (rule posts_single, auto simp: recorded_frame)
  note debit = this
  from settle_fee_ok [OF fee] obtain feeAcct :: Account where
    feeAcct: "0 < lm_FeeMinor req \<longrightarrow> owns (wdb w') PlatformUserID AccountKindPlatformFees (lm_Currency req) feeAcct"
    and fees: "posts (wdb w5) t (if lm_FeeMinor req > 0 then [(acc_ID feeAcct, MovementCredit, lm_FeeMinor req)] else []) (wdb w')"
    by blast
  from bookedI [OF rec posts_append [OF debit fees]] have "booked (wdb w) t ((acc_ID from', MovementDebit, ?total) #
      (if lm_FeeMinor req > 0 then [(acc_ID feeAcct, MovementCredit, lm_FeeMinor req)] else [])) (wdb w')"
    by simp
  with feeAcct show ?thesis
    unfolding external_effect_def using own cov w key by blast
qed

lemma transfer_fee_ok:
  assumes "transfer_fee req txn from' s w = (Inr v, w')"
    and "wrap64 (ledger_sum (wdb w) (acc_ID from')) = wrap64 (s - tr_AmountMinor req)"
  shows "posts (wdb w) txn (if tr_FeeMinor req > 0 then [(acc_ID from', MovementDebit, tr_FeeMinor req)] else []) (wdb w')"
proof (cases "tr_FeeMinor req > 0")
  case True
  have "wrap64 (wrap64 (s - tr_AmountMinor req) - tr_FeeMinor req)
      = wrap64 (ledger_sum (wdb w) (acc_ID from') + signed_by MovementDebit (tr_FeeMinor req))"
    using assms(2) wrap64_diff_left [of "ledger_sum (wdb w) (acc_ID from')" "tr_FeeMinor req"] by simp
  with assms(1) True show ?thesis
    unfolding transfer_fee_def by (auto elim!: post_okE intro!: posts_single)
next
  case False
  then show ?thesis using assms(1) same.refl by (auto simp: transfer_fee_def posts.simps elim!: ret_okE)
qed

lemma transfer_credit_ok:
  assumes "transfer_credit req txn w = (Inr v, w')"
  shows "\<exists>to :: Account. (tr_ToKind req \<noteq> [] \<longrightarrow> owns (wdb w) (tr_UserID req) (tr_ToKind req) (tr_Currency req) to) \<and>
    posts (wdb w) txn (if tr_ToKind req \<noteq> [] then [(acc_ID to, MovementCredit, tr_AmountMinor req)] else []) (wdb w')"
proof (cases "tr_ToKind req = []")
  case False
  with assms obtain to w1 s w2 where
    find: "AccountRepo_FindByUserAndKind (tr_UserID req) (tr_ToKind req) (tr_Currency req) w = (Inr to, w1)"
    and sum: "LedgerRepo_SumBalanceByAccount (acc_ID to) w1 = (Inr s, w2)"
    and post: "post txn (acc_ID to) (tr_UserID req) MovementCredit (tr_Currency req) (tr_AmountMinor req)
      (wrap64 (s + tr_AmountMinor req)) w2 = (Inr v, w')"
    unfolding transfer_credit_def by (auto elim!: bnd_okE)
  have w: "wdb w2 = wdb w" "s = ledger_sum (wdb w) (acc_ID to)"
    and own: "owns (wdb w) (tr_UserID req) (tr_ToKind req) (tr_Currency req) to"
    using find sum by (auto elim!: FindByUserAndKind_okE SumBalance_okE simp: owns_def)
  from post have "posts (wdb w) txn [(acc_ID to, MovementCredit, tr_AmountMinor req)] (wdb w')"
    using w by (elim post_okE) (rule posts_single, auto)
  with own False show ?thesis by (intro exI [of _ to]) simp
next
  case True
  then show ?thesis using assms same.refl by (auto simp: transfer_credit_def posts.simps elim!: ret_okE)
qed

lemma transfer_body_ok:
  fixes w :: "'z world_scheme"
  assumes "transfer_body req (wrap64 (tr_AmountMinor req + tr_FeeMinor req)) w = (Inr t, w')"
  shows "transfer_effect req (wdb w) t (wdb w')"
proof -
  let ?total = "wrap64 (tr_AmountMinor req + tr_FeeMinor req)"
  from assms obtain from' and w1 w2 w3 w4 w5 w6 :: "'z world_scheme" and s ref where
    find: "AccountRepo_FindByUserAndKind (tr_UserID req) (tr_FromKind req) (tr_Currency req) w = (Inr from', w1)"
    and sum: "LedgerRepo_SumBalanceByAccount (acc_ID from') w1 = (Inr s, w2)"
    and cov: "?total \<le> s"
    and ref: "pick_reference (tr_Reference req) TransactionTypeTransfer w2 = (Inr ref, w3)"
    and create: "LedgerRepo_CreateTransaction (transfer_txn req ref) w3 = (Inr t, w4)"
    and post: "post t (acc_ID from') (tr_UserID req) MovementDebit (tr_Currency req) (tr_AmountMinor req)
      (wrap64 (s - tr_AmountMinor req)) w4 = (Inr (), w5)"
    and fee: "transfer_fee req t from' s w5 = (Inr (), w6)"
    and credit: "transfer_credit req t w6 = (Inr (), w')"
    unfolding transfer_body_def
    by (elim bnd_okE reject_okE ret_okE) (hypsubst, rule that, assumption+, simp, assumption+, simp_all)
  have w: "wdb w1 = wdb w" "s = ledger_sum (wdb w) (acc_ID from')" "wdb w3 = wdb w"
    using find sum ref by (auto elim!: FindByUserAndKind_okE SumBalance_okE pick_reference_okE)
  have own: "owns (wdb w) (tr_UserID req) (tr_FromKind req) (tr_Currency req) from'"
    using find by (auto elim!: FindByUserAndKind_okE simp: owns_def)
  from create w have rec: "recorded (wdb w) t (wdb w4)" and key: "txn_IdempotencyKey t = tr_IdempotencyKey req"
    by (auto elim!: CreateTransaction_okE simp: transfer_txn_def)
  from post have p: "posted (wdb w4) t (acc_ID from') MovementDebit (tr_AmountMinor req) (wrap64 (s - tr_AmountMinor req)) (wdb w5)"
    by (rule post_okE)
  have 1: "posts (wdb w4) t [(acc_ID from', MovementDebit, tr_AmountMinor req)] (wdb w5)"
    by (rule posts_single [OF p]) (simp add: w recorded_frame [OF rec])
  have 2: "posts (wdb w5) t (if tr_FeeMinor req > 0 then [(acc_ID from', MovementDebit, tr_FeeMinor req)] else []) (wdb w6)"
    by (rule transfer_fee_ok [OF fee]) (simp add: posted_sum [OF p] w recorded_frame [OF rec])
  have acc6: "accounts (wdb w6) = accounts (wdb w)"
    using fee posted_frame(1) [OF p] recorded_frame(1) [OF rec]
    by (auto simp: transfer_fee_def posted_def elim!: post_okE ret_okE split: if_splits)
  from transfer_credit_ok [OF credit] obtain to :: Account where
    to: "tr_ToKind req \<noteq> [] \<longrightarrow> owns (wdb w) (tr_UserID req) (tr_ToKind req) (tr_Currency req) to"
    and 3: "posts (wdb w6) t (if tr_ToKind req \<noteq> [] then [(acc_ID to, MovementCredit, tr_AmountMinor req)] else []) (wdb w')"
    using acc6 by (auto simp: owns_def)
  from bookedI [OF rec posts_append [OF 1 posts_append [OF 2 3]]] show ?thesis
    unfolding transfer_effect_def using own cov w to key by (intro conjI exI [of _ from'] exI [of _ to]) simp_all
qed

lemma owns_unique: "accounts_unique d \<Longrightarrow> owns d u k c a \<Longrightarrow> owns d u k c' b \<Longrightarrow> c \<noteq> c' \<Longrightarrow> acc_ID a \<noteq> acc_ID b"
  by (auto simp: accounts_unique_def owns_def distinct_map inj_on_def)

lemma convert_body_ok:
  fixes w :: "'z world_scheme"
  assumes "convert_body userID quote key w = (Inr t, w')" and "accounts_unique (wdb w)"
    and "q_InputCurrency quote \<noteq> q_OutputCurrency quote"
  shows "convert_effect userID quote key (wdb w) t (wdb w')"
proof -
  from assms(1) obtain from' to and w1 w2 w3 w4 w5 w6 w7 :: "'z world_scheme" and s s' ref where
    find: "AccountRepo_FindByUserAndKind userID AccountKindAvailable (q_InputCurrency quote) w = (Inr from', w1)"
    and find': "AccountRepo_FindByUserAndKind userID AccountKindAvailable (q_OutputCurrency quote) w1 = (Inr to, w2)"
    and sum: "LedgerRepo_SumBalanceByAccount (acc_ID from') w2 = (Inr s, w3)"
    and cov: "q_InputAmount quote \<le> s"
    and sum': "LedgerRepo_SumBalanceByAccount (acc_ID to) w3 = (Inr s', w4)"
    and ref: "pick_reference [] TransactionTypeConversion w4 = (Inr ref, w5)"
    and create: "LedgerRepo_CreateTransaction (conversion_txn userID quote key ref) w5 = (Inr t, w6)"
    and post: "post t (acc_ID from') userID MovementDebit (q_InputCurrency quote) (q_InputAmount quote)
      (wrap64 (s - q_InputAmount quote)) w6 = (Inr (), w7)"
    and post': "post t (acc_ID to) userID MovementCredit (q_OutputCurrency quote) (q_OutputAmount quote)
      (wrap64 (s' + q_OutputAmount quote)) w7 = (Inr (), w')"
    unfolding convert_body_def
    by (elim bnd_okE reject_okE ret_okE) (hypsubst, rule that, assumption+, simp, assumption+, simp_all)
  have w: "wdb w1 = wdb w" "wdb w2 = wdb w" "s = ledger_sum (wdb w) (acc_ID from')"
    "s' = ledger_sum (wdb w) (acc_ID to)" "wdb w5 = wdb w"
    using find find' sum sum' ref by (auto elim!: FindByUserAndKind_okE SumBalance_okE pick_reference_okE)
  have own: "owns (wdb w) userID AccountKindAvailable (q_InputCurrency quote) from'"
    "owns (wdb w) userID AccountKindAvailable (q_OutputCurrency quote) to"
    using find find' w(1) by (auto elim!: FindByUserAndKind_okE simp: owns_def)
  have ne: "acc_ID from' \<noteq> acc_ID to" by (rule owns_unique [OF assms(2) own assms(3)])
  from create w have rec: "recorded (wdb w) t (wdb w6)" and key: "txn_IdempotencyKey t = key"
    by (auto elim!: CreateTransaction_okE simp: conversion_txn_def)
  from post have p: "posted (wdb w6) t (acc_ID from') MovementDebit (q_InputAmount quote) (wrap64 (s - q_InputAmount quote)) (wdb w7)"
    by (rule post_okE)
  from post' have p': "posted (wdb w7) t (acc_ID to) MovementCredit (q_OutputAmount quote) (wrap64 (s' + q_OutputAmount quote)) (wdb w')"
    by (rule post_okE)
  have 1: "posts (wdb w6) t [(acc_ID from', MovementDebit, q_InputAmount quote)] (wdb w7)"
    by (rule posts_single [OF p]) (simp add: w recorded_frame [OF rec])
  have 2: "posts (wdb w7) t [(acc_ID to, MovementCredit, q_OutputAmount quote)] (wdb w')"
    by (rule posts_single [OF p']) (simp add: posted_sum [OF p] ne w recorded_frame [OF rec])
  from bookedI [OF rec posts_append [OF 1 2]] show ?thesis
    unfolding convert_effect_def using own cov w key by auto
qed

lemma convert_body_logged:
  fixes w :: "'z world_scheme"
  assumes "convert_body userID quote key w = (Inr t, w')"
  shows "logged key (wdb w) t (wdb w')"
proof -
  from assms obtain from' to and w1 w2 w3 w4 w5 w6 w7 :: "'z world_scheme" and s s' ref where
    find: "AccountRepo_FindByUserAndKind userID AccountKindAvailable (q_InputCurrency quote) w = (Inr from', w1)"
    and find': "AccountRepo_FindByUserAndKind userID AccountKindAvailable (q_OutputCurrency quote) w1 = (Inr to, w2)"
    and sum: "LedgerRepo_SumBalanceByAccount (acc_ID from') w2 = (Inr s, w3)"
    and sum': "LedgerRepo_SumBalanceByAccount (acc_ID to) w3 = (Inr s', w4)"
    and ref: "pick_reference [] TransactionTypeConversion w4 = (Inr ref, w5)"
    and create: "LedgerRepo_CreateTransaction (conversion_txn userID quote key ref) w5 = (Inr t, w6)"
    and post: "post t (acc_ID from') userID MovementDebit (q_InputCurrency quote) (q_InputAmount quote)
      (wrap64 (s - q_InputAmount quote)) w6 = (Inr (), w7)"
    and post': "post t (acc_ID to) userID MovementCredit (q_OutputCurrency quote) (q_OutputAmount quote)
      (wrap64 (s' + q_OutputAmount quote)) w7 = (Inr (), w')"
    unfolding convert_body_def
    by (elim bnd_okE reject_okE ret_okE) (hypsubst, rule that, assumption+, simp_all)
  have "wdb w5 = wdb w"
    using find find' sum sum' ref by (auto elim!: FindByUserAndKind_okE SumBalance_okE pick_reference_okE)
  with create have "recorded (wdb w) t (wdb w6)" "txn_IdempotencyKey t = key"
    by (auto elim!: CreateTransaction_okE simp: conversion_txn_def)
  then have "logged key (wdb w) t (wdb w6)" using logged_recorded by metis
  with post post' show ?thesis by (elim post_okE) (metis logged_posted)
qed

section \<open>Every operation meets the contract\<close>

lemma keyed_operationI:
  fixes op :: "'r \<Rightarrow> ('z world_scheme, Transaction) go"
  assumes "\<And>r. meets (pre r) (key r) (eff r) (op r)"
    and "\<And>r d t d'. eff r d t d' \<Longrightarrow> logged (key r) d t d'"
  shows "keyed_operation op key eff pre"
proof unfold_locales
  fix r and w :: "'z world_scheme" and e w'
  assume "op r w = (Inl e, w')" and "pre r (wdb w)"
  then show "ledger_same (wdb w) (wdb w')" using meetsD [OF assms(1)] by (fastforce simp: contract_def)
next
  fix r and w :: "'z world_scheme" and t w'
  assume "op r w = (Inr t, w')" and "pre r (wdb w)"
  then show "replayed (key r) (wdb w) t \<and> ledger_same (wdb w) (wdb w') \<or>
      (\<exists>d1 d2. ledger_same (wdb w) d1 \<and> eff r d1 t d2 \<and> ledger_same d2 (wdb w'))"
    using meetsD [OF assms(1)] by (fastforce simp: contract_def)
qed (use assms in blast)

lemma money_operationI:
  fixes op :: "'r \<Rightarrow> ('z world_scheme, Transaction) go"
  assumes "\<And>r. meets (pre r) (key r) (eff r) (op r)"
    and "\<And>r d t d'. eff r d t d' \<Longrightarrow> projection_ok d \<Longrightarrow> projection_ok d'"
    and "\<And>r d t d'. eff r d t d' \<Longrightarrow> logged (key r) d t d'"
  shows "money_operation op key eff pre"
  by (intro money_operation.intro keyed_operationI money_operation_axioms.intro) (use assms in blast)+

lemma meets_Deposit:
  "meets P key (moved (deposit_request u (or_NGN c) a key) MovementCredit) (Deposit cfg u c a key)"
  unfolding Deposit_def Let_def
  by (intro meets_replay meets_tail tail_rules meets_Credit) (simp add: deposit_request_def)

lemma meets_Withdraw:
  "meets P key (moved (req\<lparr>lm_Currency := or_NGN (lm_Currency req), lm_IdempotencyKey := key\<rparr>) MovementDebit) (Withdraw cfg req key)"
  unfolding Withdraw_def Let_def
  by (intro meets_replay meets_tail tail_rules meets_Debit) simp

definition external_request :: "LedgerMoveRequest \<Rightarrow> string \<Rightarrow> LedgerMoveRequest" where
  "external_request req key = req\<lparr>lm_Currency := or_NGN (lm_Currency req), lm_IdempotencyKey := key\<rparr>"

lemma meets_WithdrawExternal:
  "meets P key (external_effect (external_request req key)) (WithdrawExternal cfg req key)"
  unfolding WithdrawExternal_def Let_def external_request_def
  by (intro meets_if meets_fail meets_replay meets_tail tail_rules meets_RunInTx external_body_ok)

lemma meets_Transfer:
  "meets P (tr_IdempotencyKey req) (transfer_effect (req\<lparr>tr_Currency := or_NGN (tr_Currency req)\<rparr>)) (Transfer cfg req)"
proof (cases "tr_AmountMinor req \<le> 0")
  case True
  then show ?thesis by (simp add: Transfer_def meets_fail)
next
  case False
  define q where "q = req\<lparr>tr_Currency := or_NGN (tr_Currency req)\<rparr>"
  have q: "tr_IdempotencyKey req = tr_IdempotencyKey q" "tr_AmountMinor req = tr_AmountMinor q"
    "tr_FeeMinor req = tr_FeeMinor q" "req\<lparr>tr_Currency := or_NGN (tr_Currency req)\<rparr> = q"
    by (simp_all add: q_def)
  have email: "pres ledger_same (if b then emailUser cfg u tpl cur x else ret ())"
    "never_fails (if b then emailUser cfg u tpl cur x else ret ())" for b u tpl cur x
    by (simp_all add: tail_rules)
  show ?thesis
    unfolding Transfer_def Let_def q
    by (rule meets_if, rule meets_fail)
      (intro meets_replay meets_or_replay_tail email tail_rules meets_RunInTx transfer_body_ok)
qed

lemma quote_currencies:
  "quote_from_rate a c c' rate = Inr q \<Longrightarrow> q_InputCurrency q = c \<and> q_OutputCurrency q = c' \<and> q_InputAmount q = a"
  by (auto simp: quote_from_rate_def Let_def split: if_splits sum.splits)

definition conversion_effect :: "string \<Rightarrow> int64 \<Rightarrow> string \<Rightarrow> string \<Rightarrow> string \<Rightarrow> db \<Rightarrow> Transaction \<Rightarrow> db \<Rightarrow> bool" where
  "conversion_effect userID amount c c' key d t d' \<longleftrightarrow>
     (\<exists>rate quote. quote_from_rate amount c c' rate = Inr quote \<and> convert_effect userID quote key d t d')"

lemma accounts_unique_stable:
  "pres (\<lambda>d d'. accounts_unique d \<longrightarrow> accounts_unique d') (AccountRepo_EnsureAccount u k c)"
  unfolding pres_def
proof (rule allI)
  fix w :: "'z world_scheme"
  obtain r w' where run: "AccountRepo_EnsureAccount u k c w = (r, w')" by (cases "AccountRepo_EnsureAccount u k c w")
  show "accounts_unique (wdb w) \<longrightarrow> accounts_unique (wdb (snd (AccountRepo_EnsureAccount u k c w)))"
  proof (cases r)
    case (Inl e)
    then have "wdb w' = wdb w"
      using run stmt_err by (fastforce simp: AccountRepo_EnsureAccount_def mapped_def on_err_def split: prod.splits sum.splits)
    then show ?thesis using run by simp
  next
    case (Inr a)
    then show ?thesis using run by (auto elim!: EnsureAccount_okE)
  qed
qed

lemma meets_Convert:
  assumes stable: "\<And>cur. pres (\<lambda>d d'. P d \<longrightarrow> P d') (AccountRepo_EnsureAccount u AccountKindAvailable cur :: ('z world_scheme, Account) go)"
    and body: "\<And>rate q v t v'. quote_from_rate a c c' rate = Inr q \<Longrightarrow> convert_body u q key v = (Inr t, v' :: 'z world_scheme) \<Longrightarrow>
      P (wdb v) \<Longrightarrow> eff (wdb v) t (wdb v')"
  shows "meets P key eff (Convert cfg u a c c' key :: ('z world_scheme, Transaction) go)"
  unfolding meets_def
proof (intro allI impI)
  fix w :: "'z world_scheme" and r w'
  assume run: "Convert cfg u a c c' key w = (r, w')" and P: "P (wdb w)"
  obtain x w1 where qc: "QuoteConversion a c c' w = (x, w1)" by (cases "QuoteConversion a c c' w")
  have "pres (=) (QuoteConversion a c c' :: ('z world_scheme, Quote) go)"
    unfolding QuoteConversion_def by (intro fixed.pres_rules repos_read)
  from presD [OF this qc] have w1: "wdb w1 = wdb w" by simp
  show "contract key eff r (wdb w) (wdb w')"
  proof (cases x)
    case (Inl e)
    then show ?thesis using run qc w1 by (auto simp: Convert_def bnd_def contract_def same.refl)
  next
    case (Inr q)
    then obtain rate where rate: "quote_from_rate a c c' rate = Inr q"
      using qc by (auto simp: QuoteConversion_def elim!: bnd_okE lift_okE fail_okE split: if_splits)
    let ?rest = "bnd (AccountRepo_EnsureAccount u AccountKindAvailable c) (\<lambda>_.
     bnd (AccountRepo_EnsureAccount u AccountKindAvailable c') (\<lambda>_.
     bnd (find_replay key) (\<lambda>existing. case existing of
       Some t \<Rightarrow> ret t
     | None \<Rightarrow>
         bnd (attempt (RunInTx (convert_body u q key))) (\<lambda>r. case r of
           Inr result \<Rightarrow>
             bnd (notify u ''conversion'' ''Conversion completed''
                    (formatMinor (q_InputAmount q) c @ [CHR '' '', CHR 0xE2, CHR 0x86, CHR 0x92, CHR '' ''] @
                     formatMinor (q_OutputAmount q) c' @ ''.'')) (\<lambda>_.
             bnd (notifyChanged cfg u) (\<lambda>_. ret result))
         | Inl e \<Rightarrow> or_replay key (fail e)))))"
    have "meets P key eff (?rest :: ('z world_scheme, Transaction) go)"
      by (intro meets_replay meets_or_replay_tail meets_before tail_rules meets_RunInTx repos_ledger_same
          stable body [OF rate])
    moreover have "?rest w1 = (r, w')"
      using run unfolding Convert_def bnd_Inr [where m = "QuoteConversion a c c'" and w = w, OF qc [unfolded Inr]] .
    ultimately show ?thesis using P w1 by (auto dest: meetsD)
  qed
qed

lemma meets_conversion:
  assumes "c \<noteq> c'"
  shows "meets accounts_unique key (conversion_effect u a c c' key) (Convert cfg u a c c' key)"
proof (rule meets_Convert [OF accounts_unique_stable])
  fix rate q and v v' :: "'z world_scheme" and t
  assume "quote_from_rate a c c' rate = Inr q" and "convert_body u q key v = (Inr t, v')" and "accounts_unique (wdb v)"
  then show "conversion_effect u a c c' key (wdb v) t (wdb v')"
    using convert_body_ok [of u q key v t v'] assms quote_currencies by (fastforce simp: conversion_effect_def)
qed

lemma meets_conversion_logged: "meets (\<lambda>_. True) key (logged key) (Convert cfg u a c c' key)"
  by (rule meets_Convert) (simp_all add: pres_def convert_body_logged)

lemma request_keys [simp]: "lm_IdempotencyKey (external_request req key) = key"
  "lm_IdempotencyKey (deposit_request u c a key) = key"
  by (simp_all add: external_request_def deposit_request_def)

lemma external_projection: "external_effect r d t d' \<Longrightarrow> projection_ok d \<Longrightarrow> projection_ok d'"
  unfolding external_effect_def using booked_projection by blast

lemma external_logged: "external_effect r d t d' \<Longrightarrow> logged (lm_IdempotencyKey r) d t d'"
  unfolding external_effect_def using booked_logged by metis

lemma transfer_projection: "transfer_effect r d t d' \<Longrightarrow> projection_ok d \<Longrightarrow> projection_ok d'"
  unfolding transfer_effect_def using booked_projection by blast

lemma transfer_logged: "transfer_effect r d t d' \<Longrightarrow> logged (tr_IdempotencyKey r) d t d'"
  unfolding transfer_effect_def using booked_logged by metis

lemma conversion_projection: "conversion_effect u a c c' key d t d' \<Longrightarrow> projection_ok d \<Longrightarrow> projection_ok d'"
  unfolding conversion_effect_def convert_effect_def using booked_projection by blast

lemma conversion_logged: "conversion_effect u a c c' key d t d' \<Longrightarrow> logged key d t d'"
  unfolding conversion_effect_def convert_effect_def using booked_logged by metis

interpretation deposit: money_operation "\<lambda>(u, c, a, key). Deposit cfg u c a key" "\<lambda>(u, c, a, key). key"
    "\<lambda>(u, c, a, key). moved (deposit_request u (or_NGN c) a key) MovementCredit" "\<lambda>_ _. True" for cfg
  by (rule money_operationI)
    (auto intro: meets_Deposit moved_projection dest: moved_logged)

interpretation withdraw: money_operation "\<lambda>(req, key). Withdraw cfg req key" "\<lambda>(req, key). key"
    "\<lambda>(req, key). moved (external_request req key) MovementDebit" "\<lambda>_ _. True" for cfg
  by (rule money_operationI)
    (auto intro: moved_projection meets_Withdraw [folded external_request_def] dest: moved_logged)

interpretation external: money_operation "\<lambda>(req, key). WithdrawExternal cfg req key" "\<lambda>(req, key). key"
    "\<lambda>(req, key). external_effect (external_request req key)" "\<lambda>_ _. True" for cfg
  by (rule money_operationI)
    (auto intro: meets_WithdrawExternal external_projection dest: external_logged)

interpretation transfer: money_operation "Transfer cfg" tr_IdempotencyKey
    "\<lambda>req. transfer_effect (req\<lparr>tr_Currency := or_NGN (tr_Currency req)\<rparr>)" "\<lambda>_ _. True" for cfg
  by (rule money_operationI) (auto intro: meets_Transfer transfer_projection dest: transfer_logged)

interpretation convert: money_operation "\<lambda>(u, a, c, c', key). Convert cfg u a c c' key" "\<lambda>(u, a, c, c', key). key"
    "\<lambda>(u, a, c, c', key). conversion_effect u a c c' key" "\<lambda>(u, a, c, c', key) d. c \<noteq> c' \<and> accounts_unique d" for cfg
proof (rule money_operationI)
  fix r :: "string \<times> int \<times> string \<times> string \<times> string"
  obtain u a c c' key where r: "r = (u, a, c, c', key)" by (cases r) auto
  show "meets ((\<lambda>(u, a, c, c', key) d. c \<noteq> c' \<and> accounts_unique d) r) ((\<lambda>(u, a, c, c', key). key) r)
     ((\<lambda>(u, a, c, c', key). conversion_effect u a c c' key) r) ((\<lambda>(u, a, c, c', key). Convert cfg u a c c' key) r)"
    unfolding r using meets_conversion [of c c' key u a cfg] by (auto simp: meets_def)
qed (auto intro: conversion_projection conversion_logged)

text \<open>A conversion between any two currencies, the same one included, is carried out at most once.\<close>

interpretation conversion: keyed_operation "\<lambda>(u, a, c, c', key). Convert cfg u a c c' key" "\<lambda>(u, a, c, c', key). key"
    "\<lambda>(u, a, c, c', key). logged key" "\<lambda>_ _. True" for cfg
  by (rule keyed_operationI) (auto intro: meets_conversion_logged)

end
