(* ===== verification/MoneyProps.thy ===== *)
theory MoneyProps
  imports MoneyLaws
begin

text \<open>
  The properties of the ledger and of the money service, for every pattern of database failures: the
  balance projection agrees with the immutable ledger in every reachable state, a request is carried out
  at most once, failures change nothing (but for empty accounts a conversion opens), no operation overdraws, and money is conserved up to the fee.
\<close>

section \<open>Sequences of operations\<close>

datatype money_op =
  OpCredit LedgerMoveRequest
| OpDebit LedgerMoveRequest
| OpDeposit string string int64 string
| OpWithdraw LedgerMoveRequest string
| OpExternal LedgerMoveRequest string
| OpTransfer TransferRequest
| OpConvert string int64 string string string

fun run_op :: "money_cfg \<Rightarrow> money_op \<Rightarrow> (world, Transaction) go" where
  "run_op cfg (OpCredit req) = Credit req"
| "run_op cfg (OpDebit req) = Debit req"
| "run_op cfg (OpDeposit u c a key) = Deposit cfg u c a key"
| "run_op cfg (OpWithdraw req key) = Withdraw cfg req key"
| "run_op cfg (OpExternal req key) = WithdrawExternal cfg req key"
| "run_op cfg (OpTransfer req) = Transfer cfg req"
| "run_op cfg (OpConvert u a c c' key) = Convert cfg u a c c' key"

fun op_key :: "money_op \<Rightarrow> string" where
  "op_key (OpCredit req) = lm_IdempotencyKey req"
| "op_key (OpDebit req) = lm_IdempotencyKey req"
| "op_key (OpDeposit u c a key) = key"
| "op_key (OpWithdraw req key) = key"
| "op_key (OpExternal req key) = key"
| "op_key (OpTransfer req) = tr_IdempotencyKey req"
| "op_key (OpConvert u a c c' key) = key"

text \<open>A conversion is between two currencies.\<close>

fun admissible :: "money_op \<Rightarrow> bool" where
  "admissible (OpConvert u a c c' key) = (c \<noteq> c')"
| "admissible _ = True"

text \<open>Databases reachable by operations run in any world (any faults, clock, supply of identifiers) and by
  work of the other components, which leaves the ledger tables alone.\<close>

inductive reachable :: "db \<Rightarrow> db \<Rightarrow> bool" for d0 where
  start: "reachable d0 d0"
| step: "reachable d0 (wdb w) \<Longrightarrow> admissible op \<Longrightarrow> run_op cfg op w = (r, w') \<Longrightarrow> reachable d0 (wdb w')"
| other: "reachable d0 d \<Longrightarrow> tables_same d d' \<Longrightarrow> (accounts_unique d \<Longrightarrow> accounts_unique d') \<Longrightarrow> reachable d0 d'"

section \<open>Accounts stay unique\<close>

abbreviation keeps_accounts :: "db \<Rightarrow> db \<Rightarrow> bool" where
  "keeps_accounts d d' \<equiv> accounts_unique d \<longrightarrow> accounts_unique d'"

interpretation uniq: db_preorder keeps_accounts
  by unfold_locales auto

lemma uniq_mapped: "pres keeps_accounts m \<Longrightarrow> pres keeps_accounts (mapped m)"
  unfolding mapped_def by (rule uniq.pres_on_err)

lemma uniq_if_fixed: "pres (=) m \<Longrightarrow> pres keeps_accounts m"
  by (erule pres_mono) auto

lemma uniq_stmts:
  "pres keeps_accounts (LedgerRepo_CreateTransaction t)" "pres keeps_accounts (LedgerRepo_InsertEntry e)"
  "pres keeps_accounts (AccountRepo_SetBalance aid b)" "pres keeps_accounts (NotificationRepo_Create u c ti bo)"
  unfolding LedgerRepo_CreateTransaction_def LedgerRepo_InsertEntry_def AccountRepo_SetBalance_def
    NotificationRepo_Create_def
  by (intro uniq_mapped uniq.pres_stmt; auto simp: accounts_unique_def Let_def split: if_splits)+

lemma uniq_side: "pres keeps_accounts (notify u c t b)" "pres keeps_accounts (notifyChanged cfg u)"
  "pres keeps_accounts (emailUser cfg u tpl cur x)" "pres keeps_accounts (find_replay key)"
  "pres keeps_accounts m \<Longrightarrow> pres keeps_accounts (or_replay key m)"
  "pres keeps_accounts (post txn aid u mv cur x nb)" "pres keeps_accounts (pick_reference r ty)"
  unfolding notify_def notifyChanged_def emailUser_def or_replay_def post_def pick_reference_def
  by (intro uniq.pres_rules uniq_stmts uniq.pres_modify uniq_if_fixed [OF find_replay_fixed] repos_read [THEN uniq_if_fixed];
      simp)+

lemmas uniq_rules = uniq.pres_rules uniq_stmts uniq_side accounts_unique_stable repos_read [THEN uniq_if_fixed]

lemma uniq_ops: "pres keeps_accounts (Credit req)" "pres keeps_accounts (Debit req)"
  "pres keeps_accounts (Deposit cfg u c a key)" "pres keeps_accounts (Withdraw cfg req key)"
  "pres keeps_accounts (WithdrawExternal cfg req key)" "pres keeps_accounts (Transfer cfg treq)"
  "pres keeps_accounts (Convert cfg u a c c' key)"
  unfolding Credit_def Debit_def Deposit_def Withdraw_def WithdrawExternal_def Transfer_def Convert_def
    move_def move_body_def external_body_def settle_fee_def transfer_body_def transfer_fee_def transfer_credit_def
    convert_body_def QuoteConversion_def
  by (intro uniq_rules)+

lemma run_op_accounts: "pres keeps_accounts (run_op cfg op)"
  by (cases op) (simp_all add: uniq_ops)

section \<open>Invariants of every reachable state\<close>

definition ledger_ok :: "db \<Rightarrow> bool" where
  "ledger_ok d \<longleftrightarrow> projection_ok d \<and> keys_unique d \<and> accounts_unique d"

lemma run_op_ok:
  assumes "run_op cfg op w = (r, w')" and "admissible op" and "ledger_ok (wdb w)"
  shows "ledger_ok (wdb w') \<and> ledger_grows (wdb w) (wdb w')"
proof -
  have acc: "accounts_unique (wdb w')"
    using presD [OF run_op_accounts assms(1)] assms(3) by (simp add: ledger_ok_def)
  have ok: "projection_ok (wdb w)" "keys_unique (wdb w)" "accounts_unique (wdb w)"
    using assms(3) by (simp_all add: ledger_ok_def)
  have "projection_ok (wdb w') \<and> keys_unique (wdb w') \<and> ledger_grows (wdb w) (wdb w')"
  proof (cases op)
    case (OpCredit req)
    then show ?thesis using assms(1) ok credit.keeps_projection credit.keeps_keys_unique credit.log_grows by auto
  next
    case (OpDebit req)
    then show ?thesis using assms(1) ok debit.keeps_projection debit.keeps_keys_unique debit.log_grows by auto
  next
    case (OpDeposit u c a key)
    then show ?thesis
      using assms(1) ok deposit.keeps_projection [of cfg "(u, c, a, key)"]
        deposit.keeps_keys_unique [of cfg "(u, c, a, key)"] deposit.log_grows [of cfg "(u, c, a, key)"] by auto
  next
    case (OpWithdraw req key)
    then show ?thesis
      using assms(1) ok withdraw.keeps_projection [of cfg "(req, key)"]
        withdraw.keeps_keys_unique [of cfg "(req, key)"] withdraw.log_grows [of cfg "(req, key)"] by auto
  next
    case (OpExternal req key)
    then show ?thesis
      using assms(1) ok external.keeps_projection [of cfg "(req, key)"]
        external.keeps_keys_unique [of cfg "(req, key)"] external.log_grows [of cfg "(req, key)"] by auto
  next
    case (OpTransfer req)
    then show ?thesis
      using assms(1) ok transfer.keeps_projection [of cfg req] transfer.keeps_keys_unique [of cfg req]
        transfer.log_grows [of cfg req] by auto
  next
    case (OpConvert u a c c' key)
    then show ?thesis
      using assms ok convert.keeps_projection [of cfg "(u, a, c, c', key)"]
        convert.keeps_keys_unique [of cfg "(u, a, c, c', key)"] convert.log_grows [of cfg "(u, a, c, c', key)"] by auto
  qed
  then show ?thesis using acc by (simp add: ledger_ok_def)
qed

text \<open>C1. In every state reachable by any sequence of deposits, withdrawals, external withdrawals,
  transfers and conversions (between two different currencies), with any statement, begin or commit
  failing at any point, every row of the balance projection equals the sum of the account's immutable
  ledger entries as a 64-bit number, non-empty idempotency keys are unique, and the transaction and entry
  tables have only grown.\<close>

theorem ledger_invariant:
  assumes "reachable d0 d" and "ledger_ok d0"
  shows "(\<forall>aid. balance_of d aid = wrap64 (ledger_sum d aid)) \<and> keys_unique d \<and> ledger_grows d0 d"
proof -
  from assms(1) have "ledger_ok d \<and> ledger_grows d0 d"
  proof (induction rule: reachable.induct)
    case start
    then show ?case using assms(2) by (simp add: grows.refl)
  next
    case (step w op cfg r w')
    then show ?case using run_op_ok grows.trans by blast
  next
    case (other d d')
    then show ?case
      unfolding ledger_ok_def
      using projection_tables keys_unique_tables grows_if_tables grows.trans by blast
  qed
  then show ?thesis by (simp add: ledger_ok_def projection_ok_def)
qed

text \<open>A concrete database with a funded account, used by the witnesses.\<close>

definition sample_user :: user_row where
  "sample_user = \<lparr>u_ID = ''u1'', u_Email = ''a@b.c'', u_Phone = [], u_FirstName = ''A'', u_LastName = ''B'',
     u_PasswordHash = [], u_PINHash = [], u_TOTPSecret = [], u_TOTPEnabled = False, u_Status = UserStatusActive,
     u_CreatedAt = 0, u_UpdatedAt = 0, u_EmailVerifiedAt = None, notify_new_signin = True, notify_failed_login = True\<rparr>"

definition sample_account :: "string \<Rightarrow> AccountKind \<Rightarrow> string \<Rightarrow> Account" where
  "sample_account aid kind cur = \<lparr>acc_ID = aid, acc_UserID = ''u1'', acc_Kind = kind, acc_Currency = cur, acc_CreatedAt = 0\<rparr>"

definition sample_db :: db where
  "sample_db = empty_db\<lparr>
     users := [sample_user, sample_user\<lparr>u_ID := PlatformUserID, u_Email := ''platform''\<rparr>],
     accounts := [sample_account ''a1'' ''available'' ''NGN'', sample_account ''a2'' ''savings'' ''NGN''],
     ledger_entries := [\<lparr>le_ID = ''e0'', le_TransactionID = ''t0'', le_AccountID = ''a1'', le_UserID = ''u1'',
       le_Movement = MovementCredit, le_Currency = ''NGN'', le_AmountMinor = 100000, le_CreatedAt = 0\<rparr>],
     balances := [''a1'' \<mapsto> 100000]\<rparr>"

definition sample_world :: "db \<Rightarrow> bool list \<Rightarrow> world" where
  "sample_world d fs = \<lparr>wdb = d, faults = fs, txst = NoTx, clock = 1000, uuid = (\<lambda>n. ''id'' @ show_nat n),
     uuid_n = 0, randref = (\<lambda>n. ''r'' @ show_nat n), rand_n = 0, hub_log = [], mail_log = []\<rparr>"

definition sample_request :: LedgerMoveRequest where
  "sample_request = \<lparr>lm_UserID = ''u1'', lm_AccountKind = ''available'', lm_Currency = [], lm_Type = ''withdrawal'',
     lm_AmountMinor = 5000, lm_FeeMinor = 100, lm_ExchangeRate = [], lm_Reference = ''ref'', lm_ProviderRef = [],
     lm_IdempotencyKey = [], lm_Metadata = None\<rparr>"

lemma sample_wdb [simp]: "wdb (sample_world d fs) = d"
  by (simp add: sample_world_def)

lemma sample_ok: "ledger_ok sample_db"
  by (auto simp: ledger_ok_def projection_ok_def keys_unique_def accounts_unique_def sample_db_def empty_db_def
      balance_of_def ledger_sum_def signed_amount_def wrap64_def sample_account_def)

lemmas eval_defs = sample_world_def sample_db_def empty_db_def sample_user_def sample_account_def sample_request_def
  WithdrawExternal_def external_body_def settle_fee_def find_replay_def post_def pick_reference_def request_txn_def
  LedgerRepo_FindTransactionByIDempotencyKey_def AccountRepo_FindByUserAndKind_def LedgerRepo_SumBalanceByAccount_def
  LedgerRepo_CreateTransaction_def LedgerRepo_InsertEntry_def AccountRepo_SetBalance_def AccountRepo_EnsureAccount_def
  mapped_def on_err_def mapPgErr_def errIs_def stmt_def select_def first_row_def consume_def RunInTx_def bnd_def
  attempt_def reject_def ret_def fail_def emailUser_def notifyChanged_def has_user_def ledger_sum_def
  signed_amount_def Let_def or_NGN_def defaultMetadata_def PlatformUserID_def AccountKindPlatformFees_def
  AccountKindAvailable_def AccountKindSavings_def wrap64_def in64_def max_int64_def min_int64_def abort_def
  newRandRef_def show_nat.simps digit_char_def

abbreviation quiet :: money_cfg where
  "quiet \<equiv> \<lparr>has_mailer = False, has_hub = False\<rparr>"

text \<open>An external withdrawal of 5000 with a fee of 100 from the sample account.\<close>

lemma sample_external:
  obtains t w' where "WithdrawExternal quiet sample_request ''k1'' (sample_world sample_db []) = (Inr t, w')"
    "ledger_sum (wdb w') ''a1'' = 94900" "transactions (wdb w') = [t]" "txn_IdempotencyKey t = ''k1''"
proof -
  have "case WithdrawExternal quiet sample_request ''k1'' (sample_world sample_db []) of
      (Inr t, w') \<Rightarrow> ledger_sum (wdb w') ''a1'' = 94900 \<and> transactions (wdb w') = [t] \<and> txn_IdempotencyKey t = ''k1''
    | _ \<Rightarrow> False"
    by (simp add: eval_defs)
  then show ?thesis using that by (auto split: prod.splits sum.splits)
qed

theorem ledger_invariant_witness:
  "\<exists>d. reachable sample_db d \<and> ledger_ok sample_db \<and> ledger_sum d ''a1'' = 94900 \<and> balance_of d ''a1'' = 94900"
proof -
  obtain t w' where run: "WithdrawExternal quiet sample_request ''k1'' (sample_world sample_db []) = (Inr t, w')"
    and sum: "ledger_sum (wdb w') ''a1'' = 94900" by (rule sample_external)
  have "reachable sample_db (wdb w')"
    by (rule reachable.step [where w = "sample_world sample_db []" and op = "OpExternal sample_request ''k1''" and cfg = quiet])
      (simp_all add: run reachable.start)
  with ledger_invariant [OF this sample_ok] sum sample_ok show ?thesis
    by (auto simp: wrap64_def)
qed

section \<open>At most once\<close>

lemma run_op_at_most_once:
  assumes "run_op cfg op w = (r, w')" and "keys_unique (wdb w)" and "replayed (op_key op) (wdb w) t"
  shows "ledger_same (wdb w) (wdb w') \<and> (\<forall>t'. r = Inr t' \<longrightarrow> t' = t)"
proof (cases op)
  case (OpCredit req)
  then show ?thesis using assms credit.at_most_once [of req w r w' t] by (auto simp: ledger_ok_def)
next
  case (OpDebit req)
  then show ?thesis using assms debit.at_most_once [of req w r w' t] by (auto simp: ledger_ok_def)
next
  case (OpDeposit u c a key)
  then show ?thesis using assms deposit.at_most_once [of cfg "(u, c, a, key)" w r w' t] by (auto simp: ledger_ok_def)
next
  case (OpWithdraw req key)
  then show ?thesis using assms withdraw.at_most_once [of cfg "(req, key)" w r w' t] by (auto simp: ledger_ok_def)
next
  case (OpExternal req key)
  then show ?thesis using assms external.at_most_once [of cfg "(req, key)" w r w' t] by (auto simp: ledger_ok_def)
next
  case (OpTransfer req)
  then show ?thesis using assms transfer.at_most_once [of cfg req w r w' t] by (auto simp: ledger_ok_def)
next
  case (OpConvert u a c c' key)
  then show ?thesis using assms conversion.at_most_once [of cfg "(u, a, c, c', key)" w r w' t] by (auto simp: ledger_ok_def)
qed

lemma run_op_recorded:
  assumes "run_op cfg op w = (Inr t, w')" and "op_key op \<noteq> []"
  shows "replayed (op_key op) (wdb w') t"
proof (cases op)
  case (OpCredit req)
  then show ?thesis using assms credit.success_recorded [of req w t w'] by simp
next
  case (OpDebit req)
  then show ?thesis using assms debit.success_recorded [of req w t w'] by simp
next
  case (OpDeposit u c a key)
  then show ?thesis using assms deposit.success_recorded [of cfg "(u, c, a, key)" w t w'] by simp
next
  case (OpWithdraw req key)
  then show ?thesis using assms withdraw.success_recorded [of cfg "(req, key)" w t w'] by simp
next
  case (OpExternal req key)
  then show ?thesis using assms external.success_recorded [of cfg "(req, key)" w t w'] by simp
next
  case (OpTransfer req)
  then show ?thesis using assms transfer.success_recorded [of cfg req w t w'] by simp
next
  case (OpConvert u a c c' key)
  then show ?thesis using assms conversion.success_recorded [of cfg "(u, a, c, c', key)" w t w'] by simp
qed

lemma reachable_ok: "reachable d0 d \<Longrightarrow> ledger_ok d0 \<Longrightarrow> ledger_ok d \<and> ledger_grows d0 d"
proof (induction rule: reachable.induct)
  case (step w op cfg r w')
  then show ?case using run_op_ok grows.trans by blast
next
  case (other d d')
  then show ?case
    unfolding ledger_ok_def using projection_tables keys_unique_tables grows_if_tables grows.trans by blast
qed (simp add: grows.refl)

lemma replayed_grows: "replayed key d t \<Longrightarrow> ledger_grows d d' \<Longrightarrow> replayed key d' t"
  by (auto simp: replayed_def ledger_grows_def)

text \<open>For the keys alone a conversion between equal currencies needs no exclusion. The other components only append
  to the log and keep its keys unique, as C8 shows of the vault.\<close>

inductive keyed_reachable :: "db \<Rightarrow> db \<Rightarrow> bool" for d0 where
  start: "keyed_reachable d0 d0"
| step: "keyed_reachable d0 (wdb w) \<Longrightarrow> run_op cfg op w = (r, w') \<Longrightarrow> keyed_reachable d0 (wdb w')"
| other: "keyed_reachable d0 d \<Longrightarrow> ledger_grows d d' \<Longrightarrow> (keys_unique d \<Longrightarrow> keys_unique d') \<Longrightarrow> keyed_reachable d0 d'"

lemma run_op_keyed:
  assumes "run_op cfg op w = (r, w')" and "keys_unique (wdb w)"
  shows "keys_unique (wdb w') \<and> ledger_grows (wdb w) (wdb w')"
proof (cases op)
  case (OpCredit req)
  then show ?thesis using assms credit.keeps_keys_unique credit.log_grows by auto
next
  case (OpDebit req)
  then show ?thesis using assms debit.keeps_keys_unique debit.log_grows by auto
next
  case (OpDeposit u c a key)
  then show ?thesis
    using assms deposit.keeps_keys_unique [of cfg "(u, c, a, key)"] deposit.log_grows [of cfg "(u, c, a, key)"] by auto
next
  case (OpWithdraw req key)
  then show ?thesis
    using assms withdraw.keeps_keys_unique [of cfg "(req, key)"] withdraw.log_grows [of cfg "(req, key)"] by auto
next
  case (OpExternal req key)
  then show ?thesis
    using assms external.keeps_keys_unique [of cfg "(req, key)"] external.log_grows [of cfg "(req, key)"] by auto
next
  case (OpTransfer req)
  then show ?thesis
    using assms transfer.keeps_keys_unique [of cfg req] transfer.log_grows [of cfg req] by auto
next
  case (OpConvert u a c c' key)
  then show ?thesis
    using assms conversion.keeps_keys_unique [of cfg "(u, a, c, c', key)"] conversion.log_grows [of cfg "(u, a, c, c', key)"] by auto
qed

lemma keyed_reachable_ok: "keyed_reachable d0 d \<Longrightarrow> keys_unique d0 \<Longrightarrow> keys_unique d \<and> ledger_grows d0 d"
proof (induction rule: keyed_reachable.induct)
  case start
  then show ?case by (simp add: grows.refl)
next
  case (step w cfg op r w')
  then show ?case using run_op_keyed grows.trans by blast
next
  case (other d d')
  then show ?case using grows.trans by blast
qed



section \<open>Failures change nothing\<close>

lemma replay_then_err:
  assumes "bnd (find_replay key) (\<lambda>ex. case ex of Some t \<Rightarrow> ret t | None \<Rightarrow> m) w = (Inl e, w')"
    and "\<And>w1. m w1 = (Inl e, w') \<Longrightarrow> wdb w' = wdb w1"
  shows "wdb w' = wdb w"
proof -
  obtain x w1 where f: "find_replay key w = (x, w1)" by (cases "find_replay key w")
  have w1: "wdb w1 = wdb w" using presD [OF find_replay_fixed f] by simp
  show ?thesis
  proof (cases x)
    case (Inl e')
    then show ?thesis using assms(1) f w1 by (simp add: bnd_def)
  next
    case (Inr ex)
    then show ?thesis using assms f w1 by (cases ex) (auto simp: bnd_def ret_def)
  qed
qed

lemma tail_no_err: "tail t g \<Longrightarrow> g w \<noteq> (Inl e, w')"
  by (metis Inl_Inr_False fst_conv tail_def)

lemma bnd_tail_err:
  assumes "bnd m g w = (Inl e, w')" and "\<And>t. tail t (g t)"
  shows "m w = (Inl e, w')"
  using assms tail_no_err by (metis bnd_errE)

lemma move_err_fixed: "move req mv w = (Inl e, w') \<Longrightarrow> wdb w' = wdb w"
  using move_outcome [of req mv w "Inl e" w'] by simp

lemma Credit_err: "Credit req w = (Inl e, w') \<Longrightarrow> wdb w' = wdb w"
  using move_err_fixed by (auto simp: Credit_def fail_def split: if_splits)

lemma Debit_err: "Debit req w = (Inl e, w') \<Longrightarrow> wdb w' = wdb w"
  using move_err_fixed by (auto simp: Debit_def fail_def split: if_splits)

lemma Deposit_err: "Deposit cfg u c a key w = (Inl e, w') \<Longrightarrow> wdb w' = wdb w"
  unfolding Deposit_def Let_def
  by (erule replay_then_err) (drule bnd_tail_err, intro tail_rules, erule Credit_err)

lemma Withdraw_err: "Withdraw cfg req key w = (Inl e, w') \<Longrightarrow> wdb w' = wdb w"
  unfolding Withdraw_def Let_def
  by (erule replay_then_err) (drule bnd_tail_err, intro tail_rules, erule Debit_err)

lemma WithdrawExternal_err: "WithdrawExternal cfg req key w = (Inl e, w') \<Longrightarrow> wdb w' = wdb w"
  unfolding WithdrawExternal_def Let_def
  by (split if_splits; auto simp: fail_def)
    (erule replay_then_err, drule bnd_tail_err, intro tail_rules, erule RunInTx_err)

lemma attempt_tx_err:
  assumes run: "bnd (attempt (RunInTx body)) (\<lambda>r. case r of Inr t \<Rightarrow> g t | Inl e' \<Rightarrow> or_replay k (fail e')) w1 = (Inl e, w2)"
    and g: "\<And>t. tail t (g t)"
  shows "wdb w2 = wdb w1"
proof -
  obtain x w' where b: "RunInTx body w1 = (x, w')" by (cases "RunInTx body w1")
  show ?thesis
  proof (cases x)
    case (Inl e')
    then have "or_replay k (fail e') w' = (Inl e, w2)" using run b by (simp add: bnd_def attempt_def)
    from or_replay_err [OF this] have "wdb w2 = wdb w'" by (auto simp: fail_def)
    then show ?thesis using RunInTx_err [of body w1 e' w'] b Inl by simp
  next
    case (Inr t)
    then show ?thesis using run b tail_no_err [OF g] by (auto simp: bnd_def attempt_def)
  qed
qed

lemma Transfer_err:
  assumes "Transfer cfg req w = (Inl e, w')"
  shows "wdb w' = wdb w"
proof (cases "tr_AmountMinor req \<le> 0")
  case True
  then show ?thesis using assms by (simp add: Transfer_def fail_def)
next
  case False
  have email: "pres ledger_same (if b then emailUser cfg u tpl cur x else ret ())"
    "never_fails (if b then emailUser cfg u tpl cur x else ret ())" for b u tpl cur x
    by (simp_all add: tail_rules)
  from assms show ?thesis
    unfolding Transfer_def Let_def if_not_P [OF False]
    by (rule replay_then_err) (erule attempt_tx_err, intro email tail_rules)
qed

text \<open>A conversion opens the accounts it needs before its transaction starts. The database gained some available
  accounts of the user in the given currencies, and nothing else changed.\<close>

definition opened :: "string \<Rightarrow> string set \<Rightarrow> db \<Rightarrow> db \<Rightarrow> bool" where
  "opened u cs d d' \<longleftrightarrow> (\<exists>as. d' = d\<lparr>accounts := accounts d @ as\<rparr>
     \<and> (\<forall>a\<in>set as. acc_UserID a = u \<and> acc_Kind a = AccountKindAvailable \<and> acc_Currency a \<in> cs))"

interpretation opened: db_preorder "opened u cs" for u cs
proof
  show "opened u cs d d" for d unfolding opened_def by (rule exI [of _ "[]"]) simp
  show "opened u cs d1 d3" if "opened u cs d1 d2" "opened u cs d2 d3" for d1 d2 d3
    using that unfolding opened_def by (elim exE conjE) (rule exI, auto)
qed

lemma opened_new: "acc_UserID a = u \<Longrightarrow> acc_Kind a = AccountKindAvailable \<Longrightarrow> acc_Currency a \<in> cs \<Longrightarrow>
    opened u cs d (d\<lparr>accounts := accounts d @ [a]\<rparr>)"
  unfolding opened_def by (rule exI [of _ "[a]"]) simp

lemma opened_if_fixed: "pres (=) m \<Longrightarrow> pres (opened u cs) m"
  by (erule pres_mono) (auto intro: opened.refl)

lemma Ensure_opened: "c \<in> cs \<Longrightarrow> pres (opened u cs) (AccountRepo_EnsureAccount u AccountKindAvailable c)"
  unfolding AccountRepo_EnsureAccount_def mapped_def
  by (intro opened.pres_on_err opened.pres_stmt)
    (auto simp: Let_def intro: opened.refl opened_new split: option.splits if_splits)

lemma Convert_err:
  assumes "Convert cfg u a c c' key w = (Inl e, w')"
  shows "opened u {c, c'} (wdb w) (wdb w')"
proof -
  let ?pre = "bnd (QuoteConversion a c c') (\<lambda>quote.
     bnd (AccountRepo_EnsureAccount u AccountKindAvailable c) (\<lambda>_.
     bnd (AccountRepo_EnsureAccount u AccountKindAvailable c') (\<lambda>_. ret quote)))"
  let ?rest = "\<lambda>quote. bnd (find_replay key) (\<lambda>existing. case existing of
       Some t \<Rightarrow> ret t
     | None \<Rightarrow>
         bnd (attempt (RunInTx (convert_body u quote key))) (\<lambda>r. case r of
           Inr result \<Rightarrow>
             bnd (notify u ''conversion'' ''Conversion completed''
                    (formatMinor (q_InputAmount quote) c @ [CHR '' '', CHR 0xE2, CHR 0x86, CHR 0x92, CHR '' ''] @
                     formatMinor (q_OutputAmount quote) c' @ ''.'')) (\<lambda>_.
             bnd (notifyChanged cfg u) (\<lambda>_. ret result))
         | Inl e \<Rightarrow> or_replay key (fail e)))"
  have rest: "wdb w2 = wdb w1" if "?rest q w1 = (Inl e, w2)" for q w1 w2
    using that by (rule replay_then_err) (erule attempt_tx_err, intro tail_rules)
  have "bnd ?pre ?rest w = (Inl e, w')"
    using assms by (simp only: Convert_def bnd_assoc bnd_ret)
  moreover have pre: "pres (opened u {c, c'}) ?pre"
    unfolding QuoteConversion_def
    by (intro opened.pres_rules Ensure_opened repos_read [THEN opened_if_fixed]) simp_all
  ultimately show ?thesis
  proof (cases rule: bnd_cases)
    case (stop e')
    then show ?thesis using presD [OF pre stop(1)] by simp
  next
    case (go q w1)
    then show ?thesis using presD [OF pre go(1)] rest [OF go(2)] by simp
  qed
qed

text \<open>C4. Failures are atomic: whatever the reason (rejected amount, missing account, insufficient funds,
  any database failure before, inside or at the end of the transaction), a deposit, withdrawal, external
  withdrawal, transfer, credit or debit that returns an error leaves the whole database as it was. A
  conversion opens the accounts it needs before its transaction starts; when it returns an error the
  database has gained at most available accounts of the user in the two currencies, and is otherwise as it
  was: in particular no transaction, entry or balance has changed.\<close>

theorem failure_atomic:
  "(case fst (Credit r w) of Inl _ \<Rightarrow> wdb (snd (Credit r w)) = wdb w | _ \<Rightarrow> True)
   \<and> (case fst (Debit r w) of Inl _ \<Rightarrow> wdb (snd (Debit r w)) = wdb w | _ \<Rightarrow> True)
   \<and> (case fst (Deposit cfg u c a key w) of Inl _ \<Rightarrow> wdb (snd (Deposit cfg u c a key w)) = wdb w | _ \<Rightarrow> True)
   \<and> (case fst (Withdraw cfg r key w) of Inl _ \<Rightarrow> wdb (snd (Withdraw cfg r key w)) = wdb w | _ \<Rightarrow> True)
   \<and> (case fst (WithdrawExternal cfg r key w) of Inl _ \<Rightarrow> wdb (snd (WithdrawExternal cfg r key w)) = wdb w | _ \<Rightarrow> True)
   \<and> (case fst (Transfer cfg tr w) of Inl _ \<Rightarrow> wdb (snd (Transfer cfg tr w)) = wdb w | _ \<Rightarrow> True)
   \<and> (case fst (Convert cfg u a c c' key w) of
        Inl _ \<Rightarrow> (\<exists>as. wdb (snd (Convert cfg u a c c' key w)) = (wdb w)\<lparr>accounts := accounts (wdb w) @ as\<rparr>
          \<and> list_all (\<lambda>acc. acc_UserID acc = u \<and> acc_Kind acc = AccountKindAvailable \<and> acc_Currency acc \<in> {c, c'}) as)
      | _ \<Rightarrow> True)"
proof -
  have err: "case fst p of Inl _ \<Rightarrow> R (wdb (snd p)) | _ \<Rightarrow> True"
    if "\<And>e w'. p = (Inl e, w') \<Longrightarrow> R (wdb w')" for p :: "(err + Transaction) \<times> 'z world_scheme" and R
  proof (cases p)
    case (Pair x w')
    then show ?thesis using that [of _ w'] by (cases x) simp_all
  qed
  show ?thesis
    by ((intro conjI; rule err), erule Credit_err, erule Debit_err, erule Deposit_err, erule Withdraw_err,
        erule WithdrawExternal_err, erule Transfer_err, erule Convert_err [unfolded opened_def Ball_set])
qed

section \<open>Conservation and fees\<close>

lemma contract_sums:
  assumes "ledger_same d d1" and "ledger_same d2 d'"
  shows "ledger_sum d1 = ledger_sum d" and "ledger_sum d' = ledger_sum d2"
  using ledger_sum_same [OF assms(1)] ledger_sum_same [OF assms(2)] by simp_all

text \<open>Exactly \<open>x + fee\<close> leaves one account of the user, of the given kind and currency, which covered it, and
  exactly the fee reaches the platform's fee account of that currency; no other balance changes. Both are
  rows of the accounts table.\<close>

definition charged :: "string \<Rightarrow> AccountKind \<Rightarrow> string \<Rightarrow> int64 \<Rightarrow> int64 \<Rightarrow> db \<Rightarrow> db \<Rightarrow> bool" where
  "charged u kind cur x fee d d' \<longleftrightarrow> (\<exists>from feeAcct. owns d' u kind cur from
    \<and> (0 < fee \<longrightarrow> owns d' PlatformUserID AccountKindPlatformFees cur feeAcct)
    \<and> x + fee \<le> ledger_sum d (acc_ID from)
    \<and> (\<forall>aid. ledger_sum d' aid = ledger_sum d aid
          - (if aid = acc_ID from then x + fee else 0) + (if aid = acc_ID feeAcct \<and> 0 < fee then fee else 0)))"

lemma external_charged:
  assumes "WithdrawExternal cfg req key w = (Inr t, w')" and "in64 (lm_AmountMinor req + lm_FeeMinor req)"
    and "\<not> replayed key (wdb w) t"
  shows "charged (lm_UserID req) (lm_AccountKind req) (or_NGN (lm_Currency req)) (lm_AmountMinor req) (lm_FeeMinor req) (wdb w) (wdb w')"
proof -
  from external.success [of cfg "(req, key)" w t w'] assms(1,3) obtain d1 d2 where
    same: "ledger_same (wdb w) d1" "ledger_same d2 (wdb w')" and eff: "external_effect (external_request req key) d1 t d2"
    by auto
  have wr: "wrap64 (lm_AmountMinor req + lm_FeeMinor req) = lm_AmountMinor req + lm_FeeMinor req"
    using assms(2) by (rule wrap64_id)
  from eff obtain from' feeAcct :: Account where
    src: "owns d1 (lm_UserID req) (lm_AccountKind req) (or_NGN (lm_Currency req)) from'"
      "lm_AmountMinor req + lm_FeeMinor req \<le> ledger_sum d1 (acc_ID from')"
    and fee: "0 < lm_FeeMinor req \<longrightarrow> owns d2 PlatformUserID AccountKindPlatformFees (or_NGN (lm_Currency req)) feeAcct"
    and book: "booked d1 t ((acc_ID from', MovementDebit, lm_AmountMinor req + lm_FeeMinor req)
       # (if lm_FeeMinor req > 0 then [(acc_ID feeAcct, MovementCredit, lm_FeeMinor req)] else [])) d2"
    by (auto simp: external_effect_def external_request_def wr cong: if_cong)
  have own: "owns (wdb w') (lm_UserID req) (lm_AccountKind req) (or_NGN (lm_Currency req)) from'"
    using src(1) booked_accounts [OF book] same_accounts [OF same(2)] by (auto simp: owns_def)
  have feeown: "0 < lm_FeeMinor req \<longrightarrow> owns (wdb w') PlatformUserID AccountKindPlatformFees (or_NGN (lm_Currency req)) feeAcct"
    using fee same_accounts [OF same(2)] by (auto simp: owns_def)
  have "ledger_sum (wdb w') aid = ledger_sum (wdb w) aid
          - (if aid = acc_ID from' then lm_AmountMinor req + lm_FeeMinor req else 0)
          + (if aid = acc_ID feeAcct \<and> 0 < lm_FeeMinor req then lm_FeeMinor req else 0)" for aid
    using booked_sum [OF book, of aid] contract_sums [OF same] by auto
  then show ?thesis using own feeown src(2) contract_sums [OF same]
    unfolding charged_def by (intro exI [of _ from'] exI [of _ feeAcct]) simp
qed

text \<open>C5. An external withdrawal that succeeds and is not a replay debits exactly amount plus fee from one
  account of the user, a row of the accounts table of the requested kind and currency (naira when none is
  named), whose balance covered it; a positive fee is credited in full to an account of the platform, a row
  of its kind \<open>platform_fees\<close> in the same currency; and the balance of no other account changes (amount and
  fee small enough that their sum fits 64 bits).\<close>

theorem external_conserves:
  assumes "WithdrawExternal cfg req key w = (Inr t, w')" and "in64 (lm_AmountMinor req + lm_FeeMinor req)"
    and "\<not> replayed key (wdb w) t"
  shows "\<exists>from feeAcct. from \<in> set (accounts (wdb w')) \<and> acc_UserID from = lm_UserID req
    \<and> acc_Kind from = lm_AccountKind req \<and> acc_Currency from = or_NGN (lm_Currency req)
    \<and> (0 < lm_FeeMinor req \<longrightarrow> feeAcct \<in> set (accounts (wdb w')) \<and> acc_UserID feeAcct = PlatformUserID
         \<and> acc_Kind feeAcct = AccountKindPlatformFees \<and> acc_Currency feeAcct = or_NGN (lm_Currency req))
    \<and> lm_AmountMinor req + lm_FeeMinor req \<le> ledger_sum (wdb w) (acc_ID from)
    \<and> (\<forall>aid. ledger_sum (wdb w') aid = ledger_sum (wdb w) aid
          - (if aid = acc_ID from then lm_AmountMinor req + lm_FeeMinor req else 0)
          + (if aid = acc_ID feeAcct \<and> 0 < lm_FeeMinor req then lm_FeeMinor req else 0))"
  using external_charged [OF assms] unfolding charged_def owns_def by simp

theorem external_conserves_witness:
  "in64 (lm_AmountMinor sample_request + lm_FeeMinor sample_request) \<and>
   (\<exists>t w'. WithdrawExternal quiet sample_request ''k1'' (sample_world sample_db []) = (Inr t, w')
      \<and> \<not> replayed ''k1'' (wdb (sample_world sample_db [])) t
      \<and> (\<exists>from\<in>set (accounts (wdb w')). acc_UserID from = ''u1'' \<and> acc_Kind from = ''available''
            \<and> acc_Currency from = ''NGN'' \<and> 5100 \<le> ledger_sum sample_db (acc_ID from))
      \<and> (\<exists>fees\<in>set (accounts (wdb w')). acc_UserID fees = PlatformUserID \<and> acc_Kind fees = AccountKindPlatformFees))"
proof -
  obtain t w' where run: "WithdrawExternal quiet sample_request ''k1'' (sample_world sample_db []) = (Inr t, w')"
    by (rule sample_external)
  have no: "\<not> replayed ''k1'' (wdb (sample_world sample_db [])) t" by (simp add: replayed_def sample_db_def empty_db_def)
  have fits: "in64 (lm_AmountMinor sample_request + lm_FeeMinor sample_request)"
    by (simp add: sample_request_def int64_bounds)
  show ?thesis
    using external_conserves [OF run fits no] run no fits by (fastforce simp: sample_request_def or_NGN_def)
qed

text \<open>A transfer that succeeds and is not a replay debits amount plus a positive fee from the source
  account, whose balance covered amount plus fee, and credits exactly the amount to the destination
  account when the request names one; the sum over the two accounts drops by the fee only, and no other
  account changes.\<close>

lemma transfer_conserves:
  assumes "Transfer cfg req w = (Inr t, w')" and "\<not> replayed (tr_IdempotencyKey req) (wdb w) t"
  shows "\<exists>(from :: Account) (to :: Account). acc_UserID from = tr_UserID req \<and> (tr_ToKind req \<noteq> [] \<longrightarrow> acc_UserID to = tr_UserID req)
    \<and> wrap64 (tr_AmountMinor req + tr_FeeMinor req) \<le> ledger_sum (wdb w) (acc_ID from)
    \<and> (\<forall>aid. ledger_sum (wdb w') aid = ledger_sum (wdb w) aid
          - (if aid = acc_ID from then tr_AmountMinor req + max 0 (tr_FeeMinor req) else 0)
          + (if aid = acc_ID to \<and> tr_ToKind req \<noteq> [] then tr_AmountMinor req else 0))"
proof -
  from transfer.success [OF assms(1)] assms(2) obtain d1 d2 where
    same: "ledger_same (wdb w) d1" "ledger_same d2 (wdb w')"
    and eff: "transfer_effect (req\<lparr>tr_Currency := or_NGN (tr_Currency req)\<rparr>) d1 t d2"
    by auto
  from eff obtain from' to :: Account where
    acc: "acc_UserID from' = tr_UserID req" "tr_ToKind req \<noteq> [] \<longrightarrow> acc_UserID to = tr_UserID req"
      "wrap64 (tr_AmountMinor req + tr_FeeMinor req) \<le> ledger_sum d1 (acc_ID from')"
    and book: "booked d1 t ((acc_ID from', MovementDebit, tr_AmountMinor req)
             # (if tr_FeeMinor req > 0 then [(acc_ID from', MovementDebit, tr_FeeMinor req)] else [])
             @ (if tr_ToKind req \<noteq> [] then [(acc_ID to, MovementCredit, tr_AmountMinor req)] else [])) d2"
    by (auto simp: transfer_effect_def owns_def cong: if_cong)
  have "ledger_sum (wdb w') aid = ledger_sum (wdb w) aid
          - (if aid = acc_ID from' then tr_AmountMinor req + max 0 (tr_FeeMinor req) else 0)
          + (if aid = acc_ID to \<and> tr_ToKind req \<noteq> [] then tr_AmountMinor req else 0)" for aid
    using booked_sum [OF book, of aid] contract_sums [OF same] by auto
  then show ?thesis using acc contract_sums [OF same] by (intro exI [of _ from'] exI [of _ to]) simp
qed

definition sample_transfer :: TransferRequest where
  "sample_transfer = \<lparr>tr_UserID = ''u1'', tr_FromKind = ''available'', tr_ToKind = ''savings'', tr_Currency = [],
     tr_AmountMinor = 30000, tr_FeeMinor = 0, tr_ExchangeRate = [], tr_Reference = ''ref'', tr_ProviderRef = [],
     tr_IdempotencyKey = ''k2'', tr_Metadata = None, tr_Destination = [], tr_Description = []\<rparr>"

lemma sample_transfer_run:
  obtains t w' where "Transfer quiet sample_transfer (sample_world sample_db []) = (Inr t, w')"
proof -
  have "case Transfer quiet sample_transfer (sample_world sample_db []) of (Inr t, w') \<Rightarrow> True | _ \<Rightarrow> False"
    by (simp add: eval_defs Transfer_def transfer_body_def transfer_fee_def transfer_credit_def transfer_txn_def
        sample_transfer_def metadataWith_def notify_def ignore_def NotificationRepo_Create_def)
  then show ?thesis using that by (auto split: prod.splits sum.splits)
qed

section \<open>No overdraft\<close>

definition solvent :: "db \<Rightarrow> bool" where
  "solvent d \<longleftrightarrow> (\<forall>aid. 0 \<le> ledger_sum d aid)"

text \<open>The numbers of a request: fees are not negative and amount plus fee fits 64 bits.\<close>

fun sane :: "money_op \<Rightarrow> bool" where
  "sane (OpExternal req key) = (0 \<le> lm_FeeMinor req \<and> in64 (lm_AmountMinor req + lm_FeeMinor req))"
| "sane (OpTransfer req) = (0 \<le> tr_FeeMinor req \<and> in64 (tr_AmountMinor req + tr_FeeMinor req))"
| "sane (OpConvert u a c c' key) = in64 a"
| "sane _ = True"

lemma solvent_same: "solvent d \<Longrightarrow> ledger_same d d' \<Longrightarrow> solvent d'"
  by (simp add: solvent_def ledger_sum_same)

lemma solvent_moved:
  assumes "solvent d" and "moved req mv d t d'" and "mv = MovementCredit \<Longrightarrow> 0 < lm_AmountMinor req"
  shows "solvent d'"
  using assms(2)
proof (rule moved_ledger)
  fix acc
  assume deb: "mv = MovementDebit \<Longrightarrow> move_total req mv \<le> ledger_sum d (acc_ID acc)"
    and sum: "\<And>aid. ledger_sum d' aid = ledger_sum d aid + (if aid = acc_ID acc then signed_by mv (move_total req mv) else 0)"
  show ?thesis
    unfolding solvent_def
  proof
    fix aid
    show "0 \<le> ledger_sum d' aid"
      using assms(1,3) deb sum [of aid] by (cases mv) (auto simp: solvent_def move_total_def)
  qed
qed

lemma solvent_debit: "solvent d \<Longrightarrow> moved req MovementDebit d t d' \<Longrightarrow> solvent d'"
  by (erule solvent_moved, assumption) simp

lemma quote_output_nonneg:
  assumes "quote_from_rate a c c' rate = Inr q" and "0 < a" and "in64 a"
  shows "0 \<le> q_OutputAmount q \<and> 0 \<le> q_FeeAmount q \<and> q_FeeAmount q \<le> a"
proof -
  from assms(1) obtain fee net out where rate: "0 < er_Rate rate"
    and fee: "Percent (FromMinorUnits a) (er_FeeBPS rate) = Inr fee" and net: "Sub (FromMinorUnits a) fee = Inr net"
    and out: "convertCrossQuotes (Minor net) (er_Rate rate) c c' = Inr out"
    and q: "q_OutputAmount q = out" "q_FeeAmount q = minor fee"
    by (auto simp: quote_from_rate_def Let_def Minor_def split: if_splits sum.splits)
  have feeb: "0 \<le> minor fee" "minor fee \<le> a"
    using fee Percent_between [of "FromMinorUnits a" "er_FeeBPS rate"] assms(2,3)
    by (auto simp: FromMinorUnits_def split: if_splits)
  then have "in64 (minor fee)" and "in64 (a - minor fee)" using assms(2,3) by (auto simp: int64_bounds)
  then have netb: "minor net = a - minor fee"
    using net Sub_exact [of "FromMinorUnits a" fee] assms(3) by (auto simp: FromMinorUnits_def)
  then have n0: "0 \<le> minor net" using feeb by simp
  have nonneg: "0 \<le> minor m" if "MulRatio (FromMinorUnits (minor net)) x y = Inr m" "0 \<le> x" "0 < y" for x y m
  proof -
    have p: "0 \<le> minor net * x" using n0 that(2) by simp
    then have "minor net * x * 1 \<le> minor net * x * y" using that(3) by (intro mult_left_mono) auto
    then have "0 \<le> round_quot (minor net * x) y"
      using p that(3) by (intro round_quot_le(1) [of y _ "minor net * x"]) simp_all
    then show ?thesis using that by (auto simp: MulRatio_round_quot FromMinorUnits_def split: if_splits)
  qed
  have "0 \<le> out"
    using out rate nonneg [of "er_Rate rate" MinorUnit] nonneg [of MinorUnit "er_Rate rate"]
    by (auto simp: convertCrossQuotes_def Minor_def MinorUnit_def split: if_splits sum.splits)
  then show ?thesis using q feeb by simp
qed

lemma external_solvent:
  assumes "solvent d" and "external_effect req d t d'" and "0 \<le> lm_FeeMinor req" and "in64 (lm_AmountMinor req + lm_FeeMinor req)"
  shows "solvent d'"
proof -
  have wr: "wrap64 (lm_AmountMinor req + lm_FeeMinor req) = lm_AmountMinor req + lm_FeeMinor req"
    using assms(4) by (rule wrap64_id)
  from assms(2) obtain from' feeAcct :: Account where
    cov: "lm_AmountMinor req + lm_FeeMinor req \<le> ledger_sum d (acc_ID from')"
    and book: "booked d t ((acc_ID from', MovementDebit, lm_AmountMinor req + lm_FeeMinor req)
       # (if lm_FeeMinor req > 0 then [(acc_ID feeAcct, MovementCredit, lm_FeeMinor req)] else [])) d'"
    by (auto simp: external_effect_def wr)
  show ?thesis
    unfolding solvent_def using booked_sum [OF book] assms(1,3) cov by (auto simp: solvent_def)
qed

lemma transfer_solvent:
  assumes "solvent d" and "transfer_effect req d t d'" and "0 < tr_AmountMinor req" and "0 \<le> tr_FeeMinor req"
    and "in64 (tr_AmountMinor req + tr_FeeMinor req)"
  shows "solvent d'"
proof -
  have wr: "wrap64 (tr_AmountMinor req + tr_FeeMinor req) = tr_AmountMinor req + tr_FeeMinor req"
    using assms(5) by (rule wrap64_id)
  from assms(2) obtain from' to :: Account where
    cov: "tr_AmountMinor req + tr_FeeMinor req \<le> ledger_sum d (acc_ID from')"
    and book: "booked d t ((acc_ID from', MovementDebit, tr_AmountMinor req)
             # (if tr_FeeMinor req > 0 then [(acc_ID from', MovementDebit, tr_FeeMinor req)] else [])
             @ (if tr_ToKind req \<noteq> [] then [(acc_ID to, MovementCredit, tr_AmountMinor req)] else [])) d'"
    unfolding transfer_effect_def wr by blast
  show ?thesis
    unfolding solvent_def
  proof
    fix aid
    show "0 \<le> ledger_sum d' aid"
      using booked_sum [OF book, of aid] assms(1,3,4) cov
      by (cases "aid = acc_ID from'"; cases "aid = acc_ID to") (auto simp: solvent_def add_nonneg_nonneg)
  qed
qed

lemma convert_solvent:
  assumes "solvent d" and "conversion_effect u a c c' key d t d'" and "0 < a" and "in64 a"
  shows "solvent d'"
proof -
  from assms(2) obtain rate q and from' to :: Account where q: "quote_from_rate a c c' rate = Inr q"
    and cov: "q_InputAmount q \<le> ledger_sum d (acc_ID from')"
    and book: "booked d t [(acc_ID from', MovementDebit, q_InputAmount q), (acc_ID to, MovementCredit, q_OutputAmount q)] d'"
    by (auto simp: conversion_effect_def convert_effect_def)
  have "0 \<le> q_OutputAmount q" using quote_output_nonneg [OF q assms(3,4)] by simp
  then show ?thesis
    unfolding solvent_def using booked_sum [OF book] assms(1) cov by (auto simp: solvent_def)
qed

lemma effect_solvent:
  assumes "keyed_operation op key eff pre" and "op r w = (res, w')" and "pre r (wdb w)" and "solvent (wdb w)"
    and "\<And>d t d' w1. res = Inr t \<Longrightarrow> solvent d \<Longrightarrow> eff r d t d' \<Longrightarrow> solvent d'"
  shows "solvent (wdb w')"
  using assms(2,3)
proof (rule keyed_operation.outcome_cases [OF assms(1)])
  assume "ledger_same (wdb w) (wdb w')"
  then show ?thesis using solvent_same assms(4) by blast
next
  fix t d1 d2
  assume "res = Inr t" "ledger_same (wdb w) d1" "eff r d1 t d2" "ledger_same d2 (wdb w')"
  then show ?thesis using solvent_same assms(4,5) by metis
qed

lemma Deposit_rejects:
  assumes "a \<le> 0"
  shows "pres (=) (Deposit cfg u c a key :: ('z world_scheme, Transaction) go)"
proof -
  have "Credit (deposit_request u cc a key) = (fail ErrInvalidAmount :: ('z world_scheme, Transaction) go)" for cc
    using assms by (simp add: Credit_def deposit_request_def fun_eq_iff)
  then show ?thesis
    unfolding Deposit_def Let_def
    by (simp only: bnd_fail) (intro fixed.pres_bnd find_replay_fixed fixed.pres_option fixed.pres_ret fixed.pres_fail)
qed

text \<open>The operations that reject an amount that is not positive.\<close>

lemma Credit_solvent:
  assumes "Credit req w = (r, w')" and "solvent (wdb w)"
  shows "solvent (wdb w')"
proof -
  have "solvent d'" if "r = Inr t" "solvent d" "moved req MovementCredit d t d'" for t d d'
    using that assms(1) solvent_moved [of d req MovementCredit t d'] by (auto simp: Credit_def fail_def split: if_splits)
  then show ?thesis using assms(1) effect_solvent [OF credit.keyed_operation_axioms _ _ assms(2), of req r w'] by auto
qed

lemma Deposit_solvent:
  assumes "Deposit cfg u c a key w = (r, w')" and "solvent (wdb w)"
  shows "solvent (wdb w')"
proof (cases "a \<le> 0")
  case True
  show ?thesis using presD [OF Deposit_rejects [OF True]] assms by metis
next
  case False
  then show ?thesis
    using assms effect_solvent [OF deposit.keyed_operation_axioms _ _ assms(2), of cfg "(u, c, a, key)" r w'] solvent_moved
    by (auto simp: deposit_request_def)
qed

lemma Transfer_solvent:
  assumes "Transfer cfg req w = (r, w')" and "sane (OpTransfer req)" and "solvent (wdb w)"
  shows "solvent (wdb w')"
proof (cases "tr_AmountMinor req \<le> 0")
  case True
  then show ?thesis using assms(1,3) by (auto simp: Transfer_def fail_def)
next
  case False
  then show ?thesis
    using assms effect_solvent [OF transfer.keyed_operation_axioms _ _ assms(3), of cfg req r w']
      transfer_solvent [of _ "req\<lparr>tr_Currency := or_NGN (tr_Currency req)\<rparr>"] by auto
qed

lemma Convert_solvent:
  assumes "run_op cfg (OpConvert u a c c' key) w = (r, w')" and "admissible (OpConvert u a c c' key)"
    and "sane (OpConvert u a c c' key)" and "accounts_unique (wdb w)" and "solvent (wdb w)"
  shows "solvent (wdb w')"
proof (cases "a \<le> 0")
  case True
  then show ?thesis using assms(1,5) by (auto simp: Convert_def QuoteConversion_def fail_def bnd_def)
next
  case False
  then show ?thesis
    using assms effect_solvent [OF convert.keyed_operation_axioms _ _ assms(5), of cfg "(u, a, c, c', key)" r w']
      convert_solvent [of _ u a c c' key] by auto
qed

text \<open>C3. No operation overdraws: from a state in which no account is negative, every deposit, withdrawal,
  external withdrawal, transfer and conversion with non-negative fees and 64-bit totals leaves no account
  negative, whether it succeeds, replays or fails.\<close>

theorem no_overdraft:
  assumes "run_op cfg op w = (r, w')" and "admissible op" and "sane op" and "accounts_unique (wdb w)"
    and "\<forall>aid. 0 \<le> ledger_sum (wdb w) aid"
  shows "\<forall>aid. 0 \<le> ledger_sum (wdb w') aid"
proof -
  have sol: "solvent (wdb w)" using assms(5) by (simp add: solvent_def)
  have "solvent (wdb w')"
  proof (cases op)
    case (OpDebit req)
    then show ?thesis
      using assms effect_solvent [OF debit.keyed_operation_axioms _ _ sol, of req r w'] solvent_debit by simp
  next
    case (OpWithdraw req key)
    then show ?thesis
      using assms effect_solvent [OF withdraw.keyed_operation_axioms _ _ sol, of cfg "(req, key)" r w'] solvent_debit by simp
  next
    case (OpExternal req key)
    then show ?thesis
      using assms effect_solvent [OF external.keyed_operation_axioms _ _ sol, of cfg "(req, key)" r w']
        external_solvent [of _ "external_request req key"] by (auto simp: external_request_def)
  next
    case (OpConvert u a c c' key)
    then show ?thesis using Convert_solvent assms(1-4) sol by blast
  qed (use assms(1,3) sol Credit_solvent Deposit_solvent Transfer_solvent in \<open>(simp, blast)+\<close>)
  then show ?thesis by (simp add: solvent_def)
qed

theorem no_overdraft_witness:
  "\<exists>r w'. run_op quiet (OpExternal sample_request ''k1'') (sample_world sample_db []) = (r, w')
     \<and> (\<forall>aid. 0 \<le> ledger_sum (wdb w') aid) \<and> ledger_sum (wdb w') ''a1'' = 94900"
proof -
  obtain t w' where run: "WithdrawExternal quiet sample_request ''k1'' (sample_world sample_db []) = (Inr t, w')"
    and sum: "ledger_sum (wdb w') ''a1'' = 94900" by (rule sample_external)
  have "accounts_unique sample_db" and "\<forall>aid. 0 \<le> ledger_sum sample_db aid"
    by (auto simp: accounts_unique_def sample_db_def sample_account_def empty_db_def ledger_sum_def signed_amount_def)
  then show ?thesis
    using no_overdraft [of quiet "OpExternal sample_request ''k1''" "sample_world sample_db []" "Inr t" w'] run sum
    by (simp add: sample_request_def int64_bounds)
qed

end
