(* ===== verification/Keeps.thy ===== *)
theory Keeps
  imports Repos
begin

text \<open>
  Relations of worlds and the computations that keep them: the counterpart, for the whole state of a service, of
  the relations of databases in \<open>World\<close>. \<open>go_preorder\<close> carries a reflexive transitive relation of worlds
  through every computation built from the combinators; its first instance says that database work leaves the
  clock and the state a service keeps in memory alone.
\<close>

section \<open>Relations of worlds\<close>

definition keeps :: "('w \<Rightarrow> 'w \<Rightarrow> bool) \<Rightarrow> ('w, 'a) go \<Rightarrow> bool" where
  "keeps R m \<longleftrightarrow> (\<forall>w. R w (snd (m w)))"

lemma keepsD: "keeps R m \<Longrightarrow> m w = (r, w') \<Longrightarrow> R w w'"
  by (metis keeps_def snd_conv)

lemma keeps_mono: "keeps R m \<Longrightarrow> (\<And>w w'. R w w' \<Longrightarrow> R' w w') \<Longrightarrow> keeps R' m"
  by (auto simp: keeps_def)

locale go_preorder =
  fixes R :: "'w \<Rightarrow> 'w \<Rightarrow> bool"
  assumes refl: "R w w"
    and trans: "R w1 w2 \<Longrightarrow> R w2 w3 \<Longrightarrow> R w1 w3"
begin

lemma keeps_basic: "keeps R (ret v)" "keeps R (fail e)" "keeps R (lift r)" "keeps R (gets f)" "keeps R (reject b e)"
  by (simp_all add: keeps_def ret_def fail_def lift_def gets_def reject_def refl)

lemma keeps_bnd: "keeps R m \<Longrightarrow> (\<And>v. keeps R (f v)) \<Longrightarrow> keeps R (bnd m f)"
  unfolding keeps_def bnd_def
  by (auto split: prod.splits sum.splits intro: trans) (metis snd_conv trans)+

lemma keeps_attempt: "keeps R m \<Longrightarrow> keeps R (attempt m)"
  by (simp add: keeps_def attempt_eq)

lemma keeps_ignore: "keeps R m \<Longrightarrow> keeps R (ignore m)"
  by (simp add: keeps_def ignore_eq)

lemma keeps_on_err: "keeps R m \<Longrightarrow> keeps R (on_err g m)"
  unfolding keeps_def on_err_def by (auto split: prod.splits sum.splits) (metis snd_conv)+

lemma keeps_if: "(b \<Longrightarrow> keeps R m) \<Longrightarrow> (\<not> b \<Longrightarrow> keeps R m') \<Longrightarrow> keeps R (if b then m else m')"
  by simp

lemma keeps_option: "keeps R m \<Longrightarrow> (\<And>x. keeps R (f x)) \<Longrightarrow> keeps R (case o' of None \<Rightarrow> m | Some x \<Rightarrow> f x)"
  by (cases o') simp_all

lemma keeps_sum: "(\<And>e. keeps R (g e)) \<Longrightarrow> (\<And>x. keeps R (f x)) \<Longrightarrow> keeps R (case r of Inl e \<Rightarrow> g e | Inr x \<Rightarrow> f x)"
  by (cases r) simp_all

lemma keeps_prod: "(\<And>a b. keeps R (f a b)) \<Longrightarrow> keeps R (case p of (a, b) \<Rightarrow> f a b)"
  by (cases p) simp_all

lemma keeps_Let: "(\<And>v. keeps R (f v)) \<Longrightarrow> keeps R (Let x f)"
  by (simp add: Let_def)

lemma keeps_for_range: "(\<And>x. keeps R (f x)) \<Longrightarrow> keeps R (for_range xs f)"
  by (induction xs) (simp_all add: keeps_basic keeps_bnd)

lemma keeps_for_collect: "(\<And>x. keeps R (f x)) \<Longrightarrow> keeps R (for_collect xs f)"
  by (induction xs) (simp_all add: keeps_basic keeps_bnd)

lemmas keeps_rules = keeps_basic keeps_bnd keeps_attempt keeps_ignore keeps_on_err keeps_if keeps_option keeps_sum
  keeps_prod keeps_Let keeps_for_range keeps_for_collect

end

text \<open>Database work leaves the clock and the state of the service alone.\<close>

definition more_same :: "'z world_scheme \<Rightarrow> 'z world_scheme \<Rightarrow> bool" where
  "more_same w w' \<longleftrightarrow> world.more w' = world.more w \<and> clock w' = clock w"

interpretation more: go_preorder more_same
  by unfold_locales (simp_all add: more_same_def)

lemma more_consume: "consume w = (b, w0) \<Longrightarrow> more_same w w0"
  unfolding consume_def more_same_def by (cases "faults w") auto

lemma more_abort: "more_same w (abort w)"
  by (simp add: abort_def more_same_def)

lemma more_stmt: "keeps more_same (stmt q)"
  unfolding keeps_def
proof
  fix w :: "'a world_scheme"
  obtain r w' where s: "stmt q w = (r, w')" by (cases "stmt q w")
  have "env w' = env w" using s stmt_err(2) [of q w _ w'] by (cases r) (auto elim: stmt_okE)
  then show "more_same w (snd (stmt q w))" using s by (simp add: more_same_def env_def)
qed

lemma more_RunInTx:
  assumes "keeps more_same fn"
  shows "keeps more_same (RunInTx fn)"
  unfolding keeps_def
proof
  fix w :: "'a world_scheme"
  obtain b w0 where c: "consume w = (b, w0)" by (cases "consume w")
  obtain r w1 where f: "fn (w0\<lparr>txst := InTx\<rparr>) = (r, w1)" by (cases "fn (w0\<lparr>txst := InTx\<rparr>)")
  obtain b' w2 where c': "consume w1 = (b', w2)" by (cases "consume w1")
  have "more_same (w0\<lparr>txst := InTx\<rparr>) w1" using keepsD [OF assms f] .
  then have "more_same w w0" "more_same w w1" "more_same w w2"
    using more_consume [OF c] more_consume [OF c'] by (auto simp: more_same_def)
  then show "more_same w (snd (RunInTx fn w))"
    by (auto simp: RunInTx_def c f c' more_same_def split: sum.splits)
qed

lemma more_newRandRef: "keeps more_same newRandRef"
  by (simp add: keeps_def newRandRef_def more_same_def)

lemma more_mapped: "keeps more_same m \<Longrightarrow> keeps more_same (mapped m)"
  unfolding mapped_def by (rule more.keeps_on_err)

lemma more_affecting: "keeps more_same m \<Longrightarrow> keeps more_same (affecting m)"
  unfolding affecting_def by (intro more.keeps_rules more_mapped)

lemma more_modify_logs:
  "keeps more_same (modify (\<lambda>w. w\<lparr>hub_log := f w\<rparr>))" "keeps more_same (modify (\<lambda>w. w\<lparr>mail_log := g w\<rparr>))"
  by (simp_all add: keeps_def modify_def more_same_def)

lemmas more_rules = more.keeps_rules more_stmt more_RunInTx more_newRandRef more_mapped more_affecting more_modify_logs

lemma more_reads:
  "keeps more_same (UserRepo_FindByID s)" "keeps more_same (AccountRepo_FindByUserAndKind s t u)"
  "keeps more_same (LedgerRepo_FindTransactionByIDempotencyKey s)" "keeps more_same (LedgerRepo_SumBalanceByAccount s)"
  "keeps more_same (LedgerRepo_SumWithdrawalsSince s x)" "keeps more_same (DepositAddressRepo_FindByUser s)"
  "keeps more_same (DepositAddressRepo_OwnerOf s)" "keeps more_same UserSaltsRepo_ListLinks"
  "keeps more_same IndexerStateRepo_LastBlock" "keeps more_same (IndexerEventRepo_FindByTxAndLog s n)"
  "keeps more_same (ElevationRepo_FindDuePending x)" "keeps more_same (ElevationRepo_FindPendingByContent s t x)"
  "keeps more_same (VaultCloneRepo_ByUser s)" "keeps more_same VaultCloneRepo_All" "keeps more_same (VaultCloneRepo_RecoveryCache s)"
  "keeps more_same (UserRepo_FindByEmail s)" "keeps more_same (UserRepo_NotificationPrefs s)"
  "keeps more_same (SessionRepo_FindByID s)" "keeps more_same (SessionRepo_FindByTokenHash s)"
  "keeps more_same (SessionRepo_CountRecentByDevice s t x)" "keeps more_same (EmailOTPRepo_FindByEmail s)"
  unfolding reads_defs by (intro more_rules)+

lemma more_writes:
  "keeps more_same (AccountRepo_EnsureAccount u k c)" "keeps more_same (AccountRepo_SetBalance s x)"
  "keeps more_same (LedgerRepo_CreateTransaction tx)" "keeps more_same (LedgerRepo_InsertEntry e)"
  "keeps more_same (NotificationRepo_Create u c ti bo)" "keeps more_same (SecurityEventRepo_Create se)"
  "keeps more_same (DepositAddressRepo_Set u s)" "keeps more_same (IndexerStateRepo_SetLastBlock n)"
  "keeps more_same (IndexerEventRepo_Insert ev)" "keeps more_same (IndexerEventRepo_MarkAttributed s n)"
  "keeps more_same (ElevationRepo_Create el)" "keeps more_same (ElevationRepo_ClaimForBroadcast s)"
  "keeps more_same (ElevationRepo_MarkBroadcast s t)" "keeps more_same (ElevationRepo_ReleaseClaim s)"
  "keeps more_same (ElevationRepo_MarkExpired s t)" "keeps more_same (ElevationRepo_CancelPending u s)"
  "keeps more_same (VaultCloneRepo_Ensure cl)" "keeps more_same (VaultCloneRepo_CacheRecovery u rec)"
  "keeps more_same (UserRepo_Create us)" "keeps more_same (UserRepo_UpdatePIN u s)"
  "keeps more_same (UserRepo_UpdatePassword u s)" "keeps more_same (UserRepo_UpdateTOTP u s b)"
  "keeps more_same (UserRepo_MarkEmailVerified u)" "keeps more_same (UserRepo_UpdateNotificationPrefs u b b')"
  "keeps more_same (SessionRepo_Create ses)" "keeps more_same (SessionRepo_Revoke s)"
  "keeps more_same (SessionRepo_RevokeAllExcept u s)" "keeps more_same (SessionRepo_TouchLastActive s)"
  "keeps more_same (AccountRepo_EnsureDefaultAccounts u)" "keeps more_same (EmailOTPRepo_Upsert otp)"
  "keeps more_same (EmailOTPRepo_IncrementAttempts s)" "keeps more_same (EmailOTPRepo_Clear s)"
  unfolding repo_defs AccountRepo_SetBalance_def LedgerRepo_CreateTransaction_def LedgerRepo_InsertEntry_def
  by (intro more_rules)+

section \<open>Databases\<close>

context db_preorder
begin

lemma pres_fixed: "pres (=) m \<Longrightarrow> pres Q m"
  by (erule pres_mono) (auto intro: refl)

lemma pres_mapped: "pres Q m \<Longrightarrow> pres Q (mapped m)"
  unfolding mapped_def by (rule pres_on_err)

lemma pres_affecting: "pres Q m \<Longrightarrow> pres Q (affecting m)"
  unfolding affecting_def by (intro pres_rules pres_mapped)

end

end
