(* ===== verification/Eip712.thy ===== *)
theory Eip712
  imports Errors
begin

text \<open>
  The typed-data digests of \<open>src/backend/internal/eip712/eip712.go\<close> and the signature codec around them.
  The Ethereum library the package calls (hashing, address parsing, elliptic-curve signatures) is not part
  of the repository: it is the record \<open>eth\<close>, an argument of every definition that uses it. A
  \<open>common.Address\<close> is a list of 20 bytes and a \<open>common.Hash\<close> one of 32.

  The main theorem is the one the package exists for: a signed message authorises one request only. Two
  requests with the same digest are the same request, of the same kind, for the same clone on the same
  chain, unless the hash function collides on one of the few messages that were hashed.
\<close>

record eth =
  Keccak256Hash :: "byte list \<Rightarrow> byte list"
  hash_Hex :: "byte list \<Rightarrow> string"
  IsHexAddress :: "string \<Rightarrow> bool"
  HexToAddress :: "string \<Rightarrow> byte list"
  addr_Hex :: "byte list \<Rightarrow> string"
  FromHex :: "string \<Rightarrow> byte list"
  Bytes2Hex :: "byte list \<Rightarrow> string"
  crypto_Sign :: "byte list \<Rightarrow> byte list \<Rightarrow> err + byte list"
  SigToPub :: "byte list \<Rightarrow> byte list \<Rightarrow> err + byte list"
  PubkeyToAddress :: "byte list \<Rightarrow> byte list"
  BytesToAddress :: "byte list \<Rightarrow> byte list"
  HexToHash :: "string \<Rightarrow> byte list"
  HexToECDSA :: "string \<Rightarrow> err + byte list"
  PublicKey :: "byte list \<Rightarrow> byte list"

definition DomainName :: string where "DomainName = ''GlobmintVault''"
definition DomainVersion :: string where "DomainVersion = ''1''"
definition withdrawTypeString :: string where
  "withdrawTypeString = ''WithdrawRequest(address to,uint256 amount,uint256 nonce,uint256 deadline)''"
definition setRecoveryTypeString :: string where
  "setRecoveryTypeString = ''SetRecovery(address recoveryAddress,uint256 nonce,uint256 deadline)''"
definition transferOwnershipTypeString :: string where
  "transferOwnershipTypeString = ''TransferOwnership(address newOwner,uint256 nonce,uint256 deadline)''"
definition domainTypeString :: string where
  "domainTypeString = ''EIP712Domain(string name,string version,uint256 chainId,address verifyingContract)''"

section \<open>Words\<close>

text \<open>\<open>FillBytes\<close> writes the big-endian absolute value and panics when it does not fit the buffer.\<close>

definition FillBytes :: "nat \<Rightarrow> int \<Rightarrow> byte list option" where
  "FillBytes len n = (if nat (abs n) < 256 ^ len then Some (be_bytes len (nat (abs n))) else None)"

definition abiWord :: "byte list \<Rightarrow> byte list" where
  "abiWord b = take 32 b @ replicate (32 - length b) 0"

definition abiUint256 :: "int \<Rightarrow> byte list option" where
  "abiUint256 n = FillBytes 32 n"

definition abiAddress :: "byte list \<Rightarrow> byte list" where
  "abiAddress a = replicate 12 0 @ a"

section \<open>Digests\<close>

record WithdrawRequest =
  wr_To :: "byte list"
  wr_Amount :: int
  wr_Nonce :: nat
  wr_Deadline :: int

record SetRecoveryRequest =
  rr_RecoveryAddress :: "byte list"
  rr_Nonce :: nat
  rr_Deadline :: int

record TransferOwnershipRequest =
  or_NewOwner :: "byte list"
  or_Nonce :: nat
  or_Deadline :: int

record Domain =
  dom_Name :: string
  dom_Version :: string
  dom_ChainID :: int64
  dom_VerifyingContract :: string

text \<open>The message hashed for the domain, for a typed struct and for the prefixed digest; the digest is
  \<open>None\<close> when \<open>FillBytes\<close> panics.\<close>

definition domain_msg :: "eth \<Rightarrow> int64 \<Rightarrow> byte list \<Rightarrow> byte list option" where
  "domain_msg E chainID contract =
     map_option (\<lambda>cid. Keccak256Hash E (bytes_of domainTypeString) @ abiWord (Keccak256Hash E (bytes_of DomainName))
       @ abiWord (Keccak256Hash E (bytes_of DomainVersion)) @ cid @ abiAddress contract) (abiUint256 chainID)"

definition DomainSeparator :: "eth \<Rightarrow> int64 \<Rightarrow> byte list \<Rightarrow> byte list option" where
  "DomainSeparator E chainID contract = map_option (Keccak256Hash E) (domain_msg E chainID contract)"

definition prefixed_msg :: "eth \<Rightarrow> int64 \<Rightarrow> byte list \<Rightarrow> byte list option \<Rightarrow> byte list option" where
  "prefixed_msg E chainID contract struct_msg =
     (case (DomainSeparator E chainID contract, struct_msg) of
        (Some ds, Some m) \<Rightarrow> Some ([0x19, 0x01] @ ds @ Keccak256Hash E m)
      | _ \<Rightarrow> None)"

definition prefixed :: "eth \<Rightarrow> int64 \<Rightarrow> byte list \<Rightarrow> byte list option \<Rightarrow> byte list option" where
  "prefixed E chainID contract struct_msg =
     map_option (Keccak256Hash E) (prefixed_msg E chainID contract struct_msg)"

definition withdraw_msg :: "eth \<Rightarrow> WithdrawRequest \<Rightarrow> byte list option" where
  "withdraw_msg E req =
     (case (abiUint256 (wr_Amount req), abiUint256 (int (wr_Nonce req)), abiUint256 (wr_Deadline req)) of
        (Some amount, Some nonce, Some deadline) \<Rightarrow>
          Some (Keccak256Hash E (bytes_of withdrawTypeString) @ abiAddress (wr_To req) @ amount @ nonce @ deadline)
      | _ \<Rightarrow> None)"

definition WithdrawDigest :: "eth \<Rightarrow> int64 \<Rightarrow> byte list \<Rightarrow> WithdrawRequest \<Rightarrow> byte list option" where
  "WithdrawDigest E chainID contract req = prefixed E chainID contract (withdraw_msg E req)"

text \<open>The two requests that carry one address, under a type string of their own.\<close>

definition seat_msg :: "eth \<Rightarrow> string \<Rightarrow> byte list \<Rightarrow> nat \<Rightarrow> int \<Rightarrow> byte list option" where
  "seat_msg E typeString address nonce deadline =
     (case (abiUint256 (int nonce), abiUint256 deadline) of
        (Some n, Some dl) \<Rightarrow> Some (Keccak256Hash E (bytes_of typeString) @ abiAddress address @ n @ dl)
      | _ \<Rightarrow> None)"

definition SetRecoveryDigest :: "eth \<Rightarrow> int64 \<Rightarrow> byte list \<Rightarrow> SetRecoveryRequest \<Rightarrow> byte list option" where
  "SetRecoveryDigest E chainID contract req =
     prefixed E chainID contract (seat_msg E setRecoveryTypeString (rr_RecoveryAddress req) (rr_Nonce req) (rr_Deadline req))"

definition TransferOwnershipDigest :: "eth \<Rightarrow> int64 \<Rightarrow> byte list \<Rightarrow> TransferOwnershipRequest \<Rightarrow> byte list option" where
  "TransferOwnershipDigest E chainID contract req =
     prefixed E chainID contract (seat_msg E transferOwnershipTypeString (or_NewOwner req) (or_Nonce req) (or_Deadline req))"

section \<open>Signatures\<close>

definition SignDigest :: "eth \<Rightarrow> byte list \<Rightarrow> byte list \<Rightarrow> err + byte list" where
  "SignDigest E digest key =
     (case crypto_Sign E digest key of
        Inl e \<Rightarrow> Inl (Wrap ''eip712 sign'' e)
      | Inr sig \<Rightarrow> Inr (if sig ! 64 = 0 \<or> sig ! 64 = 1 then sig[64 := sig ! 64 + 27] else sig))"

definition RecoverSigner :: "eth \<Rightarrow> byte list \<Rightarrow> byte list \<Rightarrow> err + byte list" where
  "RecoverSigner E digest sig =
     (if length sig \<noteq> 65 then Inl (ErrOpaque ''eip712: expected 65-byte signature'')
      else
        (let normalized = (if sig ! 64 = 27 \<or> sig ! 64 = 28 then sig[64 := sig ! 64 - 27] else sig)
         in case SigToPub E digest normalized of
              Inl e \<Rightarrow> Inl (Wrap ''eip712 recover'' e)
            | Inr pub \<Rightarrow> Inr (PubkeyToAddress E pub)))"

definition decodeHex :: "eth \<Rightarrow> string \<Rightarrow> err + byte list" where
  "decodeHex E s =
     (let clean = TrimPrefix (TrimSpace s) ''0x''
      in if length clean mod 2 \<noteq> 0 then Inl (ErrOpaque ''eip712: odd-length hex string'') else Inr (FromHex E clean))"

definition DecodeSignature :: "eth \<Rightarrow> string \<Rightarrow> err + byte list" where
  "DecodeSignature E hexSig =
     (case decodeHex E hexSig of
        Inl e \<Rightarrow> Inl e
      | Inr raw \<Rightarrow> if length raw \<noteq> 65 then Inl (ErrOpaque ''eip712: expected 65-byte signature'') else Inr raw)"

definition ParseSignature :: "eth \<Rightarrow> string \<Rightarrow> err + byte \<times> byte list \<times> byte list" where
  "ParseSignature E hexSig =
     (case DecodeSignature E hexSig of
        Inl e \<Rightarrow> Inl e
      | Inr raw \<Rightarrow>
          if length raw \<noteq> 65 then Inl (ErrOpaque ''eip712: signature must be 65 bytes'')
          else
            (let v = (if raw ! 64 = 0 \<or> raw ! 64 = 1 then raw ! 64 + 27 else raw ! 64)
             in if v \<noteq> 27 \<and> v \<noteq> 28 then Inl (ErrOpaque ''eip712: invalid v recovery id'')
                else Inr (v, take 32 raw, take 32 (drop 32 raw))))"

section \<open>A digest determines its request\<close>

datatype intent =
  Withdrawal WithdrawRequest | Recovery SetRecoveryRequest | Ownership TransferOwnershipRequest

fun struct_msg :: "eth \<Rightarrow> intent \<Rightarrow> byte list option" where
  "struct_msg E (Withdrawal r) = withdraw_msg E r"
| "struct_msg E (Recovery r) = seat_msg E setRecoveryTypeString (rr_RecoveryAddress r) (rr_Nonce r) (rr_Deadline r)"
| "struct_msg E (Ownership r) = seat_msg E transferOwnershipTypeString (or_NewOwner r) (or_Nonce r) (or_Deadline r)"

fun digest :: "eth \<Rightarrow> int64 \<Rightarrow> byte list \<Rightarrow> intent \<Rightarrow> byte list option" where
  "digest E c a (Withdrawal r) = WithdrawDigest E c a r"
| "digest E c a (Recovery r) = SetRecoveryDigest E c a r"
| "digest E c a (Ownership r) = TransferOwnershipDigest E c a r"

text \<open>What the code calls with: 20-byte addresses, non-negative amounts, deadlines and chain ids.\<close>

fun intent_ok :: "intent \<Rightarrow> bool" where
  "intent_ok (Withdrawal r) \<longleftrightarrow> length (wr_To r) = 20 \<and> 0 \<le> wr_Amount r \<and> 0 \<le> wr_Deadline r"
| "intent_ok (Recovery r) \<longleftrightarrow> length (rr_RecoveryAddress r) = 20 \<and> 0 \<le> rr_Deadline r"
| "intent_ok (Ownership r) \<longleftrightarrow> length (or_NewOwner r) = 20 \<and> 0 \<le> or_Deadline r"

text \<open>The messages hashed on the way to a digest.\<close>

definition hashed :: "eth \<Rightarrow> int64 \<Rightarrow> byte list \<Rightarrow> intent \<Rightarrow> byte list set" where
  "hashed E c a i = {bytes_of withdrawTypeString, bytes_of setRecoveryTypeString, bytes_of transferOwnershipTypeString}
     \<union> {m. domain_msg E c a = Some m \<or> struct_msg E i = Some m \<or> prefixed_msg E c a (struct_msg E i) = Some m}"

lemma hashedI:
  "domain_msg E c a = Some m \<Longrightarrow> m \<in> hashed E c a i" "struct_msg E i = Some m \<Longrightarrow> m \<in> hashed E c a i"
  "prefixed_msg E c a (struct_msg E i) = Some m \<Longrightarrow> m \<in> hashed E c a i"
  by (simp_all add: hashed_def)

lemma digest_prefixed: "digest E c a i = map_option (Keccak256Hash E) (prefixed_msg E c a (struct_msg E i))"
  by (cases i) (simp_all add: WithdrawDigest_def SetRecoveryDigest_def TransferOwnershipDigest_def prefixed_def)

lemma abiUint256_length: "abiUint256 n = Some b \<Longrightarrow> length b = 32"
  by (auto simp: abiUint256_def FillBytes_def split: if_splits)

lemma abiUint256_inj: "abiUint256 m = Some b \<Longrightarrow> abiUint256 n = Some b \<Longrightarrow> 0 \<le> m \<Longrightarrow> 0 \<le> n \<Longrightarrow> m = n"
  using be_bytes_inj [of "nat m" 32 "nat n"] by (auto simp: abiUint256_def FillBytes_def split: if_splits)

lemma type_strings_distinct:
  "bytes_of withdrawTypeString \<noteq> bytes_of setRecoveryTypeString"
  "bytes_of withdrawTypeString \<noteq> bytes_of transferOwnershipTypeString"
  "bytes_of setRecoveryTypeString \<noteq> bytes_of transferOwnershipTypeString"
  by (simp_all add: bytes_of_def withdrawTypeString_def setRecoveryTypeString_def transferOwnershipTypeString_def)

lemma withdraw_msgE:
  assumes "withdraw_msg E r = Some m"
  obtains a n d where "abiUint256 (wr_Amount r) = Some a" "abiUint256 (int (wr_Nonce r)) = Some n"
    "abiUint256 (wr_Deadline r) = Some d"
    "m = Keccak256Hash E (bytes_of withdrawTypeString) @ abiAddress (wr_To r) @ a @ n @ d"
    "length a = 32" "length n = 32" "length d = 32"
  using assms by (auto simp: withdraw_msg_def dest: abiUint256_length split: option.splits)

lemma seat_msgE:
  assumes "seat_msg E ty adr nonce deadline = Some m"
  obtains n d where "abiUint256 (int nonce) = Some n" "abiUint256 deadline = Some d"
    "m = Keccak256Hash E (bytes_of ty) @ abiAddress adr @ n @ d" "length n = 32" "length d = 32"
  using assms by (auto simp: seat_msg_def dest: abiUint256_length split: option.splits)

lemma withdraw_msg_inj:
  assumes "withdraw_msg E r = Some m" and "withdraw_msg E r' = Some m"
    and "intent_ok (Withdrawal r)" and "intent_ok (Withdrawal r')"
  shows "r = r'"
proof -
  from assms(1) obtain a n d where 1: "abiUint256 (wr_Amount r) = Some a" "abiUint256 (int (wr_Nonce r)) = Some n"
    "abiUint256 (wr_Deadline r) = Some d" "length a = 32" "length n = 32" "length d = 32"
    and m: "m = Keccak256Hash E (bytes_of withdrawTypeString) @ abiAddress (wr_To r) @ a @ n @ d"
    by (elim withdraw_msgE)
  from assms(2) obtain a' n' d' where 2: "abiUint256 (wr_Amount r') = Some a'" "abiUint256 (int (wr_Nonce r')) = Some n'"
    "abiUint256 (wr_Deadline r') = Some d'" "length a' = 32" "length n' = 32" "length d' = 32"
    and m': "m = Keccak256Hash E (bytes_of withdrawTypeString) @ abiAddress (wr_To r') @ a' @ n' @ d'"
    by (elim withdraw_msgE)
  from m m' 1 2 assms(3,4) have "wr_To r = wr_To r'" "a = a'" "n = n'" "d = d'"
    by (simp_all add: abiAddress_def)
  moreover have "wr_Amount r = wr_Amount r'" "wr_Deadline r = wr_Deadline r'" "int (wr_Nonce r) = int (wr_Nonce r')"
    using 1 2 calculation assms(3,4) abiUint256_inj [of "int (wr_Nonce r)" n "int (wr_Nonce r')"]
    by (auto intro: abiUint256_inj)
  ultimately show ?thesis by simp
qed

lemma seat_msg_inj:
  assumes "seat_msg E ty adr nonce deadline = Some m" and "seat_msg E ty adr' nonce' deadline' = Some m"
    and "length adr = 20" "length adr' = 20" "0 \<le> deadline" "0 \<le> deadline'"
  shows "adr = adr' \<and> nonce = nonce' \<and> deadline = deadline'"
proof -
  from assms(1) obtain n d where 1: "abiUint256 (int nonce) = Some n" "abiUint256 deadline = Some d"
    "length n = 32" "length d = 32" and m: "m = Keccak256Hash E (bytes_of ty) @ abiAddress adr @ n @ d"
    by (elim seat_msgE)
  from assms(2) obtain n' d' where 2: "abiUint256 (int nonce') = Some n'" "abiUint256 deadline' = Some d'"
    "length n' = 32" "length d' = 32" and m': "m = Keccak256Hash E (bytes_of ty) @ abiAddress adr' @ n' @ d'"
    by (elim seat_msgE)
  from m m' 1 2 assms(3,4) have "adr = adr'" "n = n'" "d = d'"
    by (simp_all add: abiAddress_def)
  moreover have "int nonce = int nonce'" "deadline = deadline'"
    using 1 2 calculation assms(5,6) abiUint256_inj [of "int nonce" n "int nonce'"] by (auto intro: abiUint256_inj)
  ultimately show ?thesis by simp
qed

fun type_string :: "intent \<Rightarrow> string" where
  "type_string (Withdrawal _) = withdrawTypeString"
| "type_string (Recovery _) = setRecoveryTypeString"
| "type_string (Ownership _) = transferOwnershipTypeString"

lemma struct_msg_type: "struct_msg E i = Some m \<Longrightarrow> \<exists>rest. m = Keccak256Hash E (bytes_of (type_string i)) @ rest"
  by (cases i) (auto elim!: withdraw_msgE seat_msgE)

lemma struct_msg_inj:
  assumes "struct_msg E i = Some m" and "struct_msg E j = Some m" and "intent_ok i" and "intent_ok j"
    and "\<And>x. length (Keccak256Hash E x) = 32"
    and "inj_on (Keccak256Hash E) {bytes_of withdrawTypeString, bytes_of setRecoveryTypeString, bytes_of transferOwnershipTypeString}"
  shows "i = j"
proof -
  obtain u v where "m = Keccak256Hash E (bytes_of (type_string i)) @ u" "m = Keccak256Hash E (bytes_of (type_string j)) @ v"
    using struct_msg_type assms(1,2) by meson
  then have "Keccak256Hash E (bytes_of (type_string i)) = Keccak256Hash E (bytes_of (type_string j))"
    using assms(5) by (metis append_eq_append_conv)
  then have "bytes_of (type_string i) = bytes_of (type_string j)"
    by (rule inj_onD [OF assms(6)]) (cases i; cases j; simp)+
  then show ?thesis
    using assms(1-4) type_strings_distinct
    by (cases i; cases j) (auto dest: withdraw_msg_inj seat_msg_inj)
qed

lemma domain_msg_inj:
  assumes "domain_msg E c a = Some m" and "domain_msg E c' a' = Some m" and "0 \<le> c" "0 \<le> c'"
  shows "c = c' \<and> a = a'"
proof -
  from assms(1) obtain x where x: "abiUint256 c = Some x"
    "m = Keccak256Hash E (bytes_of domainTypeString) @ abiWord (Keccak256Hash E (bytes_of DomainName))
       @ abiWord (Keccak256Hash E (bytes_of DomainVersion)) @ x @ abiAddress a"
    by (auto simp: domain_msg_def)
  from assms(2) obtain y where y: "abiUint256 c' = Some y"
    "m = Keccak256Hash E (bytes_of domainTypeString) @ abiWord (Keccak256Hash E (bytes_of DomainName))
       @ abiWord (Keccak256Hash E (bytes_of DomainVersion)) @ y @ abiAddress a'"
    by (auto simp: domain_msg_def)
  have "length x = 32" "length y = 32" using x y by (simp_all add: abiUint256_length)
  with x(2) y(2) have "x = y" "a = a'" by (simp_all add: abiAddress_def)
  then show ?thesis using x y assms(3,4) abiUint256_inj by blast
qed

text \<open>C29. A signature authorises one request: when the digests of two well-formed requests agree and the hash
  function does not collide on the messages hashed to compute them, the requests are the same one (kind,
  address, amount, nonce and deadline), for the same clone on the same chain. In particular a signed
  recovery or ownership request can never be presented as a withdrawal.\<close>

theorem digest_binds:
  assumes "digest E c a i = Some h" and "digest E c' a' j = Some h"
    and "intent_ok i" and "intent_ok j" and "0 \<le> c" and "0 \<le> c'"
    and "\<And>x. length (Keccak256Hash E x) = 32"
    and "inj_on (Keccak256Hash E) (hashed E c a i \<union> hashed E c' a' j)"
  shows "i = j \<and> c = c' \<and> a = a'"
proof -
  have inj: "x = y" if "Keccak256Hash E x = Keccak256Hash E y" "x \<in> hashed E c a i" "y \<in> hashed E c' a' j" for x y
    using inj_onD [OF assms(8) that(1)] that by blast
  from assms(1) obtain p where p: "prefixed_msg E c a (struct_msg E i) = Some p" "h = Keccak256Hash E p"
    by (auto simp: digest_prefixed)
  from assms(2) obtain q where q: "prefixed_msg E c' a' (struct_msg E j) = Some q" "h = Keccak256Hash E q"
    by (auto simp: digest_prefixed)
  have "p = q" by (rule inj [OF _ hashedI(3) hashedI(3)]) (use p q in simp_all)
  from p(1) obtain d s where ds: "domain_msg E c a = Some d" "struct_msg E i = Some s"
    "p = [0x19, 0x01] @ Keccak256Hash E d @ Keccak256Hash E s"
    by (auto simp: prefixed_msg_def DomainSeparator_def split: option.splits)
  from q(1) obtain d' s' where ds': "domain_msg E c' a' = Some d'" "struct_msg E j = Some s'"
    "q = [0x19, 0x01] @ Keccak256Hash E d' @ Keccak256Hash E s'"
    by (auto simp: prefixed_msg_def DomainSeparator_def split: option.splits)
  have "Keccak256Hash E d = Keccak256Hash E d'" "Keccak256Hash E s = Keccak256Hash E s'"
    using \<open>p = q\<close> unfolding ds(3) ds'(3) by (simp_all add: assms(7))
  then have "d = d'" "s = s'"
    by (auto intro: inj [OF _ hashedI(1) [OF ds(1)] hashedI(1) [OF ds'(1)]] inj [OF _ hashedI(2) [OF ds(2)] hashedI(2) [OF ds'(2)]])
  moreover have "inj_on (Keccak256Hash E)
      {bytes_of withdrawTypeString, bytes_of setRecoveryTypeString, bytes_of transferOwnershipTypeString}"
    by (rule inj_on_subset [OF assms(8)]) (simp add: hashed_def)
  ultimately have "i = j" using struct_msg_inj ds(2) ds'(2) assms(3,4,7) by blast
  moreover have "c = c' \<and> a = a'" using domain_msg_inj ds(1) ds'(1) \<open>d = d'\<close> assms(5,6) by blast
  ultimately show ?thesis by simp
qed

text \<open>A library instance with a 32-byte hash that separates messages by their length, and the prefixed
  messages (which begin with the byte 19) from the others.\<close>

definition toy_class :: "byte list \<Rightarrow> nat" where
  "toy_class m = (if length m = 66 \<and> hd m = 0x19 then 0 else length m)"

definition toy_eth :: eth where
  "toy_eth = \<lparr>Keccak256Hash = (\<lambda>m. be_bytes 32 (toy_class m)),
     hash_Hex = (\<lambda>h. ''0x'' @ map (\<lambda>b. char_of (unat b)) h), IsHexAddress = (\<lambda>s. length s = 42),
     HexToAddress = (\<lambda>s. replicate 19 0 @ [of_nat (length s)]), addr_Hex = (\<lambda>a. ''0x'' @ map (\<lambda>b. char_of (unat b)) a),
     FromHex = (\<lambda>s. replicate 64 7 @ [of_nat (length s)]), Bytes2Hex = (\<lambda>b. replicate (unat (last b)) (CHR ''a'')),
     crypto_Sign = (\<lambda>d k. Inr (replicate 64 7 @ [1])), SigToPub = (\<lambda>d s. Inr [7]),
     PubkeyToAddress = (\<lambda>p. replicate 20 7), BytesToAddress = (\<lambda>b. drop (length b - 20) b),
     HexToHash = (\<lambda>s. replicate 31 0 @ [of_nat (length s)]), HexToECDSA = (\<lambda>s. Inr [7]), PublicKey = (\<lambda>k. [7])\<rparr>"

definition sample_recovery :: SetRecoveryRequest where
  "sample_recovery = \<lparr>rr_RecoveryAddress = replicate 20 5, rr_Nonce = 3, rr_Deadline = 1700000000\<rparr>"

lemma toy_hash_length: "length (Keccak256Hash toy_eth m) = 32"
  by (simp add: toy_eth_def)

lemma toy_inj_on:
  assumes "\<And>m. m \<in> S \<Longrightarrow> length m < 200" and "inj_on toy_class S"
  shows "inj_on (Keccak256Hash toy_eth) S"
proof (rule inj_onI)
  fix x y assume xy: "x \<in> S" "y \<in> S" "Keccak256Hash toy_eth x = Keccak256Hash toy_eth y"
  have lt: "toy_class z < 256 ^ 32" if "z \<in> S" for z
    using assms(1) [OF that] by (simp add: toy_class_def)
  have "be_bytes 32 (toy_class x) = be_bytes 32 (toy_class y)" using xy(3) by (simp add: toy_eth_def)
  then have "toy_class x = toy_class y" by (rule be_bytes_inj [OF lt [OF xy(1)] lt [OF xy(2)]])
  then show "x = y" by (rule inj_onD [OF assms(2) _ xy(1,2)])
qed

lemma domain_msg_length:
  "(\<And>x. length (Keccak256Hash E x) = 32) \<Longrightarrow> domain_msg E c a = Some m \<Longrightarrow> length m = 140 + length a"
  by (auto simp: domain_msg_def abiWord_def abiAddress_def dest: abiUint256_length)

lemma seat_msg_length:
  "(\<And>x. length (Keccak256Hash E x) = 32) \<Longrightarrow> seat_msg E ty adr n d = Some m \<Longrightarrow> length m = 108 + length adr"
  by (auto simp: abiAddress_def elim!: seat_msgE)

lemma prefixed_msg_shape:
  "(\<And>x. length (Keccak256Hash E x) = 32) \<Longrightarrow> prefixed_msg E c a s = Some m \<Longrightarrow> length m = 66 \<and> hd m = 0x19"
  by (auto simp: prefixed_msg_def DomainSeparator_def split: option.splits)

lemma sample_hashed:
  assumes "m \<in> hashed toy_eth 1 (replicate 20 9) (Recovery sample_recovery)"
  shows "length m < 200"
  using assms domain_msg_length [OF toy_hash_length, of 1 "replicate 20 9" m]
    seat_msg_length [OF toy_hash_length, of _ _ _ _ m] prefixed_msg_shape [OF toy_hash_length, of 1 "replicate 20 9" _ m]
  by (auto simp: hashed_def sample_recovery_def bytes_of_def withdrawTypeString_def setRecoveryTypeString_def
      transferOwnershipTypeString_def)

lemma type_string_classes:
  "toy_class (bytes_of withdrawTypeString) = 73" "toy_class (bytes_of setRecoveryTypeString) = 67"
  "toy_class (bytes_of transferOwnershipTypeString) = 66"
  by (simp_all add: toy_class_def bytes_of_def withdrawTypeString_def setRecoveryTypeString_def transferOwnershipTypeString_def)

lemma sample_separated: "inj_on (Keccak256Hash toy_eth) (hashed toy_eth 1 (replicate 20 9) (Recovery sample_recovery))"
proof (rule toy_inj_on)
  have d: "toy_class m = 160" if "domain_msg toy_eth 1 (replicate 20 9) = Some m" for m
    using domain_msg_length [OF toy_hash_length that] by (simp add: toy_class_def)
  have s: "toy_class m = 128" if "struct_msg toy_eth (Recovery sample_recovery) = Some m" for m
    using seat_msg_length [OF toy_hash_length] that by (fastforce simp: toy_class_def sample_recovery_def)
  have p: "toy_class m = 0" if "prefixed_msg toy_eth 1 (replicate 20 9) (struct_msg toy_eth (Recovery sample_recovery)) = Some m" for m
    using prefixed_msg_shape [OF toy_hash_length that] by (simp add: toy_class_def)
  have "x = y" if "x \<in> hashed toy_eth 1 (replicate 20 9) (Recovery sample_recovery)"
      "y \<in> hashed toy_eth 1 (replicate 20 9) (Recovery sample_recovery)" "toy_class x = toy_class y" for x y
    using that d [of x] d [of y] s [of x] s [of y] p [of x] p [of y] type_string_classes unfolding hashed_def
    by (simp del: struct_msg.simps) (elim disjE; simp)
  then show "inj_on toy_class (hashed toy_eth 1 (replicate 20 9) (Recovery sample_recovery))"
    by (rule inj_onI)
qed (rule sample_hashed)

theorem digest_binds_witness:
  "\<exists>h. digest toy_eth 1 (replicate 20 9) (Recovery sample_recovery) = Some h
     \<and> intent_ok (Recovery sample_recovery)
     \<and> inj_on (Keccak256Hash toy_eth) (hashed toy_eth 1 (replicate 20 9) (Recovery sample_recovery)
                                        \<union> hashed toy_eth 1 (replicate 20 9) (Recovery sample_recovery))
     \<and> Recovery sample_recovery = Recovery sample_recovery \<and> (1::int) = 1 \<and> replicate 20 (9::byte) = replicate 20 9"
proof -
  have ok: "intent_ok (Recovery sample_recovery)" by (simp add: sample_recovery_def)
  have inj: "inj_on (Keccak256Hash toy_eth) (hashed toy_eth 1 (replicate 20 9) (Recovery sample_recovery)
                                        \<union> hashed toy_eth 1 (replicate 20 9) (Recovery sample_recovery))"
    unfolding Un_absorb by (rule sample_separated)
  obtain h where h: "digest toy_eth 1 (replicate 20 9) (Recovery sample_recovery) = Some h"
    by (simp add: SetRecoveryDigest_def prefixed_def prefixed_msg_def DomainSeparator_def domain_msg_def seat_msg_def
        abiUint256_def FillBytes_def sample_recovery_def)
  show ?thesis
    using h ok inj digest_binds [OF h h ok ok zero_le_one zero_le_one toy_hash_length inj] by blast
qed

section \<open>The signature codec\<close>

lemma DecodeSignature_length: "DecodeSignature E s = Inr raw \<Longrightarrow> length raw = 65"
  by (auto simp: DecodeSignature_def split: sum.splits if_splits)

lemma split65:
  assumes "length (xs :: byte list) = 65"
  shows "xs = take 32 xs @ take 32 (drop 32 xs) @ [xs ! 64]"
proof -
  have "drop 64 xs = [xs ! 64]" using assms by (simp add: Cons_nth_drop_Suc [symmetric])
  then show ?thesis by (metis add_numeral_left append_take_drop_id drop_drop numeral_Bit0)
qed

text \<open>What the relay hands to the contract is what was verified: when a signature string parses into
  \<open>(v, r, s)\<close> it also decodes, \<open>v\<close> is 27 or 28, and recovering the signer from the decoded bytes is
  recovering it from \<open>r\<close>, \<open>s\<close> and the normalised \<open>v\<close>, for every digest.\<close>

lemma ParseSignature_agrees:
  assumes "ParseSignature E hexSig = Inr (v, r, s)"
  shows "\<exists>raw. DecodeSignature E hexSig = Inr raw \<and> length r = 32 \<and> length s = 32 \<and> (v = 27 \<or> v = 28)
     \<and> RecoverSigner E d raw = RecoverSigner E d (r @ s @ [v])"
proof -
  from assms obtain raw where raw: "DecodeSignature E hexSig = Inr raw" and r: "r = take 32 raw"
    and s: "s = take 32 (drop 32 raw)" and v: "v = (if raw ! 64 = 0 \<or> raw ! 64 = 1 then raw ! 64 + 27 else raw ! 64)"
    and v': "v = 27 \<or> v = 28"
    by (auto simp: ParseSignature_def Let_def split: sum.splits if_splits)
  have len: "length raw = 65" using raw by (rule DecodeSignature_length)
  have raw_eq: "raw = r @ s @ [raw ! 64]" unfolding r s using len by (rule split65)
  have rs: "length r = 32" "length s = 32" using len by (simp_all add: r s)
  have upd: "(r @ s @ [x])[64 := y] = r @ s @ [y]" "(r @ s @ [x]) ! 64 = x" for x y
    using rs by (simp_all add: list_update_append nth_append)
  have "RecoverSigner E d (r @ s @ [raw ! 64]) = RecoverSigner E d (r @ s @ [v])"
    using v v' rs by (auto simp: RecoverSigner_def upd Let_def split: if_splits)
  with raw_eq raw rs v' show ?thesis by auto
qed

lemma toy_decode: "DecodeSignature toy_eth (replicate 28 (CHR ''a'')) = Inr (replicate 64 7 @ [28])"
proof -
  have "TrimSpace (replicate 28 (CHR ''a'')) = replicate 28 (CHR ''a'')"
    by (rule TrimSpace_id) (simp add: is_space_def)
  moreover have "TrimPrefix (replicate 28 (CHR ''a'')) ''0x'' = replicate 28 (CHR ''a'')"
    by (simp add: TrimPrefix_def numeral_eq_Suc)
  ultimately show ?thesis by (simp add: DecodeSignature_def decodeHex_def Let_def toy_eth_def)
qed

lemma toy_parse: "ParseSignature toy_eth (replicate 28 (CHR ''a'')) = Inr (28, replicate 32 7, replicate 32 7)"
  by (simp add: ParseSignature_def toy_decode Let_def nth_append)

text \<open>The platform's own signatures verify: a signature made by \<open>SignDigest\<close> recovers to the address of the
  key that made it, and travels through its hexadecimal form into exactly the \<open>(v, r, s)\<close> the contract is
  given, with \<open>v\<close> 27 or 28. The hypotheses are the documented behaviour of the signing library (65 bytes,
  recovery id 0 or 1, recovery of the signing key) and of its hexadecimal codec.\<close>

lemma sign_recover:
  assumes "crypto_Sign E d key = Inr raw" and "length raw = 65" and "raw ! 64 = 0 \<or> raw ! 64 = 1"
    and "SigToPub E d raw = Inr pub" and "\<And>sig. SignDigest E d key = Inr sig \<Longrightarrow> decodeHex E (Bytes2Hex E sig) = Inr sig"
  shows "\<exists>sig v r s. SignDigest E d key = Inr sig \<and> RecoverSigner E d sig = Inr (PubkeyToAddress E pub)
     \<and> ParseSignature E (Bytes2Hex E sig) = Inr (v, r, s) \<and> sig = r @ s @ [v] \<and> (v = 27 \<or> v = 28)"
proof -
  define sig where "sig = raw[64 := raw ! 64 + 27]"
  have len: "length sig = 65" using assms(2) by (simp add: sig_def)
  have last: "sig ! 64 = raw ! 64 + 27" using assms(2) by (simp add: sig_def)
  then have v: "sig ! 64 = 27 \<or> sig ! 64 = 28" using assms(3) by auto
  have sign: "SignDigest E d key = Inr sig" using assms(1,3) by (simp add: SignDigest_def sig_def)
  moreover have "RecoverSigner E d sig = Inr (PubkeyToAddress E pub)"
    using len v last assms(2,4) by (simp add: RecoverSigner_def Let_def sig_def)
  moreover have "ParseSignature E (Bytes2Hex E sig) = Inr (sig ! 64, take 32 sig, take 32 (drop 32 sig))"
    using v len assms(5) [OF sign] by (auto simp: ParseSignature_def DecodeSignature_def Let_def)
  moreover have "sig = take 32 sig @ take 32 (drop 32 sig) @ [sig ! 64]"
    by (rule split65) (rule len)
  ultimately show ?thesis using v by blast
qed

end
