(* ===== verification/Chain.thy ===== *)
theory Chain
  imports Eip712 World
begin

text \<open>
  The blockchain boundary (\<open>src/backend/internal/infrastructure/blockchain/service.go\<close>). The interface
  \<open>BlockchainService\<close> is the record \<open>chain_service\<close> of its methods, each a fallible computation on the
  state of the service; the services that use a chain take such a record as an argument, so what is proved
  of them holds for every implementation. \<open>mock_service\<close> is the mock implementation of the same file, with
  its state as a record; the implementation against an Ethereum node is in theory \<open>EthClient\<close>. Reading the
  clock is an indexed supply of times.
\<close>

section \<open>Data\<close>

record TokenTransfer =
  tt_From :: string
  tt_To :: string
  tt_Value :: "int option"
  tt_TxHash :: string
  tt_LogIndex :: nat
  tt_BlockNumber :: nat

record VaultDeposit =
  vd_Commitment :: string
  vd_User :: string
  vd_Amount :: "int option"
  vd_TxHash :: string
  vd_LogIndex :: nat
  vd_BlockNumber :: nat

record RelaySignature =
  sig_V :: byte
  sig_R :: "byte list"
  sig_S :: "byte list"

record WithdrawRelay =
  rel_Clone :: string
  rel_To :: string
  rel_Amount :: int
  rel_Nonce :: nat
  rel_Deadline :: int
  rel_Sig :: RelaySignature

record RelayRecoverySet =
  rs_Clone :: string
  rs_RecoveryAddress :: string
  rs_Nonce :: nat
  rs_Deadline :: int
  rs_Sig :: RelaySignature

record RelayOwnershipTransfer =
  ro_Clone :: string
  ro_NewOwner :: string
  ro_Nonce :: nat
  ro_Deadline :: int
  ro_Sig :: RelaySignature

text \<open>The methods the services call on the paths that are modelled (the token balance only feeds a gauge).\<close>

record 'c chain_service =
  ch_TransferToken :: "string \<Rightarrow> string \<Rightarrow> ('c, string) go"
  ch_CloneByUserKey :: "string \<Rightarrow> ('c, string) go"
  ch_DeployClone :: "string \<Rightarrow> string \<Rightarrow> ('c, string \<times> string) go"
  ch_CloneFactoryAddress :: "'c \<Rightarrow> string"
  ch_FilterTokenTransfers :: "nat \<Rightarrow> nat \<Rightarrow> string \<Rightarrow> ('c, TokenTransfer list) go"
  ch_FilterVaultDeposits :: "nat \<Rightarrow> nat \<Rightarrow> string \<Rightarrow> ('c, VaultDeposit list) go"
  ch_LatestBlock :: "('c, nat) go"
  ch_CloneOwner :: "string \<Rightarrow> ('c, string) go"
  ch_CloneNonce :: "string \<Rightarrow> ('c, nat) go"
  ch_SignWithdrawRelay :: "int64 \<Rightarrow> string \<Rightarrow> string \<Rightarrow> int \<Rightarrow> nat \<Rightarrow> int \<Rightarrow> ('c, RelaySignature) go"
  ch_WithdrawFromCloneWithSig :: "WithdrawRelay \<Rightarrow> ('c, string) go"
  ch_CloneRecoveryAddress :: "string \<Rightarrow> ('c, string) go"
  ch_CloneRecoveryDelay :: "string \<Rightarrow> ('c, nat) go"
  ch_CloneRecoveryRequestedAt :: "string \<Rightarrow> ('c, nat) go"
  ch_SetRecoveryAddressBySig :: "RelayRecoverySet \<Rightarrow> ('c, string) go"
  ch_TransferOwnershipBySig :: "RelayOwnershipTransfer \<Rightarrow> ('c, string) go"
  ch_SignOwnershipTransfer :: "int64 \<Rightarrow> string \<Rightarrow> string \<Rightarrow> nat \<Rightarrow> int \<Rightarrow> ('c, RelaySignature) go"

section \<open>The mock\<close>

record mock_chain =
  mk_balances :: "string \<rightharpoonup> string"
  mk_transfers :: "TokenTransfer list"
  mk_vaultDeposits :: "VaultDeposit list"
  mk_clones :: "string \<rightharpoonup> string"
  mk_cloneOwners :: "string \<rightharpoonup> string"
  mk_cloneNonces :: "string \<rightharpoonup> nat"
  mk_latest :: nat
  mk_headErr :: "err option"
  mk_filterErr :: "err option"
  mk_relayErr :: "err option"
  mk_cloneFactory :: string
  mk_relays :: "WithdrawRelay list"
  mk_recoveryAddrs :: "string \<rightharpoonup> string"
  mk_recoveryDelays :: "string \<rightharpoonup> nat"
  mk_recoveryRequestedAts :: "string \<rightharpoonup> nat"
  mk_recoverySets :: "RelayRecoverySet list"
  mk_ownershipTransfers :: "RelayOwnershipTransfer list"
  mk_cloneReadErr :: "err option"
  mk_times :: "nat \<Rightarrow> nat"
  mk_ticks :: nat

definition NewMockBlockchainService :: "(nat \<Rightarrow> nat) \<Rightarrow> mock_chain" where
  "NewMockBlockchainService clk =
     \<lparr>mk_balances = Map.empty, mk_transfers = [], mk_vaultDeposits = [], mk_clones = Map.empty,
      mk_cloneOwners = Map.empty, mk_cloneNonces = Map.empty, mk_latest = 0, mk_headErr = None, mk_filterErr = None,
      mk_relayErr = None, mk_cloneFactory = [], mk_relays = [], mk_recoveryAddrs = Map.empty,
      mk_recoveryDelays = Map.empty, mk_recoveryRequestedAts = Map.empty, mk_recoverySets = [],
      mk_ownershipTransfers = [], mk_cloneReadErr = None, mk_times = clk, mk_ticks = 0\<rparr>"

definition at :: "(string \<rightharpoonup> 'v) \<Rightarrow> 'v \<Rightarrow> string \<Rightarrow> 'v" where
  "at m z k = (case m k of None \<Rightarrow> z | Some v \<Rightarrow> v)"

text \<open>\<open>nonce + 1\<close> on \<open>uint64\<close>.\<close>

definition next_nonce :: "nat \<Rightarrow> nat" where
  "next_nonce n = (n + 1) mod 18446744073709551616"

definition hex_char :: "nat \<Rightarrow> char" where
  "hex_char n = (if n < 10 then char_of (48 + n) else char_of (87 + n))"

fun show_hex :: "nat \<Rightarrow> string" where
  "show_hex n = (if n < 16 then [hex_char n] else show_hex (n div 16) @ [hex_char (n mod 16)])"

declare show_hex.simps [simp del]

text \<open>\<open>"0x" + fmt.Sprintf("%064x", time.Now().UnixNano())\<close>\<close>

definition synthetic_hash :: "(mock_chain, string) go" where
  "synthetic_hash m = (Inr (''0x'' @ pad0 64 (show_hex (mk_times m (mk_ticks m)))), m\<lparr>mk_ticks := Suc (mk_ticks m)\<rparr>)"

definition err_or :: "(mock_chain \<Rightarrow> err option) \<Rightarrow> (mock_chain, 'a) go \<Rightarrow> (mock_chain, 'a) go" where
  "err_or f k = bnd (gets f) (\<lambda>e. case e of Some x \<Rightarrow> fail x | None \<Rightarrow> k)"

definition BytesToAddress_tail :: "eth \<Rightarrow> string \<Rightarrow> string" where
  "BytesToAddress_tail E seed = addr_Hex E (BytesToAddress E (drop 12 (Keccak256Hash E (bytes_of seed))))"

definition mockPredictClone :: "eth \<Rightarrow> string \<Rightarrow> string" where
  "mockPredictClone E userKey = BytesToAddress_tail E (''globmint:vaultclone:'' @ userKey)"

definition mockPseudoAddress :: "eth \<Rightarrow> string \<Rightarrow> string" where
  "mockPseudoAddress E seed = BytesToAddress_tail E seed"

definition SetCloneFactory :: "string \<Rightarrow> mock_chain \<Rightarrow> mock_chain" where
  "SetCloneFactory addr m = m\<lparr>mk_cloneFactory := addr\<rparr>"

definition SetClone :: "eth \<Rightarrow> string \<Rightarrow> mock_chain \<Rightarrow> mock_chain" where
  "SetClone E userKey m = m\<lparr>mk_clones := (mk_clones m)(userKey \<mapsto> mockPredictClone E userKey)\<rparr>"

definition ClearClones :: "mock_chain \<Rightarrow> mock_chain" where
  "ClearClones m = m\<lparr>mk_clones := Map.empty\<rparr>"

definition SetLatest :: "nat \<Rightarrow> mock_chain \<Rightarrow> mock_chain" where
  "SetLatest n m = m\<lparr>mk_latest := n\<rparr>"

definition SetCloneOwner :: "string \<Rightarrow> string \<Rightarrow> mock_chain \<Rightarrow> mock_chain" where
  "SetCloneOwner cloneAddr owner m = m\<lparr>mk_cloneOwners := (mk_cloneOwners m)(ToLower cloneAddr \<mapsto> ToLower owner)\<rparr>"

definition SetCloneNonce :: "string \<Rightarrow> nat \<Rightarrow> mock_chain \<Rightarrow> mock_chain" where
  "SetCloneNonce cloneAddr nonce m = m\<lparr>mk_cloneNonces := (mk_cloneNonces m)(ToLower cloneAddr \<mapsto> nonce)\<rparr>"

definition SetCloneRecovery :: "string \<Rightarrow> string \<Rightarrow> nat \<Rightarrow> nat \<Rightarrow> mock_chain \<Rightarrow> mock_chain" where
  "SetCloneRecovery cloneAddr recovery delaySec requestedAtSec m =
     (let key = ToLower cloneAddr in
      m\<lparr>mk_recoveryAddrs := (mk_recoveryAddrs m)(key \<mapsto> recovery),
        mk_recoveryDelays := (mk_recoveryDelays m)(key \<mapsto> delaySec),
        mk_recoveryRequestedAts := (mk_recoveryRequestedAts m)(key \<mapsto> requestedAtSec)\<rparr>)"

definition AddTransfer :: "TokenTransfer \<Rightarrow> mock_chain \<Rightarrow> mock_chain" where
  "AddTransfer t m = m\<lparr>mk_transfers := mk_transfers m @ [t]\<rparr>"

definition AddVaultDeposit :: "VaultDeposit \<Rightarrow> mock_chain \<Rightarrow> mock_chain" where
  "AddVaultDeposit d m = m\<lparr>mk_vaultDeposits := mk_vaultDeposits m @ [d]\<rparr>"

definition mock_GetTokenBalance :: "string \<Rightarrow> (mock_chain, string) go" where
  "mock_GetTokenBalance address = gets (\<lambda>m. at (mk_balances m) ''0'' address)"

definition mock_TransferToken :: "string \<Rightarrow> string \<Rightarrow> (mock_chain, string) go" where
  "mock_TransferToken recipient amount = synthetic_hash"

definition mock_CloneByUserKey :: "string \<Rightarrow> (mock_chain, string) go" where
  "mock_CloneByUserKey userKey = gets (\<lambda>m. at (mk_clones m) [] userKey)"

definition mock_DeployClone :: "eth \<Rightarrow> string \<Rightarrow> string \<Rightarrow> (mock_chain, string \<times> string) go" where
  "mock_DeployClone E userKey owner =
     (let addr = mockPredictClone E userKey in
      bnd (modify (\<lambda>m. m\<lparr>mk_clones := (mk_clones m)(userKey \<mapsto> addr)\<rparr>)) (\<lambda>_.
      bnd (if owner \<noteq> [] then modify (\<lambda>m. m\<lparr>mk_cloneOwners := (mk_cloneOwners m)(ToLower addr \<mapsto> ToLower owner)\<rparr>)
           else ret ()) (\<lambda>_.
      bnd synthetic_hash (\<lambda>h. ret (h, addr)))))"

definition mock_CloneRecoveryAddress :: "string \<Rightarrow> (mock_chain, string) go" where
  "mock_CloneRecoveryAddress clone = err_or mk_cloneReadErr (gets (\<lambda>m. at (mk_recoveryAddrs m) [] (ToLower clone)))"

definition mock_CloneRecoveryDelay :: "string \<Rightarrow> (mock_chain, nat) go" where
  "mock_CloneRecoveryDelay clone = err_or mk_cloneReadErr (gets (\<lambda>m. at (mk_recoveryDelays m) 0 (ToLower clone)))"

definition mock_CloneRecoveryRequestedAt :: "string \<Rightarrow> (mock_chain, nat) go" where
  "mock_CloneRecoveryRequestedAt clone = err_or mk_cloneReadErr (gets (\<lambda>m. at (mk_recoveryRequestedAts m) 0 (ToLower clone)))"

definition mock_SetRecoveryAddressBySig :: "RelayRecoverySet \<Rightarrow> (mock_chain, string) go" where
  "mock_SetRecoveryAddressBySig relay =
     (let key = ToLower (rs_Clone relay) in
      bnd (reject (rs_RecoveryAddress relay = []) (ErrOpaque ''mock: empty recovery address'')) (\<lambda>_.
      bnd (modify (\<lambda>m. m\<lparr>mk_recoveryAddrs := (mk_recoveryAddrs m)(key \<mapsto> rs_RecoveryAddress relay),
                         mk_cloneNonces := (mk_cloneNonces m)(key \<mapsto> next_nonce (rs_Nonce relay)),
                         mk_recoveryRequestedAts := (mk_recoveryRequestedAts m)(key \<mapsto> 0),
                         mk_recoverySets := mk_recoverySets m @ [relay]\<rparr>)) (\<lambda>_.
      synthetic_hash)))"

definition mock_TransferOwnershipBySig :: "RelayOwnershipTransfer \<Rightarrow> (mock_chain, string) go" where
  "mock_TransferOwnershipBySig relay =
     (let key = ToLower (ro_Clone relay) in
      bnd (reject (ro_NewOwner relay = []) (ErrOpaque ''mock: empty new owner'')) (\<lambda>_.
      bnd (modify (\<lambda>m. m\<lparr>mk_cloneOwners := (mk_cloneOwners m)(key \<mapsto> ToLower (ro_NewOwner relay)),
                         mk_cloneNonces := (mk_cloneNonces m)(key \<mapsto> next_nonce (ro_Nonce relay)),
                         mk_ownershipTransfers := mk_ownershipTransfers m @ [relay]\<rparr>)) (\<lambda>_.
      synthetic_hash)))"

definition mock_signature :: "eth \<Rightarrow> string \<Rightarrow> RelaySignature" where
  "mock_signature E payload =
     (let h = take 32 (Keccak256Hash E (bytes_of payload)) in \<lparr>sig_V = 27, sig_R = h, sig_S = h\<rparr>)"

definition mock_SignOwnershipTransfer ::
    "eth \<Rightarrow> int64 \<Rightarrow> string \<Rightarrow> string \<Rightarrow> nat \<Rightarrow> int \<Rightarrow> (mock_chain, RelaySignature) go" where
  "mock_SignOwnershipTransfer E chainID clone newOwner nonce deadline =
     ret (mock_signature E (''mock-transfer:'' @ clone @ '':'' @ newOwner @ '':'' @ show_nat nonce @ '':'' @ show_int deadline))"

definition mock_CloneOwner :: "string \<Rightarrow> (mock_chain, string) go" where
  "mock_CloneOwner clone = err_or mk_cloneReadErr (gets (\<lambda>m. at (mk_cloneOwners m) [] (ToLower clone)))"

definition mock_CloneNonce :: "string \<Rightarrow> (mock_chain, nat) go" where
  "mock_CloneNonce clone = gets (\<lambda>m. at (mk_cloneNonces m) 0 (ToLower clone))"

definition mock_SignWithdrawRelay ::
    "eth \<Rightarrow> int64 \<Rightarrow> string \<Rightarrow> string \<Rightarrow> int \<Rightarrow> nat \<Rightarrow> int \<Rightarrow> (mock_chain, RelaySignature) go" where
  "mock_SignWithdrawRelay E chainID clone to amountBase nonce deadline =
     ret (mock_signature E (''mock-sig:'' @ clone @ '':'' @ to @ '':'' @ show_int amountBase @ '':'' @ show_nat nonce
            @ '':'' @ show_int deadline))"

definition mock_WithdrawFromCloneWithSig :: "WithdrawRelay \<Rightarrow> (mock_chain, string) go" where
  "mock_WithdrawFromCloneWithSig relay =
     err_or mk_relayErr
       (bnd (modify (\<lambda>m. m\<lparr>mk_cloneNonces := (mk_cloneNonces m)(ToLower (TrimSpace (rel_Clone relay)) \<mapsto> next_nonce (rel_Nonce relay)),
                           mk_relays := mk_relays m @ [relay]\<rparr>)) (\<lambda>_. synthetic_hash))"

definition mock_FilterTokenTransfers :: "nat \<Rightarrow> nat \<Rightarrow> string \<Rightarrow> (mock_chain, TokenTransfer list) go" where
  "mock_FilterTokenTransfers fromBlock toBlock address =
     err_or mk_filterErr (gets (\<lambda>m. filter (\<lambda>t. fromBlock \<le> tt_BlockNumber t \<and> tt_BlockNumber t \<le> toBlock
       \<and> (address = [] \<or> tt_To t = address)) (mk_transfers m)))"

definition mock_FilterVaultDeposits :: "nat \<Rightarrow> nat \<Rightarrow> string \<Rightarrow> (mock_chain, VaultDeposit list) go" where
  "mock_FilterVaultDeposits fromBlock toBlock vaultContract =
     err_or mk_filterErr (gets (\<lambda>m. filter (\<lambda>d. fromBlock \<le> vd_BlockNumber d \<and> vd_BlockNumber d \<le> toBlock) (mk_vaultDeposits m)))"

definition mock_LatestBlock :: "(mock_chain, nat) go" where
  "mock_LatestBlock = err_or mk_headErr (gets mk_latest)"

definition mock_service :: "eth \<Rightarrow> mock_chain chain_service" where
  "mock_service E =
     \<lparr>ch_TransferToken = mock_TransferToken,
      ch_CloneByUserKey = mock_CloneByUserKey, ch_DeployClone = mock_DeployClone E,
      ch_CloneFactoryAddress = mk_cloneFactory, ch_FilterTokenTransfers = mock_FilterTokenTransfers,
      ch_FilterVaultDeposits = mock_FilterVaultDeposits, ch_LatestBlock = mock_LatestBlock,
      ch_CloneOwner = mock_CloneOwner, ch_CloneNonce = mock_CloneNonce,
      ch_SignWithdrawRelay = mock_SignWithdrawRelay E, ch_WithdrawFromCloneWithSig = mock_WithdrawFromCloneWithSig,
      ch_CloneRecoveryAddress = mock_CloneRecoveryAddress, ch_CloneRecoveryDelay = mock_CloneRecoveryDelay,
      ch_CloneRecoveryRequestedAt = mock_CloneRecoveryRequestedAt,
      ch_SetRecoveryAddressBySig = mock_SetRecoveryAddressBySig,
      ch_TransferOwnershipBySig = mock_TransferOwnershipBySig,
      ch_SignOwnershipTransfer = mock_SignOwnershipTransfer E\<rparr>"

end
