(* ===== verification/Vault.thy ===== *)
theory Vault
  imports MoneyLaws Chain
begin

text \<open>
  The vault service (\<open>src/backend/internal/services/vault.go\<close>), common part: configuration, the state the
  service keeps in memory, the conversions between naira and stablecoin units, and the deployment of
  per-user clones. The indexer, the withdrawals and the recovery flow are in theories of their own.

  The immutable fields of \<open>VaultService\<close> are the record \<open>vault\<close>, the first argument of every method; the
  mutable ones extend the world (\<open>vworld\<close>). \<open>vcalls\<close> logs the calls that can change the chain, in the
  order the service makes them. Per-user locks do not appear: an operation of the model runs alone.
\<close>

record VaultConfig =
  cfg_VaultAddress :: string
  cfg_VaultContract :: string
  cfg_StablecoinSymbol :: string
  cfg_StablecoinDecimals :: int
  cfg_Mode :: string
  cfg_ChainID :: int64
  cfg_PollInterval :: time
  cfg_StartBlock :: nat
  cfg_FallbackUserID :: string
  cfg_MinConfirmations :: nat
  cfg_WithdrawEnabled :: bool
  cfg_WithdrawMinMinor :: int64
  cfg_WithdrawMaxMinor :: int64
  cfg_WithdrawDailyCapMinor :: int64
  cfg_WithdrawElevationThresholdMinor :: int64
  cfg_WithdrawElevationDelay :: time
  cfg_WithdrawFeeBPS :: int
  cfg_WithdrawFeeMinMinor :: int64
  cfg_WithdrawFeeCapMinor :: int64
  cfg_PrivacyMode :: bool
  cfg_RequireUserSignature :: bool

record 'c vault =
  v_eth :: eth
  v_chain :: "'c chain_service"
  v_money :: money_cfg
  v_cfg :: VaultConfig
  v_hub :: bool

datatype chain_call =
    CallDeployClone string string
  | CallTransferToken string string
  | CallSignWithdraw string string int nat int
  | CallWithdraw WithdrawRelay
  | CallSetRecovery RelayRecoverySet
  | CallSignOwnership string string nat int
  | CallTransferOwnership RelayOwnershipTransfer

record 'c vworld = world +
  vchain :: 'c
  vrate :: int64
  vlastBlock :: nat
  vaddressUser :: "string \<rightharpoonup> string"
  vcloneUser :: "string \<rightharpoonup> string"
  vcalls :: "chain_call list"

definition chain_read :: "('c, 'a) go \<Rightarrow> (('c, 'z) vworld_scheme, 'a) go" where
  "chain_read m w = (case m (vchain w) of (r, c) \<Rightarrow> (r, w\<lparr>vchain := c\<rparr>))"

definition chain_do :: "chain_call \<Rightarrow> ('c, 'a) go \<Rightarrow> (('c, 'z) vworld_scheme, 'a) go" where
  "chain_do c m = bnd (modify (\<lambda>w. w\<lparr>vcalls := vcalls w @ [c]\<rparr>)) (\<lambda>_. chain_read m)"

definition now_unix :: "'z world_scheme \<Rightarrow> int" where
  "now_unix w = clock w div second"

section \<open>Construction and rate\<close>

definition vault_defaults :: "VaultConfig \<Rightarrow> VaultConfig" where
  "vault_defaults cfg =
     (let cfg = (if cfg_PollInterval cfg \<le> 0 then cfg\<lparr>cfg_PollInterval := 8 * second\<rparr> else cfg)
      in if cfg_WithdrawElevationDelay cfg \<le> 0 then cfg\<lparr>cfg_WithdrawElevationDelay := 24 * hour\<rparr> else cfg)"

definition NewVaultService :: "VaultConfig \<Rightarrow> 'c \<Rightarrow> int64 \<Rightarrow> world \<Rightarrow> 'c vworld" where
  "NewVaultService cfg chain rateMinor w =
     world.extend w \<lparr>vchain = chain, vrate = rateMinor, vlastBlock = cfg_StartBlock cfg,
       vaddressUser = Map.empty, vcloneUser = Map.empty, vcalls = []\<rparr>"

definition SetRateMinor :: "int64 \<Rightarrow> (('c, 'z) vworld_scheme, unit) go" where
  "SetRateMinor rateMinor = (if rateMinor > 0 then modify (\<lambda>w. w\<lparr>vrate := rateMinor\<rparr>) else ret ())"

definition currentRateMinor :: "(('c, 'z) vworld_scheme, int64) go" where
  "currentRateMinor = gets vrate"

definition DepositAddress_of :: "'c vault \<Rightarrow> string" where
  "DepositAddress_of v = cfg_VaultAddress (v_cfg v)"

definition mockSignerAddress :: "eth \<Rightarrow> string" where
  "mockSignerAddress E = BytesToAddress_tail E ''globmint:mock-signer''"

definition vault_publish :: "'c vault \<Rightarrow> string \<Rightarrow> string \<Rightarrow> ('z world_scheme, unit) go" where
  "vault_publish v userID kind =
     (if v_hub v
      then modify (\<lambda>w. w\<lparr>hub_log := hub_log w @ [\<lparr>ev_Type = ''data.changed'', ev_UserID = userID, ev_Kind = kind\<rparr>]\<rparr>)
      else ret ())"

definition recordSecurityEvent :: "'c vault \<Rightarrow> SecurityEvent \<Rightarrow> ('z world_scheme, unit) go" where
  "recordSecurityEvent v e =
     bnd (ignore (SecurityEventRepo_Create e)) (\<lambda>_. vault_publish v (se_UserID e) ''security'')"

section \<open>Conversions\<close>

text \<open>\<open>big.Int.Div\<close> is Euclidean and panics on a zero divisor; \<open>Int64\<close> keeps the low 64 bits.\<close>

definition big_Div :: "int \<Rightarrow> int \<Rightarrow> int" where
  "big_Div a b = (if b > 0 then a div b else - (a div (- b)))"

definition depositNGNMinor :: "int \<Rightarrow> int64 \<Rightarrow> int64" where
  "depositNGNMinor usdcBase rateMinor = wrap64 (big_Div (usdcBase * rateMinor) 1000000)"

definition withdrawUSDCBase :: "int64 \<Rightarrow> int64 \<Rightarrow> int64 option" where
  "withdrawUSDCBase ngnMinor rateMinor =
     (if rateMinor = 0 then None else Some (wrap64 (big_Div (ngnMinor * 1000000) rateMinor)))"

definition withdraw_base :: "int64 \<Rightarrow> int64 \<Rightarrow> ('w, int64) go" where
  "withdraw_base ngnMinor rateMinor =
     (case withdrawUSDCBase ngnMinor rateMinor of None \<Rightarrow> fail (ErrPanic ''division by zero'') | Some b \<Rightarrow> ret b)"

text \<open>\<open>%0*d\<close>\<close>

definition fmt0d :: "nat \<Rightarrow> int \<Rightarrow> string" where
  "fmt0d width n = (if n < 0 then ''-'' @ pad0 (width - 1) (show_nat (nat (- n))) else pad0 width (show_nat (nat n)))"

definition baseToMajorString :: "int \<Rightarrow> int \<Rightarrow> string" where
  "baseToMajorString base decimals =
     (if decimals \<le> 0 then show_int base
      else let dv = 10 ^ nat decimals in show_int (base sdiv dv) @ ''.'' @ fmt0d (nat decimals) (base smod dv))"

text \<open>The ellipsis is the UTF-8 sequence E2 80 A6.\<close>

definition shortAddress :: "string \<Rightarrow> string" where
  "shortAddress address =
     (if length address \<le> 12 then address
      else take 6 address @ [CHR 0xE2, CHR 0x80, CHR 0xA6] @ drop (length address - 4) address)"

section \<open>Clones\<close>

definition CloneAddress :: "string \<Rightarrow> ('z world_scheme, string) go" where
  "CloneAddress userID =
     bnd (VaultCloneRepo_ByUser userID) (\<lambda>c. ret (case c of None \<Rightarrow> [] | Some r \<Rightarrow> vc_CloneAddress r))"

definition user_key :: "eth \<Rightarrow> string \<Rightarrow> string" where
  "user_key E userID = hash_Hex E (Keccak256Hash E (bytes_of userID))"

text \<open>The owner of a new clone: the linked wallet, else the platform signer, else (mock mode) a placeholder.\<close>

definition clone_owner :: "'c vault \<Rightarrow> string \<Rightarrow> ('z world_scheme, string) go" where
  "clone_owner v userID =
     bnd (attempt (DepositAddressRepo_FindByUser userID)) (\<lambda>link. ret
       (case link of
          Inr l \<Rightarrow> if da_Address l \<noteq> [] then da_Address l
                   else if DepositAddress_of v \<noteq> [] then DepositAddress_of v
                   else if cfg_Mode (v_cfg v) = ''mock'' then mockSignerAddress (v_eth v) else []
        | Inl _ \<Rightarrow> if DepositAddress_of v \<noteq> [] then DepositAddress_of v
                   else if cfg_Mode (v_cfg v) = ''mock'' then mockSignerAddress (v_eth v) else []))"

definition deploy_clone :: "'c vault \<Rightarrow> string \<Rightarrow> (('c, 'z) vworld_scheme, VaultClone) go" where
  "deploy_clone v userID =
     bnd (clone_owner v userID) (\<lambda>owner.
     bnd (reject (owner = []) (ErrOpaque ''no signer and no linked wallet to own the clone'')) (\<lambda>_.
     bnd (chain_do (CallDeployClone (user_key (v_eth v) userID) owner)
            (ch_DeployClone (v_chain v) (user_key (v_eth v) userID) owner)) (\<lambda>(txHash, cloneAddr).
     bnd (gets (\<lambda>w. ch_CloneFactoryAddress (v_chain v) (vchain w))) (\<lambda>factory.
     let row = \<lparr>vc_UserID = userID, vc_CloneAddress = cloneAddr, vc_FactoryAddress = factory,
                vc_DeployTxHash = txHash, vc_ChainID = cfg_ChainID (v_cfg v), vc_CreatedAt = 0\<rparr> in
     bnd (attempt (VaultCloneRepo_Ensure row)) (\<lambda>r.
     case r of
       Inr _ \<Rightarrow> ret row
     | Inl e \<Rightarrow>
         if errIs e ErrConflict then
           bnd (attempt (VaultCloneRepo_ByUser userID)) (\<lambda>again.
             case again of Inr (Some existing) \<Rightarrow> ret (VaultClone.truncate existing) | _ \<Rightarrow> fail e)
         else fail e)))))"

definition EnsureClone :: "'c vault \<Rightarrow> string \<Rightarrow> (('c, 'z) vworld_scheme, VaultClone) go" where
  "EnsureClone v userID =
     bnd (VaultCloneRepo_ByUser userID) (\<lambda>existing.
     case existing of
       Some row \<Rightarrow>
         bnd (attempt (chain_read (ch_CloneByUserKey (v_chain v) (user_key (v_eth v) userID)))) (\<lambda>deployed.
         case deployed of
           Inl _ \<Rightarrow> ret (VaultClone.truncate row)
         | Inr a \<Rightarrow> if a \<noteq> [] then ret (VaultClone.truncate row) else deploy_clone v userID)
     | None \<Rightarrow> deploy_clone v userID)"

end
