(* ===== verification/VaultIndexer.thy ===== *)
theory VaultIndexer
  imports Vault
begin

text \<open>
  The deposit indexer of the vault service (\<open>services/vault.go\<close>): the scan cursor, the routing of
  confirmed transfers to users, the credit of a deposit and the operator's attribution of stray transfers.
  The worker pool is the sequential run over a list; the lemmas hold for every list, hence for every order
  in which the workers take the jobs. A failed job is logged and dropped, as in the code.
\<close>

section \<open>Resolving users\<close>

definition resumeCursor :: "(('c, 'z) vworld_scheme, unit) go" where
  "resumeCursor =
     bnd IndexerStateRepo_LastBlock (\<lambda>stored.
     if stored > 0 then modify (\<lambda>w. w\<lparr>vlastBlock := stored\<rparr>) else ret ())"

definition clone_routes :: "'r VaultClone_scheme list \<Rightarrow> string \<rightharpoonup> string" where
  "clone_routes clones =
     foldl (\<lambda>m c. if vc_CloneAddress c \<noteq> [] \<and> vc_UserID c \<noteq> [] then m(ToLower (vc_CloneAddress c) \<mapsto> vc_UserID c) else m)
       Map.empty clones"

definition refreshCloneUsers :: "(('c, 'z) vworld_scheme, unit) go" where
  "refreshCloneUsers =
     bnd VaultCloneRepo_All (\<lambda>clones. modify (\<lambda>w. w\<lparr>vcloneUser := clone_routes clones\<rparr>))"

text \<open>\<open>copy(word[32-len(salt):], salt)\<close> panics when the salt is longer than the word.\<close>

definition vaultCommitment :: "eth \<Rightarrow> string \<Rightarrow> byte list \<Rightarrow> string option" where
  "vaultCommitment E address salt =
     (if length salt > 32 then None
      else Some (hash_Hex E (Keccak256Hash E (HexToAddress E address @ replicate (32 - length salt) 0 @ salt))))"

fun commitment_map :: "eth \<Rightarrow> UserSaltLink list \<Rightarrow> (string \<rightharpoonup> string) \<Rightarrow> (string \<rightharpoonup> string) option" where
  "commitment_map E [] m = Some m"
| "commitment_map E (l # ls) m =
     (if sl_Address l = [] \<or> sl_Salt l = [] then commitment_map E ls m
      else case vaultCommitment E (sl_Address l) (sl_Salt l) of
             None \<Rightarrow> None
           | Some c \<Rightarrow> commitment_map E ls (m(c \<mapsto> sl_UserID l)))"

definition commitmentUserMap :: "'c vault \<Rightarrow> ('z world_scheme, string \<rightharpoonup> string) go" where
  "commitmentUserMap v =
     bnd UserSaltsRepo_ListLinks (\<lambda>links.
     case commitment_map (v_eth v) links Map.empty of
       None \<Rightarrow> fail (ErrPanic ''slice bounds out of range'')
     | Some m \<Rightarrow> ret m)"

definition senderUserID :: "'c vault \<Rightarrow> string \<Rightarrow> (('c, 'z) vworld_scheme, string) go" where
  "senderUserID v from_addr =
     bnd (gets (\<lambda>w. vaddressUser w from_addr)) (\<lambda>cached.
     case cached of
       Some uid \<Rightarrow> ret uid
     | None \<Rightarrow>
         bnd (DepositAddressRepo_OwnerOf from_addr) (\<lambda>owner.
         let uid = (if owner = [] then cfg_FallbackUserID (v_cfg v) else owner) in
         if uid = [] then ret []
         else bnd (modify (\<lambda>w. w\<lparr>vaddressUser := (vaddressUser w)(from_addr \<mapsto> uid)\<rparr>)) (\<lambda>_. ret uid)))"

section \<open>Crediting\<close>

definition recordUnattributed :: "IndexerEvent \<Rightarrow> ('z world_scheme, unit) go" where
  "recordUnattributed evt = ignore (IndexerEventRepo_Insert evt)"

definition transfer_event :: "TokenTransfer \<Rightarrow> int \<Rightarrow> IndexerEventType \<Rightarrow> IndexerEvent" where
  "transfer_event t value ty =
     \<lparr>ie_TxHash = tt_TxHash t, ie_LogIndex = tt_LogIndex t, ie_BlockNumber = tt_BlockNumber t, ie_EventType = ty,
      ie_From = tt_From t, ie_To = tt_To t, ie_ValueBase = wrap64 value\<rparr>"

definition deposit_event :: "'c vault \<Rightarrow> VaultDeposit \<Rightarrow> int \<Rightarrow> IndexerEventType \<Rightarrow> IndexerEvent" where
  "deposit_event v d value ty =
     \<lparr>ie_TxHash = vd_TxHash d, ie_LogIndex = vd_LogIndex d, ie_BlockNumber = vd_BlockNumber d, ie_EventType = ty,
      ie_From = vd_Commitment d, ie_To = cfg_VaultContract (v_cfg v), ie_ValueBase = wrap64 value\<rparr>"

definition deposit_security_event :: "'c vault \<Rightarrow> string \<Rightarrow> TokenTransfer \<Rightarrow> int \<Rightarrow> int64 \<Rightarrow> SecurityEvent" where
  "deposit_security_event v userID t value ngnMinor =
     \<lparr>se_ID = [], se_UserID = userID, se_Type = ''deposit'', se_Severity = SeverityInfo,
      se_Title = ''Savings deposit received'',
      se_Detail = ''A deposit into your vault was confirmed and credited'',
      se_IP = [], se_UserAgent = [], se_DeviceID = [], se_Device = [],
      se_Metadata = [''source'' \<mapsto> JStr (tt_From t), ''stablecoin'' \<mapsto> JStr (cfg_StablecoinSymbol (v_cfg v)),
        ''amount_usdc'' \<mapsto> JStr (baseToMajorString value (cfg_StablecoinDecimals (v_cfg v))),
        ''amount_ngn'' \<mapsto> JStr (formatMinor ngnMinor ''NGN'')],
      se_CreatedAt = 0\<rparr>"

text \<open>\<open>money.Deposit\<close> in naira, a conflict of the key counting as already credited.\<close>

definition deposit_once :: "'c vault \<Rightarrow> string \<Rightarrow> int64 \<Rightarrow> string \<Rightarrow> ('z world_scheme, Transaction option) go" where
  "deposit_once v userID ngnMinor key =
     bnd (attempt (Deposit (v_money v) userID ''NGN'' ngnMinor key)) (\<lambda>r.
     case r of Inr t \<Rightarrow> ret (Some t) | Inl e \<Rightarrow> if errIs e ErrConflict then ret None else fail e)"

text \<open>The price of a deposit, declined while there is no rate or when it rounds to nothing.\<close>

definition priced :: "int \<Rightarrow> string \<Rightarrow> (('c, 'z) vworld_scheme, int64) go" where
  "priced value no_rate =
     bnd currentRateMinor (\<lambda>rateMinor.
     bnd (reject (rateMinor \<le> 0) (ErrOpaque no_rate)) (\<lambda>_.
     let ngnMinor = depositNGNMinor value rateMinor in
     bnd (reject (ngnMinor \<le> 0) (ErrOpaque ''deposit value below resolution'')) (\<lambda>_. ret ngnMinor)))"

definition creditTransfer :: "'c vault \<Rightarrow> string \<Rightarrow> TokenTransfer \<Rightarrow> int \<Rightarrow> string \<Rightarrow> (('c, 'z) vworld_scheme, unit) go" where
  "creditTransfer v userID t value key =
     bnd (ignore (IndexerEventRepo_Insert (transfer_event t value IndexerEventDeposited))) (\<lambda>_.
     bnd (priced value ''vault indexer: no market rate; leaving deposit uncredited'') (\<lambda>ngnMinor.
     bnd (deposit_once v userID ngnMinor key) (\<lambda>r.
     case r of
       None \<Rightarrow> ret ()
     | Some _ \<Rightarrow> recordSecurityEvent v (deposit_security_event v userID t value ngnMinor))))"

definition zero_address :: string where
  "zero_address = ''0x0000000000000000000000000000000000000000''"

definition handleDeposit :: "'c vault \<Rightarrow> TokenTransfer \<Rightarrow> (('c, 'z) vworld_scheme, unit) go" where
  "handleDeposit v t =
     (case tt_Value t of
        None \<Rightarrow> ret ()
      | Some value \<Rightarrow>
          if value \<le> 0 then ret ()
          else if EqualFold (tt_From t) zero_address then ret ()
          else
            bnd (gets (\<lambda>w. at (vcloneUser w) [] (ToLower (tt_To t)))) (\<lambda>cloneUserID.
            if cloneUserID \<noteq> [] then creditTransfer v cloneUserID t value (''vault-clone-deposit-'' @ tt_TxHash t)
            else if \<not> EqualFold (tt_To t) (cfg_VaultAddress (v_cfg v)) then ret ()
            else
              bnd (on_err (Wrap ''sender lookup failed'') (senderUserID v (tt_From t))) (\<lambda>userID.
              if userID = [] then recordUnattributed (transfer_event t value IndexerEventUnattributed)
              else creditTransfer v userID t value (''vault-deposit-'' @ tt_TxHash t))))"

definition vault_deposit_user :: "'c vault \<Rightarrow> VaultDeposit \<Rightarrow> (string \<rightharpoonup> string) \<Rightarrow> (('c, 'z) vworld_scheme, string) go" where
  "vault_deposit_user v d commitments =
     (if vd_User d \<noteq> [] then senderUserID v (vd_User d) else ret (at commitments [] (vd_Commitment d)))"

definition handleVaultDeposit :: "'c vault \<Rightarrow> VaultDeposit \<Rightarrow> (string \<rightharpoonup> string) \<Rightarrow> (('c, 'z) vworld_scheme, unit) go" where
  "handleVaultDeposit v d commitments =
     (case vd_Amount d of
        None \<Rightarrow> ret ()
      | Some value \<Rightarrow>
          if value \<le> 0 then ret ()
          else
            bnd (vault_deposit_user v d commitments) (\<lambda>userID.
            if userID = [] then recordUnattributed (deposit_event v d value IndexerEventUnattributed)
            else
              bnd (ignore (IndexerEventRepo_Insert (deposit_event v d value IndexerEventDeposited))) (\<lambda>_.
              bnd (priced value ''vault indexer: no market rate; leaving deposit uncredited'') (\<lambda>ngnMinor.
              bnd (deposit_once v userID ngnMinor
                     (''vault-deposit-vault-'' @ vd_TxHash d @ '':'' @ show_nat (vd_LogIndex d))) (\<lambda>_. ret ())))))"

section \<open>Scanning\<close>

definition processTransfers :: "'c vault \<Rightarrow> TokenTransfer list \<Rightarrow> (('c, 'z) vworld_scheme, unit) go" where
  "processTransfers v transfers = for_range transfers (\<lambda>t. ignore (handleDeposit v t))"

definition processVaultDeposits :: "'c vault \<Rightarrow> VaultDeposit list \<Rightarrow> (('c, 'z) vworld_scheme, unit) go" where
  "processVaultDeposits v deposits =
     (if deposits = [] then ret ()
      else bnd (attempt (commitmentUserMap v)) (\<lambda>r.
             case r of
               Inl e \<Rightarrow> (case root e of ErrPanic _ \<Rightarrow> fail e | _ \<Rightarrow> ret ())
             | Inr commitments \<Rightarrow> for_range deposits (\<lambda>d. ignore (handleVaultDeposit v d commitments))))"

text \<open>The cursor is a \<open>uint64\<close>: past the last representable block it is zero again.\<close>

definition advance :: "nat \<Rightarrow> nat list \<Rightarrow> nat" where
  "advance = foldl (\<lambda>c b. if b \<ge> c then (b + 1) mod 18446744073709551616 else c)"

definition set_baseline :: "nat \<Rightarrow> (('c, 'z) vworld_scheme, unit) go" where
  "set_baseline latest =
     (if latest > 0 then bnd (modify (\<lambda>w. w\<lparr>vlastBlock := latest\<rparr>)) (\<lambda>_. ignore (IndexerStateRepo_SetLastBlock latest))
      else ret ())"

definition commit_cursor :: "nat \<Rightarrow> (('c, 'z) vworld_scheme, unit) go" where
  "commit_cursor newCursor =
     bnd (gets vlastBlock) (\<lambda>lastBlock.
     if newCursor > lastBlock
     then bnd (modify (\<lambda>w. w\<lparr>vlastBlock := newCursor\<rparr>)) (\<lambda>_. ignore (IndexerStateRepo_SetLastBlock newCursor))
     else ret ())"

definition scan_window :: "'c vault \<Rightarrow> nat \<Rightarrow> nat \<Rightarrow> (('c, 'z) vworld_scheme, unit) go" where
  "scan_window v scanFrom toBlock =
     bnd (on_err (Wrap ''load clone routing'') refreshCloneUsers) (\<lambda>_.
     bnd (chain_read (ch_FilterTokenTransfers (v_chain v) scanFrom toBlock [])) (\<lambda>tsf.
     bnd (chain_read (ch_FilterVaultDeposits (v_chain v) scanFrom toBlock (cfg_VaultContract (v_cfg v)))) (\<lambda>vaultDeposits.
     let newCursor = advance (advance scanFrom (map tt_BlockNumber tsf)) (map vd_BlockNumber vaultDeposits) in
     bnd (processTransfers v tsf) (\<lambda>_.
     bnd (if cfg_PrivacyMode (v_cfg v) then processVaultDeposits v vaultDeposits else ret ()) (\<lambda>_.
     commit_cursor newCursor)))))"

definition scan :: "'c vault \<Rightarrow> (('c, 'z) vworld_scheme, unit) go" where
  "scan v =
     bnd (chain_read (ch_LatestBlock (v_chain v))) (\<lambda>latest.
     if cfg_MinConfirmations (v_cfg v) > 0 \<and> latest \<le> cfg_MinConfirmations (v_cfg v) then ret ()
     else
       (let confirmedHead = latest - cfg_MinConfirmations (v_cfg v) in
        bnd (gets vlastBlock) (\<lambda>scanFrom.
        if scanFrom = 0 then set_baseline latest
        else if confirmedHead < scanFrom then ret ()
        else scan_window v scanFrom confirmedHead)))"

section \<open>Stray transfers\<close>

definition UnattributedDeposits :: "int \<Rightarrow> ('z world_scheme, IndexerEvent list) go" where
  "UnattributedDeposits limit = IndexerEventRepo_ListUnattributed limit"

definition claim_sender :: "string \<Rightarrow> string \<Rightarrow> ('z world_scheme, unit) go" where
  "claim_sender from_addr userID =
     bnd (DepositAddressRepo_OwnerOf from_addr) (\<lambda>owner.
     bnd (reject (owner \<noteq> [] \<and> owner \<noteq> userID) ErrConflict) (\<lambda>_.
     if owner = [] then bnd (DepositAddressRepo_Set userID from_addr) (\<lambda>_. ret ()) else ret ()))"

definition AttributeDeposit :: "'c vault \<Rightarrow> string \<Rightarrow> nat \<Rightarrow> string \<Rightarrow> (('c, 'z) vworld_scheme, bool) go" where
  "AttributeDeposit v txHash logIndex userID =
     bnd (reject (userID = []) ErrInvalidAmount) (\<lambda>_.
     bnd (IndexerEventRepo_FindByTxAndLog txHash logIndex) (\<lambda>evt.
     if ie_EventType evt = IndexerEventDeposited then ret False
     else
       bnd (reject (ie_EventType evt \<noteq> IndexerEventUnattributed) ErrConflict) (\<lambda>_.
       bnd (reject (ie_ValueBase evt \<le> 0) (ErrOpaque ''unattributed deposit has no value'')) (\<lambda>_.
       bnd (claim_sender (ie_From evt) userID) (\<lambda>_.
       bnd (priced (ie_ValueBase evt) ''vault: no market rate; cannot price the deposit'') (\<lambda>ngnMinor.
       bnd (deposit_once v userID ngnMinor (''vault-deposit-'' @ ie_TxHash evt)) (\<lambda>r.
       case r of
         None \<Rightarrow> ret False
       | Some _ \<Rightarrow> bnd (IndexerEventRepo_MarkAttributed (ie_TxHash evt) (ie_LogIndex evt)) (\<lambda>_. ret True))))))))"

end
