(* ===== verification/VaultWithdraw.thy ===== *)
theory VaultWithdraw
  imports Vault
begin

text \<open>
  Withdrawals of the vault service (\<open>services/vault.go\<close>): validation, the time lock of large
  withdrawals, the broadcast paths (user-signed relay, platform-signed relay, legacy transfer), the debit
  that follows a broadcast, and the sweeper that releases due time locks.
\<close>

section \<open>Validation\<close>

record WithdrawalResult =
  wres_Transaction :: "Transaction option"
  wres_TxHash :: string
  wres_Elevation :: "WithdrawalElevation option"

definition withdrawalFee :: "VaultConfig \<Rightarrow> int64 \<Rightarrow> int64" where
  "withdrawalFee cfg amountNgnMinor =
     ComputeWithdrawalFee amountNgnMinor (cfg_WithdrawFeeBPS cfg) (cfg_WithdrawFeeMinMinor cfg) (cfg_WithdrawFeeCapMinor cfg)"

definition day_start :: "time \<Rightarrow> time" where
  "day_start t = t div (24 * hour) * (24 * hour)"

definition check_daily_cap :: "VaultConfig \<Rightarrow> string \<Rightarrow> int64 \<Rightarrow> ('z world_scheme, unit) go" where
  "check_daily_cap cfg userID amountNgnMinor =
     (if cfg_WithdrawDailyCapMinor cfg > 0 then
        bnd (gets clock) (\<lambda>now.
        bnd (LedgerRepo_SumWithdrawalsSince userID (day_start now)) (\<lambda>used.
        reject (wrap64 (used + amountNgnMinor) > cfg_WithdrawDailyCapMinor cfg) ErrLimitExceeded))
      else ret ())"

definition validateWithdrawalRequest :: "VaultConfig \<Rightarrow> string \<Rightarrow> string \<Rightarrow> int64 \<Rightarrow> ('z world_scheme, int64) go" where
  "validateWithdrawalRequest cfg userID destination amountNgnMinor =
     bnd (reject (cfg_Mode cfg = ''mock'' \<or> cfg_VaultAddress cfg = []) ErrFeatureDisabled) (\<lambda>_.
     bnd (reject (\<not> cfg_WithdrawEnabled cfg) ErrFeatureDisabled) (\<lambda>_.
     bnd (reject (amountNgnMinor \<le> 0) ErrInvalidAmount) (\<lambda>_.
     bnd (reject (EqualFold destination (cfg_VaultAddress cfg) \<or>
                  (cfg_VaultContract cfg \<noteq> [] \<and> EqualFold destination (cfg_VaultContract cfg))) ErrInvalidAddress) (\<lambda>_.
     bnd (attempt (CloneAddress userID)) (\<lambda>clone.
     bnd (reject (case clone of Inr cloneAddr \<Rightarrow> EqualFold (TrimSpace cloneAddr) destination | Inl _ \<Rightarrow> False)
            ErrInvalidAddress) (\<lambda>_.
     bnd (reject (cfg_WithdrawMinMinor cfg > 0 \<and> amountNgnMinor < cfg_WithdrawMinMinor cfg) ErrInvalidAmount) (\<lambda>_.
     bnd (reject (cfg_WithdrawMaxMinor cfg > 0 \<and> amountNgnMinor > cfg_WithdrawMaxMinor cfg) ErrLimitExceeded) (\<lambda>_.
     bnd (check_daily_cap cfg userID amountNgnMinor) (\<lambda>_.
     ret (withdrawalFee cfg amountNgnMinor))))))))))"

definition hasSufficientNGN :: "string \<Rightarrow> int64 \<Rightarrow> ('z world_scheme, bool) go" where
  "hasSufficientNGN userID amountNgnMinor =
     bnd (AccountRepo_FindByUserAndKind userID AccountKindAvailable ''NGN'') (\<lambda>acc.
     bnd (LedgerRepo_SumBalanceByAccount (acc_ID acc)) (\<lambda>bal. ret (bal \<ge> amountNgnMinor)))"

definition validateSignatureFresh :: "WithdrawSignature \<Rightarrow> ('z world_scheme, unit) go" where
  "validateSignatureFresh rel =
     bnd (reject (ws_Deadline rel \<le> 0) ErrInvalidSignature) (\<lambda>_.
     bnd (gets now_unix) (\<lambda>now. reject (ws_Deadline rel < now) ErrSignatureExpired))"

record WithdrawQuote =
  wq_Domain :: Domain
  wq_Message :: WithdrawRequest
  wq_Owner :: string
  wq_AmountNgnMinor :: int64
  wq_FeeNgnMinor :: int64

definition defaultSignatureLifetime :: time where
  "defaultSignatureLifetime = 30 * minute"

definition unix_after :: "time \<Rightarrow> 'z world_scheme \<Rightarrow> int" where
  "unix_after d w = (clock w + d) div second"

definition vault_domain :: "'c vault \<Rightarrow> string \<Rightarrow> Domain" where
  "vault_domain v cloneAddr =
     \<lparr>dom_Name = DomainName, dom_Version = DomainVersion, dom_ChainID = cfg_ChainID (v_cfg v),
      dom_VerifyingContract = cloneAddr\<rparr>"

definition PrepareSignedWithdrawal :: "'c vault \<Rightarrow> string \<Rightarrow> string \<Rightarrow> int64 \<Rightarrow> (('c, 'z) vworld_scheme, WithdrawQuote) go" where
  "PrepareSignedWithdrawal v userID destination amountNgnMinor =
     bnd (validateWithdrawalRequest (v_cfg v) userID destination amountNgnMinor) (\<lambda>fee.
     bnd (CloneAddress userID) (\<lambda>cloneAddr.
     bnd (reject (cloneAddr = []) ErrWithdrawRequiresCustody) (\<lambda>_.
     bnd (chain_read (ch_CloneNonce (v_chain v) cloneAddr)) (\<lambda>nonce.
     bnd (chain_read (ch_CloneOwner (v_chain v) cloneAddr)) (\<lambda>owner.
     bnd (gets vrate) (\<lambda>rate.
     bnd (withdraw_base amountNgnMinor rate) (\<lambda>base.
     bnd (gets (unix_after defaultSignatureLifetime)) (\<lambda>deadline.
     ret \<lparr>wq_Domain = vault_domain v cloneAddr,
          wq_Message = \<lparr>wr_To = HexToAddress (v_eth v) destination, wr_Amount = base, wr_Nonce = nonce, wr_Deadline = deadline\<rparr>,
          wq_Owner = owner, wq_AmountNgnMinor = amountNgnMinor, wq_FeeNgnMinor = fee\<rparr>))))))))"

section \<open>Time locks\<close>

definition new_elevation :: "VaultConfig \<Rightarrow> string \<Rightarrow> string \<Rightarrow> int64 \<Rightarrow> int64 \<Rightarrow> WithdrawSignature option \<Rightarrow> string \<Rightarrow> time \<Rightarrow> WithdrawalElevation" where
  "new_elevation cfg userID destination amountNgnMinor feeMinor rel key now =
     (let e = \<lparr>we_ID = [], we_UserID = userID, we_Destination = destination, we_AmountNgnMinor = amountNgnMinor,
               we_FeeMinor = feeMinor, we_Status = ElevationPending, we_RequestedAt = now,
               we_ReleaseAfter = now + cfg_WithdrawElevationDelay cfg, we_BroadcastTxHash = [], we_BroadcastAt = None,
               we_IdempotencyKey = key, we_Signature = [], we_Deadline = 0, we_SignedNonce = 0,
               we_SignedAmountBase = 0, we_ExpiredReason = []\<rparr>
      in case rel of
           Some s \<Rightarrow> if HasSignature rel
             then e\<lparr>we_Signature := ws_Signature s, we_Deadline := ws_Deadline s, we_SignedNonce := ws_RelayNonce s,
                    we_SignedAmountBase := ws_RelayAmountBase s\<rparr> else e
         | None \<Rightarrow> e)"

definition elevation_result :: "WithdrawalElevation \<Rightarrow> WithdrawalResult" where
  "elevation_result e = \<lparr>wres_Transaction = None, wres_TxHash = [], wres_Elevation = Some e\<rparr>"

definition requestElevation ::
    "'c vault \<Rightarrow> string \<Rightarrow> string \<Rightarrow> int64 \<Rightarrow> int64 \<Rightarrow> WithdrawSignature option \<Rightarrow> string \<Rightarrow> ('z world_scheme, WithdrawalResult) go" where
  "requestElevation v userID destination amountNgnMinor feeMinor rel key =
     bnd (attempt (ElevationRepo_FindPendingByContent userID destination amountNgnMinor)) (\<lambda>existing.
     case existing of
       Inr e \<Rightarrow> ret (elevation_result e)
     | Inl _ \<Rightarrow>
         bnd (hasSufficientNGN userID (wrap64 (amountNgnMinor + feeMinor))) (\<lambda>suff.
         bnd (reject (\<not> suff) ErrInsufficientBalance) (\<lambda>_.
         bnd (case rel of Some s \<Rightarrow> if HasSignature rel then validateSignatureFresh s else ret () | None \<Rightarrow> ret ()) (\<lambda>_.
         bnd (gets clock) (\<lambda>now.
         bnd (attempt (ElevationRepo_Create (new_elevation (v_cfg v) userID destination amountNgnMinor feeMinor rel key now))) (\<lambda>r.
         case r of
           Inl err \<Rightarrow>
             bnd (attempt (ElevationRepo_FindPendingByContent userID destination amountNgnMinor)) (\<lambda>again.
             case again of Inr e \<Rightarrow> ret (elevation_result e) | Inl _ \<Rightarrow> fail err)
         | Inr e \<Rightarrow> bnd (vault_publish v userID ''all'') (\<lambda>_. ret (elevation_result e))))))))"

section \<open>Broadcast\<close>

definition digest_or_panic :: "byte list option \<Rightarrow> ('w, byte list) go" where
  "digest_or_panic d = (case d of None \<Rightarrow> fail (ErrPanic ''math/big: buffer too small'') | Some h \<Rightarrow> ret h)"

definition invalid_signature :: "err + 'a \<Rightarrow> ('w, 'a) go" where
  "invalid_signature r = (case r of Inl _ \<Rightarrow> fail ErrInvalidSignature | Inr x \<Rightarrow> ret x)"

text \<open>Decode, recover, compare with the owner, split: the verification shared by every signed intent.\<close>

definition verify_owner :: "eth \<Rightarrow> byte list option \<Rightarrow> string \<Rightarrow> string \<Rightarrow> ('w, RelaySignature) go" where
  "verify_owner E dig signature owner =
     bnd (digest_or_panic dig) (\<lambda>digest.
     bnd (invalid_signature (DecodeSignature E signature)) (\<lambda>raw.
     bnd (invalid_signature (RecoverSigner E digest raw)) (\<lambda>signer.
     bnd (reject (\<not> EqualFold (addr_Hex E signer) owner) ErrInvalidSignature) (\<lambda>_.
     bnd (invalid_signature (ParseSignature E signature)) (\<lambda>(vr, r, s).
     ret \<lparr>sig_V = vr, sig_R = r, sig_S = s\<rparr>)))))"

definition signed_nonce :: "'c vault \<Rightarrow> string \<Rightarrow> nat \<Rightarrow> (('c, 'z) vworld_scheme, nat) go" where
  "signed_nonce v cloneAddr nonce =
     (if nonce = 0 then chain_read (ch_CloneNonce (v_chain v) cloneAddr) else ret nonce)"

definition buildUserSignedRelay ::
    "'c vault \<Rightarrow> string \<Rightarrow> string \<Rightarrow> int64 \<Rightarrow> WithdrawSignature \<Rightarrow> (('c, 'z) vworld_scheme, WithdrawRelay) go" where
  "buildUserSignedRelay v userID destination usdcBase rel =
     bnd (validateSignatureFresh rel) (\<lambda>_.
     bnd (CloneAddress userID) (\<lambda>cloneAddr.
     bnd (reject (cloneAddr = []) ErrWithdrawRequiresCustody) (\<lambda>_.
     bnd (chain_read (ch_CloneOwner (v_chain v) cloneAddr)) (\<lambda>owner.
     bnd (reject (owner = []) ErrInvalidSignature) (\<lambda>_.
     bnd (signed_nonce v cloneAddr (ws_RelayNonce rel)) (\<lambda>nonce.
     let amountBase = (if ws_RelayAmountBase rel > 0 then ws_RelayAmountBase rel else usdcBase) in
     bnd (verify_owner (v_eth v)
            (WithdrawDigest (v_eth v) (cfg_ChainID (v_cfg v)) (HexToAddress (v_eth v) cloneAddr)
               \<lparr>wr_To = HexToAddress (v_eth v) destination, wr_Amount = amountBase, wr_Nonce = nonce, wr_Deadline = ws_Deadline rel\<rparr>)
            (ws_Signature rel) owner) (\<lambda>sig.
     ret \<lparr>rel_Clone = cloneAddr, rel_To = destination, rel_Amount = amountBase, rel_Nonce = nonce,
          rel_Deadline = ws_Deadline rel, rel_Sig = sig\<rparr>)))))))"

definition buildPlatformSignedRelay :: "'c vault \<Rightarrow> string \<Rightarrow> string \<Rightarrow> int64 \<Rightarrow> (('c, 'z) vworld_scheme, WithdrawRelay) go" where
  "buildPlatformSignedRelay v userID destination usdcBase =
     bnd (CloneAddress userID) (\<lambda>cloneAddr.
     bnd (reject (cloneAddr = []) ErrWithdrawRequiresCustody) (\<lambda>_.
     bnd (chain_read (ch_CloneOwner (v_chain v) cloneAddr)) (\<lambda>owner.
     bnd (reject (owner \<noteq> [] \<and> \<not> EqualFold owner (cfg_VaultAddress (v_cfg v))) ErrWithdrawSignatureRequired) (\<lambda>_.
     bnd (chain_read (ch_CloneNonce (v_chain v) cloneAddr)) (\<lambda>nonce.
     bnd (gets (unix_after (15 * minute))) (\<lambda>deadline.
     bnd (chain_do (CallSignWithdraw cloneAddr destination usdcBase nonce deadline)
            (ch_SignWithdrawRelay (v_chain v) (cfg_ChainID (v_cfg v)) cloneAddr destination usdcBase nonce deadline)) (\<lambda>sig.
     ret \<lparr>rel_Clone = cloneAddr, rel_To = destination, rel_Amount = usdcBase, rel_Nonce = nonce,
          rel_Deadline = deadline, rel_Sig = sig\<rparr>)))))))"

definition relay_withdrawal :: "'c vault \<Rightarrow> WithdrawRelay \<Rightarrow> (('c, 'z) vworld_scheme, string) go" where
  "relay_withdrawal v relay = chain_do (CallWithdraw relay) (ch_WithdrawFromCloneWithSig (v_chain v) relay)"

definition broadcast_unsigned :: "'c vault \<Rightarrow> string \<Rightarrow> string \<Rightarrow> int64 \<Rightarrow> (('c, 'z) vworld_scheme, string) go" where
  "broadcast_unsigned v userID destination usdcBase =
     bnd (CloneAddress userID) (\<lambda>cloneAddr.
     if cloneAddr \<noteq> [] then
       bnd (reject (cfg_RequireUserSignature (v_cfg v)) ErrWithdrawSignatureRequired) (\<lambda>_.
       bnd (buildPlatformSignedRelay v userID destination usdcBase) (relay_withdrawal v))
     else
       bnd (reject (cfg_RequireUserSignature (v_cfg v)) ErrWithdrawRequiresCustody) (\<lambda>_.
       let major = baseToMajorString usdcBase (cfg_StablecoinDecimals (v_cfg v)) in
       chain_do (CallTransferToken destination major) (ch_TransferToken (v_chain v) destination major)))"

definition broadcastWithdrawal ::
    "'c vault \<Rightarrow> string \<Rightarrow> string \<Rightarrow> int64 \<Rightarrow> WithdrawSignature option \<Rightarrow> (('c, 'z) vworld_scheme, string) go" where
  "broadcastWithdrawal v userID destination usdcBase rel =
     (case rel of
        Some s \<Rightarrow>
          if HasSignature rel
          then bnd (buildUserSignedRelay v userID destination usdcBase s) (relay_withdrawal v)
          else broadcast_unsigned v userID destination usdcBase
      | None \<Rightarrow> broadcast_unsigned v userID destination usdcBase)"

section \<open>Execution\<close>

definition withdraw_request :: "VaultConfig \<Rightarrow> string \<Rightarrow> string \<Rightarrow> int64 \<Rightarrow> int64 \<Rightarrow> string \<Rightarrow> string \<Rightarrow> LedgerMoveRequest" where
  "withdraw_request cfg userID destination amountNgnMinor feeMinor txHash key =
     \<lparr>lm_UserID = userID, lm_AccountKind = AccountKindAvailable, lm_Currency = ''NGN'',
      lm_Type = TransactionTypeWithdrawal, lm_AmountMinor = amountNgnMinor, lm_FeeMinor = feeMinor, lm_ExchangeRate = [],
      lm_Reference = [], lm_ProviderRef = txHash, lm_IdempotencyKey = key,
      lm_Metadata = Some [''destination'' \<mapsto> JStr destination, ''stablecoin'' \<mapsto> JStr (cfg_StablecoinSymbol cfg)]\<rparr>"

definition withdrawal_security_event :: "string \<Rightarrow> string \<Rightarrow> metadata \<Rightarrow> SecurityEvent" where
  "withdrawal_security_event userID detail meta =
     \<lparr>se_ID = [], se_UserID = userID, se_Type = ''withdrawal'', se_Severity = SeverityInfo,
      se_Title = ''Withdrawal completed'', se_Detail = detail, se_IP = [], se_UserAgent = [], se_DeviceID = [],
      se_Device = [], se_Metadata = meta, se_CreatedAt = 0\<rparr>"

text \<open>The security event and the inbox note after the debit; the approximation sign is UTF-8 E2 89 88.\<close>

definition announce_withdrawal :: "'c vault \<Rightarrow> string \<Rightarrow> string \<Rightarrow> int64 \<Rightarrow> int64 \<Rightarrow> ('z world_scheme, unit) go" where
  "announce_withdrawal v userID destination amountNgnMinor usdcBase =
     (let usdc = baseToMajorString usdcBase (cfg_StablecoinDecimals (v_cfg v));
          ngn = formatMinor amountNgnMinor ''NGN'' in
      bnd (recordSecurityEvent v (withdrawal_security_event userID
             ''A withdrawal was broadcast and debited from your ledger''
             [''destination'' \<mapsto> JStr destination, ''stablecoin'' \<mapsto> JStr (cfg_StablecoinSymbol (v_cfg v)),
              ''amount_ngn'' \<mapsto> JStr ngn, ''amount_usdc'' \<mapsto> JStr usdc])) (\<lambda>_.
      notify userID ''withdrawal'' ''Withdrawal broadcast''
        (ngn @ '' ('' @ [CHR 0xE2, CHR 0x89, CHR 0x88] @ usdc @ '' USDC) sent to '' @ shortAddress destination @ ''.'')))"

definition debit_after_broadcast :: "'c vault \<Rightarrow> string \<Rightarrow> string \<Rightarrow> int64 \<Rightarrow> int64 \<Rightarrow> string \<Rightarrow> string \<Rightarrow> ('z world_scheme, Transaction) go" where
  "debit_after_broadcast v userID destination amountNgnMinor feeMinor txHash key =
     on_err (Wrap (''on-chain sent ('' @ txHash @ '') but ledger debit failed''))
       (WithdrawExternal (v_money v) (withdraw_request (v_cfg v) userID destination amountNgnMinor feeMinor txHash key) key)"

text \<open>Sufficiency (principal and fee) and the stablecoin amount, before any gas is spent.\<close>

definition withdraw_precheck :: "string \<Rightarrow> int64 \<Rightarrow> int64 \<Rightarrow> (('c, 'z) vworld_scheme, int64) go" where
  "withdraw_precheck userID amountNgnMinor feeMinor =
     bnd (hasSufficientNGN userID (wrap64 (amountNgnMinor + feeMinor))) (\<lambda>suff.
     bnd (reject (\<not> suff) ErrInsufficientBalance) (\<lambda>_.
     bnd currentRateMinor (\<lambda>rate.
     bnd (withdraw_base amountNgnMinor rate) (\<lambda>usdcBase.
     bnd (reject (usdcBase \<le> 0) ErrInvalidAmount) (\<lambda>_. ret usdcBase)))))"

definition broadcast_and_debit ::
    "'c vault \<Rightarrow> string \<Rightarrow> string \<Rightarrow> int64 \<Rightarrow> int64 \<Rightarrow> WithdrawSignature option \<Rightarrow> string \<Rightarrow> int64 \<Rightarrow> (('c, 'z) vworld_scheme, Transaction) go" where
  "broadcast_and_debit v userID destination amountNgnMinor feeMinor rel key usdcBase =
     bnd (broadcastWithdrawal v userID destination usdcBase rel) (\<lambda>txHash.
     bnd (debit_after_broadcast v userID destination amountNgnMinor feeMinor txHash key) (\<lambda>txn.
     bnd (announce_withdrawal v userID destination amountNgnMinor usdcBase) (\<lambda>_. ret txn)))"

definition executeWithdrawal ::
    "'c vault \<Rightarrow> string \<Rightarrow> string \<Rightarrow> int64 \<Rightarrow> int64 \<Rightarrow> WithdrawSignature option \<Rightarrow> string \<Rightarrow> (('c, 'z) vworld_scheme, Transaction) go" where
  "executeWithdrawal v userID destination amountNgnMinor feeMinor rel key =
     bnd (if key \<noteq> [] then attempt (LedgerRepo_FindTransactionByIDempotencyKey key) else ret (Inl ErrNotFound)) (\<lambda>existing.
     case existing of
       Inr t \<Rightarrow> ret t
     | Inl _ \<Rightarrow>
         bnd (withdraw_precheck userID amountNgnMinor feeMinor)
           (broadcast_and_debit v userID destination amountNgnMinor feeMinor rel key))"

definition vault_withdraw ::
    "'c vault \<Rightarrow> string \<Rightarrow> string \<Rightarrow> int64 \<Rightarrow> WithdrawSignature option \<Rightarrow> string \<Rightarrow> (('c, 'z) vworld_scheme, WithdrawalResult) go" where
  "vault_withdraw v userID destination amountNgnMinor rel key =
     bnd (validateWithdrawalRequest (v_cfg v) userID destination amountNgnMinor) (\<lambda>fee.
     if cfg_WithdrawElevationThresholdMinor (v_cfg v) > 0 \<and> amountNgnMinor > cfg_WithdrawElevationThresholdMinor (v_cfg v)
     then requestElevation v userID destination amountNgnMinor fee rel key
     else bnd (executeWithdrawal v userID destination amountNgnMinor fee rel key) (\<lambda>txn.
            ret \<lparr>wres_Transaction = Some txn, wres_TxHash = txn_ProviderRef txn, wres_Elevation = None\<rparr>))"

definition WithdrawToAddress :: "'c vault \<Rightarrow> string \<Rightarrow> string \<Rightarrow> int64 \<Rightarrow> string \<Rightarrow> (('c, 'z) vworld_scheme, WithdrawalResult) go" where
  "WithdrawToAddress v userID destination amountNgnMinor key = vault_withdraw v userID destination amountNgnMinor None key"

definition WithdrawToAddressSigned ::
    "'c vault \<Rightarrow> string \<Rightarrow> string \<Rightarrow> int64 \<Rightarrow> WithdrawSignature option \<Rightarrow> string \<Rightarrow> (('c, 'z) vworld_scheme, WithdrawalResult) go" where
  "WithdrawToAddressSigned v userID destination amountNgnMinor sig key = vault_withdraw v userID destination amountNgnMinor sig key"

section \<open>Elevations\<close>

record WithdrawLimits =
  wlim_MinMinor :: int64
  wlim_MaxMinor :: int64
  wlim_DailyCapMinor :: int64
  wlim_ThresholdMinor :: int64
  wlim_ElevationDelaySeconds :: int64

definition WithdrawLimits_of :: "VaultConfig \<Rightarrow> WithdrawLimits" where
  "WithdrawLimits_of cfg =
     \<lparr>wlim_MinMinor = cfg_WithdrawMinMinor cfg, wlim_MaxMinor = cfg_WithdrawMaxMinor cfg,
      wlim_DailyCapMinor = cfg_WithdrawDailyCapMinor cfg, wlim_ThresholdMinor = cfg_WithdrawElevationThresholdMinor cfg,
      wlim_ElevationDelaySeconds = cfg_WithdrawElevationDelay cfg sdiv second\<rparr>"

definition FindElevation :: "string \<Rightarrow> string \<Rightarrow> ('z world_scheme, WithdrawalElevation) go" where
  "FindElevation userID eid = ElevationRepo_FindByUserAndID userID eid"

definition ListPendingElevations :: "string \<Rightarrow> ('z world_scheme, WithdrawalElevation list) go" where
  "ListPendingElevations userID = ElevationRepo_ListPendingByUser userID"

definition CancelElevation :: "string \<Rightarrow> string \<Rightarrow> ('z world_scheme, unit) go" where
  "CancelElevation userID eid = ElevationRepo_CancelPending userID eid"

definition errElevationExpired :: err where
  "errElevationExpired = ErrOpaque ''elevation expired''"

definition stored_signature :: "WithdrawalElevation \<Rightarrow> WithdrawSignature" where
  "stored_signature e = \<lparr>ws_Signature = we_Signature e, ws_Deadline = we_Deadline e, ws_RelayNonce = we_SignedNonce e,
     ws_RelayAmountBase = we_SignedAmountBase e\<rparr>"

text \<open>The liveness check of a stored signature: the deadline and, when one was signed, the nonce.\<close>

definition check_live :: "'c vault \<Rightarrow> WithdrawalElevation \<Rightarrow> (('c, 'z) vworld_scheme, unit) go" where
  "check_live v e =
     bnd (gets now_unix) (\<lambda>now.
     if we_Deadline e > 0 \<and> we_Deadline e < now then
       bnd (ignore (ElevationRepo_MarkExpired (we_ID e) ''signature deadline passed before release'')) (\<lambda>_.
       fail (Wrap ''signature deadline passed'' errElevationExpired))
     else if we_SignedNonce e > 0 then
       bnd (CloneAddress (we_UserID e)) (\<lambda>cloneAddr.
       bnd (attempt (chain_read (ch_CloneNonce (v_chain v) cloneAddr))) (\<lambda>current.
       if cloneAddr \<noteq> [] \<and> current \<noteq> Inr (we_SignedNonce e) then
         bnd (ignore (ElevationRepo_MarkExpired (we_ID e) ''a newer withdrawal consumed the signed nonce; re-request'')) (\<lambda>_.
         fail (Wrap ''signed nonce'' errElevationExpired))
       else ret ()))
     else ret ())"

definition releaseElevation :: "'c vault \<Rightarrow> WithdrawalElevation \<Rightarrow> (('c, 'z) vworld_scheme, Transaction) go" where
  "releaseElevation v e =
     (if HasSignedIntent e then
        bnd (check_live v e) (\<lambda>_.
        executeWithdrawal v (we_UserID e) (we_Destination e) (we_AmountNgnMinor e) (we_FeeMinor e)
          (Some (stored_signature e)) (we_IdempotencyKey e))
      else
        executeWithdrawal v (we_UserID e) (we_Destination e) (we_AmountNgnMinor e) (we_FeeMinor e) None (we_IdempotencyKey e))"

definition is_panic :: "err \<Rightarrow> bool" where
  "is_panic e = (case root e of ErrPanic _ \<Rightarrow> True | _ \<Rightarrow> False)"

text \<open>One turn of the sweep. A panic is not an error value: it ends the sweep.\<close>

definition finish_release :: "'c vault \<Rightarrow> WithdrawalElevation \<Rightarrow> Transaction \<Rightarrow> ('z world_scheme, unit) go" where
  "finish_release v e txn =
     bnd (ignore (ElevationRepo_MarkBroadcast (we_ID e) (txn_ProviderRef txn))) (\<lambda>_.
     bnd (recordSecurityEvent v (withdrawal_security_event (we_UserID e)
            ''A time-locked withdrawal was released and broadcast'' [''elevation_id'' \<mapsto> JStr (we_ID e)])) (\<lambda>_.
     vault_publish v (we_UserID e) ''all''))"

definition sweep_one :: "'c vault \<Rightarrow> WithdrawalElevation \<Rightarrow> (('c, 'z) vworld_scheme, unit) go" where
  "sweep_one v e =
     bnd (attempt (ElevationRepo_ClaimForBroadcast (we_ID e))) (\<lambda>claimed.
     if claimed \<noteq> Inr True then ret ()
     else
       bnd (attempt (releaseElevation v e)) (\<lambda>r.
       case r of
         Inl relErr \<Rightarrow>
           if is_panic relErr then fail relErr
           else if errIs relErr errElevationExpired then ret ()
           else ignore (ElevationRepo_ReleaseClaim (we_ID e))
       | Inr txn \<Rightarrow> finish_release v e txn))"

definition sweepDueElevations :: "'c vault \<Rightarrow> (('c, 'z) vworld_scheme, unit) go" where
  "sweepDueElevations v =
     (if \<not> cfg_WithdrawEnabled (v_cfg v) then ret ()
      else bnd (gets clock) (\<lambda>now. bnd (ElevationRepo_FindDuePending now) (\<lambda>due. for_range due (sweep_one v))))"

end
