(* ===== verification/VaultRecovery.thy ===== *)
theory VaultRecovery
  imports VaultWithdraw
begin

text \<open>
  Recovery address and custody of a clone (\<open>services/vault.go\<close>): the quotes a client signs, the relays of
  \<open>setRecoveryAddressBySig\<close> and \<open>transferOwnershipBySig\<close>, the status read from the chain with its cached
  fallback, and the reconciler that refreshes the cache.
\<close>

record RecoveryQuote =
  rq_Domain :: Domain
  rq_Message :: SetRecoveryRequest
  rq_Owner :: string

record RecoveryStatus =
  rst_Clone :: string
  rst_Owner :: string
  rst_RecoveryAddress :: string
  rst_RecoveryDelaySec :: int
  rst_RecoveryRequestedAt :: int
  rst_RecoveryAt :: int
  rst_RecoveryPending :: bool

record CustodyStatus =
  cst_Clone :: string
  cst_Owner :: string
  cst_Placeholder :: string
  cst_Claimed :: bool
  cst_Nonce :: nat

record CustodyQuote =
  cq_Domain :: Domain
  cq_Message :: TransferOwnershipRequest
  cq_Owner :: string

text \<open>\<open>!common.IsHexAddress(strings.TrimSpace(a)) || common.HexToAddress(a) == (common.Address{})\<close>\<close>

definition bad_address :: "eth \<Rightarrow> string \<Rightarrow> bool" where
  "bad_address E a \<longleftrightarrow> \<not> IsHexAddress E (TrimSpace a) \<or> HexToAddress E a = replicate 20 0"

text \<open>The user's clone and its current owner, as every signed operation on the clone begins.\<close>

definition clone_and_owner :: "'c vault \<Rightarrow> string \<Rightarrow> (('c, 'z) vworld_scheme, string \<times> string) go" where
  "clone_and_owner v userID =
     bnd (CloneAddress userID) (\<lambda>cloneAddr.
     bnd (reject (cloneAddr = []) ErrWithdrawRequiresCustody) (\<lambda>_.
     bnd (chain_read (ch_CloneOwner (v_chain v) cloneAddr)) (\<lambda>owner.
     bnd (reject (owner = []) ErrInvalidSignature) (\<lambda>_. ret (cloneAddr, owner)))))"

section \<open>Recovery address\<close>

definition PrepareRecovery :: "'c vault \<Rightarrow> string \<Rightarrow> string \<Rightarrow> (('c, 'z) vworld_scheme, RecoveryQuote) go" where
  "PrepareRecovery v userID recoveryAddress =
     bnd (reject (bad_address (v_eth v) recoveryAddress) ErrInvalidAddress) (\<lambda>_.
     bnd (clone_and_owner v userID) (\<lambda>(cloneAddr, owner).
     bnd (reject (EqualFold owner recoveryAddress) ErrInvalidAddress) (\<lambda>_.
     bnd (chain_read (ch_CloneNonce (v_chain v) cloneAddr)) (\<lambda>nonce.
     bnd (gets (unix_after defaultSignatureLifetime)) (\<lambda>deadline.
     ret \<lparr>rq_Domain = vault_domain v cloneAddr,
          rq_Message = \<lparr>rr_RecoveryAddress = HexToAddress (v_eth v) recoveryAddress, rr_Nonce = nonce, rr_Deadline = deadline\<rparr>,
          rq_Owner = owner\<rparr>)))))"

definition SetRecoveryAddressBySig :: "'c vault \<Rightarrow> string \<Rightarrow> string \<Rightarrow> WithdrawSignature \<Rightarrow> (('c, 'z) vworld_scheme, string) go" where
  "SetRecoveryAddressBySig v userID recoveryAddress sig =
     bnd (reject (bad_address (v_eth v) recoveryAddress) ErrInvalidAddress) (\<lambda>_.
     bnd (validateSignatureFresh sig) (\<lambda>_.
     bnd (clone_and_owner v userID) (\<lambda>(cloneAddr, owner).
     bnd (reject (EqualFold owner recoveryAddress) ErrInvalidAddress) (\<lambda>_.
     bnd (signed_nonce v cloneAddr (ws_RelayNonce sig)) (\<lambda>nonce.
     bnd (verify_owner (v_eth v)
            (SetRecoveryDigest (v_eth v) (cfg_ChainID (v_cfg v)) (HexToAddress (v_eth v) cloneAddr)
               \<lparr>rr_RecoveryAddress = HexToAddress (v_eth v) recoveryAddress, rr_Nonce = nonce, rr_Deadline = ws_Deadline sig\<rparr>)
            (ws_Signature sig) owner) (\<lambda>parts.
     let relay = \<lparr>rs_Clone = cloneAddr, rs_RecoveryAddress = recoveryAddress, rs_Nonce = nonce,
                  rs_Deadline = ws_Deadline sig, rs_Sig = parts\<rparr> in
     bnd (chain_do (CallSetRecovery relay) (ch_SetRecoveryAddressBySig (v_chain v) relay)) (\<lambda>txHash.
     bnd (ignore (VaultCloneRepo_CacheRecovery userID
            \<lparr>cr_Owner = owner, cr_RecoveryAddress = recoveryAddress, cr_RecoveryDelay = 0, cr_RecoveryRequestedAt = 0\<rparr>)) (\<lambda>_.
     bnd (vault_publish v userID ''all'') (\<lambda>_. ret txHash)))))))))"

definition fillRecoveryStatus :: "RecoveryStatus \<Rightarrow> CloneRecovery \<Rightarrow> RecoveryStatus" where
  "fillRecoveryStatus st rec =
     (let pending = (cr_RecoveryRequestedAt rec > 0 \<and> cr_RecoveryDelay rec > 0) in
      st\<lparr>rst_Owner := cr_Owner rec, rst_RecoveryAddress := cr_RecoveryAddress rec,
         rst_RecoveryDelaySec := cr_RecoveryDelay rec, rst_RecoveryRequestedAt := cr_RecoveryRequestedAt rec,
         rst_RecoveryPending := pending,
         rst_RecoveryAt := (if pending then wrap64 (cr_RecoveryRequestedAt rec + wrap64 (cr_RecoveryDelay rec)) else rst_RecoveryAt st)\<rparr>)"

definition recoveryStatusFromCache :: "string \<Rightarrow> RecoveryStatus \<Rightarrow> ('z world_scheme, RecoveryStatus) go" where
  "recoveryStatusFromCache userID st =
     bnd (attempt (VaultCloneRepo_RecoveryCache userID)) (\<lambda>rec. ret
       (case rec of Inr (Some r) \<Rightarrow> fillRecoveryStatus st r | _ \<Rightarrow> st))"

text \<open>Owner, recovery address, delay and request time of a clone, in the order the code reads them.\<close>

definition read_recovery :: "'c vault \<Rightarrow> string \<Rightarrow> string \<Rightarrow> (('c, 'z) vworld_scheme, CloneRecovery) go" where
  "read_recovery v cloneAddr owner =
     bnd (chain_read (ch_CloneRecoveryAddress (v_chain v) cloneAddr)) (\<lambda>recovery.
     bnd (chain_read (ch_CloneRecoveryDelay (v_chain v) cloneAddr)) (\<lambda>dly.
     bnd (chain_read (ch_CloneRecoveryRequestedAt (v_chain v) cloneAddr)) (\<lambda>requestedAt.
     ret \<lparr>cr_Owner = owner, cr_RecoveryAddress = recovery, cr_RecoveryDelay = int dly,
          cr_RecoveryRequestedAt = wrap64 (int requestedAt)\<rparr>)))"

definition empty_recovery_status :: RecoveryStatus where
  "empty_recovery_status = \<lparr>rst_Clone = [], rst_Owner = [], rst_RecoveryAddress = [], rst_RecoveryDelaySec = 0,
     rst_RecoveryRequestedAt = 0, rst_RecoveryAt = 0, rst_RecoveryPending = False\<rparr>"

definition RecoveryStatus_of :: "'c vault \<Rightarrow> string \<Rightarrow> (('c, 'z) vworld_scheme, RecoveryStatus) go" where
  "RecoveryStatus_of v userID =
     bnd (CloneAddress userID) (\<lambda>cloneAddr.
     if cloneAddr = [] then ret empty_recovery_status
     else
       (let st = empty_recovery_status\<lparr>rst_Clone := cloneAddr\<rparr> in
        bnd (attempt (chain_read (ch_CloneOwner (v_chain v) cloneAddr))) (\<lambda>ow.
        case ow of
          Inl _ \<Rightarrow> recoveryStatusFromCache userID st
        | Inr owner \<Rightarrow>
            bnd (attempt (read_recovery v cloneAddr owner)) (\<lambda>r.
            case r of
              Inl _ \<Rightarrow> recoveryStatusFromCache userID st
            | Inr rec \<Rightarrow>
                bnd (ignore (VaultCloneRepo_CacheRecovery userID rec)) (\<lambda>_. ret (fillRecoveryStatus st rec))))))"

section \<open>Custody\<close>

definition isCustodyClaimed :: "VaultConfig \<Rightarrow> string \<Rightarrow> bool" where
  "isCustodyClaimed cfg owner =
     (if owner = [] then False
      else if cfg_VaultAddress cfg = [] then True
      else \<not> EqualFold owner (cfg_VaultAddress cfg))"

definition owner_only :: "string \<Rightarrow> CloneRecovery" where
  "owner_only owner = \<lparr>cr_Owner = owner, cr_RecoveryAddress = [], cr_RecoveryDelay = 0, cr_RecoveryRequestedAt = 0\<rparr>"

definition custodyStatusFromCache :: "VaultConfig \<Rightarrow> string \<Rightarrow> CustodyStatus \<Rightarrow> ('z world_scheme, CustodyStatus) go" where
  "custodyStatusFromCache cfg userID st =
     bnd (attempt (VaultCloneRepo_RecoveryCache userID)) (\<lambda>rec. ret
       (case rec of
          Inr (Some r) \<Rightarrow> st\<lparr>cst_Owner := cr_Owner r, cst_Claimed := isCustodyClaimed cfg (cr_Owner r)\<rparr>
        | _ \<Rightarrow> st))"

definition CustodyStatus_of :: "'c vault \<Rightarrow> string \<Rightarrow> (('c, 'z) vworld_scheme, CustodyStatus) go" where
  "CustodyStatus_of v userID =
     bnd (CloneAddress userID) (\<lambda>cloneAddr.
     let st = \<lparr>cst_Clone = cloneAddr, cst_Owner = [], cst_Placeholder = DepositAddress_of v, cst_Claimed = False, cst_Nonce = 0\<rparr> in
     if cloneAddr = [] then ret st
     else
       bnd (attempt (chain_read (ch_CloneOwner (v_chain v) cloneAddr))) (\<lambda>ow.
       case ow of
         Inl _ \<Rightarrow> custodyStatusFromCache (v_cfg v) userID st
       | Inr owner \<Rightarrow>
           bnd (attempt (chain_read (ch_CloneNonce (v_chain v) cloneAddr))) (\<lambda>nonce.
           bnd (ignore (VaultCloneRepo_CacheRecovery userID (owner_only owner))) (\<lambda>_.
           ret (st\<lparr>cst_Owner := owner, cst_Nonce := (case nonce of Inr n \<Rightarrow> n | Inl _ \<Rightarrow> 0),
                   cst_Claimed := isCustodyClaimed (v_cfg v) owner\<rparr>)))))"

text \<open>The checks shared by the custody quote and the claim.\<close>

definition claimable :: "'c vault \<Rightarrow> string \<Rightarrow> string \<Rightarrow> (('c, 'z) vworld_scheme, string \<times> string \<times> nat) go" where
  "claimable v userID newOwner =
     bnd (reject (bad_address (v_eth v) newOwner) ErrInvalidAddress) (\<lambda>_.
     bnd (clone_and_owner v userID) (\<lambda>(cloneAddr, owner).
     bnd (reject (isCustodyClaimed (v_cfg v) owner) ErrCustodyAlreadyClaimed) (\<lambda>_.
     bnd (reject (EqualFold owner newOwner) ErrInvalidAddress) (\<lambda>_.
     bnd (chain_read (ch_CloneNonce (v_chain v) cloneAddr)) (\<lambda>nonce. ret (cloneAddr, owner, nonce))))))"

definition PrepareCustodyClaim :: "'c vault \<Rightarrow> string \<Rightarrow> string \<Rightarrow> (('c, 'z) vworld_scheme, CustodyQuote) go" where
  "PrepareCustodyClaim v userID newOwner =
     bnd (claimable v userID newOwner) (\<lambda>(cloneAddr, owner, nonce).
     bnd (gets (unix_after defaultSignatureLifetime)) (\<lambda>deadline.
     ret \<lparr>cq_Domain = vault_domain v cloneAddr,
          cq_Message = \<lparr>or_NewOwner = HexToAddress (v_eth v) newOwner, or_Nonce = nonce, or_Deadline = deadline\<rparr>,
          cq_Owner = owner\<rparr>))"

definition ClaimCustody :: "'c vault \<Rightarrow> string \<Rightarrow> string \<Rightarrow> (('c, 'z) vworld_scheme, string) go" where
  "ClaimCustody v userID newOwner =
     bnd (claimable v userID newOwner) (\<lambda>(cloneAddr, owner, nonce).
     bnd (gets (unix_after defaultSignatureLifetime)) (\<lambda>deadline.
     bnd (chain_do (CallSignOwnership cloneAddr newOwner nonce deadline)
            (ch_SignOwnershipTransfer (v_chain v) (cfg_ChainID (v_cfg v)) cloneAddr newOwner nonce deadline)) (\<lambda>sig.
     let relay = \<lparr>ro_Clone = cloneAddr, ro_NewOwner = newOwner, ro_Nonce = nonce, ro_Deadline = deadline, ro_Sig = sig\<rparr> in
     bnd (chain_do (CallTransferOwnership relay) (ch_TransferOwnershipBySig (v_chain v) relay)) (\<lambda>txHash.
     bnd (ignore (VaultCloneRepo_CacheRecovery userID (owner_only newOwner))) (\<lambda>_.
     bnd (vault_publish v userID ''all'') (\<lambda>_. ret txHash))))))"

section \<open>Reconciler\<close>

definition refreshCloneRecoveryCache :: "'c vault \<Rightarrow> 'r VaultClone_scheme \<Rightarrow> (('c, 'z) vworld_scheme, unit) go" where
  "refreshCloneRecoveryCache v c =
     (if vc_CloneAddress c = [] then ret ()
      else
        bnd (chain_read (ch_CloneOwner (v_chain v) (vc_CloneAddress c))) (\<lambda>owner.
        bnd (read_recovery v (vc_CloneAddress c) owner) (\<lambda>rec.
        VaultCloneRepo_CacheRecovery (vc_UserID c) rec)))"

definition reconcileRecoveryCache :: "'c vault \<Rightarrow> (('c, 'z) vworld_scheme, unit) go" where
  "reconcileRecoveryCache v =
     bnd VaultCloneRepo_All (\<lambda>clones. for_range clones (\<lambda>c. ignore (refreshCloneRecoveryCache v c)))"

end
