(* ===== verification/VaultLaws.thy ===== *)
theory VaultLaws
  imports Keeps MoneyProps VaultIndexer VaultRecovery
begin

text \<open>
  Reasoning rules for the vault service: what its steps keep of the books, of the in-memory state and of the
  log of chain calls.
\<close>

section \<open>Computations outside the database\<close>

lemma more_side:
  "keeps more_same (notify u c t b)" "keeps more_same (notifyChanged cfg u)"
  "keeps more_same (emailUser cfg u tpl cur x)" "keeps more_same (find_replay key)"
  "keeps more_same m \<Longrightarrow> keeps more_same (or_replay key m)" "keeps more_same (post txn aid u mv cur x nb)"
  "keeps more_same (pick_reference r ty)" "keeps more_same (vault_publish v u k)" "keeps more_same (recordSecurityEvent v ev)"
  "keeps more_same (CloneAddress u)"
  unfolding notify_def notifyChanged_def emailUser_def find_replay_def or_replay_def post_def pick_reference_def
    vault_publish_def recordSecurityEvent_def CloneAddress_def
  by (intro more_rules more_reads more_writes; assumption?)+

lemma more_money: "keeps more_same (Deposit cfg u c a key)" "keeps more_same (WithdrawExternal cfg req key)"
  unfolding Deposit_def Credit_def move_def move_body_def WithdrawExternal_def external_body_def settle_fee_def
  by (intro more_rules more_reads more_writes more_side)+

section \<open>The books\<close>

text \<open>The tables the invariant of the ledger speaks about are untouched.\<close>

definition books_same :: "db \<Rightarrow> db \<Rightarrow> bool" where
  "books_same d d' \<longleftrightarrow> ledger_same d d' \<and> accounts d' = accounts d"

interpretation books: db_preorder books_same
  by unfold_locales (auto simp: books_same_def ledger_same_def tables_same_def)

lemma books_stmtI:
  assumes "\<And>i t d v d'. q i t d = Inr (v, d') \<Longrightarrow> transactions d' = transactions d
    \<and> ledger_entries d' = ledger_entries d \<and> balances d' = balances d \<and> accounts d' = accounts d"
  shows "pres books_same (stmt q)"
  by (rule books.pres_stmt) (use assms in \<open>auto simp: books_same_def ledger_same_def tables_same_def\<close>)

lemma chain_fixed: "pres (=) (chain_read m)" "pres (=) (chain_do c m)"
  by (auto simp: pres_def chain_read_def chain_do_def bnd_def modify_def split: prod.splits)

lemma state_fixed:
  "pres (=) (modify (\<lambda>w. w\<lparr>vlastBlock := n\<rparr>))" "pres (=) (modify (\<lambda>w. w\<lparr>vrate := x\<rparr>))"
  "pres (=) (modify (\<lambda>w. w\<lparr>vaddressUser := f w\<rparr>))" "pres (=) (modify (\<lambda>w. w\<lparr>vcloneUser := g w\<rparr>))"
  "pres (=) (modify (\<lambda>w. w\<lparr>hub_log := h w\<rparr>))"
  by (simp_all add: pres_def modify_def)

lemma books_writes:
  "pres books_same (NotificationRepo_Create u c ti bo)" "pres books_same (SecurityEventRepo_Create se)"
  "pres books_same (DepositAddressRepo_Set u s)" "pres books_same (IndexerStateRepo_SetLastBlock n)"
  "pres books_same (IndexerEventRepo_Insert ev)" "pres books_same (IndexerEventRepo_MarkAttributed s n)"
  "pres books_same (ElevationRepo_Create el)" "pres books_same (ElevationRepo_ClaimForBroadcast s)"
  "pres books_same (ElevationRepo_MarkBroadcast s t)" "pres books_same (ElevationRepo_ReleaseClaim s)"
  "pres books_same (ElevationRepo_MarkExpired s t)" "pres books_same (ElevationRepo_CancelPending u s)"
  "pres books_same (VaultCloneRepo_Ensure cl)" "pres books_same (VaultCloneRepo_CacheRecovery u rec)"
  by (auto simp: repo_defs Let_def split: if_splits option.splits
      intro!: books.pres_rules books.pres_mapped books.pres_affecting books_stmtI)

lemmas fixed_reads = repos_read repos_read2 chain_fixed state_fixed

lemmas books_rules = books.pres_rules books_writes fixed_reads [THEN books.pres_fixed]

lemma books_side:
  "pres books_same (vault_publish v u k)" "pres books_same (recordSecurityEvent v ev)" "pres books_same (CloneAddress u)"
  "pres books_same (notify u c t b)"
  unfolding vault_publish_def recordSecurityEvent_def CloneAddress_def notify_def
  by (intro books_rules)+

lemma books_vault:
  "pres books_same (EnsureClone v u)" "pres books_same (validateWithdrawalRequest cfg u dst x)"
  "pres books_same (hasSufficientNGN u x)" "pres books_same (PrepareSignedWithdrawal v u dst x)"
  "pres books_same (requestElevation v u dst x fee rel key)"
  unfolding EnsureClone_def deploy_clone_def clone_owner_def validateWithdrawalRequest_def check_daily_cap_def
    hasSufficientNGN_def PrepareSignedWithdrawal_def withdraw_base_def requestElevation_def validateSignatureFresh_def
  by (intro books_rules books_side)+

lemma books_broadcast: "pres books_same (broadcastWithdrawal v u dst x rel)"
  unfolding broadcastWithdrawal_def broadcast_unsigned_def buildUserSignedRelay_def buildPlatformSignedRelay_def
    relay_withdrawal_def verify_owner_def digest_or_panic_def invalid_signature_def signed_nonce_def validateSignatureFresh_def
  by (intro books_rules books_side)+

lemma books_recovery:
  "pres books_same (PrepareRecovery v u a)" "pres books_same (SetRecoveryAddressBySig v u a sig)"
  "pres books_same (RecoveryStatus_of v u)" "pres books_same (CustodyStatus_of v u)"
  "pres books_same (PrepareCustodyClaim v u a)" "pres books_same (ClaimCustody v u a)"
  "pres books_same (reconcileRecoveryCache v)"
  unfolding PrepareRecovery_def SetRecoveryAddressBySig_def RecoveryStatus_of_def CustodyStatus_of_def
    PrepareCustodyClaim_def ClaimCustody_def reconcileRecoveryCache_def refreshCloneRecoveryCache_def read_recovery_def
    claimable_def clone_and_owner_def recoveryStatusFromCache_def custodyStatusFromCache_def verify_owner_def
    digest_or_panic_def invalid_signature_def signed_nonce_def validateSignatureFresh_def
  by (intro books_rules books_side)+

text \<open>The invariant of the ledger is kept and the log only grows.\<close>

definition ledger_step :: "db \<Rightarrow> db \<Rightarrow> bool" where
  "ledger_step d d' \<longleftrightarrow> (ledger_ok d \<longrightarrow> ledger_ok d' \<and> ledger_grows d d')"

interpretation step: db_preorder ledger_step
  by unfold_locales (use grows.refl grows.trans in \<open>auto simp: ledger_step_def\<close>)

lemma step_if_books: "books_same d d' \<Longrightarrow> ledger_step d d'"
  unfolding ledger_step_def ledger_ok_def books_same_def
  using projection_same keys_unique_same grows_if_same by (auto simp: accounts_unique_def)

lemmas step_books = pres_mono [OF _ step_if_books]

lemma step_Deposit: "pres ledger_step (Deposit cfg u c a key)"
proof -
  have "ledger_step (wdb w) (wdb w')" if run: "Deposit cfg u c a key w = (r, w')" for w w' :: "'z world_scheme" and r
    using run presD [OF uniq_ops(3) run] deposit.keeps_projection [of cfg "(u, c, a, key)" w r w']
      deposit.keeps_keys_unique [of cfg "(u, c, a, key)" w r w'] deposit.log_grows [of cfg "(u, c, a, key)" w r w']
    by (auto simp: ledger_step_def ledger_ok_def)
  then show ?thesis unfolding pres_def by (metis surjective_pairing)
qed

lemma step_External: "pres ledger_step (WithdrawExternal cfg req key)"
proof -
  have "ledger_step (wdb w) (wdb w')" if run: "WithdrawExternal cfg req key w = (r, w')" for w w' :: "'z world_scheme" and r
    using run presD [OF uniq_ops(5) run] external.keeps_projection [of cfg "(req, key)" w r w']
      external.keeps_keys_unique [of cfg "(req, key)" w r w'] external.log_grows [of cfg "(req, key)" w r w']
    by (auto simp: ledger_step_def ledger_ok_def)
  then show ?thesis unfolding pres_def by (metis surjective_pairing)
qed

lemmas step_rules = step.pres_rules step_Deposit step_External books_writes [THEN step_books] books_side [THEN step_books]
  fixed_reads [THEN step.pres_fixed]

lemma step_execute: "pres ledger_step (executeWithdrawal v u dst x fee rel key)"
  unfolding executeWithdrawal_def withdraw_precheck_def broadcast_and_debit_def debit_after_broadcast_def
    announce_withdrawal_def currentRateMinor_def withdraw_base_def
  by (intro step_rules books_vault [THEN step_books] books_broadcast [THEN step_books])

lemma step_withdraw: "pres ledger_step (vault_withdraw v u dst x rel key)"
  unfolding vault_withdraw_def
  by (intro step_rules step_execute books_vault [THEN step_books])

lemma step_release: "pres ledger_step (releaseElevation v e)"
  unfolding releaseElevation_def check_live_def
  by (intro step_rules step_execute)

lemma step_sweep: "pres ledger_step (sweepDueElevations v)"
  unfolding sweepDueElevations_def sweep_one_def finish_release_def
  by (intro step_rules step_release)

lemma step_sender: "pres ledger_step (senderUserID v s)"
  unfolding senderUserID_def by (intro step_rules)

lemma step_priced: "pres ledger_step (priced x s)" "pres ledger_step (deposit_once v u x key)"
  unfolding priced_def currentRateMinor_def deposit_once_def by (intro step_rules)+

lemma step_handleDeposit: "pres ledger_step (handleDeposit v t)"
  unfolding handleDeposit_def creditTransfer_def recordUnattributed_def
  by (intro step_rules step_sender step_priced)

lemma step_handleVaultDeposit: "pres ledger_step (handleVaultDeposit v dp cm)"
  unfolding handleVaultDeposit_def vault_deposit_user_def recordUnattributed_def
  by (intro step_rules step_sender step_priced)

lemma step_attribute: "pres ledger_step (AttributeDeposit v s n u)"
  unfolding AttributeDeposit_def claim_sender_def
  by (intro step_rules step_priced)

lemma step_panic: "pres ledger_step (case root e of ErrPanic x \<Rightarrow> fail e | _ \<Rightarrow> ret ())"
  by (cases "root e") (simp_all add: step.pres_rules)

lemma step_vaultDeposits: "pres ledger_step (processVaultDeposits v ds)"
  unfolding processVaultDeposits_def commitmentUserMap_def
  by (intro step_rules step_handleVaultDeposit step_panic)

lemma step_scan: "pres ledger_step (scan v)"
  unfolding scan_def set_baseline_def scan_window_def processTransfers_def commit_cursor_def refreshCloneUsers_def
  by (intro step_rules step_handleDeposit step_vaultDeposits)

lemma step_resume: "pres ledger_step resumeCursor"
  unfolding resumeCursor_def by (intro step_rules)

section \<open>The state of the service\<close>

lemma more_state:
  assumes "more_same w w'"
  shows "vcalls w' = vcalls w" "vchain w' = vchain w" "vrate w' = vrate w" "vlastBlock w' = vlastBlock w"
    "vcloneUser w' = vcloneUser w" "vaddressUser w' = vaddressUser w" "clock w' = clock w" "now_unix w' = now_unix w"
  using assms by (cases w; cases w'; auto simp: more_same_def now_unix_def)+

lemma chain_readE:
  assumes "chain_read m w = (r, w')"
  obtains c where "m (vchain w) = (r, c)" "w' = w\<lparr>vchain := c\<rparr>"
  using assms by (auto simp: chain_read_def split: prod.splits)

text \<open>No call that can change the chain is made.\<close>

definition silent :: "('c, 'z) vworld_scheme \<Rightarrow> ('c, 'z) vworld_scheme \<Rightarrow> bool" where
  "silent w w' \<longleftrightarrow> vcalls w' = vcalls w"

interpretation silent: go_preorder silent
  by unfold_locales (simp_all add: silent_def)

lemma silent_more: "keeps more_same m \<Longrightarrow> keeps silent m"
  by (erule keeps_mono) (simp add: silent_def more_state)

lemma silent_chain_read: "keeps silent (chain_read m)"
  by (auto simp: keeps_def silent_def chain_read_def split: prod.splits)

lemma more_vault:
  "keeps more_same (hasSufficientNGN u x)" "keeps more_same (validateWithdrawalRequest cfg u dst x)"
  "keeps more_same (requestElevation v u dst x fee rel key)" "keeps more_same (debit_after_broadcast v u dst x fee h key)"
  "keeps more_same (announce_withdrawal v u dst x b)" "keeps more_same (validateSignatureFresh sg)"
  unfolding hasSufficientNGN_def validateWithdrawalRequest_def check_daily_cap_def requestElevation_def
    validateSignatureFresh_def debit_after_broadcast_def announce_withdrawal_def
  by (intro more_rules more_reads more_writes more_side more_money)+

lemma silent_build: "keeps silent (buildUserSignedRelay v u dst x rel)"
  unfolding buildUserSignedRelay_def signed_nonce_def verify_owner_def digest_or_panic_def invalid_signature_def
  by (intro silent.keeps_rules silent_chain_read more_vault [THEN silent_more] more_side [THEN silent_more])

end
