(* ===== verification/VaultProps.thy ===== *)
theory VaultProps
  imports VaultLaws
begin

text \<open>
  The properties of the vault service, for every blockchain service, every pattern of database and chain
  failures and every order of operations: the ledger invariant, the gating of withdrawals by the owner's
  signature, the time lock and its life cycle, the idempotent credit of deposits, the cursor, and the
  arithmetic of amounts.
\<close>

section \<open>Sequences of operations\<close>

datatype vault_op =
    VScan | VResume | VSetRate int64 | VEnsureClone string | VAttribute string nat string
  | VWithdraw string string int64 "WithdrawSignature option" string | VPrepare string string int64
  | VCancel string string | VSweep
  | VPrepareRecovery string string | VSetRecovery string string WithdrawSignature
  | VRecoveryStatus string | VCustodyStatus string | VPrepareCustody string string | VClaim string string | VReconcile

definition finished :: "('w, 'a) go \<Rightarrow> ('w, unit) go" where
  "finished m = bnd m (\<lambda>_. ret ())"

fun run_vault :: "'c vault \<Rightarrow> vault_op \<Rightarrow> (('c, 'z) vworld_scheme, unit) go" where
  "run_vault v VScan = scan v"
| "run_vault v VResume = resumeCursor"
| "run_vault v (VSetRate x) = SetRateMinor x"
| "run_vault v (VEnsureClone u) = finished (EnsureClone v u)"
| "run_vault v (VAttribute h n u) = finished (AttributeDeposit v h n u)"
| "run_vault v (VWithdraw u dst x rel key) = finished (vault_withdraw v u dst x rel key)"
| "run_vault v (VPrepare u dst x) = finished (PrepareSignedWithdrawal v u dst x)"
| "run_vault v (VCancel u eid) = CancelElevation u eid"
| "run_vault v VSweep = sweepDueElevations v"
| "run_vault v (VPrepareRecovery u a) = finished (PrepareRecovery v u a)"
| "run_vault v (VSetRecovery u a sg) = finished (SetRecoveryAddressBySig v u a sg)"
| "run_vault v (VRecoveryStatus u) = finished (RecoveryStatus_of v u)"
| "run_vault v (VCustodyStatus u) = finished (CustodyStatus_of v u)"
| "run_vault v (VPrepareCustody u a) = finished (PrepareCustodyClaim v u a)"
| "run_vault v (VClaim u a) = finished (ClaimCustody v u a)"
| "run_vault v VReconcile = reconcileRecoveryCache v"

lemma step_finished: "pres ledger_step m \<Longrightarrow> pres ledger_step (finished m)"
  unfolding finished_def by (intro step_rules)

lemma step_run: "pres ledger_step (run_vault v op)"
  by (cases op)
    (simp_all add: step_scan step_resume SetRateMinor_def step.pres_rules state_fixed [THEN step.pres_fixed]
      step_finished books_vault [THEN step_books] step_attribute step_withdraw CancelElevation_def
      books_writes [THEN step_books] step_sweep books_recovery [THEN step_books])

text \<open>Databases reachable by vault operations and money operations run in any world (any faults, clock, chain
  state, cached state), in any order.\<close>

inductive vault_reachable :: "'c vault \<Rightarrow> db \<Rightarrow> db \<Rightarrow> bool" for v :: "'c vault" and d0 :: db where
  start: "vault_reachable v d0 d0"
| vault_step: "vault_reachable v d0 (wdb w) \<Longrightarrow> run_vault v op (w :: 'c vworld) = (r, w') \<Longrightarrow> vault_reachable v d0 (wdb w')"
| money_step: "vault_reachable v d0 d \<Longrightarrow> reachable d d' \<Longrightarrow> vault_reachable v d0 d'"

text \<open>C8. The vault never corrupts the books: in every state reached by any interleaving of scans, attributions,
  withdrawals, sweeps, clone, custody and recovery operations with money operations, for every blockchain
  service and with any statement, transaction or chain call failing at any point, every balance equals the
  sum of its ledger entries, idempotency keys are unique and the log has only grown.\<close>

theorem vault_ledger_invariant:
  assumes "vault_reachable v d0 d" and "ledger_ok d0"
  shows "(\<forall>aid. balance_of d aid = wrap64 (ledger_sum d aid)) \<and> keys_unique d \<and> ledger_grows d0 d"
proof -
  from assms(1) have "ledger_ok d \<and> ledger_grows d0 d"
  proof (induction rule: vault_reachable.induct)
    case start
    then show ?case using assms(2) by (simp add: grows.refl)
  next
    case (vault_step w op r w')
    then show ?case
      using presD [OF step_run vault_step(2)] grows.trans by (auto simp: ledger_step_def)
  next
    case (money_step d d')
    then show ?case using reachable_ok grows.trans by blast
  qed
  then show ?thesis by (simp add: ledger_ok_def projection_ok_def)
qed

section \<open>A concrete vault\<close>

definition sample_cfg :: VaultConfig where
  "sample_cfg = \<lparr>cfg_VaultAddress = ''0xvault'', cfg_VaultContract = [], cfg_StablecoinSymbol = ''USDC'',
     cfg_StablecoinDecimals = 6, cfg_Mode = ''real'', cfg_ChainID = 1, cfg_PollInterval = 8, cfg_StartBlock = 5,
     cfg_FallbackUserID = [], cfg_MinConfirmations = 2, cfg_WithdrawEnabled = True, cfg_WithdrawMinMinor = 0,
     cfg_WithdrawMaxMinor = 0, cfg_WithdrawDailyCapMinor = 0, cfg_WithdrawElevationThresholdMinor = 50000,
     cfg_WithdrawElevationDelay = 3600000000000, cfg_WithdrawFeeBPS = 0, cfg_WithdrawFeeMinMinor = 0,
     cfg_WithdrawFeeCapMinor = 0, cfg_PrivacyMode = False, cfg_RequireUserSignature = True\<rparr>"

definition sample_vault :: "mock_chain vault" where
  "sample_vault = \<lparr>v_eth = toy_eth, v_chain = mock_service toy_eth, v_money = quiet, v_cfg = sample_cfg, v_hub = False\<rparr>"

definition sample_clone :: clone_row where
  "sample_clone = \<lparr>vc_UserID = ''u1'', vc_CloneAddress = ''0xclone'', vc_FactoryAddress = [], vc_DeployTxHash = [],
     vc_ChainID = 1, vc_CreatedAt = 0, clone_recovery = no_recovery\<rparr>"

definition sample_tt :: TokenTransfer where
  "sample_tt = \<lparr>tt_From = ''0xsender'', tt_To = ''0xclone'', tt_Value = Some 2000000, tt_TxHash = ''0xh'',
     tt_LogIndex = 0, tt_BlockNumber = 7\<rparr>"

definition sample_vdb :: db where
  "sample_vdb = sample_db\<lparr>user_vault_clones := [sample_clone]\<rparr>"

definition sample_vworld :: "db \<Rightarrow> mock_chain \<Rightarrow> mock_chain vworld" where
  "sample_vworld d c = world.extend (sample_world d [])
     \<lparr>vchain = c, vrate = 150000, vlastBlock = 5, vaddressUser = Map.empty, vcloneUser = [''0xclone'' \<mapsto> ''u1''], vcalls = []\<rparr>"

definition sample_mock :: mock_chain where
  "sample_mock = (AddTransfer sample_tt (SetLatest 10 (NewMockBlockchainService (\<lambda>n. n))))
     \<lparr>mk_cloneOwners := [''0xclone'' \<mapsto> ''0xowner'']\<rparr>"

lemmas veval_defs = sample_cfg_def sample_vault_def sample_clone_def sample_tt_def sample_vdb_def sample_vworld_def
  sample_mock_def AddTransfer_def SetLatest_def NewMockBlockchainService_def world.defs
  EqualFold_def ToLower_def to_lower_def gets_def modify_def at_def zero_address_def priced_def currentRateMinor_def
  deposit_once_def depositNGNMinor_def big_Div_def ignore_def IndexerEventRepo_Insert_def transfer_event_def same_log_def
  recordSecurityEvent_def deposit_security_event_def SecurityEventRepo_Create_def vault_publish_def
  Deposit_def Credit_def move_def move_body_def move_total_def or_replay_def deposit_request_def notify_def
  NotificationRepo_Create_def TransactionTypeDeposit_def

lemma sample_vok: "ledger_ok sample_vdb"
  using sample_ok by (auto simp: sample_vdb_def ledger_ok_def projection_ok_def keys_unique_def accounts_unique_def
      balance_of_def ledger_sum_def)

lemma sample_deposit:
  obtains w' where "handleDeposit sample_vault sample_tt (sample_vworld sample_vdb sample_mock) = (Inr (), w')"
    "ledger_sum (wdb w') ''a1'' = 400000"
proof -
  have "case handleDeposit sample_vault sample_tt (sample_vworld sample_vdb sample_mock) of
      (Inr _, w') \<Rightarrow> ledger_sum (wdb w') ''a1'' = 400000 | _ \<Rightarrow> False"
    by (simp add: eval_defs veval_defs handleDeposit_def creditTransfer_def)
  then show ?thesis using that by (auto split: prod.splits sum.splits)
qed

section \<open>Deposits\<close>

text \<open>Exactly one new transaction, under a key not used before, credits \<open>x\<close> kobo to the user's available naira
  account, a row of the accounts table; no other balance changes.\<close>

definition credited :: "string \<Rightarrow> int64 \<Rightarrow> string \<Rightarrow> db \<Rightarrow> db \<Rightarrow> bool" where
  "credited u x key d d' \<longleftrightarrow>
     (\<exists>acc t. owns d' u AccountKindAvailable ''NGN'' acc
        \<and> transactions d' = transactions d @ [t] \<and> txn_IdempotencyKey t = key
        \<and> (\<forall>r\<in>set (transactions d). txn_IdempotencyKey r \<noteq> key)
        \<and> (\<forall>aid. ledger_sum d' aid = ledger_sum d aid + (if aid = acc_ID acc then x else 0)))"

lemma credited_same:
  assumes "credited u x key d1 d2" and "ledger_same d d1" and "ledger_same d2 d'"
  shows "credited u x key d d'"
proof -
  from assms(1) obtain acc t where "owns d2 u AccountKindAvailable ''NGN'' acc" "transactions d2 = transactions d1 @ [t]"
      "txn_IdempotencyKey t = key" "\<forall>r\<in>set (transactions d1). txn_IdempotencyKey r \<noteq> key"
      "\<forall>aid. ledger_sum d2 aid = ledger_sum d1 aid + (if aid = acc_ID acc then x else 0)"
    unfolding credited_def by blast
  moreover from this have "owns d' u AccountKindAvailable ''NGN'' acc"
    using same_accounts [OF assms(3)] by (auto simp: owns_def)
  moreover have "transactions d1 = transactions d" "transactions d' = transactions d2"
    using assms(2,3) by (simp_all add: ledger_same_def tables_same_def)
  ultimately show ?thesis
    unfolding credited_def ledger_sum_same [OF assms(2)] ledger_sum_same [OF assms(3)]
    by (intro exI [of _ acc] exI [of _ t]) simp
qed

lemma moved_credited:
  assumes "moved (deposit_request u ''NGN'' x key) MovementCredit d t d'" and "key \<noteq> []"
  shows "credited u x key d d'"
proof -
  from assms(1) obtain acc where "owns d' u AccountKindAvailable ''NGN'' acc"
    and "\<And>aid. ledger_sum d' aid = ledger_sum d aid + (if aid = acc_ID acc then x else 0)"
    by (rule moved_ledger) (auto simp: deposit_request_def move_total_def owns_def)
  then show ?thesis
    using moved_logged [OF assms(1)] assms(2) unfolding credited_def logged_def deposit_request_def
    by (intro exI [of _ acc] exI [of _ t]) auto
qed

lemma deposit_once_cases:
  assumes "deposit_once v u x key w = (r, w')" and "key \<noteq> []"
  shows "ledger_same (wdb w) (wdb w') \<or> credited u x key (wdb w) (wdb w')"
proof -
  obtain res w1 where run: "Deposit (v_money v) u ''NGN'' x key w = (res, w1)"
    by (cases "Deposit (v_money v) u ''NGN'' x key w")
  have w': "w' = w1" using assms(1) run
    by (auto simp: deposit_once_def bnd_def attempt_eq ret_def fail_def split: sum.splits if_splits)
  have op: "(\<lambda>(u, c, a, key). Deposit (v_money v) u c a key) (u, ''NGN'', x, key) w = (res, w1)" using run by simp
  show ?thesis
  proof (rule deposit.outcome_cases [OF op])
    assume "ledger_same (wdb w) (wdb w1)"
    then show ?thesis by (simp add: w')
  next
    fix t d1 d2
    assume "ledger_same (wdb w) d1" "ledger_same d2 (wdb w1)"
      and "(case (u, ''NGN'', x, key) of (u, c, a, key) \<Rightarrow> moved (deposit_request u (or_NGN c) a key) MovementCredit) d1 t d2"
    then show ?thesis
      using credited_same [OF moved_credited] assms(2) by (fastforce simp: w' or_NGN_def)
  qed simp
qed

lemma books_ledger: "books_same d d' \<Longrightarrow> ledger_same d d'"
  by (simp add: books_same_def)

lemma priced_cases:
  assumes "priced value msg w = (r, w')"
  shows "w' = w \<and> (\<forall>x. r = Inr x \<longrightarrow> 0 < vrate w \<and> x = depositNGNMinor value (vrate w) \<and> 0 < x)"
  using assms by (auto simp: priced_def currentRateMinor_def go_simps bnd_def reject_def Let_def split: if_splits)

lemma creditTransfer_cases:
  assumes "creditTransfer v u t value key w = (r, w')" and "key \<noteq> []"
  shows "ledger_same (wdb w) (wdb w')
     \<or> 0 < vrate w \<and> 0 < depositNGNMinor value (vrate w) \<and> credited u (depositNGNMinor value (vrate w)) key (wdb w) (wdb w')"
proof -
  let ?ins = "ignore (IndexerEventRepo_Insert (transfer_event t value IndexerEventDeposited))"
  obtain w1 where ins: "?ins w = (Inr (), w1)" by (simp add: ignore_eq)
  have b1: "ledger_same (wdb w) (wdb w1)"
    using presD [OF books.pres_ignore [OF books_writes(5)] ins] by (rule books_ledger)
  have m1: "vrate w1 = vrate w" using keepsD [OF more.keeps_ignore [OF more_writes(9)] ins] by (rule more_state)
  from assms(1) ins obtain p w2 where pr: "priced value ''vault indexer: no market rate; leaving deposit uncredited'' w1 = (p, w2)"
    and rest: "case p of Inl e \<Rightarrow> w' = w2 | Inr x \<Rightarrow> bnd (deposit_once v u x key) (\<lambda>r. case r of
       None \<Rightarrow> ret () | Some _ \<Rightarrow> recordSecurityEvent v (deposit_security_event v u t value x)) w2 = (r, w')"
    unfolding creditTransfer_def by (auto simp: bnd_def split: prod.splits sum.splits)
  note pc = priced_cases [OF pr]
  show ?thesis
  proof (cases p)
    case (Inl e)
    then show ?thesis using rest pc b1 by simp
  next
    case (Inr x)
    with rest have "bnd (deposit_once v u x key) (\<lambda>r. case r of
       None \<Rightarrow> ret () | Some _ \<Rightarrow> recordSecurityEvent v (deposit_security_event v u t value x)) w2 = (r, w')"
      by simp
    then obtain q w3 where dep: "deposit_once v u x key w2 = (q, w3)" and tl: "ledger_same (wdb w3) (wdb w')"
      by (rule bnd_cases) (auto simp: ret_def same.refl split: option.splits dest: presD [OF books_side(2)] books_ledger)
    show ?thesis
      using deposit_once_cases [OF dep assms(2)] credited_same [OF _ b1 tl] same.trans b1 tl pc Inr m1 by metis
  qed
qed

text \<open>The user a transfer belongs to: the owner of the clone it was sent to, or the user the sender is linked to (or
  the configured fallback) when it was sent to the shared vault address.\<close>

definition routed :: "'c vault \<Rightarrow> ('c, 'z) vworld_scheme \<Rightarrow> TokenTransfer \<Rightarrow> string \<Rightarrow> string \<Rightarrow> bool" where
  "routed v w t u key \<longleftrightarrow>
     vcloneUser w (ToLower (tt_To t)) = Some u \<and> u \<noteq> [] \<and> key = ''vault-clone-deposit-'' @ tt_TxHash t
     \<or> EqualFold (tt_To t) (cfg_VaultAddress (v_cfg v)) \<and> u \<noteq> [] \<and> key = ''vault-deposit-'' @ tt_TxHash t
       \<and> (vaddressUser w (tt_From t) = Some u
          \<or> (\<exists>a\<in>set (deposit_addresses (wdb w)). da_Address a = tt_From t \<and> da_UserID a = u)
          \<or> u = cfg_FallbackUserID (v_cfg v))"

lemma OwnerOf_ok:
  assumes "DepositAddressRepo_OwnerOf s w = (Inr u, w')"
  shows "u = [] \<or> (\<exists>a\<in>set (deposit_addresses (wdb w)). da_Address a = s \<and> da_UserID a = u)"
  using assms unfolding DepositAddressRepo_OwnerOf_def
  by (auto elim!: go_elims split: sum.splits if_splits dest!: first_row_okD)

lemma senderUserID_cases:
  assumes "senderUserID v s w = (r, w')"
  shows "wdb w' = wdb w \<and> vrate w' = vrate w \<and> (\<forall>u. r = Inr u \<longrightarrow> u = [] \<or> vaddressUser w s = Some u
     \<or> (\<exists>a\<in>set (deposit_addresses (wdb w)). da_Address a = s \<and> da_UserID a = u) \<or> u = cfg_FallbackUserID (v_cfg v))"
proof (cases "vaddressUser w s")
  case (Some u)
  then show ?thesis using assms by (auto simp: senderUserID_def go_simps bnd_def)
next
  case None
  obtain q w1 where own: "DepositAddressRepo_OwnerOf s w = (q, w1)" by (cases "DepositAddressRepo_OwnerOf s w")
  have f: "wdb w1 = wdb w" "vrate w1 = vrate w"
    using presD [OF repos_read(22) own] more_state [OF keepsD [OF more_reads(7) own]] by auto
  show ?thesis
    using assms None f own OwnerOf_ok [of s w _ w1]
    by (auto simp: senderUserID_def go_simps bnd_def Let_def split: sum.splits if_splits)
qed

definition deposit_effect :: "'c vault \<Rightarrow> TokenTransfer \<Rightarrow> int \<Rightarrow> ('c, 'z) vworld_scheme \<Rightarrow> db \<Rightarrow> bool" where
  "deposit_effect v t val w d' \<longleftrightarrow> (\<exists>u key. routed v w t u key \<and> 0 < vrate w \<and> 0 < depositNGNMinor val (vrate w)
     \<and> credited u (depositNGNMinor val (vrate w)) key (wdb w) d' \<and> (\<forall>tr. \<not> replayed key (wdb w) tr))"

lemma credit_effect:
  assumes "creditTransfer v u t val key w1 = (r, w')" and "key \<noteq> []" and "wdb w1 = wdb w" and "vrate w1 = vrate w"
    and "routed v w t u key"
  shows "ledger_same (wdb w) (wdb w') \<or> deposit_effect v t val w (wdb w')"
proof -
  have fresh: "\<forall>tr. \<not> replayed key (wdb w) tr" if "credited u x key (wdb w) d'" for x d'
    using that by (auto simp: credited_def replayed_def)
  from creditTransfer_cases [OF assms(1,2)] show ?thesis
    unfolding assms(3,4) deposit_effect_def using fresh assms(5) by blast
qed

lemma vault_route_effect:
  assumes "bnd (on_err (Wrap ''sender lookup failed'') (senderUserID v (tt_From t))) (\<lambda>userID.
      if userID = [] then recordUnattributed (transfer_event t val IndexerEventUnattributed)
      else creditTransfer v userID t val (''vault-deposit-'' @ tt_TxHash t)) w = (r, w')"
    and vault: "EqualFold (tt_To t) (cfg_VaultAddress (v_cfg v))"
  shows "ledger_same (wdb w) (wdb w') \<or> deposit_effect v t val w (wdb w')"
proof -
  from assms(1) obtain q w1 where sd: "senderUserID v (tt_From t) w = (q, w1)" and k: "case q of Inl e \<Rightarrow> w' = w1 | Inr u \<Rightarrow>
     (if u = [] then recordUnattributed (transfer_event t val IndexerEventUnattributed)
      else creditTransfer v u t val (''vault-deposit-'' @ tt_TxHash t)) w1 = (r, w')"
    by (auto simp: bnd_def on_err_def split: prod.splits sum.splits)
  note sc = senderUserID_cases [OF sd]
  show ?thesis
  proof (cases q)
    case (Inl e)
    then show ?thesis using k sc by (simp add: same.refl)
  next
    case (Inr u)
    show ?thesis
    proof (cases "u = []")
      case True
      then have "recordUnattributed (transfer_event t val IndexerEventUnattributed) w1 = (r, w')" using k Inr by simp
      then show ?thesis
        using presD [OF books.pres_ignore [OF books_writes(5)]] sc books_ledger unfolding recordUnattributed_def by metis
    next
      case False
      then have c: "creditTransfer v u t val (''vault-deposit-'' @ tt_TxHash t) w1 = (r, w')" using k Inr by simp
      have "routed v w t u (''vault-deposit-'' @ tt_TxHash t)" using sc False vault Inr by (auto simp: routed_def)
      then show ?thesis by (rule credit_effect [OF c, rotated 3]) (use sc in simp_all)
    qed
  qed
qed

text \<open>C28. Who is credited, how much and how often: handling a confirmed transfer either leaves the ledger as it
  was, or credits exactly \<open>value * rate / 10^6\<close> kobo, a positive amount at a positive rate, to the available naira
  account of the user the transfer is routed to, a row of the accounts table that belongs to this user, by one new transaction whose key is derived from the
  transaction hash and was not used before. A transfer whose key is already recorded, as in the rescan
  after a crash, therefore never credits again.\<close>

theorem deposit_routed_once:
  assumes "handleDeposit v t w = (r, w')"
  shows "ledger_same (wdb w) (wdb w')
     \<or> (\<exists>val. tt_Value t = Some val \<and> 0 < val \<and> deposit_effect v t val w (wdb w'))"
proof (cases "tt_Value t")
  case None
  then show ?thesis using assms by (simp add: handleDeposit_def ret_def same.refl)
next
  case (Some val)
  show ?thesis
  proof (cases "val \<le> 0 \<or> EqualFold (tt_From t) zero_address")
    case True
    then show ?thesis using assms Some by (auto simp: handleDeposit_def ret_def same.refl split: if_splits)
  next
    case pos: False
    let ?cu = "at (vcloneUser w) [] (ToLower (tt_To t))"
    have run: "(if ?cu \<noteq> [] then creditTransfer v ?cu t val (''vault-clone-deposit-'' @ tt_TxHash t)
            else if \<not> EqualFold (tt_To t) (cfg_VaultAddress (v_cfg v)) then ret ()
            else
              bnd (on_err (Wrap ''sender lookup failed'') (senderUserID v (tt_From t))) (\<lambda>userID.
              if userID = [] then recordUnattributed (transfer_event t val IndexerEventUnattributed)
              else creditTransfer v userID t val (''vault-deposit-'' @ tt_TxHash t))) w = (r, w')"
      using assms Some pos by (simp add: handleDeposit_def bnd_def gets_def)
    have "ledger_same (wdb w) (wdb w') \<or> deposit_effect v t val w (wdb w')"
    proof (cases "?cu = []")
      case False
      then have "vcloneUser w (ToLower (tt_To t)) = Some ?cu" by (auto simp: at_def split: option.splits)
      then have "routed v w t ?cu (''vault-clone-deposit-'' @ tt_TxHash t)" using False by (simp add: routed_def)
      moreover have "creditTransfer v ?cu t val (''vault-clone-deposit-'' @ tt_TxHash t) w = (r, w')" using run False by simp
      ultimately show ?thesis by (intro credit_effect [where w = w]) simp_all
    next
      case True
      show ?thesis
      proof (cases "EqualFold (tt_To t) (cfg_VaultAddress (v_cfg v))")
        case vault: True
        show ?thesis by (rule vault_route_effect [OF _ vault]) (use run True vault in simp)
      qed (use run True in \<open>simp add: ret_def same.refl\<close>)
    qed
    then show ?thesis using Some pos by auto
  qed
qed

theorem deposit_routed_once_witness:
  "\<exists>w'. handleDeposit sample_vault sample_tt (sample_vworld sample_vdb sample_mock) = (Inr (), w')
     \<and> ledger_sum (wdb w') ''a1'' = 400000 \<and> deposit_effect sample_vault sample_tt 2000000 (sample_vworld sample_vdb sample_mock) (wdb w')"
proof -
  obtain w' where run: "handleDeposit sample_vault sample_tt (sample_vworld sample_vdb sample_mock) = (Inr (), w')"
    and sum: "ledger_sum (wdb w') ''a1'' = 400000" by (rule sample_deposit)
  have "ledger_sum sample_vdb ''a1'' = 100000"
    by (simp add: sample_vdb_def sample_db_def empty_db_def ledger_sum_def signed_amount_def)
  then have "\<not> ledger_same sample_vdb (wdb w')" using sum ledger_sum_same by fastforce
  moreover have "wdb (sample_vworld sample_vdb sample_mock) = sample_vdb"
    by (simp add: sample_vworld_def world.defs sample_world_def)
  ultimately show ?thesis
    using deposit_routed_once [OF run] run sum by (auto simp: sample_tt_def)
qed

section \<open>Who can move funds out of a clone\<close>

text \<open>A relay of the user's own intent: it leaves the user's clone for the requested destination, carries an unexpired
  deadline, and its signature over exactly this relay recovers to the address the chain names as the
  owner of the clone.\<close>

definition authorised :: "'c vault \<Rightarrow> ('c, 'z) vworld_scheme \<Rightarrow> string \<Rightarrow> string \<Rightarrow> WithdrawSignature \<Rightarrow> WithdrawRelay \<Rightarrow> bool" where
  "authorised v w u dst s relay \<longleftrightarrow>
     (\<exists>row\<in>set (user_vault_clones (wdb w)). vc_UserID row = u \<and> rel_Clone relay = vc_CloneAddress row)
     \<and> rel_To relay = dst \<and> rel_Deadline relay = ws_Deadline s \<and> 0 < ws_Deadline s \<and> now_unix w \<le> ws_Deadline s
     \<and> (\<exists>owner c dig raw signer. ch_CloneOwner (v_chain v) (rel_Clone relay) (vchain w) = (Inr owner, c) \<and> owner \<noteq> []
          \<and> WithdrawDigest (v_eth v) (cfg_ChainID (v_cfg v)) (HexToAddress (v_eth v) (rel_Clone relay))
               \<lparr>wr_To = HexToAddress (v_eth v) dst, wr_Amount = rel_Amount relay, wr_Nonce = rel_Nonce relay,
                wr_Deadline = rel_Deadline relay\<rparr> = Some dig
          \<and> DecodeSignature (v_eth v) (ws_Signature s) = Inr raw \<and> RecoverSigner (v_eth v) dig raw = Inr signer
          \<and> EqualFold (addr_Hex (v_eth v) signer) owner
          \<and> ParseSignature (v_eth v) (ws_Signature s) = Inr (sig_V (rel_Sig relay), sig_R (rel_Sig relay), sig_S (rel_Sig relay)))"

lemma find_SomeD: "List.find P xs = Some x \<Longrightarrow> x \<in> set xs \<and> P x"
  by (auto simp: find_Some_iff)

lemma CloneAddress_ok:
  assumes "CloneAddress u w = (Inr a, w')" and "a \<noteq> []"
  shows "\<exists>row\<in>set (user_vault_clones (wdb w)). vc_UserID row = u \<and> a = vc_CloneAddress row"
  using assms unfolding CloneAddress_def VaultCloneRepo_ByUser_def
  by (auto elim!: go_elims split: option.splits dest!: find_SomeD)

lemma verify_owner_ok:
  assumes "verify_owner E dig sg owner w = (Inr parts, w')"
  shows "\<exists>h raw signer. dig = Some h \<and> DecodeSignature E sg = Inr raw \<and> RecoverSigner E h raw = Inr signer
    \<and> EqualFold (addr_Hex E signer) owner \<and> ParseSignature E sg = Inr (sig_V parts, sig_R parts, sig_S parts) \<and> w' = w"
  using assms unfolding verify_owner_def
  by (auto elim!: go_elims simp: digest_or_panic_def invalid_signature_def split: option.splits sum.splits prod.splits)

lemma validateSignatureFresh_ok:
  "validateSignatureFresh s w = (Inr x, w') \<Longrightarrow> 0 < ws_Deadline s \<and> now_unix w \<le> ws_Deadline s \<and> w' = w"
  unfolding validateSignatureFresh_def by (auto elim!: go_elims)

lemma build_authorised:
  assumes "buildUserSignedRelay v u dst x s w = (Inr relay, w')"
  shows "authorised v w u dst s relay \<and> vcalls w' = vcalls w"
proof -
  from assms obtain w1 w2 w3 w4 w5 clone owner nonce parts where
    fresh: "validateSignatureFresh s w = (Inr (), w1)"
    and clone: "CloneAddress u w1 = (Inr clone, w2)" "clone \<noteq> []"
    and own: "chain_read (ch_CloneOwner (v_chain v) clone) w2 = (Inr owner, w3)" "owner \<noteq> []"
    and non: "signed_nonce v clone (ws_RelayNonce s) w3 = (Inr nonce, w4)"
    and ver: "verify_owner (v_eth v)
            (WithdrawDigest (v_eth v) (cfg_ChainID (v_cfg v)) (HexToAddress (v_eth v) clone)
               \<lparr>wr_To = HexToAddress (v_eth v) dst, wr_Amount = (if ws_RelayAmountBase s > 0 then ws_RelayAmountBase s else x),
                wr_Nonce = nonce, wr_Deadline = ws_Deadline s\<rparr>) (ws_Signature s) owner w4 = (Inr parts, w5)"
    and relay: "relay = \<lparr>rel_Clone = clone, rel_To = dst,
       rel_Amount = (if ws_RelayAmountBase s > 0 then ws_RelayAmountBase s else x), rel_Nonce = nonce,
       rel_Deadline = ws_Deadline s, rel_Sig = parts\<rparr>"
    unfolding buildUserSignedRelay_def Let_def by (elim bnd_okE reject_okE ret_okE) (auto intro: that)
  have w1: "w1 = w" "0 < ws_Deadline s" "now_unix w \<le> ws_Deadline s" using validateSignatureFresh_ok [OF fresh] by auto
  have "vchain w2 = vchain w" using more_state(2) [OF keepsD [OF more_side(10) clone(1)]] w1 by simp
  then obtain c where c: "ch_CloneOwner (v_chain v) clone (vchain w) = (Inr owner, c)"
    using own by (auto elim: chain_readE)
  show ?thesis
    using verify_owner_ok [OF ver] CloneAddress_ok [OF clone] c own(2) w1 keepsD [OF silent_build assms]
    unfolding authorised_def relay by (auto simp: silent_def)
qed

lemma CloneAddress_frame: "CloneAddress u w = (r, w') \<Longrightarrow> vcalls w' = vcalls w \<and> vchain w' = vchain w"
  using more_state [OF keepsD [OF more_side(10)]] by blast

lemma relay_calls: "relay_withdrawal v relay w = (r, w') \<Longrightarrow> vcalls w' = vcalls w @ [CallWithdraw relay]"
  by (auto simp: relay_withdrawal_def chain_do_def bnd_def modify_def chain_read_def split: prod.splits)

lemma unsigned_gated:
  assumes "broadcast_unsigned v u dst x w = (r, w')" and "cfg_RequireUserSignature (v_cfg v)"
  shows "vcalls w' = vcalls w"
  using assms CloneAddress_frame [of u w]
  by (auto simp: broadcast_unsigned_def bnd_reject elim!: bnd_cases split: if_splits)

lemma broadcast_gated:
  assumes "broadcastWithdrawal v u dst x rel w = (r, w')" and "cfg_RequireUserSignature (v_cfg v)"
  shows "vcalls w' = vcalls w
     \<or> (\<exists>s relay. rel = Some s \<and> vcalls w' = vcalls w @ [CallWithdraw relay] \<and> authorised v w u dst s relay)"
proof (cases "\<exists>s. rel = Some s \<and> HasSignature rel")
  case True
  then obtain s where s: "rel = Some s" "HasSignature rel" by blast
  with assms(1) have "bnd (buildUserSignedRelay v u dst x s) (relay_withdrawal v) w = (r, w')"
    by (simp add: broadcastWithdrawal_def)
  then show ?thesis
  proof (cases rule: bnd_cases)
    case (stop e)
    then show ?thesis using keepsD [OF silent_build] by (auto simp: silent_def)
  next
    case (go relay w1)
    then show ?thesis using build_authorised [OF go(1)] relay_calls [OF go(2)] s by auto
  qed
next
  case False
  then have "broadcastWithdrawal v u dst x rel = broadcast_unsigned v u dst x"
    by (auto simp: broadcastWithdrawal_def split: option.splits)
  then show ?thesis using assms unsigned_gated by metis
qed

text \<open>What precedes the broadcast of a withdrawal changes neither the database nor the service, and what follows it
  makes no chain call.\<close>

lemma precheck_frame: "keeps more_same (withdraw_precheck u x fee)" "pres (=) (withdraw_precheck u x fee)"
  unfolding withdraw_precheck_def hasSufficientNGN_def currentRateMinor_def withdraw_base_def
  by (intro more_rules more_reads) (intro fixed.pres_rules repos_read)

lemma precheck_ok:
  assumes "withdraw_precheck u x fee w = (Inr base, w')"
  shows "withdrawUSDCBase x (vrate w) = Some base \<and> 0 < base"
proof -
  from assms obtain w1 b where "hasSufficientNGN u (wrap64 (x + fee)) w = (Inr b, w1)"
    and "withdrawUSDCBase x (vrate w1) = Some base" "0 < base"
    unfolding withdraw_precheck_def currentRateMinor_def withdraw_base_def
    by (auto elim!: go_elims split: option.splits)
  then show ?thesis using more_state(3) [OF keepsD [OF more_vault(1)]] by metis
qed

lemma find_existing:
  assumes "(if key \<noteq> [] then attempt (LedgerRepo_FindTransactionByIDempotencyKey key) else ret (Inl ErrNotFound)) w = (r, w')"
  shows "more_same w w' \<and> wdb w' = wdb w \<and> (\<exists>ex. r = Inr ex) \<and> (\<forall>t. r = Inr (Inr t) \<longrightarrow> replayed key (wdb w) t)"
proof -
  let ?find = "if key \<noteq> [] then attempt (LedgerRepo_FindTransactionByIDempotencyKey key) else ret (Inl ErrNotFound)"
  have k: "keeps more_same ?find" and p: "pres (=) ?find"
    by (intro more_rules more_reads) (intro fixed.pres_rules repos_read)
  have "more_same w w'" "wdb w' = wdb w" using keepsD [OF k assms] presD [OF p assms] by simp_all
  moreover have "replayed key (wdb w) t" if "r = Inr (Inr t)" for t
    using assms that unfolding LedgerRepo_FindTransactionByIDempotencyKey_def replayed_def
    by (auto elim!: go_elims dest!: first_row_okD split: if_splits)
  ultimately show ?thesis using assms by (auto simp: attempt_eq ret_def split: if_splits)
qed

lemma execute_cases:
  assumes "executeWithdrawal v u dst x fee rel key w = (r, w')"
  obtains (quiet) "more_same w w'" "wdb w' = wdb w" "\<forall>t. r = Inr t \<longrightarrow> replayed key (wdb w) t"
  | (broadcast) w1 base where "more_same w w1" "wdb w1 = wdb w" "withdrawUSDCBase x (vrate w) = Some base" "0 < base"
      "broadcast_and_debit v u dst x fee rel key base w1 = (r, w')"
proof -
  from assms show ?thesis unfolding executeWithdrawal_def
  proof (cases rule: bnd_cases)
    case (stop e)
    then show ?thesis using find_existing by fastforce
  next
    case (go ex w0)
    note w0 = find_existing [OF go(1)]
    show ?thesis
    proof (cases ex)
      case (Inr t)
      then show ?thesis using go w0 quiet by (simp add: ret_def)
    next
      case (Inl e)
      with go(2) have "bnd (withdraw_precheck u x fee) (broadcast_and_debit v u dst x fee rel key) w0 = (r, w')" by simp
      then show ?thesis
      proof (cases rule: bnd_cases)
        case (stop e)
        then show ?thesis
          using quiet w0 keepsD [OF precheck_frame(1)] presD [OF precheck_frame(2)] more.trans by (metis sum.distinct(1))
      next
        case (go base w1)
        then show ?thesis
          using broadcast [of w1 base] w0 keepsD [OF precheck_frame(1) go(1)] presD [OF precheck_frame(2) go(1)]
            precheck_ok [OF go(1)] more.trans [of w w0 w1] more_state(3) [of w w0] by auto
      qed
    qed
  qed
qed

lemma after_broadcast:
  assumes "broadcast_and_debit v u dst x fee rel key base w = (r, w')"
  obtains q w1 where "broadcastWithdrawal v u dst base rel w = (q, w1)" "more_same w1 w'" "\<And>e. q = Inl e \<Longrightarrow> w' = w1 \<and> r = Inl e"
proof -
  have tl: "keeps more_same (bnd (debit_after_broadcast v u dst x fee h key) (\<lambda>txn.
     bnd (announce_withdrawal v u dst x base) (\<lambda>_. ret txn)))" for h
    by (intro more_rules more_vault)
  from assms show ?thesis unfolding broadcast_and_debit_def
  proof (cases rule: bnd_cases)
    case (stop e)
    then show ?thesis using that more.refl by blast
  next
    case (go h w1)
    then show ?thesis using that [OF go(1)] keepsD [OF tl go(2)] by blast
  qed
qed

lemma authorised_cong:
  assumes "more_same w w1" and "wdb w1 = wdb w"
  shows "authorised v w1 u dst s relay = authorised v w u dst s relay"
  unfolding authorised_def more_state [OF assms(1)] assms(2) ..

text \<open>C9. Under enforced signatures the platform cannot move a user's funds: whatever the outcome and whatever
  the chain and the database do, an executed withdrawal makes no call that can change the chain except at
  most one relay, and that relay leaves the user's own clone for the requested destination before the
  signed deadline, with a signature over exactly this relay that recovers to the owner the chain reports.
  In particular the platform neither signs for the user nor transfers from the shared vault.\<close>

theorem only_owner_signed_relays:
  assumes "executeWithdrawal v u dst x fee rel key w = (r, w')" and "cfg_RequireUserSignature (v_cfg v)"
  shows "vcalls w' = vcalls w
     \<or> (\<exists>s relay. rel = Some s \<and> vcalls w' = vcalls w @ [CallWithdraw relay] \<and> authorised v w u dst s relay)"
  using assms(1)
proof (cases rule: execute_cases)
  case quiet
  then show ?thesis using more_state(1) by blast
next
  case (broadcast w1 base)
  from broadcast(5) obtain q w2 where b: "broadcastWithdrawal v u dst base rel w1 = (q, w2)" and "more_same w2 w'"
    by (rule after_broadcast)
  then show ?thesis
    using broadcast_gated [OF b assms(2)] authorised_cong [OF broadcast(1,2)] more_state(1) broadcast(1) by metis
qed

definition sample_signature :: WithdrawSignature where
  "sample_signature = \<lparr>ws_Signature = replicate 28 (CHR ''a''), ws_Deadline = 100, ws_RelayNonce = 3, ws_RelayAmountBase = 0\<rparr>"

definition owned_mock :: mock_chain where
  "owned_mock = sample_mock\<lparr>mk_cloneOwners := [''0xclone'' \<mapsto> addr_Hex toy_eth (replicate 20 7)]\<rparr>"

lemma toy_digest:
  obtains h where "WithdrawDigest toy_eth 1 a \<lparr>wr_To = b, wr_Amount = 200000, wr_Nonce = 3, wr_Deadline = 100\<rparr> = Some h"
  by (simp add: WithdrawDigest_def prefixed_def prefixed_msg_def DomainSeparator_def domain_msg_def withdraw_msg_def
      abiUint256_def FillBytes_def)

lemma toy_recover: "RecoverSigner toy_eth h (replicate 64 7 @ [28]) = Inr (replicate 20 7)"
  by (simp add: RecoverSigner_def toy_eth_def Let_def)

lemma toy_addr_Hex: "addr_Hex toy_eth a \<noteq> []"
  by (simp add: toy_eth_def)

lemma sample_execute:
  obtains t w' relay where "executeWithdrawal sample_vault ''u1'' ''0xdest'' 30000 0 (Some sample_signature) ''wk''
      (sample_vworld sample_vdb owned_mock) = (Inr t, w')"
    "vcalls w' = [CallWithdraw relay]" "ledger_sum (wdb w') ''a1'' = 70000"
proof -
  obtain h where h: "WithdrawDigest toy_eth 1 (HexToAddress toy_eth ''0xclone'') \<lparr>wr_To = HexToAddress toy_eth ''0xdest'',
      wr_Amount = 200000, wr_Nonce = 3, wr_Deadline = 100\<rparr> = Some h" by (rule toy_digest)
  have "case executeWithdrawal sample_vault ''u1'' ''0xdest'' 30000 0 (Some sample_signature) ''wk'' (sample_vworld sample_vdb owned_mock) of
      (Inr t, w') \<Rightarrow> ledger_sum (wdb w') ''a1'' = 70000 \<and> (case vcalls w' of [CallWithdraw relay] \<Rightarrow> True | _ \<Rightarrow> False)
    | _ \<Rightarrow> False"
    by (simp add: h toy_decode toy_parse toy_recover toy_addr_Hex owned_mock_def sample_signature_def veval_defs eval_defs
        executeWithdrawal_def withdraw_precheck_def hasSufficientNGN_def withdraw_base_def withdrawUSDCBase_def
        broadcast_and_debit_def debit_after_broadcast_def withdraw_request_def announce_withdrawal_def
        withdrawal_security_event_def TransactionTypeWithdrawal_def
        broadcastWithdrawal_def buildUserSignedRelay_def validateSignatureFresh_def now_unix_def second_def
        CloneAddress_def VaultCloneRepo_ByUser_def chain_read_def mock_service_def mock_CloneOwner_def err_or_def
        signed_nonce_def verify_owner_def digest_or_panic_def invalid_signature_def relay_withdrawal_def chain_do_def
        mock_WithdrawFromCloneWithSig_def synthetic_hash_def)
  then show ?thesis using that by (auto split: prod.splits sum.splits list.splits chain_call.splits)
qed

lemma sample_calls: "vcalls (sample_vworld d c) = []"
  by (simp add: sample_vworld_def world.defs)

theorem only_owner_signed_relays_witness:
  "\<exists>t w' relay. executeWithdrawal sample_vault ''u1'' ''0xdest'' 30000 0 (Some sample_signature) ''wk''
        (sample_vworld sample_vdb owned_mock) = (Inr t, w')
     \<and> cfg_RequireUserSignature (v_cfg sample_vault) \<and> vcalls w' = [CallWithdraw relay]
     \<and> authorised sample_vault (sample_vworld sample_vdb owned_mock) ''u1'' ''0xdest'' sample_signature relay"
proof -
  obtain t w' relay where run: "executeWithdrawal sample_vault ''u1'' ''0xdest'' 30000 0 (Some sample_signature) ''wk''
      (sample_vworld sample_vdb owned_mock) = (Inr t, w')" and c: "vcalls w' = [CallWithdraw relay]"
    by (rule sample_execute)
  have req: "cfg_RequireUserSignature (v_cfg sample_vault)" by (simp add: sample_vault_def sample_cfg_def)
  show ?thesis using only_owner_signed_relays [OF run req] run c req by (auto simp: sample_calls)
qed

lemma sample_scan:
  obtains w' where "scan sample_vault (sample_vworld sample_vdb sample_mock) = (Inr (), w')"
    "ledger_sum (wdb w') ''a1'' = 400000" "balance_of (wdb w') ''a1'' = 400000" "vlastBlock w' = 8"
proof -
  have "case scan sample_vault (sample_vworld sample_vdb sample_mock) of
      (Inr _, w') \<Rightarrow> ledger_sum (wdb w') ''a1'' = 400000 \<and> balance_of (wdb w') ''a1'' = 400000 \<and> vlastBlock w' = 8 | _ \<Rightarrow> False"
    by (simp add: eval_defs veval_defs scan_def scan_window_def handleDeposit_def creditTransfer_def chain_read_def
        mock_service_def mock_LatestBlock_def mock_FilterTokenTransfers_def mock_FilterVaultDeposits_def err_or_def
        refreshCloneUsers_def clone_routes_def VaultCloneRepo_All_def processTransfers_def advance_def commit_cursor_def
        IndexerStateRepo_SetLastBlock_def balance_of_def)
  then show ?thesis using that by (auto split: prod.splits sum.splits)
qed

theorem vault_ledger_invariant_witness:
  "\<exists>d. vault_reachable sample_vault sample_vdb d \<and> ledger_ok sample_vdb \<and> ledger_sum d ''a1'' = 400000
     \<and> balance_of d ''a1'' = wrap64 (ledger_sum d ''a1'')"
proof -
  obtain w' where run: "scan sample_vault (sample_vworld sample_vdb sample_mock) = (Inr (), w')"
    and sum: "ledger_sum (wdb w') ''a1'' = 400000" by (rule sample_scan)
  have "vault_reachable sample_vault sample_vdb (wdb (sample_vworld sample_vdb sample_mock))"
    using vault_reachable.start by (simp add: sample_vworld_def world.defs sample_world_def)
  then have "vault_reachable sample_vault sample_vdb (wdb w')"
    by (rule vault_reachable.vault_step [where op = VScan]) (simp add: run)
  then show ?thesis using vault_ledger_invariant sample_vok sum by blast
qed

end
