(* ===== verification/VaultCalls.thy ===== *)
theory VaultCalls
  imports VaultProps
begin

text \<open>
  What a withdrawal does outside the database: the exact chain calls of every path of \<open>executeWithdrawal\<close>
  (\<open>services/vault.go\<close>), in enforced and in transitional mode, and how they relate to the debit.
\<close>

section \<open>The calls of a broadcast\<close>

text \<open>The chain names no owner for the clone, or the platform's own address.\<close>

definition placeholder :: "'c vault \<Rightarrow> ('c, 'z) vworld_scheme \<Rightarrow> string \<Rightarrow> bool" where
  "placeholder v w clone \<longleftrightarrow> (\<exists>owner c. ch_CloneOwner (v_chain v) clone (vchain w) = (Inr owner, c)
     \<and> (owner = [] \<or> EqualFold owner (cfg_VaultAddress (v_cfg v))))"

definition clone_of :: "('c, 'z) vworld_scheme \<Rightarrow> string \<Rightarrow> string \<Rightarrow> bool" where
  "clone_of w u clone \<longleftrightarrow> clone \<noteq> [] \<and> (\<exists>row\<in>set (user_vault_clones (wdb w)). vc_UserID row = u \<and> clone = vc_CloneAddress row)"

text \<open>The chain calls a broadcast may make: none; the relay the owner signed; while signatures are not enforced, the
  platform's signature for a clone nobody has claimed and the relay of it; or the legacy transfer of the
  converted amount.\<close>

inductive broadcast_calls ::
    "'c vault \<Rightarrow> ('c, 'z) vworld_scheme \<Rightarrow> string \<Rightarrow> string \<Rightarrow> int64 \<Rightarrow> WithdrawSignature option \<Rightarrow> chain_call list \<Rightarrow> bool"
  for v w u dst base where
  none: "broadcast_calls v w u dst base rel []"
| owner: "authorised v w u dst s relay \<Longrightarrow> rel_Amount relay = (if ws_RelayAmountBase s > 0 then ws_RelayAmountBase s else base)
    \<Longrightarrow> broadcast_calls v w u dst base (Some s) [CallWithdraw relay]"
| refused: "\<not> cfg_RequireUserSignature (v_cfg v) \<Longrightarrow> clone_of w u clone \<Longrightarrow> placeholder v w clone
    \<Longrightarrow> broadcast_calls v w u dst base rel [CallSignWithdraw clone dst base n dl]"
| platform: "\<not> cfg_RequireUserSignature (v_cfg v) \<Longrightarrow> clone_of w u clone \<Longrightarrow> placeholder v w clone
    \<Longrightarrow> relay = \<lparr>rel_Clone = clone, rel_To = dst, rel_Amount = base, rel_Nonce = n, rel_Deadline = dl, rel_Sig = sg\<rparr>
    \<Longrightarrow> broadcast_calls v w u dst base rel [CallSignWithdraw clone dst base n dl, CallWithdraw relay]"
| legacy: "\<not> cfg_RequireUserSignature (v_cfg v)
    \<Longrightarrow> broadcast_calls v w u dst base rel [CallTransferToken dst (baseToMajorString base (cfg_StablecoinDecimals (v_cfg v)))]"

lemma platform_cases:
  assumes "buildPlatformSignedRelay v u dst x w = (r, w')"
  shows "vcalls w' = vcalls w \<and> (\<exists>e. r = Inl e)
     \<or> (\<exists>clone n dl. clone_of w u clone \<and> placeholder v w clone \<and> vcalls w' = vcalls w @ [CallSignWithdraw clone dst x n dl]
          \<and> (\<forall>relay. r = Inr relay \<longrightarrow> (\<exists>sg. relay = \<lparr>rel_Clone = clone, rel_To = dst, rel_Amount = x, rel_Nonce = n,
               rel_Deadline = dl, rel_Sig = sg\<rparr>)))"
proof -
  obtain q w1 where c: "CloneAddress u w = (q, w1)" by (cases "CloneAddress u w")
  note f = CloneAddress_frame [OF c]
  show ?thesis
  proof (cases q)
    case (Inl e)
    then show ?thesis using assms c f by (auto simp: buildPlatformSignedRelay_def bnd_def)
  next
    case (Inr clone)
    have "clone \<noteq> [] \<Longrightarrow> clone_of w u clone" using CloneAddress_ok [of u w clone w1] c Inr by (auto simp: clone_of_def)
    then show ?thesis
      using assms c f Inr unfolding buildPlatformSignedRelay_def placeholder_def
      by (auto simp: bnd_def reject_def chain_read_def chain_do_def gets_def modify_def ret_def fail_def
          split: prod.splits sum.splits if_splits)
  qed
qed

lemma build_amount:
  assumes "buildUserSignedRelay v u dst x s w = (Inr relay, w')"
  shows "rel_Amount relay = (if ws_RelayAmountBase s > 0 then ws_RelayAmountBase s else x)"
  using assms unfolding buildUserSignedRelay_def Let_def by (elim bnd_okE reject_okE ret_okE) auto

lemma CloneAddress_fixed: "CloneAddress u w = (r, w') \<Longrightarrow> wdb w' = wdb w"
proof -
  have "pres (=) (CloneAddress u)" unfolding CloneAddress_def by (intro fixed.pres_rules repos_read repos_read2)
  then show "CloneAddress u w = (r, w') \<Longrightarrow> wdb w' = wdb w" by (auto dest: presD)
qed

lemma platform_calls:
  assumes "bnd (buildPlatformSignedRelay v u dst x) (relay_withdrawal v) w = (r, w')" and "\<not> cfg_RequireUserSignature (v_cfg v)"
  shows "\<exists>cs. vcalls w' = vcalls w @ cs \<and> broadcast_calls v w u dst x rel cs \<and> (\<forall>h. r = Inr h \<longrightarrow> cs \<noteq> [])"
  using assms(1)
proof (cases rule: bnd_cases)
  case (stop e)
  then show ?thesis
    using platform_cases [OF stop(1)] broadcast_calls.none broadcast_calls.refused [OF assms(2)] by fastforce
next
  case (go relay w1)
  from platform_cases [OF go(1)] obtain clone n dl sg where *: "clone_of w u clone" "placeholder v w clone"
    and calls: "vcalls w1 = vcalls w @ [CallSignWithdraw clone dst x n dl]"
    and relay: "relay = \<lparr>rel_Clone = clone, rel_To = dst, rel_Amount = x, rel_Nonce = n, rel_Deadline = dl, rel_Sig = sg\<rparr>"
    by auto
  have "vcalls w' = vcalls w @ [CallSignWithdraw clone dst x n dl, CallWithdraw relay]"
    using relay_calls [OF go(2)] calls by simp
  then show ?thesis using broadcast_calls.platform [OF assms(2) * relay] by blast
qed

lemma broadcast_calls_cong:
  assumes "wdb w1 = wdb w" and "vchain w1 = vchain w" and "now_unix w1 = now_unix w"
  shows "broadcast_calls v w1 u dst x rel cs \<longleftrightarrow> broadcast_calls v w u dst x rel cs"
proof -
  have "authorised v w1 = authorised v w" "placeholder v w1 = placeholder v w" "clone_of w1 = clone_of w"
    using assms by (auto simp: authorised_def placeholder_def clone_of_def fun_eq_iff)
  then show ?thesis by (auto simp: broadcast_calls.simps)
qed

lemma unsigned_calls:
  assumes "broadcast_unsigned v u dst x w = (r, w')"
  shows "\<exists>cs. vcalls w' = vcalls w @ cs \<and> broadcast_calls v w u dst x rel cs \<and> (\<forall>h. r = Inr h \<longrightarrow> cs \<noteq> [])"
proof -
  obtain q w1 where c: "CloneAddress u w = (q, w1)" by (cases "CloneAddress u w")
  note f = CloneAddress_frame [OF c] CloneAddress_fixed [OF c] more_state(8) [OF keepsD [OF more_side(10) c]]
  show ?thesis
  proof (cases "(\<exists>clone. q = Inr clone) \<and> \<not> cfg_RequireUserSignature (v_cfg v)")
    case False
    then have "vcalls w' = vcalls w \<and> (\<exists>e. r = Inl e)"
      using assms c f by (auto simp: broadcast_unsigned_def bnd_def reject_def fail_def split: sum.splits if_splits)
    then show ?thesis using broadcast_calls.none by fastforce
  next
    case True
    then obtain clone where q: "q = Inr clone" and req: "\<not> cfg_RequireUserSignature (v_cfg v)" by blast
    show ?thesis
    proof (cases "clone = []")
      case True
      then show ?thesis
        using assms c f q req broadcast_calls.legacy [OF req, of w u dst x rel]
        by (auto simp: broadcast_unsigned_def bnd_def reject_def ret_def chain_do_def chain_read_def modify_def Let_def
            split: prod.splits)
    next
      case False
      then have "bnd (buildPlatformSignedRelay v u dst x) (relay_withdrawal v) w1 = (r, w')"
        using assms c q req by (simp add: broadcast_unsigned_def bnd_def reject_def ret_def)
      from platform_calls [OF this req] show ?thesis using f broadcast_calls_cong [of w1 w] by simp
    qed
  qed
qed

lemma broadcast_calls_of:
  assumes "broadcastWithdrawal v u dst x rel w = (r, w')"
  shows "\<exists>cs. vcalls w' = vcalls w @ cs \<and> broadcast_calls v w u dst x rel cs \<and> (\<forall>h. r = Inr h \<longrightarrow> cs \<noteq> [])"
proof (cases "\<exists>s. rel = Some s \<and> HasSignature rel")
  case True
  then obtain s where s: "rel = Some s" "HasSignature rel" by blast
  with assms(1) have "bnd (buildUserSignedRelay v u dst x s) (relay_withdrawal v) w = (r, w')"
    by (simp add: broadcastWithdrawal_def)
  then show ?thesis
  proof (cases rule: bnd_cases)
    case (stop e)
    then have "vcalls w' = vcalls w" using keepsD [OF silent_build stop(1)] by (simp add: silent_def)
    then show ?thesis using stop(2) broadcast_calls.none by fastforce
  next
    case (go relay w1)
    then show ?thesis
      using build_authorised [OF go(1)] relay_calls [OF go(2)] s broadcast_calls.owner [OF _ build_amount [OF go(1)]] by auto
  qed
next
  case False
  then have "broadcastWithdrawal v u dst x rel = broadcast_unsigned v u dst x"
    by (auto simp: broadcastWithdrawal_def split: option.splits)
  then show ?thesis using unsigned_calls assms by metis
qed

section \<open>Execution\<close>

text \<open>The calls of an execution, for the amount that the current rate gives.\<close>

lemma execute_calls:
  assumes "executeWithdrawal v u dst x fee rel key w = (r, w')"
  shows "vcalls w' = vcalls w
     \<or> (\<exists>base cs. withdrawUSDCBase x (vrate w) = Some base \<and> 0 < base \<and> vcalls w' = vcalls w @ cs
          \<and> broadcast_calls v w u dst base rel cs)"
  using assms
proof (cases rule: execute_cases)
  case quiet
  then show ?thesis using more_state(1) by blast
next
  case (broadcast w1 base)
  from broadcast(5) obtain q w2 where b: "broadcastWithdrawal v u dst base rel w1 = (q, w2)" and m: "more_same w2 w'"
    by (rule after_broadcast)
  from broadcast_calls_of [OF b] obtain cs where "vcalls w2 = vcalls w1 @ cs" "broadcast_calls v w1 u dst base rel cs" by blast
  then show ?thesis
    using broadcast more_state [OF broadcast(1)] more_state(1) [OF m] broadcast_calls_cong [of w1 w] by auto
qed

lemma external_provider:
  assumes "WithdrawExternal cfg req key w = (Inr t, w')" and "\<not> replayed key (wdb w) t"
  shows "txn_ProviderRef t = lm_ProviderRef req"
proof -
  let ?req = "req\<lparr>lm_Currency := or_NGN (lm_Currency req), lm_IdempotencyKey := key\<rparr>"
  have body: "txn_ProviderRef t = lm_ProviderRef req" if "external_body ?req tot w1 = (Inr t, w2)" for tot and w1 w2 :: "'b world_scheme"
    using that unfolding external_body_def LedgerRepo_CreateTransaction_def request_txn_def
    by (auto elim!: go_elims simp: Let_def split: if_splits)
  from assms show ?thesis unfolding WithdrawExternal_def Let_def
    by (auto elim!: go_elims split: if_splits simp: replayed_def intro: body)
qed

lemma external_key:
  assumes "WithdrawExternal cfg req key w = (Inr t, w')"
  shows "txn_IdempotencyKey t = key"
  using external.success [of cfg "(req, key)" w t w'] assms
  by (auto simp: external_effect_def external_request_def replayed_def)

lemma debit_settles:
  assumes "debit_after_broadcast v u dst x fee h key w = (Inr t, w')" and "\<forall>tr. \<not> replayed key (wdb w) tr" and "in64 (x + fee)"
  shows "txn_ProviderRef t = h \<and> txn_IdempotencyKey t = key \<and> charged u AccountKindAvailable ''NGN'' x fee (wdb w) (wdb w')"
proof -
  let ?req = "withdraw_request (v_cfg v) u dst x fee h key"
  have run: "WithdrawExternal (v_money v) ?req key w = (Inr t, w')"
    using assms(1) unfolding debit_after_broadcast_def by (rule on_err_okE)
  have "in64 (lm_AmountMinor ?req + lm_FeeMinor ?req)" using assms(3) by (simp add: withdraw_request_def)
  then show ?thesis
    using external_charged [OF run] external_provider [OF run] external_key [OF run] assms(2) by (simp add: withdraw_request_def or_NGN_def)
qed

lemma books_sum: "books_same d d' \<Longrightarrow> ledger_sum d' = ledger_sum d"
  using ledger_sum_same books_ledger by blast

lemma announce_books: "announce_withdrawal v u dst x b w = (r, w') \<Longrightarrow> books_same (wdb w) (wdb w')"
proof -
  have "pres books_same (announce_withdrawal v u dst x b)"
    unfolding announce_withdrawal_def by (intro books_rules books_side)
  then show "announce_withdrawal v u dst x b w = (r, w') \<Longrightarrow> books_same (wdb w) (wdb w')" by (rule presD)
qed

text \<open>The amount a broadcast relays: the one the owner named and signed, if any, and otherwise the converted one.\<close>

definition relayed_amount :: "WithdrawSignature option \<Rightarrow> int64 \<Rightarrow> int64" where
  "relayed_amount rel base =
     (case rel of
        Some s \<Rightarrow> if HasSignature rel \<and> ws_RelayAmountBase s > 0 then ws_RelayAmountBase s else base
      | None \<Rightarrow> base)"

fun call_amount :: "VaultConfig \<Rightarrow> int64 \<Rightarrow> chain_call \<Rightarrow> bool" where
  "call_amount cfg a (CallWithdraw relay) \<longleftrightarrow> rel_Amount relay = a"
| "call_amount cfg a (CallSignWithdraw clone dst x n dl) \<longleftrightarrow> x = a"
| "call_amount cfg a (CallTransferToken dst s) \<longleftrightarrow> s = baseToMajorString a (cfg_StablecoinDecimals cfg)"
| "call_amount cfg a _ \<longleftrightarrow> False"

lemma unsigned_amount: "broadcast_calls v w u dst x None cs \<Longrightarrow> \<forall>c\<in>set cs. call_amount (v_cfg v) x c"
  by (auto simp: broadcast_calls.simps)

lemma broadcast_amount:
  assumes "broadcastWithdrawal v u dst x rel w = (r, w')" and "vcalls w' = vcalls w @ cs"
  shows "\<forall>c\<in>set cs. call_amount (v_cfg v) (relayed_amount rel x) c"
proof (cases "\<exists>s. rel = Some s \<and> HasSignature rel")
  case True
  then obtain s where s: "rel = Some s" "HasSignature rel" by blast
  with assms(1) have "bnd (buildUserSignedRelay v u dst x s) (relay_withdrawal v) w = (r, w')"
    by (simp add: broadcastWithdrawal_def)
  then show ?thesis
  proof (cases rule: bnd_cases)
    case (stop e)
    then have "vcalls w' = vcalls w" using keepsD [OF silent_build stop(1)] by (simp add: silent_def)
    then show ?thesis using assms(2) by simp
  next
    case (go relay w1)
    then have "vcalls w' = vcalls w @ [CallWithdraw relay]" using build_authorised [OF go(1)] relay_calls [OF go(2)] by simp
    then show ?thesis using assms(2) build_amount [OF go(1)] s by (simp add: relayed_amount_def)
  qed
next
  case False
  then have "broadcast_unsigned v u dst x w = (r, w')" and "relayed_amount rel x = x"
    using assms(1) by (auto simp: broadcastWithdrawal_def relayed_amount_def split: option.splits)
  then show ?thesis using unsigned_calls [of v u dst x w r w' None] unsigned_amount [of v w u dst x] assms(2) by auto
qed

text \<open>C10. A successful withdrawal has happened once on chain and once in the books: a request with a key that was not
  recorded, and with a sum of amount and fee that fits 64 bits, when it succeeds, has made the chain calls of exactly one broadcast. The amount of these calls is
  the one converted from the request at the current rate, which is positive, unless the request carries a
  signature that names its own amount: then it is that amount, which the code does not compare with the
  converted one. The recorded transaction carries the hash the broadcast returned. In the books principal plus fee left
  an available naira account of the user, a row of the accounts table that covered it; a positive fee
  reached the platform's fee account; and no other balance moved.\<close>

theorem withdrawal_settled:
  fixes w :: "('c, 'z) vworld_scheme"
  assumes "executeWithdrawal v u dst x fee rel key w = (Inr t, w')" and "\<forall>tr. \<not> replayed key (wdb w) tr"
    and "in64 (x + fee)" and "key \<noteq> []"
  shows "\<exists>base cs (w1 :: ('c, 'z) vworld_scheme) (w2 :: ('c, 'z) vworld_scheme). withdrawUSDCBase x (vrate w) = Some base \<and> 0 < base
     \<and> cs \<noteq> [] \<and> broadcast_calls v w u dst base rel cs \<and> vcalls w' = vcalls w @ cs
     \<and> (\<forall>c\<in>set cs. call_amount (v_cfg v) (relayed_amount rel base) c)
     \<and> broadcastWithdrawal v u dst base rel w1 = (Inr (txn_ProviderRef t), w2) \<and> wdb w1 = wdb w \<and> vchain w1 = vchain w
     \<and> txn_IdempotencyKey t = key \<and> charged u AccountKindAvailable ''NGN'' x fee (wdb w) (wdb w')"
  using assms(1)
proof (cases rule: execute_cases)
  case quiet
  then show ?thesis using assms(2) by simp
next
  case (broadcast w1 base)
  from broadcast(5) obtain h w2 w3 where b: "broadcastWithdrawal v u dst base rel w1 = (Inr h, w2)"
    and deb: "debit_after_broadcast v u dst x fee h key w2 = (Inr t, w3)"
    and ann: "announce_withdrawal v u dst x base w3 = (Inr (), w')"
    unfolding broadcast_and_debit_def by (elim bnd_okE ret_okE) simp
  note same = presD [OF books_broadcast b] announce_books [OF ann]
  have fresh: "\<forall>tr. \<not> replayed key (wdb w2) tr"
    using assms(2) same(1) broadcast(2) by (simp add: replayed_def books_same_def ledger_same_def tables_same_def)
  have t: "txn_ProviderRef t = h" "txn_IdempotencyKey t = key" "charged u AccountKindAvailable ''NGN'' x fee (wdb w) (wdb w')"
    using debit_settles [OF deb fresh assms(3)] books_sum [OF same(1)] books_sum [OF same(2)] broadcast(2) same(2)
    by (simp_all add: charged_def owns_def books_same_def)
  from broadcast_calls_of [OF b] obtain cs where cs: "cs \<noteq> []" "vcalls w2 = vcalls w1 @ cs" "broadcast_calls v w1 u dst base rel cs"
    by blast
  have "vcalls w' = vcalls w2"
    using more_state(1) [OF keepsD [OF more_vault(4) deb]] more_state(1) [OF keepsD [OF more_vault(5) ann]] by simp
  then have "vcalls w' = vcalls w @ cs" "broadcast_calls v w u dst base rel cs"
    using cs more_state [OF broadcast(1)] broadcast(2) broadcast_calls_cong [of w1 w] by simp_all
  moreover have "\<forall>c\<in>set cs. call_amount (v_cfg v) (relayed_amount rel base) c" by (rule broadcast_amount [OF b cs(2)])
  ultimately show ?thesis
    using broadcast(2-4) b t cs(1) more_state(2) [OF broadcast(1)]
    by blast
qed

lemma sample_fresh: "\<forall>tr. \<not> replayed ''wk'' (wdb (sample_vworld sample_vdb c)) tr"
  by (simp add: replayed_def sample_vworld_def sample_vdb_def world.defs sample_world_def sample_db_def empty_db_def)

theorem withdrawal_settled_witness:
  "\<exists>t w' cs. executeWithdrawal sample_vault ''u1'' ''0xdest'' 30000 0 (Some sample_signature) ''wk''
        (sample_vworld sample_vdb owned_mock) = (Inr t, w')
     \<and> vcalls w' = cs \<and> cs \<noteq> [] \<and> txn_IdempotencyKey t = ''wk''
     \<and> (\<exists>base. 0 < base \<and> (\<forall>c\<in>set cs. call_amount (v_cfg sample_vault) (relayed_amount (Some sample_signature) base) c))
     \<and> charged ''u1'' AccountKindAvailable ''NGN'' 30000 0 sample_vdb (wdb w')"
proof -
  obtain t w' relay where run: "executeWithdrawal sample_vault ''u1'' ''0xdest'' 30000 0 (Some sample_signature) ''wk''
      (sample_vworld sample_vdb owned_mock) = (Inr t, w')" by (rule sample_execute)
  have "wdb (sample_vworld sample_vdb owned_mock) = sample_vdb"
    by (simp add: sample_vworld_def world.defs sample_world_def)
  then show ?thesis
    using withdrawal_settled [OF run sample_fresh] run by (auto simp: int64_bounds sample_calls)
qed

text \<open>C11. The platform signs for nobody who owns a clone: a call that asks the platform's key for a withdrawal
  signature happens only while signatures are not enforced, only for the clone of the withdrawing user
  itself, only while the chain names no owner of that clone or the platform's own address, and only for the
  requested destination and the amount converted at the current rate.\<close>

theorem platform_signs_unclaimed:
  assumes "executeWithdrawal v u dst x fee rel key w = (r, w')"
    and "CallSignWithdraw clone to amt n dl \<in> set (drop (length (vcalls w)) (vcalls w'))"
  shows "\<not> cfg_RequireUserSignature (v_cfg v) \<and> clone_of w u clone \<and> placeholder v w clone \<and> to = dst
     \<and> withdrawUSDCBase x (vrate w) = Some amt \<and> 0 < amt"
  using execute_calls [OF assms(1)] assms(2) by (auto elim!: broadcast_calls.cases)

definition open_vault :: "mock_chain vault" where
  "open_vault = sample_vault\<lparr>v_cfg := sample_cfg\<lparr>cfg_RequireUserSignature := False\<rparr>\<rparr>"

definition unclaimed_mock :: mock_chain where
  "unclaimed_mock = sample_mock\<lparr>mk_cloneOwners := [''0xclone'' \<mapsto> ''0xvault'']\<rparr>"

lemma mock_signs:
  obtains f where "mock_SignWithdrawRelay = (\<lambda>E c a t x n d. ret (f E a t x n d))"
  using that [of "\<lambda>E a t x n d. mock_signature E (''mock-sig:'' @ a @ '':'' @ t @ '':'' @ show_int x @ '':'' @ show_nat n
            @ '':'' @ show_int d)"]
  by (simp add: fun_eq_iff mock_SignWithdrawRelay_def)

lemma sample_platform:
  "\<exists>t w'. executeWithdrawal open_vault ''u1'' ''0xdest'' 30000 0 None ''wk'' (sample_vworld sample_vdb unclaimed_mock) = (Inr t, w')
     \<and> (\<exists>n dl relay. vcalls w' = [CallSignWithdraw ''0xclone'' ''0xdest'' 200000 n dl, CallWithdraw relay])"
proof -
  obtain f where f: "mock_SignWithdrawRelay = (\<lambda>E c a t x n d. ret (f E a t x n d))" by (rule mock_signs)
  have "case executeWithdrawal open_vault ''u1'' ''0xdest'' 30000 0 None ''wk'' (sample_vworld sample_vdb unclaimed_mock) of
      (Inr t, w') \<Rightarrow> \<exists>n dl relay. vcalls w' = [CallSignWithdraw ''0xclone'' ''0xdest'' 200000 n dl, CallWithdraw relay]
    | _ \<Rightarrow> False"
    by (simp add: open_vault_def unclaimed_mock_def veval_defs eval_defs
        executeWithdrawal_def withdraw_precheck_def hasSufficientNGN_def withdraw_base_def withdrawUSDCBase_def
        broadcast_and_debit_def debit_after_broadcast_def withdraw_request_def announce_withdrawal_def
        withdrawal_security_event_def TransactionTypeWithdrawal_def broadcast_unsigned_def buildPlatformSignedRelay_def
        broadcastWithdrawal_def unix_after_def second_def minute_def mock_CloneNonce_def
        CloneAddress_def VaultCloneRepo_ByUser_def chain_read_def mock_service_def mock_CloneOwner_def err_or_def
        relay_withdrawal_def chain_do_def f mock_WithdrawFromCloneWithSig_def synthetic_hash_def)
  then show ?thesis by (auto split: prod.splits sum.splits)
qed

theorem platform_signs_unclaimed_witness:
  "\<exists>r w' n dl. executeWithdrawal open_vault ''u1'' ''0xdest'' 30000 0 None ''wk'' (sample_vworld sample_vdb unclaimed_mock) = (r, w')
     \<and> CallSignWithdraw ''0xclone'' ''0xdest'' 200000 n dl \<in> set (vcalls w')
     \<and> placeholder open_vault (sample_vworld sample_vdb unclaimed_mock) ''0xclone''"
proof -
  obtain t w' n dl relay where run: "executeWithdrawal open_vault ''u1'' ''0xdest'' 30000 0 None ''wk''
      (sample_vworld sample_vdb unclaimed_mock) = (Inr t, w')"
    and calls: "vcalls w' = [CallSignWithdraw ''0xclone'' ''0xdest'' 200000 n dl, CallWithdraw relay]"
    using sample_platform by blast
  then show ?thesis using platform_signs_unclaimed [OF run, of "''0xclone''" "''0xdest''" 200000 n dl] by (simp add: sample_calls)
qed

end
