(* ===== verification/VaultLocks.thy ===== *)
theory VaultLocks
  imports VaultCalls "HOL-Library.Multiset"
begin

text \<open>
  The time lock of large withdrawals (\<open>services/vault.go\<close>, \<open>storage/postgres/elevation_repo.go\<close>). The life
  cycle of an elevation is specified as a labelled machine on a table of locks: \<open>lock_do\<close> gives the guard
  and the effect of each event, and \<open>op_events\<close> says which events each vault operation may emit, in which
  order. Every operation, under any failures, is refined by a trace of its own events: only a cancellation
  by the owner cancels, only a sweep claims, and only what a sweep has just claimed is broadcast. Requesting
  a withdrawal above the threshold makes no chain call and moves no money and stores the lock it answers
  with, and the sweeper does nothing before a row is due.
\<close>

section \<open>The life cycle\<close>

abbreviation locks :: "db \<Rightarrow> WithdrawalElevation list" where
  "locks \<equiv> withdrawal_elevations"

definition ids_unique :: "db \<Rightarrow> bool" where
  "ids_unique d \<longleftrightarrow> distinct (map we_ID (locks d))"

text \<open>The abstract state: the locks by their identifiers.\<close>

type_synonym lock_map = "string \<rightharpoonup> WithdrawalElevation"

definition rows_map :: "WithdrawalElevation list \<Rightarrow> lock_map" where
  "rows_map rows = map_of (map (\<lambda>e. (we_ID e, e)) rows)"

definition lock_table :: "db \<Rightarrow> lock_map" where
  "lock_table d = rows_map (locks d)"

text \<open>The events: a lock is requested, claimed by a sweep at some time, given back, found lapsed for a reason,
  broadcast with a transaction hash, or cancelled by a user.\<close>

datatype lock_event =
    LRequested WithdrawalElevation
  | LClaimed string time
  | LUnclaimed string
  | LLapsed string string
  | LSent string string time
  | LCancelled string string

text \<open>Moves the lock \<open>eid\<close>, which must be in status \<open>st\<close> and satisfy \<open>ok\<close>.\<close>

definition move_lock ::
    "ElevationStatus \<Rightarrow> (WithdrawalElevation \<Rightarrow> bool) \<Rightarrow> (WithdrawalElevation \<Rightarrow> WithdrawalElevation) \<Rightarrow> string \<Rightarrow> lock_map \<Rightarrow> lock_map option" where
  "move_lock st ok f eid L =
     (case L eid of
        None \<Rightarrow> None
      | Some e \<Rightarrow> if we_Status e = st \<and> ok e then Some (L(eid \<mapsto> f e)) else None)"

fun lock_do :: "lock_event \<Rightarrow> lock_map \<Rightarrow> lock_map option" where
  "lock_do (LRequested e) L =
     (if we_Status e = ElevationPending \<and> we_BroadcastTxHash e = [] \<and> we_BroadcastAt e = None \<and> we_ExpiredReason e = []
         \<and> L (we_ID e) = None
      then Some (L(we_ID e \<mapsto> e)) else None)"
| "lock_do (LClaimed eid now) L =
     move_lock ElevationPending (\<lambda>e. we_ReleaseAfter e \<le> now) (\<lambda>e. e\<lparr>we_Status := ElevationBroadcasting\<rparr>) eid L"
| "lock_do (LUnclaimed eid) L =
     move_lock ElevationBroadcasting (\<lambda>_. True) (\<lambda>e. e\<lparr>we_Status := ElevationPending\<rparr>) eid L"
| "lock_do (LLapsed eid why) L =
     move_lock ElevationBroadcasting (\<lambda>_. True) (\<lambda>e. e\<lparr>we_Status := ElevationExpired, we_ExpiredReason := why\<rparr>) eid L"
| "lock_do (LSent eid h t) L =
     move_lock ElevationBroadcasting (\<lambda>_. True)
       (\<lambda>e. e\<lparr>we_Status := ElevationBroadcast, we_BroadcastTxHash := h, we_BroadcastAt := Some t\<rparr>) eid L"
| "lock_do (LCancelled u eid) L =
     move_lock ElevationPending (\<lambda>e. we_UserID e = u) (\<lambda>e. e\<lparr>we_Status := ElevationCancelled\<rparr>) eid L"

fun lock_trace :: "lock_event list \<Rightarrow> lock_map \<Rightarrow> lock_map option" where
  "lock_trace [] L = Some L"
| "lock_trace (ev # evs) L = (case lock_do ev L of None \<Rightarrow> None | Some L' \<Rightarrow> lock_trace evs L')"

text \<open>The events of a sweep at time \<open>now\<close>: it claims locks one after the other, and gives back, expires or
  sends only the one it claimed last, once.\<close>

fun sweeping :: "time \<Rightarrow> string option \<Rightarrow> lock_event list \<Rightarrow> bool" where
  "sweeping now c [] \<longleftrightarrow> True"
| "sweeping now c (LClaimed eid t # evs) \<longleftrightarrow> t = now \<and> sweeping now (Some eid) evs"
| "sweeping now c (LUnclaimed eid # evs) \<longleftrightarrow> c = Some eid \<and> sweeping now None evs"
| "sweeping now c (LLapsed eid why # evs) \<longleftrightarrow> c = Some eid \<and> sweeping now None evs"
| "sweeping now c (LSent eid h t # evs) \<longleftrightarrow> c = Some eid \<and> sweeping now None evs"
| "sweeping now c (LRequested e # evs) \<longleftrightarrow> False"
| "sweeping now c (LCancelled u eid # evs) \<longleftrightarrow> False"

definition over_threshold :: "VaultConfig \<Rightarrow> int64 \<Rightarrow> bool" where
  "over_threshold cfg x \<longleftrightarrow>
     0 < cfg_WithdrawElevationThresholdMinor cfg \<and> cfg_WithdrawElevationThresholdMinor cfg < x"

definition requested :: "VaultConfig \<Rightarrow> string \<Rightarrow> string \<Rightarrow> int64 \<Rightarrow> time \<Rightarrow> WithdrawalElevation \<Rightarrow> bool" where
  "requested cfg u dst x now e \<longleftrightarrow> we_UserID e = u \<and> we_Destination e = dst \<and> we_AmountNgnMinor e = x
     \<and> we_RequestedAt e = now \<and> we_ReleaseAfter e = now + cfg_WithdrawElevationDelay cfg"

text \<open>The events of a request: at most one, of the lock asked for, when the amount is above the threshold.\<close>

fun asking :: "VaultConfig \<Rightarrow> bool \<Rightarrow> string \<Rightarrow> string \<Rightarrow> int64 \<Rightarrow> time \<Rightarrow> lock_event list \<Rightarrow> bool" where
  "asking cfg ok u dst x now [] \<longleftrightarrow> True"
| "asking cfg ok u dst x now [ev] \<longleftrightarrow>
     (case ev of LRequested e \<Rightarrow> ok \<and> over_threshold cfg x \<and> requested cfg u dst x now e | _ \<Rightarrow> False)"
| "asking cfg ok u dst x now (_ # _ # _) \<longleftrightarrow> False"

text \<open>What each operation may do to the locks, by when it ran and whether it succeeded.\<close>

fun op_events :: "VaultConfig \<Rightarrow> time \<Rightarrow> bool \<Rightarrow> vault_op \<Rightarrow> lock_event list \<Rightarrow> bool" where
  "op_events cfg now ok (VWithdraw u dst x rel key) evs \<longleftrightarrow> asking cfg ok u dst x now evs"
| "op_events cfg now ok (VCancel u eid) evs \<longleftrightarrow> evs = (if ok then [LCancelled u eid] else [])"
| "op_events cfg now ok VSweep evs \<longleftrightarrow> sweeping now None evs"
| "op_events cfg now ok _ evs \<longleftrightarrow> evs = []"

text \<open>What the user asked for: everything but the status and the record of how it ended.\<close>

definition final :: "ElevationStatus \<Rightarrow> bool" where
  "final s \<longleftrightarrow> s \<noteq> ElevationPending \<and> s \<noteq> ElevationBroadcasting"

definition content :: "WithdrawalElevation \<Rightarrow> WithdrawalElevation" where
  "content e = e\<lparr>we_Status := ElevationPending, we_BroadcastTxHash := [], we_BroadcastAt := None, we_ExpiredReason := []\<rparr>"

definition locks_kept :: "lock_map \<Rightarrow> lock_map \<Rightarrow> bool" where
  "locks_kept L L' \<longleftrightarrow> (\<forall>eid e. L eid = Some e \<longrightarrow>
     (\<exists>e'. L' eid = Some e' \<and> content e' = content e \<and> (final (we_Status e) \<longrightarrow> e' = e)))"

definition waits :: "VaultConfig \<Rightarrow> lock_map \<Rightarrow> bool" where
  "waits cfg L \<longleftrightarrow> (\<forall>eid e. L eid = Some e \<longrightarrow> we_RequestedAt e + cfg_WithdrawElevationDelay cfg \<le> we_ReleaseAfter e)"

lemma content_times: "content e' = content e \<Longrightarrow> we_RequestedAt e' = we_RequestedAt e \<and> we_ReleaseAfter e' = we_ReleaseAfter e"
  by (cases e; cases e') (simp add: content_def)

lemma move_lockE:
  assumes "move_lock st ok f eid L = Some L'"
  obtains e where "L eid = Some e" "we_Status e = st" "ok e" "L' = L(eid \<mapsto> f e)"
  using assms by (auto simp: move_lock_def split: option.splits if_splits)

lemma move_kept:
  assumes "move_lock st ok f eid L = Some L'" and "\<not> final st" and "\<And>e. content (f e) = content e"
  shows "locks_kept L L'"
  using assms(1) by (rule move_lockE) (use assms(2,3) in \<open>auto simp: locks_kept_def\<close>)

lemma do_kept: "lock_do ev L = Some L' \<Longrightarrow> locks_kept L L'"
proof (cases ev)
  case (LRequested e)
  then show "lock_do ev L = Some L' \<Longrightarrow> ?thesis" by (auto simp: locks_kept_def split: if_splits)
qed (auto simp: content_def final_def elim!: move_kept)

lemma kept_trans: "locks_kept L L' \<Longrightarrow> locks_kept L' L'' \<Longrightarrow> locks_kept L L''"
  unfolding locks_kept_def by metis

lemma trace_kept: "lock_trace evs L = Some L' \<Longrightarrow> locks_kept L L'"
proof (induction evs arbitrary: L)
  case Nil
  then show ?case by (auto simp: locks_kept_def)
next
  case (Cons ev evs)
  then show ?case using do_kept kept_trans by (fastforce split: option.splits)
qed

lemma trace_append [simp]:
  "lock_trace (xs @ ys) L = (case lock_trace xs L of None \<Rightarrow> None | Some L' \<Rightarrow> lock_trace ys L')"
  by (induction xs arbitrary: L) (auto split: option.split)

lemma move_new: "move_lock st ok f eid L = Some L' \<Longrightarrow> L i = None \<Longrightarrow> L' i = None"
  by (auto elim!: move_lockE)

lemma do_waits:
  assumes "lock_do ev L = Some L'" and "\<And>e. ev = LRequested e \<Longrightarrow> we_RequestedAt e + cfg_WithdrawElevationDelay cfg \<le> we_ReleaseAfter e"
    and "waits cfg L"
  shows "waits cfg L'"
  unfolding waits_def
proof (intro allI impI)
  fix i e' assume e': "L' i = Some e'"
  show "we_RequestedAt e' + cfg_WithdrawElevationDelay cfg \<le> we_ReleaseAfter e'"
  proof (cases "L i")
    case (Some e)
    then have "content e' = content e" using do_kept [OF assms(1)] e' by (fastforce simp: locks_kept_def)
    then show ?thesis using content_times [of e' e] assms(3) Some unfolding waits_def by metis
  next
    case None
    then show ?thesis using assms(1,2) e' by (cases ev) (auto dest: move_new split: if_splits)
  qed
qed

lemma trace_waits:
  "lock_trace evs L = Some L' \<Longrightarrow> (\<And>e. LRequested e \<in> set evs \<Longrightarrow> we_RequestedAt e + cfg_WithdrawElevationDelay cfg \<le> we_ReleaseAfter e)
     \<Longrightarrow> waits cfg L \<Longrightarrow> waits cfg L'"
proof (induction evs arbitrary: L)
  case (Cons ev evs)
  then show ?case using do_waits [of ev L] by (fastforce split: option.splits)
qed simp

lemma sweeping_requests: "sweeping now c evs \<Longrightarrow> LRequested e \<notin> set evs"
  by (induction now c evs rule: sweeping.induct) auto

lemma asking_requests:
  "asking cfg ok u dst x now evs \<Longrightarrow> LRequested e \<in> set evs \<Longrightarrow> we_RequestedAt e + cfg_WithdrawElevationDelay cfg \<le> we_ReleaseAfter e"
  by (induction cfg ok u dst x now evs rule: asking.induct) (auto simp: requested_def split: lock_event.splits)

lemma op_requests:
  assumes "op_events cfg now ok op evs" and "LRequested e \<in> set evs"
  shows "we_RequestedAt e + cfg_WithdrawElevationDelay cfg \<le> we_ReleaseAfter e"
  using assms by (cases op) (auto dest: sweeping_requests asking_requests split: if_splits)

lemma sweeping_any: "sweeping now None evs \<Longrightarrow> sweeping now c evs"
  by (cases evs) (auto elim: sweeping.elims)

section \<open>The table of the database\<close>

lemma rows_map_Some: "distinct (map we_ID rows) \<Longrightarrow> rows_map rows i = Some e \<longleftrightarrow> e \<in> set rows \<and> we_ID e = i"
  by (auto simp: rows_map_def map_of_eq_Some_iff comp_def)

lemmas table_Some = rows_map_Some [of "locks d" for d, folded ids_unique_def lock_table_def]

lemma rows_map_update:
  assumes "distinct (map we_ID rows)" and "\<And>e. we_ID (f e) = we_ID e"
  shows "rows_map (update_where (\<lambda>e. we_ID e = i \<and> hit e) f rows) =
     (case rows_map rows i of Some e \<Rightarrow> if hit e then (rows_map rows)(i \<mapsto> f e) else rows_map rows | None \<Rightarrow> rows_map rows)"
  using assms(1)
proof (induction rows)
  case Nil
  then show ?case by (simp add: rows_map_def update_where_def)
next
  case (Cons r rows)
  show ?case
  proof (cases "we_ID r = i")
    case True
    then have "\<forall>x\<in>set rows. we_ID x \<noteq> i"
      using True Cons.prems by (metis distinct.simps(2) image_eqI list.set_map list.simps(9))
    then have "update_where (\<lambda>e. we_ID e = i \<and> hit e) f rows = rows"
      by (simp add: update_where_def map_idI)
    then show ?thesis using True assms(2) by (auto simp: rows_map_def update_where_def)
  next
    case False
    then show ?thesis using Cons assms(2)
      by (auto simp: rows_map_def update_where_def fun_upd_twist split: option.splits)
  qed
qed

lemma ids_update: "(\<And>e. we_ID (f e) = we_ID e) \<Longrightarrow> map we_ID (update_where hit f rows) = map we_ID rows"
  by (auto simp: update_where_def)

lemma table_update:
  assumes "locks d' = update_where (\<lambda>e. we_ID e = i \<and> hit e) f (locks d)" and "\<And>e. we_ID (f e) = we_ID e" and "ids_unique d"
  shows "ids_unique d'" and "lock_table d' =
     (case lock_table d i of Some e \<Rightarrow> if hit e then (lock_table d)(i \<mapsto> f e) else lock_table d | None \<Rightarrow> lock_table d)"
  using assms rows_map_update [of "locks d" f i hit] unfolding ids_unique_def lock_table_def by (simp_all add: ids_update)

definition rows_wait :: "VaultConfig \<Rightarrow> db \<Rightarrow> bool" where
  "rows_wait cfg d \<longleftrightarrow> (\<forall>e\<in>set (locks d). we_RequestedAt e + cfg_WithdrawElevationDelay cfg \<le> we_ReleaseAfter e)"

lemma waits_table: "ids_unique d \<Longrightarrow> waits cfg (lock_table d) \<longleftrightarrow> rows_wait cfg d"
  by (auto simp: waits_def rows_wait_def table_Some)

text \<open>The database steps from \<open>d\<close> to \<open>d'\<close> as the trace says.\<close>

definition does :: "lock_event list \<Rightarrow> db \<Rightarrow> db \<Rightarrow> bool" where
  "does evs d d' \<longleftrightarrow> ids_unique d' \<and> lock_trace evs (lock_table d) = Some (lock_table d')"

lemma does_append: "does xs d d1 \<Longrightarrow> does ys d1 d2 \<Longrightarrow> does (xs @ ys) d d2"
  by (simp add: does_def)

definition locks_same :: "db \<Rightarrow> db \<Rightarrow> bool" where
  "locks_same d d' \<longleftrightarrow> locks d' = locks d"

interpretation lsame: db_preorder locks_same
  by unfold_locales (auto simp: locks_same_def)

lemma does_same: "locks_same d d' \<Longrightarrow> ids_unique d \<Longrightarrow> does [] d d'"
  by (simp add: does_def locks_same_def ids_unique_def lock_table_def)

lemma lsame_stmtI:
  assumes "\<And>i t d v d'. q i t d = Inr (v, d') \<Longrightarrow> locks d' = locks d"
  shows "pres locks_same (stmt q)"
  by (rule lsame.pres_stmt) (use assms in \<open>auto simp: locks_same_def\<close>)

lemma lsame_writes:
  "pres locks_same (NotificationRepo_Create u c ti bo)" "pres locks_same (SecurityEventRepo_Create se)"
  "pres locks_same (DepositAddressRepo_Set u s)" "pres locks_same (IndexerStateRepo_SetLastBlock n)"
  "pres locks_same (IndexerEventRepo_Insert ev)" "pres locks_same (IndexerEventRepo_MarkAttributed s n)"
  "pres locks_same (VaultCloneRepo_Ensure cl)" "pres locks_same (VaultCloneRepo_CacheRecovery u rec)"
  "pres locks_same (AccountRepo_EnsureAccount u k c)" "pres locks_same (AccountRepo_SetBalance s x)"
  "pres locks_same (LedgerRepo_CreateTransaction tx)" "pres locks_same (LedgerRepo_InsertEntry e)"
  by (auto simp: repo_defs AccountRepo_SetBalance_def LedgerRepo_CreateTransaction_def LedgerRepo_InsertEntry_def Let_def
      split: if_splits option.splits
      intro!: lsame.pres_rules lsame.pres_mapped lsame.pres_affecting lsame_stmtI)

lemma mail_fixed: "pres (=) (modify (\<lambda>w. w\<lparr>mail_log := f w\<rparr>))"
  by (simp add: pres_def modify_def)

lemmas lsame_rules = lsame.pres_rules lsame_writes fixed_reads [THEN lsame.pres_fixed] mail_fixed [THEN lsame.pres_fixed]

lemma lsame_side:
  "pres locks_same (vault_publish v u k)" "pres locks_same (recordSecurityEvent v ev)" "pres locks_same (CloneAddress u)"
  "pres locks_same (notify u c t b)" "pres locks_same (notifyChanged cfg u)" "pres locks_same (emailUser cfg u tpl cur x)"
  "pres locks_same (find_replay key)" "pres locks_same m \<Longrightarrow> pres locks_same (or_replay key m)"
  "pres locks_same (post txn aid u mv cur x nb)" "pres locks_same (pick_reference r ty)"
  unfolding vault_publish_def recordSecurityEvent_def CloneAddress_def notify_def notifyChanged_def emailUser_def
    find_replay_def or_replay_def post_def pick_reference_def
  by (intro lsame_rules; assumption?)+

lemma lsame_money: "pres locks_same (Deposit cfg u c a key)" "pres locks_same (WithdrawExternal cfg req key)"
  unfolding Deposit_def Credit_def move_def move_body_def WithdrawExternal_def external_body_def settle_fee_def
  by (intro lsame_rules lsame_side)+

section \<open>Operations follow the life cycle\<close>

lemma lsame_broadcast: "pres locks_same (broadcastWithdrawal v u dst x rel)"
  unfolding broadcastWithdrawal_def broadcast_unsigned_def buildUserSignedRelay_def buildPlatformSignedRelay_def
    relay_withdrawal_def verify_owner_def digest_or_panic_def invalid_signature_def signed_nonce_def validateSignatureFresh_def
  by (intro lsame_rules lsame_side)+

lemma lsame_precheck: "pres locks_same (withdraw_precheck u x fee)"
  by (rule lsame.pres_fixed [OF precheck_frame(2)])

lemma lsame_execute: "pres locks_same (executeWithdrawal v u dst x fee rel key)"
  unfolding executeWithdrawal_def broadcast_and_debit_def debit_after_broadcast_def announce_withdrawal_def
  by (intro lsame_rules lsame_side lsame_broadcast lsame_precheck lsame_money)

lemma lsame_vault:
  "pres locks_same (EnsureClone v u)" "pres locks_same (PrepareSignedWithdrawal v u dst x)"
  unfolding EnsureClone_def deploy_clone_def clone_owner_def validateWithdrawalRequest_def check_daily_cap_def
    PrepareSignedWithdrawal_def withdraw_base_def
  by (intro lsame_rules lsame_side)+

lemma lsame_recovery:
  "pres locks_same (PrepareRecovery v u a)" "pres locks_same (SetRecoveryAddressBySig v u a sig)"
  "pres locks_same (RecoveryStatus_of v u)" "pres locks_same (CustodyStatus_of v u)"
  "pres locks_same (PrepareCustodyClaim v u a)" "pres locks_same (ClaimCustody v u a)"
  "pres locks_same (reconcileRecoveryCache v)"
  unfolding PrepareRecovery_def SetRecoveryAddressBySig_def RecoveryStatus_of_def CustodyStatus_of_def
    PrepareCustodyClaim_def ClaimCustody_def reconcileRecoveryCache_def refreshCloneRecoveryCache_def read_recovery_def
    claimable_def clone_and_owner_def recoveryStatusFromCache_def custodyStatusFromCache_def verify_owner_def
    digest_or_panic_def invalid_signature_def signed_nonce_def validateSignatureFresh_def
  by (intro lsame_rules lsame_side)+

lemma lsame_indexer:
  "pres locks_same (senderUserID v s)" "pres locks_same (priced x s)" "pres locks_same (deposit_once v u x key)"
  "pres locks_same resumeCursor"
  unfolding senderUserID_def priced_def currentRateMinor_def deposit_once_def resumeCursor_def
  by (intro lsame_rules lsame_money)+

lemma lsame_handle: "pres locks_same (handleDeposit v t)" "pres locks_same (handleVaultDeposit v dp cm)"
  "pres locks_same (AttributeDeposit v h n u)"
  unfolding handleDeposit_def creditTransfer_def recordUnattributed_def handleVaultDeposit_def vault_deposit_user_def
    AttributeDeposit_def claim_sender_def
  by (intro lsame_rules lsame_side lsame_indexer)+

lemma lsame_panic: "pres locks_same (case root e of ErrPanic x \<Rightarrow> fail e | _ \<Rightarrow> ret ())"
  by (cases "root e") (simp_all add: lsame.pres_rules)

lemma lsame_scan: "pres locks_same (scan v)"
  unfolding scan_def set_baseline_def scan_window_def processTransfers_def commit_cursor_def refreshCloneUsers_def
    processVaultDeposits_def commitmentUserMap_def
  by (intro lsame_rules lsame_handle lsame_panic)

lemma check_live_ok:
  assumes "check_live v e w = (Inr x, w')"
  shows "locks (wdb w') = locks (wdb w)"
  using assms presD [OF lsame_side(3)] presD [OF chain_fixed(1)]
  by (fastforce simp: check_live_def locks_same_def elim!: go_elims split: if_splits)

lemma release_ok:
  assumes "releaseElevation v e w = (Inr t, w')"
  shows "locks (wdb w') = locks (wdb w)"
  using assms check_live_ok presD [OF lsame_execute]
  by (fastforce simp: releaseElevation_def locks_same_def elim!: go_elims split: if_splits)

lemma validate_fixed: "validateWithdrawalRequest cfg u dst x w = (r, w') \<Longrightarrow> wdb w' = wdb w"
proof -
  have "pres (=) (validateWithdrawalRequest cfg u dst x)"
    unfolding validateWithdrawalRequest_def check_daily_cap_def CloneAddress_def
    by (intro fixed.pres_rules repos_read repos_read2)
  then show "validateWithdrawalRequest cfg u dst x w = (r, w') \<Longrightarrow> wdb w' = wdb w" by (auto dest: presD)
qed

lemma suff_fixed: "pres (=) (hasSufficientNGN u x)"
  unfolding hasSufficientNGN_def by (intro fixed.pres_rules repos_read)

lemma FindPending_ok:
  assumes "ElevationRepo_FindPendingByContent u dst x w = (Inr e, w')"
  shows "e \<in> set (locks (wdb w)) \<and> same_content u dst x e \<and> wdb w' = wdb w"
  using assms unfolding ElevationRepo_FindPendingByContent_def by (auto elim!: go_elims dest!: first_row_okD)

lemma lsame_finished: "pres locks_same m \<Longrightarrow> pres locks_same (finished m)"
  unfolding finished_def by (intro lsame.pres_rules)

lemma locks_updD: "d\<lparr>withdrawal_elevations := L\<rparr> = d' \<Longrightarrow> locks d' = L"
  by auto

text \<open>Requests\<close>

lemma Create_ok:
  assumes "ElevationRepo_Create (new_elevation cfg u dst x fee rel key (clock w)) w = (Inr e, w')"
  shows "locks (wdb w') = locks (wdb w) @ [e]" and "requested cfg u dst x (clock w) e" and "same_content u dst x e"
    and "we_BroadcastTxHash e = []" "we_BroadcastAt e = None" "we_ExpiredReason e = []"
    and "\<forall>r\<in>set (locks (wdb w)). we_ID r \<noteq> we_ID e"
  using assms unfolding ElevationRepo_Create_def
  by (auto elim!: stmt_okE dest!: locks_updD simp: Let_def requested_def same_content_def new_elevation_def split: if_splits option.splits)

text \<open>The part of a request after the pending one was not found.\<close>

definition request_new ::
    "'c vault \<Rightarrow> string \<Rightarrow> string \<Rightarrow> int64 \<Rightarrow> int64 \<Rightarrow> WithdrawSignature option \<Rightarrow> string \<Rightarrow> time \<Rightarrow> ('z world_scheme, WithdrawalResult) go" where
  "request_new v u dst x fee rel key now =
     bnd (attempt (ElevationRepo_Create (new_elevation (v_cfg v) u dst x fee rel key now))) (\<lambda>r.
         case r of
           Inl err \<Rightarrow>
             bnd (attempt (ElevationRepo_FindPendingByContent u dst x)) (\<lambda>again.
             case again of Inr e \<Rightarrow> ret (elevation_result e) | Inl _ \<Rightarrow> fail err)
         | Inr e \<Rightarrow> bnd (vault_publish v u ''all'') (\<lambda>_. ret (elevation_result e)))"

text \<open>A request answers with a lock that was already pending for the same content and changes no lock, or
  stores the lock it answers with, or fails and changes no lock.\<close>

definition answered :: "VaultConfig \<Rightarrow> string \<Rightarrow> string \<Rightarrow> int64 \<Rightarrow> time \<Rightarrow> db \<Rightarrow> err + WithdrawalResult \<Rightarrow> db \<Rightarrow> bool" where
  "answered cfg u dst x now d r d' \<longleftrightarrow>
     (locks d' = locks d \<and> (case r of Inl _ \<Rightarrow> True
        | Inr res \<Rightarrow> \<exists>e\<in>set (locks d). same_content u dst x e \<and> res = elevation_result e))
     \<or> (\<exists>e. r = Inr (elevation_result e) \<and> locks d' = locks d @ [e] \<and> same_content u dst x e \<and> requested cfg u dst x now e
          \<and> (ids_unique d \<longrightarrow> does [LRequested e] d d'))"

lemma append_does:
  assumes "locks d' = locks d @ [e]" and "\<forall>r\<in>set (locks d). we_ID r \<noteq> we_ID e" and "ids_unique d"
    and "same_content u dst x e" "we_BroadcastTxHash e = []" "we_BroadcastAt e = None" "we_ExpiredReason e = []"
  shows "does [LRequested e] d d'"
proof -
  have none: "lock_table d (we_ID e) = None" using table_Some [OF assms(3)] assms(2) by (metis option.exhaust)
  have ids: "ids_unique d'" using assms(1-3) by (auto simp: ids_unique_def)
  have "lock_table d' = (lock_table d)(we_ID e \<mapsto> e)"
    unfolding lock_table_def assms(1) rows_map_def map_append map_of_append using none
    by (auto simp: lock_table_def rows_map_def map_add_def fun_eq_iff split: option.split)
  then show ?thesis using none ids assms(4-) by (simp add: does_def same_content_def)
qed

lemma request_new_answered:
  assumes run: "request_new v u dst x fee rel key (clock w) w = (r, w')"
  shows "answered (v_cfg v) u dst x (clock w) (wdb w) r (wdb w')"
proof -
  obtain c w1 where c: "ElevationRepo_Create (new_elevation (v_cfg v) u dst x fee rel key (clock w)) w = (c, w1)"
    by (cases "ElevationRepo_Create (new_elevation (v_cfg v) u dst x fee rel key (clock w)) w")
  show ?thesis
  proof (cases c)
    case (Inr e)
    then have "r = Inr (elevation_result e)" "wdb w' = wdb w1"
      using run c by (auto simp: request_new_def bnd_def attempt_eq ret_def vault_publish_def modify_def split: if_splits)
    then show ?thesis using Create_ok [OF c [unfolded Inr]] append_does by (auto simp: answered_def)
  next
    case (Inl err)
    then have same: "wdb w1 = wdb w" using c stmt_err(1) unfolding ElevationRepo_Create_def by blast
    obtain q w2 where q: "ElevationRepo_FindPendingByContent u dst x w1 = (q, w2)"
      by (cases "ElevationRepo_FindPendingByContent u dst x w1")
    then have "wdb w2 = wdb w1" "w' = w2" "r = (case q of Inr e \<Rightarrow> Inr (elevation_result e) | Inl _ \<Rightarrow> Inl err)"
      using run c Inl presD [OF repos_read2(11) q]
      by (auto simp: request_new_def bnd_def attempt_eq ret_def fail_def split: sum.splits)
    then show ?thesis
      using same FindPending_ok [of u dst x w1 _ w2] q by (auto simp: answered_def split: sum.splits)
  qed
qed

lemma requestElevation_answered:
  assumes run: "requestElevation v u dst x fee rel key w = (r, w')"
  shows "answered (v_cfg v) u dst x (clock w) (wdb w) r (wdb w')"
proof -
  obtain ex w1 where f: "ElevationRepo_FindPendingByContent u dst x w = (ex, w1)"
    by (cases "ElevationRepo_FindPendingByContent u dst x w")
  have w1: "more_same w w1" "wdb w1 = wdb w"
    using keepsD [OF more_reads(12) f] presD [OF repos_read2(11) f] by auto
  show ?thesis
  proof (cases ex)
    case (Inr e)
    then show ?thesis using run f FindPending_ok [of u dst x w e w1] w1
      by (auto simp: requestElevation_def bnd_def attempt_eq ret_def answered_def)
  next
    case (Inl err)
    let ?fresh = "case rel of Some s \<Rightarrow> if HasSignature rel then validateSignatureFresh s else ret () | None \<Rightarrow> ret ()"
    let ?pre = "bnd (hasSufficientNGN u (wrap64 (x + fee))) (\<lambda>suff. bnd (reject (\<not> suff) ErrInsufficientBalance) (\<lambda>_. ?fresh))"
    have "bnd ?pre (\<lambda>_. bnd (gets clock) (request_new v u dst x fee rel key)) w1 = (r, w')"
      using run f Inl by (simp add: requestElevation_def request_new_def [abs_def] bnd_Inr [OF attempt_eq] bnd_assoc)
    moreover have pre: "pres (=) ?pre" "keeps more_same ?pre"
      unfolding validateSignatureFresh_def
      by (intro fixed.pres_rules suff_fixed more.keeps_rules more_vault)+
    ultimately show ?thesis
    proof (cases rule: bnd_cases)
      case (stop e')
      then show ?thesis using presD [OF pre(1) stop(1)] w1 by (simp add: answered_def)
    next
      case (go y w2)
      have w2: "wdb w2 = wdb w" "clock w2 = clock w"
        using presD [OF pre(1) go(1)] keepsD [OF pre(2) go(1)] w1 by (simp_all add: more_same_def)
      have "request_new v u dst x fee rel key (clock w2) w2 = (r, w')" using go(2) by (simp add: bnd_def gets_def)
      then show ?thesis using request_new_answered [of v u dst x fee rel key w2 r w'] w2 by simp
    qed
  qed
qed

lemma withdraw_does:
  assumes run: "vault_withdraw v u dst x rel key w = (r, w')" and ids: "ids_unique (wdb w)"
  shows "\<exists>evs. asking (v_cfg v) (\<not> isl r) u dst x (clock w) evs \<and> does evs (wdb w) (wdb w')"
proof (cases "over_threshold (v_cfg v) x")
  case True
  then have "bnd (validateWithdrawalRequest (v_cfg v) u dst x) (\<lambda>fee. requestElevation v u dst x fee rel key) w = (r, w')"
    using run by (simp add: vault_withdraw_def over_threshold_def)
  then show ?thesis
  proof (cases rule: bnd_cases)
    case (stop e)
    then have "does [] (wdb w) (wdb w')" using validate_fixed [OF stop(1)] ids by (simp add: does_def)
    then show ?thesis by (intro exI [of _ "[]"]) simp
  next
    case (go fee w1)
    have "wdb w1 = wdb w" "clock w1 = clock w"
      using validate_fixed [OF go(1)] more_state(7) [OF keepsD [OF more_vault(2) go(1)]] by simp_all
    then have "answered (v_cfg v) u dst x (clock w) (wdb w) r (wdb w')"
      using requestElevation_answered [OF go(2)] by simp
    then consider "locks (wdb w') = locks (wdb w)"
      | e where "r = Inr (elevation_result e)" "requested (v_cfg v) u dst x (clock w) e" "does [LRequested e] (wdb w) (wdb w')"
      using ids unfolding answered_def by blast
    then show ?thesis
    proof cases
      case 1
      then have "does [] (wdb w) (wdb w')" using does_same ids by (simp add: locks_same_def)
      then show ?thesis by (intro exI [of _ "[]"]) simp
    next
      case (2 e)
      then show ?thesis using True by (intro exI [of _ "[LRequested e]"]) simp
    qed
  qed
next
  case False
  then have "bnd (validateWithdrawalRequest (v_cfg v) u dst x) (\<lambda>fee.
      bnd (executeWithdrawal v u dst x fee rel key) (\<lambda>txn.
            ret \<lparr>wres_Transaction = Some txn, wres_TxHash = txn_ProviderRef txn, wres_Elevation = None\<rparr>)) w = (r, w')"
    using run by (simp only: vault_withdraw_def over_threshold_def if_False if_cong)
  moreover have "pres locks_same (validateWithdrawalRequest (v_cfg v) u dst x)"
    unfolding pres_def using validate_fixed surjective_pairing by (metis locks_same_def)
  ultimately have "locks_same (wdb w) (wdb w')"
    by (elim presD [rotated]) (intro lsame.pres_rules lsame_execute)
  then have "does [] (wdb w) (wdb w')" using does_same ids by blast
  then show ?thesis by (intro exI [of _ "[]"]) simp
qed

text \<open>Cancelling\<close>

lemma cancel_does:
  assumes run: "CancelElevation u eid w = (r, w')" and ids: "ids_unique (wdb w)"
  shows "does (if isl r then [] else [LCancelled u eid]) (wdb w) (wdb w')"
proof -
  let ?hit = "\<lambda>e. we_UserID e = u \<and> we_Status e = ElevationPending"
  let ?q = "\<lambda>_ t d. Inr (count_where (\<lambda>e. we_ID e = eid \<and> ?hit e) (locks d),
      d\<lparr>withdrawal_elevations := update_where (\<lambda>e. we_ID e = eid \<and> ?hit e) (\<lambda>e. e\<lparr>we_Status := ElevationCancelled\<rparr>) (locks d)\<rparr>)
     :: err + int \<times> db"
  have "bnd (stmt ?q) (\<lambda>n. reject (n = 0) ErrNotFound) w = (r, w')"
    using run by (simp add: CancelElevation_def ElevationRepo_CancelPending_def Let_def)
  then show ?thesis
  proof (cases rule: bnd_cases)
    case (stop e)
    then show ?thesis using stmt_err(1) [OF stop(1)] ids by (simp add: does_def)
  next
    case (go n w1)
    from go(1) have n: "n = count_where (\<lambda>e. we_ID e = eid \<and> ?hit e) (locks (wdb w))"
      and w1: "locks (wdb w1) = update_where (\<lambda>e. we_ID e = eid \<and> ?hit e) (\<lambda>e. e\<lparr>we_Status := ElevationCancelled\<rparr>) (locks (wdb w))"
      by (auto elim!: stmt_okE dest!: locks_updD)
    have w': "wdb w' = wdb w1" "isl r \<longleftrightarrow> n = 0" using go(2) by (auto simp: reject_def ret_def fail_def split: if_splits)
    have "n = 0 \<longleftrightarrow> (\<forall>e. lock_table (wdb w) eid = Some e \<longrightarrow> \<not> ?hit e)"
      unfolding n using table_Some [OF ids, of eid] by (auto simp: count_where_def filter_empty_conv)
    then show ?thesis using table_update [OF w1 _ ids] w'
      by (auto simp: does_def move_lock_def split: option.splits if_splits)
  qed
qed

text \<open>Sweeping: the events of one row\<close>

definition status_at :: "string \<Rightarrow> ElevationStatus \<Rightarrow> db \<Rightarrow> bool" where
  "status_at eid st d \<longleftrightarrow> ids_unique d \<and> (\<exists>e. lock_table d eid = Some e \<and> we_Status e = st)"

lemma claim_does:
  assumes run: "ElevationRepo_ClaimForBroadcast eid w = (r, w')" and ids: "ids_unique (wdb w)"
    and due: "lock_table (wdb w) eid = Some e0" "we_ReleaseAfter e0 \<le> now"
  shows "(r = Inr True \<and> does [LClaimed eid now] (wdb w) (wdb w') \<and> status_at eid ElevationBroadcasting (wdb w'))
     \<or> (r \<noteq> Inr True \<and> does [] (wdb w) (wdb w'))"
proof (cases r)
  case (Inl e)
  then have "wdb w' = wdb w" using run unfolding ElevationRepo_ClaimForBroadcast_def by (intro stmt_err(1)) simp
  then show ?thesis using Inl ids by (simp add: does_def)
next
  case (Inr b)
  then have b: "b \<longleftrightarrow> (\<exists>e\<in>set (locks (wdb w)). we_ID e = eid \<and> we_Status e = ElevationPending)"
    and w': "locks (wdb w') = update_where (\<lambda>e. we_ID e = eid \<and> we_Status e = ElevationPending)
      (\<lambda>e. e\<lparr>we_Status := ElevationBroadcasting\<rparr>) (locks (wdb w))"
    using run unfolding ElevationRepo_ClaimForBroadcast_def by (auto simp: Let_def elim!: stmt_okE dest!: locks_updD)
  have "b \<longleftrightarrow> we_Status e0 = ElevationPending" unfolding b using table_Some [OF ids, of eid] due(1) by (metis option.inject)
  then show ?thesis using table_update [OF w' _ ids] due Inr by (auto simp: does_def move_lock_def status_at_def)
qed

lemma leave_does:
  assumes "locks d' = update_where (\<lambda>e. we_ID e = eid \<and> hit e) f (locks d)" and "\<And>e. we_ID (f e) = we_ID e"
    and "status_at eid st d" and "\<And>e. we_Status e = st \<Longrightarrow> hit e"
    and "\<And>L. lock_do ev L = move_lock st (\<lambda>_. True) f eid L"
  shows "does [ev] d d'"
  using table_update [OF assms(1,2)] assms(3-5) by (auto simp: does_def status_at_def move_lock_def)

lemma sent_does:
  assumes run: "ElevationRepo_MarkBroadcast eid h w = (r, w')" and st: "status_at eid ElevationBroadcasting (wdb w)"
  shows "wdb w' = wdb w \<or> (\<exists>t. does [LSent eid h t] (wdb w) (wdb w'))"
proof (cases r)
  case (Inl e)
  then show ?thesis using run stmt_err(1) unfolding ElevationRepo_MarkBroadcast_def by blast
next
  case (Inr u)
  then obtain t where "locks (wdb w') = update_where (\<lambda>e. we_ID e = eid \<and> True)
      (\<lambda>e. e\<lparr>we_Status := ElevationBroadcast, we_BroadcastTxHash := h, we_BroadcastAt := Some t\<rparr>) (locks (wdb w))"
    using run unfolding ElevationRepo_MarkBroadcast_def by (auto elim!: stmt_okE dest!: locks_updD)
  then have "does [LSent eid h t] (wdb w) (wdb w')" by (rule leave_does [OF _ _ st]) auto
  then show ?thesis by blast
qed

lemma unclaim_does:
  assumes run: "ElevationRepo_ReleaseClaim eid w = (r, w')" and ids: "ids_unique (wdb w)"
  shows "does [] (wdb w) (wdb w') \<or> (status_at eid ElevationBroadcasting (wdb w) \<and> does [LUnclaimed eid] (wdb w) (wdb w'))"
proof (cases r)
  case (Inl e)
  then have "wdb w' = wdb w" using run unfolding ElevationRepo_ReleaseClaim_def by (intro stmt_err(1)) simp
  then show ?thesis using ids by (simp add: does_def)
next
  case (Inr u)
  then have "locks (wdb w') = update_where (\<lambda>e. we_ID e = eid \<and> we_Status e = ElevationBroadcasting)
      (\<lambda>e. e\<lparr>we_Status := ElevationPending\<rparr>) (locks (wdb w))"
    using run unfolding ElevationRepo_ReleaseClaim_def by (auto simp: Let_def elim!: stmt_okE dest!: locks_updD split: if_splits)
  from table_update [OF this _ ids] ids show ?thesis
    by (auto simp: does_def move_lock_def status_at_def split: option.splits)
qed

text \<open>A row that is not pending can only lapse while its release is attempted.\<close>

definition lapse_step :: "string \<Rightarrow> db \<Rightarrow> db \<Rightarrow> bool" where
  "lapse_step eid d d' \<longleftrightarrow> (ids_unique d \<and> \<not> status_at eid ElevationPending d \<longrightarrow>
     locks_same d d' \<or> (\<exists>why. does [LLapsed eid why] d d'))"

lemma lapsed_status: "does [LLapsed eid why] d d' \<Longrightarrow> status_at eid ElevationExpired d'"
  by (auto simp: does_def status_at_def elim!: move_lockE split: option.splits)

lemma status_unique: "status_at eid st d \<Longrightarrow> status_at eid st' d \<Longrightarrow> st' = st"
  by (auto simp: status_at_def)

lemma same_table: "locks_same d d' \<Longrightarrow> lock_table d' = lock_table d \<and> (ids_unique d' \<longleftrightarrow> ids_unique d)"
  by (simp add: locks_same_def lock_table_def ids_unique_def)

lemma lapse_needs: "does [LLapsed eid why] d d' \<Longrightarrow> ids_unique d \<Longrightarrow> status_at eid ElevationBroadcasting d"
  by (auto simp: does_def status_at_def elim!: move_lockE split: option.splits)

interpretation lapse: db_preorder "lapse_step eid" for eid
proof
  show "lapse_step eid d d" for d by (simp add: lapse_step_def locks_same_def)
next
  fix d1 d2 d3 assume 12: "lapse_step eid d1 d2" and 23: "lapse_step eid d2 d3"
  show "lapse_step eid d1 d3"
    unfolding lapse_step_def
  proof
    assume d1: "ids_unique d1 \<and> \<not> status_at eid ElevationPending d1"
    then consider "locks_same d1 d2" | why where "does [LLapsed eid why] d1 d2" using 12 unfolding lapse_step_def by blast
    then show "locks_same d1 d3 \<or> (\<exists>why. does [LLapsed eid why] d1 d3)"
    proof cases
      case 1
      then have "lock_table d2 = lock_table d1" "ids_unique d2" "locks d2 = locks d1"
        using same_table [OF 1] d1 by (simp_all add: locks_same_def)
      then show ?thesis using d1 23 by (simp add: lapse_step_def does_def status_at_def locks_same_def)
    next
      case (2 why)
      then have ids: "ids_unique d2" and st: "status_at eid ElevationExpired d2" using lapsed_status by (auto simp: does_def)
      then have "\<not> status_at eid ElevationPending d2" "\<And>why. \<not> does [LLapsed eid why] d2 d3"
        using status_unique [OF st] lapse_needs [OF _ ids] by blast+
      then have "locks_same d2 d3" using 23 ids unfolding lapse_step_def by blast
      then have "does [LLapsed eid why] d1 d3" using 2 same_table by (simp add: does_def)
      then show ?thesis by blast
    qed
  qed
qed

lemma expire_does: "pres (lapse_step eid) (ElevationRepo_MarkExpired eid why)"
  unfolding ElevationRepo_MarkExpired_def
proof (rule lapse.pres_stmt)
  fix i t d v d'
  assume q: "Inr ((), d\<lparr>withdrawal_elevations := update_where
            (\<lambda>e. we_ID e = eid \<and> (we_Status e = ElevationPending \<or> we_Status e = ElevationBroadcasting))
            (\<lambda>e. e\<lparr>we_Status := ElevationExpired, we_ExpiredReason := why\<rparr>) (locks d)\<rparr>) = Inr (v, d')"
  then have d': "locks d' = update_where (\<lambda>e. we_ID e = eid \<and> (we_Status e = ElevationPending \<or> we_Status e = ElevationBroadcasting))
            (\<lambda>e. e\<lparr>we_Status := ElevationExpired, we_ExpiredReason := why\<rparr>) (locks d)" by auto
  show "lapse_step eid d d'"
    unfolding lapse_step_def
  proof
    assume d: "ids_unique d \<and> \<not> status_at eid ElevationPending d"
    show "locks_same d d' \<or> (\<exists>why. does [LLapsed eid why] d d')"
    proof (cases "status_at eid ElevationBroadcasting d")
      case True
      have "does [LLapsed eid why] d d'" by (rule leave_does [OF d' _ True]) auto
      then show ?thesis by blast
    next
      case False
      then have "\<forall>e\<in>set (locks d). we_ID e = eid \<longrightarrow> we_Status e \<noteq> ElevationPending \<and> we_Status e \<noteq> ElevationBroadcasting"
        using d table_Some by (auto simp: status_at_def)
      then have "locks d' = locks d" unfolding d' update_where_def by (intro map_idI) auto
      then show ?thesis by (simp add: locks_same_def)
    qed
  qed
qed

lemma lapse_if_same: "pres locks_same m \<Longrightarrow> pres (lapse_step eid) m"
  by (erule pres_mono) (simp add: lapse_step_def)

lemma release_does: "pres (lapse_step (we_ID e)) (releaseElevation v e)"
  unfolding releaseElevation_def check_live_def
  by (intro lapse.pres_rules expire_does lsame_execute [THEN lapse_if_same] lsame_side [THEN lapse_if_same]
      fixed_reads [THEN lapse.pres_fixed])

lemma finish_does:
  assumes run: "finish_release v e txn w = (r, w')" and st: "status_at (we_ID e) ElevationBroadcasting (wdb w)"
  shows "does [] (wdb w) (wdb w') \<or> (\<exists>h t. does [LSent (we_ID e) h t] (wdb w) (wdb w'))"
proof -
  obtain q w1 where m: "ElevationRepo_MarkBroadcast (we_ID e) (txn_ProviderRef txn) w = (q, w1)"
    by (cases "ElevationRepo_MarkBroadcast (we_ID e) (txn_ProviderRef txn) w")
  let ?rest = "bnd (recordSecurityEvent v (withdrawal_security_event (we_UserID e)
            ''A time-locked withdrawal was released and broadcast'' [''elevation_id'' \<mapsto> JStr (we_ID e)])) (\<lambda>_.
     vault_publish v (we_UserID e) ''all'')"
  have "?rest w1 = (r, w')" using run m by (simp add: finish_release_def bnd_def ignore_eq)
  moreover have "pres locks_same ?rest" by (intro lsame_rules lsame_side)
  ultimately have "locks_same (wdb w1) (wdb w')" by (rule presD [rotated])
  then have tail: "lock_table (wdb w') = lock_table (wdb w1)" "ids_unique (wdb w') \<longleftrightarrow> ids_unique (wdb w1)"
    using same_table by blast+
  from sent_does [OF m st] st show ?thesis by (auto simp: does_def tail status_at_def)
qed

definition sweep_one_events :: "time \<Rightarrow> string \<Rightarrow> lock_event list \<Rightarrow> bool" where
  "sweep_one_events now eid evs \<longleftrightarrow> evs = [] \<or> (\<exists>end. evs = LClaimed eid now # end
     \<and> (end = [] \<or> end = [LUnclaimed eid] \<or> (\<exists>why. end = [LLapsed eid why]) \<or> (\<exists>h t. end = [LSent eid h t])))"

lemma sweep_one_does:
  assumes run: "sweep_one v e w = (r, w')" and ids: "ids_unique (wdb w)"
    and due: "lock_table (wdb w) (we_ID e) = Some e0" "we_ReleaseAfter e0 \<le> now"
  shows "\<exists>evs. sweep_one_events now (we_ID e) evs \<and> does evs (wdb w) (wdb w')"
proof -
  let ?id = "we_ID e"
  obtain c w1 where c: "ElevationRepo_ClaimForBroadcast ?id w = (c, w1)" by (cases "ElevationRepo_ClaimForBroadcast ?id w")
  obtain q w2 where q: "releaseElevation v e w1 = (q, w2)" by (cases "releaseElevation v e w1")
  from claim_does [OF c ids due] show ?thesis
  proof (elim disjE conjE)
    assume "c \<noteq> Inr True" and none: "does [] (wdb w) (wdb w1)"
    then have "w' = w1" using run c by (simp add: sweep_one_def bnd_def attempt_eq ret_def)
    then show ?thesis using none by (auto simp: sweep_one_events_def)
  next
    assume t: "c = Inr True" and cl: "does [LClaimed ?id now] (wdb w) (wdb w1)" and st: "status_at ?id ElevationBroadcasting (wdb w1)"
    have step: ?thesis if "does end (wdb w1) (wdb w')"
      and "end = [] \<or> end = [LUnclaimed ?id] \<or> (\<exists>why. end = [LLapsed ?id why]) \<or> (\<exists>h t. end = [LSent ?id h t])" for "end"
      using does_append [OF cl that(1)] that(2) by (intro exI [of _ "LClaimed ?id now # end"]) (auto simp: sweep_one_events_def)
    have ids1: "ids_unique (wdb w1)" and np: "\<not> status_at ?id ElevationPending (wdb w1)"
      using st status_unique [OF st] by (auto simp: status_at_def)
    show ?thesis
    proof (cases q)
      case (Inr txn)
      then have same: "lock_table (wdb w2) = lock_table (wdb w1)" "ids_unique (wdb w2) \<longleftrightarrow> ids_unique (wdb w1)"
        using release_ok [of v e w1 txn w2] q by (simp_all add: lock_table_def ids_unique_def)
      have "finish_release v e txn w2 = (r, w')" using run c q t Inr by (simp add: sweep_one_def bnd_def attempt_eq)
      then have "does [] (wdb w2) (wdb w') \<or> (\<exists>h t. does [LSent ?id h t] (wdb w2) (wdb w'))"
        by (rule finish_does) (use st same in \<open>simp add: status_at_def\<close>)
      then have "does [] (wdb w1) (wdb w') \<or> (\<exists>h t. does [LSent ?id h t] (wdb w1) (wdb w'))"
        by (simp only: does_def same)
      then show ?thesis using step by blast
    next
      case (Inl err)
      then have w': "w' = w2 \<or> ignore (ElevationRepo_ReleaseClaim ?id) w2 = (r, w')"
        using run c q t by (auto simp: sweep_one_def bnd_def attempt_eq ret_def fail_def split: if_splits)
      from presD [OF release_does q] ids1 np
      consider "does [] (wdb w1) (wdb w2)" | why where "does [LLapsed ?id why] (wdb w1) (wdb w2)"
        unfolding lapse_step_def using does_same by blast
      then obtain evs where evs: "does evs (wdb w1) (wdb w2)" and kind: "evs = [] \<or> (\<exists>why. evs = [LLapsed ?id why])" by blast
      then have ids2: "ids_unique (wdb w2)" by (simp add: does_def)
      from w' show ?thesis
      proof
        assume "w' = w2"
        then show ?thesis using step evs kind by blast
      next
        assume "ignore (ElevationRepo_ReleaseClaim ?id) w2 = (r, w')"
        then obtain p where p: "ElevationRepo_ReleaseClaim ?id w2 = (p, w')"
          by (cases "ElevationRepo_ReleaseClaim ?id w2") (auto simp: ignore_eq)
        from unclaim_does [OF p ids2] show ?thesis
        proof
          assume "does [] (wdb w2) (wdb w')"
          then show ?thesis using step [of evs] does_append [OF evs] kind by fastforce
        next
          assume un: "status_at ?id ElevationBroadcasting (wdb w2) \<and> does [LUnclaimed ?id] (wdb w2) (wdb w')"
          have "evs = []" using kind evs un lapsed_status status_unique by blast
          then show ?thesis using step [of "[LUnclaimed ?id]"] does_append [OF evs] un by fastforce
        qed
      qed
    qed
  qed
qed

lemma sweep_one_sweeping: "sweep_one_events now eid evs \<Longrightarrow> sweeping now None rest \<Longrightarrow> sweeping now None (evs @ rest)"
  by (auto simp: sweep_one_events_def sweeping_any)

definition all_due :: "time \<Rightarrow> WithdrawalElevation list \<Rightarrow> db \<Rightarrow> bool" where
  "all_due now rows d \<longleftrightarrow> (\<forall>e\<in>set rows. \<exists>e0. lock_table d (we_ID e) = Some e0 \<and> we_ReleaseAfter e0 \<le> now)"

lemma due_kept: "does evs d d' \<Longrightarrow> all_due now rows d \<Longrightarrow> all_due now rows d'"
  unfolding all_due_def does_def using trace_kept content_times by (metis locks_kept_def)

lemma rows_do:
  assumes "for_range rows (sweep_one v) w = (r, w')" and "ids_unique (wdb w)" and "all_due now rows (wdb w)"
  shows "\<exists>evs. sweeping now None evs \<and> does evs (wdb w) (wdb w')"
  using assms
proof (induction rows arbitrary: w)
  case Nil
  then have "does [] (wdb w) (wdb w')" by (simp add: ret_def does_def)
  then show ?case by (intro exI [of _ "[]"]) simp
next
  case (Cons e rows)
  from Cons.prems(3) obtain e0 where due: "lock_table (wdb w) (we_ID e) = Some e0" "we_ReleaseAfter e0 \<le> now"
    by (auto simp: all_due_def)
  note one = sweep_one_does [OF _ Cons.prems(2) due]
  from Cons.prems(1) have "bnd (sweep_one v e) (\<lambda>_. for_range rows (sweep_one v)) w = (r, w')" by simp
  then show ?case
  proof (cases rule: bnd_cases)
    case (stop e')
    from one [OF stop(1)] show ?thesis using sweep_one_sweeping [of now "we_ID e" _ "[]"] by auto
  next
    case (go u w1)
    from one [OF go(1)] obtain evs where evs: "sweep_one_events now (we_ID e) evs" "does evs (wdb w) (wdb w1)" by blast
    have "ids_unique (wdb w1)" "all_due now rows (wdb w1)"
      using evs(2) due_kept [OF evs(2)] Cons.prems(3) by (auto simp: does_def all_due_def)
    from Cons.IH [OF go(2) this] obtain rest where "sweeping now None rest" "does rest (wdb w1) (wdb w')" by blast
    then show ?thesis using evs sweep_one_sweeping does_append by blast
  qed
qed

lemma sweep_does:
  assumes run: "sweepDueElevations v w = (r, w')" and ids: "ids_unique (wdb w)"
  shows "\<exists>evs. sweeping (clock w) None evs \<and> does evs (wdb w) (wdb w')"
proof -
  have idle: ?thesis if "wdb w' = wdb w" using that ids by (intro exI [of _ "[]"]) (simp add: does_def)
  show ?thesis
  proof (cases "cfg_WithdrawEnabled (v_cfg v)")
    case False
    then show ?thesis using run idle by (simp add: sweepDueElevations_def ret_def)
  next
    case True
    then have "bnd (ElevationRepo_FindDuePending (clock w)) (\<lambda>due. for_range due (sweep_one v)) w = (r, w')"
      using run by (simp add: sweepDueElevations_def bnd_def gets_def)
    then show ?thesis
    proof (cases rule: bnd_cases)
      case (stop e)
      then show ?thesis using idle stmt_err(1) unfolding ElevationRepo_FindDuePending_def by blast
    next
      case (go due w1)
      then have w1: "wdb w1 = wdb w" and due: "due = take 100 (sort_key we_ReleaseAfter (filter (\<lambda>e.
          we_Status e = ElevationPending \<and> we_ReleaseAfter e \<le> clock w) (locks (wdb w))))"
        unfolding ElevationRepo_FindDuePending_def by (auto elim!: go_elims)
      have "e \<in> set (locks (wdb w)) \<and> we_ReleaseAfter e \<le> clock w" if "e \<in> set due" for e
        using set_take_subset that unfolding due by fastforce
      then have "all_due (clock w) due (wdb w1)" using table_Some [OF ids] w1 by (auto simp: all_due_def)
      then show ?thesis using rows_do [OF go(2)] ids w1 by simp
    qed
  qed
qed

lemma finishedE:
  assumes "finished m w = (r, w')"
  obtains q where "m w = (q, w')" "isl q \<longleftrightarrow> isl r"
  using assms by (auto simp: finished_def bnd_def ret_def split: prod.splits sum.splits)

text \<open>Operations of the vault other than a withdrawal, a cancellation and a sweep leave the locks alone.\<close>

lemma lsame_run:
  assumes "\<nexists>u dst x rel key. op = VWithdraw u dst x rel key" and "\<nexists>u eid. op = VCancel u eid" and "op \<noteq> VSweep"
  shows "pres locks_same (run_vault v op)"
  using assms
  by (cases op)
    (simp_all add: lsame_scan lsame_indexer SetRateMinor_def lsame.pres_rules state_fixed [THEN lsame.pres_fixed]
      lsame_finished lsame_vault lsame_handle lsame_recovery)

lemma op_does:
  assumes run: "run_vault v op w = (r, w')" and ids: "ids_unique (wdb w)"
  shows "\<exists>evs. op_events (v_cfg v) (clock w) (\<not> isl r) op evs \<and> does evs (wdb w) (wdb w')"
proof -
  consider (withdraw) u dst x rel key where "op = VWithdraw u dst x rel key" | (cancel) u eid where "op = VCancel u eid"
    | (sweep) "op = VSweep" | (rest) "\<nexists>u dst x rel key. op = VWithdraw u dst x rel key" "\<nexists>u eid. op = VCancel u eid" "op \<noteq> VSweep"
    by blast
  then show ?thesis
  proof cases
    case withdraw
    then obtain q where "vault_withdraw v u dst x rel key w = (q, w')" "isl q \<longleftrightarrow> isl r" using run by (auto elim: finishedE)
    then show ?thesis using withdraw_does [OF _ ids] withdraw by fastforce
  next
    case cancel
    then have "CancelElevation u eid w = (r, w')" using run by simp
    from cancel_does [OF this ids] show ?thesis using cancel by (auto split: if_splits)
  next
    case sweep
    then have "sweepDueElevations v w = (r, w')" using run by simp
    from sweep_does [OF this ids] show ?thesis using sweep by simp
  next
    case rest
    have "does [] (wdb w) (wdb w')" using presD [OF lsame_run [OF rest] run] does_same ids by blast
    moreover have "op_events (v_cfg v) (clock w) (\<not> isl r) op []" using rest by (cases op) auto
    ultimately show ?thesis by blast
  qed
qed

text \<open>Runs: each vault operation with the time it ran at and whether it succeeded. Work of other components is
  any step that leaves the table alone.\<close>

inductive lock_runs :: "'c vault \<Rightarrow> db \<Rightarrow> (time \<times> bool \<times> vault_op) list \<Rightarrow> db \<Rightarrow> bool" for v :: "'c vault" and d0 :: db where
  start: "lock_runs v d0 [] d0"
| vault_step: "lock_runs v d0 ops (wdb w) \<Longrightarrow> run_vault v op (w :: 'c vworld) = (r, w') \<Longrightarrow>
     lock_runs v d0 (ops @ [(clock w, \<not> isl r, op)]) (wdb w')"
| other: "lock_runs v d0 ops d \<Longrightarrow> locks_same d d' \<Longrightarrow> lock_runs v d0 ops d'"

definition events_of :: "VaultConfig \<Rightarrow> time \<times> bool \<times> vault_op \<Rightarrow> lock_event list \<Rightarrow> bool" where
  "events_of cfg lab evs \<longleftrightarrow> (case lab of (now, ok, op) \<Rightarrow> op_events cfg now ok op evs)"

lemma runs_do:
  assumes "lock_runs v d0 ops d" and "ids_unique d0"
  shows "\<exists>evss. list_all2 (events_of (v_cfg v)) ops evss \<and> does (concat evss) d0 d"
  using assms
proof (induction rule: lock_runs.induct)
  case start
  then show ?case by (intro exI [of _ "[]"]) (simp add: does_def)
next
  case (vault_step ops w op r w')
  then obtain evss where evss: "list_all2 (events_of (v_cfg v)) ops evss" "does (concat evss) d0 (wdb w)" by blast
  then have "ids_unique (wdb w)" by (simp add: does_def)
  from op_does [OF vault_step(2) this] obtain evs where
    evs: "op_events (v_cfg v) (clock w) (\<not> isl r) op evs" "does evs (wdb w) (wdb w')" by blast
  have "does (concat (evss @ [evs])) d0 (wdb w')" using does_append [OF evss(2) evs(2)] by simp
  moreover have "list_all2 (events_of (v_cfg v)) (ops @ [(clock w, \<not> isl r, op)]) (evss @ [evs])"
    using evss(1) evs(1) by (simp add: events_of_def list_all2_appendI)
  ultimately show ?case by blast
next
  case (other ops d d')
  then show ?case using same_table by (auto simp: does_def)
qed

lemma runs_wait:
  assumes "list_all2 (events_of cfg) ops evss" and "lock_trace (concat evss) L = Some L'" and "waits cfg L"
  shows "waits cfg L'"
proof (rule trace_waits [OF assms(2) _ assms(3)])
  fix e assume "LRequested e \<in> set (concat evss)"
  then obtain evs where "evs \<in> set evss" "LRequested e \<in> set evs" by auto
  moreover then obtain lab where "events_of cfg lab evs" using assms(1) by (metis in_set_conv_nth list_all2_conv_all_nth)
  ultimately show "we_RequestedAt e + cfg_WithdrawElevationDelay cfg \<le> we_ReleaseAfter e"
    using op_requests by (auto simp: events_of_def split: prod.splits)
qed

text \<open>C17. The time locks refine their life cycle: whatever vault operations run, in whatever order and with any
  database or chain failure, the locks of a database in which their identifiers are unique change by a trace of the abstract machine in which
  each operation contributes only its own events. A request adds at most the one pending lock it was asked
  for, released the configured delay after the request, and only above the threshold; a cancellation that succeeds moves exactly the
  named lock of that user from pending to cancelled, and one that fails changes nothing, so a lock that is
  being broadcast cannot be cancelled; a sweep claims pending locks that are due at its time, and broadcasts,
  expires or gives back only the lock it has just claimed, once; every other operation leaves the locks
  alone. Hence a lock keeps the user, destination, amount, fee, key, signature and times it was created
  with, one that was broadcast, cancelled or expired never changes again, identifiers stay unique, and if
  every lock was released no earlier than the delay after its request this remains so.\<close>

theorem timelock_refines:
  assumes "lock_runs v d0 ops d" and "ids_unique d0"
  shows "(\<exists>evss. list_all2 (events_of (v_cfg v)) ops evss \<and> lock_trace (concat evss) (lock_table d0) = Some (lock_table d))
     \<and> ids_unique d \<and> locks_kept (lock_table d0) (lock_table d)
     \<and> (rows_wait (v_cfg v) d0 \<longrightarrow> rows_wait (v_cfg v) d)"
proof -
  from runs_do [OF assms] obtain evss where "list_all2 (events_of (v_cfg v)) ops evss" "does (concat evss) d0 d" by blast
  then show ?thesis using trace_kept runs_wait waits_table assms(2) unfolding does_def by blast
qed

section \<open>Waiting\<close>

lemma request_frame: "requestElevation v u dst x fee rel key w = (r, w') \<Longrightarrow> more_same w w' \<and> books_same (wdb w) (wdb w')"
  using keepsD [OF more_vault(3)] presD [OF books_vault(5)] by blast

text \<open>The elevation a request answers with is stored: it was there, or it is the new last row.\<close>

definition awaits :: "VaultConfig \<Rightarrow> string \<Rightarrow> string \<Rightarrow> int64 \<Rightarrow> time \<Rightarrow> db \<Rightarrow> db \<Rightarrow> WithdrawalElevation \<Rightarrow> bool" where
  "awaits cfg u dst x now d d' e \<longleftrightarrow>
     we_UserID e = u \<and> we_Destination e = dst \<and> we_AmountNgnMinor e = x \<and> we_Status e = ElevationPending
     \<and> e \<in> set (locks d')
     \<and> (locks d' = locks d
        \<or> (locks d' = locks d @ [e] \<and> we_RequestedAt e = now \<and> we_ReleaseAfter e = now + cfg_WithdrawElevationDelay cfg))
     \<and> (rows_wait cfg d \<longrightarrow> we_RequestedAt e + cfg_WithdrawElevationDelay cfg \<le> we_ReleaseAfter e \<and> rows_wait cfg d')"

lemma answered_awaits:
  assumes "answered cfg u dst x now d r d'"
  shows "case r of Inl _ \<Rightarrow> locks d' = locks d | Inr res \<Rightarrow> \<exists>e. res = elevation_result e \<and> awaits cfg u dst x now d d' e"
  using assms by (auto simp: answered_def awaits_def same_content_def requested_def rows_wait_def split: sum.splits)

text \<open>C18. Nothing moves while the time lock runs: a withdrawal above the threshold makes no chain call and leaves
  the books untouched whatever happens. When it fails it stores no lock. When it succeeds it answers with a
  pending elevation of the requested user, destination and amount that is in the table afterwards: one that
  was already pending, with the table unchanged, or a new last row requested now and released exactly the
  configured delay from now. If every stored row was released no earlier than the delay after its request
  (which C17 shows every vault operation to preserve), so is the row of the answer.\<close>

theorem large_withdrawal_waits:
  assumes "vault_withdraw v u dst x rel key w = (r, w')"
    and "0 < cfg_WithdrawElevationThresholdMinor (v_cfg v)" and "cfg_WithdrawElevationThresholdMinor (v_cfg v) < x"
  shows "vcalls w' = vcalls w \<and> books_same (wdb w) (wdb w')
     \<and> (case r of Inl _ \<Rightarrow> locks (wdb w') = locks (wdb w)
        | Inr res \<Rightarrow> \<exists>e. res = elevation_result e \<and> awaits (v_cfg v) u dst x (clock w) (wdb w) (wdb w') e)"
proof -
  have run: "bnd (validateWithdrawalRequest (v_cfg v) u dst x) (\<lambda>fee. requestElevation v u dst x fee rel key) w = (r, w')"
    using assms by (simp add: vault_withdraw_def)
  then show ?thesis
  proof (cases rule: bnd_cases)
    case (stop e)
    then show ?thesis
      using more_state(1) [OF keepsD [OF more_vault(2) stop(1)]] validate_fixed [OF stop(1)] by (simp add: books.refl)
  next
    case (go fee w1)
    have w1: "more_same w w1" "wdb w1 = wdb w" using keepsD [OF more_vault(2) go(1)] validate_fixed [OF go(1)] by simp_all
    have "answered (v_cfg v) u dst x (clock w) (wdb w) r (wdb w')"
      using requestElevation_answered [OF go(2)] w1 by (simp add: more_same_def)
    then show ?thesis
      using request_frame [OF go(2)] answered_awaits w1(2) more_state(1) [OF w1(1)] more_state(1) [of w1 w'] by force
  qed
qed

section \<open>Releasing\<close>

text \<open>The chain calls made for one row: none, or those of one broadcast of the row's amount to the row's destination.\<close>

definition row_calls :: "'c vault \<Rightarrow> 'z itself \<Rightarrow> WithdrawalElevation \<Rightarrow> chain_call list \<Rightarrow> bool" where
  "row_calls v T e cs \<longleftrightarrow> cs = [] \<or> (\<exists>(w :: ('c, 'z) vworld_scheme) base rel.
     withdrawUSDCBase (we_AmountNgnMinor e) (vrate w) = Some base \<and> 0 < base
     \<and> broadcast_calls v w (we_UserID e) (we_Destination e) base rel cs)"

lemma silent_check_live: "keeps silent (check_live v e)"
  unfolding check_live_def
  by (intro silent.keeps_rules silent_chain_read more_writes [THEN silent_more] more_side [THEN silent_more])

lemma silent_finish: "keeps silent (finish_release v e t)"
  unfolding finish_release_def
  by (intro silent.keeps_rules more_writes [THEN silent_more] more_side [THEN silent_more])

lemma execute_row_calls:
  fixes w :: "('c, 'z) vworld_scheme"
  assumes "executeWithdrawal v (we_UserID e) (we_Destination e) (we_AmountNgnMinor e) fee rel key w = (r, w')"
  shows "\<exists>cs. vcalls w' = vcalls w @ cs \<and> row_calls v TYPE('z) e cs"
  using execute_calls [OF assms] unfolding row_calls_def by (metis append_Nil2)

lemma release_calls:
  fixes w :: "('c, 'z) vworld_scheme"
  assumes "releaseElevation v e w = (r, w')"
  shows "\<exists>cs. vcalls w' = vcalls w @ cs \<and> row_calls v TYPE('z) e cs"
proof (cases "HasSignedIntent e")
  case False
  then show ?thesis using assms execute_row_calls by (auto simp: releaseElevation_def)
next
  case True
  then have "bnd (check_live v e) (\<lambda>_. executeWithdrawal v (we_UserID e) (we_Destination e) (we_AmountNgnMinor e) (we_FeeMinor e)
          (Some (stored_signature e)) (we_IdempotencyKey e)) w = (r, w')"
    using assms by (simp add: releaseElevation_def)
  then show ?thesis
  proof (cases rule: bnd_cases)
    case (stop e')
    then show ?thesis using keepsD [OF silent_check_live stop(1)] by (auto simp: silent_def row_calls_def)
  next
    case (go u w1)
    then show ?thesis using keepsD [OF silent_check_live go(1)] execute_row_calls [OF go(2)] by (simp add: silent_def)
  qed
qed

lemma sweep_one_calls:
  fixes w :: "('c, 'z) vworld_scheme"
  assumes "sweep_one v e w = (r, w')"
  shows "\<exists>cs. vcalls w' = vcalls w @ cs \<and> row_calls v TYPE('z) e cs"
proof -
  obtain c w1 where c: "ElevationRepo_ClaimForBroadcast (we_ID e) w = (c, w1)"
    by (cases "ElevationRepo_ClaimForBroadcast (we_ID e) w")
  have v1: "vcalls w1 = vcalls w" using more_state(1) [OF keepsD [OF more_writes(12) c]] .
  obtain q w2 where q: "releaseElevation v e w1 = (q, w2)" by (cases "releaseElevation v e w1")
  have tl: "silent w2 w'" if "c = Inr True"
  proof (cases q)
    case (Inl err)
    then have "w' = w2 \<or> ignore (ElevationRepo_ReleaseClaim (we_ID e)) w2 = (r, w')"
      using assms c q that by (auto simp: sweep_one_def bnd_def attempt_eq ret_def fail_def split: if_splits)
    then show ?thesis
      using keepsD [OF silent.keeps_ignore [OF silent_more [OF more_writes(14)]]] silent.refl by metis
  next
    case (Inr t)
    then have "finish_release v e t w2 = (r, w')" using assms c q that by (simp add: sweep_one_def bnd_def attempt_eq)
    then show ?thesis by (rule keepsD [OF silent_finish])
  qed
  show ?thesis
  proof (cases "c = Inr True")
    case False
    then have "w' = w1" using assms c by (simp add: sweep_one_def bnd_def attempt_eq ret_def)
    then show ?thesis using v1 by (auto simp: row_calls_def)
  qed (use tl v1 release_calls [OF q] in \<open>auto simp: silent_def\<close>)
qed

lemma sweep_calls:
  fixes w :: "('c, 'z) vworld_scheme"
  assumes "for_range rows (sweep_one v) w = (r, w')"
  shows "\<exists>css. length css \<le> length rows \<and> list_all2 (row_calls v TYPE('z)) (take (length css) rows) css
     \<and> vcalls w' = vcalls w @ concat css"
  using assms
proof (induction rows arbitrary: w)
  case Nil
  then show ?case by (simp add: ret_def)
next
  case (Cons e rows)
  from Cons.prems have "bnd (sweep_one v e) (\<lambda>_. for_range rows (sweep_one v)) w = (r, w')" by simp
  then show ?case
  proof (cases rule: bnd_cases)
    case (stop e')
    from sweep_one_calls [OF stop(1)] obtain cs where "vcalls w' = vcalls w @ cs" "row_calls v TYPE('z) e cs" by blast
    then show ?thesis by (intro exI [of _ "[cs]"]) simp
  next
    case (go u w1)
    from sweep_one_calls [OF go(1)] obtain cs where cs: "vcalls w1 = vcalls w @ cs" "row_calls v TYPE('z) e cs" by blast
    from Cons.IH [OF go(2)] obtain css where "length css \<le> length rows"
      "list_all2 (row_calls v TYPE('z)) (take (length css) rows) css" "vcalls w' = vcalls w1 @ concat css" by blast
    then show ?thesis using cs by (intro exI [of _ "cs # css"]) simp
  qed
qed

lemma mset_take_subseteq: "mset (take n xs) \<subseteq># mset xs"
  by (metis append_take_drop_id mset_append mset_subset_eq_add_left)

text \<open>C19. The sweeper releases only what is due: the chain calls of a sweep, under any failures, are those of at
  most one broadcast each for some of the rows that were pending and whose release time had passed when the
  sweep began, for the row's own destination and amount, at most a hundred rows; nothing is broadcast for
  any other row.\<close>

theorem sweep_only_due:
  fixes w :: "('c, 'z) vworld_scheme"
  assumes "sweepDueElevations v w = (r, w')"
  shows "\<exists>rows css. list_all2 (row_calls v TYPE('z)) rows css \<and> vcalls w' = vcalls w @ concat css \<and> length rows \<le> 100
     \<and> mset rows \<subseteq># mset (filter (\<lambda>e. we_Status e = ElevationPending \<and> we_ReleaseAfter e \<le> clock w) (locks (wdb w)))"
proof (cases "cfg_WithdrawEnabled (v_cfg v)")
  case False
  then have "w' = w" using assms by (simp add: sweepDueElevations_def ret_def)
  then show ?thesis by (intro exI [of _ "[]"]) simp
next
  case True
  let ?due = "take 100 (sort_key we_ReleaseAfter (filter (\<lambda>e. we_Status e = ElevationPending \<and> we_ReleaseAfter e \<le> clock w) (locks (wdb w))))"
  have "bnd (ElevationRepo_FindDuePending (clock w)) (\<lambda>due. for_range due (sweep_one v)) w = (r, w')"
    using assms True by (simp add: sweepDueElevations_def bnd_def gets_def)
  then show ?thesis
  proof (cases rule: bnd_cases)
    case (stop e)
    then have "vcalls w' = vcalls w" using more_state(1) [OF keepsD [OF more_reads(11) stop(1)]] by simp
    then show ?thesis by (intro exI [of _ "[]"]) simp
  next
    case (go due w1)
    have due: "due = ?due" using go(1) unfolding ElevationRepo_FindDuePending_def by (auto elim!: go_elims)
    have "vcalls w1 = vcalls w" using more_state(1) [OF keepsD [OF more_reads(11) go(1)]] .
    with sweep_calls [OF go(2)] obtain css where "list_all2 (row_calls v TYPE('z)) (take (length css) due) css"
      "vcalls w' = vcalls w @ concat css" by auto
    moreover have "mset (take (length css) due) \<subseteq># mset (filter (\<lambda>e. we_Status e = ElevationPending \<and> we_ReleaseAfter e \<le> clock w) (locks (wdb w)))"
      using mset_take_subseteq [of "min (length css) 100" "sort_key we_ReleaseAfter (filter (\<lambda>e. we_Status e = ElevationPending
        \<and> we_ReleaseAfter e \<le> clock w) (locks (wdb w)))"] by (simp add: due)
    ultimately show ?thesis by (intro exI [of _ "take (length css) due"] exI [of _ css]) (simp add: due)
  qed
qed

section \<open>Limits\<close>

definition within_limits :: "VaultConfig \<Rightarrow> ('c, 'z) vworld_scheme \<Rightarrow> string \<Rightarrow> string \<Rightarrow> int64 \<Rightarrow> bool" where
  "within_limits cfg w u dst x \<longleftrightarrow>
     cfg_Mode cfg \<noteq> ''mock'' \<and> cfg_VaultAddress cfg \<noteq> [] \<and> cfg_WithdrawEnabled cfg \<and> 0 < x
     \<and> \<not> EqualFold dst (cfg_VaultAddress cfg) \<and> (cfg_VaultContract cfg \<noteq> [] \<longrightarrow> \<not> EqualFold dst (cfg_VaultContract cfg))
     \<and> (0 < cfg_WithdrawMinMinor cfg \<longrightarrow> cfg_WithdrawMinMinor cfg \<le> x)
     \<and> (0 < cfg_WithdrawMaxMinor cfg \<longrightarrow> x \<le> cfg_WithdrawMaxMinor cfg)
     \<and> (0 < cfg_WithdrawDailyCapMinor cfg \<longrightarrow> in64 (withdrawals_since (wdb w) u (day_start (clock w)) + x) \<longrightarrow>
          withdrawals_since (wdb w) u (day_start (clock w)) + x \<le> cfg_WithdrawDailyCapMinor cfg)"

lemma check_daily_cap_ok:
  assumes "check_daily_cap cfg u x w = (Inr y, w')"
  shows "0 < cfg_WithdrawDailyCapMinor cfg \<longrightarrow> in64 (withdrawals_since (wdb w) u (day_start (clock w)) + x) \<longrightarrow>
     withdrawals_since (wdb w) u (day_start (clock w)) + x \<le> cfg_WithdrawDailyCapMinor cfg"
  using assms unfolding check_daily_cap_def LedgerRepo_SumWithdrawalsSince_def
  by (auto elim!: go_elims simp: wrap64_id split: if_splits)

lemma validate_ok:
  assumes "validateWithdrawalRequest cfg u dst x w = (Inr fee, w')"
  shows "within_limits cfg w u dst x \<and> fee = withdrawalFee cfg x"
proof -
  from assms have "\<exists>c w1 w2. attempt (CloneAddress u) w = (Inr c, w1) \<and> check_daily_cap cfg u x w1 = (Inr (), w2)
     \<and> fee = withdrawalFee cfg x \<and> cfg_Mode cfg \<noteq> ''mock'' \<and> cfg_VaultAddress cfg \<noteq> [] \<and> cfg_WithdrawEnabled cfg \<and> 0 < x
     \<and> \<not> EqualFold dst (cfg_VaultAddress cfg) \<and> (cfg_VaultContract cfg \<noteq> [] \<longrightarrow> \<not> EqualFold dst (cfg_VaultContract cfg))
     \<and> (0 < cfg_WithdrawMinMinor cfg \<longrightarrow> cfg_WithdrawMinMinor cfg \<le> x)
     \<and> (0 < cfg_WithdrawMaxMinor cfg \<longrightarrow> x \<le> cfg_WithdrawMaxMinor cfg)"
    unfolding validateWithdrawalRequest_def by (elim bnd_okE reject_okE ret_okE) auto
  then obtain c w1 w2 where c: "attempt (CloneAddress u) w = (Inr c, w1)" and cap: "check_daily_cap cfg u x w1 = (Inr (), w2)"
    and rest: "fee = withdrawalFee cfg x" "cfg_Mode cfg \<noteq> ''mock''" "cfg_VaultAddress cfg \<noteq> []" "cfg_WithdrawEnabled cfg" "0 < x"
      "\<not> EqualFold dst (cfg_VaultAddress cfg)" "cfg_VaultContract cfg \<noteq> [] \<longrightarrow> \<not> EqualFold dst (cfg_VaultContract cfg)"
      "0 < cfg_WithdrawMinMinor cfg \<longrightarrow> cfg_WithdrawMinMinor cfg \<le> x" "0 < cfg_WithdrawMaxMinor cfg \<longrightarrow> x \<le> cfg_WithdrawMaxMinor cfg"
    by blast
  from c obtain q where q: "CloneAddress u w = (q, w1)" by (rule attempt_okE)
  have "wdb w1 = wdb w" "clock w1 = clock w"
    using CloneAddress_fixed [OF q] more_state(7) [OF keepsD [OF more_side(10) q]] by simp_all
  then show ?thesis using check_daily_cap_ok [OF cap] rest by (simp add: within_limits_def)
qed

text \<open>C20. The configured limits hold for every accepted withdrawal, immediate or time-locked: withdrawals are on,
  the deployment is not the mock, the amount is positive, within the minimum and maximum, and with what the
  user already withdrew since midnight UTC within the daily cap (as long as that sum fits 64 bits), and the
  destination is neither the vault nor its contract.\<close>

theorem limits_enforced:
  assumes "vault_withdraw v u dst x rel key w = (Inr res, w')"
  shows "within_limits (v_cfg v) w u dst x"
  using assms validate_ok unfolding vault_withdraw_def by (blast elim: bnd_okE)

section \<open>Concrete runs\<close>

definition sample_lock :: WithdrawalElevation where
  "sample_lock = \<lparr>we_ID = ''e1'', we_UserID = ''u1'', we_Destination = ''0xdest'', we_AmountNgnMinor = 30000, we_FeeMinor = 0,
     we_Status = ElevationPending, we_RequestedAt = 0, we_ReleaseAfter = 500, we_BroadcastTxHash = [], we_BroadcastAt = None,
     we_IdempotencyKey = ''wk'', we_Signature = [], we_Deadline = 0, we_SignedNonce = 0, we_SignedAmountBase = 0,
     we_ExpiredReason = []\<rparr>"

definition sample_ldb :: db where
  "sample_ldb = sample_vdb\<lparr>withdrawal_elevations := [sample_lock]\<rparr>"

lemma sample_sweep:
  "\<exists>w'. sweepDueElevations open_vault (sample_vworld sample_ldb unclaimed_mock) = (Inr (), w')
     \<and> (\<exists>n dl relay. vcalls w' = [CallSignWithdraw ''0xclone'' ''0xdest'' 200000 n dl, CallWithdraw relay])
     \<and> (\<exists>e. locks (wdb w') = [e] \<and> we_Status e = ElevationBroadcast)"
proof -
  obtain f where f: "mock_SignWithdrawRelay = (\<lambda>E c a t x n d. ret (f E a t x n d))" by (rule mock_signs)
  have "case sweepDueElevations open_vault (sample_vworld sample_ldb unclaimed_mock) of
      (Inr _, w') \<Rightarrow> (\<exists>n dl relay. vcalls w' = [CallSignWithdraw ''0xclone'' ''0xdest'' 200000 n dl, CallWithdraw relay])
        \<and> (\<exists>e. locks (wdb w') = [e] \<and> we_Status e = ElevationBroadcast)
    | _ \<Rightarrow> False"
    by (simp add: sample_ldb_def sample_lock_def open_vault_def unclaimed_mock_def veval_defs eval_defs
        sweepDueElevations_def sweep_one_def ElevationRepo_FindDuePending_def ElevationRepo_ClaimForBroadcast_def
        ElevationRepo_MarkBroadcast_def update_where_def releaseElevation_def HasSignedIntent_def finish_release_def
        executeWithdrawal_def withdraw_precheck_def hasSufficientNGN_def withdraw_base_def withdrawUSDCBase_def
        broadcast_and_debit_def debit_after_broadcast_def withdraw_request_def announce_withdrawal_def
        withdrawal_security_event_def TransactionTypeWithdrawal_def broadcast_unsigned_def buildPlatformSignedRelay_def
        broadcastWithdrawal_def unix_after_def second_def minute_def mock_CloneNonce_def
        CloneAddress_def VaultCloneRepo_ByUser_def chain_read_def mock_service_def mock_CloneOwner_def err_or_def
        relay_withdrawal_def chain_do_def f mock_WithdrawFromCloneWithSig_def synthetic_hash_def)
  then show ?thesis by (auto split: prod.splits sum.splits)
qed

lemma sample_large:
  "\<exists>w' e. vault_withdraw sample_vault ''u1'' ''0xdest'' 60000 None ''wk'' (sample_vworld sample_vdb sample_mock) = (Inr (elevation_result e), w')
"
proof -
  have "case vault_withdraw sample_vault ''u1'' ''0xdest'' 60000 None ''wk'' (sample_vworld sample_vdb sample_mock) of
      (Inr res, w') \<Rightarrow> \<exists>e. res = elevation_result e | _ \<Rightarrow> False"
    by (simp add: veval_defs eval_defs vault_withdraw_def validateWithdrawalRequest_def check_daily_cap_def requestElevation_def
        hasSufficientNGN_def CloneAddress_def VaultCloneRepo_ByUser_def withdrawalFee_def ComputeWithdrawalFee_def
        ElevationRepo_FindPendingByContent_def ElevationRepo_Create_def new_elevation_def same_content_def
        TrimSpace_def elevation_result_def)
  then show ?thesis by (auto split: prod.splits sum.splits)
qed

lemma sample_vworld_simps: "wdb (sample_vworld d c) = d" "clock (sample_vworld d c) = 1000" "vcalls (sample_vworld d c) = []"
  by (simp_all add: sample_vworld_def world.defs sample_world_def)

lemma sample_ids: "ids_unique sample_ldb" "length (locks sample_ldb) = 1" "locks sample_ldb ! 0 = sample_lock"
  by (simp_all add: ids_unique_def sample_ldb_def)

theorem timelock_refines_witness:
  "\<exists>d evs. lock_runs open_vault sample_ldb [(1000, True, VSweep)] d \<and> ids_unique sample_ldb
     \<and> sweeping 1000 None evs \<and> evs \<noteq> [] \<and> lock_trace evs (lock_table sample_ldb) = Some (lock_table d)
     \<and> (\<exists>e. locks d = [e] \<and> we_Status e = ElevationBroadcast)"
proof -
  obtain w' e where run: "sweepDueElevations open_vault (sample_vworld sample_ldb unclaimed_mock) = (Inr (), w')"
    and e: "locks (wdb w') = [e]" "we_Status e = ElevationBroadcast" using sample_sweep by blast
  have base: "lock_runs open_vault sample_ldb [] (wdb (sample_vworld sample_ldb unclaimed_mock))"
    using lock_runs.start by (simp add: sample_vworld_simps)
  have runs: "lock_runs open_vault sample_ldb [(1000, True, VSweep)] (wdb w')"
    using lock_runs.vault_step [OF base, where op = VSweep and r = "Inr ()" and w' = w'] run by (simp add: sample_vworld_simps)
  obtain evss where evss: "list_all2 (events_of (v_cfg open_vault)) [(1000, True, VSweep)] evss"
    and tr: "lock_trace (concat evss) (lock_table sample_ldb) = Some (lock_table (wdb w'))" and ids: "ids_unique (wdb w')"
    using timelock_refines [OF runs sample_ids(1)] by blast
  from evss obtain evs where "evss = [evs]" "sweeping 1000 None evs" by (auto simp: list_all2_Cons1 events_of_def)
  moreover have "evs \<noteq> []" if "evss = [evs]"
    using tr that e table_Some [OF ids, of "we_ID e" e] table_Some [OF sample_ids(1), of "we_ID e" e]
    by (auto simp: sample_ldb_def sample_lock_def)
  ultimately show ?thesis using runs sample_ids(1) tr e by auto
qed

theorem sweep_only_due_witness:
  "\<exists>w' rows css. sweepDueElevations open_vault (sample_vworld sample_ldb unclaimed_mock) = (Inr (), w')
     \<and> vcalls w' \<noteq> [] \<and> vcalls w' = concat css \<and> list_all2 (row_calls open_vault TYPE(unit)) rows css
     \<and> mset rows \<subseteq># {#sample_lock#}"
proof -
  obtain w' n dl relay where run: "sweepDueElevations open_vault (sample_vworld sample_ldb unclaimed_mock) = (Inr (), w')"
    and c: "vcalls w' = [CallSignWithdraw ''0xclone'' ''0xdest'' 200000 n dl, CallWithdraw relay]" using sample_sweep by blast
  have "filter (\<lambda>e. we_Status e = ElevationPending \<and> we_ReleaseAfter e \<le> 1000) (locks sample_ldb) = [sample_lock]"
    by (simp add: sample_ldb_def sample_lock_def)
  with sweep_only_due [OF run] obtain rows css where "vcalls w' = concat css"
    "list_all2 (row_calls open_vault TYPE(unit)) rows css" "mset rows \<subseteq># {#sample_lock#}"
    by (auto simp: sample_vworld_simps)
  moreover have "vcalls w' \<noteq> []" using c by simp
  ultimately show ?thesis using run by blast
qed

theorem large_withdrawal_waits_witness:
  "\<exists>w' e. vault_withdraw sample_vault ''u1'' ''0xdest'' 60000 None ''wk'' (sample_vworld sample_vdb sample_mock)
       = (Inr (elevation_result e), w')
     \<and> 0 < cfg_WithdrawElevationThresholdMinor (v_cfg sample_vault) \<and> cfg_WithdrawElevationThresholdMinor (v_cfg sample_vault) < 60000
     \<and> vcalls w' = [] \<and> books_same sample_vdb (wdb w') \<and> locks (wdb w') = [e]
     \<and> we_ReleaseAfter e = 1000 + cfg_WithdrawElevationDelay (v_cfg sample_vault)"
proof -
  obtain w' e where run: "vault_withdraw sample_vault ''u1'' ''0xdest'' 60000 None ''wk'' (sample_vworld sample_vdb sample_mock)
      = (Inr (elevation_result e), w')" using sample_large by blast
  have cfg: "cfg_WithdrawElevationThresholdMinor (v_cfg sample_vault) = 50000" by (simp add: sample_vault_def sample_cfg_def)
  have none: "locks sample_vdb = []" by (simp add: sample_vdb_def sample_db_def empty_db_def)
  have inj: "e' = e" if "elevation_result e = elevation_result e'" for e' using that by (simp add: elevation_result_def)
  show ?thesis using large_withdrawal_waits [OF run] run cfg none
    by (auto simp: sample_vworld_simps awaits_def dest!: inj)
qed

theorem limits_enforced_witness:
  "\<exists>res w'. vault_withdraw sample_vault ''u1'' ''0xdest'' 60000 None ''wk'' (sample_vworld sample_vdb sample_mock) = (Inr res, w')
     \<and> within_limits sample_cfg (sample_vworld sample_vdb sample_mock) ''u1'' ''0xdest'' 60000"
proof -
  obtain w' e where run: "vault_withdraw sample_vault ''u1'' ''0xdest'' 60000 None ''wk'' (sample_vworld sample_vdb sample_mock)
      = (Inr (elevation_result e), w')" using sample_large by blast
  show ?thesis using limits_enforced [OF run] run by (auto simp: sample_vault_def)
qed

end
