(* ===== verification/EthClient.thy ===== *)
theory EthClient
  imports Chain
begin

text \<open>
  The implementation of the blockchain interface against an Ethereum node
  (\<open>src/backend/internal/infrastructure/blockchain/service.go\<close>, type \<open>EthereumService\<close>). The RPC client and
  the transaction signer of go-ethereum are not part of the repository: they are the record \<open>node\<close> of the
  calls the code makes, computations on a state of the node. A context is the number of times it is found
  alive before it is cancelled, so a polling loop ends when the context does.
\<close>

section \<open>The client\<close>

record LegacyTx =
  tx_Nonce :: nat
  tx_To :: "byte list"
  tx_Value :: int
  tx_Gas :: nat
  tx_GasPrice :: int
  tx_Data :: "byte list"

record Log =
  log_Address :: "byte list"
  log_Topics :: "byte list list"
  log_Data :: "byte list"
  log_TxHash :: "byte list"
  log_Index :: nat
  log_BlockNumber :: nat

record FilterQuery =
  fq_FromBlock :: nat
  fq_ToBlock :: nat
  fq_Address :: "byte list"
  fq_Topic0 :: "byte list list"

record Receipt =
  rc_BlockNumber :: nat
  rc_Status :: nat

record 'n node =
  nd_CallContract :: "byte list \<Rightarrow> byte list \<Rightarrow> ('n, byte list) go"
  nd_PendingNonceAt :: "byte list \<Rightarrow> ('n, nat) go"
  nd_SuggestGasPrice :: "('n, int) go"
  nd_SignTx :: "LegacyTx \<Rightarrow> int64 \<Rightarrow> byte list \<Rightarrow> err + byte list"
  nd_TxHash :: "byte list \<Rightarrow> byte list"
  nd_SendTransaction :: "byte list \<Rightarrow> ('n, unit) go"
  nd_FilterLogs :: "FilterQuery \<Rightarrow> ('n, Log list) go"
  nd_BlockNumber :: "('n, nat) go"
  nd_TransactionReceipt :: "byte list \<Rightarrow> ('n, Receipt option) go"

record EthereumService =
  es_chainID :: int64
  es_token :: "byte list"
  es_tokenSymbol :: string
  es_tokenDecimals :: int
  es_cloneFactory :: "byte list"
  es_signerKey :: "byte list option"
  es_from :: "byte list"

record EthereumConfig =
  ec_ChainID :: int64
  ec_StablecoinSymbol :: string
  ec_StablecoinDecimals :: int
  ec_StablecoinContract :: string
  ec_CloneFactoryContract :: string
  ec_PrivateKeyHex :: string

abbreviation zero_addr :: "byte list" where
  "zero_addr \<equiv> replicate 20 0"

definition errorf :: "string \<Rightarrow> err" where
  "errorf msg = ErrOpaque msg"

definition wrapping :: "string \<Rightarrow> ('w, 'a) go \<Rightarrow> ('w, 'a) go" where
  "wrapping msg m = on_err (Wrap msg) m"

definition canceled :: err where
  "canceled = ErrOpaque ''context canceled''"

text \<open>The result of dialling the node is an argument.\<close>

definition NewEthereumService :: "eth \<Rightarrow> err + unit \<Rightarrow> EthereumConfig \<Rightarrow> err + EthereumService" where
  "NewEthereumService E dial cfg =
     (case dial of
        Inl e \<Rightarrow> Inl (Wrap ''dial rpc'' e)
      | Inr _ \<Rightarrow>
          (let svc = \<lparr>es_chainID = ec_ChainID cfg, es_token = HexToAddress E (ec_StablecoinContract cfg),
                      es_tokenSymbol = ec_StablecoinSymbol cfg, es_tokenDecimals = ec_StablecoinDecimals cfg,
                      es_cloneFactory = (if ec_CloneFactoryContract cfg \<noteq> [] then HexToAddress E (ec_CloneFactoryContract cfg) else zero_addr),
                      es_signerKey = None, es_from = zero_addr\<rparr>
           in if ec_PrivateKeyHex cfg = [] then Inr svc
              else case HexToECDSA E (TrimPrefix (ec_PrivateKeyHex cfg) ''0x'') of
                     Inl e \<Rightarrow> Inl (Wrap ''invalid signer private key'' e)
                   | Inr key \<Rightarrow> Inr (svc\<lparr>es_signerKey := Some key, es_from := PubkeyToAddress E (PublicKey E key)\<rparr>)))"

section \<open>Call data\<close>

text \<open>\<open>big.Int.SetBytes\<close>: the big-endian value.\<close>

definition SetBytes :: "byte list \<Rightarrow> nat" where
  "SetBytes bs = foldl (\<lambda>n b. n * 256 + unat b) 0 bs"

definition encodeBalanceOf :: "eth \<Rightarrow> byte list \<Rightarrow> byte list" where
  "encodeBalanceOf E owner = FromHex E ''70a08231'' @ abiAddress owner"

definition encodeBytes32Arg :: "eth \<Rightarrow> string \<Rightarrow> byte list \<Rightarrow> byte list" where
  "encodeBytes32Arg E selector key = FromHex E selector @ abiWord key"

definition encodeCreateClone :: "eth \<Rightarrow> byte list \<Rightarrow> byte list \<Rightarrow> byte list" where
  "encodeCreateClone E key owner = FromHex E ''eada2203'' @ abiWord key @ abiAddress owner"

definition parseBytes32 :: "eth \<Rightarrow> string \<Rightarrow> err + byte list" where
  "parseBytes32 E s = (let r = FromHex E s in if length r \<noteq> 32 then Inl (errorf ''expected 32 bytes'') else Inr r)"

definition encodeTransfer :: "eth \<Rightarrow> byte list \<Rightarrow> int \<Rightarrow> byte list option" where
  "encodeTransfer E to value = map_option (\<lambda>amount. FromHex E ''a9059cbb'' @ abiAddress to @ amount) (FillBytes 32 value)"

text \<open>The signature at the end of a relay: \<open>v\<close> right-aligned in its word, then \<open>r\<close> and \<open>s\<close>.\<close>

definition sig_words :: "RelaySignature \<Rightarrow> byte list" where
  "sig_words sig = replicate 31 0 @ [sig_V sig] @ abiWord (sig_R sig) @ abiWord (sig_S sig)"

definition encode_seat :: "eth \<Rightarrow> string \<Rightarrow> string \<Rightarrow> nat \<Rightarrow> int \<Rightarrow> RelaySignature \<Rightarrow> byte list option" where
  "encode_seat E selector address nonce deadline sig =
     (case (FillBytes 32 (int nonce), FillBytes 32 deadline) of
        (Some n, Some dl) \<Rightarrow> Some (FromHex E selector @ abiAddress (HexToAddress E address) @ n @ dl @ sig_words sig)
      | _ \<Rightarrow> None)"

definition encodeSetRecoveryBySig :: "eth \<Rightarrow> RelayRecoverySet \<Rightarrow> byte list option" where
  "encodeSetRecoveryBySig E relay =
     encode_seat E ''b2059d18'' (rs_RecoveryAddress relay) (rs_Nonce relay) (rs_Deadline relay) (rs_Sig relay)"

definition encodeTransferOwnershipBySig :: "eth \<Rightarrow> RelayOwnershipTransfer \<Rightarrow> byte list option" where
  "encodeTransferOwnershipBySig E relay =
     encode_seat E ''6db464f1'' (ro_NewOwner relay) (ro_Nonce relay) (ro_Deadline relay) (ro_Sig relay)"

definition encodeWithdrawWithSig :: "eth \<Rightarrow> WithdrawRelay \<Rightarrow> byte list option" where
  "encodeWithdrawWithSig E relay =
     (case (FillBytes 32 (rel_Amount relay), FillBytes 32 (int (rel_Nonce relay)), FillBytes 32 (rel_Deadline relay)) of
        (Some amount, Some nonce, Some deadline) \<Rightarrow>
          Some (FromHex E ''4a5b1f51'' @ abiAddress (HexToAddress E (rel_To relay)) @ amount @ nonce @ deadline @ sig_words (rel_Sig relay))
      | _ \<Rightarrow> None)"

definition encoded :: "byte list option \<Rightarrow> ('w, byte list) go" where
  "encoded d = (case d of None \<Rightarrow> fail (ErrPanic ''math/big: buffer too small'') | Some bs \<Rightarrow> ret bs)"

section \<open>Amounts\<close>

text \<open>\<open>big.Int.SetString(s, 10)\<close>: an optional sign and at least one digit.\<close>

definition SetString10 :: "string \<Rightarrow> int option" where
  "SetString10 s =
     (let neg = (s \<noteq> [] \<and> hd s = CHR ''-'');
          ds = (if s \<noteq> [] \<and> (hd s = CHR ''-'' \<or> hd s = CHR ''+'') then tl s else s)
      in if ds = [] \<or> \<not> list_all is_digit ds then None
         else Some (if neg then - int (dec_val ds) else int (dec_val ds)))"

text \<open>\<open>strings.SplitN(s, ".", 2)\<close>\<close>

definition split_point :: "string \<Rightarrow> string \<times> string" where
  "split_point s = (takeWhile (\<lambda>c. c \<noteq> CHR ''.'') s, drop 1 (dropWhile (\<lambda>c. c \<noteq> CHR ''.'') s))"

definition parseMajorToBase :: "string \<Rightarrow> int \<Rightarrow> err + int" where
  "parseMajorToBase s0 decimals =
     (if s0 = [] then Inl (errorf ''empty amount'')
      else
        (let neg = (hd s0 = CHR ''-''); s = (if neg then tl s0 else s0); whole = fst (split_point s); frac = snd (split_point s);
             whole = (if whole = [] then ''0'' else whole)
         in if int (length frac) > decimals then Inl (errorf ''amount has too many decimal places'')
            else case SetString10 (whole @ frac @ replicate (nat (decimals - int (length frac))) (digit_char 0)) of
                   None \<Rightarrow> Inl (errorf ''invalid amount'')
                 | Some val \<Rightarrow> if neg then Inl (errorf ''negative amount'') else Inr val))"

section \<open>Transactions\<close>

definition sign_and_send :: "eth \<Rightarrow> 'n node \<Rightarrow> EthereumService \<Rightarrow> nat \<Rightarrow> byte list \<Rightarrow> byte list option \<Rightarrow> ('n, string) go" where
  "sign_and_send E N svc gas to data =
     bnd (wrapping ''get nonce'' (nd_PendingNonceAt N (es_from svc))) (\<lambda>nonce.
     bnd (wrapping ''suggest gas price'' (nd_SuggestGasPrice N)) (\<lambda>gasPrice.
     bnd (encoded data) (\<lambda>bs.
     case es_signerKey svc of
       None \<Rightarrow> fail (ErrPanic ''nil signer key'')
     | Some key \<Rightarrow>
         bnd (wrapping ''sign tx'' (lift (nd_SignTx N \<lparr>tx_Nonce = nonce, tx_To = to, tx_Value = 0, tx_Gas = gas,
                tx_GasPrice = gasPrice, tx_Data = bs\<rparr> (es_chainID svc) key))) (\<lambda>signed.
         bnd (wrapping ''send tx'' (nd_SendTransaction N signed)) (\<lambda>_.
         ret (hash_Hex E (nd_TxHash N signed)))))))"

definition sendTx :: "eth \<Rightarrow> 'n node \<Rightarrow> EthereumService \<Rightarrow> byte list \<Rightarrow> byte list \<Rightarrow> ('n, string) go" where
  "sendTx E N svc to data = sign_and_send E N svc 300000 to (Some data)"

definition TransferToken :: "eth \<Rightarrow> 'n node \<Rightarrow> EthereumService \<Rightarrow> string \<Rightarrow> string \<Rightarrow> ('n, string) go" where
  "TransferToken E N svc recipient amount =
     bnd (reject (es_signerKey svc = None) (errorf ''signer key not configured'')) (\<lambda>_.
     bnd (reject (\<not> IsHexAddress E recipient) (errorf ''invalid recipient address'')) (\<lambda>_.
     bnd (lift (parseMajorToBase (TrimSpace amount) (es_tokenDecimals svc))) (\<lambda>value.
     sign_and_send E N svc 65000 (es_token svc) (encodeTransfer E (HexToAddress E recipient) value))))"

section \<open>Clones\<close>

definition VaultAddress :: "eth \<Rightarrow> EthereumService \<Rightarrow> string" where
  "VaultAddress E svc = (if es_signerKey svc = None then [] else addr_Hex E (es_from svc))"

definition CloneFactoryAddress :: "eth \<Rightarrow> EthereumService \<Rightarrow> string" where
  "CloneFactoryAddress E svc = (if es_cloneFactory svc = zero_addr then [] else addr_Hex E (es_cloneFactory svc))"

definition factory_call :: "eth \<Rightarrow> 'n node \<Rightarrow> EthereumService \<Rightarrow> string \<Rightarrow> string \<Rightarrow> string \<Rightarrow> ('n, byte list) go" where
  "factory_call E N svc selector what userKey =
     bnd (reject (es_cloneFactory svc = zero_addr) (errorf ''clone factory not configured'')) (\<lambda>_.
     bnd (wrapping ''invalid user key'' (lift (parseBytes32 E userKey))) (\<lambda>key.
     bnd (wrapping what (nd_CallContract N (es_cloneFactory svc) (encodeBytes32Arg E selector key))) (\<lambda>out.
     ret (BytesToAddress E out))))"

definition PredictClone :: "eth \<Rightarrow> 'n node \<Rightarrow> EthereumService \<Rightarrow> string \<Rightarrow> ('n, string) go" where
  "PredictClone E N svc userKey =
     bnd (factory_call E N svc ''0e787cce'' ''predict clone'' userKey) (\<lambda>a. ret (addr_Hex E a))"

definition CloneByUserKey :: "eth \<Rightarrow> 'n node \<Rightarrow> EthereumService \<Rightarrow> string \<Rightarrow> ('n, string) go" where
  "CloneByUserKey E N svc userKey =
     bnd (factory_call E N svc ''416fe6ad'' ''lookup clone'' userKey) (\<lambda>a. ret (if a = zero_addr then [] else addr_Hex E a))"

definition DeployClone :: "eth \<Rightarrow> 'n node \<Rightarrow> EthereumService \<Rightarrow> string \<Rightarrow> string \<Rightarrow> ('n, string \<times> string) go" where
  "DeployClone E N svc userKey owner =
     bnd (reject (es_cloneFactory svc = zero_addr) (errorf ''clone factory not configured'')) (\<lambda>_.
     bnd (reject (es_signerKey svc = None) (errorf ''signer key not configured'')) (\<lambda>_.
     bnd (wrapping ''invalid user key'' (lift (parseBytes32 E userKey))) (\<lambda>key.
     bnd (reject (\<not> IsHexAddress E owner) (errorf ''invalid owner address'')) (\<lambda>_.
     bnd (PredictClone E N svc userKey) (\<lambda>predicted.
     bnd (wrapping ''deploy clone'' (sendTx E N svc (es_cloneFactory svc) (encodeCreateClone E key (HexToAddress E owner)))) (\<lambda>txHash.
     ret (txHash, predicted)))))))"

text \<open>A view of a clone without arguments, and the two kinds of result the code reads from one.\<close>

definition clone_view :: "eth \<Rightarrow> 'n node \<Rightarrow> string \<Rightarrow> string \<Rightarrow> string \<Rightarrow> ('n, byte list) go" where
  "clone_view E N selector what clone =
     bnd (reject (\<not> IsHexAddress E clone) (errorf ''invalid clone address'')) (\<lambda>_.
     wrapping what (nd_CallContract N (HexToAddress E clone) (FromHex E selector)))"

definition clone_uint :: "eth \<Rightarrow> 'n node \<Rightarrow> string \<Rightarrow> string \<Rightarrow> string \<Rightarrow> ('n, nat) go" where
  "clone_uint E N selector what clone =
     bnd (clone_view E N selector what clone) (\<lambda>out.
     bnd (reject (18446744073709551616 \<le> SetBytes out) (errorf (what @ '' overflows uint64''))) (\<lambda>_. ret (SetBytes out)))"

definition CloneOwner :: "eth \<Rightarrow> 'n node \<Rightarrow> string \<Rightarrow> ('n, string) go" where
  "CloneOwner E N clone = bnd (clone_view E N ''efd6bab0'' ''owner of clone'' clone) (\<lambda>out. ret (addr_Hex E (BytesToAddress E out)))"

definition CloneNonce :: "eth \<Rightarrow> 'n node \<Rightarrow> string \<Rightarrow> ('n, nat) go" where
  "CloneNonce E N clone = clone_uint E N ''affed0e0'' ''clone nonce'' clone"

definition CloneRecoveryAddress :: "eth \<Rightarrow> 'n node \<Rightarrow> string \<Rightarrow> ('n, string) go" where
  "CloneRecoveryAddress E N clone =
     bnd (clone_view E N ''710eb26c'' ''clone recovery address'' clone) (\<lambda>out.
     ret (if BytesToAddress E out = zero_addr then [] else addr_Hex E (BytesToAddress E out)))"

definition CloneRecoveryDelay :: "eth \<Rightarrow> 'n node \<Rightarrow> string \<Rightarrow> ('n, nat) go" where
  "CloneRecoveryDelay E N clone = clone_uint E N ''3758ca7a'' ''clone recovery delay'' clone"

definition CloneRecoveryRequestedAt :: "eth \<Rightarrow> 'n node \<Rightarrow> string \<Rightarrow> ('n, nat) go" where
  "CloneRecoveryRequestedAt E N clone = clone_uint E N ''872eaf49'' ''clone recovery requested at'' clone"

section \<open>Relays\<close>

definition relay_call :: "eth \<Rightarrow> 'n node \<Rightarrow> EthereumService \<Rightarrow> string \<Rightarrow> string \<Rightarrow> byte list option \<Rightarrow> ('n, string) go" where
  "relay_call E N svc what clone data =
     bnd (encoded data) (\<lambda>bs. wrapping what (sendTx E N svc (HexToAddress E clone) bs))"

definition eth_SetRecoveryAddressBySig :: "eth \<Rightarrow> 'n node \<Rightarrow> EthereumService \<Rightarrow> RelayRecoverySet \<Rightarrow> ('n, string) go" where
  "eth_SetRecoveryAddressBySig E N svc relay =
     bnd (reject (\<not> IsHexAddress E (rs_Clone relay) \<or> \<not> IsHexAddress E (rs_RecoveryAddress relay)) (errorf ''invalid relay address'')) (\<lambda>_.
     relay_call E N svc ''relay setRecoveryAddressBySig'' (rs_Clone relay) (encodeSetRecoveryBySig E relay))"

definition TransferOwnershipBySig :: "eth \<Rightarrow> 'n node \<Rightarrow> EthereumService \<Rightarrow> RelayOwnershipTransfer \<Rightarrow> ('n, string) go" where
  "TransferOwnershipBySig E N svc relay =
     bnd (reject (\<not> IsHexAddress E (ro_Clone relay) \<or> \<not> IsHexAddress E (ro_NewOwner relay)) (errorf ''invalid relay address'')) (\<lambda>_.
     relay_call E N svc ''relay transferOwnershipBySig'' (ro_Clone relay) (encodeTransferOwnershipBySig E relay))"

definition WithdrawFromCloneWithSig :: "eth \<Rightarrow> 'n node \<Rightarrow> EthereumService \<Rightarrow> WithdrawRelay \<Rightarrow> ('n, string) go" where
  "WithdrawFromCloneWithSig E N svc relay =
     bnd (reject (\<not> IsHexAddress E (rel_Clone relay) \<or> \<not> IsHexAddress E (rel_To relay)) (errorf ''invalid relay address'')) (\<lambda>_.
     bnd (reject (rel_Amount relay \<le> 0) (errorf ''invalid relay amount'')) (\<lambda>_.
     relay_call E N svc ''relay withdrawWithSig'' (rel_Clone relay) (encodeWithdrawWithSig E relay)))"

text \<open>The platform key's signature over a digest, split for a relay.\<close>

definition platform_signature :: "eth \<Rightarrow> byte list option \<Rightarrow> byte list \<Rightarrow> ('n, RelaySignature) go" where
  "platform_signature E dig key =
     bnd (encoded dig) (\<lambda>digest.
     bnd (lift (SignDigest E digest key)) (\<lambda>sig.
     bnd (lift (ParseSignature E (Bytes2Hex E sig))) (\<lambda>(v, r, s). ret \<lparr>sig_V = v, sig_R = r, sig_S = s\<rparr>)))"

definition SignOwnershipTransfer ::
    "eth \<Rightarrow> EthereumService \<Rightarrow> int64 \<Rightarrow> string \<Rightarrow> string \<Rightarrow> nat \<Rightarrow> int \<Rightarrow> ('n, RelaySignature) go" where
  "SignOwnershipTransfer E svc chainID clone newOwner nonce deadline =
     (case es_signerKey svc of
        None \<Rightarrow> fail (errorf ''signer key not configured'')
      | Some key \<Rightarrow>
          bnd (reject (\<not> IsHexAddress E clone \<or> \<not> IsHexAddress E newOwner) (errorf ''invalid relay address'')) (\<lambda>_.
          platform_signature E (TransferOwnershipDigest E chainID (HexToAddress E clone)
            \<lparr>or_NewOwner = HexToAddress E newOwner, or_Nonce = nonce, or_Deadline = deadline\<rparr>) key))"

definition SignWithdrawRelay ::
    "eth \<Rightarrow> EthereumService \<Rightarrow> int64 \<Rightarrow> string \<Rightarrow> string \<Rightarrow> int \<Rightarrow> nat \<Rightarrow> int \<Rightarrow> ('n, RelaySignature) go" where
  "SignWithdrawRelay E svc chainID clone to amountBase nonce deadline =
     (case es_signerKey svc of
        None \<Rightarrow> fail (errorf ''signer key not configured'')
      | Some key \<Rightarrow>
          bnd (reject (\<not> IsHexAddress E clone \<or> \<not> IsHexAddress E to) (errorf ''invalid relay address'')) (\<lambda>_.
          bnd (reject (amountBase \<le> 0) (errorf ''invalid relay amount'')) (\<lambda>_.
          platform_signature E (WithdrawDigest E chainID (HexToAddress E clone)
            \<lparr>wr_To = HexToAddress E to, wr_Amount = amountBase, wr_Nonce = nonce, wr_Deadline = deadline\<rparr>) key)))"

section \<open>Logs\<close>

definition LatestBlock :: "'n node \<Rightarrow> ('n, nat) go" where
  "LatestBlock N = wrapping ''get latest block'' (nd_BlockNumber N)"

definition maxLogsBlockRange :: nat where
  "maxLogsBlockRange = 10"

text \<open>The end of the slice that begins at \<open>start\<close>; block numbers are \<open>uint64\<close>.\<close>

definition slice_end :: "nat \<Rightarrow> nat \<Rightarrow> nat" where
  "slice_end start toBlock =
     (let e = (start + maxLogsBlockRange - 1) mod 18446744073709551616 in if e > toBlock then toBlock else e)"

text \<open>The loop both log scans share: one query per slice, decoded and appended.\<close>

fun scan_slices :: "'n node \<Rightarrow> string \<Rightarrow> (nat \<Rightarrow> nat \<Rightarrow> FilterQuery) \<Rightarrow> (Log list \<Rightarrow> 'a list) \<Rightarrow> nat \<Rightarrow> nat \<Rightarrow> nat \<Rightarrow> 'a list \<Rightarrow> ('n, 'a list) go" where
  "scan_slices N what query decode alive start toBlock out =
     (if start > toBlock then ret out
      else case alive of
        0 \<Rightarrow> fail canceled
      | Suc alive \<Rightarrow>
          (let e = slice_end start toBlock in
           bnd (wrapping what (nd_FilterLogs N (query start e))) (\<lambda>logs.
           if e \<ge> toBlock then ret (out @ decode logs)
           else scan_slices N what query decode alive ((e + 1) mod 18446744073709551616) toBlock (out @ decode logs))))"

declare scan_slices.simps [simp del]

definition decode_transfer :: "eth \<Rightarrow> Log \<Rightarrow> TokenTransfer" where
  "decode_transfer E l =
     \<lparr>tt_From = addr_Hex E (HexToAddress E (hash_Hex E (log_Topics l ! 1))),
      tt_To = addr_Hex E (HexToAddress E (hash_Hex E (log_Topics l ! 2))),
      tt_Value = Some (int (SetBytes (take 32 (log_Data l)))), tt_TxHash = hash_Hex E (log_TxHash l),
      tt_LogIndex = log_Index l, tt_BlockNumber = log_BlockNumber l\<rparr>"

definition decode_transfers :: "eth \<Rightarrow> string \<Rightarrow> Log list \<Rightarrow> TokenTransfer list" where
  "decode_transfers E address logs =
     filter (\<lambda>t. address = [] \<or> EqualFold (tt_To t) address)
       (map (decode_transfer E) (filter (\<lambda>l. \<not> (length (log_Topics l) < 3 \<or> length (log_Data l) < 32)) logs))"

definition transferTopic :: string where
  "transferTopic = ''0xddf252ad1be2c89b69c2b068fc378daa952ba7f163c4a11628f55a4df523b3ef''"

definition FilterTokenTransfers :: "eth \<Rightarrow> 'n node \<Rightarrow> EthereumService \<Rightarrow> nat \<Rightarrow> nat \<Rightarrow> nat \<Rightarrow> string \<Rightarrow> ('n, TokenTransfer list) go" where
  "FilterTokenTransfers E N svc alive fromBlock toBlock address =
     scan_slices N ''filter token transfers''
       (\<lambda>s e. \<lparr>fq_FromBlock = s, fq_ToBlock = e, fq_Address = es_token svc, fq_Topic0 = [HexToHash E transferTopic]\<rparr>)
       (decode_transfers E address) alive fromBlock toBlock []"

definition legacyTopic :: string where
  "legacyTopic = ''0x87d4c0b5e30d6808bc8a94ba1c4d839b29d664151551a31753387ee9ef48429b''"

definition privateTopic :: string where
  "privateTopic = ''0x7a4336eceb7d2f2153fd7bb67a16180b75c5a3e7b373e843abb237e2e9c05a8e''"

definition decodeVaultDeposit :: "eth \<Rightarrow> Log \<Rightarrow> VaultDeposit option" where
  "decodeVaultDeposit E l =
     (let d = \<lparr>vd_Commitment = hash_Hex E (log_Topics l ! 1), vd_User = [], vd_Amount = Some (int (SetBytes (take 32 (log_Data l)))),
               vd_TxHash = hash_Hex E (log_TxHash l), vd_LogIndex = log_Index l, vd_BlockNumber = log_BlockNumber l\<rparr>
      in if log_Topics l ! 0 = HexToHash E legacyTopic
         then if length (log_Topics l) < 3 then None
              else Some (d\<lparr>vd_User := addr_Hex E (HexToAddress E (hash_Hex E (log_Topics l ! 2)))\<rparr>)
         else Some d)"

definition decode_deposits :: "eth \<Rightarrow> Log list \<Rightarrow> VaultDeposit list" where
  "decode_deposits E logs =
     List.map_filter (decodeVaultDeposit E) (filter (\<lambda>l. \<not> (length (log_Topics l) < 2 \<or> length (log_Data l) < 32)) logs)"

definition FilterVaultDeposits :: "eth \<Rightarrow> 'n node \<Rightarrow> nat \<Rightarrow> nat \<Rightarrow> nat \<Rightarrow> string \<Rightarrow> ('n, VaultDeposit list) go" where
  "FilterVaultDeposits E N alive fromBlock toBlock vaultContract =
     (if vaultContract = [] then ret []
      else scan_slices N ''filter vault deposits''
        (\<lambda>s e. \<lparr>fq_FromBlock = s, fq_ToBlock = e, fq_Address = HexToAddress E vaultContract,
               fq_Topic0 = [HexToHash E legacyTopic, HexToHash E privateTopic]\<rparr>)
        (decode_deposits E) alive fromBlock toBlock [])"

section \<open>Confirmations\<close>

text \<open>The status, the confirmations and the block; \<open>None\<close> as receipt is \<open>ethereum.NotFound\<close>.\<close>

definition confirmation_count :: "nat \<Rightarrow> nat \<Rightarrow> int" where
  "confirmation_count current inBlock =
     (let conf = wrap64 (wrap64 (wrap64 (int current) - wrap64 (int inBlock)) + 1) in if conf < 0 then 0 else conf)"

fun WaitForConfirmation :: "eth \<Rightarrow> 'n node \<Rightarrow> nat \<Rightarrow> string \<Rightarrow> int \<Rightarrow> ('n, string \<times> int \<times> nat) go" where
  "WaitForConfirmation E N 0 txHash confirmations = fail canceled"
| "WaitForConfirmation E N (Suc alive) txHash confirmations =
     bnd (wrapping ''check receipt'' (nd_TransactionReceipt N (HexToHash E txHash))) (\<lambda>receipt.
     case receipt of
       None \<Rightarrow> WaitForConfirmation E N alive txHash confirmations
     | Some rc \<Rightarrow>
         bnd (wrapping ''get block number'' (nd_BlockNumber N)) (\<lambda>current.
         let conf = confirmation_count current (rc_BlockNumber rc);
             status = (if rc_Status rc = 0 then ''reverted'' else ''success'')
         in if conf \<ge> confirmations \<or> status = ''reverted'' then ret (status, conf, rc_BlockNumber rc)
            else WaitForConfirmation E N alive txHash confirmations))"

section \<open>The interface\<close>

definition eth_service :: "eth \<Rightarrow> 'n node \<Rightarrow> EthereumService \<Rightarrow> nat \<Rightarrow> 'n chain_service" where
  "eth_service E N svc alive =
     \<lparr>ch_TransferToken = TransferToken E N svc, ch_CloneByUserKey = CloneByUserKey E N svc,
      ch_DeployClone = DeployClone E N svc, ch_CloneFactoryAddress = (\<lambda>_. CloneFactoryAddress E svc),
      ch_FilterTokenTransfers = FilterTokenTransfers E N svc alive, ch_FilterVaultDeposits = FilterVaultDeposits E N alive,
      ch_LatestBlock = LatestBlock N, ch_CloneOwner = CloneOwner E N, ch_CloneNonce = CloneNonce E N,
      ch_SignWithdrawRelay = SignWithdrawRelay E svc, ch_WithdrawFromCloneWithSig = WithdrawFromCloneWithSig E N svc,
      ch_CloneRecoveryAddress = CloneRecoveryAddress E N, ch_CloneRecoveryDelay = CloneRecoveryDelay E N,
      ch_CloneRecoveryRequestedAt = CloneRecoveryRequestedAt E N,
      ch_SetRecoveryAddressBySig = eth_SetRecoveryAddressBySig E N svc,
      ch_TransferOwnershipBySig = TransferOwnershipBySig E N svc, ch_SignOwnershipTransfer = SignOwnershipTransfer E svc\<rparr>"

text \<open>Which service a mode gives: the seeded mock, or the client of a node.\<close>

definition NewFromConfig :: "eth \<Rightarrow> err + unit \<Rightarrow> string \<Rightarrow> EthereumConfig \<Rightarrow> (nat \<Rightarrow> nat) \<Rightarrow> err + (mock_chain + EthereumService)" where
  "NewFromConfig E dial mode cfg clk =
     (if mode = [] \<or> mode = ''mock'' then
        Inr (Inl (SetCloneFactory (if ec_CloneFactoryContract cfg = []
                    then mockPseudoAddress E (''globmint:mock-vault-factory:'' @ ec_StablecoinSymbol cfg) else ec_CloneFactoryContract cfg)
                  (NewMockBlockchainService clk)))
      else map_sum id Inr (NewEthereumService E dial cfg))"

end
