(* ===== verification/EthProps.thy ===== *)
theory EthProps
  imports EthClient Vault
begin

text \<open>
  Properties of the Ethereum client: the sliced log scan terminates and finds exactly the events of the
  range, what a relay sends to a contract is what its signature covers, and the decimal amount of a legacy
  transfer is read back as the amount it was printed from.
\<close>

section \<open>The log scan\<close>

text \<open>\<open>eth_getLogs\<close>: the logs of the block range from the address with one of the topics, in block order.\<close>

definition matching :: "FilterQuery \<Rightarrow> Log list \<Rightarrow> Log list" where
  "matching q logs = filter (\<lambda>l. fq_FromBlock q \<le> log_BlockNumber l \<and> log_BlockNumber l \<le> fq_ToBlock q
     \<and> log_Address l = fq_Address q \<and> log_Topics l \<noteq> [] \<and> hd (log_Topics l) \<in> set (fq_Topic0 q)) logs"

lemma filter_split:
  fixes f :: "'a \<Rightarrow> nat"
  assumes "sorted (map f xs)" and "a \<le> b" and "b \<le> c"
  shows "filter (\<lambda>x. a \<le> f x \<and> f x \<le> b \<and> P x) xs @ filter (\<lambda>x. Suc b \<le> f x \<and> f x \<le> c \<and> P x) xs
       = filter (\<lambda>x. a \<le> f x \<and> f x \<le> c \<and> P x) xs"
  using assms(1)
proof (induction xs)
  case (Cons x xs)
  show ?case
  proof (cases "f x \<le> b")
    case True
    then show ?thesis using Cons assms by auto
  next
    case False
    have "\<forall>y\<in>set xs. f x \<le> f y" using Cons.prems by simp
    then have "filter (\<lambda>x. a \<le> f x \<and> f x \<le> b \<and> P x) (x # xs) = []" using False by (auto simp: filter_empty_conv)
    moreover have "filter (\<lambda>x. a \<le> f x \<and> f x \<le> b \<and> P x) xs = []" using False \<open>\<forall>y\<in>set xs. f x \<le> f y\<close> by (auto simp: filter_empty_conv)
    ultimately show ?thesis using Cons False assms by auto
  qed
qed simp

lemma scan_slices_complete:
  assumes node: "\<And>q n. nd_FilterLogs N q n = (Inr (matching q logs), n)" and sorted: "sorted (map log_BlockNumber logs)"
    and query: "\<And>s e. query s e = \<lparr>fq_FromBlock = s, fq_ToBlock = e, fq_Address = a, fq_Topic0 = ts\<rparr>"
    and decode: "decode [] = []" "\<And>xs ys. decode (xs @ ys) = decode xs @ decode ys"
    and fits: "toBlock + 10 \<le> 18446744073709551616"
  shows "toBlock < start + 10 * alive \<Longrightarrow>
    scan_slices N what query decode alive start toBlock out n = (Inr (out @ decode (matching (query start toBlock) logs)), n)"
proof (induction alive arbitrary: start out)
  case 0
  then have "matching (query start toBlock) logs = []" by (auto simp: matching_def query filter_empty_conv)
  then show ?case using 0 decode by (simp add: scan_slices.simps [of _ _ _ _ 0] ret_def)
next
  case (Suc alive)
  show ?case
  proof (cases "start > toBlock")
    case True
    then have "matching (query start toBlock) logs = []" by (auto simp: matching_def query filter_empty_conv)
    then show ?thesis using True decode by (subst scan_slices.simps) (simp add: ret_def)
  next
    case le: False
    have e: "slice_end start toBlock = min (start + 9) toBlock"
      using le fits by (simp add: slice_end_def maxLogsBlockRange_def min_def)
    show ?thesis
    proof (cases "toBlock \<le> start + 9")
      case True
      then show ?thesis using le e
        by (subst scan_slices.simps) (simp add: Let_def bnd_def wrapping_def on_err_def node ret_def)
    next
      case False
      then have nxt: "(slice_end start toBlock + 1) mod 18446744073709551616 = start + 10" using e fits by simp
      have split: "matching (query start (start + 9)) logs @ matching (query (start + 10) toBlock) logs = matching (query start toBlock) logs"
        using filter_split [OF sorted, of start "start + 9" toBlock "\<lambda>l. log_Address l = a \<and> log_Topics l \<noteq> [] \<and> hd (log_Topics l) \<in> set ts"] False
        by (simp add: matching_def query add.commute)
      have "scan_slices N what query decode alive (start + 10) toBlock (out @ decode (matching (query start (start + 9)) logs)) n
          = (Inr ((out @ decode (matching (query start (start + 9)) logs)) @ decode (matching (query (start + 10) toBlock) logs)), n)"
        by (rule Suc.IH) (use Suc.prems False in simp)
      then have "scan_slices N what query decode alive (start + 10) toBlock (out @ decode (matching (query start (start + 9)) logs)) n
          = (Inr (out @ decode (matching (query start toBlock) logs)), n)"
        by (simp add: split [symmetric] decode(2))
      moreover have "slice_end start toBlock = start + 9" "\<not> slice_end start toBlock \<ge> toBlock" using e False by simp_all
      ultimately show ?thesis using le nxt
        by (subst scan_slices.simps) (simp add: Let_def bnd_def wrapping_def on_err_def node)
    qed
  qed
qed

lemma decode_transfers_append: "decode_transfers E a (xs @ ys) = decode_transfers E a xs @ decode_transfers E a ys"
  by (simp add: decode_transfers_def)

lemma decode_deposits_append: "decode_deposits E (xs @ ys) = decode_deposits E xs @ decode_deposits E ys"
  by (simp add: decode_deposits_def List.map_filter_def)

text \<open>C30. Splitting a scan into ten-block requests loses nothing and ends: against a node that answers each
  request with the matching logs in block order, for any range below the top of \<open>uint64\<close>, a scan whose
  context stays alive for one request per ten blocks (rounded up) returns, and what it returns is exactly
  what one request for the whole range would have given, decoded, each event once and in order.\<close>

theorem sliced_scan_complete:
  assumes "\<And>q n. nd_FilterLogs N q n = (Inr (matching q logs), n)" and "sorted (map log_BlockNumber logs)"
    and "toBlock + 10 \<le> 18446744073709551616" and "toBlock < fromBlock + 10 * alive"
  shows "FilterTokenTransfers E N svc alive fromBlock toBlock address n =
      (Inr (decode_transfers E address (matching \<lparr>fq_FromBlock = fromBlock, fq_ToBlock = toBlock, fq_Address = es_token svc,
         fq_Topic0 = [HexToHash E transferTopic]\<rparr> logs)), n)
    \<and> (vault \<noteq> [] \<longrightarrow> FilterVaultDeposits E N alive fromBlock toBlock vault n =
      (Inr (decode_deposits E (matching \<lparr>fq_FromBlock = fromBlock, fq_ToBlock = toBlock, fq_Address = HexToAddress E vault,
         fq_Topic0 = [HexToHash E legacyTopic, HexToHash E privateTopic]\<rparr> logs)), n))"
  unfolding FilterTokenTransfers_def FilterVaultDeposits_def
  by (simp add: scan_slices_complete [OF assms(1,2) _ _ _ assms(3,4)] decode_transfers_append decode_deposits_append
      decode_transfers_def [of _ _ "[]"] decode_deposits_def [of _ "[]"] List.map_filter_def)

definition sample_log :: "nat \<Rightarrow> Log" where
  "sample_log b = \<lparr>log_Address = [1], log_Topics = [HexToHash toy_eth transferTopic, [2], [3]], log_Data = replicate 32 1,
     log_TxHash = [4], log_Index = 0, log_BlockNumber = b\<rparr>"

definition sample_node :: "Log list \<Rightarrow> unit node" where
  "sample_node logs = \<lparr>nd_CallContract = (\<lambda>_ _. ret []), nd_PendingNonceAt = (\<lambda>_. ret 0), nd_SuggestGasPrice = ret 1,
     nd_SignTx = (\<lambda>tx _ _. Inr (tx_Data tx)), nd_TxHash = (\<lambda>t. take 32 t), nd_SendTransaction = (\<lambda>_. ret ()),
     nd_FilterLogs = (\<lambda>q. ret (matching q logs)), nd_BlockNumber = ret 100, nd_TransactionReceipt = (\<lambda>_. ret None)\<rparr>"

definition sample_svc :: EthereumService where
  "sample_svc = \<lparr>es_chainID = 1, es_token = [1], es_tokenSymbol = ''USDC'', es_tokenDecimals = 6, es_cloneFactory = [5],
     es_signerKey = Some [7], es_from = replicate 20 7\<rparr>"

theorem sliced_scan_complete_witness:
  "\<exists>ts. FilterTokenTransfers toy_eth (sample_node [sample_log 5, sample_log 14, sample_log 25]) sample_svc 3 5 24 [] () = (Inr ts, ())
     \<and> map tt_BlockNumber ts = [5, 14]"
proof -
  let ?logs = "[sample_log 5, sample_log 14, sample_log 25]"
  have node: "nd_FilterLogs (sample_node ?logs) q n = (Inr (matching q ?logs), n)" for q n
    by (simp add: sample_node_def ret_def)
  have "sorted (map log_BlockNumber ?logs)" by (simp add: sample_log_def)
  from sliced_scan_complete [OF node this, of 24 5 3 toy_eth sample_svc "[]" "()" "[]"] show ?thesis
    by (simp add: matching_def sample_log_def sample_svc_def decode_transfers_def decode_transfer_def)
qed

section \<open>Relays\<close>

lemma abiUint_length: "abiUint256 n = Some w \<Longrightarrow> length w = 32"
  by (auto simp: abiUint256_def FillBytes_def split: if_splits)

lemma sig_words_length: "length (sig_words sig) = 96"
  by (simp add: sig_words_def abiWord_def)

lemma words_between: "length a = n \<Longrightarrow> length b = m \<Longrightarrow> take m (drop n (a @ b @ c)) = b"
  by simp

text \<open>C31. The words a relay sends to the clone are the words its signature covers: the call data of
  \<open>withdrawWithSig\<close>, \<open>setRecoveryAddressBySig\<close> and \<open>transferOwnershipBySig\<close> consist of a four-byte selector,
  then byte for byte the struct message of the EIP-712 digest without its type hash, then \<open>v\<close>, \<open>r\<close> and \<open>s\<close>
  as three words; the encoding fails (panics) exactly when the message cannot be formed. The hypotheses are
  the lengths the Ethereum library documents.\<close>

theorem relay_sends_signed_words:
  assumes "\<And>x. length (Keccak256Hash E x) = 32"
  shows "encodeWithdrawWithSig E relay =
      map_option (\<lambda>m. FromHex E ''4a5b1f51'' @ drop 32 m @ sig_words (rel_Sig relay))
        (withdraw_msg E \<lparr>wr_To = HexToAddress E (rel_To relay), wr_Amount = rel_Amount relay, wr_Nonce = rel_Nonce relay,
           wr_Deadline = rel_Deadline relay\<rparr>)
    \<and> encodeSetRecoveryBySig E rset =
      map_option (\<lambda>m. FromHex E ''b2059d18'' @ drop 32 m @ sig_words (rs_Sig rset))
        (seat_msg E setRecoveryTypeString (HexToAddress E (rs_RecoveryAddress rset)) (rs_Nonce rset) (rs_Deadline rset))
    \<and> encodeTransferOwnershipBySig E own =
      map_option (\<lambda>m. FromHex E ''6db464f1'' @ drop 32 m @ sig_words (ro_Sig own))
        (seat_msg E transferOwnershipTypeString (HexToAddress E (ro_NewOwner own)) (ro_Nonce own) (ro_Deadline own))
    \<and> length (sig_words sig) = 96"
proof (intro conjI)
  show "encodeWithdrawWithSig E relay =
      map_option (\<lambda>m. FromHex E ''4a5b1f51'' @ drop 32 m @ sig_words (rel_Sig relay))
        (withdraw_msg E \<lparr>wr_To = HexToAddress E (rel_To relay), wr_Amount = rel_Amount relay, wr_Nonce = rel_Nonce relay,
           wr_Deadline = rel_Deadline relay\<rparr>)"
    by (simp add: encodeWithdrawWithSig_def withdraw_msg_def abiUint256_def assms split: option.splits)
  show "length (sig_words sig) = 96" by (rule sig_words_length)
qed (simp_all add: encodeSetRecoveryBySig_def encodeTransferOwnershipBySig_def encode_seat_def seat_msg_def abiUint256_def assms
    split: option.splits)

theorem relay_sends_signed_words_witness:
  "(\<forall>x. length (Keccak256Hash toy_eth x) = 32) \<and>
   encodeSetRecoveryBySig toy_eth \<lparr>rs_Clone = ''c'', rs_RecoveryAddress = ''r'', rs_Nonce = 3, rs_Deadline = 100,
     rs_Sig = \<lparr>sig_V = 27, sig_R = [], sig_S = []\<rparr>\<rparr> =
   map_option (\<lambda>m. FromHex toy_eth ''b2059d18'' @ drop 32 m @ sig_words \<lparr>sig_V = 27, sig_R = [], sig_S = []\<rparr>)
     (seat_msg toy_eth setRecoveryTypeString (HexToAddress toy_eth ''r'') 3 100)"
  using relay_sends_signed_words [of toy_eth, OF toy_hash_length] toy_hash_length by simp

section \<open>Amounts\<close>

lemma SetString10_digits: "ds \<noteq> [] \<Longrightarrow> \<forall>c\<in>set ds. is_digit c \<Longrightarrow> SetString10 ds = Some (int (dec_val ds))"
proof -
  assume ds: "ds \<noteq> []" "\<forall>c\<in>set ds. is_digit c"
  then have "is_digit (hd ds)" by simp
  then have "hd ds \<noteq> CHR ''-''" "hd ds \<noteq> CHR ''+''" by (auto simp: is_digit_def)
  then show ?thesis using ds by (simp add: SetString10_def list_all_iff)
qed

lemma digit_not: "is_digit c \<Longrightarrow> c \<noteq> CHR ''.'' \<and> c \<noteq> CHR ''-'' \<and> \<not> is_space c"
  by (auto simp: is_digit_def is_space_def)

lemma split_point_digits: "\<forall>c\<in>set a. is_digit c \<Longrightarrow> split_point (a @ CHR ''.'' # b) = (a, b)"
  using digit_not by (auto simp: split_point_def takeWhile_append2 dropWhile_append2)

lemma split_point_whole: "\<forall>c\<in>set a. is_digit c \<Longrightarrow> split_point a = (a, [])"
proof -
  assume a: "\<forall>c\<in>set a. is_digit c"
  then have "\<forall>c\<in>set a. c \<noteq> CHR ''.''" using digit_not by blast
  then have "takeWhile (\<lambda>c. c \<noteq> CHR ''.'') a = a" "dropWhile (\<lambda>c. c \<noteq> CHR ''.'') a = []"
    by (simp_all add: takeWhile_eq_all_conv)
  then show ?thesis unfolding split_point_def by (simp del: dropWhile_eq_Nil_conv)
qed

lemma parse_printed:
  assumes "\<forall>c\<in>set whole. is_digit c" and "whole \<noteq> []" and "\<forall>c\<in>set frac. is_digit c" and "int (length frac) = decimals"
  shows "parseMajorToBase (whole @ CHR ''.'' # frac) decimals = Inr (int (dec_val (whole @ frac)))"
proof -
  have "hd (whole @ CHR ''.'' # frac) \<noteq> CHR ''-''" using assms(1,2) digit_not by (cases whole) auto
  moreover have "SetString10 (whole @ frac) = Some (int (dec_val (whole @ frac)))"
    by (rule SetString10_digits) (use assms in auto)
  ultimately show ?thesis
    using assms by (simp add: parseMajorToBase_def split_point_digits Let_def)
qed

lemma parse_printed_whole:
  assumes "\<forall>c\<in>set whole. is_digit c" and "whole \<noteq> []"
  shows "parseMajorToBase whole 0 = Inr (int (dec_val whole))"
proof -
  have "hd whole \<noteq> CHR ''-''" using assms digit_not by (cases whole) auto
  then show ?thesis using assms SetString10_digits [of whole] by (simp add: parseMajorToBase_def split_point_whole Let_def)
qed

lemma baseToMajorString_eq:
  assumes "0 \<le> base" and "0 < decimals"
  shows "baseToMajorString base decimals =
    show_nat (nat base div 10 ^ nat decimals) @ CHR ''.'' # pad0 (nat decimals) (show_nat (nat base mod 10 ^ nat decimals))"
proof -
  have "(0::int) < 10 ^ nat decimals" by simp
  then have "base sdiv 10 ^ nat decimals = base div 10 ^ nat decimals" "base smod 10 ^ nat decimals = base mod 10 ^ nat decimals"
    "0 \<le> base mod 10 ^ nat decimals" "0 \<le> base div 10 ^ nat decimals"
    using assms sdiv_nonneg smod_nonneg by (simp_all add: pos_imp_zdiv_nonneg_iff)
  moreover have "nat (base div 10 ^ nat decimals) = nat base div 10 ^ nat decimals" "nat (base mod 10 ^ nat decimals) = nat base mod 10 ^ nat decimals"
    using assms by (simp_all add: nat_div_distrib nat_mod_distrib nat_power_eq)
  ultimately show ?thesis using assms
    by (simp add: baseToMajorString_def Let_def show_int_def fmt0d_def not_less [THEN iffD2])
qed

text \<open>A legacy transfer sends the amount that was computed: the decimal string the vault prints for a
  non-negative amount of base units, for any number of decimals, is read back by the client, after its
  trimming, as the same amount, with no rounding and no error.\<close>

lemma amount_string_roundtrip:
  assumes "0 \<le> base" and "0 \<le> decimals"
  shows "parseMajorToBase (TrimSpace (baseToMajorString base decimals)) decimals = Inr base"
proof (cases "decimals = 0")
  case True
  then have s: "baseToMajorString base decimals = show_nat (nat base)" using assms by (simp add: baseToMajorString_def show_int_def)
  have "TrimSpace (show_nat (nat base)) = show_nat (nat base)" using show_nat_digits digit_not by (intro TrimSpace_id) blast
  then show ?thesis using parse_printed_whole [OF show_nat_digits show_nat_nonempty, of "nat base"] s True assms by simp
next
  case False
  let ?k = "nat decimals" and ?q = "nat base div 10 ^ nat decimals" and ?r = "nat base mod 10 ^ nat decimals"
  let ?frac = "pad0 ?k (show_nat ?r)"
  have frac: "length ?frac = ?k" "dec_val ?frac = ?r" "\<forall>c\<in>set ?frac. is_digit c"
    using pad0_digits [of ?r ?k] False assms by auto
  have s: "baseToMajorString base decimals = show_nat ?q @ CHR ''.'' # ?frac"
    using baseToMajorString_eq [of base decimals] False assms by simp
  have "TrimSpace (show_nat ?q @ CHR ''.'' # ?frac) = show_nat ?q @ CHR ''.'' # ?frac"
    using show_nat_digits [of ?q] frac(3) digit_not by (intro TrimSpace_id) (auto simp: is_space_def)
  moreover have "parseMajorToBase (show_nat ?q @ CHR ''.'' # ?frac) decimals = Inr (int (dec_val (show_nat ?q @ ?frac)))"
    by (rule parse_printed) (use show_nat_digits frac False assms in auto)
  moreover have "dec_val (show_nat ?q @ ?frac) = nat base"
    using frac by (simp add: dec_val_append mult.commute)
  ultimately show ?thesis using s assms by simp
qed

end
