(* ===== verification/Codec.thy ===== *)
theory Codec
  imports Prelude
begin

text \<open>
  What the authentication code uses of Go's standard library to turn bytes into text and text into digests:
  \<open>encoding/hex\<close>, \<open>encoding/base64\<close> (\<open>RawURLEncoding\<close>), \<open>encoding/base32\<close> (\<open>StdEncoding\<close>), \<open>crypto/sha1\<close>,
  \<open>crypto/sha256\<close> and \<open>crypto/hmac\<close>. The two radix encodings are instances of one regrouping of bits, so
  their round trips are one lemma.
\<close>

unbundle bit_operations_syntax

section \<open>Regrouping bits\<close>

primrec bits :: "nat \<Rightarrow> nat \<Rightarrow> bool list" where
  "bits 0 n = []"
| "bits (Suc k) n = bits k (n div 2) @ [odd n]"

definition bits_val :: "bool list \<Rightarrow> nat" where
  "bits_val bs = foldl (\<lambda>n b. 2 * n + of_bool b) 0 bs"

text \<open>The full pieces of length \<open>k\<close>; an incomplete one at the end is dropped.\<close>

function chunks :: "nat \<Rightarrow> 'a list \<Rightarrow> 'a list list" where
  "chunks k xs = (if k = 0 \<or> length xs < k then [] else take k xs # chunks k (drop k xs))"
  by auto
termination
  by (relation "measure (\<lambda>(k, xs). length xs)") auto

declare chunks.simps [simp del]

definition byte_bits :: "byte list \<Rightarrow> bool list" where
  "byte_bits bs = concat (map (\<lambda>b. bits 8 (unat b)) bs)"

definition pad_bits :: "nat \<Rightarrow> bool list \<Rightarrow> bool list" where
  "pad_bits k xs = xs @ replicate ((k - length xs mod k) mod k) False"

definition enc_digits :: "nat \<Rightarrow> byte list \<Rightarrow> nat list" where
  "enc_digits k bs = map bits_val (chunks k (pad_bits k (byte_bits bs)))"

definition dec_digits :: "nat \<Rightarrow> nat list \<Rightarrow> byte list" where
  "dec_digits k ds = map (\<lambda>c. of_nat (bits_val c)) (chunks 8 (concat (map (bits k) ds)))"

lemma bits_length [simp]: "length (bits k n) = k"
  by (induction k arbitrary: n) simp_all

lemma bits_val_snoc: "bits_val (xs @ [b]) = 2 * bits_val xs + of_bool b"
  by (simp add: bits_val_def)

lemma bits_val_bits: "n < 2 ^ k \<Longrightarrow> bits_val (bits k n) = n"
proof (induction k arbitrary: n)
  case 0
  then show ?case by (simp add: bits_val_def)
next
  case (Suc k)
  then have "bits_val (bits k (n div 2)) = n div 2" by (simp add: less_mult_imp_div_less)
  then show ?case by (cases "odd n") (auto simp: bits_val_snoc elim: oddE evenE)
qed

lemma bits_bits_val: "bits (length xs) (bits_val xs) = xs"
  by (induction xs rule: rev_induct) (auto simp: bits_val_snoc)

lemma bits_val_less: "bits_val xs < 2 ^ length xs"
proof (induction xs rule: rev_induct)
  case (snoc b xs)
  then show ?case by (cases b) (auto simp: bits_val_snoc)
qed (simp add: bits_val_def)

lemma chunks_Cons: "length xs = k \<Longrightarrow> 0 < k \<Longrightarrow> chunks k (xs @ ys) = xs # chunks k ys"
  by (subst chunks.simps) simp

lemma chunks_Nil: "length xs < k \<Longrightarrow> chunks k xs = []"
  by (subst chunks.simps) simp

lemma chunks_length: "0 < k \<Longrightarrow> length (chunks k xs) = length xs div k"
proof (induction k xs rule: chunks.induct)
  case (1 k xs)
  then show ?case
    by (subst chunks.simps) (auto simp: le_div_geq not_less)
qed

lemma chunks_each: "c \<in> set (chunks k xs) \<Longrightarrow> length c = k"
proof (induction k xs rule: chunks.induct)
  case (1 k xs)
  then show ?case by (subst (asm) (2) chunks.simps) (auto split: if_splits)
qed

lemma chunks_concat: "0 < k \<Longrightarrow> length xs mod k = 0 \<Longrightarrow> concat (chunks k xs) = xs"
proof (induction k xs rule: chunks.induct)
  case (1 k xs)
  show ?case
  proof (cases "length xs < k")
    case True
    then show ?thesis using 1(3) by (simp add: chunks_Nil)
  next
    case False
    then show ?thesis using 1 by (subst chunks.simps) (auto simp: le_mod_geq not_less)
  qed
qed

lemma chunks_blocks:
  assumes "\<And>b. b \<in> set bs \<Longrightarrow> length b = k" and "length r < k"
  shows "chunks k (concat bs @ r) = bs"
  using assms by (induction bs) (auto simp: chunks_Nil chunks_Cons)

lemma byte_bits_length: "length (byte_bits bs) = 8 * length bs"
  by (induction bs) (simp_all add: byte_bits_def)

lemma pad_bits_length: "0 < k \<Longrightarrow> length (pad_bits k xs) mod k = 0"
proof -
  assume k: "0 < k"
  have "(n + (k - n mod k) mod k) mod k = 0" for n
  proof -
    have "n + (k - n mod k) = k * (n div k) + k"
      using k mod_less_divisor [of k n] mult_div_mod_eq [of k n] by linarith
    then have "(n + (k - n mod k)) mod k = 0" by simp
    then show ?thesis by (metis mod_add_right_eq)
  qed
  then show ?thesis by (simp add: pad_bits_def)
qed

lemma enc_digits_less: "d \<in> set (enc_digits k bs) \<Longrightarrow> d < 2 ^ k"
  by (auto simp: enc_digits_def dest!: chunks_each) (metis bits_val_less)

text \<open>Bytes survive being written in digits of any width up to that of a byte.\<close>

lemma dec_enc_digits:
  assumes "0 < k" and "k \<le> 8"
  shows "dec_digits k (enc_digits k bs) = bs"
proof -
  let ?xs = "pad_bits k (byte_bits bs)" and ?n = "(k - length (byte_bits bs) mod k) mod k"
  have "bits k (bits_val c) = c" if "c \<in> set (chunks k ?xs)" for c
    using chunks_each [OF that] bits_bits_val [of c] by simp
  then have "concat (map (bits k) (enc_digits k bs)) = concat (chunks k ?xs)"
    by (auto simp: enc_digits_def intro!: arg_cong [where f = concat] map_idI)
  also have "\<dots> = ?xs" using assms by (simp add: chunks_concat pad_bits_length)
  also have "\<dots> = concat (map (\<lambda>b. bits 8 (unat b)) bs) @ replicate ?n False"
    by (simp add: pad_bits_def byte_bits_def)
  finally have "chunks 8 (concat (map (bits k) (enc_digits k bs))) = map (\<lambda>b. bits 8 (unat b)) bs"
    using assms by (simp only:, intro chunks_blocks) (auto intro: less_le_trans [OF mod_less_divisor])
  moreover have "of_nat (bits_val (bits 8 (unat b))) = b" for b :: byte
    using unsigned_less [of b, where ?'a = nat] by (simp add: bits_val_bits)
  ultimately show ?thesis unfolding dec_digits_def by (auto simp only: list.map_comp comp_def intro!: map_idI)
qed

section \<open>Alphabets\<close>

fun index_of :: "'a \<Rightarrow> 'a list \<Rightarrow> nat option" where
  "index_of c [] = None"
| "index_of c (x # xs) = (if x = c then Some 0 else map_option Suc (index_of c xs))"

definition hex_alphabet :: string where "hex_alphabet = ''0123456789abcdef''"

definition url_alphabet :: string where
  "url_alphabet = ''ABCDEFGHIJKLMNOPQRSTUVWXYZabcdefghijklmnopqrstuvwxyz0123456789-_''"

definition b32_alphabet :: string where
  "b32_alphabet = ''ABCDEFGHIJKLMNOPQRSTUVWXYZ234567''"

text \<open>\<open>hex.EncodeToString\<close>; \<open>RawURLEncoding.EncodeToString\<close> and \<open>DecodeString\<close>, which skips line breaks and
  refuses a single left-over digit.\<close>

definition hex_EncodeToString :: "byte list \<Rightarrow> string" where
  "hex_EncodeToString bs = map (\<lambda>d. hex_alphabet ! d) (enc_digits 4 bs)"

definition no_breaks :: "string \<Rightarrow> string" where
  "no_breaks s = filter (\<lambda>c. c \<noteq> CHR 0x0A \<and> c \<noteq> CHR 0x0D) s"

definition url_EncodeToString :: "byte list \<Rightarrow> string" where
  "url_EncodeToString bs = map (\<lambda>d. url_alphabet ! d) (enc_digits 6 bs)"

definition url_DecodeString :: "string \<Rightarrow> byte list option" where
  "url_DecodeString s =
     (case those (map (\<lambda>c. index_of c url_alphabet) (no_breaks s)) of
        None \<Rightarrow> None
      | Some ds \<Rightarrow> if length ds mod 4 = 1 then None else Some (dec_digits 6 ds))"

text \<open>\<open>base32.StdEncoding\<close> pads with \<open>=\<close> to eight digits. Decoding is modelled on text without pad
  characters, the only text the code decodes: it trims them off the secrets it stores, and what is left
  must be a multiple of eight digits.\<close>

definition b32_EncodeToString :: "byte list \<Rightarrow> string" where
  "b32_EncodeToString bs =
     (let s = map (\<lambda>d. b32_alphabet ! d) (enc_digits 5 bs)
      in s @ replicate ((8 - length s mod 8) mod 8) CHR ''='')"

definition b32_DecodeString :: "string \<Rightarrow> byte list option" where
  "b32_DecodeString s =
     (case those (map (\<lambda>c. index_of c b32_alphabet) (no_breaks s)) of
        None \<Rightarrow> None
      | Some ds \<Rightarrow> if length ds mod 8 \<noteq> 0 then None else Some (dec_digits 5 ds))"

definition TrimRight :: "string \<Rightarrow> char \<Rightarrow> string" where
  "TrimRight s c = rev (dropWhile ((=) c) (rev s))"

lemma index_of_nth: "distinct xs \<Longrightarrow> i < length xs \<Longrightarrow> index_of (xs ! i) xs = Some i"
proof (induction xs arbitrary: i)
  case (Cons x xs)
  then show ?case by (cases i) (auto dest: nth_mem)
qed simp

lemma dropWhile_none: "(\<And>x. x \<in> set xs \<Longrightarrow> \<not> P x) \<Longrightarrow> dropWhile P xs = xs"
  by (cases xs) auto

lemma TrimRight_pad: "c \<notin> set s \<Longrightarrow> TrimRight (s @ replicate n c) c = s"
proof -
  assume "c \<notin> set s"
  then have "dropWhile ((=) c) (rev s) = rev s" by (intro dropWhile_none) auto
  moreover have "dropWhile ((=) c) (replicate n c @ xs) = dropWhile ((=) c) xs" for xs
    by (induction n) simp_all
  ultimately show ?thesis by (simp add: TrimRight_def)
qed

lemma those_Some: "those (map Some ds) = Some ds"
  by (induction ds) simp_all

lemma alphabet_facts:
  "distinct url_alphabet" "length url_alphabet = 64" "CHR 0x0A \<notin> set url_alphabet" "CHR 0x0D \<notin> set url_alphabet"
  "distinct b32_alphabet" "length b32_alphabet = 32" "CHR 0x0A \<notin> set b32_alphabet" "CHR 0x0D \<notin> set b32_alphabet"
  "CHR ''='' \<notin> set b32_alphabet" "map to_upper b32_alphabet = b32_alphabet"
  by (simp_all add: url_alphabet_def b32_alphabet_def to_upper_def)

lemma decode_text:
  assumes "distinct al" and "CHR 0x0A \<notin> set al" and "CHR 0x0D \<notin> set al" and "\<forall>d\<in>set ds. d < length al"
  shows "those (map (\<lambda>c. index_of c al) (no_breaks (map (\<lambda>d. al ! d) ds))) = Some ds"
proof -
  have "no_breaks (map (\<lambda>d. al ! d) ds) = map (\<lambda>d. al ! d) ds"
    using assms by (auto simp: no_breaks_def intro!: filter_True dest: nth_mem)
  moreover have "map (\<lambda>d. index_of (al ! d) al) ds = map Some ds"
    using assms by (simp add: index_of_nth)
  ultimately show ?thesis using those_Some [of ds] by (simp only: list.map_comp comp_def)
qed

lemma enc_digits_length: "0 < k \<Longrightarrow> length (enc_digits k bs) = (8 * length bs + (k - 8 * length bs mod k) mod k) div k"
  by (simp add: enc_digits_def chunks_length pad_bits_def byte_bits_length)

lemma url_digits: "length (enc_digits 6 bs) mod 4 \<noteq> 1"
proof -
  obtain m r where n: "length bs = 3 * m + r" and r: "r < 3"
    using mult_div_mod_eq [of 3 "length bs", symmetric] by (metis mod_less_divisor zero_less_numeral)
  have "8 * length bs mod 6 = 8 * r mod 6" 
    using n mod_mult_self2 [of "8 * r" 6 "4 * m"] by (simp add: algebra_simps)
  moreover have "r = 0 \<or> r = 1 \<or> r = 2" using r by arith
  ultimately have "length (enc_digits 6 bs) \<in> {4 * m, 4 * m + 2, 4 * m + 3}"
    using n by (auto simp: enc_digits_length)
  then show ?thesis by (elim insertE) (simp, presburger, presburger, simp)
qed

lemma url_roundtrip [simp]: "url_DecodeString (url_EncodeToString bs) = Some bs"
proof -
  have "those (map (\<lambda>c. index_of c url_alphabet) (no_breaks (url_EncodeToString bs))) = Some (enc_digits 6 bs)"
    unfolding url_EncodeToString_def
    by (rule decode_text) (use enc_digits_less [of _ 6 bs] in \<open>auto simp: alphabet_facts\<close>)
  then show ?thesis using url_digits by (simp add: url_DecodeString_def dec_enc_digits)
qed

lemma b32_roundtrip:
  assumes "length bs mod 5 = 0"
  shows "b32_DecodeString (ToUpper (TrimRight (TrimRight (b32_EncodeToString bs) CHR ''='') CHR ''='')) = Some bs"
proof -
  let ?s = "map (\<lambda>d. b32_alphabet ! d) (enc_digits 5 bs)"
  obtain m where "length bs = 5 * m" using assms by (auto simp: mod_eq_0_iff_dvd elim: dvdE)
  then have len: "length (enc_digits 5 bs) mod 8 = 0" by (simp add: enc_digits_length)
  have in_alpha: "c \<in> set b32_alphabet" if "c \<in> set ?s" for c
    using that enc_digits_less [of _ 5 bs] by (auto simp: alphabet_facts)
  then have "CHR ''='' \<notin> set ?s" using alphabet_facts(9) by blast
  then have "TrimRight (?s @ replicate n CHR ''='') CHR ''='' = ?s" for n by (rule TrimRight_pad)
  from this this [of 0] have trim: "TrimRight (TrimRight (b32_EncodeToString bs) CHR ''='') CHR ''='' = ?s"
    by (simp add: b32_EncodeToString_def Let_def)
  have "ToUpper ?s = ?s"
    unfolding ToUpper_def by (rule map_idI) (metis alphabet_facts(10) in_alpha map_eq_conv map_ident)
  moreover have "those (map (\<lambda>c. index_of c b32_alphabet) (no_breaks ?s)) = Some (enc_digits 5 bs)"
    by (rule decode_text) (use enc_digits_less [of _ 5 bs] in \<open>auto simp: alphabet_facts\<close>)
  ultimately show ?thesis
    using len by (simp only: trim) (simp add: b32_DecodeString_def dec_enc_digits)
qed

section \<open>Digests\<close>

text \<open>SHA-1 and SHA-256 (FIPS 180-4) share the padding and the reading of a block as big-endian words.\<close>

definition md_pad :: "byte list \<Rightarrow> byte list" where
  "md_pad m = m @ [0x80] @ replicate ((119 - length m mod 64) mod 64) 0 @ be_bytes 8 (8 * length m)"

definition be_word :: "byte list \<Rightarrow> 32 word" where
  "be_word bs = foldl (\<lambda>n b. n * 256 + ucast b) 0 bs"

definition block_words :: "byte list \<Rightarrow> 32 word list" where
  "block_words blk = map be_word (chunks 4 blk)"

definition words_bytes :: "32 word list \<Rightarrow> byte list" where
  "words_bytes ws = concat (map (\<lambda>w. be_bytes 4 (unat w)) ws)"

text \<open>The message schedule: the window holds the last sixteen words, oldest first.\<close>

primrec schedule :: "(32 word list \<Rightarrow> 32 word) \<Rightarrow> nat \<Rightarrow> 32 word list \<Rightarrow> 32 word list" where
  "schedule next 0 window = window"
| "schedule next (Suc n) window = hd window # schedule next n (tl window @ [next window])"

subsection \<open>SHA-1\<close>

definition sha1_next :: "32 word list \<Rightarrow> 32 word" where
  "sha1_next w = word_rotl 1 (w ! 13 XOR w ! 8 XOR w ! 2 XOR w ! 0)"

definition sha1_f :: "nat \<Rightarrow> 32 word \<Rightarrow> 32 word \<Rightarrow> 32 word \<Rightarrow> 32 word" where
  "sha1_f t b c d =
     (if t < 20 then (b AND c) OR (NOT b AND d)
      else if 40 \<le> t \<and> t < 60 then (b AND c) OR (b AND d) OR (c AND d)
      else b XOR c XOR d)"

definition sha1_k :: "nat \<Rightarrow> 32 word" where
  "sha1_k t = (if t < 20 then 0x5a827999 else if t < 40 then 0x6ed9eba1 else if t < 60 then 0x8f1bbcdc else 0xca62c1d6)"

fun sha1_rounds :: "nat \<Rightarrow> 32 word list \<Rightarrow> 32 word list \<Rightarrow> 32 word list" where
  "sha1_rounds t (w # ws) [a, b, c, d, e] =
     sha1_rounds (Suc t) ws [word_rotl 5 a + sha1_f t b c d + e + w + sha1_k t, a, word_rotl 30 b, c, d]"
| "sha1_rounds t ws st = st"

definition sha1_block :: "32 word list \<Rightarrow> byte list \<Rightarrow> 32 word list" where
  "sha1_block h blk = map2 (+) h (sha1_rounds 0 (schedule sha1_next 64 (block_words blk)) h)"

definition sha1 :: "byte list \<Rightarrow> byte list" where
  "sha1 m = words_bytes (foldl sha1_block [0x67452301, 0xefcdab89, 0x98badcfe, 0x10325476, 0xc3d2e1f0] (chunks 64 (md_pad m)))"

subsection \<open>SHA-256\<close>

definition sha256_next :: "32 word list \<Rightarrow> 32 word" where
  "sha256_next w =
     (let x = w ! 1; y = w ! 14
      in w ! 0 + (word_rotr 7 x XOR word_rotr 18 x XOR drop_bit 3 x) + w ! 9
         + (word_rotr 17 y XOR word_rotr 19 y XOR drop_bit 10 y))"

text \<open>The constants are the first 32 bits of the fractional parts of the cube roots of the first 64 primes, the
  initial values those of the square roots of the first eight; the roots are found bit by bit.\<close>

definition int_root :: "nat \<Rightarrow> nat \<Rightarrow> nat" where
  "int_root k n = foldl (\<lambda>r b. if (r + 2 ^ b) ^ k \<le> n then r + 2 ^ b else r) 0 (rev [0..<40])"

definition root_fraction :: "nat \<Rightarrow> nat \<Rightarrow> 32 word" where
  "root_fraction k p = of_nat (int_root k (p * 2 ^ (32 * k)))"

definition primes_below :: "nat \<Rightarrow> nat list" where
  "primes_below n = filter (\<lambda>p. \<forall>d\<in>set [2..<p]. p mod d \<noteq> 0) [2..<n]"

definition sha256_k :: "32 word list" where
  "sha256_k = map (root_fraction 3) (primes_below 312)"

definition sha256_init :: "32 word list" where
  "sha256_init = map (root_fraction 2) (primes_below 20)"

fun sha256_rounds :: "(32 word \<times> 32 word) list \<Rightarrow> 32 word list \<Rightarrow> 32 word list" where
  "sha256_rounds ((k, w) # kws) [a, b, c, d, e, f, g, h] =
     (let t1 = h + (word_rotr 6 e XOR word_rotr 11 e XOR word_rotr 25 e) + ((e AND f) XOR (NOT e AND g)) + k + w;
          t2 = (word_rotr 2 a XOR word_rotr 13 a XOR word_rotr 22 a) + ((a AND b) XOR (a AND c) XOR (b AND c))
      in sha256_rounds kws [t1 + t2, a, b, c, d + t1, e, f, g])"
| "sha256_rounds kws st = st"

definition sha256_block :: "32 word list \<Rightarrow> byte list \<Rightarrow> 32 word list" where
  "sha256_block h blk = map2 (+) h (sha256_rounds (zip sha256_k (schedule sha256_next 48 (block_words blk))) h)"

definition sha256 :: "byte list \<Rightarrow> byte list" where
  "sha256 m = words_bytes (foldl sha256_block sha256_init (chunks 64 (md_pad m)))"

subsection \<open>HMAC\<close>

text \<open>\<open>hmac.New\<close> on a hash with blocks of 64 bytes (RFC 2104).\<close>

definition hmac :: "(byte list \<Rightarrow> byte list) \<Rightarrow> byte list \<Rightarrow> byte list \<Rightarrow> byte list" where
  "hmac H key msg =
     (let k = (if length key > 64 then H key else key);
          k64 = k @ replicate (64 - length k) 0
      in H (map (\<lambda>b. b XOR 0x5c) k64 @ H (map (\<lambda>b. b XOR 0x36) k64 @ msg)))"

end
