(* ===== verification/Totp.thy ===== *)
theory Totp
  imports Codec Domain
begin

text \<open>
  Authenticator codes (\<open>src/backend/internal/services/totp.go\<close>, RFC 6238). An error of the base32 decoder is
  \<open>None\<close>: both callers only ask whether there was one.
\<close>

definition totpStepSeconds :: int where "totpStepSeconds = 30"
definition totpDigits :: nat where "totpDigits = 6"

text \<open>The secret made from the twenty random bytes.\<close>

definition totp_secret :: "byte list \<Rightarrow> string" where
  "totp_secret raw = TrimRight (b32_EncodeToString raw) CHR ''=''"

definition escape_char :: "char \<Rightarrow> string" where
  "escape_char c =
     (if c = CHR '':'' then ''%3A'' else if c = CHR ''/'' then ''%2F'' else if c = CHR ''?'' then ''%3F''
      else if c = CHR ''#'' then ''%23'' else if c = CHR ''&'' then ''%26'' else if c = CHR ''='' then ''%3D'' else [c])"

definition urlPathEscape :: "string \<Rightarrow> string" where
  "urlPathEscape s = concat (map escape_char s)"

definition totpURI :: "string \<Rightarrow> string \<Rightarrow> string \<Rightarrow> string" where
  "totpURI secret email issuer =
     ''otpauth://totp/'' @ urlPathEscape issuer @ '':'' @ urlPathEscape email @ ''?secret='' @ secret @ ''&issuer=''
     @ urlPathEscape issuer @ ''&algorithm=SHA1&digits='' @ show_nat totpDigits @ ''&period='' @ show_int totpStepSeconds"

text \<open>\<open>Unix()\<close> floors to seconds, Go's \<open>/\<close> truncates, and the conversion to \<open>uint64\<close> keeps 64 bits.\<close>

definition totp_counter :: "time \<Rightarrow> nat" where
  "totp_counter t = nat ((t div second) sdiv totpStepSeconds mod 18446744073709551616)"

definition dynamic_truncation :: "byte list \<Rightarrow> 32 word" where
  "dynamic_truncation digest =
     (let offset = unat (and (last digest) 0x0f);
          b = (\<lambda>i. ucast (digest ! (offset + i)) :: 32 word)
      in or (or (or (push_bit 24 (and (b 0) 0x7f)) (push_bit 16 (b 1))) (push_bit 8 (b 2))) (b 3))"

definition computeTOTP :: "string \<Rightarrow> time \<Rightarrow> string option" where
  "computeTOTP secret t =
     (case b32_DecodeString (ToUpper (TrimRight secret CHR ''='')) of
        None \<Rightarrow> None
      | Some key \<Rightarrow>
          Some (pad0 totpDigits (show_nat (unat (dynamic_truncation (hmac sha1 key (be_bytes 8 (totp_counter t)))) mod 10 ^ totpDigits))))"

text \<open>The loop over the drifts: the untyped constant \<open>totpStepSeconds\<close> becomes a \<open>time.Duration\<close> of thirty
  nanoseconds.\<close>

fun totp_match :: "string \<Rightarrow> string \<Rightarrow> time list \<Rightarrow> bool" where
  "totp_match secret code [] = False"
| "totp_match secret code (t # ts) =
     (case computeTOTP secret t of
        None \<Rightarrow> False
      | Some want \<Rightarrow> if want = code then True else totp_match secret code ts)"

definition verifyTOTP :: "string \<Rightarrow> string \<Rightarrow> time \<Rightarrow> bool" where
  "verifyTOTP secret code now =
     (if length code \<noteq> totpDigits then False
      else totp_match secret code (map (\<lambda>dt. now + dt) [0, - totpStepSeconds, totpStepSeconds]))"

end
