(* ===== verification/Security.thy ===== *)
theory Security
  imports Keeps
begin

text \<open>
  Devices, the security feed and the inbox (\<open>src/backend/internal/services/security.go\<close>). A session is a
  device; the service revokes sessions and appends to the feed, pushing a hub event when a hub is configured.
\<close>

definition published :: "bool \<Rightarrow> string \<Rightarrow> ('z world_scheme, unit) go" where
  "published hub userID =
     (if hub
      then modify (\<lambda>w. w\<lparr>hub_log := hub_log w @ [\<lparr>ev_Type = ''data.changed'', ev_UserID = userID, ev_Kind = ''security''\<rparr>]\<rparr>)
      else ret ())"

definition plain_event :: "string \<Rightarrow> SecurityEventType \<Rightarrow> EventSeverity \<Rightarrow> string \<Rightarrow> string \<Rightarrow> SecurityEvent" where
  "plain_event userID typ severity title detail =
     \<lparr>se_ID = [], se_UserID = userID, se_Type = typ, se_Severity = severity, se_Title = title, se_Detail = detail,
      se_IP = [], se_UserAgent = [], se_DeviceID = [], se_Device = [], se_Metadata = Map.empty, se_CreatedAt = 0\<rparr>"

section \<open>Devices\<close>

record DeviceView =
  dv_ID :: string
  dv_Name :: string
  dv_Detail :: string
  dv_IP :: string
  dv_IsCurrent :: bool
  dv_LastActiveAt :: time
  dv_CreatedAt :: time

definition deviceName :: "string \<Rightarrow> string" where
  "deviceName ua =
     (let u = ToLower ua in
      if Contains u ''iphone'' then ''iPhone''
      else if Contains u ''ipad'' then ''iPad''
      else if Contains u ''android'' \<and> Contains u ''samsung'' then ''Samsung Phone''
      else if Contains u ''android'' then ''Android Phone''
      else if Contains u ''macintosh'' \<or> Contains u ''mac os'' then ''MacBook''
      else if Contains u ''windows'' then ''Windows PC''
      else if Contains u ''linux'' then ''Linux Device''
      else ''Device'')"

definition device_view :: "string \<Rightarrow> Session \<Rightarrow> DeviceView" where
  "device_view currentSessionID sess =
     \<lparr>dv_ID = s_ID sess, dv_Name = deviceName (s_Device sess), dv_Detail = s_Device sess, dv_IP = s_IP sess,
      dv_IsCurrent = (currentSessionID \<noteq> [] \<and> s_ID sess = currentSessionID),
      dv_LastActiveAt = s_LastActiveAt sess, dv_CreatedAt = s_CreatedAt sess\<rparr>"

definition ListDevices :: "string \<Rightarrow> string \<Rightarrow> ('z world_scheme, DeviceView list) go" where
  "ListDevices userID currentSessionID =
     bnd (SessionRepo_ListActiveByUser userID) (\<lambda>ss. ret (map (device_view currentSessionID) ss))"

definition RevokeDevice :: "bool \<Rightarrow> string \<Rightarrow> string \<Rightarrow> ('z world_scheme, unit) go" where
  "RevokeDevice hub userID deviceID =
     bnd (SessionRepo_FindByID deviceID) (\<lambda>sess.
     bnd (reject (s_UserID sess \<noteq> userID) ErrNotFound) (\<lambda>_.
     bnd (SessionRepo_Revoke deviceID) (\<lambda>_.
     bnd (ignore (SecurityEventRepo_Create
            ((plain_event userID ''session_revoked'' SeverityCritical ''Session revoked'' ''A signed-in device was logged out remotely'')
               \<lparr>se_IP := s_IP sess, se_Device := s_Device sess\<rparr>))) (\<lambda>_.
     published hub userID))))"

definition RevokeOtherDevices :: "bool \<Rightarrow> string \<Rightarrow> string \<Rightarrow> ('z world_scheme, unit) go" where
  "RevokeOtherDevices hub userID keepID =
     bnd (SessionRepo_RevokeAllExcept userID keepID) (\<lambda>_.
     bnd (ignore (SecurityEventRepo_Create
            (plain_event userID ''session_revoked'' SeverityCritical ''Other sessions revoked'' ''All other signed-in devices were logged out''))) (\<lambda>_.
     published hub userID))"

section \<open>Feed, preferences and inbox\<close>

definition ListSecurityEvents :: "string \<Rightarrow> ('z world_scheme, SecurityEvent list) go" where
  "ListSecurityEvents userID = SecurityEventRepo_ListByUser userID 50"

definition ListSecurityEventsPaged :: "string \<Rightarrow> int \<Rightarrow> int \<Rightarrow> ('z world_scheme, SecurityEvent list \<times> int) go" where
  "ListSecurityEventsPaged userID limit offset = SecurityEventRepo_ListByUserPaged userID limit offset"

definition NotificationPrefs :: "string \<Rightarrow> ('z world_scheme, bool \<times> bool) go" where
  "NotificationPrefs userID = UserRepo_NotificationPrefs userID"

definition UpdateNotificationPrefs :: "bool \<Rightarrow> string \<Rightarrow> bool \<Rightarrow> bool \<Rightarrow> ('z world_scheme, unit) go" where
  "UpdateNotificationPrefs hub userID newSignin failedLogin =
     bnd (UserRepo_UpdateNotificationPrefs userID newSignin failedLogin) (\<lambda>_.
     bnd (ignore (SecurityEventRepo_Create
            (plain_event userID ''device'' SeverityInfo ''Alert preferences updated''
               ''Email security-alert preferences were changed on this account''))) (\<lambda>_.
     published hub userID))"

definition ListNotifications :: "string \<Rightarrow> ('z world_scheme, Notification list) go" where
  "ListNotifications userID = NotificationRepo_ListByUser userID 50"

definition UnreadCount :: "string \<Rightarrow> ('z world_scheme, int) go" where
  "UnreadCount userID = NotificationRepo_CountUnread userID"

definition MarkRead :: "string \<Rightarrow> string \<Rightarrow> ('z world_scheme, unit) go" where
  "MarkRead userID nid = NotificationRepo_MarkRead userID nid"

definition MarkAllRead :: "string \<Rightarrow> ('z world_scheme, unit) go" where
  "MarkAllRead userID = NotificationRepo_MarkAllRead userID"

definition Notify :: "string \<Rightarrow> NotificationCategory \<Rightarrow> string \<Rightarrow> string \<Rightarrow> ('z world_scheme, unit) go" where
  "Notify userID category title body = NotificationRepo_Create userID category title body"

definition Record_event :: "bool \<Rightarrow> SecurityEvent \<Rightarrow> ('z world_scheme, unit) go" where
  "Record_event hub ev = bnd (ignore (SecurityEventRepo_Create ev)) (\<lambda>_. published hub (se_UserID ev))"

end
