(* ===== verification/Auth.thy ===== *)
theory Auth
  imports Totp Security
begin

text \<open>
  Registration, sign-in and sessions (\<open>src/backend/internal/services/auth.go\<close>). The immutable fields of
  \<open>AuthService\<close> are the record \<open>auth\<close>, the first argument of the methods; its two maps extend the world
  (\<open>aworld\<close>), as does the supply of random bytes that \<open>rand.Read\<close> draws from. The bcrypt package is not part of
  the repository: its two functions are fields of \<open>auth\<close>, the first with the position in the random supply its
  salt comes from. The mailer is a field that decides, for the number of mails sent before, whether a code is
  delivered. Counters of the metrics package and log lines are left out.
\<close>

record attemptWindow =
  aw_count :: int
  aw_reset :: time

record aworld = world +
  attempts :: "string \<rightharpoonup> attemptWindow"
  lastAlert :: "string \<rightharpoonup> time"
  rnd :: "nat \<Rightarrow> byte"
  rnd_fails :: "nat \<Rightarrow> bool"
  rnd_pos :: nat

record auth =
  GenerateFromPassword :: "string \<Rightarrow> nat \<Rightarrow> err + string"
  CompareHashAndPassword :: "string \<Rightarrow> string \<Rightarrow> bool"
  as_sessionTTL :: time
  as_challengeKey :: "byte list"
  as_otpSender :: "(nat \<Rightarrow> string \<Rightarrow> string \<Rightarrow> err + unit) option"
  as_AlertMailer :: bool
  as_SecurityHub :: bool

definition loginMaxAttempts :: int where "loginMaxAttempts = 5"
definition attemptWindowDur :: time where "attemptWindowDur = 15 * minute"
definition pinMaxAttempts :: int where "pinMaxAttempts = 5"
definition totpChallengeTTL :: time where "totpChallengeTTL = 5 * minute"
definition alertDedupe :: time where "alertDedupe = hour"
definition otpDigits :: nat where "otpDigits = 6"
definition otpTTL :: time where "otpTTL = 10 * minute"
definition otpCooldown :: time where "otpCooldown = 60 * second"
definition otpMaxAttempt :: int where "otpMaxAttempt = 5"

definition ErrNoPendingRegistration :: err where
  "ErrNoPendingRegistration = ErrOpaque ''no pending registration for this email''"

text \<open>\<open>NewAuthService\<close>: the key of the challenges, and the empty maps.\<close>

definition challenge_key :: "string \<Rightarrow> byte list" where
  "challenge_key sessionSecret =
     bytes_of (if sessionSecret = [] then ''dev-only-change-me-session-secret-0000000000'' else sessionSecret)"

definition NewAuthService :: "(nat \<Rightarrow> byte) \<Rightarrow> (nat \<Rightarrow> bool) \<Rightarrow> world \<Rightarrow> aworld" where
  "NewAuthService supply broken w =
     world.extend w \<lparr>attempts = Map.empty, lastAlert = Map.empty, rnd = supply, rnd_fails = broken, rnd_pos = 0\<rparr>"

section \<open>Randomness, codes and hashes\<close>

text \<open>\<open>rand.Read\<close> into a buffer of \<open>n\<close> bytes.\<close>

definition rand_Read :: "nat \<Rightarrow> ('z aworld_scheme, byte list) go" where
  "rand_Read n w =
     (let p = rnd_pos w; w' = w\<lparr>rnd_pos := p + n\<rparr>
      in if rnd_fails w p then (Inl (ErrOpaque ''rand''), w') else (Inr (map (\<lambda>i. rnd w (p + i)) [0..<n]), w'))"

definition bcrypt_hash :: "auth \<Rightarrow> string \<Rightarrow> ('z aworld_scheme, string) go" where
  "bcrypt_hash A password w = (GenerateFromPassword A password (rnd_pos w), w\<lparr>rnd_pos := rnd_pos w + 16\<rparr>)"

definition otp_digits :: "byte list \<Rightarrow> string" where
  "otp_digits buf = map (\<lambda>b. char_of (48 + unat b mod 10)) buf"

definition generateOTP :: "nat \<Rightarrow> ('z aworld_scheme, string) go" where
  "generateOTP n = bnd (rand_Read n) (\<lambda>buf. ret (otp_digits buf))"

definition generateTOTPSecret :: "('z aworld_scheme, string) go" where
  "generateTOTPSecret = bnd (rand_Read 20) (\<lambda>raw. ret (totp_secret raw))"

definition hex_sha256 :: "string \<Rightarrow> string" where
  "hex_sha256 s = hex_EncodeToString (sha256 (bytes_of s))"

definition hashOTP :: "string \<Rightarrow> string" where "hashOTP code = hex_sha256 code"
definition tokenHash :: "string \<Rightarrow> string" where "tokenHash token = hex_sha256 token"
definition emailHashKey :: "string \<Rightarrow> string" where "emailHashKey email = hex_sha256 (ToLower (TrimSpace email))"

text \<open>\<open>^[^@\s]+@[^@\s]+\.[^@\s]+$\<close>: one \<open>@\<close> with a local part before it and, after it, a point that is neither
  first nor last; no white space (of the regular expression package) anywhere.\<close>

definition re_space :: "char \<Rightarrow> bool" where
  "re_space c \<longleftrightarrow> of_char c \<in> {9::nat, 10, 12, 13, 32}"

definition emailRe :: "string \<Rightarrow> bool" where
  "emailRe s =
     (case split_on CHR ''@'' s of
        [local, host] \<Rightarrow> local \<noteq> [] \<and> list_all (\<lambda>c. \<not> re_space c) s \<and> CHR ''.'' \<in> set (butlast (tl host))
      | _ \<Rightarrow> False)"

section \<open>Audit and alerts\<close>

definition recordEvent :: "auth \<Rightarrow> SecurityEvent \<Rightarrow> ('z world_scheme, unit) go" where
  "recordEvent A ev =
     (let ev = (if se_Severity ev = SeverityUnset then ev\<lparr>se_Severity := SeverityInfo\<rparr> else ev)
      in bnd (ignore (SecurityEventRepo_Create ev)) (\<lambda>_. published (as_SecurityHub A) (se_UserID ev)))"

definition recordSecurity :: "auth \<Rightarrow> string \<Rightarrow> SecurityEventType \<Rightarrow> string \<Rightarrow> string \<Rightarrow> string \<Rightarrow> string \<Rightarrow> ('z world_scheme, unit) go" where
  "recordSecurity A userID etype title detail ip device =
     recordEvent A ((plain_event userID etype SeverityInfo title detail)\<lparr>se_IP := ip, se_Device := device\<rparr>)"

definition device_event :: "string \<Rightarrow> SecurityEventType \<Rightarrow> EventSeverity \<Rightarrow> string \<Rightarrow> string \<Rightarrow> string \<Rightarrow> string \<Rightarrow> metadata \<Rightarrow> SecurityEvent" where
  "device_event userID typ severity title detail ip device meta =
     (plain_event userID typ severity title detail)\<lparr>se_IP := ip, se_UserAgent := device, se_Device := device, se_Metadata := meta\<rparr>"

definition notificationsOn :: "user_row \<Rightarrow> string \<Rightarrow> ('z world_scheme, bool) go" where
  "notificationsOn user bucket =
     bnd (attempt (UserRepo_NotificationPrefs (u_ID user))) (\<lambda>r. case r of
       Inl _ \<Rightarrow> ret True
     | Inr (newSigninOn, failedLoginOn) \<Rightarrow> ret (if bucket = ''failed_login'' then failedLoginOn else newSigninOn))"

definition dedupeAlert :: "string \<Rightarrow> string \<Rightarrow> ('z aworld_scheme, bool) go" where
  "dedupeAlert userID typ w =
     (let key = userID @ '':'' @ typ
      in case lastAlert w key of
           Some prev \<Rightarrow> if clock w - prev < alertDedupe then (Inr False, w) else (Inr True, w\<lparr>lastAlert := (lastAlert w)(key \<mapsto> clock w)\<rparr>)
         | None \<Rightarrow> (Inr True, w\<lparr>lastAlert := (lastAlert w)(key \<mapsto> clock w)\<rparr>))"

definition send_alert :: "auth \<Rightarrow> user_row \<Rightarrow> string \<Rightarrow> string \<times> string list \<Rightarrow> ('z aworld_scheme, unit) go" where
  "send_alert A user bucket mail =
     (if \<not> as_AlertMailer A then ret ()
      else bnd (notificationsOn user bucket) (\<lambda>on.
           if \<not> on then ret ()
           else bnd (dedupeAlert (u_ID user) bucket) (\<lambda>go.
                if \<not> go then ret () else modify (\<lambda>w. w\<lparr>mail_log := mail_log w @ [mail]\<rparr>))))"

definition sendNewSignInAlert :: "auth \<Rightarrow> user_row \<Rightarrow> string \<Rightarrow> string \<Rightarrow> ('z aworld_scheme, unit) go" where
  "sendNewSignInAlert A user device ip =
     send_alert A user ''new_signin'' (''SendNewSignIn'', [u_Email user, deviceName device, ip])"

definition sendFailedLoginAlert :: "auth \<Rightarrow> user_row \<Rightarrow> string \<Rightarrow> ('z aworld_scheme, unit) go" where
  "sendFailedLoginAlert A user ip = send_alert A user ''failed_login'' (''SendFailedSignIn'', [u_Email user, ip])"

definition recordLoginSuccess :: "auth \<Rightarrow> user_row \<Rightarrow> string \<Rightarrow> string \<Rightarrow> string \<Rightarrow> ('z aworld_scheme, unit) go" where
  "recordLoginSuccess A user device ip via =
     bnd (recordEvent A (device_event (u_ID user) ''login'' SeverityInfo ''Signed in'' ''Signed in to your account'' ip device
            [''via'' \<mapsto> JStr via])) (\<lambda>_.
     bnd (gets clock) (\<lambda>now.
     bnd (attempt (SessionRepo_CountRecentByDevice (u_ID user) device (now - 30 * 24 * hour))) (\<lambda>r. case r of
       Inl _ \<Rightarrow> ret ()
     | Inr recent \<Rightarrow>
         if recent > 1 then ret ()
         else bnd (recordEvent A (device_event (u_ID user) ''new_device'' SeverityInfo ''New device sign-in''
                     ''Signed in from a device not seen in the last 30 days'' ip device Map.empty)) (\<lambda>_.
              sendNewSignInAlert A user device ip))))"

definition recordLoginFailure :: "auth \<Rightarrow> user_row \<Rightarrow> string \<Rightarrow> string \<Rightarrow> string \<Rightarrow> ('z world_scheme, unit) go" where
  "recordLoginFailure A user device ip reason =
     recordEvent A (device_event (u_ID user) ''failed_login'' SeverityWarn ''Failed sign-in attempt''
       ''An incorrect password was submitted for this account'' ip device [''reason'' \<mapsto> JStr reason])"

definition recordThrottle :: "auth \<Rightarrow> user_row \<Rightarrow> string \<Rightarrow> string \<Rightarrow> ('z world_scheme, unit) go" where
  "recordThrottle A user device ip =
     recordEvent A (device_event (u_ID user) ''throttle'' SeverityWarn ''Sign-in locked out''
       ''Repeated failed attempts temporarily locked sign-in for this account'' ip device
       [''locked_for_seconds'' \<mapsto> JInt (attemptWindowDur div second)])"

section \<open>Throttling\<close>

definition noteFailure :: "string \<Rightarrow> ('z aworld_scheme, unit) go" where
  "noteFailure key = modify (\<lambda>w.
     w\<lparr>attempts := (attempts w)(key \<mapsto>
         (case attempts w key of
            None \<Rightarrow> \<lparr>aw_count = 1, aw_reset = clock w + attemptWindowDur\<rparr>
          | Some win \<Rightarrow>
              if clock w > aw_reset win then \<lparr>aw_count = 1, aw_reset = clock w + attemptWindowDur\<rparr>
              else win\<lparr>aw_count := aw_count win + 1\<rparr>))\<rparr>)"

definition isThrottled :: "string \<Rightarrow> int \<Rightarrow> ('z aworld_scheme, bool) go" where
  "isThrottled key mx w =
     (case attempts w key of
        None \<Rightarrow> (Inr False, w)
      | Some win \<Rightarrow>
          if clock w > aw_reset win then (Inr False, w\<lparr>attempts := (attempts w)(key := None)\<rparr>)
          else (Inr (aw_count win > mx), w))"

definition clearFailure :: "string \<Rightarrow> ('z aworld_scheme, unit) go" where
  "clearFailure key = modify (\<lambda>w. w\<lparr>attempts := (attempts w)(key := None)\<rparr>)"

section \<open>PINs and passwords\<close>

definition VerifyPassword :: "auth \<Rightarrow> User \<Rightarrow> string \<Rightarrow> bool" where
  "VerifyPassword A user password = CompareHashAndPassword A (u_PasswordHash user) password"

definition SetPIN :: "auth \<Rightarrow> string \<Rightarrow> string \<Rightarrow> ('z aworld_scheme, unit) go" where
  "SetPIN A userID pin =
     bnd (reject (length pin \<noteq> 6) ErrInvalidPin) (\<lambda>_.
     bnd (bcrypt_hash A pin) (\<lambda>hash. UserRepo_UpdatePIN userID hash))"

definition HasPIN :: "string \<Rightarrow> ('z world_scheme, bool) go" where
  "HasPIN userID = bnd (UserRepo_FindByID userID) (\<lambda>user. ret (u_PINHash user \<noteq> []))"

definition VerifyPIN :: "auth \<Rightarrow> string \<Rightarrow> string \<Rightarrow> ('z world_scheme, unit) go" where
  "VerifyPIN A userID pin =
     bnd (reject (length pin \<noteq> 6) ErrInvalidPin) (\<lambda>_.
     bnd (UserRepo_FindByID userID) (\<lambda>user.
     reject (u_PINHash user = [] \<or> \<not> CompareHashAndPassword A (u_PINHash user) pin) ErrInvalidPin))"

definition VerifyPINThrottled :: "auth \<Rightarrow> string \<Rightarrow> string \<Rightarrow> ('z aworld_scheme, unit) go" where
  "VerifyPINThrottled A userID pin =
     (let failKey = ''pin:'' @ userID in
      bnd (isThrottled failKey pinMaxAttempts) (\<lambda>throttled.
      bnd (reject throttled ErrTooManyAttempts) (\<lambda>_.
      bnd (attempt (VerifyPIN A userID pin)) (\<lambda>r. case r of
        Inl e \<Rightarrow> bnd (noteFailure failKey) (\<lambda>_. fail e)
      | Inr _ \<Rightarrow> clearFailure failKey))))"

section \<open>One-time codes by e-mail\<close>

record pendingRegistration =
  pr_FirstName :: string
  pr_LastName :: string
  pr_Phone :: string
  pr_PasswordHash :: string

definition send_code :: "auth \<Rightarrow> string \<Rightarrow> string \<Rightarrow> ('z world_scheme, unit) go" where
  "send_code A email code =
     (case as_otpSender A of
        None \<Rightarrow> ret ()
      | Some send \<Rightarrow>
          bnd (gets (\<lambda>w. length (mail_log w))) (\<lambda>n.
          bnd (modify (\<lambda>w. w\<lparr>mail_log := mail_log w @ [(''SendOTP'', [email, code])]\<rparr>)) (\<lambda>_.
          lift (send n email code))))"

definition otp_row :: "string \<Rightarrow> string \<Rightarrow> time \<Rightarrow> pendingRegistration option \<Rightarrow> EmailOTP" where
  "otp_row email code now reg =
     (let otp = \<lparr>otp_Email = email, otp_CodeHash = hashOTP code, otp_ExpiresAt = now + otpTTL,
                 otp_NextSendAt = Some (now + otpCooldown), otp_Attempts = 0, otp_FirstName = [], otp_LastName = [],
                 otp_Phone = [], otp_PasswordHash = [], otp_CreatedAt = 0, otp_UpdatedAt = 0\<rparr>
      in case reg of
           None \<Rightarrow> otp
         | Some r \<Rightarrow> otp\<lparr>otp_FirstName := pr_FirstName r, otp_LastName := pr_LastName r, otp_Phone := pr_Phone r,
                         otp_PasswordHash := pr_PasswordHash r\<rparr>)"

definition otp_cooldown :: "EmailOTP option \<Rightarrow> ('z world_scheme, unit) go" where
  "otp_cooldown existing =
     (case existing of
        None \<Rightarrow> ret ()
      | Some otp \<Rightarrow>
          bnd (gets clock) (\<lambda>now.
          bnd (reject (case otp_NextSendAt otp of None \<Rightarrow> False | Some next \<Rightarrow> now < next) ErrOTPCooldown) (\<lambda>_.
          reject (otp_Attempts otp \<ge> otpMaxAttempt) ErrTooManyAttempts)))"

text \<open>\<open>x, err := find()\<close> where \<open>ErrNotFound\<close> means that there is none and any other error is returned.\<close>

definition if_found :: "('w, 'a) go \<Rightarrow> ('w, 'a option) go" where
  "if_found m =
     bnd (attempt m) (\<lambda>r. case r of
       Inl e \<Rightarrow> if errIs e ErrNotFound then ret None else fail e
     | Inr x \<Rightarrow> ret (Some x))"

definition issueAndSendOTP :: "auth \<Rightarrow> string \<Rightarrow> pendingRegistration option \<Rightarrow> ('z aworld_scheme, string \<times> time) go" where
  "issueAndSendOTP A email reg =
     bnd (if_found (EmailOTPRepo_FindByEmail email)) (\<lambda>existing.
     bnd (otp_cooldown existing) (\<lambda>_.
     bnd (generateOTP otpDigits) (\<lambda>code.
     bnd (gets clock) (\<lambda>now.
     bnd (EmailOTPRepo_Upsert (otp_row email code now reg)) (\<lambda>_.
     bnd (send_code A email code) (\<lambda>_.
     ret (code, now + otpCooldown)))))))"

definition fetchAndValidateOTP :: "string \<Rightarrow> string \<Rightarrow> ('z world_scheme, EmailOTP) go" where
  "fetchAndValidateOTP email code =
     bnd (reject (length code \<noteq> otpDigits) ErrInvalidCode) (\<lambda>_.
     bnd (if_found (EmailOTPRepo_FindByEmail email)) (\<lambda>found. case found of
       None \<Rightarrow> fail ErrOTPNotFound
     | Some otp \<Rightarrow>
         bnd (gets clock) (\<lambda>now.
         if now > otp_ExpiresAt otp then bnd (ignore (EmailOTPRepo_Clear email)) (\<lambda>_. fail ErrOTPExpired)
         else if otp_Attempts otp \<ge> otpMaxAttempt then bnd (ignore (EmailOTPRepo_Clear email)) (\<lambda>_. fail ErrTooManyAttempts)
         else if otp_CodeHash otp \<noteq> hashOTP code then bnd (ignore (EmailOTPRepo_IncrementAttempts email)) (\<lambda>_. fail ErrInvalidCode)
         else ret otp)))"

definition SendOTPCode :: "auth \<Rightarrow> string \<Rightarrow> ('z aworld_scheme, unit) go" where
  "SendOTPCode A email0 =
     (let email = ToLower (TrimSpace email0) in
      bnd (reject (\<not> emailRe email) ErrBadRequest) (\<lambda>_.
      bnd (issueAndSendOTP A email None) (\<lambda>_.
      bnd (attempt (UserRepo_FindByEmail email)) (\<lambda>r. case r of
        Inl _ \<Rightarrow> ret ()
      | Inr user \<Rightarrow> recordEvent A (plain_event (u_ID user) ''recovery'' SeverityInfo ''Verification code sent''
                      ''A one-time code was emailed to the account address'')))))"

definition VerifyOTPCode :: "auth \<Rightarrow> string \<Rightarrow> string \<Rightarrow> ('z aworld_scheme, unit) go" where
  "VerifyOTPCode A email0 code =
     (let email = ToLower (TrimSpace email0) in
      bnd (reject (\<not> emailRe email) ErrInvalidCode) (\<lambda>_.
      bnd (fetchAndValidateOTP email code) (\<lambda>_.
      bnd (attempt (UserRepo_FindByEmail email)) (\<lambda>r. case r of
        Inl _ \<Rightarrow> bnd (ignore (EmailOTPRepo_Clear email)) (\<lambda>_. fail ErrOTPNotFound)
      | Inr user \<Rightarrow>
          bnd (ignore (EmailOTPRepo_Clear email)) (\<lambda>_.
          bnd (attempt (UserRepo_MarkEmailVerified (u_ID user))) (\<lambda>m. case m of
            Inl e \<Rightarrow>
              if errIs e ErrNotFound
              then recordSecurity A (u_ID user) ''register'' ''Email verified'' ''Ownership of the account email was confirmed with a one-time code'' [] []
              else fail e
          | Inr _ \<Rightarrow>
              recordSecurity A (u_ID user) ''register'' ''Email verified'' ''Ownership of the account email was confirmed with a one-time code'' [] []))))))"

section \<open>Sessions\<close>

definition session_row :: "auth \<Rightarrow> string \<Rightarrow> string \<Rightarrow> string \<Rightarrow> string \<Rightarrow> time \<Rightarrow> Session" where
  "session_row A userID token device ip now =
     \<lparr>s_ID = [], s_UserID = userID, s_TokenHash = tokenHash token, s_Device = device, s_IP = ip,
      s_ExpiresAt = now + as_sessionTTL A, s_RevokedAt = None, s_CreatedAt = 0, s_LastActiveAt = 0\<rparr>"

definition issueSession :: "auth \<Rightarrow> string \<Rightarrow> string \<Rightarrow> string \<Rightarrow> ('z aworld_scheme, string) go" where
  "issueSession A userID device ip =
     bnd (rand_Read 32) (\<lambda>raw.
     let token = url_EncodeToString raw in
     bnd (gets clock) (\<lambda>now.
     bnd (SessionRepo_Create (session_row A userID token device ip now)) (\<lambda>_.
     ret token)))"

text \<open>The repository returns a missing session as the driver's \<open>ErrNoRows\<close>, which is not \<open>ErrNotFound\<close>.\<close>

definition Authenticate :: "string \<Rightarrow> ('z world_scheme, user_row) go" where
  "Authenticate token =
     bnd (if_found (SessionRepo_FindByTokenHash (tokenHash token))) (\<lambda>found. case found of
       None \<Rightarrow> fail ErrInvalidToken
     | Some sess \<Rightarrow>
         bnd (gets clock) (\<lambda>now.
         bnd (reject (s_RevokedAt sess \<noteq> None \<or> now > s_ExpiresAt sess) ErrInvalidToken) (\<lambda>_.
         bnd (UserRepo_FindByID (s_UserID sess)) (\<lambda>user.
         bnd (reject (u_Status user = UserStatusSuspended \<or> u_Status user = UserStatusLocked) ErrUserLocked) (\<lambda>_.
         bnd (ignore (SessionRepo_TouchLastActive (s_ID sess))) (\<lambda>_.
         ret user))))))"

definition Logout :: "auth \<Rightarrow> string \<Rightarrow> ('z world_scheme, unit) go" where
  "Logout A token =
     bnd (if_found (SessionRepo_FindByTokenHash (tokenHash token))) (\<lambda>found. case found of
       None \<Rightarrow> ret ()
     | Some sess \<Rightarrow>
         bnd (SessionRepo_Revoke (s_ID sess)) (\<lambda>_.
         recordEvent A (device_event (s_UserID sess) ''logout'' SeverityInfo ''Signed out'' ''You signed out of this device''
           (s_IP sess) (s_Device sess) Map.empty)))"

definition CurrentSessionID :: "string \<Rightarrow> ('z world_scheme, string) go" where
  "CurrentSessionID token =
     (if token = [] then ret []
      else bnd (attempt (SessionRepo_FindByTokenHash (tokenHash token))) (\<lambda>r. case r of Inl _ \<Rightarrow> ret [] | Inr sess \<Rightarrow> ret (s_ID sess)))"

section \<open>Two-factor challenges\<close>

definition challenge_mac :: "auth \<Rightarrow> string \<Rightarrow> string" where
  "challenge_mac A payload = hex_EncodeToString (hmac sha256 (as_challengeKey A) (bytes_of payload))"

definition newChallenge :: "auth \<Rightarrow> string \<Rightarrow> time \<Rightarrow> string" where
  "newChallenge A userID now =
     (let payload = userID @ ''|'' @ show_int ((now + totpChallengeTTL) div second)
      in url_EncodeToString (bytes_of (payload @ ''|'' @ challenge_mac A payload)))"

definition verifyChallenge :: "auth \<Rightarrow> string \<Rightarrow> time \<Rightarrow> err + string" where
  "verifyChallenge A token now =
     (if token = [] then Inl ErrTwoFactorInvalid
      else case url_DecodeString token of
             None \<Rightarrow> Inl ErrTwoFactorInvalid
           | Some raw \<Rightarrow>
               (case split_on CHR ''|'' (string_of raw) of
                  [userID, expiry, mac] \<Rightarrow>
                    if challenge_mac A (userID @ ''|'' @ expiry) \<noteq> mac then Inl ErrTwoFactorInvalid
                    else (case ParseInt expiry of
                            Inl _ \<Rightarrow> Inl ErrTwoFactorInvalid
                          | Inr unix \<Rightarrow> if now div second > unix then Inl ErrTwoFactorInvalid else Inr userID)
                | _ \<Rightarrow> Inl ErrTwoFactorInvalid))"

section \<open>Registration\<close>

record RegisterInput =
  ri_Email :: string
  ri_Phone :: string
  ri_FirstName :: string
  ri_LastName :: string
  ri_Password :: string
  ri_Device :: string
  ri_IP :: string

definition StageRegistration :: "auth \<Rightarrow> RegisterInput \<Rightarrow> ('z aworld_scheme, time) go" where
  "StageRegistration A req =
     (let email = ToLower (TrimSpace (ri_Email req)) in
      bnd (reject (\<not> emailRe email) ErrBadRequest) (\<lambda>_.
      bnd (reject (length (ri_Password req) < 8) ErrBadRequest) (\<lambda>_.
      bnd (if_found (UserRepo_FindByEmail email)) (\<lambda>found.
      bnd (reject (found \<noteq> None) ErrDuplicateEmail) (\<lambda>_.
      bnd (bcrypt_hash A (ri_Password req)) (\<lambda>hash.
      bnd (issueAndSendOTP A email (Some \<lparr>pr_FirstName = ri_FirstName req, pr_LastName = ri_LastName req,
             pr_Phone = ri_Phone req, pr_PasswordHash = hash\<rparr>)) (\<lambda>(code, resendAfter).
      ret resendAfter)))))))"

definition registered_user :: "string \<Rightarrow> EmailOTP \<Rightarrow> time \<Rightarrow> User" where
  "registered_user email otp now =
     \<lparr>u_ID = [], u_Email = email, u_Phone = otp_Phone otp, u_FirstName = otp_FirstName otp, u_LastName = otp_LastName otp,
      u_PasswordHash = otp_PasswordHash otp, u_PINHash = [], u_TOTPSecret = [], u_TOTPEnabled = False,
      u_Status = UserStatusActive, u_CreatedAt = 0, u_UpdatedAt = 0, u_EmailVerifiedAt = Some now\<rparr>"

definition create_account :: "string \<Rightarrow> User \<Rightarrow> ('z world_scheme, user_row) go" where
  "create_account email user =
     RunInTx (bnd (UserRepo_Create user) (\<lambda>row.
              bnd (AccountRepo_EnsureDefaultAccounts (u_ID row)) (\<lambda>_.
              bnd (ignore (EmailOTPRepo_Clear email)) (\<lambda>_.
              ret row))))"

definition CompleteRegistration :: "auth \<Rightarrow> string \<Rightarrow> string \<Rightarrow> string \<Rightarrow> string \<Rightarrow> ('z aworld_scheme, user_row \<times> string) go" where
  "CompleteRegistration A email0 code device ip =
     (let email = ToLower (TrimSpace email0) in
      bnd (reject (\<not> emailRe email) ErrInvalidCode) (\<lambda>_.
      bnd (fetchAndValidateOTP email code) (\<lambda>otp.
      bnd (reject (otp_PasswordHash otp = []) ErrNoPendingRegistration) (\<lambda>_.
      bnd (gets clock) (\<lambda>now.
      bnd (create_account email (registered_user email otp now)) (\<lambda>user.
      bnd (issueSession A (u_ID user) device ip) (\<lambda>token.
      bnd (recordSecurity A (u_ID user) ''register'' ''Account created'' ''Welcome to Globmint'' ip device) (\<lambda>_.
      bnd (ignore (NotificationRepo_Create (u_ID user) ''general'' ''Welcome to Globmint'' ''Your digital savings vault is ready.'')) (\<lambda>_.
      ret (user, token))))))))))"

section \<open>Sign-in\<close>

record LoginResult =
  lr_User :: user_row
  lr_Token :: string
  lr_Requires2FA :: bool
  lr_ChallengeToken :: string

definition login_rejected :: "auth \<Rightarrow> string \<Rightarrow> user_row \<Rightarrow> string \<Rightarrow> string \<Rightarrow> ('z aworld_scheme, LoginResult) go" where
  "login_rejected A failKey user device ip =
     bnd (noteFailure failKey) (\<lambda>_.
     bnd (recordLoginFailure A user device ip ''bad_password'') (\<lambda>_.
     bnd (isThrottled failKey loginMaxAttempts) (\<lambda>throttled.
     if throttled
     then bnd (recordThrottle A user device ip) (\<lambda>_.
          bnd (sendFailedLoginAlert A user ip) (\<lambda>_. fail ErrTooManyAttempts))
     else fail ErrInvalidCredentials)))"

definition login_unknown :: "string \<Rightarrow> ('z aworld_scheme, LoginResult) go" where
  "login_unknown failKey =
     bnd (noteFailure failKey) (\<lambda>_.
     bnd (isThrottled failKey loginMaxAttempts) (\<lambda>throttled.
     fail (if throttled then ErrTooManyAttempts else ErrInvalidCredentials)))"

definition login_accepted :: "auth \<Rightarrow> user_row \<Rightarrow> string \<Rightarrow> string \<Rightarrow> string \<Rightarrow> ('z aworld_scheme, LoginResult) go" where
  "login_accepted A user device ip via =
     bnd (issueSession A (u_ID user) device ip) (\<lambda>token.
     bnd (recordLoginSuccess A user device ip via) (\<lambda>_.
     ret \<lparr>lr_User = user, lr_Token = token, lr_Requires2FA = False, lr_ChallengeToken = []\<rparr>))"

definition Login :: "auth \<Rightarrow> string \<Rightarrow> string \<Rightarrow> string \<Rightarrow> string \<Rightarrow> ('z aworld_scheme, LoginResult) go" where
  "Login A email password device ip =
     (let failKey = ''login:'' @ emailHashKey email in
      bnd (if_found (UserRepo_FindByEmail (ToLower (TrimSpace email)))) (\<lambda>found. case found of
        None \<Rightarrow> login_unknown failKey
      | Some user \<Rightarrow>
          bnd (reject (u_Status user = UserStatusLocked \<or> u_Status user = UserStatusSuspended) ErrUserLocked) (\<lambda>_.
          if \<not> CompareHashAndPassword A (u_PasswordHash user) password then login_rejected A failKey user device ip
          else bnd (clearFailure failKey) (\<lambda>_.
               if u_TOTPEnabled user
               then bnd (recordEvent A (device_event (u_ID user) ''two_factor'' SeverityInfo ''Two-factor challenge issued''
                           ''Signing in requires your authenticator code'' ip device [''outcome'' \<mapsto> JStr ''issued''])) (\<lambda>_.
                    bnd (gets clock) (\<lambda>now.
                    ret \<lparr>lr_User = user, lr_Token = [], lr_Requires2FA = True, lr_ChallengeToken = newChallenge A (u_ID user) now\<rparr>))
               else login_accepted A user device ip ''password''))))"

definition Verify2FA :: "auth \<Rightarrow> string \<Rightarrow> string \<Rightarrow> string \<Rightarrow> string \<Rightarrow> ('z aworld_scheme, LoginResult) go" where
  "Verify2FA A challengeToken code device ip =
     bnd (gets clock) (\<lambda>now.
     case verifyChallenge A challengeToken now of
       Inl e \<Rightarrow>
         bnd (recordEvent A (device_event [] ''two_factor'' SeverityWarn ''Two-factor challenge rejected''
                ''An invalid or expired 2FA challenge was presented'' ip device [''outcome'' \<mapsto> JStr ''challenge_rejected''])) (\<lambda>_.
         fail e)
     | Inr userID \<Rightarrow>
         bnd (on_err (\<lambda>_. ErrTwoFactorInvalid) (UserRepo_FindByID userID)) (\<lambda>user.
         bnd (reject (\<not> u_TOTPEnabled user \<or> u_TOTPSecret user = []) ErrTwoFactorInvalid) (\<lambda>_.
         if \<not> verifyTOTP (u_TOTPSecret user) code now
         then bnd (recordEvent A (device_event userID ''two_factor'' SeverityWarn ''Two-factor code rejected''
                     ''An incorrect authenticator code was submitted'' ip device [''outcome'' \<mapsto> JStr ''failed''])) (\<lambda>_.
              fail ErrInvalidCode)
         else bnd (clearFailure (''login:'' @ emailHashKey (u_Email user))) (\<lambda>_.
              login_accepted A user device ip ''two_factor''))))"

section \<open>Managing credentials\<close>

definition GenerateTOTP :: "string \<Rightarrow> string \<Rightarrow> ('z aworld_scheme, string \<times> string) go" where
  "GenerateTOTP userID email =
     bnd (UserRepo_FindByID userID) (\<lambda>user.
     bnd (reject (u_TOTPEnabled user) ErrConflict) (\<lambda>_.
     bnd generateTOTPSecret (\<lambda>secret.
     bnd (UserRepo_UpdateTOTP userID secret False) (\<lambda>_.
     ret (secret, totpURI secret email ''Globmint'')))))"

definition EnableTOTP :: "auth \<Rightarrow> string \<Rightarrow> string \<Rightarrow> ('z aworld_scheme, unit) go" where
  "EnableTOTP A userID code =
     bnd (UserRepo_FindByID userID) (\<lambda>user.
     bnd (reject (u_TOTPSecret user = []) ErrBadRequest) (\<lambda>_.
     bnd (gets clock) (\<lambda>now.
     bnd (reject (\<not> verifyTOTP (u_TOTPSecret user) code now) ErrInvalidCode) (\<lambda>_.
     bnd (UserRepo_UpdateTOTP userID (u_TOTPSecret user) True) (\<lambda>_.
     recordEvent A ((plain_event userID ''two_factor'' SeverityInfo ''Two-factor enabled'' ''Authenticator app linked to this account'')
       \<lparr>se_Metadata := [''outcome'' \<mapsto> JStr ''enabled'']\<rparr>))))))"

definition DisableTOTP :: "auth \<Rightarrow> string \<Rightarrow> string \<Rightarrow> string \<Rightarrow> ('z aworld_scheme, unit) go" where
  "DisableTOTP A userID pin code =
     bnd (VerifyPIN A userID pin) (\<lambda>_.
     bnd (UserRepo_FindByID userID) (\<lambda>user.
     bnd (gets clock) (\<lambda>now.
     bnd (reject (u_TOTPSecret user = [] \<or> \<not> verifyTOTP (u_TOTPSecret user) code now) ErrInvalidCode) (\<lambda>_.
     bnd (UserRepo_UpdateTOTP userID (u_TOTPSecret user) False) (\<lambda>_.
     recordEvent A ((plain_event userID ''two_factor'' SeverityInfo ''Two-factor disabled'' ''Authenticator app unlinked from this account'')
       \<lparr>se_Metadata := [''outcome'' \<mapsto> JStr ''disabled'']\<rparr>))))))"

definition ChangePassword :: "auth \<Rightarrow> string \<Rightarrow> string \<Rightarrow> string \<Rightarrow> string \<Rightarrow> ('z aworld_scheme, unit) go" where
  "ChangePassword A userID current new keepSessionID =
     bnd (reject (length new < 8) ErrBadRequest) (\<lambda>_.
     bnd (UserRepo_FindByID userID) (\<lambda>user.
     bnd (reject (\<not> CompareHashAndPassword A (u_PasswordHash user) current) ErrInvalidCredentials) (\<lambda>_.
     bnd (bcrypt_hash A new) (\<lambda>hash.
     bnd (UserRepo_UpdatePassword userID hash) (\<lambda>_.
     bnd (SessionRepo_RevokeAllExcept userID keepSessionID) (\<lambda>_.
     bnd (recordEvent A (plain_event userID ''password'' SeverityInfo ''Password changed'' ''Your password was updated'')) (\<lambda>_.
     recordEvent A (plain_event userID ''session_revoked'' SeverityCritical ''Other sessions revoked''
       ''A password change signed every other device out''))))))))"

end
