(* ===== verification/AuthLaws.thy ===== *)
theory AuthLaws
  imports Auth
begin

text \<open>
  What the operations of the authentication and security services keep of the session and user tables. The two
  relations of a table say how its rows may change: one for work that adds no row, one for any work.
\<close>

section \<open>How rows change\<close>

definition sess_kept :: "Session \<Rightarrow> Session \<Rightarrow> bool" where
  "sess_kept s s' \<longleftrightarrow> s_ID s' = s_ID s \<and> s_UserID s' = s_UserID s \<and> s_TokenHash s' = s_TokenHash s
     \<and> s_ExpiresAt s' = s_ExpiresAt s \<and> s_Device s' = s_Device s \<and> s_IP s' = s_IP s \<and> (s_RevokedAt s \<noteq> None \<longrightarrow> s_RevokedAt s' = s_RevokedAt s)"

definition hashes :: "db \<Rightarrow> string list" where
  "hashes d = map s_TokenHash (sessions d)"

definition sess_same :: "db \<Rightarrow> db \<Rightarrow> bool" where
  "sess_same d d' \<longleftrightarrow> list_all2 sess_kept (sessions d) (sessions d')"

definition sess_step :: "db \<Rightarrow> db \<Rightarrow> bool" where
  "sess_step d d' \<longleftrightarrow> (\<exists>old new. sessions d' = old @ new \<and> list_all2 sess_kept (sessions d) old)
     \<and> (distinct (hashes d) \<longrightarrow> distinct (hashes d'))"

definition user_kept :: "user_row \<Rightarrow> user_row \<Rightarrow> bool" where
  "user_kept u u' \<longleftrightarrow> u_ID u' = u_ID u \<and> u_Email u' = u_Email u
     \<and> (u_EmailVerifiedAt u \<noteq> None \<longrightarrow> u_EmailVerifiedAt u' = u_EmailVerifiedAt u)"

definition users_same :: "db \<Rightarrow> db \<Rightarrow> bool" where
  "users_same d d' \<longleftrightarrow> list_all2 user_kept (users d) (users d')"

definition users_unique :: "db \<Rightarrow> bool" where
  "users_unique d \<longleftrightarrow> distinct (map u_ID (users d)) \<and> distinct (map u_Email (users d))"

definition users_step :: "db \<Rightarrow> db \<Rightarrow> bool" where
  "users_step d d' \<longleftrightarrow> (\<exists>old new. users d' = old @ new \<and> list_all2 user_kept (users d) old
       \<and> (\<forall>u\<in>set new. u_EmailVerifiedAt u \<noteq> None))
     \<and> (users_unique d \<longrightarrow> users_unique d')"

lemma sess_kept_refl [simp]: "sess_kept s s"
  by (simp add: sess_kept_def)

lemma sess_kept_trans: "sess_kept s1 s2 \<Longrightarrow> sess_kept s2 s3 \<Longrightarrow> sess_kept s1 s3"
  by (auto simp: sess_kept_def)

lemma user_kept_refl [simp]: "user_kept u u"
  by (simp add: user_kept_def)

lemma user_kept_trans: "user_kept u1 u2 \<Longrightarrow> user_kept u2 u3 \<Longrightarrow> user_kept u1 u3"
  by (auto simp: user_kept_def)

lemma sess_stepI:
  "sessions d' = old @ new \<Longrightarrow> list_all2 sess_kept (sessions d) old \<Longrightarrow> (distinct (hashes d) \<Longrightarrow> distinct (hashes d')) \<Longrightarrow> sess_step d d'"
  unfolding sess_step_def by blast

lemma sess_stepE:
  assumes "sess_step d d'"
  obtains old new where "sessions d' = old @ new" "list_all2 sess_kept (sessions d) old" "distinct (hashes d) \<longrightarrow> distinct (hashes d')"
  using assms unfolding sess_step_def by blast

lemma users_stepI:
  "users d' = old @ new \<Longrightarrow> list_all2 user_kept (users d) old \<Longrightarrow> (\<And>u. u \<in> set new \<Longrightarrow> u_EmailVerifiedAt u \<noteq> None)
    \<Longrightarrow> (users_unique d \<Longrightarrow> users_unique d') \<Longrightarrow> users_step d d'"
  unfolding users_step_def by blast

lemma users_stepE:
  assumes "users_step d d'"
  obtains old new where "users d' = old @ new" "list_all2 user_kept (users d) old"
    "\<forall>u\<in>set new. u_EmailVerifiedAt u \<noteq> None" "users_unique d \<longrightarrow> users_unique d'"
  using assms unfolding users_step_def by blast

lemma sess_step_snoc:
  "sessions d' = sessions d @ [s] \<Longrightarrow> s_TokenHash s \<notin> set (hashes d) \<Longrightarrow> sess_step d d'"
  by (rule sess_stepI) (auto simp: hashes_def list_all2_refl)

lemma users_step_snoc:
  "users d' = users d @ [u] \<Longrightarrow> u_EmailVerifiedAt u \<noteq> None \<Longrightarrow> \<forall>r\<in>set (users d). u_Email r \<noteq> u_Email u \<and> u_ID r \<noteq> u_ID u \<Longrightarrow> users_step d d'"
  by (rule users_stepI) (auto simp: users_unique_def list_all2_refl)

lemma kept_chain:
  assumes "\<And>a b c. R a b \<Longrightarrow> R b c \<Longrightarrow> R a c"
    and "list_all2 R xs ys" and "list_all2 R (ys @ zs) vs"
  obtains old new where "vs = old @ new" and "list_all2 R xs old" and "list_all2 R zs new"
proof -
  obtain old new where vs: "vs = old @ new" "list_all2 R ys old" "list_all2 R zs new"
    using assms(3) by (auto simp: list_all2_append1)
  then have "list_all2 R xs old" using list_all2_trans [of R R R xs ys old] assms(1,2) by blast
  then show ?thesis using vs that by simp
qed

interpretation ssame: db_preorder sess_same
proof
  show "sess_same d d" for d by (simp add: sess_same_def list_all2_refl)
  show "sess_same d1 d2 \<Longrightarrow> sess_same d2 d3 \<Longrightarrow> sess_same d1 d3" for d1 d2 d3
    unfolding sess_same_def by (rule list_all2_trans [OF sess_kept_trans])
qed

interpretation usame: db_preorder users_same
proof
  show "users_same d d" for d by (simp add: users_same_def list_all2_refl)
  show "users_same d1 d2 \<Longrightarrow> users_same d2 d3 \<Longrightarrow> users_same d1 d3" for d1 d2 d3
    unfolding users_same_def by (rule list_all2_trans [OF user_kept_trans])
qed

interpretation sstep: db_preorder sess_step
proof
  show "sess_step d d" for d
    by (rule sess_stepI [of d "sessions d" "[]"]) (simp_all add: list_all2_refl)
  show "sess_step d1 d3" if st: "sess_step d1 d2" "sess_step d2 d3" for d1 d2 d3
  proof -
    obtain o2 n2 where 2: "sessions d2 = o2 @ n2" "list_all2 sess_kept (sessions d1) o2"
      "distinct (hashes d1) \<longrightarrow> distinct (hashes d2)" using st(1) by (rule sess_stepE)
    obtain o3 n3 where 3: "sessions d3 = o3 @ n3" "list_all2 sess_kept (sessions d2) o3"
      "distinct (hashes d2) \<longrightarrow> distinct (hashes d3)" using st(2) by (rule sess_stepE)
    obtain old new where "o3 = old @ new" "list_all2 sess_kept (sessions d1) old" "list_all2 sess_kept n2 new"
      by (rule kept_chain [of sess_kept, OF sess_kept_trans 2(2) 3(2) [unfolded 2(1)]])
    then show ?thesis using 2 3 by (intro sess_stepI [of d3 old "new @ n3"]) simp_all
  qed
qed

interpretation ustep: db_preorder users_step
proof
  show "users_step d d" for d
    by (rule users_stepI [of d "users d" "[]"]) (simp_all add: list_all2_refl)
  show "users_step d1 d3" if st: "users_step d1 d2" "users_step d2 d3" for d1 d2 d3
  proof -
    obtain o2 n2 where 2: "users d2 = o2 @ n2" "list_all2 user_kept (users d1) o2"
      "\<forall>u\<in>set n2. u_EmailVerifiedAt u \<noteq> None" "users_unique d1 \<longrightarrow> users_unique d2"
      using st(1) by (rule users_stepE)
    obtain o3 n3 where 3: "users d3 = o3 @ n3" "list_all2 user_kept (users d2) o3"
      "\<forall>u\<in>set n3. u_EmailVerifiedAt u \<noteq> None" "users_unique d2 \<longrightarrow> users_unique d3"
      using st(2) by (rule users_stepE)
    obtain old new where on: "o3 = old @ new" "list_all2 user_kept (users d1) old" "list_all2 user_kept n2 new"
      by (rule kept_chain [of user_kept, OF user_kept_trans 2(2) 3(2) [unfolded 2(1)]])
    have "u_EmailVerifiedAt u \<noteq> None" if u: "u \<in> set new" for u
    proof -
      obtain i where "i < length new" "u = new ! i" using u by (metis in_set_conv_nth)
      then have "user_kept (n2 ! i) u" "n2 ! i \<in> set n2" using on(3) by (auto simp: list_all2_conv_all_nth)
      then show ?thesis using 2(3) by (auto simp: user_kept_def)
    qed
    then show ?thesis using 2 3 on by (intro users_stepI [of d3 old "new @ n3"]) auto
  qed
qed

lemma sess_step_if_same: "sess_same d d' \<Longrightarrow> sess_step d d'"
proof -
  assume s: "sess_same d d'"
  then have "hashes d' = hashes d"
    by (auto simp: sess_same_def hashes_def sess_kept_def list_all2_conv_all_nth intro: nth_equalityI)
  then show ?thesis using s by (intro sess_stepI [of d' "sessions d'" "[]"]) (auto simp: sess_same_def)
qed

lemma users_step_if_same: "users_same d d' \<Longrightarrow> users_step d d'"
proof -
  assume s: "users_same d d'"
  then have "map u_ID (users d') = map u_ID (users d)" "map u_Email (users d') = map u_Email (users d)"
    by (auto simp: users_same_def user_kept_def list_all2_conv_all_nth intro: nth_equalityI)
  then show ?thesis using s by (intro users_stepI [of d' "users d'" "[]"]) (auto simp: users_same_def users_unique_def)
qed

lemma pres_sstep_if: "pres sess_same m \<Longrightarrow> pres sess_step m"
  by (erule pres_mono) (rule sess_step_if_same)

lemma pres_ustep_if: "pres users_same m \<Longrightarrow> pres users_step m"
  by (erule pres_mono) (rule users_step_if_same)

lemma same_hashes: "sess_same d d' \<Longrightarrow> hashes d' = hashes d"
  by (auto simp: sess_same_def hashes_def sess_kept_def list_all2_conv_all_nth intro: nth_equalityI)

section \<open>The statements\<close>

lemma ssame_stmtI:
  assumes "\<And>i t d v d'. q i t d = Inr (v, d') \<Longrightarrow> sessions d' = sessions d"
  shows "pres sess_same (stmt q)"
  by (rule ssame.pres_stmt) (use assms in \<open>auto simp: sess_same_def list_all2_refl\<close>)

lemma usame_stmtI:
  assumes "\<And>i t d v d'. q i t d = Inr (v, d') \<Longrightarrow> users d' = users d"
  shows "pres users_same (stmt q)"
  by (rule usame.pres_stmt) (use assms in \<open>auto simp: users_same_def list_all2_refl\<close>)

lemma kept_update: "(\<And>r. R r r) \<Longrightarrow> (\<And>r. P r \<Longrightarrow> R r (f r)) \<Longrightarrow> list_all2 R rs (update_where P f rs)"
  by (simp add: update_where_def list_all2_conv_all_nth)

lemma ssame_users:
  "pres sess_same (UserRepo_Create u)" "pres sess_same (UserRepo_UpdatePIN uid s)"
  "pres sess_same (UserRepo_UpdatePassword uid s)" "pres sess_same (UserRepo_UpdateTOTP uid s b)"
  "pres sess_same (UserRepo_MarkEmailVerified uid)" "pres sess_same (UserRepo_UpdateNotificationPrefs uid b b')"
  "pres sess_same (AccountRepo_EnsureDefaultAccounts uid)" "pres sess_same (SecurityEventRepo_Create se)"
  "pres sess_same (NotificationRepo_Create uid c ti bo)" "pres sess_same (EmailOTPRepo_Upsert otp)"
  "pres sess_same (EmailOTPRepo_IncrementAttempts s)" "pres sess_same (EmailOTPRepo_Clear s)"
  by (auto simp: repo_defs Let_def split: if_splits option.splits
      intro!: ssame.pres_rules ssame.pres_mapped ssame.pres_affecting ssame_stmtI)

lemma ssame_sessions:
  "pres sess_same (SessionRepo_Revoke sid)" "pres sess_same (SessionRepo_RevokeAllExcept uid sid)"
  "pres sess_same (SessionRepo_TouchLastActive sid)"
  unfolding SessionRepo_Revoke_def SessionRepo_RevokeAllExcept_def SessionRepo_revoke_where_def SessionRepo_TouchLastActive_def
  by (intro ssame.pres_rules ssame.pres_mapped ssame.pres_affecting ssame.pres_stmt;
      force simp: sess_same_def sess_kept_def intro!: kept_update)+

lemma usame_writes:
  "pres users_same (AccountRepo_EnsureDefaultAccounts uid)" "pres users_same (SecurityEventRepo_Create se)"
  "pres users_same (NotificationRepo_Create uid c ti bo)" "pres users_same (EmailOTPRepo_Upsert otp)"
  "pres users_same (EmailOTPRepo_IncrementAttempts s)" "pres users_same (EmailOTPRepo_Clear s)"
  "pres users_same (SessionRepo_Create ses)" "pres users_same (SessionRepo_Revoke sid)"
  "pres users_same (SessionRepo_RevokeAllExcept uid sid)" "pres users_same (SessionRepo_TouchLastActive sid)"
  by (auto simp: repo_defs Let_def split: if_splits option.splits
      intro!: usame.pres_rules usame.pres_mapped usame.pres_affecting usame_stmtI)

lemma usame_users:
  "pres users_same (UserRepo_UpdatePIN uid s)" "pres users_same (UserRepo_UpdatePassword uid s)"
  "pres users_same (UserRepo_UpdateTOTP uid s b)" "pres users_same (UserRepo_MarkEmailVerified uid)"
  "pres users_same (UserRepo_UpdateNotificationPrefs uid b b')"
  unfolding UserRepo_UpdatePIN_def UserRepo_UpdatePassword_def UserRepo_UpdateTOTP_def UserRepo_MarkEmailVerified_def
    UserRepo_UpdateNotificationPrefs_def UserRepo_update_def
  by (intro usame.pres_rules usame.pres_mapped usame.pres_affecting usame.pres_stmt;
      force simp: users_same_def user_kept_def intro!: kept_update)+

lemma step_creates:
  "pres sess_step (SessionRepo_Create ses)" "u_EmailVerifiedAt us \<noteq> None \<Longrightarrow> pres users_step (UserRepo_Create us)"
proof -
  show "pres sess_step (SessionRepo_Create ses)"
    unfolding SessionRepo_Create_def
    by (intro sstep.pres_mapped sstep.pres_stmt)
      (force simp: hashes_def Let_def split: if_splits intro!: sess_step_snoc)
  show "pres users_step (UserRepo_Create us)" if "u_EmailVerifiedAt us \<noteq> None"
    unfolding UserRepo_Create_def using that
    by (intro ustep.pres_mapped ustep.pres_stmt)
      (auto simp: Let_def split: if_splits intro!: users_step_snoc)
qed

section \<open>The operations\<close>

lemma auth_fixed:
  "pres (=) (rand_Read n)" "pres (=) (bcrypt_hash A p)" "pres (=) (dedupeAlert u t)" "pres (=) (noteFailure k)"
  "pres (=) (isThrottled k mx)" "pres (=) (clearFailure k)" "pres (=) (modify (\<lambda>w. w\<lparr>mail_log := f w\<rparr>))"
  "pres (=) (modify (\<lambda>w. w\<lparr>hub_log := g w\<rparr>))"
  by (auto simp: pres_def rand_Read_def bcrypt_hash_def dedupeAlert_def noteFailure_def isThrottled_def clearFailure_def
      modify_def Let_def split: option.splits)

lemmas auth_reads = repos_read repos_read2 auth_fixed

lemmas ssame_rules = ssame.pres_rules ssame_users ssame_sessions auth_reads [THEN ssame.pres_fixed]
lemmas usame_rules = usame.pres_rules usame_writes usame_users auth_reads [THEN usame.pres_fixed]

text \<open>The audit trail, the mails and the codes add neither a session nor a user.\<close>

lemmas side_defs = published_def recordEvent_def recordSecurity_def notificationsOn_def send_alert_def
  sendNewSignInAlert_def sendFailedLoginAlert_def recordLoginSuccess_def recordLoginFailure_def recordThrottle_def
  if_found_def otp_cooldown_def generateOTP_def generateTOTPSecret_def send_code_def issueAndSendOTP_def
  fetchAndValidateOTP_def VerifyPIN_def login_unknown_def login_rejected_def

lemma ssame_side:
  "pres sess_same (published h u)" "pres sess_same (recordEvent A ev)" "pres sess_same (recordSecurity A u e t d i v)"
  "pres sess_same (send_alert A us b ma)" "pres sess_same (recordLoginSuccess A us d i v)"
  "pres sess_same (recordThrottle A us d i)" "pres sess_same (login_unknown k)" "pres sess_same (login_rejected A k us d i)"
  "pres sess_same (issueAndSendOTP A em reg)" "pres sess_same (fetchAndValidateOTP em c)" "pres sess_same (VerifyPIN A u p)"
  "pres sess_same (generateOTP n)" "pres sess_same generateTOTPSecret"
  unfolding side_defs by (intro ssame_rules)+

lemma usame_side:
  "pres users_same (published h u)" "pres users_same (recordEvent A ev)" "pres users_same (recordSecurity A u e t d i v)"
  "pres users_same (send_alert A us b ma)" "pres users_same (recordLoginSuccess A us d i v)"
  "pres users_same (recordThrottle A us d i)" "pres users_same (login_unknown k)" "pres users_same (login_rejected A k us d i)"
  "pres users_same (issueAndSendOTP A em reg)" "pres users_same (fetchAndValidateOTP em c)" "pres users_same (VerifyPIN A u p)"
  "pres users_same (generateOTP n)" "pres users_same generateTOTPSecret" "pres users_same (issueSession A u d i)"
  unfolding side_defs issueSession_def by (intro usame_rules)+

lemma fixed_if_found: "pres (=) m \<Longrightarrow> pres (=) (if_found m)"
  unfolding if_found_def by (intro fixed.pres_rules)

text \<open>The operations a client can ask for.\<close>

datatype auth_op =
    OpStage RegisterInput
  | OpComplete string string string string
  | OpLogin string string string string
  | OpVerify2FA string string string string
  | OpSendOTP string
  | OpVerifyOTP string string
  | OpSetPIN string string
  | OpCheckPIN string string
  | OpGenerateTOTP string string
  | OpEnableTOTP string string
  | OpDisableTOTP string string string
  | OpChangePassword string string string string
  | OpAuthenticate string
  | OpLogout string
  | OpRevokeDevice string string
  | OpRevokeOthers string string
  | OpPrefs string bool bool
  | OpRecord SecurityEvent

fun run_auth :: "auth \<Rightarrow> auth_op \<Rightarrow> ('z aworld_scheme, unit) go" where
  "run_auth A (OpStage req) = ignore (StageRegistration A req)"
| "run_auth A (OpComplete email code device ip) = ignore (CompleteRegistration A email code device ip)"
| "run_auth A (OpLogin email password device ip) = ignore (Login A email password device ip)"
| "run_auth A (OpVerify2FA challenge code device ip) = ignore (Verify2FA A challenge code device ip)"
| "run_auth A (OpSendOTP email) = ignore (SendOTPCode A email)"
| "run_auth A (OpVerifyOTP email code) = ignore (VerifyOTPCode A email code)"
| "run_auth A (OpSetPIN userID pin) = ignore (SetPIN A userID pin)"
| "run_auth A (OpCheckPIN userID pin) = ignore (VerifyPINThrottled A userID pin)"
| "run_auth A (OpGenerateTOTP userID email) = ignore (GenerateTOTP userID email)"
| "run_auth A (OpEnableTOTP userID code) = ignore (EnableTOTP A userID code)"
| "run_auth A (OpDisableTOTP userID pin code) = ignore (DisableTOTP A userID pin code)"
| "run_auth A (OpChangePassword userID current new keep) = ignore (ChangePassword A userID current new keep)"
| "run_auth A (OpAuthenticate token) = ignore (Authenticate token)"
| "run_auth A (OpLogout token) = ignore (Logout A token)"
| "run_auth A (OpRevokeDevice userID deviceID) = ignore (RevokeDevice (as_SecurityHub A) userID deviceID)"
| "run_auth A (OpRevokeOthers userID keep) = ignore (RevokeOtherDevices (as_SecurityHub A) userID keep)"
| "run_auth A (OpPrefs userID signin failed) = ignore (UpdateNotificationPrefs (as_SecurityHub A) userID signin failed)"
| "run_auth A (OpRecord ev) = ignore (Record_event (as_SecurityHub A) ev)"

lemma ssame_ops:
  "pres sess_same (StageRegistration A req)" "pres sess_same (SendOTPCode A em)" "pres sess_same (VerifyOTPCode A em c)"
  "pres sess_same (SetPIN A u p)" "pres sess_same (VerifyPINThrottled A u p)" "pres sess_same (GenerateTOTP u em)"
  "pres sess_same (EnableTOTP A u c)" "pres sess_same (DisableTOTP A u p c)" "pres sess_same (ChangePassword A u p q k)"
  "pres sess_same (Authenticate t)" "pres sess_same (Logout A t)" "pres sess_same (RevokeDevice h u k)"
  "pres sess_same (RevokeOtherDevices h u k)" "pres sess_same (UpdateNotificationPrefs h u b b')"
  "pres sess_same (Record_event h ev)" "pres sess_same (create_account em us)"
  unfolding StageRegistration_def SendOTPCode_def VerifyOTPCode_def SetPIN_def VerifyPINThrottled_def GenerateTOTP_def
    EnableTOTP_def DisableTOTP_def ChangePassword_def Authenticate_def Logout_def RevokeDevice_def RevokeOtherDevices_def
    UpdateNotificationPrefs_def Record_event_def create_account_def if_found_def
  by (intro ssame_rules ssame_side)+

lemma usame_ops:
  "pres users_same (StageRegistration A req)" "pres users_same (SendOTPCode A em)" "pres users_same (VerifyOTPCode A em c)"
  "pres users_same (SetPIN A u p)" "pres users_same (VerifyPINThrottled A u p)" "pres users_same (GenerateTOTP u em)"
  "pres users_same (EnableTOTP A u c)" "pres users_same (DisableTOTP A u p c)" "pres users_same (ChangePassword A u p q k)"
  "pres users_same (Authenticate t)" "pres users_same (Logout A t)" "pres users_same (RevokeDevice h u k)"
  "pres users_same (RevokeOtherDevices h u k)" "pres users_same (UpdateNotificationPrefs h u b b')"
  "pres users_same (Record_event h ev)" "pres users_same (Login A em p d i)" "pres users_same (Verify2FA A ch c d i)"
  unfolding StageRegistration_def SendOTPCode_def VerifyOTPCode_def SetPIN_def VerifyPINThrottled_def GenerateTOTP_def
    EnableTOTP_def DisableTOTP_def ChangePassword_def Authenticate_def Logout_def RevokeDevice_def RevokeOtherDevices_def
    UpdateNotificationPrefs_def Record_event_def Login_def login_accepted_def Verify2FA_def if_found_def
  by (intro usame_rules usame_side)+

lemma sstep_session: "pres sess_step (issueSession A u d i)" "pres sess_step (login_accepted A us d i v)"
  unfolding login_accepted_def issueSession_def
  by (intro sstep.pres_rules step_creates ssame_side [THEN pres_sstep_if] auth_fixed [THEN sstep.pres_fixed])+

lemma sstep_run: "pres sess_step (run_auth A op)"
  by (cases op)
    (simp_all add: sstep.pres_ignore ssame_ops [THEN pres_sstep_if] Login_def Verify2FA_def CompleteRegistration_def Let_def;
     intro sstep.pres_rules sstep_session ssame_side [THEN pres_sstep_if] ssame_ops [THEN pres_sstep_if]
       ssame_users [THEN pres_sstep_if] fixed_if_found [THEN sstep.pres_fixed] auth_reads auth_reads [THEN sstep.pres_fixed])+

lemma ustep_create: "u_EmailVerifiedAt us \<noteq> None \<Longrightarrow> pres users_step (create_account em us)"
  unfolding create_account_def
  by (intro ustep.pres_rules step_creates usame_writes [THEN pres_ustep_if])

lemma ustep_run: "pres users_step (run_auth A op)"
proof (cases op)
  case (OpComplete email code device ip)
  have "u_EmailVerifiedAt (registered_user em otp now) \<noteq> None" for em otp now
    by (simp add: registered_user_def)
  then show ?thesis
    unfolding OpComplete run_auth.simps CompleteRegistration_def Let_def
    by (intro ustep.pres_rules ustep_create usame_side [THEN pres_ustep_if] usame_writes [THEN pres_ustep_if])
qed (simp_all add: ustep.pres_ignore usame_ops [THEN pres_ustep_if])

end
