(* ===== verification/AuthProps.thy ===== *)
theory AuthProps
  imports AuthLaws
begin

text \<open>
  The properties of the authentication service: ended sessions stay ended, accounts belong to verified e-mail
  addresses, every session was earned by credentials, guessing is bounded, challenges are authentic.
\<close>

section \<open>Reachable databases\<close>

text \<open>Databases reached from \<open>d0\<close> by operations of the service, each at any time, with any faults, randomness
  and throttle state; the rest of the backend writes neither sessions nor users.\<close>

inductive auth_reachable :: "auth \<Rightarrow> db \<Rightarrow> db \<Rightarrow> bool" for A :: auth and d0 :: db where
  start: "auth_reachable A d0 d0"
| auth_step: "auth_reachable A d0 (wdb w) \<Longrightarrow> run_auth A op (w :: aworld) = (r, w') \<Longrightarrow> auth_reachable A d0 (wdb w')"
| other: "auth_reachable A d0 d \<Longrightarrow> sessions d' = sessions d \<Longrightarrow> users d' = users d \<Longrightarrow> auth_reachable A d0 d'"

lemma auth_reachable_sess: "auth_reachable A d0 d \<Longrightarrow> sess_step d0 d"
proof (induction rule: auth_reachable.induct)
  case (auth_step w op r w')
  then show ?case using presD [OF sstep_run auth_step(2)] sstep.trans by blast
next
  case (other d d')
  then show ?case by (auto simp: sess_step_def hashes_def)
qed (rule sstep.refl)

lemma auth_reachable_users: "auth_reachable A d0 d \<Longrightarrow> users_step d0 d"
proof (induction rule: auth_reachable.induct)
  case (auth_step w op r w')
  then show ?case using presD [OF ustep_run auth_step(2)] ustep.trans by blast
next
  case (other d d')
  then show ?case by (auto simp: users_step_def users_unique_def)
qed (rule ustep.refl)

lemma kept_member:
  assumes "list_all2 R xs old" and "x \<in> set xs"
  obtains y where "y \<in> set old" and "R x y"
  using assms by (auto simp: list_all2_conv_all_nth in_set_conv_nth) metis

lemma kept_origin:
  assumes "list_all2 R xs old" and "y \<in> set old"
  obtains x where "x \<in> set xs" and "R x y"
  using assms by (auto simp: list_all2_conv_all_nth in_set_conv_nth) metis

section \<open>Reading the tables\<close>

lemma found_row:
  assumes "if_found m w = (Inr (Some x), w')"
  shows "m w = (Inr x, w')"
  using assms by (auto simp: if_found_def bnd_def attempt_def ret_def fail_def split: prod.splits sum.splits if_splits)

lemma select_ok:
  assumes "stmt (select f) w = (Inr x, w')"
  shows "f (wdb w) = Inr x" and "wdb w' = wdb w" and "clock w' = clock w"
proof -
  obtain id where q: "select f id (clock w) (wdb w) = Inr (x, wdb w')" "env w' = env w"
    using assms by (rule stmt_okE)
  show "f (wdb w) = Inr x" "wdb w' = wdb w" using select_okE [OF q(1)] by blast+
  show "clock w' = clock w" using q(2) by (rule env_clock)
qed

lemma select_row_ok:
  assumes "stmt (select (\<lambda>d. first_row P (T d))) w = (Inr x, w')"
  shows "x \<in> set (T (wdb w)) \<and> P x \<and> wdb w' = wdb w \<and> clock w' = clock w"
  using first_row_okD [OF select_ok(1) [OF assms]] select_ok(2,3) [OF assms] by simp

lemma mapped_row_ok:
  assumes "mapped (stmt (select (\<lambda>d. first_row P (T d)))) w = (Inr x, w')"
  shows "x \<in> set (T (wdb w)) \<and> P x \<and> wdb w' = wdb w \<and> clock w' = clock w"
  using assms by (elim mapped_okE) (rule select_row_ok)

lemma find_session_ok:
  "SessionRepo_FindByTokenHash h w = (Inr s, w') \<Longrightarrow> s \<in> set (sessions (wdb w)) \<and> s_TokenHash s = h \<and> wdb w' = wdb w \<and> clock w' = clock w"
  unfolding SessionRepo_FindByTokenHash_def by (rule select_row_ok)

lemma find_user_ok:
  "UserRepo_FindByID i w = (Inr u, w') \<Longrightarrow> u \<in> set (users (wdb w)) \<and> u_ID u = i \<and> wdb w' = wdb w \<and> clock w' = clock w"
  "UserRepo_FindByEmail em w = (Inr u, w') \<Longrightarrow> u \<in> set (users (wdb w)) \<and> u_Email u = em \<and> wdb w' = wdb w \<and> clock w' = clock w"
  unfolding UserRepo_FindByID_def UserRepo_FindByEmail_def by (rule mapped_row_ok, assumption)+

lemma find_otp_ok:
  "EmailOTPRepo_FindByEmail em w = (Inr otp, w') \<Longrightarrow> otp \<in> set (email_otps (wdb w)) \<and> otp_Email otp = em \<and> wdb w' = wdb w \<and> clock w' = clock w"
  unfolding EmailOTPRepo_FindByEmail_def by (rule mapped_row_ok)

section \<open>Ended sessions\<close>

lemma distinct_hash_row:
  "distinct (hashes d) \<Longrightarrow> s \<in> set (sessions d) \<Longrightarrow> s' \<in> set (sessions d) \<Longrightarrow> s_TokenHash s = s_TokenHash s' \<Longrightarrow> s = s'"
  by (auto simp: hashes_def distinct_map dest: inj_onD)

lemma authenticate_row:
  assumes "Authenticate token w = (Inr u, w')"
  obtains s where "s \<in> set (sessions (wdb w))" "s_TokenHash s = tokenHash token" "s_RevokedAt s = None"
    "clock w \<le> s_ExpiresAt s" "u_ID u = s_UserID s" "u \<in> set (users (wdb w))"
    "u_Status u \<noteq> UserStatusSuspended" "u_Status u \<noteq> UserStatusLocked"
proof -
  obtain found w1 where f: "if_found (SessionRepo_FindByTokenHash (tokenHash token)) w = (Inr found, w1)"
    and k: "(case found of None \<Rightarrow> fail ErrInvalidToken | Some sess \<Rightarrow>
         bnd (gets clock) (\<lambda>now.
         bnd (reject (s_RevokedAt sess \<noteq> None \<or> now > s_ExpiresAt sess) ErrInvalidToken) (\<lambda>_.
         bnd (UserRepo_FindByID (s_UserID sess)) (\<lambda>user.
         bnd (reject (u_Status user = UserStatusSuspended \<or> u_Status user = UserStatusLocked) ErrUserLocked) (\<lambda>_.
         bnd (ignore (SessionRepo_TouchLastActive (s_ID sess))) (\<lambda>_.
         ret user)))))) w1 = (Inr u, w')"
    using assms unfolding Authenticate_def by (elim bnd_okE) blast
  then obtain s where found: "found = Some s" by (cases found) (auto simp: fail_def)
  have s: "s \<in> set (sessions (wdb w)) \<and> s_TokenHash s = tokenHash token \<and> wdb w1 = wdb w \<and> clock w1 = clock w"
    using find_session_ok [OF found_row [OF f [unfolded found]]] by simp
  from k have "\<exists>w2. UserRepo_FindByID (s_UserID s) w1 = (Inr u, w2) \<and> s_RevokedAt s = None \<and> clock w1 \<le> s_ExpiresAt s
      \<and> u_Status u \<noteq> UserStatusSuspended \<and> u_Status u \<noteq> UserStatusLocked"
    unfolding found by (simp only: option.case) (elim bnd_okE gets_okE reject_okE ret_okE, auto)
  then obtain w2 where u: "UserRepo_FindByID (s_UserID s) w1 = (Inr u, w2)" "s_RevokedAt s = None" "clock w1 \<le> s_ExpiresAt s"
    "u_Status u \<noteq> UserStatusSuspended" "u_Status u \<noteq> UserStatusLocked" by blast
  show ?thesis using find_user_ok(1) [OF u(1)] u(2-) s by (intro that [of s]) simp_all
qed

text \<open>C22. An ended session stays ended: whatever the service does afterwards, a token whose session was revoked,
  or has expired by the time it is presented, is never accepted again; token hashes are unique, so no later
  session revives it.\<close>

theorem ended_session_stays_ended:
  fixes w :: "'z world_scheme"
  assumes "auth_reachable A d0 (wdb w)" and "distinct (hashes d0)"
    and "s \<in> set (sessions d0)" and "s_TokenHash s = tokenHash token"
    and "s_RevokedAt s \<noteq> None \<or> s_ExpiresAt s < clock w"
  shows "\<exists>e. fst (Authenticate token w) = Inl e"
proof (cases "fst (Authenticate token w)")
  case (Inr u)
  then obtain w' where "Authenticate token w = (Inr u, w')" by (metis surjective_pairing)
  then obtain t where t: "t \<in> set (sessions (wdb w))" "s_TokenHash t = tokenHash token" "s_RevokedAt t = None" "clock w \<le> s_ExpiresAt t"
    by (rule authenticate_row)
  obtain old new where on: "sessions (wdb w) = old @ new" "list_all2 sess_kept (sessions d0) old"
    "distinct (hashes d0) \<longrightarrow> distinct (hashes (wdb w))"
    using auth_reachable_sess [OF assms(1)] by (rule sess_stepE)
  obtain s' where s': "s' \<in> set old" "sess_kept s s'" using kept_member [OF on(2) assms(3)] .
  then have "t = s'"
    using t on assms(2,4) by (intro distinct_hash_row [of "wdb w"]) (auto simp: sess_kept_def)
  then show ?thesis using s' t assms(5) by (auto simp: sess_kept_def)
qed simp

section \<open>Accounts\<close>

text \<open>C23. Accounts belong to verified addresses: whatever the service does, every user of a reached database whose
  e-mail address is not verified is, with its identifier and address, a user of the starting database that was not
  verified there; identifiers and addresses stay unique; and no user disappears or changes identifier or
  address.\<close>

theorem accounts_verified:
  assumes "auth_reachable A d0 d" and "users_unique d0"
  shows "users_unique d
    \<and> (\<forall>u\<in>set (users d). u_EmailVerifiedAt u = None \<longrightarrow>
         (\<exists>u0\<in>set (users d0). u_ID u0 = u_ID u \<and> u_Email u0 = u_Email u \<and> u_EmailVerifiedAt u0 = None))
    \<and> (\<forall>u0\<in>set (users d0). \<exists>u\<in>set (users d). u_ID u = u_ID u0 \<and> u_Email u = u_Email u0)"
proof -
  obtain old new where on: "users d = old @ new" "list_all2 user_kept (users d0) old"
    "\<forall>u\<in>set new. u_EmailVerifiedAt u \<noteq> None" "users_unique d0 \<longrightarrow> users_unique d"
    using auth_reachable_users [OF assms(1)] by (rule users_stepE)
  have "\<exists>u0\<in>set (users d0). u_ID u0 = u_ID u \<and> u_Email u0 = u_Email u \<and> u_EmailVerifiedAt u0 = None"
    if u: "u \<in> set (users d)" "u_EmailVerifiedAt u = None" for u
  proof -
    have "u \<in> set old" using u on(1,3) by auto
    then obtain u0 where "u0 \<in> set (users d0)" "user_kept u0 u" using kept_origin [OF on(2)] by blast
    then show ?thesis using u(2) by (auto simp: user_kept_def)
  qed
  moreover have "\<exists>u\<in>set (users d). u_ID u = u_ID u0 \<and> u_Email u = u_Email u0" if u0: "u0 \<in> set (users d0)" for u0
  proof -
    obtain u where "u \<in> set old" "user_kept u0 u" using kept_member [OF on(2) u0] by blast
    then show ?thesis using on(1) by (auto simp: user_kept_def)
  qed
  ultimately show ?thesis using on(4) assms(2) by blast
qed

section \<open>Earned sessions\<close>

definition new_session :: "db \<Rightarrow> db \<Rightarrow> Session \<Rightarrow> bool" where
  "new_session d d' s \<longleftrightarrow> s \<in> set (sessions d') \<and> s_TokenHash s \<notin> set (hashes d)"

definition valid_otp :: "db \<Rightarrow> time \<Rightarrow> string \<Rightarrow> string \<Rightarrow> EmailOTP \<Rightarrow> bool" where
  "valid_otp d now email code otp \<longleftrightarrow> otp \<in> set (email_otps d) \<and> otp_Email otp = email \<and> otp_CodeHash otp = hashOTP code
     \<and> now \<le> otp_ExpiresAt otp \<and> otp_Attempts otp < otpMaxAttempt"

text \<open>How an operation earns a session for a user.\<close>

definition earned :: "auth \<Rightarrow> db \<Rightarrow> time \<Rightarrow> auth_op \<Rightarrow> string \<Rightarrow> bool" where
  "earned A d now op uid =
     (case op of
        OpLogin email password device ip \<Rightarrow>
          \<exists>u\<in>set (users d). u_ID u = uid \<and> u_Email u = ToLower (TrimSpace email) \<and> VerifyPassword A (User.truncate u) password
            \<and> \<not> u_TOTPEnabled u \<and> u_Status u \<noteq> UserStatusLocked \<and> u_Status u \<noteq> UserStatusSuspended
      | OpVerify2FA challenge code device ip \<Rightarrow>
          verifyChallenge A challenge now = Inr uid
          \<and> (\<exists>u\<in>set (users d). u_ID u = uid \<and> u_TOTPEnabled u \<and> verifyTOTP (u_TOTPSecret u) code now)
      | OpComplete email code device ip \<Rightarrow>
          (\<exists>otp. valid_otp d now (ToLower (TrimSpace email)) code otp \<and> otp_PasswordHash otp \<noteq> [])
          \<and> (\<forall>u\<in>set (users d). u_ID u \<noteq> uid \<and> u_Email u \<noteq> ToLower (TrimSpace email))
      | _ \<Rightarrow> False)"

lemma no_new_same: "sess_same d d' \<Longrightarrow> \<not> new_session d d' s"
proof -
  assume "sess_same d d'"
  then have "hashes d' = hashes d" by (rule same_hashes)
  moreover have "s \<in> set (sessions d') \<Longrightarrow> s_TokenHash s \<in> set (hashes d')" by (simp add: hashes_def)
  ultimately show ?thesis by (auto simp: new_session_def)
qed

lemma new_before:
  assumes "new_session d d'' s" and "sess_same d' d''"
  obtains s' where "new_session d d' s'" and "sess_kept s' s"
proof -
  obtain s' where "s' \<in> set (sessions d')" "sess_kept s' s"
    using assms kept_origin [of sess_kept "sessions d'" "sessions d''" s] by (auto simp: new_session_def sess_same_def)
  then show ?thesis using assms(1) that by (auto simp: new_session_def sess_kept_def)
qed

lemma rand_frame: "rand_Read n w = (r, w') \<Longrightarrow> wdb w' = wdb w \<and> clock w' = clock w"
  by (auto simp: rand_Read_def Let_def split: if_splits)

lemma create_session_new:
  assumes "SessionRepo_Create se w = (r, w')" and "new_session (wdb w) (wdb w') s"
  shows "s_UserID s = s_UserID se \<and> s_ExpiresAt s = s_ExpiresAt se"
proof (cases r)
  case (Inl e)
  then have "wdb w' = wdb w"
    using assms(1) unfolding SessionRepo_Create_def mapped_def on_err_def
    by (auto split: prod.splits sum.splits dest: stmt_err(1))
  then show ?thesis using assms(2) by (auto simp: new_session_def hashes_def)
next
  case (Inr row)
  then obtain i where q: "(if \<exists>r\<in>set (sessions (wdb w)). s_TokenHash r = s_TokenHash se \<or> s_ID r = i then Inl ErrUniqueViolation
     else if \<not> has_user (wdb w) (s_UserID se) then Inl ErrDB
     else let r = se\<lparr>s_ID := i, s_RevokedAt := None, s_CreatedAt := clock w, s_LastActiveAt := clock w\<rparr>
          in Inr (r, (wdb w)\<lparr>sessions := sessions (wdb w) @ [r]\<rparr>)) = Inr (row, wdb w')"
    using assms(1) unfolding SessionRepo_Create_def Inr by (elim mapped_okE stmt_okE) blast
  then have "wdb w' = (wdb w)\<lparr>sessions := sessions (wdb w) @ [row]\<rparr>" "s_UserID row = s_UserID se" "s_ExpiresAt row = s_ExpiresAt se"
    by (auto simp: Let_def split: if_splits)
  then show ?thesis using assms(2) by (auto simp: new_session_def hashes_def)
qed

lemma issueSession_new:
  assumes "issueSession A uid device ip w = (r, w')" and "new_session (wdb w) (wdb w') s"
  shows "s_UserID s = uid \<and> s_ExpiresAt s = clock w + as_sessionTTL A"
  using assms(1) unfolding issueSession_def
proof (cases rule: bnd_cases)
  case (stop e)
  then show ?thesis using assms(2) rand_frame by (metis no_new_same ssame.refl)
next
  case (go raw w1)
  have f: "wdb w1 = wdb w" "clock w1 = clock w" using rand_frame [OF go(1)] by simp_all
  from go(2) obtain r2 where "SessionRepo_Create (session_row A uid (url_EncodeToString raw) device ip (clock w)) w1 = (r2, w')"
    using f(2) by (auto simp: Let_def bnd_def gets_def ret_def split: prod.splits sum.splits)
  from create_session_new [OF this] show ?thesis using assms(2) f by (simp add: session_row_def)
qed

lemma login_accepted_new:
  assumes "login_accepted A user device ip via w = (r, w')" and "new_session (wdb w) (wdb w') s"
  shows "s_UserID s = u_ID user \<and> s_ExpiresAt s = clock w + as_sessionTTL A"
  using assms(1) unfolding login_accepted_def
proof (cases rule: bnd_cases)
  case (stop e)
  then show ?thesis using issueSession_new assms(2) by blast
next
  case (go token w1)
  have "pres sess_same (bnd (recordLoginSuccess A user device ip via)
      (\<lambda>_. ret \<lparr>lr_User = user, lr_Token = token, lr_Requires2FA = False, lr_ChallengeToken = []\<rparr>))"
    by (intro ssame_rules ssame_side)
  from presD [OF this go(2)] obtain s' where s': "new_session (wdb w) (wdb w1) s'" "sess_kept s' s"
    using new_before [OF assms(2)] by blast
  then show ?thesis using issueSession_new [OF go(1)] by (auto simp: sess_kept_def)
qed

lemma same_no_new: "pres sess_same m \<Longrightarrow> m w = (r, w') \<Longrightarrow> \<not> new_session (wdb w) (wdb w') s"
  using presD no_new_same by blast

lemma if_found_frame:
  assumes "if_found m w = (r, w')" and "pres (=) m" and "keeps more_same m"
  shows "wdb w' = wdb w" and "clock w' = clock w"
proof -
  show "wdb w' = wdb w" using presD [OF fixed_if_found [OF assms(2)] assms(1)] by simp
  have "keeps more_same (if_found m)" unfolding if_found_def by (intro more_rules assms(3))
  from keepsD [OF this assms(1)] show "clock w' = clock w" by (simp add: more_same_def)
qed

lemma Login_new:
  assumes "Login A email password device ip w = (r, w')" and new: "new_session (wdb w) (wdb w') s"
  shows "earned A (wdb w) (clock w) (OpLogin email password device ip) (s_UserID s) \<and> s_ExpiresAt s = clock w + as_sessionTTL A"
  using assms(1) unfolding Login_def Let_def
proof (cases rule: bnd_cases)
  case (stop e)
  then show ?thesis using new same_no_new [OF ssame.pres_fixed [OF fixed_if_found [OF repos_read(2)]]] by blast
next
  case (go found w1)
  have f: "wdb w1 = wdb w" "clock w1 = clock w"
    using if_found_frame [OF go(1) repos_read(2) more_reads(16)] by simp_all
  have new1: "new_session (wdb w1) (wdb w') s" using new f by simp
  obtain user where user: "found = Some user"
  proof (cases found)
    case None
    then have "login_unknown (''login:'' @ emailHashKey email) w1 = (r, w')" using go(2) by simp
    from same_no_new [OF ssame_side(7) this] show ?thesis using new1 by blast
  qed (rule that)
  have row: "user \<in> set (users (wdb w))" "u_Email user = ToLower (TrimSpace email)"
    using find_user_ok(2) [OF found_row [OF go(1) [unfolded user]]] by simp_all
  have st: "u_Status user \<noteq> UserStatusLocked" "u_Status user \<noteq> UserStatusSuspended"
    using go(2) new1 no_new_same [OF ssame.refl] unfolding user by (auto simp: bnd_reject split: if_splits)
  have pw: "CompareHashAndPassword A (u_PasswordHash user) password"
  proof (rule ccontr)
    assume "\<not> CompareHashAndPassword A (u_PasswordHash user) password"
    then have "login_rejected A (''login:'' @ emailHashKey email) user device ip w1 = (r, w')"
      using go(2) st by (simp add: user bnd_reject)
    from same_no_new [OF ssame_side(8) this] show False using new1 by blast
  qed
  define fk where "fk = ''login:'' @ emailHashKey email"
  define w2 where "w2 = w1\<lparr>attempts := (attempts w1)(fk := None)\<rparr>"
  have w2: "clearFailure fk w1 = (Inr (), w2)" "wdb w2 = wdb w" "clock w2 = clock w"
    using f by (simp_all add: clearFailure_def modify_def w2_def)
  have new2: "new_session (wdb w2) (wdb w') s" using new w2 by simp
  have rest: "(if u_TOTPEnabled user then bnd (recordEvent A (device_event (u_ID user) ''two_factor'' SeverityInfo
        ''Two-factor challenge issued'' ''Signing in requires your authenticator code'' ip device [''outcome'' \<mapsto> JStr ''issued''])) (\<lambda>_.
      bnd (gets clock) (\<lambda>now.
      ret \<lparr>lr_User = user, lr_Token = [], lr_Requires2FA = True, lr_ChallengeToken = newChallenge A (u_ID user) now\<rparr>))
      else login_accepted A user device ip ''password'') w2 = (r, w')" (is "(if _ then ?challenge else _) w2 = _")
    using go(2) st pw unfolding user fk_def [symmetric] by (simp only: option.case bnd_reject simp_thms if_False bnd_Inr [where m = "clearFailure fk", OF w2(1)])
  have totp: "\<not> u_TOTPEnabled user"
  proof
    assume "u_TOTPEnabled user"
    then have "?challenge w2 = (r, w')" using rest by simp
    moreover have "pres sess_same ?challenge" by (intro ssame_rules ssame_side)
    ultimately show False using same_no_new new2 by blast
  qed
  then have "login_accepted A user device ip ''password'' w2 = (r, w')" using rest by simp
  from login_accepted_new [OF this new2] show ?thesis
    using row st pw totp w2 by (auto simp: earned_def VerifyPassword_def User.truncate_def)
qed

lemma Verify2FA_new:
  assumes "Verify2FA A challenge code device ip w = (r, w')" and new: "new_session (wdb w) (wdb w') s"
  shows "earned A (wdb w) (clock w) (OpVerify2FA challenge code device ip) (s_UserID s) \<and> s_ExpiresAt s = clock w + as_sessionTTL A"
proof -
  let ?rejected = "\<lambda>e. bnd (recordEvent A (device_event [] ''two_factor'' SeverityWarn ''Two-factor challenge rejected''
    ''An invalid or expired 2FA challenge was presented'' ip device [''outcome'' \<mapsto> JStr ''challenge_rejected''])) (\<lambda>_. fail e)"
  let ?wrong = "\<lambda>userID. bnd (recordEvent A (device_event userID ''two_factor'' SeverityWarn ''Two-factor code rejected''
    ''An incorrect authenticator code was submitted'' ip device [''outcome'' \<mapsto> JStr ''failed''])) (\<lambda>_. fail ErrInvalidCode)"
  have same: "pres sess_same (?rejected e)" "pres sess_same (?wrong i)" for e i
    by (intro ssame_rules ssame_side)+
  obtain uid where uid: "verifyChallenge A challenge (clock w) = Inr uid"
  proof (cases "verifyChallenge A challenge (clock w)")
    case (Inl e)
    then have "?rejected e w = (r, w')" using assms(1) by (simp add: Verify2FA_def bnd_basic)
    then show ?thesis using same_no_new [OF same(1)] new by blast
  qed (rule that)
  let ?rest = "\<lambda>user. bnd (reject (\<not> u_TOTPEnabled user \<or> u_TOTPSecret user = []) ErrTwoFactorInvalid) (\<lambda>_.
    if \<not> verifyTOTP (u_TOTPSecret user) code (clock w) then ?wrong uid
    else bnd (clearFailure (''login:'' @ emailHashKey (u_Email user))) (\<lambda>_. login_accepted A user device ip ''two_factor''))"
  have "bnd (on_err (\<lambda>_. ErrTwoFactorInvalid) (UserRepo_FindByID uid)) ?rest w = (r, w')"
    using assms(1) uid by (simp add: Verify2FA_def bnd_basic)
  then show ?thesis
  proof (cases rule: bnd_cases)
    case (stop e)
    have "pres sess_same (on_err (\<lambda>_. ErrTwoFactorInvalid) (UserRepo_FindByID uid))" by (intro ssame_rules)
    from same_no_new [OF this stop(1)] show ?thesis using new by blast
  next
    case (go user w1)
    have row: "user \<in> set (users (wdb w))" "u_ID user = uid" "wdb w1 = wdb w" "clock w1 = clock w"
      using find_user_ok(1) on_err_okE [OF go(1)] by (metis (no_types))+
    have on: "u_TOTPEnabled user" using go(2) new no_new_same [OF ssame.refl] row(3) by (auto simp: bnd_reject split: if_splits)
    have ok: "verifyTOTP (u_TOTPSecret user) code (clock w)"
    proof (rule ccontr)
      assume "\<not> verifyTOTP (u_TOTPSecret user) code (clock w)"
      then have "?wrong uid w1 = (r, w') \<or> wdb w' = wdb w1" using go(2) by (auto simp: bnd_reject split: if_splits)
      then show False using same_no_new [OF same(2)] new no_new_same [OF ssame.refl] row(3) by metis
    qed
    obtain w2 where w2: "login_accepted A user device ip ''two_factor'' w2 = (r, w')" "wdb w2 = wdb w" "clock w2 = clock w"
      using go(2) ok new no_new_same [OF ssame.refl] row(3,4)
      by (auto simp: bnd_reject clearFailure_def bnd_basic split: if_splits)
    then show ?thesis using login_accepted_new [OF w2(1)] new row on ok uid by (auto simp: earned_def)
  qed
qed

lemma fetch_ok:
  assumes "fetchAndValidateOTP email code w = (Inr otp, w1)"
  shows "valid_otp (wdb w) (clock w) email code otp \<and> length code = otpDigits \<and> wdb w1 = wdb w \<and> clock w1 = clock w"
proof -
  let ?check = "\<lambda>found. case found of None \<Rightarrow> fail ErrOTPNotFound
     | Some otp \<Rightarrow>
         bnd (gets clock) (\<lambda>now.
         if now > otp_ExpiresAt otp then bnd (ignore (EmailOTPRepo_Clear email)) (\<lambda>_. fail ErrOTPExpired)
         else if otp_Attempts otp \<ge> otpMaxAttempt then bnd (ignore (EmailOTPRepo_Clear email)) (\<lambda>_. fail ErrTooManyAttempts)
         else if otp_CodeHash otp \<noteq> hashOTP code then bnd (ignore (EmailOTPRepo_IncrementAttempts email)) (\<lambda>_. fail ErrInvalidCode)
         else ret otp)"
  have "\<exists>found w2. length code = otpDigits \<and> if_found (EmailOTPRepo_FindByEmail email) w = (Inr found, w2) \<and> ?check found w2 = (Inr otp, w1)"
    using assms unfolding fetchAndValidateOTP_def by (elim bnd_okE reject_okE) auto
  then obtain found w2 where 1: "length code = otpDigits" "if_found (EmailOTPRepo_FindByEmail email) w = (Inr found, w2)"
    "?check found w2 = (Inr otp, w1)" by blast
  from 1(3) obtain o' where o': "found = Some o'" by (cases found) (auto simp: fail_def)
  have row: "o' \<in> set (email_otps (wdb w)) \<and> otp_Email o' = email \<and> wdb w2 = wdb w \<and> clock w2 = clock w"
    using find_otp_ok [OF found_row [OF 1(2) [unfolded o']]] .
  have "otp = o' \<and> w1 = w2 \<and> clock w2 \<le> otp_ExpiresAt o' \<and> otp_Attempts o' < otpMaxAttempt \<and> otp_CodeHash o' = hashOTP code"
    using 1(3) unfolding o' by (auto simp: bnd_basic ret_def fail_def split: if_splits)
  then show ?thesis using row 1(1) by (auto simp: valid_otp_def)
qed

lemma RunInTx_body: "RunInTx fn w = (Inr v, w') \<Longrightarrow> \<exists>w0 w1. wdb w0 = wdb w \<and> fn w0 = (Inr v, w1)"
  by (erule RunInTx_okE) blast

lemma create_account_ok:
  fixes w :: "'z world_scheme"
  assumes "create_account email us w = (Inr row, w')"
  shows "(\<forall>u\<in>set (users (wdb w)). u_ID u \<noteq> u_ID row \<and> u_Email u \<noteq> u_Email us) \<and> clock w' = clock w"
proof
  have "keeps more_same (create_account email us)"
    unfolding create_account_def by (intro more_rules more_writes)
  from keepsD [OF this assms] show "clock w' = clock w" by (simp add: more_same_def)
  obtain w0 w1 :: "'z world_scheme" where 1: "wdb w0 = wdb w"
    "bnd (UserRepo_Create us) (\<lambda>row. bnd (AccountRepo_EnsureDefaultAccounts (u_ID row)) (\<lambda>_.
       bnd (ignore (EmailOTPRepo_Clear email)) (\<lambda>_. ret row))) w0 = (Inr row, w1)"
    using RunInTx_body [OF assms [unfolded create_account_def]] by blast
  then have "\<exists>w2. UserRepo_Create us w0 = (Inr row, w2)"
    by (elim bnd_okE) (auto simp: bnd_basic ret_def)
  then obtain i and w2 :: "'z world_scheme" where "(if \<exists>r\<in>set (users (wdb w0)). u_Email r = u_Email us \<or> u_ID r = i then Inl ErrUniqueViolation
     else let r = \<lparr>u_ID = i, u_Email = u_Email us, u_Phone = u_Phone us, u_FirstName = u_FirstName us,
                   u_LastName = u_LastName us, u_PasswordHash = u_PasswordHash us, u_PINHash = [],
                   u_TOTPSecret = [], u_TOTPEnabled = False, u_Status = u_Status us, u_CreatedAt = clock w0,
                   u_UpdatedAt = clock w0, u_EmailVerifiedAt = u_EmailVerifiedAt us,
                   notify_new_signin = True, notify_failed_login = True\<rparr>
          in Inr (r, (wdb w0)\<lparr>users := users (wdb w0) @ [r]\<rparr>)) = Inr (row, wdb w2)"
    unfolding UserRepo_Create_def by (elim exE mapped_okE stmt_okE) blast
  then show "\<forall>u\<in>set (users (wdb w)). u_ID u \<noteq> u_ID row \<and> u_Email u \<noteq> u_Email us"
    using 1(1) by (auto simp: Let_def split: if_splits)
qed

lemma CompleteRegistration_new:
  assumes "CompleteRegistration A email0 code device ip w = (r, w')" and new: "new_session (wdb w) (wdb w') s"
  shows "earned A (wdb w) (clock w) (OpComplete email0 code device ip) (s_UserID s) \<and> s_ExpiresAt s = clock w + as_sessionTTL A"
proof -
  let ?email = "ToLower (TrimSpace email0)"
  let ?tail = "\<lambda>user token. bnd (recordSecurity A (u_ID user) ''register'' ''Account created'' ''Welcome to Globmint'' ip device) (\<lambda>_.
      bnd (ignore (NotificationRepo_Create (u_ID user) ''general'' ''Welcome to Globmint'' ''Your digital savings vault is ready.'')) (\<lambda>_.
      ret (user :: user_row, token :: string)))"
  have tail: "pres sess_same (?tail user token)" for user token by (intro ssame_rules ssame_side)
  have "bnd (fetchAndValidateOTP ?email code) (\<lambda>otp.
      bnd (reject (otp_PasswordHash otp = []) ErrNoPendingRegistration) (\<lambda>_.
      bnd (gets clock) (\<lambda>now.
      bnd (create_account ?email (registered_user ?email otp now)) (\<lambda>user.
      bnd (issueSession A (u_ID user) device ip) (?tail user))))) w = (r, w')"
    using assms(1) new no_new_same [OF ssame.refl] by (auto simp: CompleteRegistration_def Let_def bnd_reject split: if_splits)
  then show ?thesis
  proof (cases rule: bnd_cases)
    case (stop e)
    then show ?thesis using same_no_new [OF ssame_side(10) stop(1)] new by blast
  next
    case (go otp w1)
    have otp: "valid_otp (wdb w) (clock w) ?email code otp" "wdb w1 = wdb w" "clock w1 = clock w"
      using fetch_ok [OF go(1)] by simp_all
    have staged: "otp_PasswordHash otp \<noteq> []" and k: "bnd (create_account ?email (registered_user ?email otp (clock w)))
        (\<lambda>user. bnd (issueSession A (u_ID user) device ip) (?tail user)) w1 = (r, w')"
      using go(2) new no_new_same [OF ssame.refl] otp by (auto simp: bnd_reject bnd_basic split: if_splits)
    from k show ?thesis
    proof (cases rule: bnd_cases)
      case (stop e)
      then show ?thesis using same_no_new [OF ssame_ops(16) stop(1)] new otp(2) by simp
    next
      case (go user w2)
      have fresh: "\<forall>u\<in>set (users (wdb w)). u_ID u \<noteq> u_ID user \<and> u_Email u \<noteq> ?email" "clock w2 = clock w"
        using create_account_ok [OF go(1)] otp by (simp_all add: registered_user_def)
      have new2: "new_session (wdb w2) (wdb w') s"
        using new same_hashes [OF presD [OF ssame_ops(16) go(1)]] otp(2) by (simp add: new_session_def)
      have "s_UserID s = u_ID user \<and> s_ExpiresAt s = clock w2 + as_sessionTTL A"
        using go(2)
      proof (cases rule: bnd_cases)
        case (stop e)
        then show ?thesis using issueSession_new new2 by blast
      next
        case (go token w3)
        obtain s' where "new_session (wdb w2) (wdb w3) s'" "sess_kept s' s"
          using new_before [OF new2 presD [OF tail go(2)]] .
        then show ?thesis using issueSession_new [OF go(1)] by (auto simp: sess_kept_def)
      qed
      then show ?thesis using fresh otp(1) staged by (auto simp: earned_def)
    qed
  qed
qed

lemma ignored: "ignore m w = (r, w') \<Longrightarrow> m w = (fst (m w), w')"
  by (auto simp: ignore_eq prod_eq_iff)

text \<open>C21. Every session was earned: when an operation of the service leaves a session that was not there before, the
  operation was a sign-in with the password of an existing user that is neither locked nor suspended and has no second
  factor, or the second step of a sign-in with a valid challenge for a user with a second factor whose authenticator
  code was given, or the completion of a registration with the unexpired code of a staged signup for an address and a
  user that did not exist; the session is that user's and expires after the configured time. In particular nothing
  but a challenge and a code opens a session for a user with a second factor.\<close>

theorem sessions_earned:
  fixes w :: "'z aworld_scheme"
  assumes "run_auth A op w = (r, w')" and "new_session (wdb w) (wdb w') s"
  shows "earned A (wdb w) (clock w) op (s_UserID s) \<and> s_ExpiresAt s = clock w + as_sessionTTL A"
proof -
  have w': "run_auth A op w = (Inr (), w')" using assms(1) by (cases op) (simp_all add: ignore_eq)
  have same: False if "pres sess_same (run_auth A op :: ('z aworld_scheme, unit) go)"
    using same_no_new [OF that w'] assms(2) by blast
  show ?thesis
  proof (cases op)
    case (OpLogin email password device ip)
    with w' have "ignore (Login A email password device ip) w = (Inr (), w')" by simp
    from Login_new [OF ignored [OF this] assms(2)] show ?thesis using OpLogin by simp
  next
    case (OpVerify2FA challenge code device ip)
    with w' have "ignore (Verify2FA A challenge code device ip) w = (Inr (), w')" by simp
    from Verify2FA_new [OF ignored [OF this] assms(2)] show ?thesis using OpVerify2FA by simp
  next
    case (OpComplete email code device ip)
    with w' have "ignore (CompleteRegistration A email code device ip) w = (Inr (), w')" by simp
    from CompleteRegistration_new [OF ignored [OF this] assms(2)] show ?thesis using OpComplete by simp
  qed (use same in \<open>simp_all add: ssame.pres_ignore ssame_ops\<close>)
qed

section \<open>Witnesses\<close>

definition sample_auth :: auth where
  "sample_auth = \<lparr>GenerateFromPassword = (\<lambda>p n. if length p > 72 then Inl (ErrOpaque ''bcrypt'') else Inr (''h:'' @ p)),
     CompareHashAndPassword = (\<lambda>h p. h = ''h:'' @ p), as_sessionTTL = 24 * hour, as_challengeKey = bytes_of ''key'',
     as_otpSender = Some (\<lambda>n email code. Inr ()), as_AlertMailer = False, as_SecurityHub = False\<rparr>"

definition sample_person :: user_row where
  "sample_person = \<lparr>u_ID = ''u1'', u_Email = ''ada@b.org'', u_Phone = [], u_FirstName = ''Ada'', u_LastName = [],
     u_PasswordHash = ''h:secret42'', u_PINHash = ''h:314159'', u_TOTPSecret = [], u_TOTPEnabled = False, u_Status = UserStatusActive,
     u_CreatedAt = 0, u_UpdatedAt = 0, u_EmailVerifiedAt = Some 0, notify_new_signin = True, notify_failed_login = True\<rparr>"

definition sample_session :: Session where
  "sample_session = \<lparr>s_ID = ''s1'', s_UserID = ''u1'', s_TokenHash = tokenHash ''token'', s_Device = ''phone'', s_IP = [],
     s_ExpiresAt = 100 * hour, s_RevokedAt = Some 7, s_CreatedAt = 0, s_LastActiveAt = 0\<rparr>"

definition sample_adb :: db where
  "sample_adb = empty_db\<lparr>users := [sample_person], sessions := [sample_session]\<rparr>"

definition sample_aworld :: "db \<Rightarrow> aworld" where
  "sample_aworld d = \<lparr>wdb = d, faults = [], txst = NoTx, clock = hour, uuid = (\<lambda>n. ''id'' @ show_nat n), uuid_n = 0,
     randref = (\<lambda>n. []), rand_n = 0, hub_log = [], mail_log = [], attempts = Map.empty, lastAlert = Map.empty,
     rnd = (\<lambda>n. of_nat n), rnd_fails = (\<lambda>n. False), rnd_pos = 0\<rparr>"

theorem ended_session_stays_ended_witness: "\<exists>e. fst (Authenticate ''token'' (sample_aworld sample_adb)) = Inl e"
  by (rule ended_session_stays_ended [of sample_auth sample_adb _ sample_session])
    (simp_all add: sample_aworld_def sample_adb_def sample_session_def hashes_def auth_reachable.start)

theorem accounts_verified_witness:
  "users_unique sample_adb \<and> (\<exists>u\<in>set (users sample_adb). u_ID u = ''u1'' \<and> u_Email u = ''ada@b.org'')"
proof -
  have "users_unique sample_adb" by (simp add: users_unique_def sample_adb_def)
  from accounts_verified [OF auth_reachable.start [of sample_auth] this] show ?thesis
    by (simp add: sample_adb_def sample_person_def)
qed

lemmas auth_eval = run_auth.simps Login_def if_found_def login_accepted_def issueSession_def session_row_def rand_Read_def
  recordLoginSuccess_def recordEvent_def published_def clearFailure_def UserRepo_FindByEmail_def SessionRepo_Create_def
  SessionRepo_CountRecentByDevice_def SecurityEventRepo_Create_def device_event_def plain_event_def sendNewSignInAlert_def
  send_alert_def mapped_def on_err_def stmt_def select_def first_row_def has_user_def consume_def Let_def bnd_def attempt_def
  ignore_def ret_def fail_def gets_def modify_def reject_def

definition sample_fresh_db :: db where
  "sample_fresh_db = empty_db\<lparr>users := [sample_person]\<rparr>"

lemma sample_login_session:
  "\<exists>s. new_session sample_fresh_db
     (wdb (snd (run_auth sample_auth (OpLogin ''ada@b.org'' ''secret42'' ''laptop'' []) (sample_aworld sample_fresh_db)))) s"
  unfolding auth_eval sample_aworld_def sample_fresh_db_def sample_auth_def sample_person_def empty_db_def
  by (simp add: new_session_def TrimSpace_def ToLower_def to_lower_def is_space_def hashes_def)

theorem sessions_earned_witness:
  "\<exists>s w'. run_auth sample_auth (OpLogin ''ada@b.org'' ''secret42'' ''laptop'' []) (sample_aworld sample_fresh_db) = (Inr (), w')
     \<and> new_session sample_fresh_db (wdb w') s
     \<and> earned sample_auth sample_fresh_db hour (OpLogin ''ada@b.org'' ''secret42'' ''laptop'' []) (s_UserID s)
     \<and> s_ExpiresAt s = 25 * hour"
proof -
  let ?op = "OpLogin ''ada@b.org'' ''secret42'' ''laptop'' []"
  let ?w = "sample_aworld sample_fresh_db"
  have run: "run_auth sample_auth ?op ?w = (Inr (), snd (run_auth sample_auth ?op ?w))" by (simp add: ignore_eq)
  obtain s where new: "new_session sample_fresh_db (wdb (snd (run_auth sample_auth ?op ?w))) s"
    using sample_login_session by blast
  have "wdb ?w = sample_fresh_db" "clock ?w = hour" "as_sessionTTL sample_auth = 24 * hour"
    by (simp_all add: sample_aworld_def sample_auth_def)
  then show ?thesis using sessions_earned [OF run, of s] run new by auto
qed

end
