(* ===== verification/AuthGuess.thy ===== *)
theory AuthGuess
  imports AuthProps
begin

text \<open>
  Guessing: how many one-time codes and PINs the service compares before it stops, what a two-factor challenge
  proves, what the generated codes look like, and when authenticator codes are accepted.
\<close>

section \<open>One-time codes\<close>

text \<open>Guesses at given times, up to the first that is accepted.\<close>

fun try_codes :: "string \<Rightarrow> (time \<times> string) list \<Rightarrow> ('z world_scheme, EmailOTP) go" where
  "try_codes email [] = fail ErrInvalidCode"
| "try_codes email ((t, code) # gs) =
     (\<lambda>w. case fetchAndValidateOTP email code (w\<lparr>clock := t\<rparr>) of
            (Inr otp, w') \<Rightarrow> (Inr otp, w')
          | (Inl _, w') \<Rightarrow> try_codes email gs w')"

definition otp_of :: "db \<Rightarrow> string \<Rightarrow> EmailOTP option" where
  "otp_of d email = List.find (\<lambda>r. otp_Email r = email) (email_otps d)"

definition quiet_world :: "'z world_scheme \<Rightarrow> bool" where
  "quiet_world w \<longleftrightarrow> faults w = [] \<and> txst w = NoTx"

lemma quiet_stmt:
  assumes "quiet_world w"
  shows "stmt q w =
    (let w1 = w\<lparr>uuid_n := Suc (uuid_n w)\<rparr> in
     case q (uuid w (uuid_n w)) (clock w) (wdb w) of
       Inl e \<Rightarrow> (Inl e, w1)
     | Inr (v, d) \<Rightarrow> (Inr v, w1\<lparr>wdb := d\<rparr>))"
proof -
  have a: "abort (w\<lparr>uuid_n := n\<rparr>) = w\<lparr>uuid_n := n\<rparr>" for n
    using assms by (simp add: quiet_world_def abort_def)
  have q: "faults w = []" "txst w \<noteq> Aborted" using assms by (simp_all add: quiet_world_def)
  show ?thesis by (simp only: stmt_no_faults [OF q] a Let_def if_cancel)
qed

lemma quiet_upd [simp]:
  "quiet_world (w\<lparr>clock := t\<rparr>) = quiet_world w" "quiet_world (w\<lparr>uuid_n := n\<rparr>) = quiet_world w"
  "quiet_world (w\<lparr>wdb := d\<rparr>) = quiet_world w"
  by (simp_all add: quiet_world_def)

lemma quiet_find_otp:
  assumes "quiet_world w"
  shows "if_found (EmailOTPRepo_FindByEmail email) w = (Inr (otp_of (wdb w) email), w\<lparr>uuid_n := Suc (uuid_n w)\<rparr>)"
  using assms
  by (auto simp: if_found_def EmailOTPRepo_FindByEmail_def mapped_def on_err_def bnd_basic quiet_stmt select_def first_row_def
      otp_of_def mapPgErr_def errIs_def ret_def Let_def split: option.splits)

lemma find_map_same: "(\<And>r. P (f r) = P r) \<Longrightarrow> List.find P (map f rs) = map_option f (List.find P rs)"
  by (induction rs) auto

lemma otp_of_increment:
  "otp_of (d\<lparr>email_otps := update_where (\<lambda>r. otp_Email r = email) (\<lambda>r. r\<lparr>otp_Attempts := otp_Attempts r + 1, otp_UpdatedAt := t\<rparr>) (email_otps d)\<rparr>) email
     = map_option (\<lambda>r. r\<lparr>otp_Attempts := otp_Attempts r + 1, otp_UpdatedAt := t\<rparr>) (otp_of d email)"
proof -
  have "map_option (\<lambda>r. if otp_Email r = email then r\<lparr>otp_Attempts := otp_Attempts r + 1, otp_UpdatedAt := t\<rparr> else r) (otp_of d email)
      = map_option (\<lambda>r. r\<lparr>otp_Attempts := otp_Attempts r + 1, otp_UpdatedAt := t\<rparr>) (otp_of d email)"
  proof (cases "otp_of d email")
    case (Some r)
    then have "otp_Email r = email" by (auto simp: otp_of_def find_Some_iff)
    then show ?thesis using Some by simp
  qed simp
  then show ?thesis by (simp add: otp_of_def update_where_def find_map_same)
qed

lemma otp_of_clear: "otp_of (d\<lparr>email_otps := filter (\<lambda>r. otp_Email r \<noteq> email) (email_otps d)\<rparr>) email = None"
  by (simp add: otp_of_def find_None_iff)

text \<open>One guess, without faults.\<close>

lemma guess_step:
  assumes "quiet_world w" and "fetchAndValidateOTP email code w = (r, w')"
  shows "quiet_world w' \<and>
    (case r of
       Inr otp \<Rightarrow> otp_of (wdb w) email = Some otp \<and> otp_CodeHash otp = hashOTP code \<and> clock w \<le> otp_ExpiresAt otp
                \<and> otp_Attempts otp < otpMaxAttempt
     | Inl e \<Rightarrow> if length code \<noteq> otpDigits then wdb w' = wdb w
         else otp_of (wdb w') email = None
            \<or> (\<exists>otp otp'. otp_of (wdb w) email = Some otp \<and> otp_of (wdb w') email = Some otp'
                 \<and> otp_Attempts otp' = otp_Attempts otp + 1 \<and> otp_CodeHash otp' = otp_CodeHash otp \<and> otp_ExpiresAt otp' = otp_ExpiresAt otp))"
proof (cases "length code = otpDigits")
  case False
  then show ?thesis using assms by (auto simp: fetchAndValidateOTP_def bnd_reject)
next
  case True
  show ?thesis
  proof (cases "otp_of (wdb w) email")
    case None
    then show ?thesis using assms True
      by (auto simp: fetchAndValidateOTP_def bnd_reject bnd_Inr [OF quiet_find_otp] fail_def)
  next
    case (Some otp)
    then show ?thesis using assms True
      by (auto simp: fetchAndValidateOTP_def bnd_reject bnd_Inr [OF quiet_find_otp] bnd_basic fail_def ret_def
          EmailOTPRepo_Clear_def EmailOTPRepo_IncrementAttempts_def mapped_def on_err_def quiet_stmt otp_of_clear otp_of_increment
          Let_def split: if_splits)
  qed
qed

definition well_formed :: "(time \<times> string) list \<Rightarrow> int" where
  "well_formed gs = int (length (filter (\<lambda>(t, code). length code = otpDigits) gs))"

lemma try_codes_none:
  "quiet_world w \<Longrightarrow> otp_of (wdb w) email = None \<Longrightarrow> try_codes email gs w \<noteq> (Inr otp, w')"
proof (induction gs arbitrary: w)
  case (Cons g gs)
  obtain t code where g: "g = (t, code)" by (cases g)
  obtain r w1 where f: "fetchAndValidateOTP email code (w\<lparr>clock := t\<rparr>) = (r, w1)" by (cases "fetchAndValidateOTP email code (w\<lparr>clock := t\<rparr>)")
  have "quiet_world (w\<lparr>clock := t\<rparr>)" using Cons.prems(1) by simp
  from guess_step [OF this f] Cons.prems(2) show ?case
    using Cons.IH [of w1] by (auto simp: g f split: sum.splits if_splits)
qed (simp add: fail_def)

text \<open>C24. A one-time code can be guessed at five times: without database failures, of any sequence of submitted
  codes at any times, one is accepted only if it hashes to the stored hash, at a time not after the expiry of the
  issued code, and only while fewer than five six-digit codes were submitted before it (the attempts already
  counted on the row included); codes of another length are not counted and never accepted.\<close>

theorem otp_guesses_capped:
  assumes "quiet_world w" and "otp_of (wdb w) email = Some issued" and "try_codes email gs w = (Inr otp, w')"
  shows "\<exists>before t code after. gs = before @ (t, code) # after \<and> length code = otpDigits
     \<and> hashOTP code = otp_CodeHash issued \<and> t \<le> otp_ExpiresAt issued
     \<and> otp_Attempts issued + well_formed before < otpMaxAttempt"
  using assms
proof (induction gs arbitrary: w issued)
  case (Cons g gs)
  obtain t code where g: "g = (t, code)" by (cases g)
  obtain r w1 where f: "fetchAndValidateOTP email code (w\<lparr>clock := t\<rparr>) = (r, w1)" by (cases "fetchAndValidateOTP email code (w\<lparr>clock := t\<rparr>)")
  have "quiet_world (w\<lparr>clock := t\<rparr>)" using Cons.prems(1) by simp
  note step = guess_step [OF this f]
  show ?case
  proof (cases r)
    case (Inr found)
    then have "found = issued" "hashOTP code = otp_CodeHash issued" "t \<le> otp_ExpiresAt issued" "otp_Attempts issued < otpMaxAttempt"
      using step Cons.prems(2) by auto
    moreover have "length code = otpDigits"
      using f Inr by (auto simp: fetchAndValidateOTP_def bnd_reject split: if_splits)
    ultimately show ?thesis using g by (intro exI [of _ "[]"]) (auto simp: well_formed_def)
  next
    case (Inl e)
    have q1: "quiet_world w1" and rest: "try_codes email gs w1 = (Inr otp, w')"
      using step Cons.prems(3) by (auto simp: g f Inl)
    have some: "otp_of (wdb w1) email \<noteq> None" using try_codes_none [OF q1] rest by blast
    then obtain now where now: "otp_of (wdb w1) email = Some now" "otp_CodeHash now = otp_CodeHash issued"
      "otp_ExpiresAt now = otp_ExpiresAt issued"
      "otp_Attempts now = otp_Attempts issued + (if length code = otpDigits then 1 else 0)"
      using step Cons.prems(2) by (auto simp: Inl split: if_splits)
    obtain before t' c' after where "gs = before @ (t', c') # after" "length c' = otpDigits"
      "hashOTP c' = otp_CodeHash now" "t' \<le> otp_ExpiresAt now" "otp_Attempts now + well_formed before < otpMaxAttempt"
      using Cons.IH [OF q1 now(1) rest] by blast
    then show ?thesis using now g
      by (intro exI [of _ "g # before"] exI [of _ t'] exI [of _ c'] exI [of _ after]) (auto simp: well_formed_def)
  qed
qed (simp add: fail_def)

section \<open>PINs\<close>

fun pin_tries :: "auth \<Rightarrow> string \<Rightarrow> (time \<times> string) list \<Rightarrow> 'z aworld_scheme \<Rightarrow> (err + unit) list \<times> 'z aworld_scheme" where
  "pin_tries A uid [] w = ([], w)"
| "pin_tries A uid ((t, pin) # ps) w =
     (case VerifyPINThrottled A uid pin (w\<lparr>clock := t\<rparr>) of (r, w1) \<Rightarrow>
        case pin_tries A uid ps w1 of (rs, w2) \<Rightarrow> (r # rs, w2))"

definition pin_window :: "'z aworld_scheme \<Rightarrow> string \<Rightarrow> nat \<Rightarrow> time \<Rightarrow> bool" where
  "pin_window w uid n reset \<longleftrightarrow>
     attempts w (''pin:'' @ uid) = (if n = 0 then None else Some \<lparr>aw_count = int n, aw_reset = reset\<rparr>)"

lemma VerifyPIN_frame:
  "VerifyPIN A uid pin w = (r, w') \<Longrightarrow> world.more w' = world.more w \<and> clock w' = clock w"
proof -
  assume v: "VerifyPIN A uid pin w = (r, w')"
  have "keeps more_same (VerifyPIN A uid pin)" unfolding VerifyPIN_def by (intro more_rules more_reads)
  from keepsD [OF this v] show ?thesis by (simp add: more_same_def)
qed

lemma attempts_more: "world.more w' = world.more (w :: 'z aworld_scheme) \<Longrightarrow> attempts w' = attempts (w :: 'z aworld_scheme)"
  by (cases w; cases w') simp

lemma pin_step:
  assumes "pin_window w uid n reset" and "n = 0 \<or> clock w \<le> reset"
  shows "VerifyPINThrottled A uid pin w =
    (if 5 < n then (Inl ErrTooManyAttempts, w)
     else case VerifyPIN A uid pin w of
            (Inl e, w1) \<Rightarrow> (Inl e, snd (noteFailure (''pin:'' @ uid) w1))
          | (Inr _, w1) \<Rightarrow> clearFailure (''pin:'' @ uid) w1)"
proof -
  define key where "key = ''pin:'' @ uid"
  have "isThrottled key pinMaxAttempts w = (Inr (5 < n), w)"
    using assms unfolding pin_window_def key_def [symmetric] by (auto simp: isThrottled_def pinMaxAttempts_def)
  then show ?thesis
    unfolding VerifyPINThrottled_def Let_def key_def [symmetric]
    by (auto simp: bnd_Inr [where m = "isThrottled key pinMaxAttempts"] bnd_reject bnd_basic bnd_def [of "noteFailure key"]
        noteFailure_def modify_def fail_def split: prod.splits sum.splits)
qed

lemma pin_failure:
  assumes "pin_window w uid n reset" and "n = 0 \<or> clock w \<le> reset" and "n \<le> 5"
    and "VerifyPINThrottled A uid pin w = (Inl e, w')"
  shows "pin_window w' uid (Suc n) (if n = 0 then clock w + attemptWindowDur else reset)"
proof -
  obtain r w1 where v: "VerifyPIN A uid pin w = (r, w1)" by (cases "VerifyPIN A uid pin w")
  have "r = Inl e \<and> w' = snd (noteFailure (''pin:'' @ uid) w1)"
    using pin_step [OF assms(1,2), of A pin] assms(3,4) v by (auto simp: clearFailure_def modify_def split: sum.splits)
  moreover have "attempts w1 = attempts w" "clock w1 = clock w"
    using attempts_more [OF conjunct1 [OF VerifyPIN_frame [OF v]]] conjunct2 [OF VerifyPIN_frame [OF v]] .
  ultimately have "attempts w' (''pin:'' @ uid) =
      (case attempts w (''pin:'' @ uid) of None \<Rightarrow> Some \<lparr>aw_count = 1, aw_reset = clock w + attemptWindowDur\<rparr>
       | Some win \<Rightarrow> if clock w > aw_reset win then Some \<lparr>aw_count = 1, aw_reset = clock w + attemptWindowDur\<rparr>
                     else Some (win\<lparr>aw_count := aw_count win + 1\<rparr>))"
    by (simp add: noteFailure_def modify_def split: option.split)
  then show ?thesis using assms(1,2) unfolding pin_window_def by (cases n) simp_all
qed

lemma pin_tries_window:
  assumes "pin_tries A uid ps w = (rs, w')" and "\<forall>r\<in>set rs. \<exists>e. r = Inl e"
    and "pin_window w uid n reset" and "0 < n" and "\<forall>(t, pin)\<in>set ps. t \<le> reset"
  shows "pin_window w' uid (if n \<le> 6 then min 6 (n + length ps) else n) reset"
  using assms
proof (induction ps arbitrary: w rs n)
  case (Cons p ps)
  obtain t pin where p: "p = (t, pin)" by (cases p)
  obtain r w1 where v: "VerifyPINThrottled A uid pin (w\<lparr>clock := t\<rparr>) = (r, w1)" by (cases "VerifyPINThrottled A uid pin (w\<lparr>clock := t\<rparr>)")
  obtain rs' where rest: "pin_tries A uid ps w1 = (rs', w')" and rs: "rs = r # rs'"
    using Cons.prems(1) by (auto simp: p v split: prod.splits)
  have win: "pin_window (w\<lparr>clock := t\<rparr>) uid n reset" "clock (w\<lparr>clock := t\<rparr>) \<le> reset"
    using Cons.prems(3,5) by (auto simp: pin_window_def p)
  obtain e where e: "r = Inl e" using Cons.prems(2) rs by auto
  show ?case
  proof (cases "n \<le> 5")
    case True
    have win1: "pin_window w1 uid (Suc n) reset" using pin_failure [OF win(1) _ True v [unfolded e]] win(2) Cons.prems(4) by auto
    show ?thesis using Cons.IH [OF rest _ win1] Cons.prems(2,5) rs True by (auto simp: min_def)
  next
    case False
    then have "w1 = w\<lparr>clock := t\<rparr>" using pin_step [OF win(1), of A pin] win(2) v by auto
    then show ?thesis using Cons.IH [OF rest _ _ Cons.prems(4)] win(1) Cons.prems(2,5) rs False by (auto simp: min_def)
  qed
qed auto

text \<open>C25. The dedicated PIN check locks after six failures: starting without a failure window, after any sequence
  of failed checks within fifteen minutes of the first (for whatever reason each failed), a further check in those
  fifteen minutes behaves as the unthrottled check if there were at most five, and is refused, the right PIN
  included, without touching the database or the window if there were more.\<close>

theorem pin_lockout:
  assumes "attempts w (''pin:'' @ uid) = None" and "pin_tries A uid ((t0, p0) # ps) w = (rs, w1)"
    and "\<forall>r\<in>set rs. \<exists>e. r = Inl e" and "\<forall>(t', p')\<in>set ps. t' \<le> t0 + attemptWindowDur" and "t \<le> t0 + attemptWindowDur"
  shows "if length ps < 5 then fst (VerifyPINThrottled A uid pin (w1\<lparr>clock := t\<rparr>)) = fst (VerifyPIN A uid pin (w1\<lparr>clock := t\<rparr>))
    else VerifyPINThrottled A uid pin (w1\<lparr>clock := t\<rparr>) = (Inl ErrTooManyAttempts, w1\<lparr>clock := t\<rparr>)"
proof -
  obtain r w2 where v: "VerifyPINThrottled A uid p0 (w\<lparr>clock := t0\<rparr>) = (r, w2)" by (cases "VerifyPINThrottled A uid p0 (w\<lparr>clock := t0\<rparr>)")
  obtain rs' where rest: "pin_tries A uid ps w2 = (rs', w1)" and rs: "rs = r # rs'"
    using assms(2) by (auto simp: v split: prod.splits)
  obtain e where e: "r = Inl e" using assms(3) rs by auto
  have "pin_window (w\<lparr>clock := t0\<rparr>) uid 0 0" using assms(1) by (simp add: pin_window_def)
  from pin_failure [OF this _ _ v [unfolded e]] have "pin_window w2 uid 1 (t0 + attemptWindowDur)" by simp
  from pin_tries_window [OF rest _ this] have "pin_window w1 uid (min 6 (1 + length ps)) (t0 + attemptWindowDur)"
    using assms(3,4) rs by simp
  then have win: "pin_window (w1\<lparr>clock := t\<rparr>) uid (min 6 (1 + length ps)) (t0 + attemptWindowDur)" by (simp add: pin_window_def)
  show ?thesis using pin_step [OF win, of A pin] assms(5) by (auto simp: clearFailure_def modify_def split: prod.splits sum.splits)
qed

section \<open>Challenges\<close>

lemma hex_no_bar: "CHR ''|'' \<notin> set (hex_EncodeToString bs)"
proof -
  have "hex_alphabet ! d \<in> set hex_alphabet" if "d \<in> set (enc_digits 4 bs)" for d
    using enc_digits_less [OF that] by (intro nth_mem) (simp add: hex_alphabet_def)
  moreover have "CHR ''|'' \<notin> set hex_alphabet" by (simp add: hex_alphabet_def)
  ultimately show ?thesis by (auto simp: hex_EncodeToString_def)
qed

lemma digits_no_bar: "CHR ''|'' \<notin> set (show_nat n)"
  using show_nat_digits [of n] by (auto simp: is_digit_def)

lemma url_Encode_Nil: "url_EncodeToString bs = [] \<Longrightarrow> bs = []"
proof -
  have "url_DecodeString [] = Some []"
    by (simp add: url_DecodeString_def no_breaks_def dec_digits_def chunks_Nil)
  then show "url_EncodeToString bs = [] \<Longrightarrow> bs = []" using url_roundtrip [of bs] by simp
qed

lemma split_challenge:
  "CHR ''|'' \<notin> set a \<Longrightarrow> CHR ''|'' \<notin> set b \<Longrightarrow> CHR ''|'' \<notin> set c \<Longrightarrow> split_on CHR ''|'' (a @ ''|'' @ b @ ''|'' @ c) = [a, b, c]"
  by (simp add: split_on_append split_on_none)

lemma split_join: "split_on c s = [x, y, z] \<Longrightarrow> s = x @ [c] @ y @ [c] @ z"
proof -
  have "concat (map (\<lambda>p. c # p) (split_on c s)) = c # s" for s
    by (induction s) (auto split: list.splits)
  from this [of s] show "split_on c s = [x, y, z] \<Longrightarrow> ?thesis" by simp
qed

lemma challenge_authentic:
  assumes "verifyChallenge A token later = Inr u"
  shows "\<exists>expiry raw unix. url_DecodeString token = Some raw
        \<and> string_of raw = u @ ''|'' @ expiry @ ''|'' @ challenge_mac A (u @ ''|'' @ expiry)
        \<and> ParseInt expiry = Inr unix \<and> later div second \<le> unix"
proof -
  obtain raw where raw: "url_DecodeString token = Some raw"
    using assms by (auto simp: verifyChallenge_def split: if_splits option.splits)
  obtain x expiry mac where parts: "split_on CHR ''|'' (string_of raw) = [x, expiry, mac]"
    using assms raw by (auto simp: verifyChallenge_def split: if_splits list.splits)
  then have "x = u" "mac = challenge_mac A (u @ ''|'' @ expiry)" and "\<exists>unix. ParseInt expiry = Inr unix \<and> later div second \<le> unix"
    using assms raw by (auto simp: verifyChallenge_def split: if_splits sum.splits)
  then show ?thesis using raw split_join [OF parts] by auto
qed

lemma challenge_issued:
  assumes "CHR ''|'' \<notin> set uid" and "0 \<le> now" and "(now + totpChallengeTTL) div second \<le> max_int64"
  shows "verifyChallenge A (newChallenge A uid now) later
      = (if later div second > (now + totpChallengeTTL) div second then Inl ErrTwoFactorInvalid else Inr uid)"
proof -
  define unix where "unix = (now + totpChallengeTTL) div second"
  have pos: "0 \<le> unix" using assms(2) by (simp add: unix_def totpChallengeTTL_def minute_def second_def)
  define expiry where "expiry = show_nat (nat unix)"
  have e: "show_int unix = expiry" using pos by (simp add: show_int_def expiry_def)
  define payload where "payload = uid @ ''|'' @ expiry"
  let ?text = "payload @ ''|'' @ challenge_mac A payload"
  have token: "newChallenge A uid now = url_EncodeToString (bytes_of ?text)"
    by (simp add: newChallenge_def Let_def unix_def [symmetric] e payload_def)
  have "bytes_of ?text \<noteq> []" by (simp add: bytes_of_def)
  then have ne: "url_EncodeToString (bytes_of ?text) \<noteq> []" using url_Encode_Nil by blast
  have "split_on CHR ''|'' ?text = [uid, expiry, challenge_mac A payload]"
    unfolding payload_def using split_challenge [of uid expiry] assms(1) digits_no_bar hex_no_bar
    by (simp add: expiry_def challenge_mac_def)
  moreover have "ParseInt expiry = Inr unix"
    using ParseInt_digits [of expiry] show_nat_digits pos assms(3) unfolding expiry_def unix_def [symmetric]
    by (simp add: max_int64_def nat_le_iff)
  ultimately show ?thesis
    unfolding verifyChallenge_def token unix_def [symmetric] using ne by (simp add: payload_def)
qed

text \<open>A two-factor challenge names one user until it expires: for an identifier without a bar, verifying the
  challenge issued at \<open>now\<close> at a time \<open>later\<close> returns exactly that identifier while the Unix second of \<open>later\<close> is
  not past that of \<open>now\<close> plus five minutes, and is refused after it; and whatever token verifies, at whatever
  time, decodes to an identifier, an expiry that has not passed and the keyed digest of these two.\<close>

lemma challenge_roundtrip:
  assumes "CHR ''|'' \<notin> set uid" and "0 \<le> now" and "(now + totpChallengeTTL) div second \<le> max_int64"
  shows "verifyChallenge A (newChallenge A uid now) later
      = (if later div second > (now + totpChallengeTTL) div second then Inl ErrTwoFactorInvalid else Inr uid)
    \<and> (\<forall>token u. verifyChallenge A token later = Inr u \<longrightarrow>
      (\<exists>expiry raw unix. url_DecodeString token = Some raw
        \<and> string_of raw = u @ ''|'' @ expiry @ ''|'' @ challenge_mac A (u @ ''|'' @ expiry)
        \<and> ParseInt expiry = Inr unix \<and> later div second \<le> unix))"
  using challenge_issued [OF assms] challenge_authentic by blast

section \<open>Shapes of codes\<close>

lemma sha1_rounds_length: "length st = 5 \<Longrightarrow> length (sha1_rounds t ws st) = 5"
  by (induction t ws st rule: sha1_rounds.induct) simp_all

lemma words_bytes_length: "length (words_bytes ws) = 4 * length ws"
  by (induction ws) (simp_all add: words_bytes_def)

lemma sha1_length: "length (sha1 m) = 20"
proof -
  have "length (foldl sha1_block st bs) = 5" if "length st = 5" for st bs
    using that by (induction bs arbitrary: st) (simp_all add: sha1_block_def sha1_rounds_length)
  then show ?thesis by (simp add: sha1_def words_bytes_length)
qed

lemma hmac_length: "length (hmac sha1 key msg) = 20"
  by (simp add: hmac_def Let_def sha1_length)

lemma computeTOTP_shape:
  assumes "computeTOTP secret t = Some code"
  shows "length code = totpDigits \<and> list_all is_digit code"
proof -
  obtain n where "code = pad0 6 (show_nat (n mod 10 ^ 6))"
    using assms by (auto simp: computeTOTP_def totpDigits_def split: option.splits)
  then show ?thesis using pad0_digits [of "n mod 10 ^ 6" 6] by (simp add: totpDigits_def list_all_iff)
qed

lemma generateOTP_shape:
  assumes "generateOTP n w = (Inr code, w')"
  shows "length code = n \<and> list_all is_digit code"
proof -
  have "is_digit (char_of (48 + unat b mod 10))" for b :: byte
  proof -
    have "48 + unat b mod 10 < 256" "unat b mod 10 < 10" by simp_all
    then show ?thesis by (simp add: is_digit_def)
  qed
  then show ?thesis using assms
    by (auto simp: generateOTP_def rand_Read_def otp_digits_def list_all_iff bnd_def ret_def Let_def split: if_splits)
qed

unbundle bit_operations_syntax

text \<open>The number RFC 4226 takes from a digest: the four bytes at the offset named by the low four bits of the last
  byte, most significant first, without the top bit.\<close>

definition be_value :: "byte list \<Rightarrow> nat" where
  "be_value bs = foldl (\<lambda>n b. 256 * n + unat b) 0 bs"

definition hotp_value :: "byte list \<Rightarrow> nat" where
  "hotp_value digest = be_value (take 4 (drop (unat (last digest) mod 16) digest)) mod 2 ^ 31"

lemma or_add: "y < 2 ^ k \<Longrightarrow> (x * 2 ^ k) OR y = x * 2 ^ k + (y :: nat)"
proof -
  assume "y < 2 ^ k"
  then have "take_bit k y = y" by (simp add: take_bit_nat_eq_self_iff)
  then have low: "\<And>n. bit y n \<Longrightarrow> n < k" by (metis bit_take_bit_iff)
  have "\<not> bit (push_bit k x) n \<or> \<not> bit y n" for n using low [of n] by (auto simp: bit_push_bit_iff)
  then have "push_bit k x + y = push_bit k x OR y" by (rule disjunctive_add)
  then show ?thesis by (simp add: push_bit_eq_mult)
qed

lemma low_bits: "unat ((b :: byte) AND 0x0f) = unat b mod 16" "unat ((ucast b :: 32 word) AND 0x7f) = unat b mod 128"
proof -
  have *: "n AND 15 = n mod 16" "n AND 127 = n mod 128" for n :: nat
    using take_bit_eq_mask [of 4 n] take_bit_eq_mask [of 7 n] by (simp_all add: take_bit_eq_mod mask_eq_exp_minus_1)
  show "unat (b AND 0x0f) = unat b mod 16" by (simp add: unsigned_and_eq *)
  have "unat b < 2 ^ 8" using unsigned_less [of b] by simp
  then have "unat (ucast b :: 32 word) = unat b" by (simp add: unsigned_ucast_eq take_bit_nat_eq_self_iff)
  then show "unat ((ucast b :: 32 word) AND 0x7f) = unat b mod 128" by (simp add: unsigned_and_eq *)
qed

lemma shifted_byte:
  assumes "unat w < 256" and "k \<le> 24"
  shows "unat (push_bit k (w :: 32 word)) = unat w * 2 ^ k"
proof -
  have "unat w * 2 ^ k < 2 ^ 8 * 2 ^ k" using assms(1) by simp
  also have "2 ^ 8 * 2 ^ k \<le> (2 :: nat) ^ 32" using assms(2) power_increasing [of "8 + k" 32 "2::nat"] by (simp only: power_add)
  finally have fits: "unat w * 2 ^ k < 2 ^ 32" .
  have "unat (push_bit k w) = take_bit 32 (push_bit k (unat w))" by (simp add: unsigned_push_bit_eq)
  then show ?thesis using fits by (simp add: push_bit_eq_mult [of k "unat w"] take_bit_nat_eq_self_iff)
qed

lemma byte_bound: "unat (ucast (b :: byte) :: 32 word) = unat b" "unat b < 256"
proof -
  show "unat b < 256" using unsigned_less [of b] by simp
  then show "unat (ucast b :: 32 word) = unat b" by (simp add: unsigned_ucast_eq take_bit_nat_eq_self_iff)
qed

lemma truncated_word:
  fixes b0 b1 b2 b3 :: byte
  shows "unat (((push_bit 24 ((ucast b0 :: 32 word) AND 0x7f) OR push_bit 16 (ucast b1)) OR push_bit 8 (ucast b2)) OR ucast b3)
     = ((unat b0 mod 128 * 256 + unat b1) * 256 + unat b2) * 256 + unat b3"
proof -
  have a: "unat (push_bit 24 ((ucast b0 :: 32 word) AND 0x7f)) = unat b0 mod 128 * 2 ^ 24"
    using shifted_byte [of "(ucast b0 :: 32 word) AND 0x7f" 24] by (simp add: low_bits)
  have b: "unat (push_bit 16 (ucast b1 :: 32 word)) = unat b1 * 2 ^ 16" "unat (push_bit 8 (ucast b2 :: 32 word)) = unat b2 * 2 ^ 8"
    using shifted_byte [of "ucast b1" 16] shifted_byte [of "ucast b2" 8] byte_bound [of b1] byte_bound [of b2] by simp_all
  have 1: "(unat b0 mod 128 * 2 ^ 24) OR (unat b1 * 2 ^ 16) = (unat b0 mod 128 * 256 + unat b1) * 2 ^ 16"
    using or_add [of "unat b1 * 2 ^ 16" 24 "unat b0 mod 128"] byte_bound(2) [of b1] by simp
  have 2: "((unat b0 mod 128 * 256 + unat b1) * 2 ^ 16) OR (unat b2 * 2 ^ 8) = ((unat b0 mod 128 * 256 + unat b1) * 256 + unat b2) * 2 ^ 8"
    using or_add [of "unat b2 * 2 ^ 8" 16 "unat b0 mod 128 * 256 + unat b1"] byte_bound(2) [of b2] by simp
  show ?thesis
    unfolding unsigned_or_eq a b 1 2 byte_bound(1)
    using or_add [of "unat b3" 8 "(unat b0 mod 128 * 256 + unat b1) * 256 + unat b2"] byte_bound(2) [of b3] by simp
qed

lemma four_elements: "4 \<le> length xs \<Longrightarrow> \<exists>a b c d rest. xs = a # b # c # d # rest"
proof -
  assume "4 \<le> length xs"
  then have "Suc (Suc (Suc (Suc 0))) \<le> length xs" by simp
  then show ?thesis unfolding Suc_le_length_iff by blast
qed

lemma truncation_value:
  assumes "unat (last digest) mod 16 + 4 \<le> length digest"
  shows "unat (dynamic_truncation digest) = hotp_value digest"
proof -
  let ?o = "unat (last digest) mod 16"
  have "4 \<le> length (drop ?o digest)" using assms by simp
  then obtain a b c d rest where abcd: "drop ?o digest = a # b # c # d # rest"
    by (elim four_elements [THEN exE] exE)
  have "digest ! (?o + i) = drop ?o digest ! i" for i using assms by simp
  from this [of 0] this [of 1] this [of 2] this [of 3]
  have "take 4 (drop ?o digest) = [digest ! ?o, digest ! (?o + 1), digest ! (?o + 2), digest ! (?o + 3)]"
    unfolding abcd by simp
  then have v: "hotp_value digest = (((unat (digest ! ?o) * 256 + unat (digest ! (?o + 1))) * 256 + unat (digest ! (?o + 2))) * 256
      + unat (digest ! (?o + 3))) mod 2 ^ 31"
    by (simp add: hotp_value_def be_value_def mult.commute add.commute)
  have m: "(((x * 256 + p) * 256 + q) * 256 + r) mod 2 ^ 31 = ((x mod 128 * 256 + p) * 256 + q) * 256 + r"
    if "p < 256" "q < 256" "r < 256" for x p q r :: nat
  proof -
    have split: "(((y * 128 + z) * 256 + p) * 256 + q) * 256 + r = ((z * 256 + p) * 256 + q) * 256 + r + y * 2 ^ 31" for y z
      by simp
    have "((x * 256 + p) * 256 + q) * 256 + r = (((x mod 128 * 256 + p) * 256 + q) * 256 + r) + x div 128 * 2 ^ 31"
      using split [of "x div 128" "x mod 128"] by (simp only: div_mult_mod_eq)
    moreover have "((x mod 128 * 256 + p) * 256 + q) * 256 + r < 2 ^ 31"
      using that mod_less_divisor [of 128 x] by simp
    ultimately show ?thesis by (metis mod_less mod_mult_self1)
  qed
  show ?thesis
    unfolding v m [OF byte_bound(2) byte_bound(2) byte_bound(2)]
    unfolding dynamic_truncation_def Let_def low_bits(1) add_0_right by (rule truncated_word)
qed
text \<open>C26. Codes and secrets are well formed: a generated one-time code and every authenticator code are six decimal
  digits (leading zeros kept); a secret generated from twenty random bytes decodes to twenty bytes, and at every
  time the authenticator code of the secret is the one RFC 4226 defines: the four bytes of the twenty byte HMAC
  that start where the low four bits of its last byte say, all of them inside the digest, read as a big-endian
  number without its top bit, modulo a million.\<close>

theorem code_shapes:
  assumes "generateOTP otpDigits w = (Inr otp, w')" and "generateTOTPSecret v = (Inr secret, v')"
  shows "length otp = 6 \<and> list_all is_digit otp
    \<and> (\<exists>key code digest. b32_DecodeString (ToUpper (TrimRight secret CHR ''='')) = Some key \<and> length key = 20
         \<and> digest = hmac sha1 key (be_bytes 8 (totp_counter t)) \<and> length digest = 20
         \<and> unat (last digest) mod 16 + 4 \<le> length digest
         \<and> computeTOTP secret t = Some code \<and> length code = 6 \<and> list_all is_digit code
         \<and> code = pad0 6 (show_nat (hotp_value digest mod 10 ^ 6)))"
proof -
  obtain raw where raw: "secret = totp_secret raw" "length raw = 20"
    using assms(2) by (auto simp: generateTOTPSecret_def rand_Read_def bnd_def ret_def Let_def split: if_splits)
  then have key: "b32_DecodeString (ToUpper (TrimRight secret CHR ''='')) = Some raw"
    using b32_roundtrip [of raw] by (simp add: totp_secret_def)
  let ?digest = "hmac sha1 raw (be_bytes 8 (totp_counter t))"
  have inside: "unat (last ?digest) mod 16 + 4 \<le> length ?digest"
    using mod_less_divisor [of 16 "unat (last ?digest)"] by (simp add: hmac_length)
  have code: "computeTOTP secret t = Some (pad0 6 (show_nat (hotp_value ?digest mod 10 ^ 6)))"
    using key truncation_value [OF inside] by (simp add: computeTOTP_def totpDigits_def)
  show ?thesis
    using generateOTP_shape [OF assms(1)] computeTOTP_shape [OF code] code key raw(2) inside hmac_length
    by (simp add: otpDigits_def totpDigits_def)
qed

section \<open>Which time step a code is accepted for\<close>

lemma totp_counter_step:
  assumes "0 \<le> t" and "0 \<le> t'" and "t div (30 * second) = t' div (30 * second)"
  shows "totp_counter t = totp_counter t'"
proof -
  have "(x div second) sdiv 30 = x div (30 * second)" if "0 \<le> x" for x
  proof -
    have "0 \<le> x div second" using that by (simp add: second_def pos_imp_zdiv_nonneg_iff)
    then have "(x div second) sdiv 30 = x div second div 30" by (simp add: sdiv_nonneg)
    then show ?thesis by (simp add: second_def zdiv_zmult2_eq [symmetric])
  qed
  then show ?thesis using assms by (simp add: totp_counter_def totpStepSeconds_def)
qed

lemma computeTOTP_step:
  assumes "0 \<le> t" and "0 \<le> t'" and "t div (30 * second) = t' div (30 * second)"
  shows "computeTOTP secret t = computeTOTP secret t'"
  by (simp only: computeTOTP_def totp_counter_step [OF assms])

lemma same_step:
  assumes "30 \<le> now mod (30 * second)" and "now mod (30 * second) < 30 * second - 30" and "dt \<in> {0, -30, 30}"
  shows "(now + dt) div (30 * second) = now div (30 * second)"
proof -
  let ?q = "now div (30 * second)" and ?r = "now mod (30 * second)"
  have "now + dt = (?r + dt) + ?q * (30 * second)" using div_mult_mod_eq [of now "30 * second"] by simp
  moreover have "(?r + dt) div (30 * second) = 0"
    using assms by (intro div_pos_pos_trivial) (auto simp: second_def)
  ultimately show ?thesis
    using div_mult_self1 [of "30 * second" "?r + dt" ?q] by (simp add: second_def)
qed

text \<open>C27. Authenticator codes are accepted for the current time step only: unless the time is within thirty
  nanoseconds of a step boundary, a code passes exactly when it is the code of the step the time lies in; the
  codes of the adjacent steps, which the drift of one step was meant to accept, are refused whenever they
  differ.\<close>

theorem totp_current_step_only:
  assumes "0 \<le> now" and "30 \<le> now mod (30 * second)" and "now mod (30 * second) < 30 * second - 30"
  shows "verifyTOTP secret code now \<longleftrightarrow> computeTOTP secret now = Some code"
proof -
  have "now mod (30 * second) \<le> now" using assms(1) by (simp add: zmod_le_nonneg_dividend)
  then have pos: "0 \<le> now + dt" if "dt \<in> {0, -30, 30}" for dt using that assms(1,2) by auto
  have same: "computeTOTP secret (now + dt) = computeTOTP secret now" if "dt \<in> {0, -30, 30}" for dt
    using computeTOTP_step [OF pos [OF that] assms(1) same_step [OF assms(2,3) that]] .
  have "computeTOTP secret (now - 30) = computeTOTP secret now" "computeTOTP secret (now + 30) = computeTOTP secret now"
    using same [of "-30"] same [of 30] by simp_all
  then show ?thesis
    using computeTOTP_shape [of secret now code] by (auto simp: verifyTOTP_def totpStepSeconds_def split: option.splits)
qed

section \<open>Changing the password\<close>

lemma stmt_write:
  assumes "stmt (\<lambda>i t d. Inr (f t d, g t d)) w = (Inr v, w')"
  shows "v = f (clock w) (wdb w)" and "wdb w' = g (clock w) (wdb w)"
  using stmt_okE [OF assms] by (metis Inr_inject prod.inject)+

lemma update_user_ok:
  assumes "UserRepo_UpdatePassword uid hash w = (Inr (), w')"
  shows "users (wdb w') = update_where (\<lambda>u. u_ID u = uid) (\<lambda>u. u\<lparr>u_PasswordHash := hash, u_UpdatedAt := clock w\<rparr>) (users (wdb w))"
    and "sessions (wdb w') = sessions (wdb w)"
proof -
  from assms have "\<exists>n. stmt (\<lambda>_ t d. Inr (count_where (\<lambda>u. u_ID u = uid) (users d),
      d\<lparr>users := update_where (\<lambda>u. u_ID u = uid) (\<lambda>u. u\<lparr>u_PasswordHash := hash, u_UpdatedAt := t\<rparr>) (users d)\<rparr>)) w = (Inr n, w')"
    unfolding UserRepo_UpdatePassword_def UserRepo_update_def affecting_def by (elim bnd_okE mapped_okE reject_okE) auto
  then have "wdb w' = (wdb w)\<lparr>users := update_where (\<lambda>u. u_ID u = uid) (\<lambda>u. u\<lparr>u_PasswordHash := hash, u_UpdatedAt := clock w\<rparr>) (users (wdb w))\<rparr>"
    by (elim exE) (rule stmt_write(2))
  then show "users (wdb w') = update_where (\<lambda>u. u_ID u = uid) (\<lambda>u. u\<lparr>u_PasswordHash := hash, u_UpdatedAt := clock w\<rparr>) (users (wdb w))"
    "sessions (wdb w') = sessions (wdb w)" by simp_all
qed

lemma revoke_others_ok:
  assumes "SessionRepo_RevokeAllExcept uid keep w = (Inr (), w')"
  shows "sessions (wdb w') = update_where (\<lambda>s. (s_UserID s = uid \<and> s_ID s \<noteq> keep) \<and> s_RevokedAt s = None)
      (\<lambda>s. s\<lparr>s_RevokedAt := Some (clock w)\<rparr>) (sessions (wdb w))"
    and "users (wdb w') = users (wdb w)"
proof -
  from assms have "\<exists>n. SessionRepo_revoke_where (\<lambda>s. s_UserID s = uid \<and> s_ID s \<noteq> keep) w = (Inr n, w')"
    unfolding SessionRepo_RevokeAllExcept_def by (elim bnd_okE mapped_okE ret_okE) auto
  then have "wdb w' = (wdb w)\<lparr>sessions := update_where (\<lambda>s. (s_UserID s = uid \<and> s_ID s \<noteq> keep) \<and> s_RevokedAt s = None)
      (\<lambda>s. s\<lparr>s_RevokedAt := Some (clock w)\<rparr>) (sessions (wdb w))\<rparr>"
    unfolding SessionRepo_revoke_where_def by (elim exE) (rule stmt_write(2))
  then show "sessions (wdb w') = update_where (\<lambda>s. (s_UserID s = uid \<and> s_ID s \<noteq> keep) \<and> s_RevokedAt s = None)
      (\<lambda>s. s\<lparr>s_RevokedAt := Some (clock w)\<rparr>) (sessions (wdb w))" "users (wdb w') = users (wdb w)" by simp_all
qed

text \<open>Work that touches neither sessions nor users.\<close>

definition people_same :: "db \<Rightarrow> db \<Rightarrow> bool" where
  "people_same d d' \<longleftrightarrow> sessions d' = sessions d \<and> users d' = users d"

interpretation people: db_preorder people_same
  by unfold_locales (auto simp: people_same_def)

lemma people_event: "pres people_same (recordEvent A ev)"
proof -
  have "pres people_same (SecurityEventRepo_Create e)" for e
    unfolding SecurityEventRepo_Create_def
    by (intro people.pres_mapped people.pres_stmt) (auto simp: people_same_def split: if_splits)
  then show ?thesis unfolding recordEvent_def published_def
    by (intro people.pres_rules people.pres_modify) simp_all
qed

text \<open>A password change needs the old password and ends every other session: when it succeeds, the new password has
  at least eight bytes, the old one matched a user with that identifier, every row of that identifier now has the
  hash bcrypt made of the new password, no other user changed, and every session of the user except the kept one is
  revoked, while sessions of other users are as they were.\<close>

lemma password_change:
  assumes "ChangePassword A uid old new keep w = (Inr (), w')"
  shows "8 \<le> length new
    \<and> (\<exists>u\<in>set (users (wdb w)). u_ID u = uid \<and> CompareHashAndPassword A (u_PasswordHash u) old)
    \<and> (\<exists>hash n. GenerateFromPassword A new n = Inr hash \<and> (\<forall>u\<in>set (users (wdb w')). u_ID u = uid \<longrightarrow> u_PasswordHash u = hash))
    \<and> filter (\<lambda>u. u_ID u \<noteq> uid) (users (wdb w')) = filter (\<lambda>u. u_ID u \<noteq> uid) (users (wdb w))
    \<and> (\<forall>s\<in>set (sessions (wdb w')). s_UserID s = uid \<and> s_ID s \<noteq> keep \<longrightarrow> s_RevokedAt s \<noteq> None)
    \<and> filter (\<lambda>s. s_UserID s \<noteq> uid) (sessions (wdb w')) = filter (\<lambda>s. s_UserID s \<noteq> uid) (sessions (wdb w))"
proof -
  define ev1 where "ev1 = plain_event uid ''password'' SeverityInfo ''Password changed'' ''Your password was updated''"
  define ev2 where "ev2 = plain_event uid ''session_revoked'' SeverityCritical ''Other sessions revoked'' ''A password change signed every other device out''"
  have "\<exists>user w1 hash w2 w3 w4 w5. 8 \<le> length new \<and> UserRepo_FindByID uid w = (Inr user, w1)
      \<and> CompareHashAndPassword A (u_PasswordHash user) old \<and> bcrypt_hash A new w1 = (Inr hash, w2)
      \<and> UserRepo_UpdatePassword uid hash w2 = (Inr (), w3) \<and> SessionRepo_RevokeAllExcept uid keep w3 = (Inr (), w4)
      \<and> recordEvent A ev1 w4 = (Inr (), w5) \<and> recordEvent A ev2 w5 = (Inr (), w')"
    using assms unfolding ChangePassword_def ev1_def [symmetric] ev2_def [symmetric]
    by (elim bnd_okE reject_okE) (auto simp: not_less)
  then obtain user w1 hash w2 w3 w4 w5 where s: "8 \<le> length new" "UserRepo_FindByID uid w = (Inr user, w1)"
    "CompareHashAndPassword A (u_PasswordHash user) old" "bcrypt_hash A new w1 = (Inr hash, w2)"
    "UserRepo_UpdatePassword uid hash w2 = (Inr (), w3)" "SessionRepo_RevokeAllExcept uid keep w3 = (Inr (), w4)"
    "recordEvent A ev1 w4 = (Inr (), w5)" "recordEvent A ev2 w5 = (Inr (), w')" by blast
  have same: "users (wdb w') = users (wdb w4)" "sessions (wdb w') = sessions (wdb w4)"
    using presD [OF people_event s(7)] presD [OF people_event s(8)] by (simp_all add: people_same_def)
  have f: "wdb w1 = wdb w" "user \<in> set (users (wdb w))" "u_ID user = uid" using find_user_ok(1) [OF s(2)] by simp_all
  have h: "GenerateFromPassword A new (rnd_pos w1) = Inr hash" "wdb w2 = wdb w1"
    using s(4) by (auto simp: bcrypt_hash_def)
  have u: "users (wdb w') = update_where (\<lambda>u. u_ID u = uid) (\<lambda>u. u\<lparr>u_PasswordHash := hash, u_UpdatedAt := clock w2\<rparr>) (users (wdb w))"
    and v: "sessions (wdb w') = update_where (\<lambda>s. (s_UserID s = uid \<and> s_ID s \<noteq> keep) \<and> s_RevokedAt s = None)
      (\<lambda>s. s\<lparr>s_RevokedAt := Some (clock w3)\<rparr>) (sessions (wdb w))"
    using update_user_ok [OF s(5)] revoke_others_ok [OF s(6)] same f(1) h(2) by simp_all
  have keep_filter: "filter (\<lambda>r. \<not> P r) (update_where Q g rs) = filter (\<lambda>r. \<not> P r) rs"
    if "\<And>r. Q r \<Longrightarrow> P r \<and> P (g r)" for P Q g and rs :: "'r list"
    using that by (induction rs) (auto simp: update_where_def)
  show ?thesis
    using s(1,3) f h(1) unfolding u v
    by (intro conjI keep_filter) (auto simp: update_where_def)
qed

section \<open>Witnesses\<close>

definition sample_otp :: EmailOTP where
  "sample_otp = \<lparr>otp_Email = ''new@b.org'', otp_CodeHash = hashOTP ''123456'', otp_ExpiresAt = 2 * hour, otp_NextSendAt = None,
     otp_Attempts = 4, otp_FirstName = ''Bo'', otp_LastName = [], otp_Phone = [], otp_PasswordHash = ''h:secret42'',
     otp_CreatedAt = 0, otp_UpdatedAt = 0\<rparr>"

definition sample_otp_db :: db where
  "sample_otp_db = sample_adb\<lparr>email_otps := [sample_otp]\<rparr>"

lemma sample_quiet: "quiet_world (sample_aworld d)"
  by (simp add: sample_aworld_def quiet_world_def)

lemma sample_otp_of: "otp_of (wdb (sample_aworld sample_otp_db)) ''new@b.org'' = Some sample_otp"
  by (simp add: sample_aworld_def sample_otp_db_def sample_otp_def otp_of_def)

lemma sample_guesses:
  "\<exists>w'. try_codes ''new@b.org'' [(hour, ''12''), (2 * hour, ''123456'')] (sample_aworld sample_otp_db) = (Inr sample_otp, w')"
  by (simp add: fetchAndValidateOTP_def bnd_reject otpDigits_def fail_def sample_quiet bnd_Inr [OF quiet_find_otp]
      sample_otp_of bnd_basic) (simp add: sample_otp_def otpMaxAttempt_def ret_def)

theorem otp_guesses_capped_witness:
  "\<exists>before t code after. [(hour, ''12''), (2 * hour, ''123456'')] = before @ (t, code) # after \<and> length code = otpDigits
     \<and> hashOTP code = otp_CodeHash sample_otp \<and> t \<le> otp_ExpiresAt sample_otp
     \<and> otp_Attempts sample_otp + well_formed before < otpMaxAttempt"
  using sample_guesses otp_guesses_capped [OF sample_quiet sample_otp_of] by blast

lemmas pin_eval = VerifyPINThrottled_def VerifyPIN_def isThrottled_def noteFailure_def UserRepo_FindByID_def mapped_def
  on_err_def stmt_def select_def first_row_def consume_def bnd_def attempt_def ret_def fail_def gets_def modify_def reject_def

lemma short_pins_fail:
  "\<forall>(t, pin)\<in>set ps. length pin \<noteq> 6 \<Longrightarrow> r \<in> set (fst (pin_tries A uid ps w)) \<Longrightarrow> \<exists>e. r = Inl e"
proof (induction ps arbitrary: w)
  case (Cons p ps)
  obtain t pin where p: "p = (t, pin)" by (cases p)
  have "VerifyPIN A uid pin v = (Inl ErrInvalidPin, v)" for v :: "'a aworld_scheme"
    using Cons.prems(1) p by (simp add: VerifyPIN_def bnd_reject)
  then have "\<exists>e. fst (VerifyPINThrottled A uid pin v) = Inl e" for v :: "'a aworld_scheme"
    by (simp add: VerifyPINThrottled_def Let_def isThrottled_def noteFailure_def bnd_def attempt_def fail_def ret_def modify_def reject_def
        split: option.splits)
  from this [of "w\<lparr>clock := t\<rparr>"] show ?case
    using Cons.IH [of "snd (VerifyPINThrottled A uid pin (w\<lparr>clock := t\<rparr>))"] Cons.prems by (auto simp: p split: prod.splits)
qed simp

theorem pin_lockout_witness:
  "\<exists>rs w1. pin_tries sample_auth ''u1'' ((hour, ''1'') # replicate 5 (hour + minute, ''22'')) (sample_aworld sample_adb) = (rs, w1)
     \<and> fst (VerifyPINThrottled sample_auth ''u1'' ''314159'' (w1\<lparr>clock := hour + 14 * minute\<rparr>)) = Inl ErrTooManyAttempts"
proof -
  let ?ps = "replicate 5 (hour + minute, ''22'')"
  obtain rs w1 where run: "pin_tries sample_auth ''u1'' ((hour, ''1'') # ?ps) (sample_aworld sample_adb) = (rs, w1)"
    by (cases "pin_tries sample_auth ''u1'' ((hour, ''1'') # ?ps) (sample_aworld sample_adb)")
  have free: "attempts (sample_aworld sample_adb) (''pin:'' @ ''u1'') = None" by (simp add: sample_aworld_def)
  have fails: "\<forall>r\<in>set rs. \<exists>e. r = Inl e"
    using short_pins_fail [of "(hour, ''1'') # ?ps" _ sample_auth "''u1''" "sample_aworld sample_adb"] run by auto
  show ?thesis
    using pin_lockout [OF free run fails, of "hour + 14 * minute" "''314159''"] run
    by (auto simp: attemptWindowDur_def minute_def hour_def second_def)
qed

lemma sample_codes:
  "\<exists>otp secret w1 w2. generateOTP otpDigits (sample_aworld sample_adb) = (Inr otp, w1)
    \<and> generateTOTPSecret (sample_aworld sample_adb) = (Inr secret, w2)"
  by (simp add: generateOTP_def generateTOTPSecret_def rand_Read_def bnd_def ret_def sample_aworld_def Let_def)

theorem code_shapes_witness:
  "\<exists>otp w' secret w2 code. generateOTP otpDigits (sample_aworld sample_adb) = (Inr otp, w') \<and> length otp = 6 \<and> list_all is_digit otp
     \<and> generateTOTPSecret (sample_aworld sample_adb) = (Inr secret, w2) \<and> computeTOTP secret 0 = Some code \<and> length code = 6"
proof -
  obtain otp secret w1 w2 where run: "generateOTP otpDigits (sample_aworld sample_adb) = (Inr otp, w1)"
    "generateTOTPSecret (sample_aworld sample_adb) = (Inr secret, w2)" using sample_codes by blast
  from code_shapes [OF this, of 0] run show ?thesis by blast
qed

theorem totp_current_step_only_witness:
  "\<forall>code. verifyTOTP ''JBSWY3DPEHPK3PXP'' code (hour + 5 * second) \<longleftrightarrow> computeTOTP ''JBSWY3DPEHPK3PXP'' (hour + 5 * second) = Some code"
  by (intro allI totp_current_step_only) (simp_all add: hour_def minute_def second_def)

lemma sample_change:
  "\<exists>w'. ChangePassword sample_auth ''u1'' ''secret42'' ''better-one'' ''s9'' (sample_aworld sample_adb) = (Inr (), w')"
  unfolding pin_eval sample_aworld_def sample_adb_def sample_auth_def sample_person_def empty_db_def sample_session_def
  by (simp add: ChangePassword_def bcrypt_hash_def UserRepo_UpdatePassword_def UserRepo_update_def affecting_def Let_def
      SessionRepo_RevokeAllExcept_def SessionRepo_revoke_where_def recordEvent_def published_def SecurityEventRepo_Create_def
      ignore_def plain_event_def has_user_def count_where_def update_where_def pin_eval)

end
