(* ===== verification/Http.thy ===== *)
theory Http
  imports Keeps Errors Codec
begin

text \<open>
  The HTTP boundary common to all handlers: requests and responses, the decoding of request bodies and the error
  envelope (\<open>src/backend/internal/httpapi/respond.go\<close>), and the middleware of
  \<open>src/backend/internal/httpapi/middleware/\<close>. A request has its headers, path values and query as functions that
  answer the empty string for what is absent, as \<open>Header.Get\<close>, \<open>PathValue\<close> and \<open>Query().Get\<close> do, and the values
  the middleware puts into its context. A handler maps a request and a world to a response and a world.

  A body is what \<open>json.Decoder\<close> finds in it: nothing, something that is not JSON or longer than the limit, or a
  first value. The order of the members of an object is not significant, a Go map is kept as a map (\<open>JMap\<close>) and a
  formatted time as the time (\<open>JTime\<close>).
\<close>

section \<open>JSON\<close>

datatype json = JNull | JBool bool | JNum string | JStr string | JTime time | JArr "json list" | JObj "(string \<times> json) list"
  | JMap metadata

datatype body = NoBody | Garbled | Body json

definition jint :: "int \<Rightarrow> json" where "jint n = JNum (show_int n)"

text \<open>A field of a destination struct: its name and what \<open>encoding/json\<close> does with a value for it. \<open>null\<close> leaves
  the field alone, a value of another type is an error. Names match exactly or, failing that, up to case.\<close>

type_synonym 'r field = "string \<times> (json \<Rightarrow> 'r \<Rightarrow> 'r option)"

definition str_field :: "(string \<Rightarrow> 'r \<Rightarrow> 'r) \<Rightarrow> json \<Rightarrow> 'r \<Rightarrow> 'r option" where
  "str_field upd j r = (case j of JStr s \<Rightarrow> Some (upd s r) | JNull \<Rightarrow> Some r | _ \<Rightarrow> None)"

definition bool_field :: "(bool \<Rightarrow> 'r \<Rightarrow> 'r) \<Rightarrow> json \<Rightarrow> 'r \<Rightarrow> 'r option" where
  "bool_field upd j r = (case j of JBool b \<Rightarrow> Some (upd b r) | JNull \<Rightarrow> Some r | _ \<Rightarrow> None)"

definition int64_field :: "(int64 \<Rightarrow> 'r \<Rightarrow> 'r) \<Rightarrow> json \<Rightarrow> 'r \<Rightarrow> 'r option" where
  "int64_field upd j r =
     (case j of JNum s \<Rightarrow> (case ParseInt s of Inr n \<Rightarrow> Some (upd n r) | Inl _ \<Rightarrow> None) | JNull \<Rightarrow> Some r | _ \<Rightarrow> None)"

definition uint64_field :: "(nat \<Rightarrow> 'r \<Rightarrow> 'r) \<Rightarrow> json \<Rightarrow> 'r \<Rightarrow> 'r option" where
  "uint64_field upd j r =
     (case j of JNum s \<Rightarrow> (case ParseUint s of Inr n \<Rightarrow> Some (upd n r) | Inl _ \<Rightarrow> None) | JNull \<Rightarrow> Some r | _ \<Rightarrow> None)"

definition any_field :: "(json \<Rightarrow> 'r \<Rightarrow> 'r) \<Rightarrow> json \<Rightarrow> 'r \<Rightarrow> 'r option" where
  "any_field upd j r = Some (upd j r)"

definition find_field :: "'r field list \<Rightarrow> string \<Rightarrow> (json \<Rightarrow> 'r \<Rightarrow> 'r option) option" where
  "find_field fs k =
     (case List.find (\<lambda>f. fst f = k) fs of
        Some f \<Rightarrow> Some (snd f)
      | None \<Rightarrow> map_option snd (List.find (\<lambda>f. EqualFold (fst f) k) fs))"

fun decode_members :: "'r field list \<Rightarrow> (string \<times> json) list \<Rightarrow> 'r \<Rightarrow> 'r option" where
  "decode_members fs [] r = Some r"
| "decode_members fs ((k, j) # ms) r =
     (case find_field fs k of
        None \<Rightarrow> None
      | Some put \<Rightarrow> (case put j r of None \<Rightarrow> None | Some r' \<Rightarrow> decode_members fs ms r'))"

text \<open>\<open>decodeJSON\<close>: unknown fields are errors, an empty body leaves the zero value.\<close>

definition decodeJSON :: "'r field list \<Rightarrow> 'r \<Rightarrow> body \<Rightarrow> err + 'r" where
  "decodeJSON fs zero b =
     (case b of
        NoBody \<Rightarrow> Inr zero
      | Garbled \<Rightarrow> Inl ErrBadRequest
      | Body JNull \<Rightarrow> Inr zero
      | Body (JObj ms) \<Rightarrow> (case decode_members fs ms zero of Some r \<Rightarrow> Inr r | None \<Rightarrow> Inl ErrBadRequest)
      | Body _ \<Rightarrow> Inl ErrBadRequest)"

section \<open>Requests, responses, handlers\<close>

record request =
  rq_method :: string
  rq_header :: "string \<Rightarrow> string"
  rq_remote :: string
  rq_path :: "string \<Rightarrow> string"
  rq_query :: "string \<Rightarrow> string"
  rq_body :: body
  rq_user :: "user_row option"
  rq_token :: "string option"
  rq_idem :: "string option"
  rq_id :: "string option"

datatype payload = Json json | Plain string | NoPayload

record response =
  rs_status :: nat
  rs_headers :: "(string \<times> string) list"
  rs_body :: payload

type_synonym 'w handler = "request \<Rightarrow> 'w \<Rightarrow> response \<times> 'w"

definition writeJSON :: "nat \<Rightarrow> json \<Rightarrow> response" where
  "writeJSON status v = \<lparr>rs_status = status, rs_headers = [(''Content-Type'', ''application/json'')], rs_body = Json v\<rparr>"

definition omitempty :: "string \<Rightarrow> string \<Rightarrow> (string \<times> json) list" where
  "omitempty k s = (if s = [] then [] else [(k, JStr s)])"

definition UserFrom :: "request \<Rightarrow> user_row option" where "UserFrom r = rq_user r"
definition or_empty :: "string option \<Rightarrow> string" where "or_empty s = (case s of None \<Rightarrow> [] | Some s \<Rightarrow> s)"
definition TokenFrom :: "request \<Rightarrow> string" where "TokenFrom r = or_empty (rq_token r)"
definition IdempotencyKeyFrom :: "request \<Rightarrow> string" where "IdempotencyKeyFrom r = or_empty (rq_idem r)"
definition RequestIDFrom :: "request \<Rightarrow> string" where "RequestIDFrom r = or_empty (rq_id r)"

definition writeError :: "request \<Rightarrow> err \<Rightarrow> string \<Rightarrow> response" where
  "writeError r e txnID =
     writeJSON (errorStatus e) (JObj ([(''code'', JStr (ErrorCode e))] @ omitempty ''message'' (safeMessage e)
       @ [(''request_id'', JStr (RequestIDFrom r))] @ omitempty ''transaction_id'' txnID))"

text \<open>\<open>if err != nil { writeError(w, r, err, ""); return }\<close> after every step of a handler. When a handler panics
  the server closes the connection without a response.\<close>

definition aborted :: response where "aborted = \<lparr>rs_status = 0, rs_headers = [], rs_body = NoPayload\<rparr>"

definition replies :: "request \<Rightarrow> ('w, response) go \<Rightarrow> 'w \<Rightarrow> response \<times> 'w" where
  "replies r m w =
     (case m w of
        (Inr resp, w') \<Rightarrow> (resp, w')
      | (Inl e, w') \<Rightarrow> (case root e of ErrPanic _ \<Rightarrow> aborted | _ \<Rightarrow> writeError r e [], w'))"

section \<open>Bearer tokens, keys and identifiers\<close>

definition writeAuthError :: "request \<Rightarrow> response" where
  "writeAuthError r = writeJSON 401 (JObj [(''code'', JStr ''UNAUTHENTICATED''), (''message'', JStr ''Authentication required.''),
     (''request_id'', JStr (RequestIDFrom r))])"

definition bearer_token :: "string \<Rightarrow> string option" where
  "bearer_token header =
     (if HasPrefix header ''Bearer '' then
        (let token = TrimSpace (TrimPrefix header ''Bearer '') in if token = [] then None else Some token)
      else None)"

definition Auth_middleware :: "(string \<Rightarrow> ('w, user_row) go) \<Rightarrow> 'w handler \<Rightarrow> 'w handler" where
  "Auth_middleware authenticate next r w =
     (case bearer_token (rq_header r ''Authorization'') of
        None \<Rightarrow> (writeAuthError r, w)
      | Some token \<Rightarrow>
          (case authenticate token w of
             (Inl e, w') \<Rightarrow> (writeAuthError r, w')
           | (Inr user, w') \<Rightarrow> next (r\<lparr>rq_user := Some user, rq_token := Some token\<rparr>) w'))"

definition Idempotency :: "'w handler \<Rightarrow> 'w handler" where
  "Idempotency next r = next (r\<lparr>rq_idem := Some (TrimSpace (rq_header r ''Idempotency-Key''))\<rparr>)"

text \<open>\<open>RequestID\<close>, with the twelve random bytes of \<open>newRequestID\<close> as an argument.\<close>

definition newRequestID :: "byte list \<Rightarrow> string" where "newRequestID b = hex_EncodeToString b"

definition RequestID :: "byte list \<Rightarrow> 'w handler \<Rightarrow> 'w handler" where
  "RequestID random next r w =
     (let id = (if rq_header r ''X-Request-ID'' = [] then newRequestID random else rq_header r ''X-Request-ID'') in
      case next (r\<lparr>rq_id := Some id\<rparr>) w of (resp, w') \<Rightarrow> (resp\<lparr>rs_headers := (''X-Request-ID'', id) # rs_headers resp\<rparr>, w'))"

section \<open>Origins\<close>

definition origin_wildcard :: "string list \<Rightarrow> bool" where
  "origin_wildcard origins \<longleftrightarrow> origins = [] \<or> (\<exists>o'\<in>set origins. EqualFold (TrimSpace o') ''*'')"

definition origin_allowed :: "string list \<Rightarrow> string \<Rightarrow> bool" where
  "origin_allowed origins s \<longleftrightarrow>
     s \<in> set (filter (\<lambda>o'. \<not> EqualFold o' ''*'' \<and> o' \<noteq> []) (map TrimSpace origins))"

definition Origin :: "string list \<Rightarrow> 'w handler \<Rightarrow> 'w handler" where
  "Origin origins next r w =
     (let wildcard = origin_wildcard origins;
          header = rq_header r ''Origin'';
          origin = (if header \<noteq> [] \<and> \<not> wildcard \<and> origin_allowed origins header then header
                    else if header \<noteq> [] \<and> wildcard then header else ''*'')
      in if rq_method r = ''OPTIONS''
         then (\<lparr>rs_status = 204, rs_headers =
                 [(''Access-Control-Allow-Methods'', ''GET, POST, PUT, PATCH, DELETE, OPTIONS''),
                  (''Access-Control-Allow-Headers'', ''Content-Type, Authorization, Idempotency-Key, x-access-token, Cache-Control''),
                  (''Access-Control-Max-Age'', ''86400'')]
                 @ (if wildcard \<or> origin_allowed origins header then [(''Access-Control-Allow-Origin'', origin)] else [])
                 @ [(''Vary'', ''Origin'')],
                 rs_body = NoPayload\<rparr>, w)
         else (case next r w of (resp, w') \<Rightarrow>
                 (resp\<lparr>rs_headers := (if header \<noteq> [] \<and> (wildcard \<or> origin_allowed origins header)
                    then [(''Access-Control-Allow-Origin'', origin), (''Vary'', ''Origin'')] else []) @ rs_headers resp\<rparr>, w')))"

section \<open>Rate limits\<close>

record tokenBucket =
  tb_tokens :: int
  tb_lastUpdate :: time

record rateLimiter =
  rl_interval :: time
  rl_burst :: int
  rl_tokens :: "string \<rightharpoonup> tokenBucket"

record RateLimits =
  AuthBurst :: int
  MoneyBurst :: int

definition Normalized :: "RateLimits \<Rightarrow> RateLimits" where
  "Normalized l =
     (let l = (if AuthBurst l \<le> 0 then l\<lparr>AuthBurst := 5\<rparr> else l)
      in if MoneyBurst l \<le> 0 then l\<lparr>MoneyBurst := 20\<rparr> else l)"

definition NewRateLimiter :: "time \<Rightarrow> int \<Rightarrow> rateLimiter" where
  "NewRateLimiter interval burst = \<lparr>rl_interval = interval, rl_burst = burst, rl_tokens = Map.empty\<rparr>"

text \<open>\<open>refill\<close>, then \<open>allow\<close> at time \<open>now\<close>; the interval is positive wherever a limiter is made.\<close>

definition refilled :: "time \<Rightarrow> int \<Rightarrow> time \<Rightarrow> tokenBucket \<Rightarrow> tokenBucket" where
  "refilled interval burst now b =
     (let refill = (now - tb_lastUpdate b) sdiv interval in
      if refill > 0
      then \<lparr>tb_tokens = min (wrap64 (tb_tokens b + refill)) burst, tb_lastUpdate = tb_lastUpdate b + refill * interval\<rparr>
      else b)"

definition allow :: "string \<Rightarrow> time \<Rightarrow> rateLimiter \<Rightarrow> bool \<times> rateLimiter" where
  "allow key now rl =
     (let bucket = (case rl_tokens rl key of None \<Rightarrow> \<lparr>tb_tokens = rl_burst rl, tb_lastUpdate = now\<rparr> | Some b \<Rightarrow> b);
          b = refilled (rl_interval rl) (rl_burst rl) now bucket
      in if tb_tokens b > 0
         then (True, rl\<lparr>rl_tokens := (rl_tokens rl)(key \<mapsto> \<lparr>tb_tokens = tb_tokens b - 1, tb_lastUpdate = now\<rparr>)\<rparr>)
         else (False, rl\<lparr>rl_tokens := (rl_tokens rl)(key \<mapsto> b)\<rparr>))"

text \<open>The key of a client: the address without its last colon part when \<open>keyFunc\<close> finds none; \<open>clientIPKey\<close> is
  \<open>net.SplitHostPort\<close> for addresses of the forms \<open>host:port\<close> and \<open>[host]:port\<close>.\<close>

definition before_last_colon :: "string \<Rightarrow> string option" where
  "before_last_colon s =
     (if CHR '':'' \<in> set s then Some (rev (tl (dropWhile (\<lambda>c. c \<noteq> CHR '':'') (rev s)))) else None)"

definition clientIPKey :: "request \<Rightarrow> string" where
  "clientIPKey r =
     (case before_last_colon (rq_remote r) of
        None \<Rightarrow> rq_remote r
      | Some host \<Rightarrow>
          if host \<noteq> [] \<and> hd host = CHR ''['' then
            (if last host = CHR '']'' \<and> CHR ''['' \<notin> set (tl (rq_remote r)) \<and> CHR '']'' \<notin> set (butlast (tl host))
               \<and> CHR '']'' \<notin> set (drop (length host) (rq_remote r))
             then butlast (tl host) else rq_remote r)
          else if CHR '':'' \<in> set host \<or> CHR ''['' \<in> set (rq_remote r) \<or> CHR '']'' \<in> set (rq_remote r) then rq_remote r
          else host)"

definition client_key :: "(request \<Rightarrow> string) \<Rightarrow> request \<Rightarrow> string" where
  "client_key keyFunc r =
     (if keyFunc r = [] then
        (let k = TrimSpace (rq_remote r) in case before_last_colon k of Some host \<Rightarrow> host | None \<Rightarrow> k)
      else keyFunc r)"

text \<open>\<open>http.Error\<close>, and the limiter in front of a handler; its state is beside the world.\<close>

definition http_Error :: "string \<Rightarrow> nat \<Rightarrow> response" where
  "http_Error msg code =
     \<lparr>rs_status = code, rs_headers = [(''Content-Type'', ''text/plain; charset=utf-8''), (''X-Content-Type-Options'', ''nosniff'')],
      rs_body = Plain (msg @ [char_of (10 :: nat)])\<rparr>"

definition RateLimiter :: "(request \<Rightarrow> string) \<Rightarrow> 'z world_scheme handler \<Rightarrow> (rateLimiter \<times> 'z world_scheme) handler" where
  "RateLimiter keyFunc next r s =
     (case s of (rl, w) \<Rightarrow>
        (case allow (client_key keyFunc r) (clock w) rl of
           (ok, rl') \<Rightarrow>
             if ok then (case next r w of (resp, w') \<Rightarrow> (resp, (rl', w')))
             else (http_Error ''Too many requests. Please retry later.'' 429, (rl', w))))"

end
