(* ===== verification/Limits.thy ===== *)
theory Limits
  imports Http
begin

text \<open>
  What the rate limiter promises. Requests are pairs of a time and a client key; \<open>allows\<close> runs a limiter over a
  sequence of them and returns the decisions.
\<close>

fun allows :: "(time \<times> string) list \<Rightarrow> rateLimiter \<Rightarrow> bool list \<times> rateLimiter" where
  "allows [] rl = ([], rl)"
| "allows ((t, k) # qs) rl =
     (case allow k t rl of (ok, rl1) \<Rightarrow> case allows qs rl1 of (oks, rl2) \<Rightarrow> (ok # oks, rl2))"

text \<open>The number of requests of a key that were let through.\<close>

definition passed :: "string \<Rightarrow> (time \<times> string) list \<Rightarrow> bool list \<Rightarrow> int" where
  "passed k qs oks = int (length (filter (\<lambda>((t, k'), ok). k' = k \<and> ok) (zip qs oks)))"

definition ordered_from :: "time \<Rightarrow> (time \<times> string) list \<Rightarrow> bool" where
  "ordered_from t qs \<longleftrightarrow> sorted (t # map fst qs)"

lemma ordered_simps [simp]:
  "ordered_from t []" "ordered_from t ((t', k) # qs) \<longleftrightarrow> t \<le> t' \<and> ordered_from t' qs"
  by (auto simp: ordered_from_def intro: order_trans)

lemma ordered_append: "ordered_from t (qs @ qs') \<Longrightarrow> ordered_from t qs \<and> ordered_from t qs'"
  by (auto simp: ordered_from_def sorted_append)

section \<open>One bucket\<close>

text \<open>A bucket is in order at time \<open>t\<close> when it has between no and \<open>burst\<close> tokens and was last updated between the
  start \<open>t0\<close> of the history and \<open>t\<close>.\<close>

definition bucket_ok :: "time \<Rightarrow> time \<Rightarrow> int \<Rightarrow> tokenBucket \<Rightarrow> bool" where
  "bucket_ok t0 t burst b \<longleftrightarrow> 0 \<le> tb_tokens b \<and> tb_tokens b \<le> burst \<and> t0 \<le> tb_lastUpdate b \<and> tb_lastUpdate b \<le> t"

text \<open>The credit of a bucket until \<open>T\<close>: its tokens and the intervals that will have passed by then.\<close>

definition credit :: "time \<Rightarrow> time \<Rightarrow> tokenBucket \<Rightarrow> int" where
  "credit I T b = tb_tokens b + (T - tb_lastUpdate b) div I"

lemma refilled_cases:
  assumes "0 < I" and "burst \<le> 2 ^ 61" and "bucket_ok t0 t burst b" and "t \<le> now" and "now - t0 \<le> 2 ^ 62"
  obtains n where "0 \<le> n" and "n * I \<le> now - tb_lastUpdate b" and "now - tb_lastUpdate b < n * I + I"
    and "refilled I burst now b =
      \<lparr>tb_tokens = min (tb_tokens b + n) burst, tb_lastUpdate = tb_lastUpdate b + n * I\<rparr>"
proof
  let ?e = "now - tb_lastUpdate b"
  let ?n = "?e div I"
  have e: "0 \<le> ?e" "?e \<le> 2 ^ 62" using assms(3,4,5) by (simp_all add: bucket_ok_def)
  then show n: "0 \<le> ?n" using assms(1) by (simp add: pos_imp_zdiv_nonneg_iff)
  have "?e mod I = ?e - ?n * I" by (simp add: minus_div_mult_eq_mod)
  then show "?n * I \<le> ?e" "?e < ?n * I + I" using pos_mod_sign [OF assms(1), of ?e] pos_mod_bound [OF assms(1), of ?e] by simp_all
  moreover have "?n * 1 \<le> ?n * I" using n assms(1) by (intro mult_left_mono) simp_all
  ultimately have "?n \<le> ?e" by simp
  then have "in64 (tb_tokens b + ?n)" using e n assms(2,3) by (simp add: bucket_ok_def int64_bounds)
  moreover have "?e sdiv I = ?n" by (rule sdiv_nonneg [OF e(1) assms(1)])
  ultimately show "refilled I burst now b =
      \<lparr>tb_tokens = min (tb_tokens b + ?n) burst, tb_lastUpdate = tb_lastUpdate b + ?n * I\<rparr>"
    using n assms(3) by (auto simp: refilled_def Let_def wrap64_id bucket_ok_def)
qed

lemma refilled_ok:
  assumes "0 < I" and "burst \<le> 2 ^ 61" and "bucket_ok t0 t burst b" and "t \<le> now" and "now - t0 \<le> 2 ^ 62"
  defines "b' \<equiv> refilled I burst now b"
  shows "bucket_ok t0 now burst b'" and "credit I T b' \<le> credit I T b" and "now - tb_lastUpdate b' < I"
    and "1 \<le> burst \<Longrightarrow> I \<le> now - tb_lastUpdate b \<Longrightarrow> 0 < tb_tokens b'"
proof -
  obtain n where n: "0 \<le> n" "n * I \<le> now - tb_lastUpdate b" "now - tb_lastUpdate b < n * I + I"
    and b': "b' = \<lparr>tb_tokens = min (tb_tokens b + n) burst, tb_lastUpdate = tb_lastUpdate b + n * I\<rparr>"
    using refilled_cases [OF assms(1-5)] unfolding b'_def by blast
  have "0 \<le> n * I" using n(1) assms(1) by simp
  then have "t0 \<le> tb_lastUpdate b + n * I" using assms(3) unfolding bucket_ok_def by linarith
  then show "bucket_ok t0 now burst b'" "now - tb_lastUpdate b' < I" using n assms(2,3) by (auto simp: b' bucket_ok_def)
  have "(T - (tb_lastUpdate b + n * I)) div I = (T - tb_lastUpdate b) div I - n"
    using div_mult_self1 [of I "T - tb_lastUpdate b" "- n"] assms(1) by (simp add: algebra_simps)
  then show "credit I T b' \<le> credit I T b" by (simp add: b' credit_def)
  show "0 < tb_tokens b'" if "1 \<le> burst" "I \<le> now - tb_lastUpdate b"
  proof -
    have "n \<noteq> 0" using n(3) that(2) by auto
    then show ?thesis using n(1) that(1) assms(3) by (simp add: b' bucket_ok_def)
  qed
qed

text \<open>A decision of the limiter, for the client it is about and for the others.\<close>

definition limiter_ok :: "time \<Rightarrow> time \<Rightarrow> rateLimiter \<Rightarrow> bool" where
  "limiter_ok t0 t rl \<longleftrightarrow> 0 < rl_interval rl \<and> 1 \<le> rl_burst rl \<and> rl_burst rl \<le> 2 ^ 61
     \<and> (\<forall>k b. rl_tokens rl k = Some b \<longrightarrow> bucket_ok t0 t (rl_burst rl) b)"

definition bucket_of :: "string \<Rightarrow> time \<Rightarrow> rateLimiter \<Rightarrow> tokenBucket" where
  "bucket_of k now rl = (case rl_tokens rl k of None \<Rightarrow> \<lparr>tb_tokens = rl_burst rl, tb_lastUpdate = now\<rparr> | Some b \<Rightarrow> b)"

lemma allow_step:
  assumes "limiter_ok t0 t rl" and "t \<le> now" and "t0 \<le> t" and "now - t0 \<le> 2 ^ 62" and "allow k now rl = (ok, rl')"
  obtains b where "bucket_ok t0 now (rl_burst rl) b" and "ok \<longleftrightarrow> 0 < tb_tokens b"
    and "\<And>T. credit (rl_interval rl) T b \<le> credit (rl_interval rl) T (bucket_of k now rl)"
    and "now - tb_lastUpdate b < rl_interval rl"
    and "rl_interval rl \<le> now - tb_lastUpdate (bucket_of k now rl) \<Longrightarrow> ok"
    and "rl' = rl\<lparr>rl_tokens := (rl_tokens rl)(k \<mapsto> if ok then \<lparr>tb_tokens = tb_tokens b - 1, tb_lastUpdate = now\<rparr> else b)\<rparr>"
    and "limiter_ok t0 now rl'"
proof
  let ?b = "refilled (rl_interval rl) (rl_burst rl) now (bucket_of k now rl)"
  have I: "0 < rl_interval rl" "1 \<le> rl_burst rl" "rl_burst rl \<le> 2 ^ 61" using assms(1) by (simp_all add: limiter_ok_def)
  have old: "bucket_ok t0 now (rl_burst rl) (bucket_of k now rl)"
    using assms(1,2,3) I unfolding limiter_ok_def bucket_of_def bucket_ok_def
    by (cases "rl_tokens rl k") (auto intro: order_trans)
  note r = refilled_ok [OF I(1,3) old order_refl assms(4)]
  show b: "bucket_ok t0 now (rl_burst rl) ?b" by (rule r(1))
  show ok: "ok \<longleftrightarrow> 0 < tb_tokens ?b"
    and rl': "rl' = rl\<lparr>rl_tokens := (rl_tokens rl)(k \<mapsto> if ok then \<lparr>tb_tokens = tb_tokens ?b - 1, tb_lastUpdate = now\<rparr> else ?b)\<rparr>"
    using assms(5) by (auto simp: allow_def bucket_of_def Let_def split: if_splits)
  show "credit (rl_interval rl) T ?b \<le> credit (rl_interval rl) T (bucket_of k now rl)" for T by (rule r(2))
  show "now - tb_lastUpdate ?b < rl_interval rl" by (rule r(3))
  show "rl_interval rl \<le> now - tb_lastUpdate (bucket_of k now rl) \<Longrightarrow> ok" using r(4) I(2) ok by simp
  show "limiter_ok t0 now rl'"
    using assms(1,2,3) b ok unfolding limiter_ok_def rl' bucket_ok_def by (auto split: if_splits intro: order_trans)
qed

section \<open>Sequences of requests\<close>

lemma passed_simps [simp]:
  "passed k [] oks = 0" "passed k ((t, k') # qs) (ok # oks) = (if k' = k \<and> ok then 1 else 0) + passed k qs oks"
  by (simp_all add: passed_def)

lemma passed_credit:
  assumes "allows qs rl = (oks, rl')" and "limiter_ok t0 t rl" and "t0 \<le> t" and "ordered_from t qs"
    and "\<forall>(t, k)\<in>set qs. t \<le> T" and "T - t0 \<le> 2 ^ 62" and "rl_tokens rl k = Some b" and "t \<le> T"
  shows "passed k qs oks \<le> credit (rl_interval rl) T b"
  using assms
proof (induction qs arbitrary: rl oks t b)
  case Nil
  then have b: "0 \<le> tb_tokens b" "tb_lastUpdate b \<le> T" "0 < rl_interval rl" by (auto simp: limiter_ok_def bucket_ok_def intro: order_trans)
  then have "0 \<le> (T - tb_lastUpdate b) div rl_interval rl" by (simp add: pos_imp_zdiv_nonneg_iff)
  then show ?case using b(1) by (simp add: credit_def)
next
  case (Cons q qs)
  obtain now k' where q: "q = (now, k')" by (cases q)
  obtain ok rl1 where a: "allow k' now rl = (ok, rl1)" by (cases "allow k' now rl")
  obtain oks' where rest: "allows qs rl1 = (oks', rl')" and oks: "oks = ok # oks'"
    using Cons.prems(1) by (auto simp: q a split: prod.splits)
  have time: "t \<le> now" "now \<le> T" "now - t0 \<le> 2 ^ 62" "t0 \<le> now" "ordered_from now qs" "\<forall>(t, k)\<in>set qs. t \<le> T"
    using Cons.prems by (auto simp: q)
  from allow_step [OF Cons.prems(2) time(1) Cons.prems(3) time(3) a] obtain b1 where
    b1: "ok \<longleftrightarrow> 0 < tb_tokens b1" "\<And>T. credit (rl_interval rl) T b1 \<le> credit (rl_interval rl) T (bucket_of k' now rl)"
      "rl1 = rl\<lparr>rl_tokens := (rl_tokens rl)(k' \<mapsto> if ok then \<lparr>tb_tokens = tb_tokens b1 - 1, tb_lastUpdate = now\<rparr> else b1)\<rparr>"
      "limiter_ok t0 now rl1" "bucket_ok t0 now (rl_burst rl) b1" by blast
  note IH = Cons.IH [OF rest b1(4) time(4,5,6) Cons.prems(6) _ time(2)]
  show ?case
  proof (cases "k' = k")
    case False
    then show ?thesis using IH [of b] Cons.prems(7) b1(3) by (simp add: q oks)
  next
    case True
    then have "bucket_of k' now rl = b" using Cons.prems(7) by (simp add: bucket_of_def)
    then have c: "credit (rl_interval rl) T b1 \<le> credit (rl_interval rl) T b" using b1(2) by metis
    have "(T - now) div rl_interval rl \<le> (T - tb_lastUpdate b1) div rl_interval rl"
      using b1(5) Cons.prems(2) by (intro zdiv_mono1) (auto simp: bucket_ok_def limiter_ok_def)
    then show ?thesis using IH True c b1(3) by (cases ok) (auto simp: q oks credit_def)
  qed
qed

lemma passed_window:
  assumes "allows qs rl = (oks, rl')" and "limiter_ok t0 t rl" and "t0 \<le> t" and "ordered_from t qs"
    and "\<forall>(t, k)\<in>set qs. t \<le> T" and "T - t0 \<le> 2 ^ 62" and "t \<le> T"
  shows "passed k qs oks \<le> rl_burst rl + (T - t) div rl_interval rl"
  using assms
proof (induction qs arbitrary: rl oks t)
  case Nil
  then have "0 \<le> (T - t) div rl_interval rl" "1 \<le> rl_burst rl" by (simp_all add: limiter_ok_def pos_imp_zdiv_nonneg_iff)
  then show ?case by simp
next
  case (Cons q qs)
  obtain now k' where q: "q = (now, k')" by (cases q)
  obtain ok rl1 where a: "allow k' now rl = (ok, rl1)" by (cases "allow k' now rl")
  obtain oks' where rest: "allows qs rl1 = (oks', rl')" and oks: "oks = ok # oks'"
    using Cons.prems(1) by (auto simp: q a split: prod.splits)
  have time: "t \<le> now" "now \<le> T" "now - t0 \<le> 2 ^ 62" "t0 \<le> now" "ordered_from now qs" "\<forall>(t, k)\<in>set qs. t \<le> T"
    using Cons.prems by (auto simp: q)
  from allow_step [OF Cons.prems(2) time(1) Cons.prems(3) time(3) a] obtain b1 where
    b1: "bucket_ok t0 now (rl_burst rl) b1" "ok \<longleftrightarrow> 0 < tb_tokens b1" "now - tb_lastUpdate b1 < rl_interval rl"
      "rl1 = rl\<lparr>rl_tokens := (rl_tokens rl)(k' \<mapsto> if ok then \<lparr>tb_tokens = tb_tokens b1 - 1, tb_lastUpdate = now\<rparr> else b1)\<rparr>"
      "limiter_ok t0 now rl1" by blast
  have I: "0 < rl_interval rl" using Cons.prems(2) by (simp add: limiter_ok_def)
  have later: "(T - now) div rl_interval rl \<le> (T - t) div rl_interval rl"
    using time(1) I by (intro zdiv_mono1) simp_all
  show ?case
  proof (cases "k' = k")
    case False
    then show ?thesis
      using Cons.IH [OF rest b1(5) time(4,5,6) Cons.prems(6) time(2)] later by (simp add: q oks b1(4))
  next
    case True
    note c = passed_credit [OF rest b1(5) time(4,5,6) Cons.prems(6) _ time(2), of k]
    show ?thesis
    proof (cases ok)
      case ok: True
      then show ?thesis using c True b1(1,4) later by (auto simp: q oks credit_def bucket_ok_def)
    next
      case False
      have "T - tb_lastUpdate b1 \<le> (T - now) + rl_interval rl" using b1(3) by simp
      then have "(T - tb_lastUpdate b1) div rl_interval rl \<le> ((T - now) + rl_interval rl) div rl_interval rl"
        using I by (intro zdiv_mono1) simp_all
      also have "\<dots> = (T - now) div rl_interval rl + 1" using I div_add_self2 [of "rl_interval rl" "T - now"] by simp
      finally show ?thesis
        using c False True b1(1,2,4) later Cons.prems(2) by (auto simp: q oks credit_def bucket_ok_def limiter_ok_def)
    qed
  qed
qed

lemma allows_append:
  "allows (qs @ qs') rl = (case allows qs rl of (oks, rl1) \<Rightarrow> case allows qs' rl1 of (oks', rl2) \<Rightarrow> (oks @ oks', rl2))"
  by (induction qs arbitrary: rl) (auto split: prod.splits)

text \<open>What a history leaves: a limiter in order, with buckets not newer than the client's last request.\<close>

lemma allows_ok:
  assumes "allows qs rl = (oks, rl')" and "limiter_ok t0 t rl" and "t0 \<le> t" and "ordered_from t qs"
    and "\<forall>(t, k)\<in>set qs. t \<le> T" and "T - t0 \<le> 2 ^ 62" and "t \<le> T"
  shows "limiter_ok t0 T rl' \<and> length oks = length qs \<and> rl_interval rl' = rl_interval rl \<and> rl_burst rl' = rl_burst rl
    \<and> (\<forall>b. rl_tokens rl' k = Some b \<longrightarrow> rl_tokens rl k = Some b \<or> (\<exists>t. (t, k) \<in> set qs \<and> tb_lastUpdate b \<le> t))"
  using assms
proof (induction qs arbitrary: rl oks t)
  case Nil
  then show ?case by (auto simp: limiter_ok_def bucket_ok_def intro: order_trans)
next
  case (Cons q qs)
  obtain now k' where q: "q = (now, k')" by (cases q)
  obtain ok rl1 where a: "allow k' now rl = (ok, rl1)" by (cases "allow k' now rl")
  obtain oks' where rest: "allows qs rl1 = (oks', rl')" and oks: "oks = ok # oks'"
    using Cons.prems(1) by (auto simp: q a split: prod.splits)
  have time: "t \<le> now" "now \<le> T" "now - t0 \<le> 2 ^ 62" "t0 \<le> now" "ordered_from now qs" "\<forall>(t, k)\<in>set qs. t \<le> T"
    using Cons.prems by (auto simp: q)
  from allow_step [OF Cons.prems(2) time(1) Cons.prems(3) time(3) a] obtain b1 where
    b1: "bucket_ok t0 now (rl_burst rl) b1"
      "rl1 = rl\<lparr>rl_tokens := (rl_tokens rl)(k' \<mapsto> if ok then \<lparr>tb_tokens = tb_tokens b1 - 1, tb_lastUpdate = now\<rparr> else b1)\<rparr>"
      "limiter_ok t0 now rl1" by blast
  have new: "tb_lastUpdate b \<le> now" if "rl_tokens rl1 k' = Some b" for b
    using that b1(1) by (auto simp: b1(2) bucket_ok_def split: if_splits)
  have "rl_interval rl1 = rl_interval rl" "rl_burst rl1 = rl_burst rl" "k \<noteq> k' \<Longrightarrow> rl_tokens rl1 k = rl_tokens rl k"
    by (simp_all add: b1(2))
  then show ?case
    using Cons.IH [OF rest b1(3) time(4,5,6) Cons.prems(6) time(2)] new oks by (cases "k = k'") (auto simp: q)
qed

lemma window_bounded:
  assumes "0 < interval" and "1 \<le> burst" and "burst \<le> 2 ^ 61"
    and "allows (before @ window) (NewRateLimiter interval burst) = (oks, rl)"
    and "ordered_from t0 (before @ window)" and "\<forall>(t, k')\<in>set (before @ window). t \<le> now" and "t0 \<le> now" and "now - t0 \<le> 2 ^ 62"
    and "\<forall>(t, k')\<in>set window. s \<le> t \<and> t \<le> s + d" and "0 \<le> d"
  shows "passed k window (drop (length before) oks) \<le> burst + d div interval"
proof -
  let ?new = "NewRateLimiter interval burst"
  have new: "limiter_ok t0 t ?new" "rl_interval ?new = interval" "rl_burst ?new = burst" "rl_tokens ?new = Map.empty" for t
    using assms(1-3) by (simp_all add: limiter_ok_def NewRateLimiter_def)
  obtain oks1 rl1 oks2 where b: "allows before ?new = (oks1, rl1)" and w: "allows window rl1 = (oks2, rl)" and oks: "oks = oks1 @ oks2"
    using assms(4) by (auto simp: allows_append split: prod.splits)
  have ordered: "ordered_from t0 before" "ordered_from t0 window" using ordered_append [OF assms(5)] by simp_all
  show ?thesis
  proof (cases window)
    case Nil
    then show ?thesis using assms(1,2,10) by (simp add: pos_imp_zdiv_nonneg_iff)
  next
    case (Cons q rest)
    obtain t1 k1 where q: "q = (t1, k1)" by (cases q)
    let ?T = "min (s + d) now"
    have t1: "t0 \<le> t1" "s \<le> t1" "t1 \<le> ?T" "ordered_from t1 window" "t1 - t0 \<le> 2 ^ 62" "?T - t0 \<le> 2 ^ 62"
      using ordered(2) assms(6,8,9) by (auto simp: Cons q)
    have "\<forall>(t, k)\<in>set before. t \<le> t1"
      using assms(5) by (auto simp: ordered_from_def sorted_append Cons q)
    note h = allows_ok [OF b new(1) order_refl ordered(1) this t1(5,1)]
    then have rl1: "limiter_ok t0 t1 rl1" "length oks1 = length before" "rl_interval rl1 = interval" "rl_burst rl1 = burst"
      by (simp_all add: new)
    have "\<forall>(t, k)\<in>set window. t \<le> ?T" using assms(6,9) by auto
    from passed_window [OF w rl1(1) t1(1,4) this t1(6,3), of k]
    have "passed k window oks2 \<le> burst + (?T - t1) div interval" by (simp add: rl1)
    also have "(?T - t1) div interval \<le> d div interval" using t1(2) assms(1) by (intro zdiv_mono1) simp_all
    finally show ?thesis by (simp add: oks rl1(2))
  qed
qed

lemma never_starved:
  assumes "0 < interval" and "1 \<le> burst" and "burst \<le> 2 ^ 61"
    and "allows (before @ window) (NewRateLimiter interval burst) = (oks, rl)"
    and "ordered_from t0 (before @ window)" and "\<forall>(t, k')\<in>set (before @ window). t \<le> now" and "t0 \<le> now" and "now - t0 \<le> 2 ^ 62"
    and quiet: "\<forall>(t, k')\<in>set (before @ window). k' = k \<longrightarrow> t + interval \<le> now"
  shows "fst (allow k now rl)"
proof -
  let ?new = "NewRateLimiter interval burst"
  have new: "limiter_ok t0 t ?new" "rl_interval ?new = interval" "rl_burst ?new = burst" "rl_tokens ?new = Map.empty" for t
    using assms(1-3) by (simp_all add: limiter_ok_def NewRateLimiter_def)
  have h: "limiter_ok t0 now rl" "rl_interval rl = interval"
    "\<And>b. rl_tokens rl k = Some b \<Longrightarrow> \<exists>t. (t, k) \<in> set (before @ window) \<and> tb_lastUpdate b \<le> t"
    using allows_ok [OF assms(4) new(1) order_refl assms(5,6,8,7), of k] by (auto simp: new)
  obtain ok rl' where a: "allow k now rl = (ok, rl')" by (cases "allow k now rl")
  have b1: "ok" if "interval \<le> now - tb_lastUpdate (bucket_of k now rl)"
    by (rule allow_step [OF h(1) order_refl assms(7,8) a]) (use h(2) that in simp)
  show ?thesis
  proof (cases "rl_tokens rl k")
    case None
    then show ?thesis using h(1) by (simp add: allow_def refilled_def limiter_ok_def Let_def)
  next
    case (Some b)
    then have "interval \<le> now - tb_lastUpdate b" using h(3) [OF Some] quiet by fastforce
    then show ?thesis using b1 Some a by (simp add: bucket_of_def)
  qed
qed

text \<open>C32. The rate limiter bounds every client and starves none: after any history of requests of any clients, in
  every window of length \<open>d\<close> a client gets at most \<open>burst\<close> requests and one for each whole interval of the window
  through, and a request that comes at least one interval after the client's previous one is let through, whatever
  the other clients do. Times are monotonic and span at most 146 years, the burst is at least one.\<close>

theorem rate_limited:
  assumes "0 < interval" and "1 \<le> burst" and "burst \<le> 2 ^ 61"
    and "allows (before @ window) (NewRateLimiter interval burst) = (oks, rl)"
    and "ordered_from t0 (before @ window)" and "\<forall>(t, k')\<in>set (before @ window). t \<le> now" and "t0 \<le> now" and "now - t0 \<le> 2 ^ 62"
    and "\<forall>(t, k')\<in>set window. s \<le> t \<and> t \<le> s + d" and "0 \<le> d"
  shows "passed k window (drop (length before) oks) \<le> burst + d div interval
    \<and> ((\<forall>(t, k')\<in>set (before @ window). k' = k \<longrightarrow> t + interval \<le> now) \<longrightarrow> fst (allow k now rl))"
  using window_bounded [OF assms] never_starved [OF assms(1-8)] by blast

theorem rate_limited_witness:
  "passed ''a'' [(0, ''a''), (0, ''a''), (1, ''a''), (second, ''b''), (second, ''a'')] [True, True, False, True, True] \<le> 2 + second div second"
proof -
  let ?qs = "[(0, ''a''), (0, ''a''), (1, ''a''), (second, ''b''), (second, ''a'')]"
  have "fst (allows ([] @ ?qs) (NewRateLimiter second 2)) = [True, True, False, True, True]"
    by (simp add: NewRateLimiter_def allow_def refilled_def second_def wrap64_def Let_def sdiv_nonneg)
  then obtain rl where "allows ([] @ ?qs) (NewRateLimiter second 2) = ([True, True, False, True, True], rl)"
    by (metis prod.collapse)
  from rate_limited [OF _ _ _ this, of 0 second 0 second "''a''", THEN conjunct1]
  show ?thesis by (simp add: second_def)
qed

end
