(* ===== verification/EventHub.thy ===== *)
theory EventHub
  imports World "HOL-Library.Multiset"
begin

text \<open>
  The change-notification hub (\<open>src/backend/internal/events/hub.go\<close>). A channel is a number, its buffer a queue of
  at most \<open>subBuffer\<close> events. \<open>Publish\<close> copies the channels of the user under the lock and sends to them after it,
  so that other operations can come in between: in the step relation \<open>hub_step\<close> the sends of a publication are
  pending and happen one by one, in any order, between the other operations. The text of the time of an event is
  left out.
\<close>

section \<open>Operations\<close>

definition subBuffer :: nat where "subBuffer = 32"

record Subscription =
  sub_id :: "64 word"
  sub_Ch :: nat

record hub =
  hb_next :: "64 word"
  hb_subs :: "string \<Rightarrow> (64 word \<times> nat) list"
  hb_chans :: "nat \<Rightarrow> Event list"
  hb_made :: nat

definition NewHub :: hub where
  "NewHub = \<lparr>hb_next = 0, hb_subs = (\<lambda>_. []), hb_chans = (\<lambda>_. []), hb_made = 0\<rparr>"

definition Subscribe :: "string \<Rightarrow> hub \<Rightarrow> Subscription \<times> hub" where
  "Subscribe userID h =
     (let id = hb_next h + 1; ch = hb_made h;
          m = filter (\<lambda>(i, _). i \<noteq> id) (hb_subs h userID) @ [(id, ch)]
      in (\<lparr>sub_id = id, sub_Ch = ch\<rparr>,
          h\<lparr>hb_next := id, hb_made := Suc ch, hb_chans := (hb_chans h)(ch := []), hb_subs := (hb_subs h)(userID := m)\<rparr>))"

definition Unsubscribe :: "string \<Rightarrow> Subscription option \<Rightarrow> hub \<Rightarrow> hub" where
  "Unsubscribe userID s h =
     (case s of
        None \<Rightarrow> h
      | Some s \<Rightarrow> h\<lparr>hb_subs := (hb_subs h)(userID := filter (\<lambda>(i, _). i \<noteq> sub_id s) (hb_subs h userID))\<rparr>)"

text \<open>The two halves of \<open>Publish\<close>: the channels copied under the lock, and \<open>select { case ch <- e: default: }\<close>.\<close>

definition targets :: "Event \<Rightarrow> hub \<Rightarrow> nat list" where
  "targets e h = map snd (hb_subs h (ev_UserID e))"

definition send :: "nat \<Rightarrow> Event \<Rightarrow> hub \<Rightarrow> hub" where
  "send ch e h =
     (if length (hb_chans h ch) < subBuffer then h\<lparr>hb_chans := (hb_chans h)(ch := hb_chans h ch @ [e])\<rparr> else h)"

definition Publish :: "Event \<Rightarrow> hub \<Rightarrow> hub" where
  "Publish e h = fold (\<lambda>ch. send ch e) (targets e h) h"

section \<open>Interleavings\<close>

datatype hub_act =
    Subscribed string Subscription
  | Unsubscribed string "Subscription option"
  | Published Event
  | Sent nat Event
  | Received nat Event

inductive hub_step :: "hub \<times> (nat \<times> Event) multiset \<Rightarrow> hub_act \<Rightarrow> hub \<times> (nat \<times> Event) multiset \<Rightarrow> bool" where
  subscribe: "Subscribe u h = (s, h') \<Longrightarrow> hub_step (h, p) (Subscribed u s) (h', p)"
| unsubscribe: "hub_step (h, p) (Unsubscribed u s) (Unsubscribe u s h, p)"
| publish: "hub_step (h, p) (Published e) (h, p + mset (map (\<lambda>ch. (ch, e)) (targets e h)))"
| deliver: "(ch, e) \<in># p \<Longrightarrow> hub_step (h, p) (Sent ch e) (send ch e h, p - {#(ch, e)#})"
| receive: "hb_chans h ch = e # es \<Longrightarrow> hub_step (h, p) (Received ch e) (h\<lparr>hb_chans := (hb_chans h)(ch := es)\<rparr>, p)"

inductive_cases hub_stepE: "hub_step (h, p) a (h', p')"

inductive hub_run :: "hub_act list \<Rightarrow> hub \<times> (nat \<times> Event) multiset \<Rightarrow> bool" where
  start: "hub_run [] (NewHub, {#})"
| step: "hub_run as s \<Longrightarrow> hub_step s a s' \<Longrightarrow> hub_run (as @ [a]) s'"

section \<open>What subscribers receive\<close>

text \<open>The user a channel was made for.\<close>

definition owner :: "hub_act list \<Rightarrow> nat \<Rightarrow> string \<Rightarrow> bool" where
  "owner as ch u \<longleftrightarrow> (\<exists>s. Subscribed u s \<in> set as \<and> sub_Ch s = ch)"

lemma owner_snoc: "owner (as @ [a]) ch u \<longleftrightarrow> owner as ch u \<or> (\<exists>s. a = Subscribed u s \<and> sub_Ch s = ch)"
  by (auto simp: owner_def)

definition hub_ok :: "hub_act list \<Rightarrow> hub \<Rightarrow> (nat \<times> Event) multiset \<Rightarrow> bool" where
  "hub_ok as h p \<longleftrightarrow>
     (\<forall>ch u. owner as ch u \<longrightarrow> ch < hb_made h \<and> (\<forall>v. owner as ch v \<longrightarrow> v = u))
   \<and> (\<forall>u. distinct (map snd (hb_subs h u)) \<and> (\<forall>ch\<in>snd ` set (hb_subs h u). owner as ch u))
   \<and> (\<forall>ch. length (hb_chans h ch) \<le> subBuffer \<and> (\<forall>e\<in>set (hb_chans h ch). owner as ch (ev_UserID e)))
   \<and> (\<forall>(ch, e)\<in>set_mset p. owner as ch (ev_UserID e))
   \<and> (\<forall>ch e. Received ch e \<in> set as \<longrightarrow> owner as ch (ev_UserID e))"

lemma hub_okD:
  assumes "hub_ok as h p"
  shows "owner as ch u \<Longrightarrow> ch < hb_made h" and "owner as ch u \<Longrightarrow> owner as ch v \<Longrightarrow> v = u"
    and "(i, ch) \<in> set (hb_subs h u) \<Longrightarrow> owner as ch u" and "(ch, e) \<in># p \<Longrightarrow> owner as ch (ev_UserID e)"
    and "Received ch e \<in> set as \<Longrightarrow> owner as ch (ev_UserID e)"
proof -
  note ok = assms [unfolded hub_ok_def]
  show "owner as ch u \<Longrightarrow> ch < hb_made h" "owner as ch u \<Longrightarrow> owner as ch v \<Longrightarrow> v = u" using ok by metis+
  show "(i, ch) \<in> set (hb_subs h u) \<Longrightarrow> owner as ch u" using ok by force
  show "(ch, e) \<in># p \<Longrightarrow> owner as ch (ev_UserID e)" using ok by blast
  show "Received ch e \<in> set as \<Longrightarrow> owner as ch (ev_UserID e)" using ok by metis
qed

lemma hub_ok_step:
  assumes "hub_ok as h p" and "hub_step (h, p) a (h', p')"
  shows "hub_ok (as @ [a]) h' p'"
  using assms(2)
proof cases
  case (subscribe u s)
  have new: "\<not> owner as (hb_made h) v" for v using hub_okD(1) [OF assms(1)] by blast
  note subs = hub_okD(3) [OF assms(1)]
  have s: "sub_Ch s = hb_made h" using subscribe by (auto simp: Subscribe_def Let_def)
  have "(i, hb_made h) \<notin> set (hb_subs h v)" for i v using subs new by blast
  then have "distinct (map snd (hb_subs h' v)) \<and> (\<forall>ch\<in>snd ` set (hb_subs h' v). owner (as @ [a]) ch v)" for v
    using assms(1) subscribe s
    by (auto simp: hub_ok_def Subscribe_def Let_def owner_snoc distinct_map_filter image_iff dest: subs split: if_splits)
  moreover have own: "owner (as @ [a]) ch v \<longleftrightarrow> owner as ch v \<or> ch = hb_made h \<and> v = u" for ch v
    using subscribe s by (auto simp: owner_snoc)
  moreover have "hb_made h' = Suc (hb_made h)" "hb_chans h' = (hb_chans h)(hb_made h := [])" "p' = p"
    and "Received ch e \<in> set (as @ [a]) \<longleftrightarrow> Received ch e \<in> set as" for ch e
    using subscribe by (auto simp: Subscribe_def Let_def)
  ultimately show ?thesis
    unfolding hub_ok_def own using assms(1) [unfolded hub_ok_def] new
    by (intro conjI allI impI ballI) (auto simp: less_SucI less_irrefl split: if_splits)
next
  case (unsubscribe u s)
  then show ?thesis using assms(1)
    by (auto simp: hub_ok_def owner_snoc Unsubscribe_def distinct_map_filter split: option.splits)
next
  case (publish e)
  then show ?thesis using assms(1) by (auto simp: hub_ok_def owner_snoc targets_def)
next
  case (deliver ch e)
  then show ?thesis using assms(1)
    by (auto simp: hub_ok_def owner_snoc send_def dest: in_diffD split: if_splits)
next
  case (receive ch e es)
  moreover have "length (hb_chans h ch) \<le> subBuffer" "\<forall>e\<in>set (hb_chans h ch). owner as ch (ev_UserID e)"
    using assms(1) unfolding hub_ok_def by blast+
  ultimately have "length es \<le> subBuffer" "\<forall>e\<in>set es. owner as ch (ev_UserID e)" "owner as ch (ev_UserID e)" by simp_all
  then show ?thesis using assms(1) receive by (auto simp: hub_ok_def owner_snoc)
qed

lemma hub_run_ok: "hub_run as (h, p) \<Longrightarrow> hub_ok as h p"
proof (induction as "(h, p)" arbitrary: h p rule: hub_run.induct)
  case start
  then show ?case by (simp add: hub_ok_def NewHub_def owner_def)
next
  case (step as s a)
  obtain h0 p0 where "s = (h0, p0)" by (cases s)
  then show ?case using step hub_ok_step by blast
qed

section \<open>The stream of a client\<close>

text \<open>The loop of \<open>handleEvents\<close> (\<open>httpapi/events_handler.go\<close>): what wakes it, and what it writes. A frame stands for its
  text, an event's JSON or a comment.\<close>

datatype wake = ContextDone | Heartbeat | Delivered Event

datatype frame = KeepAlive | SSE Event

fun stream_loop :: "wake list \<Rightarrow> frame list" where
  "stream_loop [] = []"
| "stream_loop (ContextDone # ws) = []"
| "stream_loop (Heartbeat # ws) = KeepAlive # stream_loop ws"
| "stream_loop (Delivered e # ws) = SSE e # stream_loop ws"

definition event_stream :: "string \<Rightarrow> wake list \<Rightarrow> frame list" where
  "event_stream userID ws = SSE \<lparr>ev_Type = ''connected'', ev_UserID = userID, ev_Kind = ''all''\<rparr> # stream_loop ws"

text \<open>Each connection carries only its own user's events, whatever it is woken by besides what its channel delivers.\<close>

lemma stream_own_events:
  assumes "hub_run as (h, p)" and "Subscribed u s \<in> set as"
    and "\<forall>e. Delivered e \<in> set ws \<longrightarrow> Received (sub_Ch s) e \<in> set as" and "SSE e \<in> set (event_stream u ws)"
  shows "ev_UserID e = u"
proof -
  have ok: "hub_ok as h p" using assms(1) by (rule hub_run_ok)
  have own: "owner as (sub_Ch s) u" using assms(2) by (auto simp: owner_def)
  have "ev_UserID e = u" if "Received (sub_Ch s) e \<in> set as" for e
    using hub_okD(2) [OF ok own hub_okD(5) [OF ok that]] .
  moreover have "Delivered e \<in> set ws" if "SSE e \<in> set (stream_loop ws)" for e
    using that by (induction ws rule: stream_loop.induct) auto
  ultimately show ?thesis using assms(3,4) by (auto simp: event_stream_def)
qed

text \<open>Registered channels are those of subscriptions made and not yet given back.\<close>

definition hub_subbed :: "hub_act list \<Rightarrow> hub \<Rightarrow> bool" where
  "hub_subbed as h \<longleftrightarrow>
     (\<forall>u i ch. (i, ch) \<in> set (hb_subs h u) \<longrightarrow> Subscribed u \<lparr>sub_id = i, sub_Ch = ch\<rparr> \<in> set as)
   \<and> (\<forall>u s v s'. Subscribed u s \<in> set as \<longrightarrow> Subscribed v s' \<in> set as \<longrightarrow> sub_Ch s' = sub_Ch s \<longrightarrow> s' = s)
   \<and> (\<forall>before u s after. as = before @ Subscribed u s # after \<longrightarrow> Unsubscribed u (Some s) \<in> set after \<longrightarrow>
        sub_Ch s \<notin> snd ` set (hb_subs h u))"

lemma hub_subbedD:
  assumes "hub_subbed as h"
  shows "(i, ch) \<in> set (hb_subs h u) \<Longrightarrow> Subscribed u \<lparr>sub_id = i, sub_Ch = ch\<rparr> \<in> set as"
    and "Subscribed u s \<in> set as \<Longrightarrow> Subscribed v s' \<in> set as \<Longrightarrow> sub_Ch s' = sub_Ch s \<Longrightarrow> s' = s"
    and "as = before @ Subscribed u s # after \<Longrightarrow> Unsubscribed u (Some s) \<in> set after \<Longrightarrow> (i, sub_Ch s) \<notin> set (hb_subs h u)"
proof -
  note subbed = assms [unfolded hub_subbed_def]
  show "(i, ch) \<in> set (hb_subs h u) \<Longrightarrow> Subscribed u \<lparr>sub_id = i, sub_Ch = ch\<rparr> \<in> set as" using subbed by blast
  show "Subscribed u s \<in> set as \<Longrightarrow> Subscribed v s' \<in> set as \<Longrightarrow> sub_Ch s' = sub_Ch s \<Longrightarrow> s' = s" using subbed by metis
  assume "as = before @ Subscribed u s # after" and "Unsubscribed u (Some s) \<in> set after"
  then have "sub_Ch s \<notin> snd ` set (hb_subs h u)" using subbed by blast
  then show "(i, sub_Ch s) \<notin> set (hb_subs h u)" by (metis image_eqI snd_conv)
qed

text \<open>A step registers no channel but that of a subscription, and an unsubscription of \<open>u\<close> removes the one of its
  argument from those of \<open>u\<close>.\<close>

lemma step_subs:
  assumes "hub_step (h, p) a (h', p')"
  shows "set (hb_subs h' v) \<subseteq> set (hb_subs h v) \<union> {(sub_id s, sub_Ch s) | s. a = Subscribed v s}"
    and "a = Unsubscribed v (Some s) \<Longrightarrow> (sub_id s, ch) \<notin> set (hb_subs h' v)"
    and "a = Subscribed v s \<Longrightarrow> sub_Ch s = hb_made h"
  using assms by (auto elim!: hub_step.cases simp: Subscribe_def Unsubscribe_def send_def Let_def split: if_splits option.splits)

lemma hub_subbed_step:
  assumes "hub_subbed as h" and "hub_ok as h p" and "hub_step (h, p) a (h', p')"
  shows "hub_subbed (as @ [a]) h'"
proof -
  have new: "sub_Ch t \<noteq> sub_Ch s" if "a = Subscribed u s" "Subscribed v t \<in> set as" for u v s t
  proof
    assume "sub_Ch t = sub_Ch s"
    then have "owner as (hb_made h) v" using step_subs(3) [OF assms(3) that(1)] that(2) by (auto simp: owner_def)
    then show False using hub_okD(1) [OF assms(2)] by blast
  qed
  have reg: "Subscribed u \<lparr>sub_id = i, sub_Ch = ch\<rparr> \<in> set (as @ [a])" if "(i, ch) \<in> set (hb_subs h' u)" for u i ch
    using step_subs(1) [OF assms(3), of u] that hub_subbedD(1) [OF assms(1)] by fastforce
  have one: "s' = s" if "Subscribed u s \<in> set (as @ [a])" "Subscribed v s' \<in> set (as @ [a])" "sub_Ch s' = sub_Ch s" for u s v s'
    using that new hub_subbedD(2) [OF assms(1)] by (auto; metis)
  have gone: "(i, sub_Ch s) \<notin> set (hb_subs h' u)"
    if split: "as @ [a] = before @ Subscribed u s # after" and off: "Unsubscribed u (Some s) \<in> set after" for before u s after i
  proof
    assume i: "(i, sub_Ch s) \<in> set (hb_subs h' u)"
    have "Subscribed u s \<in> set (as @ [a])" unfolding split by simp
    from one [OF this reg [OF i]] have id: "i = sub_id s" by (cases s) simp
    from off obtain after0 b where after: "after = after0 @ [b]" by (cases after rule: rev_cases) auto
    then have as: "as = before @ Subscribed u s # after0" and b: "b = a" using split by simp_all
    show False
    proof (cases "a = Unsubscribed u (Some s)")
      case True
      then show False using step_subs(2) [OF assms(3) True] i id by blast
    next
      case False
      then have "Unsubscribed u (Some s) \<in> set after0" using off after b by auto
      then have "(i, sub_Ch s) \<notin> set (hb_subs h u)" by (rule hub_subbedD(3) [OF assms(1) as])
      moreover have "sub_Ch t \<noteq> sub_Ch s" if "a = Subscribed u t" for t using new [OF that, of u s] as by auto
      ultimately show False using step_subs(1) [OF assms(3), of u] i by fastforce
    qed
  qed
  show ?thesis
    unfolding hub_subbed_def
  proof (intro conjI allI impI)
    show "Subscribed u \<lparr>sub_id = i, sub_Ch = ch\<rparr> \<in> set (as @ [a])" if "(i, ch) \<in> set (hb_subs h' u)" for u i ch
      using that by (rule reg)
    show "s' = s" if "Subscribed u s \<in> set (as @ [a])" "Subscribed v s' \<in> set (as @ [a])" "sub_Ch s' = sub_Ch s" for u s v s'
      using that by (rule one)
    show "sub_Ch s \<notin> snd ` set (hb_subs h' u)"
      if "as @ [a] = before @ Subscribed u s # after" "Unsubscribed u (Some s) \<in> set after" for before u s after
      using gone [OF that] by auto
  qed
qed

lemma hub_run_subbed: "hub_run as (h, p) \<Longrightarrow> hub_subbed as h"
proof (induction as "(h, p)" arbitrary: h p rule: hub_run.induct)
  case start
  then show ?case by (simp add: hub_subbed_def NewHub_def)
next
  case (step as s a)
  obtain h0 p0 where "s = (h0, p0)" by (cases s)
  then show ?case using step hub_subbed_step hub_run_ok by blast
qed

text \<open>What happened after a subscription until it was given back.\<close>

definition while_on :: "string \<Rightarrow> Subscription \<Rightarrow> hub_act list \<Rightarrow> hub_act list" where
  "while_on u s after = takeWhile (\<lambda>a. a \<noteq> Unsubscribed u (Some s)) after"

lemma while_on_snoc:
  "while_on u s (after @ [a]) =
     (if Unsubscribed u (Some s) \<in> set after \<or> a = Unsubscribed u (Some s) then while_on u s after else while_on u s after @ [a])"
proof (cases "Unsubscribed u (Some s) \<in> set after")
  case True
  then show ?thesis by (simp add: while_on_def takeWhile_append1)
next
  case False
  then have "\<And>x. x \<in> set after \<Longrightarrow> x \<noteq> Unsubscribed u (Some s)" by auto
  then show ?thesis using False by (simp add: while_on_def takeWhile_append2 takeWhile_eq_all_conv [THEN iffD2])
qed

definition hub_counts :: "hub_act list \<Rightarrow> hub \<Rightarrow> (nat \<times> Event) multiset \<Rightarrow> bool" where
  "hub_counts as h p \<longleftrightarrow>
     (\<forall>before u s after. as = before @ Subscribed u s # after \<longrightarrow>
        (\<forall>e. Received (sub_Ch s) e \<notin> set before
           \<and> count_list after (Received (sub_Ch s) e) + count_list (hb_chans h (sub_Ch s)) e + count p (sub_Ch s, e)
             \<le> count_list (while_on u s after) (Published e)))"

lemma count_targets:
  "distinct (map snd (hb_subs h (ev_UserID e))) \<Longrightarrow> count (mset (map (\<lambda>ch. (ch, e)) (targets e h))) (ch, e') \<le> (if e' = e then 1 else 0)"
proof -
  assume "distinct (map snd (hb_subs h (ev_UserID e)))"
  then have "distinct (map (\<lambda>ch. (ch, e)) (targets e h))" by (auto simp: targets_def distinct_map inj_on_def)
  then have "count (mset (map (\<lambda>ch. (ch, e)) (targets e h))) x \<le> 1" for x
    by (metis count_mset distinct_count_atmost_1 le_refl zero_le)
  moreover have "count (mset (map (\<lambda>ch. (ch, e)) (targets e h))) (ch, e') = 0" if "e' \<noteq> e"
    using that by (auto simp: count_eq_zero_iff)
  ultimately show ?thesis by simp
qed

lemma hub_counts_step:
  assumes "hub_counts as h p" and "hub_ok as h p" and "hub_step (h, p) a (h', p')" and "hub_subbed as h"
  shows "hub_counts (as @ [a]) h' p'"
  unfolding hub_counts_def
proof (intro allI impI)
  fix before u s after e
  assume split: "as @ [a] = before @ Subscribed u s # after"
  show "Received (sub_Ch s) e \<notin> set before
      \<and> count_list after (Received (sub_Ch s) e) + count_list (hb_chans h' (sub_Ch s)) e + count p' (sub_Ch s, e)
        \<le> count_list (while_on u s after) (Published e)"
  proof (cases after rule: rev_cases)
    case Nil
    then have a: "before = as" "a = Subscribed u s" using split by simp_all
    then have sub: "Subscribe u h = (s, h')" "p' = p" using assms(3) by (auto elim: hub_step.cases)
    have "sub_Ch s = hb_made h" using sub by (auto simp: Subscribe_def Let_def)
    then have "\<not> owner as (sub_Ch s) v" for v using hub_okD(1) [OF assms(2), of "sub_Ch s"] by auto
    then have "Received (sub_Ch s) e \<notin> set as" "(sub_Ch s, e) \<notin># p"
      using hub_okD(4,5) [OF assms(2)] by blast+
    then show ?thesis using Nil a sub by (auto simp: Subscribe_def Let_def count_eq_zero_iff while_on_def)
  next
    case (snoc after0 b)
    then have after: "as = before @ Subscribed u s # after0" "after = after0 @ [a]" using split by simp_all
    let ?c = "sub_Ch s"
    have own: "owner as ?c u" unfolding owner_def after(1) by auto
    have old: "Received ?c e \<notin> set before"
      "count_list after0 (Received ?c e) + count_list (hb_chans h ?c) e + count p (?c, e) \<le> count_list (while_on u s after0) (Published e)"
      using assms(1) after(1) unfolding hub_counts_def by blast+
    show ?thesis using assms(3)
    proof cases
      case (subscribe v s')
      have "?c \<noteq> hb_made h" using hub_okD(1) [OF assms(2) own] by simp
      then show ?thesis using old subscribe by (auto simp: after while_on_snoc Subscribe_def Let_def)
    next
      case (unsubscribe v s')
      then show ?thesis using old by (auto simp: after while_on_snoc Unsubscribe_def split: option.splits)
    next
      case (publish e')
      have one: "count (mset (map (\<lambda>ch. (ch, e')) (targets e' h))) (?c, e) \<le> (if e = e' then 1 else 0)"
        using assms(2) by (intro count_targets) (simp add: hub_ok_def)
      have "count (mset (map (\<lambda>ch. (ch, e')) (targets e' h))) (?c, e) = 0" if off: "Unsubscribed u (Some s) \<in> set after0"
      proof -
        have "?c \<notin> set (targets e' h)"
        proof
          assume "?c \<in> set (targets e' h)"
          then obtain i where i: "(i, ?c) \<in> set (hb_subs h (ev_UserID e'))" by (auto simp: targets_def)
          have "ev_UserID e' = u" using hub_okD(2) [OF assms(2) own hub_okD(3) [OF assms(2) i]] .
          then show False using i hub_subbedD(3) [OF assms(4) after(1) off] by simp
        qed
        then show ?thesis by (auto simp: count_eq_zero_iff)
      qed
      then show ?thesis using old one publish by (auto simp: after while_on_snoc split: if_splits)
    next
      case (deliver ch e')
      then have "0 < count p (ch, e')" by simp
      then show ?thesis using old deliver by (auto simp: after while_on_snoc send_def)
    next
      case (receive ch e' es)
      then show ?thesis using old by (auto simp: after while_on_snoc)
    qed
  qed
qed

lemma hub_run_counts: "hub_run as (h, p) \<Longrightarrow> hub_counts as h p"
proof (induction as "(h, p)" arbitrary: h p rule: hub_run.induct)
  case start
  then show ?case by (simp add: hub_counts_def)
next
  case (step as s a)
  obtain h0 p0 where "s = (h0, p0)" by (cases s)
  then show ?case using step hub_counts_step hub_run_ok hub_run_subbed by blast
qed

lemma fold_send:
  "distinct chs \<Longrightarrow> hb_chans (fold (\<lambda>ch. send ch e) chs h) ch
     = (if ch \<in> set chs \<and> length (hb_chans h ch) < subBuffer then hb_chans h ch @ [e] else hb_chans h ch)"
  by (induction chs arbitrary: h) (auto simp: send_def)

text \<open>C33. A subscriber sees its own user's changes while it is subscribed, each at most once: in every interleaving of
  subscriptions, unsubscriptions, publications (their sends to the single channels included) and receptions,
  whatever is received on the channel of a subscription is addressed to its user and at most as often as it was
  published after the subscription and before the subscription was given back (an event published in that
  time may still be sent and received later); a buffer never exceeds 32 events; a publication that is not interrupted
  reaches every current subscriber of its user whose buffer is not full, and nobody else; in particular it
  does not reach a subscription that was given back.\<close>

theorem hub_delivery:
  assumes "hub_run (before @ Subscribed u s # after) (h, p)"
  shows "(Received (sub_Ch s) e \<in> set (before @ Subscribed u s # after) \<longrightarrow> ev_UserID e = u)
    \<and> count_list (before @ Subscribed u s # after) (Received (sub_Ch s) e) \<le> count_list (while_on u s after) (Published e)
    \<and> (Unsubscribed u (Some s) \<in> set after \<longrightarrow> hb_chans (Publish e h) (sub_Ch s) = hb_chans h (sub_Ch s))
    \<and> length (hb_chans h ch) \<le> subBuffer
    \<and> hb_chans (Publish e h) ch =
       (if ch \<in> snd ` set (hb_subs h (ev_UserID e)) \<and> length (hb_chans h ch) < subBuffer then hb_chans h ch @ [e] else hb_chans h ch)"
proof -
  let ?as = "before @ Subscribed u s # after"
  have ok: "hub_ok ?as h p" and counts: "hub_counts ?as h p" using hub_run_ok [OF assms] hub_run_counts [OF assms] .
  have "owner ?as (sub_Ch s) u" by (auto simp: owner_def)
  then have "Received (sub_Ch s) e \<in> set ?as \<Longrightarrow> ev_UserID e = u" using hub_okD(2,5) [OF ok] by metis
  moreover have "count_list ?as (Received (sub_Ch s) e) \<le> count_list (while_on u s after) (Published e)"
    using counts [unfolded hub_counts_def, rule_format, of before u s after e] by (simp add: count_list_0_iff [THEN iffD2])
  moreover have "length (hb_chans h ch) \<le> subBuffer" using ok by (simp add: hub_ok_def)
  moreover have "distinct (targets e h)" "set (targets e h) = snd ` set (hb_subs h (ev_UserID e))"
    using ok by (auto simp: hub_ok_def targets_def)
  moreover have "sub_Ch s \<notin> set (targets e h)" if "Unsubscribed u (Some s) \<in> set after"
  proof
    assume "sub_Ch s \<in> set (targets e h)"
    then obtain i where i: "(i, sub_Ch s) \<in> set (hb_subs h (ev_UserID e))" by (auto simp: targets_def)
    have "owner ?as (sub_Ch s) u" by (auto simp: owner_def)
    then have "ev_UserID e = u" using hub_okD(2) [OF ok _ hub_okD(3) [OF ok i]] by blast
    then show False using i hub_subbedD(3) [OF hub_run_subbed [OF assms] refl that] by simp
  qed
  ultimately show ?thesis by (simp add: Publish_def fold_send)
qed

definition sample_event :: Event where
  "sample_event = \<lparr>ev_Type = ''data.changed'', ev_UserID = ''u1'', ev_Kind = ''all''\<rparr>"

theorem hub_delivery_witness:
  "\<exists>h p. hub_run [Subscribed ''u1'' \<lparr>sub_id = 1, sub_Ch = 0\<rparr>, Published sample_event, Sent 0 sample_event, Received 0 sample_event] (h, p)
     \<and> length (hb_chans h 0) \<le> subBuffer
     \<and> count_list [Subscribed ''u1'' \<lparr>sub_id = 1, sub_Ch = 0\<rparr>, Published sample_event, Sent 0 sample_event, Received 0 sample_event] (Received 0 sample_event) \<le> 1"
proof -
  let ?s = "\<lparr>sub_id = 1, sub_Ch = 0\<rparr>"
  let ?h1 = "snd (Subscribe ''u1'' NewHub)"
  let ?h2 = "send 0 sample_event ?h1"
  have "hub_step (NewHub, {#}) (Subscribed ''u1'' ?s) (?h1, {#})"
    by (rule hub_step.subscribe) (simp add: Subscribe_def NewHub_def Let_def)
  from hub_run.step [OF hub_run.start this] have r1: "hub_run [Subscribed ''u1'' ?s] (?h1, {#})" by simp
  have "hub_step (?h1, {#}) (Published sample_event) (?h1, {#(0, sample_event)#})"
    using hub_step.publish [of ?h1 "{#}" sample_event]
    by (simp add: Subscribe_def NewHub_def Let_def targets_def sample_event_def)
  from hub_run.step [OF r1 this] have r2: "hub_run [Subscribed ''u1'' ?s, Published sample_event] (?h1, {#(0, sample_event)#})" by simp
  have "hub_step (?h1, {#(0, sample_event)#}) (Sent 0 sample_event) (?h2, {#})"
    using hub_step.deliver [of 0 sample_event "{#(0, sample_event)#}" ?h1] by simp
  from hub_run.step [OF r2 this] have r3: "hub_run [Subscribed ''u1'' ?s, Published sample_event, Sent 0 sample_event] (?h2, {#})" by simp
  have "hb_chans ?h2 0 = [sample_event]" by (simp add: send_def Subscribe_def NewHub_def Let_def subBuffer_def)
  from hub_run.step [OF r3 hub_step.receive [OF this]] obtain h where
    run: "hub_run ([] @ Subscribed ''u1'' ?s # [Published sample_event, Sent 0 sample_event, Received 0 sample_event]) (h, {#})" by auto
  show ?thesis using hub_delivery [OF run, of sample_event 0] run by auto
qed

end
