(* ===== verification/Config.thy ===== *)
theory Config
  imports Domain
begin

text \<open>
  The configuration (\<open>src/backend/internal/config/config.go\<close>) and the check that guards a production start
  (\<open>src/backend/internal/config/gate.go\<close>). The environment is a function that answers the empty string for an
  unset variable, as \<open>os.Getenv\<close> does. The two parsers of the standard library that compute with floating-point
  numbers, \<open>time.ParseDuration\<close> and \<open>strconv.ParseFloat\<close>, are arguments of \<open>Load\<close>; rates of type \<open>float64\<close> are
  values of a type parameter.
\<close>

type_synonym environment = "string \<Rightarrow> string"

record BlockchainConfig =
  bc_Network :: string
  bc_RPCURL :: string
  bc_ChainID :: int64
  bc_Stablecoin :: string
  bc_StablecoinName :: string
  bc_StablecoinDecimals :: int
  bc_StablecoinEnabled :: bool
  bc_StablecoinContract :: string
  bc_VaultContract :: string
  bc_VaultAddress :: string
  bc_CloneFactoryContract :: string
  bc_Mode :: string
  bc_PrivateKeyHex :: string

record 'f Config =
  c_HTTPAddr :: string
  c_DatabaseURL :: string
  c_SessionSecret :: string
  c_VaultFallbackUserID :: string
  c_VaultStartBlock :: int64
  c_OperatorToken :: string
  c_SessionTTL :: time
  c_TokenIssuer :: string
  c_LogLevel :: string
  c_RequestIDSalt :: string
  c_CORSOrigins :: "string list"
  c_VaultWithdrawEnabled :: bool
  c_VaultWithdrawMinMinor :: int64
  c_VaultWithdrawMaxMinor :: int64
  c_VaultWithdrawDailyCapMinor :: int64
  c_VaultWithdrawElevationThresholdMinor :: int64
  c_VaultWithdrawElevationDelay :: time
  c_WithdrawFeeBPS :: int
  c_WithdrawFeeMinMinor :: int64
  c_WithdrawFeeCapMinor :: int64
  c_VaultMinConfirmations :: nat
  c_PrivacyMode :: bool
  c_RequireUserSignature :: bool
  c_RateLimitAuthBurst :: int
  c_RateLimitMoneyBurst :: int
  c_ChaosFailureRate :: 'f
  c_ChaosLatencyMaxMS :: int
  c_ResendAPIKey :: string
  c_EmailFrom :: string
  c_Blockchain :: BlockchainConfig

section \<open>Reading variables\<close>

text \<open>\<open>strconv.ParseBool\<close>; on 64-bit platforms \<open>strconv.Atoi\<close> accepts what \<open>ParseInt\<close> does.\<close>

definition ParseBool :: "string \<Rightarrow> bool option" where
  "ParseBool s =
     (if s \<in> {''1'', ''t'', ''T'', ''TRUE'', ''true'', ''True''} then Some True
      else if s \<in> {''0'', ''f'', ''F'', ''FALSE'', ''false'', ''False''} then Some False
      else None)"

definition parsed_or :: "'a \<Rightarrow> (string \<Rightarrow> 'a option) \<Rightarrow> environment \<Rightarrow> string \<Rightarrow> 'a" where
  "parsed_or dflt parse env key =
     (if env key = [] then dflt else case parse (env key) of Some v \<Rightarrow> v | None \<Rightarrow> dflt)"

definition ok_or_none :: "'e + 'a \<Rightarrow> 'a option" where
  "ok_or_none r = (case r of Inl _ \<Rightarrow> None | Inr v \<Rightarrow> Some v)"

definition int64Env :: "environment \<Rightarrow> string \<Rightarrow> int64 \<Rightarrow> int64" where
  "int64Env env key dflt = parsed_or dflt (\<lambda>s. ok_or_none (ParseInt s)) env key"

definition intEnv :: "environment \<Rightarrow> string \<Rightarrow> int \<Rightarrow> int" where
  "intEnv env key dflt = parsed_or dflt (\<lambda>s. ok_or_none (ParseInt s)) env key"

definition boolEnv :: "environment \<Rightarrow> string \<Rightarrow> bool \<Rightarrow> bool" where
  "boolEnv env key dflt = parsed_or dflt ParseBool env key"

definition uint64Env :: "environment \<Rightarrow> string \<Rightarrow> nat \<Rightarrow> nat" where
  "uint64Env env key dflt = parsed_or dflt (\<lambda>s. ok_or_none (ParseUint s)) env key"

definition float64Env :: "(string \<Rightarrow> 'f option) \<Rightarrow> environment \<Rightarrow> string \<Rightarrow> 'f \<Rightarrow> 'f" where
  "float64Env ParseFloat env key dflt = parsed_or dflt ParseFloat env key"

definition durationEnv :: "(string \<Rightarrow> time option) \<Rightarrow> environment \<Rightarrow> string \<Rightarrow> time \<Rightarrow> time" where
  "durationEnv ParseDuration env key dflt = parsed_or dflt ParseDuration env key"

definition csvEnv :: "environment \<Rightarrow> string \<Rightarrow> string list" where
  "csvEnv env key = filter (\<lambda>p. p \<noteq> []) (map TrimSpace (split_on CHR '','' (env key)))"

definition envOr :: "environment \<Rightarrow> string \<Rightarrow> string \<Rightarrow> string" where
  "envOr env key dflt = (if env key = [] then dflt else env key)"

definition defaultSessionSecret :: string where
  "defaultSessionSecret = ''dev-only-change-me-session-secret-0000000000''"

definition defaultRequestSalt :: string where "defaultRequestSalt = ''dev-request-salt''"

definition Load :: "(string \<Rightarrow> time option) \<Rightarrow> (string \<Rightarrow> 'f option) \<Rightarrow> 'f \<Rightarrow> environment \<Rightarrow> 'f Config" where
  "Load ParseDuration ParseFloat zero env =
     \<lparr>c_HTTPAddr = envOr env ''GLOBMINT_HTTP_ADDR'' '':8081'',
      c_DatabaseURL = env ''GLOBMINT_DATABASE_URL'',
      c_SessionSecret = envOr env ''GLOBMINT_SESSION_SECRET'' ''dev-only-change-me-session-secret-0000000000'',
      c_VaultFallbackUserID = env ''GLOBMINT_VAULT_FALLBACK_USER_ID'',
      c_VaultStartBlock = int64Env env ''GLOBMINT_VAULT_START_BLOCK'' 0,
      c_OperatorToken = env ''GLOBMINT_OPERATOR_TOKEN'',
      c_SessionTTL = durationEnv ParseDuration env ''GLOBMINT_SESSION_TTL'' (15 * 24 * hour),
      c_TokenIssuer = envOr env ''GLOBMINT_TOKEN_ISSUER'' ''globmint'',
      c_LogLevel = envOr env ''GLOBMINT_LOG_LEVEL'' ''info'',
      c_RequestIDSalt = envOr env ''GLOBMINT_REQUEST_ID_SALT'' ''dev-request-salt'',
      c_CORSOrigins = csvEnv env ''GLOBMINT_CORS_ORIGINS'',
      c_VaultWithdrawEnabled = boolEnv env ''GLOBMINT_VAULT_WITHDRAW_ENABLED'' True,
      c_VaultWithdrawMinMinor = int64Env env ''GLOBMINT_VAULT_WITHDRAW_MIN_MINOR'' 0,
      c_VaultWithdrawMaxMinor = int64Env env ''GLOBMINT_VAULT_WITHDRAW_MAX_MINOR'' 0,
      c_VaultWithdrawDailyCapMinor = int64Env env ''GLOBMINT_VAULT_WITHDRAW_DAILY_CAP_MINOR'' 0,
      c_VaultWithdrawElevationThresholdMinor = int64Env env ''GLOBMINT_VAULT_WITHDRAW_ELEVATION_THRESHOLD_MINOR'' 0,
      c_VaultWithdrawElevationDelay = durationEnv ParseDuration env ''GLOBMINT_VAULT_WITHDRAW_ELEVATION_DELAY'' (24 * hour),
      c_WithdrawFeeBPS = intEnv env ''GLOBMINT_WITHDRAW_FEE_BPS'' 20,
      c_WithdrawFeeMinMinor = int64Env env ''GLOBMINT_WITHDRAW_FEE_MIN_MINOR'' 1000,
      c_WithdrawFeeCapMinor = int64Env env ''GLOBMINT_WITHDRAW_FEE_CAP_MINOR'' 10000,
      c_VaultMinConfirmations = uint64Env env ''GLOBMINT_VAULT_MIN_CONFIRMATIONS'' 0,
      c_PrivacyMode = boolEnv env ''GLOBMINT_PRIVACY_MODE'' False,
      c_RequireUserSignature = boolEnv env ''GLOBMINT_REQUIRE_USER_SIGNATURE'' False,
      c_RateLimitAuthBurst = intEnv env ''GLOBMINT_RATE_LIMIT_AUTH_BURST'' 5,
      c_RateLimitMoneyBurst = intEnv env ''GLOBMINT_RATE_LIMIT_MONEY_BURST'' 20,
      c_ChaosFailureRate = float64Env ParseFloat env ''GLOBMINT_CHAOS_FAILURE_RATE'' zero,
      c_ChaosLatencyMaxMS = intEnv env ''GLOBMINT_CHAOS_LATENCY_MAX_MS'' 0,
      c_ResendAPIKey = env ''GLOBMINT_RESEND_API_KEY'',
      c_EmailFrom = envOr env ''GLOBMINT_EMAIL_FROM'' ''Globmint <noreply@clawbet.it.com>'',
      c_Blockchain =
        \<lparr>bc_Network = envOr env ''GLOBMINT_BLOCKCHAIN_NETWORK'' ''mock'',
         bc_RPCURL = env ''GLOBMINT_BLOCKCHAIN_RPC_URL'',
         bc_ChainID = int64Env env ''GLOBMINT_BLOCKCHAIN_CHAIN_ID'' 11155111,
         bc_Stablecoin = envOr env ''GLOBMINT_STABLECOIN_SYMBOL'' ''USDC'',
         bc_StablecoinName = envOr env ''GLOBMINT_STABLECOIN_NAME'' ''USD Coin'',
         bc_StablecoinDecimals = intEnv env ''GLOBMINT_STABLECOIN_DECIMALS'' 6,
         bc_StablecoinEnabled = boolEnv env ''GLOBMINT_STABLECOIN_ENABLED'' True,
         bc_StablecoinContract = envOr env ''GLOBMINT_STABLECOIN_CONTRACT_ADDRESS'' ''0x1c7D4B196Cb0C7B01d743Fbc6116a902379C7238'',
         bc_VaultContract = envOr env ''GLOBMINT_VAULT_CONTRACT_ADDRESS'' [],
         bc_VaultAddress = envOr env ''GLOBMINT_VAULT_ADDRESS'' [],
         bc_CloneFactoryContract = envOr env ''GLOBMINT_CLONE_FACTORY_ADDRESS'' [],
         bc_Mode = envOr env ''GLOBMINT_BLOCKCHAIN_MODE'' ''mock'',
         bc_PrivateKeyHex = env ''GLOBMINT_STABLECOIN_PRIVATE_KEY''\<rparr>\<rparr>"

definition HasDatabase :: "'f Config \<Rightarrow> bool" where
  "HasDatabase c \<longleftrightarrow> c_DatabaseURL c \<noteq> []"

section \<open>The production check\<close>

definition hasWildcard :: "string list \<Rightarrow> bool" where
  "hasWildcard origins \<longleftrightarrow> list_ex (\<lambda>o'. TrimSpace o' = ''*'') origins"

definition targets_mainnet :: "'f Config \<Rightarrow> bool" where
  "targets_mainnet cfg \<longleftrightarrow> bc_Network (c_Blockchain cfg) = ''mainnet'' \<or> bc_ChainID (c_Blockchain cfg) = 1"

definition problem :: "bool \<Rightarrow> string \<Rightarrow> string list" where
  "problem b text = (if b then [text] else [])"

text \<open>The variables named by the problems found, in the order of the checks (the advice in the rest of each message
  is left out), and the check itself.\<close>

definition production_problems :: "'f Config \<Rightarrow> string list" where
  "production_problems cfg =
     (let bc = c_Blockchain cfg in
        problem (bc_Network bc \<noteq> ''mainnet'') ''GLOBMINT_BLOCKCHAIN_NETWORK''
      @ problem (bc_Mode bc \<noteq> ''real'') ''GLOBMINT_BLOCKCHAIN_MODE''
      @ problem (bc_RPCURL bc = []) ''GLOBMINT_BLOCKCHAIN_RPC_URL''
      @ problem (bc_PrivateKeyHex bc = []) ''GLOBMINT_STABLECOIN_PRIVATE_KEY''
      @ problem (bc_VaultContract bc = []) ''GLOBMINT_VAULT_CONTRACT_ADDRESS''
      @ problem (bc_VaultAddress bc = []) ''GLOBMINT_VAULT_ADDRESS''
      @ problem (c_VaultFallbackUserID cfg \<noteq> []) ''GLOBMINT_VAULT_FALLBACK_USER_ID''
      @ problem (c_SessionSecret cfg = defaultSessionSecret \<or> c_SessionSecret cfg = []) ''GLOBMINT_SESSION_SECRET''
      @ problem (c_RequestIDSalt cfg = defaultRequestSalt) ''GLOBMINT_REQUEST_ID_SALT''
      @ problem (c_CORSOrigins cfg = [] \<or> hasWildcard (c_CORSOrigins cfg)) ''GLOBMINT_CORS_ORIGINS''
      @ problem (c_VaultMinConfirmations cfg < 12) ''GLOBMINT_VAULT_MIN_CONFIRMATIONS''
      @ problem (\<not> c_RequireUserSignature cfg) ''GLOBMINT_REQUIRE_USER_SIGNATURE''
      @ problem (bc_CloneFactoryContract bc = []) ''GLOBMINT_CLONE_FACTORY_ADDRESS'')"

definition ValidateProduction :: "'f Config \<Rightarrow> string list" where
  "ValidateProduction cfg = (if \<not> targets_mainnet cfg then [] else production_problems cfg)"

lemma problem_Nil [simp]: "problem b s = [] \<longleftrightarrow> \<not> b"
  by (simp add: problem_def)

lemma production_ok:
  assumes "ValidateProduction cfg = []" and "targets_mainnet cfg"
  shows "c_RequireUserSignature cfg" "c_VaultFallbackUserID cfg = []" "12 \<le> c_VaultMinConfirmations cfg"
    "c_SessionSecret cfg \<noteq> []" "c_SessionSecret cfg \<noteq> defaultSessionSecret"
    "c_CORSOrigins cfg \<noteq> []" "\<not> hasWildcard (c_CORSOrigins cfg)" "bc_Mode (c_Blockchain cfg) = ''real''"
    "bc_CloneFactoryContract (c_Blockchain cfg) \<noteq> []"
  using assms by (simp_all add: ValidateProduction_def production_problems_def Let_def)

end
