(* ===== verification/Market.thy ===== *)
theory Market
  imports Vault Config
begin

text \<open>
  Prices and start-up: the live market rate with its cache (\<open>src/backend/internal/infrastructure/rates/rates.go\<close>),
  its way into the rate book (\<open>src/backend/internal/services/market.go\<close>) and into the vault service, and the parts
  of \<open>src/backend/cmd/server/main.go\<close> that choose the first rate, refresh it and build the vault's configuration. The
  feeds are the argument the provider is built with, computations on the state of the network that return a rate;
  the two HTTP fetchers, which compute with floating-point prices, are not modelled.
\<close>

section \<open>The rate provider\<close>

record provider =
  pv_rate :: int64
  pv_at :: "time option"

type_synonym 'n feed = "('n, int64) go"

definition provider_ttl :: "time \<Rightarrow> time" where
  "provider_ttl cacheTTL = (if cacheTTL \<le> 0 then 15 * second else cacheTTL)"

definition NewProvider :: provider where
  "NewProvider = \<lparr>pv_rate = 0, pv_at = None\<rparr>"

fun fetch :: "'n feed list \<Rightarrow> ('n, int64) go" where
  "fetch [] = fail (ErrOpaque ''rates: all feeds failed'')"
| "fetch (f # fs) =
     bnd (attempt f) (\<lambda>r. case r of
       Inl _ \<Rightarrow> fetch fs
     | Inr rate \<Rightarrow> if rate \<le> 0 then fetch fs else ret rate)"

definition NGNPerUSDCKobo :: "time \<Rightarrow> 'n feed list \<Rightarrow> time \<Rightarrow> provider \<times> 'n \<Rightarrow> (err + int64) \<times> (provider \<times> 'n)" where
  "NGNPerUSDCKobo ttl feeds now s =
     (case s of (p, ns) \<Rightarrow>
        let stale = (case pv_at p of None \<Rightarrow> True | Some fetched \<Rightarrow> now - fetched \<ge> ttl)
        in if stale then
             (case fetch feeds ns of
                (Inr rate, ns') \<Rightarrow>
                  (let p' = \<lparr>pv_rate = rate, pv_at = Some now\<rparr>
                   in (if rate \<le> 0 then Inl (ErrOpaque ''rates: no cached rate available'') else Inr rate, (p', ns')))
              | (Inl e, ns') \<Rightarrow> (if pv_rate p > 0 then Inr (pv_rate p) else Inl e, (p, ns')))
           else (if pv_rate p \<le> 0 then Inl (ErrOpaque ''rates: no cached rate available'') else Inr (pv_rate p), (p, ns)))"

section \<open>The rate book\<close>

definition marketCrossPairs :: "(string \<times> string) list" where
  "marketCrossPairs = [(''USDT'', ''NGN''), (''USDC'', ''NGN''), (''NGN'', ''USDC''), (''NGN'', ''USDT'')]"

text \<open>The loop of \<open>SyncMarketRate\<close>, with its two variables.\<close>

fun sync_pairs :: "(string \<times> string) list \<Rightarrow> int64 \<Rightarrow> nat \<Rightarrow> err option \<Rightarrow> ('z world_scheme, nat \<times> err option) go" where
  "sync_pairs [] rateMinor updated firstErr = ret (updated, firstErr)"
| "sync_pairs ((base, quote) # ps) rateMinor updated firstErr =
     bnd (attempt (ExchangeRateRepo_UpsertRate base quote rateMinor)) (\<lambda>r. case r of
       Inl e \<Rightarrow> sync_pairs ps rateMinor updated (if firstErr = None then Some e else firstErr)
     | Inr _ \<Rightarrow> sync_pairs ps rateMinor (Suc updated) firstErr)"

definition SyncMarketRate :: "int64 \<Rightarrow> ('z world_scheme, unit) go" where
  "SyncMarketRate rateMinor =
     bnd (reject (rateMinor \<le> 0) ErrInvalidAmount) (\<lambda>_.
     bnd (sync_pairs marketCrossPairs rateMinor 0 None) (\<lambda>r. case r of (updated, firstErr) \<Rightarrow>
     if updated = 0 then (case firstErr of Some e \<Rightarrow> fail e | None \<Rightarrow> ret ()) else ret ()))"

section \<open>Start-up\<close>

text \<open>The rate the server starts with: the last one of the book, replaced by a live one, which is also written to
  the book; without either it refuses to start. \<open>live\<close> is what the provider answered.\<close>

definition stored_rate :: "('z world_scheme, int64) go" where
  "stored_rate = bnd (attempt (ExchangeRateRepo_FindByPair ''USDC'' ''NGN'')) (\<lambda>r. case r of
     Inr er \<Rightarrow> ret (if er_Rate er > 0 then er_Rate er else 0)
   | Inl _ \<Rightarrow> ret 0)"

definition boot_rate :: "err + int64 \<Rightarrow> ('z world_scheme, int64) go" where
  "boot_rate live =
     bnd stored_rate (\<lambda>stored.
     if (case live of Inr l \<Rightarrow> l > 0 | Inl _ \<Rightarrow> False)
     then bnd (ignore (SyncMarketRate (projr live))) (\<lambda>_. ret (projr live))
     else if stored \<le> 0 then fail (ErrOpaque ''market rate: refusing to start with invented pricing'')
     else ret stored)"

definition server_vault_address :: "string \<Rightarrow> 'f Config \<Rightarrow> string" where
  "server_vault_address chainAddress cfg =
     (if bc_VaultAddress (c_Blockchain cfg) = [] then chainAddress else bc_VaultAddress (c_Blockchain cfg))"

definition server_vault_config :: "string \<Rightarrow> 'f Config \<Rightarrow> VaultConfig" where
  "server_vault_config vaultAddress cfg =
     \<lparr>cfg_VaultAddress = vaultAddress,
      cfg_VaultContract = bc_VaultContract (c_Blockchain cfg),
      cfg_StablecoinSymbol = bc_Stablecoin (c_Blockchain cfg),
      cfg_StablecoinDecimals = bc_StablecoinDecimals (c_Blockchain cfg),
      cfg_Mode = bc_Mode (c_Blockchain cfg),
      cfg_ChainID = bc_ChainID (c_Blockchain cfg),
      cfg_PollInterval = 8 * second,
      cfg_StartBlock = nat (c_VaultStartBlock cfg mod 2 ^ 64),
      cfg_FallbackUserID = c_VaultFallbackUserID cfg,
      cfg_MinConfirmations = c_VaultMinConfirmations cfg,
      cfg_WithdrawEnabled = c_VaultWithdrawEnabled cfg,
      cfg_WithdrawMinMinor = c_VaultWithdrawMinMinor cfg,
      cfg_WithdrawMaxMinor = c_VaultWithdrawMaxMinor cfg,
      cfg_WithdrawDailyCapMinor = c_VaultWithdrawDailyCapMinor cfg,
      cfg_WithdrawElevationThresholdMinor = c_VaultWithdrawElevationThresholdMinor cfg,
      cfg_WithdrawElevationDelay = c_VaultWithdrawElevationDelay cfg,
      cfg_WithdrawFeeBPS = c_WithdrawFeeBPS cfg,
      cfg_WithdrawFeeMinMinor = c_WithdrawFeeMinMinor cfg,
      cfg_WithdrawFeeCapMinor = c_WithdrawFeeCapMinor cfg,
      cfg_PrivacyMode = c_PrivacyMode cfg,
      cfg_RequireUserSignature = c_RequireUserSignature cfg\<rparr>"

text \<open>One tick of \<open>runMarketRateRefresher\<close>.\<close>

definition refresh_rate ::
    "time \<Rightarrow> 'n feed list \<Rightarrow> (provider \<times> 'n) \<times> ('c, 'z) vworld_scheme \<Rightarrow> (provider \<times> 'n) \<times> ('c, 'z) vworld_scheme" where
  "refresh_rate ttl feeds s =
     (case s of (pn, w) \<Rightarrow>
        (case NGNPerUSDCKobo ttl feeds (clock w) pn of
           (Inl _, pn') \<Rightarrow> (pn', w)
         | (Inr live, pn') \<Rightarrow>
             if live \<le> 0 then (pn', w)
             else (pn', snd (bnd (SetRateMinor live) (\<lambda>_. SyncMarketRate live) w))))"

end
