(* ===== verification/MarketProps.thy ===== *)
theory MarketProps
  imports Market VaultLocks
begin

text \<open>
  What start-up establishes: the vault is never priced at zero, so that the conversion of a withdrawal never
  divides by zero, and a configuration that may start against the main network enforces the owner's signature on
  every withdrawal.
\<close>

section \<open>Prices\<close>

definition book_positive :: "db \<Rightarrow> bool" where
  "book_positive d \<longleftrightarrow> (\<forall>er\<in>set (exchange_rates d). 0 < er_Rate er)"

text \<open>Every row of the book is as it was or has the given rate.\<close>

definition book_step :: "int64 \<Rightarrow> db \<Rightarrow> db \<Rightarrow> bool" where
  "book_step x d d' \<longleftrightarrow> (\<forall>er\<in>set (exchange_rates d'). er \<in> set (exchange_rates d) \<or> er_Rate er = x)"

interpretation book: db_preorder "book_step x" for x
  by unfold_locales (auto simp: book_step_def)

lemma book_upsert: "pres (book_step x) (ExchangeRateRepo_UpsertRate b q x)"
  unfolding ExchangeRateRepo_UpsertRate_def
  by (intro book.pres_mapped book.pres_stmt) (auto simp: book_step_def update_where_def Let_def split: if_splits)

lemma book_sync_pairs: "pres (book_step x) (sync_pairs ps x n e)"
proof (induction ps arbitrary: n e)
  case (Cons p ps)
  obtain b q where "p = (b, q)" by (cases p)
  then show ?case using Cons book_upsert by (auto intro!: book.pres_rules)
qed (auto intro!: book.pres_rules)

lemma book_sync: "pres (book_step x) (SyncMarketRate x)"
  unfolding SyncMarketRate_def by (intro book.pres_rules book_sync_pairs)

lemma more_upsert: "keeps more_same (ExchangeRateRepo_UpsertRate b q x)"
  unfolding ExchangeRateRepo_UpsertRate_def by (intro more_rules)

lemma more_sync: "keeps more_same (SyncMarketRate x)"
proof -
  have "keeps more_same (sync_pairs ps x n e)" for ps n e
  proof (induction ps arbitrary: n e)
    case (Cons p ps)
    obtain b q where "p = (b, q)" by (cases p)
    then show ?case using Cons more_upsert by (auto intro!: more_rules)
  qed (auto intro!: more_rules)
  then show ?thesis unfolding SyncMarketRate_def by (intro more_rules)
qed

lemma fetch_positive: "fetch feeds ns = (Inr rate, ns') \<Longrightarrow> 0 < rate"
  by (induction feeds arbitrary: ns) (auto simp: go_simps bnd_def attempt_def fail_def ret_def split: prod.splits sum.splits if_splits)

text \<open>A feed that answers is believed; whatever the provider returns is positive and was once answered by a feed.\<close>

lemma provider_positive: "NGNPerUSDCKobo ttl feeds now s = (Inr rate, s') \<Longrightarrow> 0 < rate"
  by (auto simp: NGNPerUSDCKobo_def Let_def not_le split: prod.splits sum.splits if_splits option.splits dest: fetch_positive)

fun ticks ::
    "time \<Rightarrow> 'n feed list \<Rightarrow> time list \<Rightarrow> (provider \<times> 'n) \<times> ('c, 'z) vworld_scheme \<Rightarrow> (provider \<times> 'n) \<times> ('c, 'z) vworld_scheme" where
  "ticks ttl feeds [] s = s"
| "ticks ttl feeds (t # ts) (pn, w) = ticks ttl feeds ts (refresh_rate ttl feeds (pn, w\<lparr>clock := t\<rparr>))"

lemma refresh_cases:
  assumes "refresh_rate ttl feeds (pn, w) = (pn', w')"
  obtains (kept) "w' = w" | (live) x where "0 < x" "vrate w' = x" "book_step x (wdb w) (wdb w')"
proof -
  obtain r s where p: "NGNPerUSDCKobo ttl feeds (clock w) pn = (r, s)" by (cases "NGNPerUSDCKobo ttl feeds (clock w) pn")
  show ?thesis
  proof (cases r)
    case (Inl e)
    then show ?thesis using assms p that(1) by (simp add: refresh_rate_def)
  next
    case (Inr x)
    have x: "0 < x" using provider_positive p Inr by blast
    obtain r2 where s: "SyncMarketRate x (w\<lparr>vrate := x\<rparr>) = (r2, w')"
      using assms p Inr x by (cases "SyncMarketRate x (w\<lparr>vrate := x\<rparr>)") (auto simp: refresh_rate_def SetRateMinor_def go_simps)
    have "vrate w' = vrate (w\<lparr>vrate := x\<rparr>)" using keepsD [OF more_sync s] by (rule more_state)
    moreover have "book_step x (wdb w) (wdb w')" using presD [OF book_sync s] by simp
    ultimately show ?thesis using x that(2) by simp
  qed
qed

lemma priced_ticks:
  "0 < vrate w \<Longrightarrow> book_positive (wdb w) \<Longrightarrow> ticks ttl feeds ts (pn, w) = (pn', w') \<Longrightarrow> 0 < vrate w' \<and> book_positive (wdb w')"
proof (induction ts arbitrary: pn w)
  case (Cons t ts)
  obtain pn1 w1 where r: "refresh_rate ttl feeds (pn, w\<lparr>clock := t\<rparr>) = (pn1, w1)" by fastforce
  from r have "0 < vrate w1 \<and> book_positive (wdb w1)"
    by (cases rule: refresh_cases) (use Cons.prems(1,2) in \<open>auto simp: book_positive_def book_step_def\<close>)
  then show ?case using Cons.IH [of w1 pn1] Cons.prems(3) r by simp
qed simp

text \<open>C34. The vault is never priced at zero: if the server starts at all on a rate book without non-positive rates,
  the rate it starts with is positive, and so are the rate of the vault and every rate of the book after any number
  of refreshes at any times, whatever the feeds answer and whichever writes to the book fail; hence the
  conversion of a withdrawal never divides by zero.\<close>

theorem never_priced_at_zero:
  assumes "boot_rate live w0 = (Inr r, w1)" and "book_positive (wdb w0)"
    and "vrate w = r" and "wdb w = wdb w1" and "ticks ttl feeds ts (pn, w) = (pn', w')"
  shows "0 < r \<and> 0 < vrate w' \<and> book_positive (wdb w') \<and> withdrawUSDCBase x (vrate w') \<noteq> None"
proof -
  obtain stored w2 where s: "stored_rate w0 = (Inr stored, w2)" and rest: "(if (case live of Inr l \<Rightarrow> l > 0 | Inl _ \<Rightarrow> False)
     then bnd (ignore (SyncMarketRate (projr live))) (\<lambda>_. ret (projr live))
     else if stored \<le> 0 then fail (ErrOpaque ''market rate: refusing to start with invented pricing'')
     else ret stored) w2 = (Inr r, w1)"
    using assms(1) unfolding boot_rate_def by (elim bnd_okE)
  have "pres (=) stored_rate"
    unfolding stored_rate_def by (intro fixed.pres_rules repos_read repos_read2)
  from presD [OF this s] have w2: "wdb w2 = wdb w0" by simp
  have "0 < r \<and> book_positive (wdb w1)"
  proof (cases "case live of Inr l \<Rightarrow> l > 0 | Inl _ \<Rightarrow> False")
    case True
    then obtain l where l: "live = Inr l" "0 < l" by (auto split: sum.splits)
    obtain q where "SyncMarketRate l w2 = (q, w1)" "r = l"
      using rest True l by (cases "SyncMarketRate l w2") (auto simp: go_simps)
    then have "book_step l (wdb w0) (wdb w1)" using presD [OF book_sync] w2 by fastforce
    then show ?thesis using l(2) assms(2) \<open>r = l\<close> by (auto simp: book_positive_def book_step_def)
  next
    case False
    then show ?thesis using rest assms(2) w2 by (auto simp: go_simps split: if_splits)
  qed
  then show ?thesis
    using priced_ticks [of w ttl feeds ts pn pn' w'] assms(3-5) by (simp add: withdrawUSDCBase_def)
qed

section \<open>A mainnet server signs no withdrawal\<close>

text \<open>The chain calls by which the platform's own key moves a user's or the vault's funds.\<close>

fun platform_moves :: "chain_call \<Rightarrow> bool" where
  "platform_moves (CallSignWithdraw a d x n t) = True"
| "platform_moves (CallTransferToken d x) = True"
| "platform_moves c = False"

definition harmless :: "('c, 'z) vworld_scheme \<Rightarrow> ('c, 'z) vworld_scheme \<Rightarrow> bool" where
  "harmless w w' \<longleftrightarrow> (\<exists>cs. vcalls w' = vcalls w @ cs \<and> (\<forall>c\<in>set cs. \<not> platform_moves c))"

interpretation harmless: go_preorder harmless
proof
  show "harmless w w" for w by (simp add: harmless_def)
  show "harmless w1 w3" if w: "harmless w1 w2" "harmless w2 w3" for w1 w2 w3
  proof -
    obtain cs cs' where "vcalls w2 = vcalls w1 @ cs" "vcalls w3 = vcalls w2 @ cs'" "\<forall>c\<in>set cs \<union> set cs'. \<not> platform_moves c"
      using w unfolding harmless_def by blast
    then show ?thesis unfolding harmless_def by (intro exI [of _ "cs @ cs'"]) simp
  qed
qed

lemma harmless_silent: "keeps silent m \<Longrightarrow> keeps harmless m"
  by (erule keeps_mono) (simp add: silent_def harmless_def)

lemma harmless_more: "keeps more_same m \<Longrightarrow> keeps harmless m"
  by (intro harmless_silent silent_more)

lemma harmless_do: "\<not> platform_moves c \<Longrightarrow> keeps harmless (chain_do c m)"
  by (auto simp: keeps_def harmless_def chain_do_def chain_read_def bnd_def modify_def split: prod.splits)

lemma harmless_state:
  "keeps harmless (modify (\<lambda>w. w\<lparr>vlastBlock := n\<rparr>))" "keeps harmless (modify (\<lambda>w. w\<lparr>vrate := x\<rparr>))"
  "keeps harmless (modify (\<lambda>w. w\<lparr>vaddressUser := f w\<rparr>))" "keeps harmless (modify (\<lambda>w. w\<lparr>vcloneUser := g w\<rparr>))"
  by (simp_all add: keeps_def modify_def harmless_def)

lemmas harmless_rules = harmless.keeps_rules harmless_state harmless_do silent_chain_read [THEN harmless_silent]
  more_reads [THEN harmless_more] more_writes [THEN harmless_more] more_side [THEN harmless_more]
  more_money [THEN harmless_more] more_vault [THEN harmless_more] more_rules [THEN harmless_more]

lemma harmless_broadcast:
  assumes "cfg_RequireUserSignature (v_cfg v)"
  shows "keeps harmless (broadcastWithdrawal v u dst x rel)"
  unfolding keeps_def
proof
  fix w
  obtain r w' where b: "broadcastWithdrawal v u dst x rel w = (r, w')" by (cases "broadcastWithdrawal v u dst x rel w")
  from broadcast_gated [OF b assms] show "harmless w (snd (broadcastWithdrawal v u dst x rel w))"
    by (auto simp: b harmless_def)
qed

lemma harmless_execute:
  "cfg_RequireUserSignature (v_cfg v) \<Longrightarrow> keeps harmless (executeWithdrawal v u dst x fee rel key)"
  unfolding executeWithdrawal_def withdraw_precheck_def broadcast_and_debit_def currentRateMinor_def withdraw_base_def
  by (intro harmless_rules harmless_broadcast)

lemma harmless_sweep: "cfg_RequireUserSignature (v_cfg v) \<Longrightarrow> keeps harmless (sweepDueElevations v)"
  unfolding sweepDueElevations_def sweep_one_def releaseElevation_def
  by (intro harmless_rules harmless_execute silent_finish [THEN harmless_silent] silent_check_live [THEN harmless_silent])

lemma harmless_vault:
  "keeps harmless (EnsureClone v u)" "keeps harmless (PrepareSignedWithdrawal v u dst x)" "keeps harmless (CancelElevation u s)"
  "keeps harmless resumeCursor"
  unfolding EnsureClone_def deploy_clone_def clone_owner_def PrepareSignedWithdrawal_def withdraw_base_def CancelElevation_def
    resumeCursor_def currentRateMinor_def
  by (intro harmless_rules; simp)+

lemma harmless_recovery:
  "keeps harmless (PrepareRecovery v u a)" "keeps harmless (SetRecoveryAddressBySig v u a sig)"
  "keeps harmless (RecoveryStatus_of v u)" "keeps harmless (CustodyStatus_of v u)"
  "keeps harmless (PrepareCustodyClaim v u a)" "keeps harmless (ClaimCustody v u a)"
  "keeps harmless (reconcileRecoveryCache v)"
  unfolding PrepareRecovery_def SetRecoveryAddressBySig_def RecoveryStatus_of_def CustodyStatus_of_def
    PrepareCustodyClaim_def ClaimCustody_def reconcileRecoveryCache_def refreshCloneRecoveryCache_def read_recovery_def
    claimable_def clone_and_owner_def recoveryStatusFromCache_def custodyStatusFromCache_def verify_owner_def
    digest_or_panic_def invalid_signature_def signed_nonce_def
  by (intro harmless_rules; simp)+

lemma harmless_indexer:
  "keeps harmless (senderUserID v s)" "keeps harmless (priced x s)" "keeps harmless (deposit_once v u x key)"
  unfolding senderUserID_def priced_def currentRateMinor_def deposit_once_def
  by (intro harmless_rules)+

lemma harmless_handle:
  "keeps harmless (handleDeposit v t)" "keeps harmless (handleVaultDeposit v dp cm)" "keeps harmless (AttributeDeposit v s n u)"
  unfolding handleDeposit_def creditTransfer_def recordUnattributed_def handleVaultDeposit_def vault_deposit_user_def
    AttributeDeposit_def claim_sender_def
  by (intro harmless_rules harmless_indexer)+

lemma harmless_panic: "keeps harmless (case root e of ErrPanic x \<Rightarrow> fail e | _ \<Rightarrow> ret ())"
  by (cases "root e") (simp_all add: harmless.keeps_rules)

lemma harmless_scan: "keeps harmless (scan v)"
  unfolding scan_def set_baseline_def scan_window_def processTransfers_def commit_cursor_def refreshCloneUsers_def
    processVaultDeposits_def commitmentUserMap_def
  by (intro harmless_rules harmless_handle harmless_panic)

lemma harmless_run:
  assumes "cfg_RequireUserSignature (v_cfg v)"
  shows "keeps harmless (run_vault v op)"
  by (cases op)
    (auto simp: finished_def SetRateMinor_def vault_withdraw_def
      intro!: harmless.keeps_rules harmless_scan harmless_vault harmless_recovery harmless_handle harmless_state
        harmless_sweep [OF assms] harmless_execute [OF assms] more_vault [THEN harmless_more])

text \<open>A sequence of vault operations, each in the state the previous one left but for the clock, the faults and the
  state of the chain, which change in between.\<close>

fun run_vaults :: "'c vault \<Rightarrow> (time \<times> bool list \<times> 'c \<times> vault_op) list \<Rightarrow> ('c, 'z) vworld_scheme \<Rightarrow> ('c, 'z) vworld_scheme" where
  "run_vaults v [] w = w"
| "run_vaults v ((t, fs, c, op) # ops) w = run_vaults v ops (snd (run_vault v op (w\<lparr>clock := t, faults := fs, vchain := c\<rparr>)))"

lemma harmless_runs:
  "cfg_RequireUserSignature (v_cfg v) \<Longrightarrow> harmless w (run_vaults v ops w)"
proof (induction ops arbitrary: w)
  case Nil
  show ?case by (simp add: harmless.refl)
next
  case (Cons q ops)
  obtain t fs c op where q: "q = (t, fs, c, op)" by (cases q)
  let ?w = "w\<lparr>clock := t, faults := fs, vchain := c\<rparr>"
  have "harmless w ?w" by (simp add: harmless_def)
  moreover have "harmless ?w (snd (run_vault v op ?w))" by (rule harmless_run [OF Cons.prems, unfolded keeps_def, rule_format])
  ultimately show ?case unfolding q run_vaults.simps using Cons.IH [OF Cons.prems] harmless.trans by blast
qed

text \<open>C35. A server that may start against the main network never moves user funds with its own key: if the
  configuration passes the production check and targets the main network, then in every sequence of operations of
  the vault service built from it, at any times, under any failures of the database and for every behaviour of the
  chain, the platform signs no withdrawal and makes no token transfer from the shared vault; deposits of unknown
  senders have no fallback account, and at least twelve confirmations are required.\<close>

theorem mainnet_platform_signs_nothing:
  assumes "ValidateProduction cfg = []" and "targets_mainnet cfg"
    and "v_cfg v = vault_defaults (server_vault_config addr cfg)"
  shows "(\<exists>cs. vcalls (run_vaults v ops w) = vcalls w @ cs \<and> (\<forall>c\<in>set cs. \<not> platform_moves c))
    \<and> cfg_FallbackUserID (v_cfg v) = [] \<and> 12 \<le> cfg_MinConfirmations (v_cfg v)"
proof -
  have cfg: "cfg_RequireUserSignature (v_cfg v)" "cfg_FallbackUserID (v_cfg v) = []" "12 \<le> cfg_MinConfirmations (v_cfg v)"
    using production_ok(1-3) [OF assms(1,2)] unfolding assms(3)
    by (simp_all add: vault_defaults_def server_vault_config_def Let_def)
  show ?thesis using harmless_runs [OF cfg(1), of w ops] cfg(2,3) by (simp add: harmless_def)
qed

section \<open>Witnesses\<close>

definition sample_rate_db :: db where
  "sample_rate_db = empty_db\<lparr>exchange_rates := [\<lparr>er_ID = ''r1'', er_Base = ''USDC'', er_Quote = ''NGN'', er_Rate = 150000,
     er_FeeBPS = 50, er_MinMinor = 1000, er_MaxMinor = 1000000000, er_Status = ''active'', er_CreatedAt = 0, er_UpdatedAt = 0\<rparr>]\<rparr>"

lemma sample_boot:
  "\<exists>w1. boot_rate (Inl ErrDB) (sample_vworld sample_rate_db sample_mock) = (Inr 150000, w1)
     \<and> wdb w1 = sample_rate_db"
  by (simp add: boot_rate_def stored_rate_def ExchangeRateRepo_FindByPair_def sample_vworld_def sample_world_def world.defs
      sample_rate_db_def mapped_def on_err_def stmt_def consume_def select_def first_row_def bnd_def attempt_def ret_def)

theorem never_priced_at_zero_witness:
  "\<exists>w. vrate w = 150000 \<and> (\<forall>ts x. withdrawUSDCBase x (vrate (snd (ticks (15 * second) [ret 160000, fail ErrDB] ts ((NewProvider, ()), (w :: mock_chain vworld))))) \<noteq> None)"
proof -
  obtain w1 where boot: "boot_rate (Inl ErrDB) (sample_vworld sample_rate_db sample_mock) = (Inr 150000, w1)" "wdb w1 = sample_rate_db"
    using sample_boot by blast
  let ?w = "(sample_vworld sample_rate_db sample_mock)"
  have book: "book_positive (wdb ?w)" "vrate ?w = 150000" "wdb ?w = wdb w1"
    by (simp_all add: boot(2) book_positive_def sample_rate_db_def sample_vworld_def sample_world_def world.defs)
  show ?thesis
    using never_priced_at_zero [OF boot(1) book, of "15 * second" "[ret 160000, fail ErrDB]" _ "(NewProvider, ())"] book(2)
    by (metis prod.collapse)
qed

definition mainnet_env :: environment where
  "mainnet_env k =
     (if k = ''GLOBMINT_BLOCKCHAIN_NETWORK'' then ''mainnet'' else if k = ''GLOBMINT_BLOCKCHAIN_MODE'' then ''real''
      else if k = ''GLOBMINT_VAULT_MIN_CONFIRMATIONS'' then ''12'' else if k = ''GLOBMINT_REQUIRE_USER_SIGNATURE'' then ''true''
      else if k = ''GLOBMINT_CORS_ORIGINS'' then ''https://app.globmint.io, https://admin.globmint.io''
      else if k \<in> {''GLOBMINT_BLOCKCHAIN_RPC_URL'', ''GLOBMINT_STABLECOIN_PRIVATE_KEY'', ''GLOBMINT_VAULT_CONTRACT_ADDRESS'',
        ''GLOBMINT_VAULT_ADDRESS'', ''GLOBMINT_SESSION_SECRET'', ''GLOBMINT_REQUEST_ID_SALT'', ''GLOBMINT_CLONE_FACTORY_ADDRESS''}
      then ''set'' else [])"

definition mainnet_config :: "nat Config" where
  "mainnet_config = Load (\<lambda>s. None) (\<lambda>s. None) 0 mainnet_env"

definition mainnet_vault :: "mock_chain vault" where
  "mainnet_vault = sample_vault\<lparr>v_cfg := vault_defaults (server_vault_config ''0xvault'' mainnet_config)\<rparr>"

lemma mainnet_accepted: "ValidateProduction mainnet_config = [] \<and> targets_mainnet mainnet_config"
proof -
  have "c_CORSOrigins mainnet_config = [''https://app.globmint.io'', ''https://admin.globmint.io'']"
    by (simp add: mainnet_config_def Load_def csvEnv_def mainnet_env_def TrimSpace_def is_space_def)
  moreover have "c_VaultMinConfirmations mainnet_config = 12" "c_RequireUserSignature mainnet_config"
    by (simp_all add: mainnet_config_def Load_def mainnet_env_def uint64Env_def boolEnv_def parsed_or_def ok_or_none_def
        ParseUint_def ParseBool_def is_digit_def digit_val_def)
  moreover have "c_VaultFallbackUserID mainnet_config = []" "c_SessionSecret mainnet_config = ''set''" "c_RequestIDSalt mainnet_config = ''set''"
    by (simp_all add: mainnet_config_def Load_def mainnet_env_def envOr_def)
  moreover have "bc_Network (c_Blockchain mainnet_config) = ''mainnet''" "bc_Mode (c_Blockchain mainnet_config) = ''real''"
    "bc_RPCURL (c_Blockchain mainnet_config) = ''set''" "bc_PrivateKeyHex (c_Blockchain mainnet_config) = ''set''"
    "bc_VaultContract (c_Blockchain mainnet_config) = ''set''" "bc_VaultAddress (c_Blockchain mainnet_config) = ''set''"
    "bc_CloneFactoryContract (c_Blockchain mainnet_config) = ''set''"
    by (simp_all add: mainnet_config_def Load_def mainnet_env_def envOr_def)
  ultimately show ?thesis
    by (simp add: ValidateProduction_def production_problems_def targets_mainnet_def hasWildcard_def TrimSpace_def is_space_def
        defaultSessionSecret_def defaultRequestSalt_def Let_def)
qed

theorem mainnet_platform_signs_nothing_witness:
  "ValidateProduction mainnet_config = [] \<and> targets_mainnet mainnet_config
   \<and> (\<exists>cs. vcalls (run_vaults mainnet_vault [(hour, [], owned_mock, VWithdraw ''u1'' ''0xdest'' 30000 None ''k''), (2 * hour, [], owned_mock, VSweep)]
        (sample_vworld sample_vdb owned_mock)) = cs \<and> (\<forall>c\<in>set cs. \<not> platform_moves c))"
  using mainnet_platform_signs_nothing [OF conjunct1 [OF mainnet_accepted] conjunct2 [OF mainnet_accepted], of mainnet_vault "''0xvault''"
      "[(hour, [], owned_mock, VWithdraw ''u1'' ''0xdest'' 30000 None ''k''), (2 * hour, [], owned_mock, VSweep)]" "sample_vworld sample_vdb owned_mock"]
    mainnet_accepted
  by (auto simp: mainnet_vault_def sample_calls)

end
