(* ===== verification/Savings.thy ===== *)
theory Savings
  imports Auth Eip712 Config
begin

text \<open>
  Savings addresses and privacy salts (\<open>src/backend/internal/services/savings.go\<close> and
  \<open>src/backend/internal/domain/savings.go\<close>) and the waiting list (\<open>src/backend/internal/services/waitlist.go\<close>). The
  hexadecimal decoder, the hash and the addresses of the Ethereum library are fields of the record \<open>eth\<close>; the
  recovery of a public key from a signature, \<open>crypto.Ecrecover\<close>, is an argument of its own.
\<close>

section \<open>Configuration\<close>

record SavingsConfig =
  sc_VaultContract :: string
  sc_VaultAddress :: string
  sc_StablecoinSymbol :: string
  sc_StablecoinName :: string
  sc_StablecoinDecimals :: int
  sc_StablecoinContract :: string
  sc_Network :: string
  sc_ChainID :: int64
  sc_Mode :: string
  sc_PrivacyMode :: bool

definition FromConfig :: "'f Config \<Rightarrow> SavingsConfig" where
  "FromConfig cfg =
     \<lparr>sc_VaultContract = bc_VaultContract (c_Blockchain cfg),
      sc_VaultAddress = bc_VaultAddress (c_Blockchain cfg),
      sc_StablecoinSymbol = bc_Stablecoin (c_Blockchain cfg),
      sc_StablecoinName = bc_StablecoinName (c_Blockchain cfg),
      sc_StablecoinDecimals = bc_StablecoinDecimals (c_Blockchain cfg),
      sc_StablecoinContract = bc_StablecoinContract (c_Blockchain cfg),
      sc_Network = bc_Network (c_Blockchain cfg),
      sc_ChainID = bc_ChainID (c_Blockchain cfg),
      sc_Mode = bc_Mode (c_Blockchain cfg),
      sc_PrivacyMode = c_PrivacyMode cfg\<rparr>"

record DepositInfo =
  di_Address :: string
  di_VaultContract :: string
  di_StablecoinSymbol :: string
  di_StablecoinName :: string
  di_StablecoinDecimals :: int
  di_StablecoinContract :: string
  di_Network :: string
  di_ChainID :: int64
  di_Mode :: string
  di_PrivacyEnabled :: bool
  di_RequireUserSignature :: bool

section \<open>Addresses\<close>

text \<open>\<open>^0x[0-9a-fA-F]{40}$\<close>\<close>

definition is_hex :: "char \<Rightarrow> bool" where
  "is_hex c \<longleftrightarrow> is_digit c \<or> 97 \<le> (of_char c :: nat) \<and> of_char c \<le> (102 :: nat) \<or> 65 \<le> (of_char c :: nat) \<and> of_char c \<le> (70 :: nat)"

definition addressRe :: "string \<Rightarrow> bool" where
  "addressRe s \<longleftrightarrow> HasPrefix s ''0x'' \<and> length s = 42 \<and> list_all is_hex (drop 2 s)"

definition ValidateDepositAddress :: "string \<Rightarrow> err + string" where
  "ValidateDepositAddress addr =
     (if addr = [] then Inl (ErrOpaque ''deposit address is required'')
      else if \<not> addressRe addr then Inl (ErrOpaque ''invalid Ethereum address'')
      else Inr addr)"

definition GetDepositInfo :: "SavingsConfig \<Rightarrow> DepositInfo" where
  "GetDepositInfo cfg =
     \<lparr>di_Address = sc_VaultAddress cfg, di_VaultContract = sc_VaultContract cfg,
      di_StablecoinSymbol = sc_StablecoinSymbol cfg, di_StablecoinName = sc_StablecoinName cfg,
      di_StablecoinDecimals = sc_StablecoinDecimals cfg, di_StablecoinContract = sc_StablecoinContract cfg,
      di_Network = sc_Network cfg, di_ChainID = sc_ChainID cfg, di_Mode = sc_Mode cfg,
      di_PrivacyEnabled = sc_PrivacyMode cfg, di_RequireUserSignature = False\<rparr>"

section \<open>Salts\<close>

definition ensureUserSalt :: "string \<Rightarrow> ('z aworld_scheme, unit) go" where
  "ensureUserSalt userID =
     bnd (attempt (UserSaltsRepo_FindByUser userID)) (\<lambda>r.
     if (case r of Inr existing \<Rightarrow> existing \<noteq> [] | Inl _ \<Rightarrow> False) then ret ()
     else bnd (case r of Inl e \<Rightarrow> reject (\<not> errIs e ErrNotFound) e | Inr _ \<Rightarrow> ret ()) (\<lambda>_.
     bnd (rand_Read 16) (\<lambda>salt.
     UserSaltsRepo_Upsert userID salt)))"

definition SetDepositAddress :: "SavingsConfig \<Rightarrow> string \<Rightarrow> string \<Rightarrow> ('z aworld_scheme, DepositInfo) go" where
  "SetDepositAddress cfg userID address =
     (case ValidateDepositAddress address of
        Inl _ \<Rightarrow> fail ErrInvalidAddress
      | Inr addr \<Rightarrow>
          bnd (DepositAddressRepo_OwnerOf addr) (\<lambda>owner.
          bnd (reject (owner \<noteq> [] \<and> owner \<noteq> userID) ErrConflict) (\<lambda>_.
          bnd (DepositAddressRepo_Set userID addr) (\<lambda>_.
          bnd (if sc_PrivacyMode cfg then ensureUserSalt userID else ret ()) (\<lambda>_.
          ret (GetDepositInfo cfg))))))"

definition personal_hash :: "eth \<Rightarrow> string \<Rightarrow> byte list" where
  "personal_hash E message =
     Keccak256Hash E (bytes_of (char_of (25 :: nat) # ''Ethereum Signed Message:'' @ [char_of (10 :: nat)] @ show_nat (length message) @ message))"

definition isValidPersonalSignature ::
    "eth \<Rightarrow> (byte list \<Rightarrow> byte list \<Rightarrow> err + byte list) \<Rightarrow> string \<Rightarrow> string \<Rightarrow> string \<Rightarrow> bool" where
  "isValidPersonalSignature E Ecrecover signature message expected =
     (let sig = FromHex E signature in
      if length sig \<noteq> 65 then False
      else let sig = (if sig ! 64 = 27 \<or> sig ! 64 = 28 then sig[64 := sig ! 64 - 27] else sig)
           in case Ecrecover (personal_hash E message) sig of
                Inl _ \<Rightarrow> False
              | Inr recovered \<Rightarrow> EqualFold (addr_Hex E (BytesToAddress E recovered)) expected)"

definition SetWalletDerivedSalt ::
    "eth \<Rightarrow> (byte list \<Rightarrow> byte list \<Rightarrow> err + byte list) \<Rightarrow> SavingsConfig \<Rightarrow> string \<Rightarrow> string \<Rightarrow> string \<Rightarrow> string \<Rightarrow> ('z world_scheme, unit) go" where
  "SetWalletDerivedSalt E Ecrecover cfg userID saltHex message signature =
     bnd (reject (\<not> sc_PrivacyMode cfg) ErrInvalidOperation) (\<lambda>_.
     bnd (reject (\<exists>e. ValidateDepositAddress saltHex = Inl e) ErrInvalidSalt) (\<lambda>_.
     bnd (reject (message = [] \<or> signature = []) ErrInvalidSignature) (\<lambda>_.
     bnd (DepositAddressRepo_FindByUser userID) (\<lambda>link.
     bnd (reject (da_Address link = []) ErrNoLinkedWallet) (\<lambda>_.
     bnd (reject (\<not> isValidPersonalSignature E Ecrecover signature message (da_Address link)) ErrInvalidSignature) (\<lambda>_.
     let salt = FromHex E saltHex in
     bnd (reject (length salt \<noteq> 16) ErrInvalidSalt) (\<lambda>_.
     bnd (attempt (UserSaltsRepo_FindByUser userID)) (\<lambda>r.
     bnd (case r of Inl e \<Rightarrow> reject (\<not> errIs e ErrNotFound) e | Inr _ \<Rightarrow> ret ()) (\<lambda>_.
     bnd (reject (case r of Inr existing \<Rightarrow> existing \<noteq> [] \<and> existing \<noteq> salt | Inl _ \<Rightarrow> False) ErrSaltImmutable) (\<lambda>_.
     UserSaltsRepo_UpsertWithDerivation userID salt ''wallet-derived'' (da_Address link)))))))))))"

section \<open>Waiting list\<close>

definition Join :: "WaitlistSignup \<Rightarrow> ('z world_scheme, unit) go" where
  "Join signup =
     (let signup = signup\<lparr>wl_Email := ToLower (TrimSpace (wl_Email signup))\<rparr> in
      bnd (reject (\<not> emailRe (wl_Email signup)) ErrInvalidEmail) (\<lambda>_.
      let signup = (if TrimSpace (wl_Source signup) = [] then signup\<lparr>wl_Source := ''landing''\<rparr> else signup)
      in WaitlistRepo_Join (signup\<lparr>wl_IPHash := TrimSpace (wl_IPHash signup)\<rparr>)))"

definition waitlist_Count :: "('z world_scheme, int) go" where
  "waitlist_Count = WaitlistRepo_Count"

end
