(* ===== verification/SavingsProps.thy ===== *)
theory SavingsProps
  imports Savings
begin

text \<open>
  What the savings service promises: a wallet address belongs to one user and a privacy salt that was once chosen is
  never replaced, whatever fails in between; and what it does not do: no salt derived from a wallet is ever
  recorded.
\<close>

section \<open>Steps of the two tables\<close>

definition addresses_unique :: "db \<Rightarrow> bool" where
  "addresses_unique d \<longleftrightarrow> distinct (map da_UserID (deposit_addresses d)) \<and> distinct (map da_Address (deposit_addresses d))"

definition salts_unique :: "db \<Rightarrow> bool" where
  "salts_unique d \<longleftrightarrow> distinct (map salt_UserID (user_salts d))"

definition salts_kept :: "db \<Rightarrow> db \<Rightarrow> bool" where
  "salts_kept d d' \<longleftrightarrow> (\<forall>r\<in>set (user_salts d). salt_Salt r \<noteq> [] \<longrightarrow> r \<in> set (user_salts d'))"

definition savings_step :: "db \<Rightarrow> db \<Rightarrow> bool" where
  "savings_step d d' \<longleftrightarrow>
     (addresses_unique d \<and> salts_unique d \<longrightarrow> addresses_unique d' \<and> salts_unique d' \<and> salts_kept d d')"

interpretation savings: db_preorder savings_step
  by unfold_locales (auto simp: savings_step_def salts_kept_def)

lemma distinct_replace:
  assumes "distinct (map f rs)" and "\<And>r. r \<in> set rs \<Longrightarrow> P r \<Longrightarrow> f (g r) = k" and "\<And>r. r \<in> set rs \<Longrightarrow> \<not> P r \<Longrightarrow> f r \<noteq> k"
    and "\<And>r s. r \<in> set rs \<Longrightarrow> s \<in> set rs \<Longrightarrow> P r \<Longrightarrow> P s \<Longrightarrow> r = s"
  shows "distinct (map f (update_where P g rs))"
  using assms
proof (induction rs)
  case (Cons a rs)
  have "distinct (map f (update_where P g rs))" using Cons.prems by (intro Cons.IH) simp_all
  moreover have "f (if P x then g x else x) \<noteq> f (if P a then g a else a)" if x: "x \<in> set rs" for x
  proof -
    have "x \<noteq> a" using Cons.prems(1) x by auto
    then have "P x \<Longrightarrow> \<not> P a" using Cons.prems(4) [of x a] x by auto
    then show ?thesis using Cons.prems(1-3) x by (auto simp: image_iff)
  qed
  ultimately show ?case by (auto simp: update_where_def) (metis+)
qed (simp add: update_where_def)

lemma savings_address: "pres savings_step (DepositAddressRepo_Set uid address)"
proof -
  have "addresses_unique d'" if u: "addresses_unique d" and free: "\<not> (\<exists>a\<in>set (deposit_addresses d). da_UserID a \<noteq> uid \<and> da_Address a = address)"
    and d': "d' = d\<lparr>deposit_addresses := update_where (\<lambda>r. da_UserID r = uid) (\<lambda>_. a\<lparr>da_Address := address, da_UpdatedAt := t\<rparr>) (deposit_addresses d)\<rparr>"
    and a: "da_UserID a = uid" for d d' a t
  proof -
    let ?rs = "deposit_addresses d"
    have same: "r = s" if "r \<in> set ?rs" "s \<in> set ?rs" "da_UserID r = uid" "da_UserID s = uid" for r s
      using u that by (auto simp: addresses_unique_def distinct_map dest: inj_onD)
    have "distinct (map da_UserID (deposit_addresses d'))" unfolding d' using u a same
      by (simp, intro distinct_replace [where k = uid]) (auto simp: addresses_unique_def)
    moreover have "distinct (map da_Address (deposit_addresses d'))" unfolding d' using u free same
      by (simp, intro distinct_replace [where k = address]) (auto simp: addresses_unique_def)
    ultimately show ?thesis by (simp add: addresses_unique_def)
  qed
  then show ?thesis
    unfolding DepositAddressRepo_Set_def
    by (intro savings.pres_mapped savings.pres_stmt)
      (auto simp: savings_step_def salts_kept_def salts_unique_def addresses_unique_def Let_def find_Some_iff find_None_iff split: if_splits option.splits)
qed

text \<open>A salt is written for a user that has none.\<close>

definition unsalted :: "string \<Rightarrow> db \<Rightarrow> bool" where
  "unsalted uid d \<longleftrightarrow> (\<forall>r\<in>set (user_salts d). salt_UserID r = uid \<longrightarrow> salt_Salt r = [])"

lemma upsert_unsalted:
  assumes "UserSaltsRepo_Upsert uid salt w = (r, w')" and "unsalted uid (wdb w)"
  shows "savings_step (wdb w) (wdb w')"
proof (cases r)
  case (Inl e)
  then have "wdb w' = wdb w" using assms(1) by (auto simp: UserSaltsRepo_Upsert_def UserSaltsRepo_upsert_def dest: stmt_err(1))
  then show ?thesis by (simp add: savings.refl)
next
  case (Inr x)
  have user: "map salt_UserID (update_where P (\<lambda>r. r\<lparr>salt_Salt := salt\<rparr>) rs) = map salt_UserID rs" for P rs
    by (induction rs) (auto simp: update_where_def)
  from assms(1) [unfolded Inr UserSaltsRepo_Upsert_def UserSaltsRepo_upsert_def]
  obtain i' where i: "(\<lambda>_ t d. if \<exists>r\<in>set (user_salts d). salt_UserID r = uid
      then Inr ((), d\<lparr>user_salts := update_where (\<lambda>r. salt_UserID r = uid) (\<lambda>r. r\<lparr>salt_Salt := salt\<rparr>) (user_salts d)\<rparr>)
      else if \<not> has_user d uid then Inl ErrDB
      else Inr ((), d\<lparr>user_salts := user_salts d @
            [\<lparr>salt_UserID = uid, salt_Salt = [], salt_Derivation = ''random'', salt_SourceAddress = []\<rparr>\<lparr>salt_Salt := salt\<rparr>]\<rparr>))
      (i' :: string) (clock w) (wdb w) = Inr (x, wdb w')"
    by (elim stmt_okE) blast
  consider (old) "wdb w' = (wdb w)\<lparr>user_salts := update_where (\<lambda>r. salt_UserID r = uid) (\<lambda>r. r\<lparr>salt_Salt := salt\<rparr>) (user_salts (wdb w))\<rparr>"
    | (new) "\<forall>r\<in>set (user_salts (wdb w)). salt_UserID r \<noteq> uid"
      "wdb w' = (wdb w)\<lparr>user_salts := user_salts (wdb w) @
            [\<lparr>salt_UserID = uid, salt_Salt = salt, salt_Derivation = ''random'', salt_SourceAddress = []\<rparr>]\<rparr>"
  proof (cases "\<exists>r\<in>set (user_salts (wdb w)). salt_UserID r = uid")
    case True
    from i [simplified True if_True] have "wdb w' = (wdb w)\<lparr>user_salts := update_where (\<lambda>r. salt_UserID r = uid) (\<lambda>r. r\<lparr>salt_Salt := salt\<rparr>) (user_salts (wdb w))\<rparr>"
      by simp
    then show ?thesis by (rule old)
  next
    case False
    then show ?thesis using i new by (simp split: if_splits)
  qed
  then show ?thesis
  proof cases
    case old
    have "r \<in> set (update_where (\<lambda>r. salt_UserID r = uid) (\<lambda>r. r\<lparr>salt_Salt := salt\<rparr>) (user_salts (wdb w)))"
      if "r \<in> set (user_salts (wdb w))" "salt_Salt r \<noteq> []" for r
      using that assms(2) by (force simp: update_where_def unsalted_def)
    then show ?thesis by (simp add: old savings_step_def addresses_unique_def salts_unique_def salts_kept_def user)
  next
    case new
    then show ?thesis by (auto simp: savings_step_def addresses_unique_def salts_unique_def salts_kept_def)
  qed
qed

lemma rand_wdb: "rand_Read n w = (r, w') \<Longrightarrow> wdb w' = wdb w"
  by (auto simp: rand_Read_def Let_def split: if_splits)

lemma find_salt:
  assumes "UserSaltsRepo_FindByUser uid w = (r, w')" and "salts_unique (wdb w)"
    and "case r of Inr existing \<Rightarrow> existing = [] | Inl e \<Rightarrow> errIs e ErrNotFound"
  shows "wdb w' = wdb w" and "unsalted uid (wdb w)"
proof -
  have "pres (=) (UserSaltsRepo_FindByUser uid)" by (rule repos_read)
  from presD [OF this assms(1)] show same: "wdb w' = wdb w" by simp
  show "unsalted uid (wdb w)"
  proof (cases r)
    case (Inr existing)
    then have "existing = []" using assms(3) by simp
    have "map_sum id salt_Salt (first_row (\<lambda>r. salt_UserID r = uid) (user_salts (wdb w))) = Inr []"
      using assms(1) [unfolded UserSaltsRepo_FindByUser_def Inr \<open>existing = []\<close>]
      by (elim mapped_okE stmt_okE select_okE)
    then obtain row where "first_row (\<lambda>r. salt_UserID r = uid) (user_salts (wdb w)) = Inr row" "salt_Salt row = []"
      by (cases "first_row (\<lambda>r. salt_UserID r = uid) (user_salts (wdb w))") auto
    then have row: "row \<in> set (user_salts (wdb w))" "salt_UserID row = uid" "salt_Salt row = []" using first_row_okD by fastforce+
    have "r = row" if "r \<in> set (user_salts (wdb w))" "salt_UserID r = uid" for r
      using assms(2) that row(1,2) by (auto simp: salts_unique_def distinct_map dest: inj_onD)
    then show ?thesis using row(3) by (auto simp: unsalted_def)
  next
    case (Inl e)
    then obtain e0 where e0: "stmt (select (\<lambda>d. map_sum id salt_Salt (first_row (\<lambda>r. salt_UserID r = uid) (user_salts d)))) w = (Inl e0, w')"
      "e = mapPgErr e0"
      using assms(1) unfolding UserSaltsRepo_FindByUser_def mapped_def on_err_def by (auto split: prod.splits sum.splits)
    have "e0 \<noteq> ErrDB" using assms(3) Inl e0(2) by (auto simp: mapPgErr_def errIs_def)
    then have "map_sum id salt_Salt (first_row (\<lambda>r. salt_UserID r = uid) (user_salts (wdb w))) = Inl e0"
      using e0(1) by (auto simp: stmt_def select_def Let_def split: if_splits prod.splits sum.splits)
    then have "first_row (\<lambda>r. salt_UserID r = uid) (user_salts (wdb w)) = Inl e0"
      by (cases "first_row (\<lambda>r. salt_UserID r = uid) (user_salts (wdb w))") auto
    from first_row_errD [OF this] show ?thesis by (simp add: unsalted_def)
  qed
qed

section \<open>The service\<close>

lemma step_reflect: "wdb w' = wdb w \<Longrightarrow> savings_step (wdb w) (wdb w')"
  by (simp add: savings.refl)

lemma savings_ensure:
  assumes "ensureUserSalt uid w = (r, w')"
  shows "savings_step (wdb w) (wdb w')"
proof (cases "salts_unique (wdb w)")
  case True
  obtain q w1 where f: "UserSaltsRepo_FindByUser uid w = (q, w1)" by (cases "UserSaltsRepo_FindByUser uid w")
  have "pres (=) (UserSaltsRepo_FindByUser uid)" by (rule repos_read)
  from presD [OF this f] have w1: "wdb w1 = wdb w" by simp
  show ?thesis
  proof (cases "case q of Inr existing \<Rightarrow> existing = [] | Inl e \<Rightarrow> errIs e ErrNotFound")
    case wanted: True
    have un: "unsalted uid (wdb w)" using find_salt(2) [OF f True wanted] .
    obtain b w2 where rd: "rand_Read 16 w1 = (b, w2)" by (cases "rand_Read 16 w1")
    have w2: "wdb w2 = wdb w" using rand_wdb [OF rd] w1 by simp
    show ?thesis
    proof (cases b)
      case (Inl e)
      then have "wdb w' = wdb w" using assms wanted f w2 rd
        by (cases q) (auto simp: ensureUserSalt_def bnd_basic bnd_reject go_simps)
      then show ?thesis by (rule step_reflect)
    next
      case (Inr salt)
      then have "UserSaltsRepo_Upsert uid salt w2 = (r, w')" using assms wanted f rd
        by (cases q) (auto simp: ensureUserSalt_def bnd_basic bnd_reject go_simps)
      then show ?thesis using upsert_unsalted [of uid salt w2 r w'] un w2 by simp
    qed
  next
    case False
    then have "w' = w1" using assms f
      by (cases q) (auto simp: ensureUserSalt_def bnd_basic bnd_reject ret_def)
    then show ?thesis using w1 by (intro step_reflect) simp
  qed
next
  case False
  then show ?thesis by (simp add: savings_step_def)
qed

lemma savings_set:
  assumes "SetDepositAddress cfg uid addr w = (r, w')"
  shows "savings_step (wdb w) (wdb w')"
proof -
  have "pres savings_step (ensureUserSalt uid)"
    unfolding pres_def by (metis savings_ensure surjective_pairing)
  then have "pres savings_step (SetDepositAddress cfg uid addr)"
    unfolding SetDepositAddress_def
    by (intro savings.pres_rules savings_address repos_read [THEN savings.pres_fixed])
  from presD [OF this assms] show ?thesis .
qed

text \<open>A hexadecimal text with its prefix decodes to half as many bytes as it has digits: what \<open>common.FromHex\<close>
  documents.\<close>

definition decodes_hex :: "eth \<Rightarrow> bool" where
  "decodes_hex E \<longleftrightarrow> (\<forall>ds. list_all is_hex ds \<and> even (length ds) \<longrightarrow> length (FromHex E (''0x'' @ ds)) = length ds div 2)"

lemma HasPrefix_append: "HasPrefix s p \<longleftrightarrow> (\<exists>t. s = p @ t)"
  by (induction s p rule: HasPrefix.induct) auto

lemma salt_length:
  assumes "decodes_hex E" and "ValidateDepositAddress s = Inr a"
  shows "length (FromHex E s) = 20"
proof -
  obtain ds where ds: "s = ''0x'' @ ds" "length ds = 40" "list_all is_hex ds"
    using assms(2) by (auto simp: ValidateDepositAddress_def addressRe_def HasPrefix_append split: if_splits)
  then have "length (FromHex E (''0x'' @ ds)) = length ds div 2"
    using assms(1) unfolding decodes_hex_def by (metis even_numeral)
  then show ?thesis using ds by simp
qed

lemma wallet_salt_fails:
  assumes "decodes_hex E" and "SetWalletDerivedSalt E Ecrecover cfg uid saltHex message signature w = (r, w')"
  shows "(\<exists>e. r = Inl e) \<and> wdb w' = wdb w"
proof -
  obtain q w1 where f: "DepositAddressRepo_FindByUser uid w = (q, w1)" by (cases "DepositAddressRepo_FindByUser uid w")
  have "pres (=) (DepositAddressRepo_FindByUser uid)" by (rule repos_read)
  from presD [OF this f] have "wdb w1 = wdb w" by simp
  then show ?thesis
    using assms(2) f salt_length [OF assms(1), of saltHex]
    by (cases q; cases "ValidateDepositAddress saltHex")
      (auto simp: SetWalletDerivedSalt_def bnd_reject bnd_Inl bnd_Inr Let_def split: if_splits)
qed

text \<open>Operations of the service, each in the state the previous one left but for the clock, the faults and the supply
  of random bytes.\<close>

datatype savings_op = SetAddress string string | WalletSalt string string string string

fun run_savings :: "eth \<Rightarrow> (byte list \<Rightarrow> byte list \<Rightarrow> err + byte list) \<Rightarrow> SavingsConfig \<Rightarrow> savings_op \<Rightarrow> ('z aworld_scheme, unit) go" where
  "run_savings E R cfg (SetAddress uid addr) = bnd (SetDepositAddress cfg uid addr) (\<lambda>_. ret ())"
| "run_savings E R cfg (WalletSalt uid s m g) = SetWalletDerivedSalt E R cfg uid s m g"

inductive savings_reachable :: "eth \<Rightarrow> (byte list \<Rightarrow> byte list \<Rightarrow> err + byte list) \<Rightarrow> SavingsConfig \<Rightarrow> db \<Rightarrow> db \<Rightarrow> bool"
  for E R cfg d0 where
  start: "savings_reachable E R cfg d0 d0"
| step: "savings_reachable E R cfg d0 (wdb w) \<Longrightarrow> run_savings E R cfg op (w :: aworld) = (r, w') \<Longrightarrow> savings_reachable E R cfg d0 (wdb w')"

lemma savings_run:
  assumes "decodes_hex E" and "run_savings E R cfg op w = (r, w')"
  shows "savings_step (wdb w) (wdb w')"
proof (cases op)
  case (SetAddress uid addr)
  obtain q w1 where s: "SetDepositAddress cfg uid addr w = (q, w1)" by (cases "SetDepositAddress cfg uid addr w")
  then have "w' = w1" using assms(2) SetAddress by (cases q) (auto simp: bnd_def ret_def)
  then show ?thesis using savings_set [OF s] by simp
next
  case (WalletSalt uid s m g)
  with assms(2) have "SetWalletDerivedSalt E R cfg uid s m g w = (r, w')" by simp
  from wallet_salt_fails [OF assms(1) this] show ?thesis by (intro step_reflect) simp
qed

lemma savings_reachable_step:
  assumes "savings_reachable E R cfg d0 d" and "decodes_hex E"
  shows "savings_step d0 d"
  using assms(1)
proof induction
  case (step w op r w')
  then show ?case using savings_run [OF assms(2)] savings.trans by blast
qed (rule savings.refl)

text \<open>C36. A linked wallet belongs to one user and a privacy salt stays: in every state reached by any operations of the
  savings service, at any times, with any random bytes and under any failures of the database, no address is linked
  to two users and no user has two links or two salts, and every salt that a user had is still the same, so that the
  commitments derived from it keep resolving.\<close>

theorem links_exclusive_salts_kept:
  assumes "savings_reachable E R cfg d0 d" and "decodes_hex E" and "addresses_unique d0" and "salts_unique d0"
  shows "addresses_unique d \<and> salts_unique d \<and> (\<forall>r\<in>set (user_salts d0). salt_Salt r \<noteq> [] \<longrightarrow> r \<in> set (user_salts d))"
  using savings_reachable_step [OF assms(1,2)] assms(3,4) by (simp add: savings_step_def salts_kept_def)

text \<open>C37. A salt derived from the user's wallet is never recorded: whatever salt, message and signature are submitted,
  in whatever mode and state, the request fails and changes nothing, because a text that passes the address check
  decodes to twenty bytes where a salt must have sixteen.\<close>

theorem wallet_salt_never_recorded:
  assumes "SetWalletDerivedSalt E Ecrecover cfg uid saltHex message signature w = (r, w')" and "decodes_hex E"
  shows "(\<exists>e. r = Inl e) \<and> wdb w' = wdb w"
  using wallet_salt_fails [OF assms(2,1)] .

section \<open>Witnesses\<close>

definition hex_eth :: eth where
  "hex_eth = \<lparr>Keccak256Hash = (\<lambda>bs. replicate 32 0), hash_Hex = (\<lambda>bs. []), IsHexAddress = addressRe, HexToAddress = (\<lambda>s. replicate 20 0),
     addr_Hex = (\<lambda>bs. ''0x''), FromHex = (\<lambda>s. replicate ((length s - 2) div 2) 0), Bytes2Hex = (\<lambda>bs. []),
     crypto_Sign = (\<lambda>h k. Inl ErrDB), SigToPub = (\<lambda>h s. Inl ErrDB), PubkeyToAddress = (\<lambda>p. p), BytesToAddress = (\<lambda>b. b),
     HexToHash = (\<lambda>s. []), HexToECDSA = (\<lambda>s. Inl ErrDB), PublicKey = (\<lambda>k. k)\<rparr>"

lemma hex_eth_decodes: "decodes_hex hex_eth"
  by (simp add: decodes_hex_def hex_eth_def)

definition private_savings :: SavingsConfig where
  "private_savings = \<lparr>sc_VaultContract = ''0xc'', sc_VaultAddress = ''0xvault'', sc_StablecoinSymbol = ''USDC'', sc_StablecoinName = ''USD Coin'',
     sc_StablecoinDecimals = 6, sc_StablecoinContract = ''0xs'', sc_Network = ''base'', sc_ChainID = 8453, sc_Mode = ''real'',
     sc_PrivacyMode = True\<rparr>"

definition wallet :: string where
  "wallet = ''0x00000000000000000000000000000000000000aa''"

definition saver :: user_row where
  "saver = \<lparr>u_ID = ''u1'', u_Email = ''ada@b.org'', u_Phone = [], u_FirstName = ''Ada'', u_LastName = [],
     u_PasswordHash = [], u_PINHash = [], u_TOTPSecret = [], u_TOTPEnabled = False, u_Status = UserStatusActive,
     u_CreatedAt = 0, u_UpdatedAt = 0, u_EmailVerifiedAt = Some 0, notify_new_signin = True, notify_failed_login = True\<rparr>"

definition savings_db :: db where
  "savings_db = empty_db\<lparr>users := [saver], user_salts := [\<lparr>salt_UserID = ''u1'', salt_Salt = [1, 2], salt_Derivation = ''random'', salt_SourceAddress = []\<rparr>]\<rparr>"

definition savings_world :: "db \<Rightarrow> aworld" where
  "savings_world d = \<lparr>wdb = d, faults = [], txst = NoTx, clock = hour, uuid = (\<lambda>n. ''id''), uuid_n = 0,
     randref = (\<lambda>n. []), rand_n = 0, hub_log = [], mail_log = [], attempts = Map.empty, lastAlert = Map.empty,
     rnd = (\<lambda>n. of_nat n), rnd_fails = (\<lambda>n. False), rnd_pos = 0\<rparr>"

lemma savings_world_wdb: "wdb (savings_world d) = d"
  by (simp add: savings_world_def)

lemma wallet_valid: "ValidateDepositAddress wallet = Inr wallet"
  by (simp add: ValidateDepositAddress_def addressRe_def wallet_def is_hex_def is_digit_def)

lemma sample_free: "DepositAddressRepo_OwnerOf wallet (savings_world savings_db) = (Inr [], (savings_world savings_db)\<lparr>uuid_n := 1\<rparr>)"
  by (simp add: DepositAddressRepo_OwnerOf_def stmt_def consume_def savings_world_def savings_db_def empty_db_def select_def
      first_row_def bnd_def attempt_def ret_def mapPgErr_def errIs_def Let_def)

lemma sample_set: "\<exists>a. DepositAddressRepo_Set ''u1'' wallet ((savings_world savings_db)\<lparr>uuid_n := 1\<rparr>) = (Inr a, (savings_world (savings_db\<lparr>deposit_addresses := [a]\<rparr>))\<lparr>uuid_n := 2\<rparr>) \<and> da_Address a = wallet"
  by (simp add: DepositAddressRepo_Set_def stmt_def consume_def savings_world_def savings_db_def empty_db_def mapped_def on_err_def  has_user_def saver_def Let_def)

lemma sample_salt: "UserSaltsRepo_FindByUser ''u1'' ((savings_world (savings_db\<lparr>deposit_addresses := [a]\<rparr>))\<lparr>uuid_n := 2\<rparr>) = (Inr [1,2], (savings_world (savings_db\<lparr>deposit_addresses := [a]\<rparr>))\<lparr>uuid_n := 3\<rparr>)"
  by (simp add: UserSaltsRepo_FindByUser_def stmt_def consume_def savings_world_def savings_db_def empty_db_def mapped_def on_err_def select_def first_row_def Let_def)

lemma sample_link:
  "\<exists>w'. run_savings hex_eth (\<lambda>h s. Inl ErrDB) private_savings (SetAddress ''u1'' wallet) (savings_world savings_db) = (Inr (), w')
     \<and> map da_Address (deposit_addresses (wdb w')) = [wallet]"
proof -
  obtain a where a: "DepositAddressRepo_Set ''u1'' wallet ((savings_world savings_db)\<lparr>uuid_n := 1\<rparr>)
      = (Inr a, (savings_world (savings_db\<lparr>deposit_addresses := [a]\<rparr>))\<lparr>uuid_n := 2\<rparr>)" "da_Address a = wallet"
    using sample_set by blast
  have "ensureUserSalt ''u1'' ((savings_world (savings_db\<lparr>deposit_addresses := [a]\<rparr>))\<lparr>uuid_n := 2\<rparr>)
      = (Inr (), (savings_world (savings_db\<lparr>deposit_addresses := [a]\<rparr>))\<lparr>uuid_n := 3\<rparr>)"
    by (simp add: ensureUserSalt_def bnd_basic sample_salt ret_def)
  then show ?thesis
    by (simp add: SetDepositAddress_def wallet_valid bnd_def sample_free a(1) reject_def ret_def private_savings_def
        del: One_nat_def)
      (simp add: savings_world_def a(2))
qed

theorem links_exclusive_salts_kept_witness:
  "\<exists>d. savings_reachable hex_eth (\<lambda>h s. Inl ErrDB) private_savings savings_db d \<and> map da_Address (deposit_addresses d) = [wallet]
     \<and> \<lparr>salt_UserID = ''u1'', salt_Salt = [1, 2], salt_Derivation = ''random'', salt_SourceAddress = []\<rparr> \<in> set (user_salts d)"
proof -
  obtain w' where run: "run_savings hex_eth (\<lambda>h s. Inl ErrDB) private_savings (SetAddress ''u1'' wallet) (savings_world savings_db) = (Inr (), w')"
    and linked: "map da_Address (deposit_addresses (wdb w')) = [wallet]" using sample_link by (elim exE conjE)
  have "savings_reachable hex_eth (\<lambda>h s. Inl ErrDB) private_savings savings_db (wdb (savings_world savings_db))"
    unfolding savings_world_wdb by (rule savings_reachable.start)
  from savings_reachable.step [OF this run]
  have reach: "savings_reachable hex_eth (\<lambda>h s. Inl ErrDB) private_savings savings_db (wdb w')" .
  have "addresses_unique savings_db" "salts_unique savings_db"
    by (simp_all add: addresses_unique_def salts_unique_def savings_db_def empty_db_def)
  from links_exclusive_salts_kept [OF reach hex_eth_decodes this] reach linked show ?thesis
    by (auto simp: savings_db_def)
qed

theorem wallet_salt_never_recorded_witness:
  "decodes_hex hex_eth \<and> (\<exists>e. fst (SetWalletDerivedSalt hex_eth (\<lambda>h s. Inr [1]) private_savings ''u1'' wallet ''m'' ''s'' (savings_world savings_db)) = Inl e)"
proof -
  let ?m = "SetWalletDerivedSalt hex_eth (\<lambda>h s. Inr [1]) private_savings ''u1'' wallet ''m'' ''s'' (savings_world savings_db)"
  obtain r w' where run: "?m = (r, w')" by (rule prod.exhaust)
  from wallet_salt_never_recorded [OF run hex_eth_decodes] obtain e where "r = Inl e" by blast
  then have "fst ?m = Inl e" by (simp only: run fst_conv)
  with hex_eth_decodes show ?thesis by blast
qed

end
