(* ===== verification/Server.thy ===== *)
theory Server
  imports Http Savings Market VaultRecovery VaultIndexer
begin

text \<open>
  What the HTTP handlers share (\<open>src/backend/internal/httpapi/\<close>: \<open>deps.go\<close>, \<open>dto.go\<close>, \<open>money_dto.go\<close>,
  \<open>security_dto.go\<close>). The state of the whole process, \<open>server\<close>, is the world of the vault service together with
  the mutable fields of the authentication service and the buckets of the rate limiters; an operation of the
  authentication service runs on its part of it (\<open>in_auth\<close>). \<open>Deps\<close> are the services the handlers call. A service
  that is not configured is \<open>None\<close>; a method call on it that reads a field panics (\<open>need\<close>).
\<close>

section \<open>The state of the process\<close>

record 'c server = "'c vworld" +
  p_attempts :: "string \<rightharpoonup> attemptWindow"
  p_lastAlert :: "string \<rightharpoonup> time"
  p_rnd :: "nat \<Rightarrow> byte"
  p_rnd_fails :: "nat \<Rightarrow> bool"
  p_rnd_pos :: nat
  p_limiters :: "string \<Rightarrow> rateLimiter"

definition auth_view :: "'c server \<Rightarrow> aworld" where
  "auth_view p = world.extend (world.truncate p)
     (aworld.fields (p_attempts p) (p_lastAlert p) (p_rnd p) (p_rnd_fails p) (p_rnd_pos p))"

definition put_auth :: "'c server \<Rightarrow> aworld \<Rightarrow> 'c server" where
  "put_auth p a = (world.extend (world.truncate a) (world.more p))
     \<lparr>p_attempts := attempts a, p_lastAlert := lastAlert a, p_rnd := rnd a, p_rnd_fails := rnd_fails a, p_rnd_pos := rnd_pos a\<rparr>"

definition in_auth :: "(aworld, 'a) go \<Rightarrow> ('c server, 'a) go" where
  "in_auth m p = (case m (auth_view p) of (r, a) \<Rightarrow> (r, put_auth p a))"

section \<open>The services\<close>

record 'c Deps =
  d_Auth :: auth
  d_Money :: money_cfg
  d_Savings :: "SavingsConfig option"
  d_Security :: "bool option"
  d_Blockchain :: "'c chain_service option"
  d_GetTokenBalance :: "string \<Rightarrow> ('c, string) go"
  d_Vault :: "'c vault option"
  d_Events :: bool
  d_OperatorToken :: string
  d_RequireUserSignature :: bool
  d_FormatFloat :: "string \<Rightarrow> string option"

text \<open>\<open>d_Security\<close> says whether the service exists and has a hub, \<open>d_FormatFloat\<close> is the decimal text of the
  \<open>float64\<close> nearest to a JSON number, none when it is out of range.\<close>

definition need :: "'s option \<Rightarrow> ('s \<Rightarrow> ('w, 'a) go) \<Rightarrow> ('w, 'a) go" where
  "need s k = (case s of None \<Rightarrow> fail (ErrPanic ''nil pointer dereference'') | Some x \<Rightarrow> k x)"

definition configured :: "'s option \<Rightarrow> ('s \<Rightarrow> ('w, 'a) go) \<Rightarrow> ('w, 'a) go" where
  "configured s k = (case s of None \<Rightarrow> fail ErrNotFound | Some x \<Rightarrow> k x)"

definition RecordSecurityEvent :: "'c Deps \<Rightarrow> SecurityEvent \<Rightarrow> ('z world_scheme, unit) go" where
  "RecordSecurityEvent d ev = (case d_Security d of None \<Rightarrow> ret () | Some hub \<Rightarrow> Record_event hub ev)"

definition publish :: "'c Deps \<Rightarrow> string \<Rightarrow> string \<Rightarrow> ('z world_scheme, unit) go" where
  "publish d userID kind =
     (if \<not> d_Events d then ret ()
      else modify (\<lambda>w. w\<lparr>hub_log := hub_log w @ [\<lparr>ev_Type = ''data.changed'', ev_UserID = userID, ev_Kind = kind\<rparr>]\<rparr>))"

definition UserAgent :: "request \<Rightarrow> string" where "UserAgent r = rq_header r ''User-Agent''"

definition request_event ::
    "request \<Rightarrow> string \<Rightarrow> SecurityEventType \<Rightarrow> EventSeverity \<Rightarrow> string \<Rightarrow> string \<Rightarrow> metadata \<Rightarrow> SecurityEvent" where
  "request_event r userID etype severity title detail meta =
     (plain_event userID etype severity title detail)
       \<lparr>se_IP := clientIPKey r, se_UserAgent := UserAgent r, se_Metadata := meta\<rparr>"

section \<open>Steps every handler begins with\<close>

definition with_user :: "request \<Rightarrow> (user_row \<Rightarrow> ('w, 'a) go) \<Rightarrow> ('w, 'a) go" where
  "with_user r k = (case UserFrom r of None \<Rightarrow> fail ErrUnauthenticated | Some user \<Rightarrow> k user)"

definition with_body :: "'r field list \<Rightarrow> 'r \<Rightarrow> request \<Rightarrow> ('r \<Rightarrow> ('w, 'a) go) \<Rightarrow> ('w, 'a) go" where
  "with_body fs zero r k = bnd (lift (decodeJSON fs zero (rq_body r))) k"

definition ok_json :: "json \<Rightarrow> ('w, response) go" where "ok_json v = ret (writeJSON 200 v)"
definition created_json :: "json \<Rightarrow> ('w, response) go" where "created_json v = ret (writeJSON 201 v)"

definition parseIntAmount :: "string \<Rightarrow> err + int64" where
  "parseIntAmount s = (case FromMajorUnits s of Inl _ \<Rightarrow> Inl ErrInvalidAmount | Inr m \<Rightarrow> Inr (Minor m))"

definition normalizeCurrency :: "string \<Rightarrow> string" where "normalizeCurrency c = ToUpper c"

text \<open>\<open>strconv.Atoi\<close>\<close>

definition queryInt :: "request \<Rightarrow> string \<Rightarrow> int \<Rightarrow> err + int" where
  "queryInt r key def =
     (if rq_query r key = [] then Inr def
      else case ParseInt (rq_query r key) of Inl _ \<Rightarrow> Inl ErrBadRequest | Inr n \<Rightarrow> Inr n)"

section \<open>Wire forms\<close>

fun status_text :: "TransactionStatus \<Rightarrow> string" where
  "status_text StatusCreated = ''created''"
| "status_text StatusPendingAuthentication = ''pending_authentication''"
| "status_text StatusAuthorized = ''authorized''"
| "status_text StatusProcessing = ''processing''"
| "status_text StatusSubmitted = ''submitted''"
| "status_text StatusConfirmed = ''confirmed''"
| "status_text StatusCompleted = ''completed''"
| "status_text StatusFailed = ''failed''"
| "status_text StatusCancelled = ''cancelled''"
| "status_text StatusReversed = ''reversed''"
| "status_text StatusExpired = ''expired''"

fun elevation_text :: "ElevationStatus \<Rightarrow> string" where
  "elevation_text ElevationPending = ''pending''"
| "elevation_text ElevationBroadcasting = ''broadcasting''"
| "elevation_text ElevationBroadcast = ''broadcast''"
| "elevation_text ElevationCancelled = ''cancelled''"
| "elevation_text ElevationExpired = ''expired''"

fun user_status_text :: "UserStatus \<Rightarrow> string" where
  "user_status_text UserStatusPending = ''pending''"
| "user_status_text UserStatusActive = ''active''"
| "user_status_text UserStatusSuspended = ''suspended''"
| "user_status_text UserStatusLocked = ''locked''"
| "user_status_text UserStatusSystem = ''system''"

fun severity_text :: "EventSeverity \<Rightarrow> string" where
  "severity_text SeverityUnset = []"
| "severity_text SeverityInfo = ''info''"
| "severity_text SeverityWarn = ''warn''"
| "severity_text SeverityCritical = ''critical''"

definition major :: "int64 \<Rightarrow> json" where "major n = JStr (String (FromMinorUnits n))"

definition newUserResponse :: "'z User_scheme \<Rightarrow> json" where
  "newUserResponse u =
     JObj [(''id'', JStr (u_ID u)), (''email'', JStr (u_Email u)), (''phone'', JStr (u_Phone u)),
       (''first_name'', JStr (u_FirstName u)), (''last_name'', JStr (u_LastName u)),
       (''status'', JStr (user_status_text (u_Status u))), (''two_factor_enabled'', JBool (u_TOTPEnabled u)),
       (''email_verified'', JBool (u_EmailVerifiedAt u \<noteq> None)), (''created_at'', JTime (u_CreatedAt u))]"

definition newTransactionResponse :: "Transaction \<Rightarrow> json" where
  "newTransactionResponse t =
     JObj ([(''id'', JStr (txn_ID t)), (''type'', JStr (txn_Type t)), (''status'', JStr (status_text (txn_Status t))),
       (''currency'', JStr (txn_Currency t)), (''amount'', major (txn_AmountMinor t)), (''fee'', major (txn_FeeMinor t))]
       @ omitempty ''exchange_rate'' (txn_ExchangeRate t)
       @ [(''reference'', JStr (txn_Reference t))]
       @ omitempty ''provider_ref'' (txn_ProviderRef t)
       @ omitempty ''idempotency_key'' (txn_IdempotencyKey t)
       @ [(''created_at'', JTime (txn_CreatedAt t))])"

definition newBeneficiaryResponse :: "Beneficiary \<Rightarrow> json" where
  "newBeneficiaryResponse b =
     JObj [(''id'', JStr (ben_ID b)), (''name'', JStr (ben_Name b)), (''address'', JStr (ben_Address b)),
       (''is_favorite'', JBool (ben_IsFavorite b))]"

definition newBankAccountResponse :: "BankAccount \<Rightarrow> json" where
  "newBankAccountResponse a =
     JObj [(''id'', JStr (ba_ID a)), (''bank_name'', JStr (ba_BankName a)), (''bank_code'', JStr (ba_BankCode a)),
       (''account_number'', JStr (ba_AccountNumber a)), (''account_name'', JStr (ba_AccountName a)),
       (''is_default'', JBool (ba_IsDefault a))]"

definition quoteExpiresAt :: "'z world_scheme \<Rightarrow> time" where "quoteExpiresAt w = clock w + 5 * minute"

definition newQuoteResponse :: "Quote \<Rightarrow> time \<Rightarrow> json" where
  "newQuoteResponse q expires =
     JObj [(''input_amount'', major (q_InputAmount q)), (''input_currency'', JStr (q_InputCurrency q)),
       (''output_amount'', major (q_OutputAmount q)), (''output_currency'', JStr (q_OutputCurrency q)),
       (''rate'', major (q_Rate q)), (''fee_bps'', jint (q_FeeBPS q)), (''fee_amount'', major (q_FeeAmount q)),
       (''expires_at'', JTime expires)]"

definition newDeviceResponse :: "DeviceView \<Rightarrow> json" where
  "newDeviceResponse v =
     JObj [(''id'', JStr (dv_ID v)), (''name'', JStr (dv_Name v)), (''detail'', JStr (dv_Detail v)), (''ip'', JStr (dv_IP v)),
       (''is_current'', JBool (dv_IsCurrent v)), (''last_active_at'', JTime (dv_LastActiveAt v)),
       (''created_at'', JTime (dv_CreatedAt v))]"

definition newSecurityEventResponse :: "SecurityEvent \<Rightarrow> json" where
  "newSecurityEventResponse e =
     JObj ([(''id'', JStr (se_ID e)), (''type'', JStr (se_Type e)), (''severity'', JStr (severity_text (se_Severity e))),
       (''title'', JStr (se_Title e)), (''detail'', JStr (se_Detail e)), (''ip'', JStr (se_IP e)),
       (''device'', JStr (se_Device e)), (''user_agent'', JStr (se_UserAgent e)), (''created_at'', JTime (se_CreatedAt e))]
       @ (if se_Metadata e = Map.empty then [] else [(''metadata'', JMap (se_Metadata e))]))"

definition newNotificationResponse :: "Notification \<Rightarrow> json" where
  "newNotificationResponse n =
     JObj [(''id'', JStr (nt_ID n)), (''category'', JStr (nt_Category n)), (''title'', JStr (nt_Title n)),
       (''body'', JStr (nt_Body n)), (''is_read'', JBool (nt_IsRead n)), (''created_at'', JTime (nt_CreatedAt n))]"

definition toElevationResponse :: "WithdrawalElevation \<Rightarrow> json" where
  "toElevationResponse e =
     JObj ([(''id'', JStr (we_ID e)), (''destination'', JStr (we_Destination e)),
       (''amount_ngn_minor'', jint (we_AmountNgnMinor e)), (''fee_ngn_minor'', jint (we_FeeMinor e)),
       (''status'', JStr (elevation_text (we_Status e))), (''release_after'', JTime (we_ReleaseAfter e))]
       @ omitempty ''broadcast_tx_hash'' (we_BroadcastTxHash e) @ omitempty ''expired_reason'' (we_ExpiredReason e))"

definition toDepositInfoResponse :: "DepositInfo \<Rightarrow> json" where
  "toDepositInfoResponse i =
     JObj [(''address'', JStr (di_Address i)), (''vault_contract'', JStr (di_VaultContract i)),
       (''stablecoin_symbol'', JStr (di_StablecoinSymbol i)), (''stablecoin_name'', JStr (di_StablecoinName i)),
       (''stablecoin_decimals'', jint (di_StablecoinDecimals i)), (''stablecoin_contract'', JStr (di_StablecoinContract i)),
       (''network'', JStr (di_Network i)), (''chain_id'', jint (di_ChainID i)), (''mode'', JStr (di_Mode i)),
       (''privacy_enabled'', JBool (di_PrivacyEnabled i)), (''require_user_signature'', JBool (di_RequireUserSignature i))]"

definition toAttributionResponse :: "IndexerEvent \<Rightarrow> json" where
  "toAttributionResponse e =
     JObj ([(''tx_hash'', JStr (ie_TxHash e)), (''log_index'', JNum (show_nat (ie_LogIndex e))),
       (''block_number'', JNum (show_nat (ie_BlockNumber e)))]
       @ omitempty ''from'' (ie_From e) @ omitempty ''to'' (ie_To e) @ [(''value_base'', jint (ie_ValueBase e))])"

end
