(* ===== verification/MoneyHandlers.thy ===== *)
theory MoneyHandlers
  imports Server
begin

text \<open>
  The handlers of money movement, quotes, payees and payout accounts
  (\<open>src/backend/internal/httpapi/money_handler.go\<close> and the request types of \<open>money_dto.go\<close>), of balances and
  of the transaction history.
\<close>

section \<open>Request bodies\<close>

record depositRequest =
  dq_Amount :: string
  dq_Currency :: string

definition deposit_fields :: "depositRequest field list" where
  "deposit_fields = [(''amount'', str_field (\<lambda>s r. r\<lparr>dq_Amount := s\<rparr>)), (''currency'', str_field (\<lambda>s r. r\<lparr>dq_Currency := s\<rparr>))]"

record withdrawRequest =
  wdq_Amount :: string
  wdq_Currency :: string
  wdq_BankID :: string
  wdq_Narration :: string

definition withdraw_fields :: "withdrawRequest field list" where
  "withdraw_fields =
     [(''amount'', str_field (\<lambda>s r. r\<lparr>wdq_Amount := s\<rparr>)), (''currency'', str_field (\<lambda>s r. r\<lparr>wdq_Currency := s\<rparr>)),
      (''bank_id'', str_field (\<lambda>s r. r\<lparr>wdq_BankID := s\<rparr>)), (''narration'', str_field (\<lambda>s r. r\<lparr>wdq_Narration := s\<rparr>))]"

record transferRequest =
  tq_Amount :: string
  tq_Currency :: string
  tq_ToKind :: string
  tq_AccountName :: string
  tq_AccountNumber :: string
  tq_BankName :: string
  tq_Narration :: string

definition transfer_fields :: "transferRequest field list" where
  "transfer_fields =
     [(''amount'', str_field (\<lambda>s r. r\<lparr>tq_Amount := s\<rparr>)), (''currency'', str_field (\<lambda>s r. r\<lparr>tq_Currency := s\<rparr>)),
      (''to_kind'', str_field (\<lambda>s r. r\<lparr>tq_ToKind := s\<rparr>)), (''account_name'', str_field (\<lambda>s r. r\<lparr>tq_AccountName := s\<rparr>)),
      (''account_number'', str_field (\<lambda>s r. r\<lparr>tq_AccountNumber := s\<rparr>)), (''bank_name'', str_field (\<lambda>s r. r\<lparr>tq_BankName := s\<rparr>)),
      (''narration'', str_field (\<lambda>s r. r\<lparr>tq_Narration := s\<rparr>))]"

record convertQuoteRequest =
  cqq_Amount :: json
  cqq_FromCurrency :: string
  cqq_ToCurrency :: string

definition convert_quote_fields :: "convertQuoteRequest field list" where
  "convert_quote_fields =
     [(''amount'', any_field (\<lambda>j r. r\<lparr>cqq_Amount := j\<rparr>)), (''from_currency'', str_field (\<lambda>s r. r\<lparr>cqq_FromCurrency := s\<rparr>)),
      (''to_currency'', str_field (\<lambda>s r. r\<lparr>cqq_ToCurrency := s\<rparr>))]"

record convertRequest =
  cvq_Amount :: string
  cvq_FromCurrency :: string
  cvq_ToCurrency :: string

definition convert_fields :: "convertRequest field list" where
  "convert_fields =
     [(''amount'', str_field (\<lambda>s r. r\<lparr>cvq_Amount := s\<rparr>)), (''from_currency'', str_field (\<lambda>s r. r\<lparr>cvq_FromCurrency := s\<rparr>)),
      (''to_currency'', str_field (\<lambda>s r. r\<lparr>cvq_ToCurrency := s\<rparr>))]"

record beneficiaryRequest =
  bq_Name :: string
  bq_Address :: string
  bq_IsFavorite :: bool

definition beneficiary_fields :: "beneficiaryRequest field list" where
  "beneficiary_fields =
     [(''name'', str_field (\<lambda>s r. r\<lparr>bq_Name := s\<rparr>)), (''address'', str_field (\<lambda>s r. r\<lparr>bq_Address := s\<rparr>)),
      (''is_favorite'', bool_field (\<lambda>b r. r\<lparr>bq_IsFavorite := b\<rparr>))]"

record bankAccountRequest =
  baq_BankName :: string
  baq_BankCode :: string
  baq_AccountNumber :: string
  baq_AccountName :: string
  baq_IsDefault :: bool

definition bank_account_fields :: "bankAccountRequest field list" where
  "bank_account_fields =
     [(''bank_name'', str_field (\<lambda>s r. r\<lparr>baq_BankName := s\<rparr>)), (''bank_code'', str_field (\<lambda>s r. r\<lparr>baq_BankCode := s\<rparr>)),
      (''account_number'', str_field (\<lambda>s r. r\<lparr>baq_AccountNumber := s\<rparr>)), (''account_name'', str_field (\<lambda>s r. r\<lparr>baq_AccountName := s\<rparr>)),
      (''is_default'', bool_field (\<lambda>b r. r\<lparr>baq_IsDefault := b\<rparr>))]"

section \<open>Money movement\<close>

definition transaction_reply :: "Transaction \<Rightarrow> json" where
  "transaction_reply txn = JObj [(''transaction'', newTransactionResponse txn)]"

definition handleDeposit_http :: "'c Deps \<Rightarrow> 'z world_scheme handler" where
  "handleDeposit_http d r = replies r (with_user r (\<lambda>user.
     with_body deposit_fields \<lparr>dq_Amount = [], dq_Currency = []\<rparr> r (\<lambda>req.
     bnd (lift (parseIntAmount (dq_Amount req))) (\<lambda>amountMinor.
     bnd (Deposit (d_Money d) (u_ID user) (normalizeCurrency (dq_Currency req)) amountMinor (IdempotencyKeyFrom r)) (\<lambda>txn.
     created_json (transaction_reply txn))))))"

definition bank_withdrawal :: "string \<Rightarrow> withdrawRequest \<Rightarrow> int64 \<Rightarrow> LedgerMoveRequest" where
  "bank_withdrawal userID req amountMinor =
     \<lparr>lm_UserID = userID, lm_AccountKind = AccountKindAvailable, lm_Currency = normalizeCurrency (wdq_Currency req),
      lm_Type = TransactionTypeWithdrawal, lm_AmountMinor = amountMinor, lm_FeeMinor = 0, lm_ExchangeRate = [],
      lm_Reference = [], lm_ProviderRef = [], lm_IdempotencyKey = [],
      lm_Metadata = Some [''bank_id'' \<mapsto> jval.JStr (wdq_BankID req)]\<rparr>"

definition handleWithdraw :: "'c Deps \<Rightarrow> 'z world_scheme handler" where
  "handleWithdraw d r = replies r (with_user r (\<lambda>user.
     with_body withdraw_fields \<lparr>wdq_Amount = [], wdq_Currency = [], wdq_BankID = [], wdq_Narration = []\<rparr> r (\<lambda>req.
     bnd (lift (parseIntAmount (wdq_Amount req))) (\<lambda>amountMinor.
     bnd (Withdraw (d_Money d) (bank_withdrawal (u_ID user) req amountMinor) (IdempotencyKeyFrom r)) (\<lambda>txn.
     created_json (transaction_reply txn))))))"

definition transfer_request :: "request \<Rightarrow> string \<Rightarrow> transferRequest \<Rightarrow> int64 \<Rightarrow> TransferRequest" where
  "transfer_request r userID req amountMinor =
     \<lparr>tr_UserID = userID, tr_FromKind = AccountKindAvailable,
      tr_ToKind = (if EqualFold (tq_ToKind req) ''savings'' then AccountKindSavings else []),
      tr_Currency = normalizeCurrency (tq_Currency req), tr_AmountMinor = amountMinor, tr_FeeMinor = 0,
      tr_ExchangeRate = [], tr_Reference = [], tr_ProviderRef = [], tr_IdempotencyKey = IdempotencyKeyFrom r,
      tr_Metadata = None,
      tr_Destination = (if tq_AccountNumber req = [] then []
        else TrimSpace (tq_BankName req @ '' '' @ tq_AccountName req @ '' '' @ tq_AccountNumber req)),
      tr_Description = tq_Narration req\<rparr>"

definition handleTransfer :: "'c Deps \<Rightarrow> 'z world_scheme handler" where
  "handleTransfer d r = replies r (with_user r (\<lambda>user.
     with_body transfer_fields \<lparr>tq_Amount = [], tq_Currency = [], tq_ToKind = [], tq_AccountName = [],
       tq_AccountNumber = [], tq_BankName = [], tq_Narration = []\<rparr> r (\<lambda>req.
     bnd (lift (parseIntAmount (tq_Amount req))) (\<lambda>amountMinor.
     bnd (Transfer (d_Money d) (transfer_request r (u_ID user) req amountMinor)) (\<lambda>txn.
     ok_json (transaction_reply txn))))))"

definition handleConvert :: "'c Deps \<Rightarrow> 'z world_scheme handler" where
  "handleConvert d r = replies r (with_user r (\<lambda>user.
     with_body convert_fields \<lparr>cvq_Amount = [], cvq_FromCurrency = [], cvq_ToCurrency = []\<rparr> r (\<lambda>req.
     bnd (lift (parseIntAmount (cvq_Amount req))) (\<lambda>amountMinor.
     bnd (Convert (d_Money d) (u_ID user) amountMinor (normalizeCurrency (cvq_FromCurrency req))
            (normalizeCurrency (cvq_ToCurrency req)) (IdempotencyKeyFrom r)) (\<lambda>txn.
     ok_json (transaction_reply txn))))))"

section \<open>Rates and quotes\<close>

definition handleRate :: "'c Deps \<Rightarrow> 'z world_scheme handler" where
  "handleRate d r = replies r (with_user r (\<lambda>_.
     let base = normalizeCurrency (rq_query r ''from''); quote = normalizeCurrency (rq_query r ''to'') in
     bnd (reject (base = [] \<or> quote = []) ErrInvalidAmount) (\<lambda>_.
     bnd (GetRate base quote) (\<lambda>rate.
     ok_json (JObj [(''base'', JStr (er_Base rate)), (''quote'', JStr (er_Quote rate)), (''rate_minor'', jint (er_Rate rate)),
       (''updated_at'', JTime (er_UpdatedAt rate))])))))"

text \<open>The amount of a quote may be a JSON string or number; a number has passed through \<open>float64\<close>.\<close>

definition quote_amount :: "'c Deps \<Rightarrow> json \<Rightarrow> err + string" where
  "quote_amount d j =
     (case j of
        JStr s \<Rightarrow> Inr s
      | JNum s \<Rightarrow> (case d_FormatFloat d s of Some t \<Rightarrow> Inr t | None \<Rightarrow> Inl ErrBadRequest)
      | _ \<Rightarrow> Inl ErrInvalidAmount)"

definition handleQuoteConversion :: "'c Deps \<Rightarrow> 'z world_scheme handler" where
  "handleQuoteConversion d r = replies r (with_user r (\<lambda>_.
     with_body convert_quote_fields \<lparr>cqq_Amount = JNull, cqq_FromCurrency = [], cqq_ToCurrency = []\<rparr> r (\<lambda>req.
     bnd (lift (quote_amount d (cqq_Amount req))) (\<lambda>amountStr.
     bnd (lift (parseIntAmount amountStr)) (\<lambda>amountMinor.
     bnd (QuoteConversion amountMinor (normalizeCurrency (cqq_FromCurrency req)) (normalizeCurrency (cqq_ToCurrency req))) (\<lambda>quote.
     bnd (gets quoteExpiresAt) (\<lambda>expires.
     ok_json (JObj [(''quote'', newQuoteResponse quote expires)]))))))))"

section \<open>Payees\<close>

definition status_ok :: json where "status_ok = JObj [(''status'', JStr ''ok'')]"

definition handleListBeneficiaries :: "'z world_scheme handler" where
  "handleListBeneficiaries r = replies r (with_user r (\<lambda>user.
     bnd (ListBeneficiaries (u_ID user)) (\<lambda>xs.
     ok_json (JObj [(''beneficiaries'', JArr (map newBeneficiaryResponse xs))]))))"

definition payee :: "string \<Rightarrow> beneficiaryRequest \<Rightarrow> Beneficiary" where
  "payee bid req = \<lparr>ben_ID = bid, ben_UserID = [], ben_Name = bq_Name req, ben_Address = bq_Address req,
     ben_AccountNumber = [], ben_IsFavorite = bq_IsFavorite req, ben_CreatedAt = 0\<rparr>"

definition handleCreateBeneficiary :: "'z world_scheme handler" where
  "handleCreateBeneficiary r = replies r (with_user r (\<lambda>user.
     with_body beneficiary_fields \<lparr>bq_Name = [], bq_Address = [], bq_IsFavorite = False\<rparr> r (\<lambda>req.
     bnd (reject (TrimSpace (bq_Name req) = [] \<or> TrimSpace (bq_Address req) = []) ErrBadRequest) (\<lambda>_.
     bnd (CreateBeneficiary (u_ID user) (payee [] req)) (\<lambda>b.
     created_json (JObj [(''beneficiary'', newBeneficiaryResponse b)]))))))"

definition handleUpdateBeneficiary :: "'z world_scheme handler" where
  "handleUpdateBeneficiary r = replies r (with_user r (\<lambda>user.
     with_body beneficiary_fields \<lparr>bq_Name = [], bq_Address = [], bq_IsFavorite = False\<rparr> r (\<lambda>req.
     let b = payee (rq_path r ''id'') req in
     bnd (UpdateBeneficiary (u_ID user) b) (\<lambda>_.
     ok_json (JObj [(''beneficiary'', newBeneficiaryResponse b)])))))"

definition handleToggleBeneficiaryFavorite :: "'z world_scheme handler" where
  "handleToggleBeneficiaryFavorite r = replies r (with_user r (\<lambda>user.
     bnd (ToggleBeneficiaryFavorite (u_ID user) (rq_path r ''id'')) (\<lambda>_. ok_json status_ok)))"

definition handleDeleteBeneficiary :: "'z world_scheme handler" where
  "handleDeleteBeneficiary r = replies r (with_user r (\<lambda>user.
     bnd (DeleteBeneficiary (u_ID user) (rq_path r ''id'')) (\<lambda>_. ok_json status_ok)))"

definition handleResolveAccount :: "'z world_scheme handler" where
  "handleResolveAccount r = replies r (with_user r (\<lambda>user.
     bnd (ResolveAccount (u_ID user) (rq_path r ''address'')) (\<lambda>b.
     ok_json (JObj [(''beneficiary'', newBeneficiaryResponse b)]))))"

section \<open>Payout accounts\<close>

definition handleListBankAccounts :: "'z world_scheme handler" where
  "handleListBankAccounts r = replies r (with_user r (\<lambda>user.
     bnd (ListBankAccounts (u_ID user)) (\<lambda>xs.
     ok_json (JObj [(''bank_accounts'', JArr (map newBankAccountResponse xs))]))))"

definition payout_account :: "bankAccountRequest \<Rightarrow> BankAccount" where
  "payout_account req = \<lparr>ba_ID = [], ba_UserID = [], ba_BankName = baq_BankName req, ba_BankCode = baq_BankCode req,
     ba_AccountNumber = baq_AccountNumber req, ba_AccountName = baq_AccountName req, ba_IsDefault = baq_IsDefault req,
     ba_CreatedAt = 0\<rparr>"

definition handleCreateBankAccount :: "'z world_scheme handler" where
  "handleCreateBankAccount r = replies r (with_user r (\<lambda>user.
     with_body bank_account_fields \<lparr>baq_BankName = [], baq_BankCode = [], baq_AccountNumber = [],
       baq_AccountName = [], baq_IsDefault = False\<rparr> r (\<lambda>req.
     bnd (CreateBankAccount (u_ID user) (payout_account req)) (\<lambda>a.
     created_json (JObj [(''bank_account'', newBankAccountResponse a)])))))"

definition handleSetDefaultBankAccount :: "'z world_scheme handler" where
  "handleSetDefaultBankAccount r = replies r (with_user r (\<lambda>user.
     bnd (SetDefaultBankAccount (u_ID user) (rq_path r ''id'')) (\<lambda>_. ok_json status_ok)))"

definition handleDeleteBankAccount :: "'z world_scheme handler" where
  "handleDeleteBankAccount r = replies r (with_user r (\<lambda>user.
     bnd (DeleteBankAccount (u_ID user) (rq_path r ''id'')) (\<lambda>_. ok_json status_ok)))"

section \<open>Balances and history\<close>

definition balance_reply :: "BalanceSnapshot \<Rightarrow> json" where
  "balance_reply s =
     JObj [(''account_id'', JStr (bs_AccountID s)), (''kind'', JStr (bs_Kind s)), (''currency'', JStr (bs_Currency s)),
       (''amount'', major (bs_Amount s)), (''amount_minor'', jint (bs_Amount s))]"

definition handleListBalances :: "'z world_scheme handler" where
  "handleListBalances r = replies r (with_user r (\<lambda>user.
     bnd (Balance_List (u_ID user)) (\<lambda>xs. ok_json (JObj [(''balances'', JArr (map balance_reply xs))]))))"

definition handleListTransactions :: "'z world_scheme handler" where
  "handleListTransactions r = replies r (with_user r (\<lambda>user.
     bnd (Transactions (u_ID user)) (\<lambda>xs.
     ok_json (JObj [(''transactions'', JArr (map newTransactionResponse xs))]))))"

end
