(* ===== verification/AccountHandlers.thy ===== *)
theory AccountHandlers
  imports Server
begin

text \<open>
  The handlers of registration, sign-in, passwords, PINs and the second factor
  (\<open>src/backend/internal/httpapi/auth_handler.go\<close>, \<open>user_handler.go\<close>, the PIN part of \<open>vault_handler.go\<close>), of
  devices, the security feed and the inbox (\<open>security_handler.go\<close>), and of the waiting list
  (\<open>waitlist_handler.go\<close>).
\<close>

section \<open>Registration and sign-in\<close>

record registerRequest =
  rgq_Email :: string
  rgq_Phone :: string
  rgq_FirstName :: string
  rgq_LastName :: string
  rgq_Password :: string

definition register_fields :: "registerRequest field list" where
  "register_fields =
     [(''email'', str_field (\<lambda>s r. r\<lparr>rgq_Email := s\<rparr>)), (''phone'', str_field (\<lambda>s r. r\<lparr>rgq_Phone := s\<rparr>)),
      (''first_name'', str_field (\<lambda>s r. r\<lparr>rgq_FirstName := s\<rparr>)), (''last_name'', str_field (\<lambda>s r. r\<lparr>rgq_LastName := s\<rparr>)),
      (''password'', str_field (\<lambda>s r. r\<lparr>rgq_Password := s\<rparr>))]"

text \<open>A body with two texts under the given names: sign-in, codes, challenges, passwords, PINs.\<close>

record pairRequest =
  pq_fst :: string
  pq_snd :: string

definition pair_fields :: "string \<Rightarrow> string \<Rightarrow> pairRequest field list" where
  "pair_fields a b = [(a, str_field (\<lambda>s r. r\<lparr>pq_fst := s\<rparr>)), (b, str_field (\<lambda>s r. r\<lparr>pq_snd := s\<rparr>))]"

definition text_fields :: "string \<Rightarrow> string field list" where
  "text_fields a = [(a, str_field (\<lambda>s _. s))]"

definition no_pair :: pairRequest where "no_pair = \<lparr>pq_fst = [], pq_snd = []\<rparr>"

definition loginRequest :: "pairRequest field list" where "loginRequest = pair_fields ''email'' ''password''"
definition changePasswordRequest :: "pairRequest field list" where
  "changePasswordRequest = pair_fields ''current_password'' ''new_password''"
definition twoFactorVerifyRequest :: "pairRequest field list" where
  "twoFactorVerifyRequest = pair_fields ''challenge_token'' ''code''"
definition totpEnableRequest :: "string field list" where "totpEnableRequest = text_fields ''code''"
definition totpDisableRequest :: "pairRequest field list" where "totpDisableRequest = pair_fields ''code'' ''pin''"
definition otpSendRequest :: "string field list" where "otpSendRequest = text_fields ''email''"
definition otpVerifyRequest :: "pairRequest field list" where "otpVerifyRequest = pair_fields ''email'' ''code''"
definition setPinRequest :: "pairRequest field list" where "setPinRequest = pair_fields ''pin'' ''current_pin''"
definition verifyPinRequest :: "string field list" where "verifyPinRequest = text_fields ''pin''"

definition otpSendResponse :: "int \<Rightarrow> json" where
  "otpSendResponse resendAfter =
     JObj ([(''sent'', JBool True)] @ (if resendAfter = 0 then [] else [(''resend_after'', jint resendAfter)]))"

definition authResponse :: "string \<Rightarrow> user_row option \<Rightarrow> bool \<Rightarrow> string \<Rightarrow> json" where
  "authResponse token user requires2FA challenge =
     JObj (omitempty ''token'' token @ (case user of None \<Rightarrow> [] | Some u \<Rightarrow> [(''user'', newUserResponse u)])
       @ [(''requires_2fa'', JBool requires2FA)] @ omitempty ''challenge_token'' challenge)"

definition handleRegister :: "'c Deps \<Rightarrow> 'c server handler" where
  "handleRegister d r = replies r (
     with_body register_fields \<lparr>rgq_Email = [], rgq_Phone = [], rgq_FirstName = [], rgq_LastName = [], rgq_Password = []\<rparr> r (\<lambda>req.
     bnd (in_auth (StageRegistration (d_Auth d)
            \<lparr>ri_Email = rgq_Email req, ri_Phone = rgq_Phone req, ri_FirstName = rgq_FirstName req,
             ri_LastName = rgq_LastName req, ri_Password = rgq_Password req, ri_Device = [], ri_IP = []\<rparr>)) (\<lambda>resendAfter.
     ok_json (otpSendResponse (resendAfter div second)))))"

definition handleLogin :: "'c Deps \<Rightarrow> 'c server handler" where
  "handleLogin d r = replies r (
     with_body loginRequest no_pair r (\<lambda>req.
     bnd (in_auth (Login (d_Auth d) (pq_fst req) (pq_snd req) (UserAgent r) (rq_remote r))) (\<lambda>result.
     ok_json (if lr_Requires2FA result then authResponse [] None True (lr_ChallengeToken result)
              else authResponse (lr_Token result) (Some (lr_User result)) False []))))"

definition handleVerify2FA :: "'c Deps \<Rightarrow> 'c server handler" where
  "handleVerify2FA d r = replies r (
     with_body twoFactorVerifyRequest no_pair r (\<lambda>req.
     bnd (in_auth (Verify2FA (d_Auth d) (pq_fst req) (pq_snd req) (UserAgent r) (rq_remote r))) (\<lambda>result.
     ok_json (authResponse (lr_Token result) (Some (lr_User result)) False []))))"

definition handleSendOTP :: "'c Deps \<Rightarrow> 'c server handler" where
  "handleSendOTP d r = replies r (
     with_body otpSendRequest [] r (\<lambda>email.
     bnd (in_auth (SendOTPCode (d_Auth d) email)) (\<lambda>_. ok_json (otpSendResponse 0))))"

definition otpVerifyResponse :: "string \<Rightarrow> (user_row \<times> string) option \<Rightarrow> json" where
  "otpVerifyResponse email account =
     JObj ([(''verified'', JBool True), (''email_verified'', JBool True), (''email'', JStr email)]
       @ (case account of None \<Rightarrow> [] | Some (user, token) \<Rightarrow> omitempty ''token'' token @ [(''user'', newUserResponse user)]))"

definition handleVerifyOTP :: "'c Deps \<Rightarrow> 'c server handler" where
  "handleVerifyOTP d r = replies r (
     with_body otpVerifyRequest no_pair r (\<lambda>req.
     let email = ToLower (TrimSpace (pq_fst req)) in
     bnd (attempt (in_auth (CompleteRegistration (d_Auth d) email (pq_snd req) (UserAgent r) (rq_remote r)))) (\<lambda>res.
     case res of
       Inr account \<Rightarrow> ok_json (otpVerifyResponse email (Some account))
     | Inl e \<Rightarrow>
         if errIs e ErrNoPendingRegistration
         then bnd (in_auth (VerifyOTPCode (d_Auth d) email (pq_snd req))) (\<lambda>_. ok_json (otpVerifyResponse email None))
         else fail e)))"

definition handleLogout :: "'c Deps \<Rightarrow> 'z world_scheme handler" where
  "handleLogout d r = replies r (
     bnd (Logout (d_Auth d) (TokenFrom r)) (\<lambda>_. ok_json (JObj [(''status'', JStr ''logged_out'')])))"

section \<open>Passwords and the second factor\<close>

definition handleChangePassword :: "'c Deps \<Rightarrow> 'c server handler" where
  "handleChangePassword d r = replies r (with_user r (\<lambda>user.
     with_body changePasswordRequest no_pair r (\<lambda>req.
     bnd (CurrentSessionID (TokenFrom r)) (\<lambda>kept.
     bnd (in_auth (ChangePassword (d_Auth d) (u_ID user) (pq_fst req) (pq_snd req) kept)) (\<lambda>_.
     ok_json (JObj [(''updated'', JBool True)]))))))"

definition handleGenerateTOTP :: "'c server handler" where
  "handleGenerateTOTP r = replies r (with_user r (\<lambda>user.
     bnd (in_auth (GenerateTOTP (u_ID user) (u_Email user))) (\<lambda>(secret, uri).
     ok_json (JObj [(''secret'', JStr secret), (''uri'', JStr uri)]))))"

definition handleEnableTOTP :: "'c Deps \<Rightarrow> 'c server handler" where
  "handleEnableTOTP d r = replies r (with_user r (\<lambda>user.
     with_body totpEnableRequest [] r (\<lambda>code.
     bnd (in_auth (EnableTOTP (d_Auth d) (u_ID user) code)) (\<lambda>_. ok_json (JObj [(''enabled'', JBool True)])))))"

definition handleDisableTOTP :: "'c Deps \<Rightarrow> 'c server handler" where
  "handleDisableTOTP d r = replies r (with_user r (\<lambda>user.
     with_body totpDisableRequest no_pair r (\<lambda>req.
     bnd (in_auth (DisableTOTP (d_Auth d) (u_ID user) (pq_snd req) (pq_fst req))) (\<lambda>_.
     ok_json (JObj [(''disabled'', JBool True)])))))"

definition handleMe :: "'w handler" where
  "handleMe r = replies r (with_user r (\<lambda>user. ok_json (newUserResponse user)))"

section \<open>PINs\<close>

definition pin_event :: "request \<Rightarrow> string \<Rightarrow> SecurityEvent" where
  "pin_event r userID = request_event r userID ''pin_change'' SeverityInfo ''Transaction PIN changed''
     ''The 6-digit transaction PIN for this account was updated'' Map.empty"

definition handleSetPin :: "'c Deps \<Rightarrow> 'c server handler" where
  "handleSetPin d r = replies r (with_user r (\<lambda>user.
     with_body setPinRequest no_pair r (\<lambda>req.
     bnd (reject (length (pq_fst req) \<noteq> 6) ErrInvalidPin) (\<lambda>_.
     bnd (attempt (HasPIN (u_ID user))) (\<lambda>existing.
     bnd (if existing = Inr True then in_auth (VerifyPINThrottled (d_Auth d) (u_ID user) (pq_snd req)) else ret ()) (\<lambda>_.
     bnd (in_auth (SetPIN (d_Auth d) (u_ID user) (pq_fst req))) (\<lambda>_.
     bnd (RecordSecurityEvent d (pin_event r (u_ID user))) (\<lambda>_.
     ok_json (JObj [(''updated'', JBool True)])))))))))"

definition handleVerifyPin :: "'c Deps \<Rightarrow> 'c server handler" where
  "handleVerifyPin d r = replies r (with_user r (\<lambda>user.
     with_body verifyPinRequest [] r (\<lambda>pin.
     bnd (in_auth (VerifyPINThrottled (d_Auth d) (u_ID user) pin)) (\<lambda>_. ok_json (JObj [(''verified'', JBool True)])))))"

section \<open>Devices, the security feed, the inbox\<close>

definition handleListDevices :: "'c Deps \<Rightarrow> 'z world_scheme handler" where
  "handleListDevices d r = replies r (with_user r (\<lambda>user.
     bnd (CurrentSessionID (TokenFrom r)) (\<lambda>current.
     need (d_Security d) (\<lambda>_.
     bnd (ListDevices (u_ID user) current) (\<lambda>xs. ok_json (JObj [(''items'', JArr (map newDeviceResponse xs))]))))))"

definition status_revoked :: json where "status_revoked = JObj [(''status'', JStr ''revoked'')]"
definition status_read :: json where "status_read = JObj [(''status'', JStr ''read'')]"

definition handleRevokeDevice :: "'c Deps \<Rightarrow> 'z world_scheme handler" where
  "handleRevokeDevice d r = replies r (with_user r (\<lambda>user.
     need (d_Security d) (\<lambda>hub.
     bnd (RevokeDevice hub (u_ID user) (rq_path r ''id'')) (\<lambda>_. ok_json status_revoked))))"

definition handleRevokeOtherDevices :: "'c Deps \<Rightarrow> 'z world_scheme handler" where
  "handleRevokeOtherDevices d r = replies r (with_user r (\<lambda>user.
     bnd (CurrentSessionID (TokenFrom r)) (\<lambda>current.
     need (d_Security d) (\<lambda>hub.
     bnd (RevokeOtherDevices hub (u_ID user) current) (\<lambda>_. ok_json status_revoked)))))"

definition handleListSecurityEvents :: "'c Deps \<Rightarrow> 'z world_scheme handler" where
  "handleListSecurityEvents d r = replies r (with_user r (\<lambda>user.
     bnd (lift (queryInt r ''limit'' 50)) (\<lambda>limit0.
     let limit = (if limit0 \<le> 0 \<or> limit0 > 100 then 50 else limit0) in
     bnd (lift (queryInt r ''offset'' 0)) (\<lambda>offset0.
     let offset = (if offset0 < 0 then 0 else offset0) in
     need (d_Security d) (\<lambda>_.
     bnd (ListSecurityEventsPaged (u_ID user) limit offset) (\<lambda>(xs, total).
     ok_json (JObj [(''items'', JArr (map newSecurityEventResponse xs)), (''total'', jint total), (''limit'', jint limit),
       (''offset'', jint offset), (''has_more'', JBool (wrap64 (offset + int (length xs)) < total))])))))))"

definition prefs_reply :: "bool \<Rightarrow> bool \<Rightarrow> json" where
  "prefs_reply newSignin failedLogin = JObj [(''notify_new_signin'', JBool newSignin), (''notify_failed_login'', JBool failedLogin)]"

definition handleGetSecurityPrefs :: "'c Deps \<Rightarrow> 'z world_scheme handler" where
  "handleGetSecurityPrefs d r = replies r (with_user r (\<lambda>user.
     need (d_Security d) (\<lambda>_.
     bnd (NotificationPrefs (u_ID user)) (\<lambda>(ns, fl). ok_json (prefs_reply ns fl)))))"

record securityPrefsRequest =
  spq_NewSigninEmail :: bool
  spq_FailedLoginEmail :: bool

definition security_prefs_fields :: "securityPrefsRequest field list" where
  "security_prefs_fields =
     [(''notify_new_signin'', bool_field (\<lambda>b r. r\<lparr>spq_NewSigninEmail := b\<rparr>)),
      (''notify_failed_login'', bool_field (\<lambda>b r. r\<lparr>spq_FailedLoginEmail := b\<rparr>))]"

definition handleUpdateSecurityPrefs :: "'c Deps \<Rightarrow> 'z world_scheme handler" where
  "handleUpdateSecurityPrefs d r = replies r (with_user r (\<lambda>user.
     with_body security_prefs_fields \<lparr>spq_NewSigninEmail = False, spq_FailedLoginEmail = False\<rparr> r (\<lambda>req.
     need (d_Security d) (\<lambda>hub.
     bnd (UpdateNotificationPrefs hub (u_ID user) (spq_NewSigninEmail req) (spq_FailedLoginEmail req)) (\<lambda>_.
     ok_json (prefs_reply (spq_NewSigninEmail req) (spq_FailedLoginEmail req)))))))"

definition handleListNotifications :: "'c Deps \<Rightarrow> 'z world_scheme handler" where
  "handleListNotifications d r = replies r (with_user r (\<lambda>user.
     need (d_Security d) (\<lambda>_.
     bnd (ListNotifications (u_ID user)) (\<lambda>xs.
     bnd (UnreadCount (u_ID user)) (\<lambda>unread.
     ok_json (JObj [(''items'', JArr (map newNotificationResponse xs)), (''unread'', jint unread)]))))))"

definition handleMarkNotificationRead :: "'c Deps \<Rightarrow> 'z world_scheme handler" where
  "handleMarkNotificationRead d r = replies r (with_user r (\<lambda>user.
     need (d_Security d) (\<lambda>_.
     bnd (MarkRead (u_ID user) (rq_path r ''id'')) (\<lambda>_. ok_json status_read))))"

definition handleMarkAllNotificationsRead :: "'c Deps \<Rightarrow> 'z world_scheme handler" where
  "handleMarkAllNotificationsRead d r = replies r (with_user r (\<lambda>user.
     need (d_Security d) (\<lambda>_.
     bnd (MarkAllRead (u_ID user)) (\<lambda>_. ok_json status_read))))"

section \<open>Waiting list\<close>

record waitlistJoinRequest =
  wjq_Email :: string
  wjq_Source :: string
  wjq_IPHash :: string
  wjq_UserAgent :: string

definition waitlist_fields :: "waitlistJoinRequest field list" where
  "waitlist_fields =
     [(''email'', str_field (\<lambda>s r. r\<lparr>wjq_Email := s\<rparr>)), (''source'', str_field (\<lambda>s r. r\<lparr>wjq_Source := s\<rparr>)),
      (''ip_hash'', str_field (\<lambda>s r. r\<lparr>wjq_IPHash := s\<rparr>)), (''user_agent'', str_field (\<lambda>s r. r\<lparr>wjq_UserAgent := s\<rparr>))]"

definition hashSourceIP :: "string \<Rightarrow> string" where "hashSourceIP ip = hex_sha256 (TrimSpace ip)"

definition handleWaitlistJoin :: "'z world_scheme handler" where
  "handleWaitlistJoin r = replies r (
     with_body waitlist_fields \<lparr>wjq_Email = [], wjq_Source = [], wjq_IPHash = [], wjq_UserAgent = []\<rparr> r (\<lambda>req.
     let ipHash = (if TrimSpace (wjq_IPHash req) = [] then hashSourceIP (clientIPKey r) else TrimSpace (wjq_IPHash req)) in
     bnd (Join \<lparr>wl_Email = wjq_Email req, wl_Source = wjq_Source req, wl_IPHash = ipHash, wl_UserAgent = wjq_UserAgent req\<rparr>) (\<lambda>_.
     created_json (JObj [(''ok'', JBool True)]))))"

end
