(* ===== verification/VaultHandlers.thy ===== *)
theory VaultHandlers
  imports Server
begin

text \<open>
  The handlers of the vault (\<open>src/backend/internal/httpapi/vault_handler.go\<close>), of deposit addresses and the vault
  status (\<open>savings_handler.go\<close>) and of the operator (\<open>operator_handler.go\<close>).
\<close>

section \<open>Withdrawals\<close>

record vaultWithdrawRequest =
  vwq_Amount :: string
  vwq_Destination :: string
  vwq_Pin :: string
  vwq_Signature :: string
  vwq_Deadline :: int64
  vwq_Nonce :: nat
  vwq_AmountMinorBase :: int64

definition vault_withdraw_fields :: "vaultWithdrawRequest field list" where
  "vault_withdraw_fields =
     [(''amount'', str_field (\<lambda>s r. r\<lparr>vwq_Amount := s\<rparr>)), (''destination'', str_field (\<lambda>s r. r\<lparr>vwq_Destination := s\<rparr>)),
      (''pin'', str_field (\<lambda>s r. r\<lparr>vwq_Pin := s\<rparr>)), (''signature'', str_field (\<lambda>s r. r\<lparr>vwq_Signature := s\<rparr>)),
      (''deadline'', int64_field (\<lambda>n r. r\<lparr>vwq_Deadline := n\<rparr>)), (''nonce'', uint64_field (\<lambda>n r. r\<lparr>vwq_Nonce := n\<rparr>)),
      (''amount_minor_base'', int64_field (\<lambda>n r. r\<lparr>vwq_AmountMinorBase := n\<rparr>))]"

definition no_withdraw :: vaultWithdrawRequest where
  "no_withdraw = \<lparr>vwq_Amount = [], vwq_Destination = [], vwq_Pin = [], vwq_Signature = [], vwq_Deadline = 0, vwq_Nonce = 0,
     vwq_AmountMinorBase = 0\<rparr>"

definition request_signature :: "vaultWithdrawRequest \<Rightarrow> WithdrawSignature option" where
  "request_signature q =
     (if vwq_Signature q = [] then None
      else Some \<lparr>ws_Signature = vwq_Signature q, ws_Deadline = vwq_Deadline q, ws_RelayNonce = vwq_Nonce q,
                 ws_RelayAmountBase = vwq_AmountMinorBase q\<rparr>)"

definition withdraw_event :: "request \<Rightarrow> string \<Rightarrow> EventSeverity \<Rightarrow> string \<Rightarrow> string \<Rightarrow> metadata \<Rightarrow> SecurityEvent" where
  "withdraw_event r userID severity title detail meta = request_event r userID ''withdrawal'' severity title detail meta"

definition vaultWithdrawResponse :: "WithdrawalResult \<Rightarrow> json" where
  "vaultWithdrawResponse result =
     JObj ((case wres_Transaction result of None \<Rightarrow> []
            | Some t \<Rightarrow> (''transaction'', newTransactionResponse t) # omitempty ''tx_hash'' (wres_TxHash result))
       @ (case wres_Elevation result of None \<Rightarrow> [] | Some e \<Rightarrow> [(''elevation'', toElevationResponse e)]))"

definition withdrawal_requested :: "'c Deps \<Rightarrow> request \<Rightarrow> string \<Rightarrow> string \<Rightarrow> WithdrawalResult \<Rightarrow> ('z world_scheme, response) go" where
  "withdrawal_requested d r userID destination result =
     bnd (publish d userID ''all'') (\<lambda>_.
     bnd (RecordSecurityEvent d (withdraw_event r userID SeverityInfo ''Withdrawal requested''
            (if wres_Elevation result \<noteq> None then ''Withdrawal requested. Subject to a time-lock before broadcast.''
             else ''Withdrawal requested to your destination address'')
            [''destination'' \<mapsto> jval.JStr destination, ''scheduled'' \<mapsto> jval.JBool (wres_Elevation result \<noteq> None)])) (\<lambda>_.
     created_json (vaultWithdrawResponse result)))"

definition withdrawal_rejected :: "'c Deps \<Rightarrow> request \<Rightarrow> string \<Rightarrow> string \<Rightarrow> err \<Rightarrow> ('z world_scheme, response) go" where
  "withdrawal_rejected d r userID destination e =
     bnd (RecordSecurityEvent d (withdraw_event r userID SeverityWarn ''Withdrawal rejected''
            ''A withdrawal request could not be fulfilled''
            [''destination'' \<mapsto> jval.JStr destination, ''outcome'' \<mapsto> jval.JStr ''rejected''])) (\<lambda>_.
     fail e)"

definition handleVaultWithdraw :: "'c Deps \<Rightarrow> ('c, 'z) vworld_scheme handler" where
  "handleVaultWithdraw d r = replies r (with_user r (\<lambda>user.
     configured (d_Vault d) (\<lambda>v.
     configured (d_Savings d) (\<lambda>_.
     with_body vault_withdraw_fields no_withdraw r (\<lambda>req.
     bnd (reject (vwq_Destination req = []) ErrBadRequest) (\<lambda>_.
     bnd (reject (\<exists>e. ValidateDepositAddress (vwq_Destination req) = Inl e) ErrInvalidAddress) (\<lambda>_.
     bnd (lift (parseIntAmount (vwq_Amount req))) (\<lambda>amountMinor.
     bnd (VerifyPIN (d_Auth d) (u_ID user) (vwq_Pin req)) (\<lambda>_.
     bnd (attempt (WithdrawToAddressSigned v (u_ID user) (vwq_Destination req) amountMinor (request_signature req)
            (IdempotencyKeyFrom r))) (\<lambda>res.
     case res of
       Inr result \<Rightarrow> withdrawal_requested d r (u_ID user) (vwq_Destination req) result
     | Inl e \<Rightarrow> if is_panic e then fail e else withdrawal_rejected d r (u_ID user) (vwq_Destination req) e))))))))))"

definition handleListVaultElevations :: "'c Deps \<Rightarrow> 'z world_scheme handler" where
  "handleListVaultElevations d r = replies r (with_user r (\<lambda>user.
     configured (d_Vault d) (\<lambda>_.
     bnd (ListPendingElevations (u_ID user)) (\<lambda>xs.
     ok_json (JObj [(''elevations'', JArr (map toElevationResponse xs))])))))"

definition handleCancelVaultWithdraw :: "'c Deps \<Rightarrow> 'z world_scheme handler" where
  "handleCancelVaultWithdraw d r = replies r (with_user r (\<lambda>user.
     configured (d_Vault d) (\<lambda>_.
     bnd (CancelElevation (u_ID user) (rq_path r ''id'')) (\<lambda>_.
     bnd (RecordSecurityEvent d (withdraw_event r (u_ID user) SeverityInfo ''Withdrawal cancelled''
            ''A pending time-locked withdrawal was cancelled before its release time''
            [''elevation_id'' \<mapsto> jval.JStr (rq_path r ''id''), ''outcome'' \<mapsto> jval.JStr ''cancelled''])) (\<lambda>_.
     ok_json (JObj [(''cancelled'', JBool True)]))))))"

section \<open>Typed data to sign\<close>

definition domain_json :: "Domain \<Rightarrow> json" where
  "domain_json q = JObj [(''name'', JStr (dom_Name q)), (''version'', JStr (dom_Version q)),
     (''chain_id'', jint (dom_ChainID q)), (''verifying_contract'', JStr (dom_VerifyingContract q))]"

definition members_json :: "(string \<times> string) list \<Rightarrow> json" where
  "members_json ms = JArr (map (\<lambda>(n, t). JObj [(''name'', JStr n), (''type'', JStr t)]) ms)"

definition domain_members :: "(string \<times> string) list" where
  "domain_members = [(''name'', ''string''), (''version'', ''string''), (''chainId'', ''uint256''), (''verifyingContract'', ''address'')]"

definition typed_data :: "Domain \<Rightarrow> json \<Rightarrow> string \<Rightarrow> (string \<times> string) list \<Rightarrow> (string \<times> json) list" where
  "typed_data q message primary members =
     [(''domain'', domain_json q), (''message'', message), (''primary_type'', JStr primary),
      (''types'', JObj [(''EIP712Domain'', members_json domain_members), (primary, members_json members)])]"

definition handlePrepareVaultWithdraw :: "'c Deps \<Rightarrow> ('c, 'z) vworld_scheme handler" where
  "handlePrepareVaultWithdraw d r = replies r (with_user r (\<lambda>user.
     configured (d_Vault d) (\<lambda>v.
     configured (d_Savings d) (\<lambda>_.
     let destination = rq_query r ''destination'' in
     bnd (reject (destination = []) ErrBadRequest) (\<lambda>_.
     bnd (reject (\<exists>e. ValidateDepositAddress destination = Inl e) ErrInvalidAddress) (\<lambda>_.
     bnd (lift (parseIntAmount (rq_query r ''amount''))) (\<lambda>amountMinor.
     bnd (PrepareSignedWithdrawal v (u_ID user) destination amountMinor) (\<lambda>quote.
     let m = wq_Message quote in
     ok_json (JObj (typed_data (wq_Domain quote)
         (JObj [(''to'', JStr (addr_Hex (v_eth v) (wr_To m))), (''amount'', JStr (show_int (wr_Amount m))),
            (''nonce'', JNum (show_nat (wr_Nonce m))), (''deadline'', jint (wr_Deadline m))])
         ''WithdrawRequest'' [(''to'', ''address''), (''amount'', ''uint256''), (''nonce'', ''uint256''), (''deadline'', ''uint256'')]
       @ [(''amount_ngn_minor'', jint (wq_AmountNgnMinor quote)), (''fee_ngn_minor'', jint (wq_FeeNgnMinor quote)),
          (''amount_minor_base'', JStr (show_int (wr_Amount m))), (''clone_owner'', JStr (wq_Owner quote))]))))))))))"

section \<open>Custody and recovery\<close>

definition handleRecoveryStatus :: "'c Deps \<Rightarrow> ('c, 'z) vworld_scheme handler" where
  "handleRecoveryStatus d r = replies r (with_user r (\<lambda>user.
     configured (d_Vault d) (\<lambda>v.
     bnd (RecoveryStatus_of v (u_ID user)) (\<lambda>st.
     ok_json (JObj [(''clone'', JStr (rst_Clone st)), (''owner'', JStr (rst_Owner st)),
       (''recovery_address'', JStr (rst_RecoveryAddress st)), (''recovery_delay_sec'', jint (rst_RecoveryDelaySec st)),
       (''recovery_requested_at'', jint (rst_RecoveryRequestedAt st)), (''recovery_at'', jint (rst_RecoveryAt st)),
       (''recovery_pending'', JBool (rst_RecoveryPending st))])))))"

definition handleCustodyStatus :: "'c Deps \<Rightarrow> ('c, 'z) vworld_scheme handler" where
  "handleCustodyStatus d r = replies r (with_user r (\<lambda>user.
     configured (d_Vault d) (\<lambda>v.
     bnd (CustodyStatus_of v (u_ID user)) (\<lambda>st.
     ok_json (JObj [(''clone'', JStr (cst_Clone st)), (''owner'', JStr (cst_Owner st)),
       (''placeholder'', JStr (cst_Placeholder st)), (''claimed'', JBool (cst_Claimed st)),
       (''nonce'', JNum (show_nat (cst_Nonce st)))])))))"

definition handlePrepareCustody :: "'c Deps \<Rightarrow> ('c, 'z) vworld_scheme handler" where
  "handlePrepareCustody d r = replies r (with_user r (\<lambda>user.
     configured (d_Vault d) (\<lambda>v.
     let newOwner = rq_query r ''new_owner'' in
     bnd (reject (newOwner = []) ErrBadRequest) (\<lambda>_.
     bnd (PrepareCustodyClaim v (u_ID user) newOwner) (\<lambda>quote.
     let m = cq_Message quote in
     ok_json (JObj (typed_data (cq_Domain quote)
         (JObj [(''new_owner'', JStr (addr_Hex (v_eth v) (or_NewOwner m))), (''nonce'', JNum (show_nat (or_Nonce m))),
            (''deadline'', jint (or_Deadline m))])
         ''TransferOwnership'' [(''newOwner'', ''address''), (''nonce'', ''uint256''), (''deadline'', ''uint256'')]
       @ [(''clone_owner'', JStr (cq_Owner quote))])))))))"

definition handleClaimCustody :: "'c Deps \<Rightarrow> ('c, 'z) vworld_scheme handler" where
  "handleClaimCustody d r = replies r (with_user r (\<lambda>user.
     configured (d_Vault d) (\<lambda>v.
     with_body [(''new_owner'', str_field (\<lambda>s _. s))] [] r (\<lambda>newOwner.
     bnd (reject (newOwner = []) ErrBadRequest) (\<lambda>_.
     bnd (ClaimCustody v (u_ID user) newOwner) (\<lambda>txHash.
     bnd (RecordSecurityEvent d (request_event r (u_ID user) ''custody'' SeverityInfo ''Custody claimed''
            ''Ownership of your account was claimed or transferred'' [''new_owner'' \<mapsto> jval.JStr newOwner])) (\<lambda>_.
     ok_json (JObj [(''claimed'', JBool True), (''new_owner'', JStr newOwner), (''tx_hash'', JStr txHash)]))))))))"

definition handlePrepareRecovery :: "'c Deps \<Rightarrow> ('c, 'z) vworld_scheme handler" where
  "handlePrepareRecovery d r = replies r (with_user r (\<lambda>user.
     configured (d_Vault d) (\<lambda>v.
     let recovery = rq_query r ''recovery_address'' in
     bnd (reject (recovery = []) ErrBadRequest) (\<lambda>_.
     bnd (PrepareRecovery v (u_ID user) recovery) (\<lambda>quote.
     let m = rq_Message quote in
     ok_json (JObj (typed_data (rq_Domain quote)
         (JObj [(''recovery_address'', JStr (addr_Hex (v_eth v) (rr_RecoveryAddress m))),
            (''nonce'', JNum (show_nat (rr_Nonce m))), (''deadline'', jint (rr_Deadline m))])
         ''SetRecovery'' [(''recoveryAddress'', ''address''), (''nonce'', ''uint256''), (''deadline'', ''uint256'')]
       @ [(''clone_owner'', JStr (rq_Owner quote))])))))))"

record setRecoveryRequest =
  srq_RecoveryAddress :: string
  srq_Signature :: string
  srq_Deadline :: int64
  srq_Nonce :: nat

definition set_recovery_fields :: "setRecoveryRequest field list" where
  "set_recovery_fields =
     [(''recovery_address'', str_field (\<lambda>s r. r\<lparr>srq_RecoveryAddress := s\<rparr>)), (''signature'', str_field (\<lambda>s r. r\<lparr>srq_Signature := s\<rparr>)),
      (''deadline'', int64_field (\<lambda>n r. r\<lparr>srq_Deadline := n\<rparr>)), (''nonce'', uint64_field (\<lambda>n r. r\<lparr>srq_Nonce := n\<rparr>))]"

definition handleSetRecoveryAddress :: "'c Deps \<Rightarrow> ('c, 'z) vworld_scheme handler" where
  "handleSetRecoveryAddress d r = replies r (with_user r (\<lambda>user.
     configured (d_Vault d) (\<lambda>v.
     with_body set_recovery_fields \<lparr>srq_RecoveryAddress = [], srq_Signature = [], srq_Deadline = 0, srq_Nonce = 0\<rparr> r (\<lambda>req.
     bnd (reject (srq_RecoveryAddress req = [] \<or> srq_Signature req = []) ErrBadRequest) (\<lambda>_.
     bnd (SetRecoveryAddressBySig v (u_ID user) (srq_RecoveryAddress req)
            \<lparr>ws_Signature = srq_Signature req, ws_Deadline = srq_Deadline req, ws_RelayNonce = srq_Nonce req,
             ws_RelayAmountBase = 0\<rparr>) (\<lambda>txHash.
     bnd (RecordSecurityEvent d (request_event r (u_ID user) ''recovery'' SeverityInfo ''Recovery address designated''
            ''A recovery address was set for this account''
            [''recovery_address'' \<mapsto> jval.JStr (srq_RecoveryAddress req)])) (\<lambda>_.
     bnd (publish d (u_ID user) ''all'') (\<lambda>_.
     ok_json (JObj [(''recovery_address'', JStr (srq_RecoveryAddress req)), (''tx_hash'', JStr txHash)])))))))))"

section \<open>Deposit addresses and the vault status\<close>

definition depositInfoFor :: "'c Deps \<Rightarrow> string \<Rightarrow> (('c, 'z) vworld_scheme, DepositInfo) go" where
  "depositInfoFor d userID =
     need (d_Savings d) (\<lambda>cfg.
     let info = (GetDepositInfo cfg)\<lparr>di_RequireUserSignature := d_RequireUserSignature d\<rparr> in
     case (d_Vault d, d_Blockchain d) of
       (Some v, Some ch) \<Rightarrow>
         bnd (gets (\<lambda>w. ch_CloneFactoryAddress ch (vchain w))) (\<lambda>factory.
         if factory = [] then ret info
         else bnd (attempt (EnsureClone v userID)) (\<lambda>res.
              case res of
                Inl e \<Rightarrow> if is_panic e then fail e else ret info
              | Inr clone \<Rightarrow> ret (if vc_CloneAddress clone = [] then info else info\<lparr>di_Address := vc_CloneAddress clone\<rparr>)))
     | _ \<Rightarrow> ret info)"

definition handleGetDepositInfo :: "'c Deps \<Rightarrow> ('c, 'z) vworld_scheme handler" where
  "handleGetDepositInfo d r = replies r (with_user r (\<lambda>user.
     configured (d_Savings d) (\<lambda>_.
     bnd (depositInfoFor d (u_ID user)) (\<lambda>info. ok_json (toDepositInfoResponse info)))))"

definition handleSetDepositAddress :: "'c Deps \<Rightarrow> 'c server handler" where
  "handleSetDepositAddress d r = replies r (with_user r (\<lambda>user.
     configured (d_Savings d) (\<lambda>cfg.
     with_body [(''address'', str_field (\<lambda>s _. s))] [] r (\<lambda>address.
     bnd (in_auth (SetDepositAddress cfg (u_ID user) address)) (\<lambda>_.
     bnd (depositInfoFor d (u_ID user)) (\<lambda>info. ok_json (toDepositInfoResponse info)))))))"

definition handleVaultStatus :: "'c Deps \<Rightarrow> ('c, 'z) vworld_scheme handler" where
  "handleVaultStatus d r = replies r (with_user r (\<lambda>user.
     configured (d_Vault d) (\<lambda>v.
     bnd (depositInfoFor d (u_ID user)) (\<lambda>info.
     need (d_Blockchain d) (\<lambda>_.
     bnd (attempt (chain_read (d_GetTokenBalance d (di_Address info)))) (\<lambda>bal.
     let vaultUsdc = (case bal of Inr b \<Rightarrow> b | Inl _ \<Rightarrow> ''0.000000''); limits = WithdrawLimits_of (v_cfg v) in
     ok_json (JObj [(''vault_usdc_balance'', JStr vaultUsdc), (''deposit_info'', toDepositInfoResponse info),
       (''withdraw_limits'', JObj [(''min_minor'', jint (wlim_MinMinor limits)), (''max_minor'', jint (wlim_MaxMinor limits)),
          (''daily_cap_minor'', jint (wlim_DailyCapMinor limits)), (''elevation_threshold_minor'', jint (wlim_ThresholdMinor limits)),
          (''elevation_delay_seconds'', jint (wlim_ElevationDelaySeconds limits))])])))))))"

section \<open>The operator\<close>

definition operatorAuthorized :: "'c Deps \<Rightarrow> request \<Rightarrow> bool" where
  "operatorAuthorized d r \<longleftrightarrow> d_OperatorToken d \<noteq> [] \<and> rq_header r ''X-Operator-Token'' = d_OperatorToken d"

definition handleListUnattributedDeposits :: "'c Deps \<Rightarrow> 'z world_scheme handler" where
  "handleListUnattributedDeposits d r = replies r (
     bnd (reject (\<not> operatorAuthorized d r) ErrUnauthenticated) (\<lambda>_.
     need (d_Vault d) (\<lambda>_.
     bnd (UnattributedDeposits 200) (\<lambda>xs. ok_json (JObj [(''deposits'', JArr (map toAttributionResponse xs))])))))"

record attributeDepositRequest =
  adq_TxHash :: string
  adq_LogIndex :: nat
  adq_UserID :: string

definition attribute_fields :: "attributeDepositRequest field list" where
  "attribute_fields =
     [(''tx_hash'', str_field (\<lambda>s r. r\<lparr>adq_TxHash := s\<rparr>)), (''log_index'', uint64_field (\<lambda>n r. r\<lparr>adq_LogIndex := n\<rparr>)),
      (''user_id'', str_field (\<lambda>s r. r\<lparr>adq_UserID := s\<rparr>))]"

definition handleAttributeDeposit :: "'c Deps \<Rightarrow> ('c, 'z) vworld_scheme handler" where
  "handleAttributeDeposit d r = replies r (
     bnd (reject (\<not> operatorAuthorized d r) ErrUnauthenticated) (\<lambda>_.
     with_body attribute_fields \<lparr>adq_TxHash = [], adq_LogIndex = 0, adq_UserID = []\<rparr> r (\<lambda>req.
     bnd (reject (adq_TxHash req = [] \<or> adq_UserID req = []) ErrBadRequest) (\<lambda>_.
     need (d_Vault d) (\<lambda>v.
     bnd (AttributeDeposit v (adq_TxHash req) (adq_LogIndex req) (adq_UserID req)) (\<lambda>credited.
     ok_json (JObj [(''credited'', JBool credited), (''attributed'', JBool True)])))))))"

end
