(* ===== verification/Router.thy ===== *)
theory Router
  imports MoneyHandlers AccountHandlers VaultHandlers
begin

text \<open>
  The route table and the middleware around it (\<open>src/backend/internal/httpapi/router.go\<close>, the rest of
  \<open>middleware/\<close>). A path is the list of its segments; a pattern segment in braces matches any non-empty segment and
  names it. No two patterns with the same method match a common path, so the first match is the one
  \<open>http.ServeMux\<close> chooses. Every limited route has a limiter of its own, named by its method and pattern. The
  stream of \<open>handleEvents\<close> and the text of the metrics are arguments; request logs are left out.
\<close>

section \<open>Fault injection and response headers\<close>

record 'f ChaosConfig =
  cc_Enabled :: bool
  cc_FailureRate :: 'f
  cc_LatencyMaxMS :: int

text \<open>\<open>positive\<close> is the comparison of the rate with zero, \<open>drawn\<close> that a random number fell below it.\<close>

definition chaos_active :: "('f \<Rightarrow> bool) \<Rightarrow> 'f ChaosConfig \<Rightarrow> bool" where
  "chaos_active positive c \<longleftrightarrow> cc_Enabled c \<and> (positive (cc_FailureRate c) \<or> 0 < cc_LatencyMaxMS c)"

definition Chaos :: "('f \<Rightarrow> bool) \<Rightarrow> bool \<Rightarrow> 'f ChaosConfig \<Rightarrow> 'w handler \<Rightarrow> 'w handler" where
  "Chaos positive drawn c next r w =
     (if \<not> chaos_active positive c then next r w
      else if positive (cc_FailureRate c) \<and> drawn
      then (\<lparr>rs_status = 503, rs_headers = [(''Content-Type'', ''text/plain; charset=utf-8'')],
             rs_body = Plain (''injected failure'' @ [char_of (10 :: nat)])\<rparr>, w)
      else next r w)"

definition SecurityHeaders :: "'w handler \<Rightarrow> 'w handler" where
  "SecurityHeaders next r w =
     (case next r w of (resp, w') \<Rightarrow>
        (resp\<lparr>rs_headers :=
           [(''X-Content-Type-Options'', ''nosniff''), (''X-Frame-Options'', ''DENY''), (''Referrer-Policy'', ''no-referrer''),
            (''X-XSS-Protection'', ''1; mode=block''), (''Permissions-Policy'', ''camera=(), microphone=(), geolocation=()''),
            (''Content-Security-Policy'', ''default-src 'self'; script-src 'self' 'unsafe-inline' 'unsafe-eval'; ''
               @ ''style-src 'self' 'unsafe-inline'; img-src 'self' data:; connect-src 'self' *; ''
               @ ''frame-ancestors 'none'; base-uri 'self'' @ [char_of (39 :: nat)])] @ rs_headers resp\<rparr>, w'))"

section \<open>Routes\<close>

datatype budget = Unlimited | AuthBudget | MoneyBudget

record 'c route =
  rt_Method :: string
  rt_Path :: "string list"
  rt_Budget :: budget
  rt_Session :: bool
  rt_Idempotent :: bool
  rt_Handler :: "'c server handler"

definition public_route :: "string \<Rightarrow> string list \<Rightarrow> budget \<Rightarrow> 'c server handler \<Rightarrow> 'c route" where
  "public_route m p b h = \<lparr>rt_Method = m, rt_Path = p, rt_Budget = b, rt_Session = False, rt_Idempotent = False, rt_Handler = h\<rparr>"

definition api :: "string list \<Rightarrow> string list" where "api p = ''api'' # ''v1'' # p"

definition session_route :: "string \<Rightarrow> string list \<Rightarrow> 'c server handler \<Rightarrow> 'c route" where
  "session_route m p h = \<lparr>rt_Method = m, rt_Path = api p, rt_Budget = Unlimited, rt_Session = True, rt_Idempotent = False, rt_Handler = h\<rparr>"

definition limited_route :: "string \<Rightarrow> string list \<Rightarrow> 'c server handler \<Rightarrow> 'c route" where
  "limited_route m p h = (session_route m p h)\<lparr>rt_Budget := MoneyBudget\<rparr>"

definition money_route :: "string \<Rightarrow> string list \<Rightarrow> 'c server handler \<Rightarrow> 'c route" where
  "money_route m p h = (session_route m p h)\<lparr>rt_Budget := MoneyBudget, rt_Idempotent := True\<rparr>"

definition handleHealth :: "'w handler" where
  "handleHealth r w = (writeJSON 200 (JObj [(''status'', JStr ''ok'')]), w)"

definition handleReady :: "'w handler" where
  "handleReady r w = (writeJSON 200 (JObj [(''status'', JStr ''ready'')]), w)"

definition handleMetrics :: "('w \<Rightarrow> string) \<Rightarrow> 'w handler" where
  "handleMetrics metrics r w =
     (\<lparr>rs_status = 200, rs_headers = [(''Content-Type'', ''text/plain; version=0.0.4; charset=utf-8'')], rs_body = Plain (metrics w)\<rparr>, w)"

definition handleEvents :: "'c Deps \<Rightarrow> (string \<Rightarrow> ('w, response) go) \<Rightarrow> 'w handler" where
  "handleEvents d stream r = replies r (with_user r (\<lambda>user. if \<not> d_Events d then fail ErrNotFound else stream (u_ID user)))"

definition public_routes :: "'c Deps \<Rightarrow> ('c server \<Rightarrow> string) \<Rightarrow> 'c route list" where
  "public_routes d metrics =
     [public_route ''GET'' [''health''] Unlimited handleHealth,
      public_route ''GET'' [''live''] Unlimited handleHealth,
      public_route ''GET'' [''ready''] Unlimited handleReady,
      public_route ''GET'' [''metrics''] Unlimited (handleMetrics metrics),
      public_route ''POST'' (api [''auth'', ''register'']) AuthBudget (handleRegister d),
      public_route ''POST'' (api [''auth'', ''login'']) AuthBudget (handleLogin d),
      public_route ''POST'' (api [''auth'', ''2fa'', ''verify'']) AuthBudget (handleVerify2FA d),
      public_route ''POST'' (api [''auth'', ''otp'', ''send'']) AuthBudget (handleSendOTP d),
      public_route ''POST'' (api [''auth'', ''otp'', ''verify'']) AuthBudget (handleVerifyOTP d),
      public_route ''POST'' (api [''waitlist'']) AuthBudget handleWaitlistJoin]"

definition account_routes :: "'c Deps \<Rightarrow> (string \<Rightarrow> ('c server, response) go) \<Rightarrow> 'c route list" where
  "account_routes d stream =
     [session_route ''POST'' [''auth'', ''logout''] (handleLogout d),
      session_route ''POST'' [''auth'', ''password''] (handleChangePassword d),
      session_route ''GET'' [''auth'', ''totp'', ''setup''] handleGenerateTOTP,
      session_route ''POST'' [''auth'', ''totp'', ''enable''] (handleEnableTOTP d),
      session_route ''POST'' [''auth'', ''totp'', ''disable''] (handleDisableTOTP d),
      session_route ''GET'' [''users'', ''me''] handleMe,
      (session_route ''POST'' [''pin'', ''verify''] (handleVerifyPin d))\<lparr>rt_Budget := AuthBudget\<rparr>,
      session_route ''PUT'' [''pin''] (handleSetPin d),
      session_route ''GET'' [''balances''] handleListBalances,
      session_route ''GET'' [''transactions''] handleListTransactions,
      session_route ''GET'' [''events''] (handleEvents d stream)]"

definition money_routes :: "'c Deps \<Rightarrow> 'c route list" where
  "money_routes d =
     [money_route ''POST'' [''money'', ''deposit''] (handleDeposit_http d),
      money_route ''POST'' [''money'', ''withdraw''] (handleWithdraw d),
      money_route ''POST'' [''money'', ''transfer''] (handleTransfer d),
      money_route ''POST'' [''money'', ''convert''] (handleConvert d),
      session_route ''POST'' [''money'', ''quote''] (handleQuoteConversion d),
      session_route ''GET'' [''money'', ''rate''] (handleRate d),
      session_route ''GET'' [''beneficiaries''] handleListBeneficiaries,
      session_route ''POST'' [''beneficiaries''] handleCreateBeneficiary,
      session_route ''PATCH'' [''beneficiaries'', ''{id}''] handleUpdateBeneficiary,
      session_route ''POST'' [''beneficiaries'', ''{id}'', ''favorite''] handleToggleBeneficiaryFavorite,
      session_route ''DELETE'' [''beneficiaries'', ''{id}''] handleDeleteBeneficiary,
      session_route ''GET'' [''beneficiaries'', ''address'', ''{address}''] handleResolveAccount,
      session_route ''GET'' [''bank-accounts''] handleListBankAccounts,
      session_route ''POST'' [''bank-accounts''] handleCreateBankAccount,
      session_route ''POST'' [''bank-accounts'', ''{id}'', ''default''] handleSetDefaultBankAccount,
      session_route ''DELETE'' [''bank-accounts'', ''{id}''] handleDeleteBankAccount]"

definition vault_routes :: "'c Deps \<Rightarrow> 'c route list" where
  "vault_routes d =
     [session_route ''GET'' [''savings'', ''deposit-info''] (handleGetDepositInfo d),
      session_route ''PUT'' [''savings'', ''deposit-address''] (handleSetDepositAddress d),
      session_route ''GET'' [''savings'', ''vault-status''] (handleVaultStatus d),
      session_route ''GET'' [''savings'', ''recovery''] (handleRecoveryStatus d),
      session_route ''GET'' [''savings'', ''custody''] (handleCustodyStatus d),
      limited_route ''GET'' [''savings'', ''custody'', ''prepare''] (handlePrepareCustody d),
      money_route ''POST'' [''savings'', ''custody'', ''claim''] (handleClaimCustody d),
      limited_route ''GET'' [''savings'', ''recovery'', ''prepare''] (handlePrepareRecovery d),
      limited_route ''PUT'' [''savings'', ''recovery''] (handleSetRecoveryAddress d),
      money_route ''POST'' [''savings'', ''withdraw''] (handleVaultWithdraw d),
      session_route ''GET'' [''savings'', ''withdraw''] (handleListVaultElevations d),
      limited_route ''GET'' [''savings'', ''withdraw'', ''prepare''] (handlePrepareVaultWithdraw d),
      limited_route ''POST'' [''savings'', ''withdraw'', ''{id}'', ''cancel''] (handleCancelVaultWithdraw d)]"

definition operator_routes :: "'c Deps \<Rightarrow> 'c route list" where
  "operator_routes d =
     [public_route ''GET'' (api [''operator'', ''vault'', ''unattributed-deposits'']) Unlimited (handleListUnattributedDeposits d),
      public_route ''POST'' (api [''operator'', ''vault'', ''attribute-deposit'']) Unlimited (handleAttributeDeposit d)]"

definition security_routes :: "'c Deps \<Rightarrow> 'c route list" where
  "security_routes d =
     [session_route ''GET'' [''devices''] (handleListDevices d),
      session_route ''POST'' [''devices'', ''revoke-others''] (handleRevokeOtherDevices d),
      session_route ''POST'' [''devices'', ''{id}'', ''revoke''] (handleRevokeDevice d),
      session_route ''GET'' [''security-events''] (handleListSecurityEvents d),
      session_route ''GET'' [''security'', ''prefs''] (handleGetSecurityPrefs d),
      session_route ''PUT'' [''security'', ''prefs''] (handleUpdateSecurityPrefs d),
      session_route ''GET'' [''notifications''] (handleListNotifications d),
      session_route ''POST'' [''notifications'', ''read-all''] (handleMarkAllNotificationsRead d),
      session_route ''POST'' [''notifications'', ''{id}'', ''read''] (handleMarkNotificationRead d)]"

definition routes :: "'c Deps \<Rightarrow> ('c server \<Rightarrow> string) \<Rightarrow> (string \<Rightarrow> ('c server, response) go) \<Rightarrow> 'c route list" where
  "routes d metrics stream =
     public_routes d metrics @ account_routes d stream @ money_routes d @ vault_routes d @ operator_routes d @ security_routes d"

section \<open>Matching\<close>

definition wildcard :: "string \<Rightarrow> bool" where "wildcard p \<longleftrightarrow> p \<noteq> [] \<and> hd p = CHR ''{''"
definition wildcard_name :: "string \<Rightarrow> string" where "wildcard_name p = butlast (tl p)"

fun match_path :: "string list \<Rightarrow> string list \<Rightarrow> (string \<times> string) list option" where
  "match_path [] [] = Some []"
| "match_path (p # ps) (s # ss) =
     (if wildcard p then (if s = [] then None else map_option ((#) (wildcard_name p, s)) (match_path ps ss))
      else if p = s then match_path ps ss else None)"
| "match_path _ _ = None"

definition method_allows :: "string \<Rightarrow> string \<Rightarrow> bool" where
  "method_allows m rm \<longleftrightarrow> m = rm \<or> m = ''GET'' \<and> rm = ''HEAD''"

definition route_matches :: "string \<Rightarrow> string list \<Rightarrow> 'c route \<Rightarrow> bool" where
  "route_matches rm path rt \<longleftrightarrow> method_allows (rt_Method rt) rm \<and> match_path (rt_Path rt) path \<noteq> None"

definition path_value :: "'c route \<Rightarrow> string list \<Rightarrow> string \<Rightarrow> string" where
  "path_value rt path k =
     (case match_path (rt_Path rt) path of
        None \<Rightarrow> []
      | Some b \<Rightarrow> (case List.find (\<lambda>x. fst x = k) b of None \<Rightarrow> [] | Some x \<Rightarrow> snd x))"

section \<open>Composition\<close>

definition route_name :: "'c route \<Rightarrow> string" where
  "route_name rt = rt_Method rt @ '' '' @ concat (map (\<lambda>s. ''/'' @ s) (rt_Path rt))"

definition route_limiter :: "RateLimits \<Rightarrow> 'c route \<Rightarrow> rateLimiter" where
  "route_limiter limits rt =
     NewRateLimiter second (if rt_Budget rt = AuthBudget then AuthBurst (Normalized limits) else MoneyBurst (Normalized limits))"

definition limited :: "string \<Rightarrow> 'c server handler \<Rightarrow> 'c server handler" where
  "limited name next r p =
     (case RateLimiter clientIPKey next r (p_limiters p name, p) of
        (resp, (rl, p')) \<Rightarrow> (resp, p'\<lparr>p_limiters := (p_limiters p')(name := rl)\<rparr>))"

definition with_session :: "'c route \<Rightarrow> 'c server handler" where
  "with_session rt =
     (let h = (if rt_Idempotent rt then Idempotency (rt_Handler rt) else rt_Handler rt)
      in if rt_Session rt then Auth_middleware Authenticate h else h)"

definition mounted :: "'c route \<Rightarrow> 'c server handler" where
  "mounted rt = (if rt_Budget rt = Unlimited then with_session rt else limited (route_name rt) (with_session rt))"

definition not_found :: response where "not_found = http_Error ''404 page not found'' 404"
definition not_allowed :: response where "not_allowed = http_Error ''Method Not Allowed'' 405"

definition serve_mux :: "'c route list \<Rightarrow> string list \<Rightarrow> 'c server handler" where
  "serve_mux table path r p =
     (case List.find (route_matches (rq_method r) path) table of
        Some rt \<Rightarrow> mounted rt (r\<lparr>rq_path := path_value rt path\<rparr>) p
      | None \<Rightarrow> (if \<exists>rt\<in>set table. match_path (rt_Path rt) path \<noteq> None then not_allowed else not_found, p))"

record ('c, 'f) site =
  si_Deps :: "'c Deps"
  si_Origins :: "string list"
  si_Chaos :: "'f ChaosConfig"
  si_Positive :: "'f \<Rightarrow> bool"
  si_Metrics :: "'c server \<Rightarrow> string"
  si_Stream :: "string \<Rightarrow> ('c server, response) go"

definition NewHandler :: "('c, 'f) site \<Rightarrow> bool \<Rightarrow> byte list \<Rightarrow> string list \<Rightarrow> 'c server handler" where
  "NewHandler s drawn random path =
     Origin (si_Origins s) (RequestID random (Chaos (si_Positive s) drawn (si_Chaos s)
       (serve_mux (routes (si_Deps s) (si_Metrics s) (si_Stream s)) path)))"

end
