(* ===== verification/RouterProps.thy ===== *)
theory RouterProps
  imports Router AuthProps
begin

text \<open>
  What the HTTP boundary guarantees whatever the services do: which requests reach a handler, and what a request has
  to carry before it can change anything.
\<close>

section \<open>Requests without a session\<close>

text \<open>A failure that leaves the database and the fields of the process alone.\<close>

definition fails_clean :: "('z world_scheme, 'a) go \<Rightarrow> bool" where
  "fails_clean m \<longleftrightarrow> (\<forall>w e w'. m w = (Inl e, w') \<longrightarrow> wdb w' = wdb w \<and> world.more w' = world.more w)"

lemma fails_clean_bnd:
  assumes "pres (=) m" and "keeps more_same m" and "\<And>x. fails_clean (f x)"
  shows "fails_clean (bnd m f)"
  unfolding fails_clean_def
proof (intro allI impI)
  fix w e w'
  assume "bnd m f w = (Inl e, w')"
  then show "wdb w' = wdb w \<and> world.more w' = world.more w"
  proof (cases rule: bnd_cases)
    case (stop e')
    then show ?thesis using presD [OF assms(1)] keepsD [OF assms(2)] by (simp add: more_same_def)
  next
    case (go x w1)
    then have "wdb w' = wdb w1 \<and> world.more w' = world.more w1" using assms(3) [of x] unfolding fails_clean_def by blast
    moreover have "wdb w = wdb w1" and "world.more w1 = world.more w"
      using presD [OF assms(1) go(1)] keepsD [OF assms(2) go(1)] by (simp_all add: more_same_def)
    ultimately show ?thesis by simp
  qed
qed

lemma fails_clean_rules:
  "fails_clean (fail e)" "fails_clean (ret v)" "fails_clean (bnd (ignore m) (\<lambda>_. ret v))"
  by (auto simp: fails_clean_def fail_def ret_def bnd_def ignore_eq)

lemma if_found_more: "keeps more_same m \<Longrightarrow> keeps more_same (if_found m)"
  unfolding if_found_def by (intro more_rules)

lemma fails_clean_option:
  "fails_clean m \<Longrightarrow> (\<And>x. fails_clean (f x)) \<Longrightarrow> fails_clean (case o' of None \<Rightarrow> m | Some x \<Rightarrow> f x)"
  by (cases o') simp_all

lemma Authenticate_fails_clean: "fails_clean (Authenticate token)"
proof -
  have find: "pres (=) (if_found (SessionRepo_FindByTokenHash h))" "keeps more_same (if_found (SessionRepo_FindByTokenHash h))"
    for h :: string
    by (intro fixed_if_found repos_read repos_read2) (intro if_found_more more_reads)
  have user: "pres (=) (UserRepo_FindByID u)" "keeps more_same (UserRepo_FindByID u)" for u :: string
    by (intro repos_read repos_read2) (intro more_reads)
  show ?thesis
    unfolding Authenticate_def
    apply (rule fails_clean_bnd [OF find])
    apply (rule fails_clean_option, rule fails_clean_rules)
    apply (rule fails_clean_bnd [OF fixed.pres_gets more.keeps_basic(4)])
    apply (rule fails_clean_bnd [OF fixed.pres_reject more.keeps_basic(5)])
    apply (rule fails_clean_bnd [OF user])
    apply (rule fails_clean_bnd [OF fixed.pres_reject more.keeps_basic(5)])
    apply (rule fails_clean_rules)
    done
qed

text \<open>What a refused request leaves as it was: the tables, and the calls made to the chain.\<close>

definition untouched :: "'c server \<Rightarrow> 'c server \<Rightarrow> bool" where
  "untouched p p' \<longleftrightarrow> wdb p' = wdb p \<and> vcalls p' = vcalls p \<and> vchain p' = vchain p"

lemma untouched_refl: "untouched p p"
  by (simp add: untouched_def)

lemma untouched_more: "wdb p' = wdb p \<Longrightarrow> world.more p' = world.more p \<Longrightarrow> untouched p p'"
  by (cases p, cases p') (simp add: untouched_def)

definition no_session :: "request \<Rightarrow> 'z world_scheme \<Rightarrow> bool" where
  "no_session r w \<longleftrightarrow>
     (case bearer_token (rq_header r ''Authorization'') of
        None \<Rightarrow> True | Some token \<Rightarrow> (case fst (Authenticate token w) of Inl _ \<Rightarrow> True | Inr _ \<Rightarrow> False))"

lemma auth_refuses:
  assumes "no_session r p" and "Auth_middleware Authenticate next r p = (resp, p')"
  shows "rs_status resp = 401 \<and> untouched p p'"
proof (cases "bearer_token (rq_header r ''Authorization'')")
  case None
  then show ?thesis using assms(2) by (auto simp: Auth_middleware_def writeAuthError_def writeJSON_def untouched_refl)
next
  case (Some token)
  then obtain e p1 where a: "Authenticate token p = (Inl e, p1)"
    using assms(1) by (cases "Authenticate token p") (auto simp: no_session_def split: sum.splits)
  have "wdb p1 = wdb p \<and> world.more p1 = world.more p"
    using Authenticate_fails_clean [of token] a unfolding fails_clean_def by blast
  then have "untouched p p1" by (intro untouched_more) simp_all
  then show ?thesis using assms(2) Some a by (auto simp: Auth_middleware_def writeAuthError_def writeJSON_def)
qed

lemma limited_cases:
  assumes "limited name next r p = (resp, p')"
  obtains (refused) "rs_status resp = 429" "untouched p p'"
  | (passed) p1 where "next r p = (resp, p1)" "wdb p' = wdb p1" "vcalls p' = vcalls p1" "vchain p' = vchain p1"
proof (cases "fst (allow (client_key clientIPKey r) (clock p) (p_limiters p name))")
  case True
  obtain resp1 p1 where n: "next r p = (resp1, p1)" by (rule prod.exhaust)
  obtain ok rl where a: "allow (client_key clientIPKey r) (clock p) (p_limiters p name) = (ok, rl)" by (rule prod.exhaust)
  have "limited name next r p = (resp1, p1\<lparr>p_limiters := (p_limiters p1)(name := rl)\<rparr>)"
    using True by (simp add: limited_def RateLimiter_def a n)
  then have "resp = resp1" "p' = p1\<lparr>p_limiters := (p_limiters p1)(name := rl)\<rparr>" using assms by simp_all
  then show ?thesis using passed [of p1] n by simp
next
  case False
  then have "rs_status resp = 429" "untouched p p'"
    using assms by (auto simp: limited_def RateLimiter_def http_Error_def untouched_def split: prod.splits)
  then show ?thesis using refused by blast
qed

section \<open>The route table\<close>

definition public_paths :: "string list list" where
  "public_paths =
     [[''health''], [''live''], [''ready''], [''metrics''], api [''auth'', ''register''], api [''auth'', ''login''],
      api [''auth'', ''2fa'', ''verify''], api [''auth'', ''otp'', ''send''], api [''auth'', ''otp'', ''verify''], api [''waitlist'']]"

lemma match_literal: "match_path ps ss \<noteq> None \<Longrightarrow> \<forall>p\<in>set ps. \<not> wildcard p \<Longrightarrow> ss = ps"
  by (induction ps ss rule: match_path.induct) (auto split: if_splits)

lemma public_table:
  "rt \<in> set (public_routes d metrics) \<Longrightarrow> rt_Path rt \<in> set public_paths"
  by (auto simp: public_routes_def public_paths_def public_route_def)

lemma public_literal: "ps \<in> set public_paths \<Longrightarrow> \<forall>p\<in>set ps. \<not> wildcard p"
  by (auto simp: public_paths_def api_def wildcard_def)

lemma session_table:
  assumes "rt \<in> set (routes d metrics stream)" and "\<not> rt_Session rt"
  shows "rt \<in> set (public_routes d metrics) \<or> rt \<in> set (operator_routes d)"
  using assms
  by (auto simp: routes_def account_routes_def money_routes_def vault_routes_def security_routes_def
      session_route_def limited_route_def money_route_def)

lemma operator_table:
  assumes "rt \<in> set (operator_routes d)" and "\<not> operatorAuthorized d r" and "mounted rt r p = (resp, p')"
  shows "rs_status resp = 401 \<and> p' = p"
proof -
  have h: "mounted rt r p = rt_Handler rt r p"
    using assms(1) by (auto simp: operator_routes_def public_route_def mounted_def with_session_def)
  have "rt_Handler rt = handleListUnattributedDeposits d \<or> rt_Handler rt = handleAttributeDeposit d"
    using assms(1) by (auto simp: operator_routes_def public_route_def)
  then show ?thesis
    using assms(2,3) unfolding h
    by (auto simp: handleListUnattributedDeposits_def handleAttributeDeposit_def replies_def bnd_def reject_def fail_def
        writeError_def writeJSON_def errorStatus_def errIs_def)
qed

lemma session_guarded:
  assumes "rt_Session rt" and "no_session r p" and "mounted rt r p = (resp, p')"
  shows "rs_status resp \<in> {401, 429} \<and> untouched p p'"
proof -
  have refuse: "rs_status resp' = 401 \<and> untouched p p1" if "with_session rt r p = (resp', p1)" for resp' p1
    using that assms(1) auth_refuses [OF assms(2)] by (simp add: with_session_def Let_def)
  show ?thesis
  proof (cases "rt_Budget rt = Unlimited")
    case True
    then show ?thesis using assms(3) refuse by (simp add: mounted_def)
  next
    case False
    then have "limited (route_name rt) (with_session rt) r p = (resp, p')" using assms(3) by (simp add: mounted_def)
    then show ?thesis
    proof (cases rule: limited_cases)
      case (passed p1)
      then show ?thesis using refuse [OF passed(1)] by (simp add: untouched_def)
    qed simp
  qed
qed

lemma mux_guarded:
  assumes "serve_mux (routes d metrics stream) path r p = (resp, p')"
    and "no_session r p" and "\<not> operatorAuthorized d r" and "path \<notin> set public_paths"
  shows "rs_status resp \<in> {401, 404, 405, 429} \<and> untouched p p'"
proof (cases "List.find (route_matches (rq_method r) path) (routes d metrics stream)")
  case None
  then show ?thesis
    using assms(1) by (auto simp: serve_mux_def not_found_def not_allowed_def http_Error_def untouched_refl split: if_splits)
next
  case (Some rt)
  then have rt: "rt \<in> set (routes d metrics stream)" and m: "match_path (rt_Path rt) path \<noteq> None"
    unfolding find_Some_iff route_matches_def by auto
  let ?r = "r\<lparr>rq_path := path_value rt path\<rparr>"
  have s: "mounted rt ?r p = (resp, p')" using assms(1) Some by (simp add: serve_mux_def)
  have ns: "no_session ?r p" using assms(2) by (simp add: no_session_def)
  have op: "\<not> operatorAuthorized d ?r" using assms(3) by (simp add: operatorAuthorized_def)
  show ?thesis
  proof (cases "rt_Session rt")
    case True
    then show ?thesis using session_guarded [OF True ns s] by auto
  next
    case False
    have "rt \<notin> set (public_routes d metrics)"
      using match_literal [OF m] public_literal public_table assms(4) by blast
    then have "rt \<in> set (operator_routes d)" using session_table [OF rt False] by blast
    from operator_table [OF this op s] show ?thesis by (simp add: untouched_refl)
  qed
qed

text \<open>C13. The boundary is closed: on every path except the ten public ones, a request that carries neither the token of
  an accepted session nor the operator's token is answered without any handler of a service running: the answer is
  401 (or the preflight, not-found, wrong-method, too-many-requests or injected-failure answer), no table changes and
  the chain is not called.\<close>

theorem guarded_routes:
  assumes "NewHandler s drawn random path r p = (resp, p')"
    and "no_session r p" and "\<not> operatorAuthorized (si_Deps s) r" and "path \<notin> set public_paths"
  shows "rs_status resp \<in> {204, 401, 404, 405, 429, 503} \<and> untouched p p'"
proof -
  let ?mux = "serve_mux (routes (si_Deps s) (si_Metrics s) (si_Stream s)) path"
  have inner: "rs_status resp1 \<in> {401, 404, 405, 429, 503} \<and> untouched p p1"
    if "RequestID random (Chaos (si_Positive s) drawn (si_Chaos s) ?mux) r p = (resp1, p1)" for resp1 p1
  proof -
    define id where "id = (if rq_header r ''X-Request-ID'' = [] then newRequestID random else rq_header r ''X-Request-ID'')"
    obtain resp2 p2 where c: "Chaos (si_Positive s) drawn (si_Chaos s) ?mux (r\<lparr>rq_id := Some id\<rparr>) p = (resp2, p2)"
      by (rule prod.exhaust)
    then have st: "rs_status resp1 = rs_status resp2" "p1 = p2"
      using that by (auto simp: RequestID_def Let_def id_def [symmetric])
    have "no_session (r\<lparr>rq_id := Some id\<rparr>) p" "\<not> operatorAuthorized (si_Deps s) (r\<lparr>rq_id := Some id\<rparr>)"
      using assms(2,3) by (simp_all add: no_session_def operatorAuthorized_def)
    note mux = mux_guarded [OF _ this assms(4)]
    show ?thesis
      using c mux st unfolding Chaos_def by (auto simp: untouched_refl split: if_splits)
  qed
  obtain resp1 p1 where q: "RequestID random (Chaos (si_Positive s) drawn (si_Chaos s) ?mux) r p = (resp1, p1)"
    by (rule prod.exhaust)
  have "(rs_status resp = 204 \<and> p' = p) \<or> (rs_status resp = rs_status resp1 \<and> p' = p1)"
    using assms(1) by (auto simp: NewHandler_def Origin_def Let_def q split: if_splits)
  then show ?thesis using inner [OF q] by (auto simp: untouched_refl)
qed

end
