(* ===== verification/MoneyHandlerProps.thy ===== *)
theory MoneyHandlerProps
  imports MoneyHandlers MoneyProps AuthProps
begin

text \<open>
  The handlers that move money, over the laws of the money service: a request is one operation of the service, or
  none; an error answer means that nothing changed but accounts a conversion opened; a retried request moves nothing and repeats its answer.
\<close>

definition money_handlers :: "'c Deps \<Rightarrow> 'z world_scheme handler list" where
  "money_handlers d = [handleDeposit_http d, handleWithdraw d, handleTransfer d, handleConvert d]"

text \<open>The answer carries a transaction.\<close>

definition accepted :: "response \<Rightarrow> bool" where
  "accepted resp \<longleftrightarrow> (case rs_body resp of Json (JObj ((k, _) # _)) \<Rightarrow> k = ''transaction'' | _ \<Rightarrow> False)"

definition refusal :: "request \<Rightarrow> err \<Rightarrow> response" where
  "refusal r e = (case root e of ErrPanic _ \<Rightarrow> aborted | _ \<Rightarrow> writeError r e [])"

lemma refusal_not_accepted: "\<not> accepted (refusal r e)"
  by (simp add: accepted_def refusal_def writeError_def writeJSON_def aborted_def split: err.split)

lemma transaction_accepted: "accepted (writeJSON status (transaction_reply t))"
  by (simp add: accepted_def writeJSON_def transaction_reply_def)

text \<open>The answer made from the result of an operation.\<close>

definition answers :: "err + Transaction \<Rightarrow> response \<Rightarrow> bool" where
  "answers res resp \<longleftrightarrow>
     (case res of Inr t \<Rightarrow> accepted resp \<and> rs_body resp = Json (transaction_reply t) | Inl e \<Rightarrow> \<not> accepted resp)"

lemma replies_eq:
  "replies r m w = (case m w of (Inr resp, w') \<Rightarrow> (resp, w') | (Inl e, w') \<Rightarrow> (refusal r e, w'))"
  by (simp add: replies_def refusal_def split: prod.split sum.split)

text \<open>A handler runs one operation with the key of the request, or stops before it.\<close>

definition failed_request :: "bool \<Rightarrow> request \<Rightarrow> db \<Rightarrow> db \<Rightarrow> bool" where
  "failed_request converts r d d' \<longleftrightarrow>
     d' = d \<or> converts \<and> (\<exists>user cs. UserFrom r = Some user \<and> opened (u_ID user) cs d d')"

definition runs_op :: "bool \<Rightarrow> 'c Deps \<Rightarrow> request \<Rightarrow> (world, response) go \<Rightarrow> bool" where
  "runs_op converts d r m \<longleftrightarrow> (\<forall>w resp w'. replies r m w = (resp, w') \<longrightarrow>
     (\<not> accepted resp \<and> w' = w) \<or>
     (\<exists>op res. op_key op = IdempotencyKeyFrom r \<and> run_op (d_Money d) op w = (res, w') \<and> answers res resp
        \<and> (\<forall>e. res = Inl e \<longrightarrow> failed_request converts r (wdb w) (wdb w'))))"

lemma runs_guard:
  "(\<And>v. runs_op b d r (f v)) \<Longrightarrow> runs_op b d r (bnd (lift x) f)"
  "(\<And>u. UserFrom r = Some u \<Longrightarrow> runs_op b d r (k u)) \<Longrightarrow> runs_op b d r (with_user r k)"
  by (auto simp: runs_op_def replies_eq bnd_def lift_def with_user_def fail_def refusal_not_accepted split: sum.splits option.splits)

lemma runs_money:
  assumes "m = run_op (d_Money d) op" and "op_key op = IdempotencyKeyFrom r"
    and "\<And>w e w'. m w = (Inl e, w') \<Longrightarrow> failed_request b r (wdb w) (wdb w')"
  shows "runs_op b d r (bnd m (\<lambda>t. ret (writeJSON status (transaction_reply t))))"
  unfolding runs_op_def
proof (intro allI impI disjI2)
  fix w resp w'
  assume run: "replies r (bnd m (\<lambda>t. ret (writeJSON status (transaction_reply t)))) w = (resp, w')"
  obtain res w1 where m: "m w = (res, w1)" by (rule prod.exhaust)
  have "w1 = w' \<and> answers res resp"
    using run m transaction_accepted refusal_not_accepted
    by (cases res) (auto simp: replies_eq bnd_def ret_def answers_def writeJSON_def)
  then show "\<exists>op res. op_key op = IdempotencyKeyFrom r \<and> run_op (d_Money d) op w = (res, w') \<and> answers res resp
      \<and> (\<forall>e. res = Inl e \<longrightarrow> failed_request b r (wdb w) (wdb w'))"
    using assms m by metis
qed

text \<open>What each of the handlers runs, after its guards.\<close>

lemma runs_handlers:
  fixes d :: "'c Deps" and r :: request
  shows "\<exists>m. handleDeposit_http d r = replies r m \<and> runs_op b d r m" (is ?deposit)
    and "\<exists>m. handleWithdraw d r = replies r m \<and> runs_op b d r m" (is ?withdraw)
    and "\<exists>m. handleTransfer d r = replies r m \<and> runs_op b d r m" (is ?transfer)
    and "\<exists>m. handleConvert d r = replies r m \<and> runs_op True d r m" (is ?convert)
proof -
  have deposit: "runs_op b d r (bnd (Deposit (d_Money d) u c a (IdempotencyKeyFrom r)) (\<lambda>t. ret (writeJSON 201 (transaction_reply t))))" for u c a
    by (rule runs_money [where op = "OpDeposit u c a (IdempotencyKeyFrom r)"]) (auto dest: Deposit_err simp: failed_request_def)
  have withdraw: "runs_op b d r (bnd (Withdraw (d_Money d) q (IdempotencyKeyFrom r)) (\<lambda>t. ret (writeJSON 201 (transaction_reply t))))" for q
    by (rule runs_money [where op = "OpWithdraw q (IdempotencyKeyFrom r)"]) (auto dest: Withdraw_err simp: failed_request_def)
  have transfer: "runs_op b d r (bnd (Transfer (d_Money d) (transfer_request r u q a)) (\<lambda>t. ret (writeJSON 200 (transaction_reply t))))" for u q a
    by (rule runs_money [where op = "OpTransfer (transfer_request r u q a)"])
      (auto dest: Transfer_err simp: transfer_request_def failed_request_def)
  have convert: "runs_op True d r (bnd (Convert (d_Money d) (u_ID u) a c c' (IdempotencyKeyFrom r)) (\<lambda>t. ret (writeJSON 200 (transaction_reply t))))"
    if "UserFrom r = Some u" for u a c c'
    by (rule runs_money [where op = "OpConvert (u_ID u) a c c' (IdempotencyKeyFrom r)"])
      (use that in \<open>auto dest!: Convert_err simp: failed_request_def\<close>)
  note runs = handleDeposit_http_def handleWithdraw_def handleTransfer_def handleConvert_def with_body_def created_json_def ok_json_def
  show ?deposit unfolding runs by (rule exI, rule conjI, rule refl) (intro runs_guard deposit)
  show ?withdraw unfolding runs by (rule exI, rule conjI, rule refl) (intro runs_guard withdraw)
  show ?transfer unfolding runs by (rule exI, rule conjI, rule refl) (intro runs_guard transfer)
  show ?convert unfolding runs by (rule exI, rule conjI, rule refl) (intro runs_guard convert)
qed

lemma handlers_run:
  assumes "h \<in> set (money_handlers d)" and "h r (w :: world) = (resp, w')"
  shows "(\<not> accepted resp \<and> w' = w) \<or>
    (\<exists>op res. op_key op = IdempotencyKeyFrom r \<and> run_op (d_Money d) op w = (res, w') \<and> answers res resp
        \<and> (\<forall>e. res = Inl e \<longrightarrow> failed_request (h = handleConvert d) r (wdb w) (wdb w')))"
proof -
  have "\<exists>m. h r = replies r m \<and> runs_op (h = handleConvert d) d r m"
    using assms(1) runs_handlers [of d r] unfolding money_handlers_def by (cases "h = handleConvert d") auto
  then show ?thesis using assms(2) unfolding runs_op_def by metis
qed

text \<open>C14. A retried request moves nothing twice: after a request to one of the endpoints deposit, withdraw, transfer
  or convert was accepted under an idempotency key, whatever happens in between (money operations under any failures, and anything that only adds to the
  ledger and keeps its keys unique, as they are at the start), any later request to any
  of the four with the same key leaves transactions, entries and balances as they are (a conversion may
  still add an empty account row) and, if it is accepted, answers with the same transaction. A request that is
  not accepted changes nothing, except that a conversion may have opened available accounts of the user who
  sent it.\<close>

theorem retried_request:
  fixes w w2 :: world
  assumes "h \<in> set (money_handlers d)" and "h' \<in> set (money_handlers d')" and "keys_unique (wdb w)"
    and "h r w = (resp, w1)" and "accepted resp" and "IdempotencyKeyFrom r \<noteq> []"
    and "keyed_reachable (wdb w1) (wdb w2)" and "h' r' w2 = (resp', w3)" and "IdempotencyKeyFrom r' = IdempotencyKeyFrom r"
  shows "ledger_same (wdb w2) (wdb w3) \<and> (accepted resp' \<longrightarrow> rs_body resp' = rs_body resp)
    \<and> (\<not> accepted resp' \<longrightarrow> failed_request (h' = handleConvert d') r' (wdb w2) (wdb w3))"
proof -
  obtain op res where op: "op_key op = IdempotencyKeyFrom r" "run_op (d_Money d) op w = (res, w1)"
    "answers res resp" using handlers_run [OF assms(1,4)] assms(5) by blast
  then obtain t where t: "res = Inr t" "rs_body resp = Json (transaction_reply t)"
    using assms(5) by (cases res) (auto simp: answers_def)
  have ok: "keys_unique (wdb w1)" using run_op_keyed [OF op(2) assms(3)] by blast
  have "replayed (op_key op) (wdb w1) t" using run_op_recorded [of _ op w t w1] op t(1) assms(6) by simp
  then have rep: "replayed (IdempotencyKeyFrom r) (wdb w2) t" and ok2: "keys_unique (wdb w2)"
    using keyed_reachable_ok [OF assms(7) ok] replayed_grows op(1) by auto
  from handlers_run [OF assms(2,8)] show ?thesis
  proof (elim disjE exE conjE)
    fix op' res'
    assume op': "op_key op' = IdempotencyKeyFrom r'" "run_op (d_Money d') op' w2 = (res', w3)" "answers res' resp'"
      and err: "\<forall>e. res' = Inl e \<longrightarrow> failed_request (h' = handleConvert d') r' (wdb w2) (wdb w3)"
    have "ledger_same (wdb w2) (wdb w3) \<and> (\<forall>t'. res' = Inr t' \<longrightarrow> t' = t)"
      using run_op_at_most_once [OF op'(2) ok2, of t] rep op'(1) assms(9) by simp
    then show ?thesis using op'(3) err t(2) by (cases res') (auto simp: answers_def)
  qed (simp add: same.refl failed_request_def)
qed

section \<open>Witness\<close>

definition sample_deps :: "mock_chain Deps" where
  "sample_deps = \<lparr>d_Auth = sample_auth, d_Money = \<lparr>has_mailer = False, has_hub = False\<rparr>, d_Savings = None, d_Security = None,
     d_Blockchain = None, d_GetTokenBalance = (\<lambda>a. fail ErrNotFound), d_Vault = None, d_Events = False,
     d_OperatorToken = [], d_RequireUserSignature = False, d_FormatFloat = (\<lambda>s. None)\<rparr>"

definition http_request :: "string \<Rightarrow> json \<Rightarrow> request" where
  "http_request m j = \<lparr>rq_method = m, rq_header = (\<lambda>h. []), rq_remote = ''10.0.0.7:4242'', rq_path = (\<lambda>k. []),
     rq_query = (\<lambda>k. []), rq_body = Body j, rq_user = Some sample_person, rq_token = Some ''token'', rq_idem = Some [], rq_id = None\<rparr>"

definition deposit_request_1 :: request where
  "deposit_request_1 = (http_request ''POST'' (JObj [(''amount'', JStr ''12.50'')]))\<lparr>rq_idem := Some ''k1''\<rparr>"

lemma sample_http_deposit:
  "\<exists>resp w1. handleDeposit_http sample_deps deposit_request_1 (sample_world sample_db []) = (resp, w1) \<and> accepted resp"
proof -
  have "case Deposit quiet ''u1'' [] 1250 ''k1'' (sample_world sample_db []) of (Inr t, w') \<Rightarrow> True | _ \<Rightarrow> False"
    by (simp add: eval_defs Deposit_def deposit_request_def Credit_def move_def move_body_def or_replay_def move_total_def notify_def
        NotificationRepo_Create_def ignore_def TransactionTypeDeposit_def)
  then obtain t w1 where run: "Deposit quiet ''u1'' [] 1250 ''k1'' (sample_world sample_db []) = (Inr t, w1)"
    by (auto split: prod.splits sum.splits)
  have user: "UserFrom deposit_request_1 = Some sample_person" "u_ID sample_person = ''u1''" "IdempotencyKeyFrom deposit_request_1 = ''k1''"
    by (simp_all add: UserFrom_def deposit_request_1_def http_request_def sample_person_def IdempotencyKeyFrom_def or_empty_def)
  have body: "decodeJSON deposit_fields \<lparr>dq_Amount = [], dq_Currency = []\<rparr> (rq_body deposit_request_1)
      = Inr \<lparr>dq_Amount = ''12.50'', dq_Currency = []\<rparr>"
    by (simp add: decodeJSON_def deposit_request_1_def http_request_def deposit_fields_def find_field_def str_field_def)
  have amount: "parseIntAmount ''12.50'' = Inr 1250" by (simp add: parseIntAmount_def parse_eval Minor_def)
  have "handleDeposit_http sample_deps deposit_request_1 (sample_world sample_db []) = (writeJSON 201 (transaction_reply t), w1)"
    by (simp add: handleDeposit_http_def replies_def with_user_def with_body_def user body amount lift_def ret_def bnd_def
        normalizeCurrency_def ToUpper_def sample_deps_def run created_json_def)
  then show ?thesis using transaction_accepted by blast
qed

theorem retried_request_witness:
  "\<exists>resp w1. handleDeposit_http sample_deps deposit_request_1 (sample_world sample_db []) = (resp, w1) \<and> accepted resp
     \<and> ledger_same (wdb w1) (wdb (snd (handleDeposit_http sample_deps deposit_request_1 w1)))"
proof -
  obtain resp w1 where run: "handleDeposit_http sample_deps deposit_request_1 (sample_world sample_db []) = (resp, w1)"
    and acc: "accepted resp" using sample_http_deposit by (elim exE conjE)
  obtain resp' w3 where again: "handleDeposit_http sample_deps deposit_request_1 w1 = (resp', w3)" by (rule prod.exhaust)
  have h: "handleDeposit_http sample_deps \<in> set (money_handlers sample_deps)" by (simp add: money_handlers_def)
  have key: "IdempotencyKeyFrom deposit_request_1 \<noteq> []"
    by (simp add: deposit_request_1_def IdempotencyKeyFrom_def or_empty_def)
  have "keys_unique (wdb (sample_world sample_db []))" using sample_ok by (simp add: ledger_ok_def)
  from retried_request [OF h h this run acc key keyed_reachable.start again refl] show ?thesis using run acc again by auto
qed

end
