(* ===== verification/HandlerProps.thy ===== *)
theory HandlerProps
  imports RouterProps AuthGuess VaultProps MoneyHandlerProps
begin

text \<open>
  What a request must carry before a handler changes anything: the PIN for a withdrawal from the vault, the current
  PIN for a new one.
\<close>

section \<open>The step that changes something\<close>

context go_preorder
begin

lemma changed_bndE:
  assumes "bnd m f w = (r, w')" and "\<not> R w w'" and "keeps R m"
  obtains x w1 where "m w = (Inr x, w1)" and "R w w1" and "f x w1 = (r, w')" and "\<not> R w1 w'"
  using assms(1)
proof (cases rule: bnd_cases)
  case (stop e)
  then show thesis using assms(2) keepsD [OF assms(3)] by blast
next
  case (go x w1)
  then have "R w w1" using keepsD [OF assms(3)] by blast
  moreover from this have "\<not> R w1 w'" using assms(2) trans by blast
  ultimately show thesis using that go by blast
qed

end

definition still :: "'z world_scheme \<Rightarrow> 'z world_scheme \<Rightarrow> bool" where
  "still w w' \<longleftrightarrow> wdb w' = wdb w \<and> world.more w' = world.more w"

interpretation still: go_preorder still
  by unfold_locales (auto simp: still_def)

definition same_db :: "'z world_scheme \<Rightarrow> 'z world_scheme \<Rightarrow> bool" where
  "same_db w w' \<longleftrightarrow> wdb w' = wdb w"

interpretation same_db: go_preorder same_db
  by unfold_locales (auto simp: same_db_def)

lemma same_db_fixed: "pres (=) m \<Longrightarrow> keeps same_db m"
  by (simp add: pres_def keeps_def same_db_def)

lemma still_read: "pres (=) m \<Longrightarrow> keeps more_same m \<Longrightarrow> keeps still m"
  by (simp add: pres_def keeps_def still_def more_same_def)

lemma replies_state: "replies r m w = (resp, w') \<Longrightarrow> \<exists>res. m w = (res, w')"
  by (auto simp: replies_def split: prod.splits sum.splits)

text \<open>The guards at the start of a handler as steps.\<close>

lemma guard_steps:
  "with_user r k = bnd (lift (case UserFrom r of None \<Rightarrow> Inl ErrUnauthenticated | Some u \<Rightarrow> Inr u)) k"
  "configured s k' = bnd (lift (case s of None \<Rightarrow> Inl ErrNotFound | Some x \<Rightarrow> Inr x)) k'"
  by (auto simp: with_user_def configured_def lift_def bnd_def fail_def ret_def fun_eq_iff split: option.splits)

lemma case_Inr: "(case s of None \<Rightarrow> Inl e | Some x \<Rightarrow> Inr x) = Inr v \<Longrightarrow> s = Some v"
  by (cases s) simp_all

lemma lift_stepE:
  assumes "bnd (lift x) f w = (r, w')" and "w' \<noteq> w"
  obtains v where "x = Inr v" and "f v w = (r, w')"
  using assms by (cases x) (auto simp: bnd_def lift_def)

lemma reject_stepE:
  assumes "bnd (reject b e) f w = (r, w')" and "w' \<noteq> w"
  obtains "\<not> b" and "f () w = (r, w')"
  using assms by (auto simp: bnd_def reject_def ret_def fail_def split: if_splits)

lemma VerifyPIN_still: "keeps still (VerifyPIN A uid pin)"
proof (rule still_read)
  show "pres (=) (VerifyPIN A uid pin)"
    unfolding VerifyPIN_def by (intro fixed.pres_rules repos_read repos_read2)
  show "keeps more_same (VerifyPIN A uid pin)" unfolding VerifyPIN_def by (intro more_rules more_reads)
qed

lemma VerifyPIN_ok:
  assumes "VerifyPIN A uid pin w = (Inr x, w')"
  obtains u where "u \<in> set (users (wdb w))" "u_ID u = uid" "u_PINHash u \<noteq> []" "CompareHashAndPassword A (u_PINHash u) pin"
proof -
  from assms obtain u w1 where "UserRepo_FindByID uid w = (Inr u, w1)" "u_PINHash u \<noteq> []" "CompareHashAndPassword A (u_PINHash u) pin"
    unfolding VerifyPIN_def by (auto elim!: bnd_okE reject_okE)
  then show thesis using find_user_ok(1) that by blast
qed

section \<open>Withdrawals need the PIN\<close>

text \<open>C12. No withdrawal without the PIN: whenever the withdrawal handler of the vault changes a table or anything of
  the vault's state, its log of chain calls included, the request came from a signed-in user, its PIN matches the hash
  stored for that user, its destination is an address and its amount a well-formed amount.\<close>

theorem withdrawal_needs_pin:
  fixes w :: "('c, 'z) vworld_scheme"
  assumes "handleVaultWithdraw d r w = (resp, w')" and "wdb w' \<noteq> wdb w \<or> vcalls w' \<noteq> vcalls w"
  shows "\<exists>user req u m. UserFrom r = Some user \<and> decodeJSON vault_withdraw_fields no_withdraw (rq_body r) = Inr req
    \<and> u \<in> set (users (wdb w)) \<and> u_ID u = u_ID user \<and> u_PINHash u \<noteq> []
    \<and> CompareHashAndPassword (d_Auth d) (u_PINHash u) (vwq_Pin req)
    \<and> addressRe (vwq_Destination req) \<and> FromMajorUnits (vwq_Amount req) = Inr m"
proof -
  have n: "\<not> still w w'" using assms(2) by (cases w; cases w') (auto simp: still_def)
  then have "w' \<noteq> w" using still.refl by blast
  with assms(1) obtain user req m f and res :: "err + response" where u: "UserFrom r = Some user"
    and req: "decodeJSON vault_withdraw_fields no_withdraw (rq_body r) = Inr req"
    and addr: "\<nexists>e. ValidateDepositAddress (vwq_Destination req) = Inl e" and m: "parseIntAmount (vwq_Amount req) = Inr m"
    and rest: "bnd (VerifyPIN (d_Auth d) (u_ID user) (vwq_Pin req)) f w = (res, w')"
    unfolding handleVaultWithdraw_def with_body_def guard_steps
    apply (elim replies_state [THEN exE] lift_stepE reject_stepE)
    apply assumption+
    by (drule case_Inr)+ (rule that; assumption)
  obtain x w1 where "VerifyPIN (d_Auth d) (u_ID user) (vwq_Pin req) w = (Inr x, w1)"
    using still.changed_bndE [OF rest n VerifyPIN_still] by blast
  then obtain row where "row \<in> set (users (wdb w))" "u_ID row = u_ID user" "u_PINHash row \<noteq> []"
    "CompareHashAndPassword (d_Auth d) (u_PINHash row) (vwq_Pin req)" by (rule VerifyPIN_ok)
  moreover have "addressRe (vwq_Destination req)"
    using addr by (auto simp: ValidateDepositAddress_def split: if_splits)
  moreover obtain a where "FromMajorUnits (vwq_Amount req) = Inr a"
    using m by (auto simp: parseIntAmount_def split: sum.splits)
  ultimately show ?thesis using u req by blast
qed

section \<open>A new PIN needs the current one\<close>

lemma auth_view_simps [simp]:
  "wdb (auth_view p) = wdb p" "clock (auth_view p) = clock p" "wdb (put_auth p a) = wdb a" "clock (put_auth p a) = clock a"
  by (simp_all add: auth_view_def put_auth_def world.defs aworld.defs)

lemma in_auth_fixed: "pres (=) m \<Longrightarrow> keeps same_db (in_auth m)"
  by (auto simp: keeps_def same_db_def in_auth_def pres_def split: prod.splits) (metis auth_view_simps(1) snd_conv)

lemma in_authE:
  assumes "in_auth m p = (r, p')"
  obtains a where "m (auth_view p) = (r, a)" and "wdb p' = wdb a"
  using assms by (auto simp: in_auth_def split: prod.splits)

lemma throttled_fixed: "pres (=) (VerifyPINThrottled A uid pin)"
proof -
  have "pres (=) (VerifyPIN A uid pin)" unfolding VerifyPIN_def by (intro fixed.pres_rules repos_read repos_read2)
  then show ?thesis unfolding VerifyPINThrottled_def by (intro fixed.pres_rules auth_fixed)
qed

lemma throttled_ok:
  assumes "VerifyPINThrottled A uid pin w = (Inr x, w')"
  obtains u where "u \<in> set (users (wdb w))" "u_ID u = uid" "u_PINHash u \<noteq> []" "CompareHashAndPassword A (u_PINHash u) pin"
proof -
  from assms obtain b w1 w2 where t: "isThrottled (''pin:'' @ uid) pinMaxAttempts w = (Inr b, w1)"
    and v: "VerifyPIN A uid pin w1 = (Inr (), w2)"
    unfolding VerifyPINThrottled_def Let_def
    by (elim bnd_okE reject_okE attempt_okE) (auto split: sum.splits elim!: bnd_okE fail_okE)
  have "wdb w1 = wdb w" using presD [OF auth_fixed(5) t] by simp
  then show thesis using VerifyPIN_ok [OF v] that by metis
qed

definition pin_row :: "time \<Rightarrow> string \<Rightarrow> string \<Rightarrow> user_row list \<Rightarrow> user_row list" where
  "pin_row t uid hash = update_where (\<lambda>u. u_ID u = uid) (\<lambda>u. u\<lparr>u_PINHash := hash, u_UpdatedAt := t\<rparr>)"

lemma UpdatePIN_users:
  assumes "UserRepo_UpdatePIN uid hash w = (r, w')"
  shows "users (wdb w') = users (wdb w) \<or> users (wdb w') = pin_row (clock w) uid hash (users (wdb w))"
proof -
  let ?q = "\<lambda>_ t d. Inr (count_where (\<lambda>u. u_ID u = uid) (users d),
     d\<lparr>users := update_where (\<lambda>u. u_ID u = uid) (\<lambda>u. u\<lparr>u_PINHash := hash, u_UpdatedAt := t\<rparr>) (users d)\<rparr>)"
  have "bnd (mapped (stmt ?q)) (\<lambda>n. reject (n = 0) ErrNotFound) w = (r, w')"
    using assms by (simp add: UserRepo_UpdatePIN_def UserRepo_update_def affecting_def)
  then obtain s where "stmt ?q w = (s, w')"
    by (cases rule: bnd_cases)
      (auto simp: mapped_def on_err_def reject_def ret_def fail_def split: prod.splits sum.splits if_splits)
  then show ?thesis
    by (cases s) (auto dest: stmt_err(1) stmt_write(2) simp: pin_row_def)
qed

lemma SetPIN_users:
  assumes "SetPIN A uid pin w = (r, w')"
  shows "users (wdb w') = users (wdb w) \<or> (\<exists>hash. users (wdb w') = pin_row (clock w) uid hash (users (wdb w)))"
proof (cases "length pin \<noteq> 6")
  case True
  then show ?thesis using assms by (simp add: SetPIN_def bnd_def reject_def fail_def)
next
  case False
  obtain h w1 where b: "bcrypt_hash A pin w = (h, w1)" "wdb w1 = wdb w" "clock w1 = clock w" by (simp add: bcrypt_hash_def)
  then show ?thesis
    using assms False UpdatePIN_users
    by (cases h) (fastforce simp: SetPIN_def bnd_def reject_def ret_def)+
qed

lemma event_users: "pres people_same (RecordSecurityEvent d ev)"
proof -
  have "pres people_same (SecurityEventRepo_Create e)" for e
    unfolding SecurityEventRepo_Create_def
    by (intro people.pres_mapped people.pres_stmt) (auto simp: people_same_def split: if_splits)
  then show ?thesis unfolding RecordSecurityEvent_def Record_event_def published_def
    by (intro people.pres_rules people.pres_modify) simp_all
qed

lemma pin_tail:
  assumes "bnd (in_auth (SetPIN A uid pin)) (\<lambda>_. bnd (RecordSecurityEvent d ev) (\<lambda>_. ok_json j)) p = (res, p')"
  shows "users (wdb p') = users (wdb p) \<or> (\<exists>t hash. users (wdb p') = pin_row t uid hash (users (wdb p)))"
  using assms
proof (cases rule: bnd_cases)
  case (stop e)
  then show ?thesis using SetPIN_users by (metis auth_view_simps(1) in_authE)
next
  case (go x p1)
  have "pres people_same (bnd (RecordSecurityEvent d ev) (\<lambda>_. ok_json j))"
    unfolding ok_json_def by (intro people.pres_rules event_users)
  from presD [OF this go(2)] have "users (wdb p') = users (wdb p1)" by (simp add: people_same_def)
  then show ?thesis using go(1) SetPIN_users by (metis auth_view_simps(1) in_authE)
qed

lemma set_pin_reached:
  assumes "handleSetPin d r p = (resp, p')" and "p' \<noteq> p"
  obtains user req and res :: "err + response" where "UserFrom r = Some user"
    and "decodeJSON setPinRequest no_pair (rq_body r) = Inr req" and "length (pq_fst req) = 6"
    and "bnd (attempt (HasPIN (u_ID user))) (\<lambda>existing.
     bnd (if existing = Inr True then in_auth (VerifyPINThrottled (d_Auth d) (u_ID user) (pq_snd req)) else ret ()) (\<lambda>_.
     bnd (in_auth (SetPIN (d_Auth d) (u_ID user) (pq_fst req))) (\<lambda>_.
     bnd (RecordSecurityEvent d (pin_event r (u_ID user))) (\<lambda>_.
     ok_json (JObj [(''updated'', JBool True)]))))) p = (res, p')"
proof -
  from assms(2,1) obtain user req and res :: "err + response" where u: "UserFrom r = Some user"
    and req: "decodeJSON setPinRequest no_pair (rq_body r) = Inr req" and len: "\<not> length (pq_fst req) \<noteq> 6"
    and rest: "bnd (attempt (HasPIN (u_ID user))) (\<lambda>existing.
     bnd (if existing = Inr True then in_auth (VerifyPINThrottled (d_Auth d) (u_ID user) (pq_snd req)) else ret ()) (\<lambda>_.
     bnd (in_auth (SetPIN (d_Auth d) (u_ID user) (pq_fst req))) (\<lambda>_.
     bnd (RecordSecurityEvent d (pin_event r (u_ID user))) (\<lambda>_.
     ok_json (JObj [(''updated'', JBool True)]))))) p = (res, p')"
    unfolding handleSetPin_def with_body_def guard_steps
    apply (elim replies_state [THEN exE] lift_stepE reject_stepE)
    apply assumption+
    by (drule case_Inr)+ (rule that; assumption)
  then show thesis using that by simp
qed

text \<open>C15. A PIN changes only for the signed-in user, and then either no PIN was stored, or the current PIN was given, or
  the lookup of the stored PIN failed: the handler drops the error of that lookup and takes it for a user without
  PIN, as the witness shows on a user whose PIN is replaced without the current one.\<close>

theorem pin_change_guarded:
  assumes "handleSetPin d r p = (resp, p')" and "users (wdb p') \<noteq> users (wdb p)"
  shows "\<exists>user req t hash. UserFrom r = Some user \<and> decodeJSON setPinRequest no_pair (rq_body r) = Inr req
    \<and> length (pq_fst req) = 6 \<and> users (wdb p') = pin_row t (u_ID user) hash (users (wdb p))
    \<and> ((\<exists>e. fst (HasPIN (u_ID user) p) = Inl e) \<or> fst (HasPIN (u_ID user) p) = Inr False
       \<or> (\<exists>u\<in>set (users (wdb p)). u_ID u = u_ID user \<and> CompareHashAndPassword (d_Auth d) (u_PINHash u) (pq_snd req)))"
proof -
  have n: "\<not> same_db p p'" and "p' \<noteq> p" using assms(2) by (auto simp: same_db_def)
  from assms(1) this(2) obtain user req and res :: "err + response" where u: "UserFrom r = Some user"
    and req: "decodeJSON setPinRequest no_pair (rq_body r) = Inr req" and len: "length (pq_fst req) = 6"
    and rest: "bnd (attempt (HasPIN (u_ID user))) (\<lambda>existing.
     bnd (if existing = Inr True then in_auth (VerifyPINThrottled (d_Auth d) (u_ID user) (pq_snd req)) else ret ()) (\<lambda>_.
     bnd (in_auth (SetPIN (d_Auth d) (u_ID user) (pq_fst req))) (\<lambda>_.
     bnd (RecordSecurityEvent d (pin_event r (u_ID user))) (\<lambda>_.
     ok_json (JObj [(''updated'', JBool True)]))))) p = (res, p')" by (rule set_pin_reached)
  have "pres (=) (HasPIN (u_ID user))" unfolding HasPIN_def by (intro fixed.pres_rules repos_read repos_read2)
  then have k1: "keeps same_db (attempt (HasPIN (u_ID user)))" by (intro same_db.keeps_rules same_db_fixed)
  obtain existing p1 where e: "attempt (HasPIN (u_ID user)) p = (Inr existing, p1)" and s1: "same_db p p1" and
    r1: "bnd (if existing = Inr True then in_auth (VerifyPINThrottled (d_Auth d) (u_ID user) (pq_snd req)) else ret ()) (\<lambda>_.
     bnd (in_auth (SetPIN (d_Auth d) (u_ID user) (pq_fst req))) (\<lambda>_.
     bnd (RecordSecurityEvent d (pin_event r (u_ID user))) (\<lambda>_.
     ok_json (JObj [(''updated'', JBool True)])))) p1 = (res, p')" and n1: "\<not> same_db p1 p'"
    by (rule same_db.changed_bndE [OF rest n k1])
  have k2: "keeps same_db (if existing = Inr True then in_auth (VerifyPINThrottled (d_Auth d) (u_ID user) (pq_snd req)) else ret ())"
    by (intro same_db.keeps_rules in_auth_fixed throttled_fixed)
  obtain x p2 where t: "(if existing = Inr True then in_auth (VerifyPINThrottled (d_Auth d) (u_ID user) (pq_snd req)) else ret ()) p1
       = (Inr x, p2)" and s2: "same_db p1 p2" and
    r2: "bnd (in_auth (SetPIN (d_Auth d) (u_ID user) (pq_fst req))) (\<lambda>_.
     bnd (RecordSecurityEvent d (pin_event r (u_ID user))) (\<lambda>_.
     ok_json (JObj [(''updated'', JBool True)]))) p2 = (res, p')"
    by (rule same_db.changed_bndE [OF r1 n1 k2])
  have db: "wdb p1 = wdb p" "wdb p2 = wdb p" using s1 s2 by (simp_all add: same_db_def)
  obtain t0 hash where "users (wdb p') = pin_row t0 (u_ID user) hash (users (wdb p))"
    using pin_tail [OF r2] assms(2) unfolding db by blast
  moreover have "fst (HasPIN (u_ID user) p) = existing" using e by (simp add: attempt_eq)
  then have "(\<exists>e. fst (HasPIN (u_ID user) p) = Inl e) \<or> fst (HasPIN (u_ID user) p) = Inr False \<or> existing = Inr True"
    by (cases existing) auto
  moreover have "\<exists>u\<in>set (users (wdb p)). u_ID u = u_ID user \<and> CompareHashAndPassword (d_Auth d) (u_PINHash u) (pq_snd req)"
    if "existing = Inr True"
  proof -
    have "in_auth (VerifyPINThrottled (d_Auth d) (u_ID user) (pq_snd req)) p1 = (Inr x, p2)" using t that by simp
    then obtain a where "VerifyPINThrottled (d_Auth d) (u_ID user) (pq_snd req) (auth_view p1) = (Inr x, a)" by (rule in_authE)
    then obtain u where "u \<in> set (users (wdb (auth_view p1)))" "u_ID u = u_ID user"
      "CompareHashAndPassword (d_Auth d) (u_PINHash u) (pq_snd req)" by (rule throttled_ok)
    then show ?thesis using db(1) by auto
  qed
  ultimately show ?thesis using u req len by blast
qed

section \<open>Witnesses\<close>

definition sample_server :: "bool list \<Rightarrow> db \<Rightarrow> mock_chain server" where
  "sample_server bad d = \<lparr>wdb = d, faults = bad, txst = NoTx, clock = hour, uuid = (\<lambda>n. ''id'' @ show_nat n), uuid_n = 0,
     randref = (\<lambda>n. []), rand_n = 0, hub_log = [], mail_log = [], vchain = sample_mock, vrate = 0, vlastBlock = 0,
     vaddressUser = Map.empty, vcloneUser = Map.empty, vcalls = [], p_attempts = Map.empty, p_lastAlert = Map.empty,
     p_rnd = (\<lambda>n. of_nat n), p_rnd_fails = (\<lambda>n. False), p_rnd_pos = 0, p_limiters = (\<lambda>n. NewRateLimiter second 5)\<rparr>"

definition new_pin_request :: request where
  "new_pin_request = http_request ''PUT'' (JObj [(''pin'', JStr ''271828'')])"

lemma new_pin_body: "decodeJSON setPinRequest no_pair (rq_body new_pin_request) = Inr \<lparr>pq_fst = ''271828'', pq_snd = []\<rparr>"
  by (simp add: decodeJSON_def new_pin_request_def http_request_def setPinRequest_def pair_fields_def find_field_def str_field_def
      no_pair_def)

lemma sample_lookup_fails:
  "HasPIN ''u1'' (sample_server [True] sample_adb) = (Inl ErrDB, (sample_server [] sample_adb)\<lparr>uuid_n := 1\<rparr>)"
  by (simp add: HasPIN_def UserRepo_FindByID_def mapped_def on_err_def bnd_def stmt_def consume_def abort_def mapPgErr_def errIs_def sample_server_def)

lemma sample_SetPIN:
  "\<exists>a. SetPIN sample_auth ''u1'' ''271828'' (auth_view ((sample_server [] sample_adb)\<lparr>uuid_n := 1\<rparr>)) = (Inr (), a)
     \<and> map u_PINHash (users (wdb a)) = [''h:271828'']"
  by (simp add: SetPIN_def bnd_def reject_def ret_def bcrypt_hash_def sample_auth_def auth_view_def sample_server_def
      world.defs aworld.defs UserRepo_UpdatePIN_def UserRepo_update_def affecting_def mapped_def on_err_def stmt_def
      consume_def count_where_def update_where_def sample_adb_def sample_person_def empty_db_def)

lemma sample_pin_run:
  "\<exists>p'. handleSetPin sample_deps new_pin_request (sample_server [True] sample_adb) = (writeJSON 200 (JObj [(''updated'', JBool True)]), p')
     \<and> map u_PINHash (users (wdb p')) = [''h:271828'']"
proof -
  obtain a where a: "SetPIN sample_auth ''u1'' ''271828'' (auth_view ((sample_server [] sample_adb)\<lparr>uuid_n := 1\<rparr>)) = (Inr (), a)"
    and h: "map u_PINHash (users (wdb a)) = [''h:271828'']" using sample_SetPIN by (elim exE conjE)
  have user: "UserFrom new_pin_request = Some sample_person" "u_ID sample_person = ''u1''"
    by (simp_all add: UserFrom_def new_pin_request_def http_request_def sample_person_def)
  have deps: "d_Auth sample_deps = sample_auth" "d_Security sample_deps = None" by (simp_all add: sample_deps_def)
  have "handleSetPin sample_deps new_pin_request (sample_server [True] sample_adb)
    = (writeJSON 200 (JObj [(''updated'', JBool True)]), put_auth ((sample_server [] sample_adb)\<lparr>uuid_n := 1\<rparr>) a)"
    by (simp add: handleSetPin_def replies_def with_user_def with_body_def user deps new_pin_body lift_def ret_def reject_def
        bnd_def attempt_eq sample_lookup_fails in_auth_def a RecordSecurityEvent_def ok_json_def del: One_nat_def)
  then show ?thesis using h by simp
qed

theorem pin_change_guarded_witness:
  "\<exists>p' hash t. handleSetPin sample_deps new_pin_request (sample_server [True] sample_adb)
         = (writeJSON 200 (JObj [(''updated'', JBool True)]), p')
     \<and> users (wdb p') = pin_row t ''u1'' hash [sample_person] \<and> map u_PINHash (users (wdb p')) = [''h:271828'']
     \<and> fst (HasPIN ''u1'' (sample_server [True] sample_adb)) = Inl ErrDB \<and> u_PINHash sample_person = ''h:314159''"
proof -
  obtain p' where run: "handleSetPin sample_deps new_pin_request (sample_server [True] sample_adb)
      = (writeJSON 200 (JObj [(''updated'', JBool True)]), p')" and h: "map u_PINHash (users (wdb p')) = [''h:271828'']"
    using sample_pin_run by (elim exE conjE)
  have old: "users (wdb (sample_server [True] sample_adb)) = [sample_person]" "u_PINHash sample_person = ''h:314159''"
    by (simp_all add: sample_server_def sample_adb_def sample_person_def)
  have "users (wdb p') \<noteq> users (wdb (sample_server [True] sample_adb))" using h old by auto
  from pin_change_guarded [OF run this] obtain user t hash where
    "UserFrom new_pin_request = Some user" "users (wdb p') = pin_row t (u_ID user) hash [sample_person]" unfolding old by auto
  moreover have "UserFrom new_pin_request = Some sample_person" "u_ID sample_person = ''u1''"
    by (simp_all add: UserFrom_def new_pin_request_def http_request_def sample_person_def)
  ultimately have "users (wdb p') = pin_row t ''u1'' hash [sample_person]" by simp
  moreover have "fst (HasPIN ''u1'' (sample_server [True] sample_adb)) = Inl ErrDB" by (simp add: sample_lookup_fails)
  ultimately show ?thesis using run h old(2) by (intro exI conjI)
qed

definition sample_wallet :: string where "sample_wallet = ''0x'' @ replicate 40 (CHR ''a'')"

definition paused_deps :: "mock_chain Deps" where
  "paused_deps = sample_deps\<lparr>d_Savings := Some \<lparr>sc_VaultContract = [], sc_VaultAddress = [], sc_StablecoinSymbol = [],
       sc_StablecoinName = [], sc_StablecoinDecimals = 6, sc_StablecoinContract = [], sc_Network = [], sc_ChainID = 1,
       sc_Mode = ''mock'', sc_PrivacyMode = False\<rparr>,
     d_Security := Some False, d_Vault := Some (sample_vault\<lparr>v_cfg := sample_cfg\<lparr>cfg_Mode := ''mock''\<rparr>\<rparr>)\<rparr>"

definition http_withdraw :: request where
  "http_withdraw = http_request ''POST''
     (JObj [(''amount'', JStr ''12.50''), (''destination'', JStr sample_wallet), (''pin'', JStr ''314159'')])"

definition withdraw_query :: vaultWithdrawRequest where
  "withdraw_query = no_withdraw\<lparr>vwq_Amount := ''12.50'', vwq_Destination := sample_wallet, vwq_Pin := ''314159''\<rparr>"

lemma withdraw_body: "decodeJSON vault_withdraw_fields no_withdraw (rq_body http_withdraw) = Inr withdraw_query"
  by (simp add: decodeJSON_def http_withdraw_def withdraw_query_def http_request_def vault_withdraw_fields_def find_field_def
      str_field_def no_withdraw_def)

lemma sample_pin_ok:
  "VerifyPIN sample_auth ''u1'' ''314159'' (sample_server [] sample_adb) = (Inr (), (sample_server [] sample_adb)\<lparr>uuid_n := 1\<rparr>)"
  by (simp add: VerifyPIN_def UserRepo_FindByID_def mapped_def on_err_def bnd_def stmt_def select_def first_row_def consume_def
      reject_def ret_def fail_def sample_server_def sample_auth_def sample_adb_def sample_person_def)

lemma sample_paused:
  "WithdrawToAddressSigned (sample_vault\<lparr>v_cfg := sample_cfg\<lparr>cfg_Mode := ''mock''\<rparr>\<rparr>) u t m sig key w = (Inl ErrFeatureDisabled, w)"
  by (simp add: WithdrawToAddressSigned_def vault_withdraw_def validateWithdrawalRequest_def bnd_def reject_def fail_def)

lemma sample_rejected:
  "length (security_events (wdb (snd (withdrawal_rejected paused_deps http_withdraw ''u1'' a e
     ((sample_server [] sample_adb)\<lparr>uuid_n := 1\<rparr>))))) = 1"
  by (simp add: withdrawal_rejected_def RecordSecurityEvent_def paused_deps_def Record_event_def published_def ignore_eq
      SecurityEventRepo_Create_def mapped_def on_err_def stmt_def consume_def bnd_def ret_def fail_def has_user_def withdraw_event_def
      request_event_def plain_event_def sample_server_def sample_adb_def sample_person_def empty_db_def)

lemma sample_withdraw_run:
  "snd (handleVaultWithdraw paused_deps http_withdraw (sample_server [] sample_adb))
   = snd (withdrawal_rejected paused_deps http_withdraw ''u1'' sample_wallet ErrFeatureDisabled
       ((sample_server [] sample_adb)\<lparr>uuid_n := 1\<rparr>))"
proof -
  have user: "UserFrom http_withdraw = Some sample_person" "u_ID sample_person = ''u1''"
    by (simp_all add: UserFrom_def http_withdraw_def http_request_def sample_person_def)
  have valid: "ValidateDepositAddress sample_wallet = Inr sample_wallet" "sample_wallet \<noteq> []"
    by (simp_all add: ValidateDepositAddress_def sample_wallet_def addressRe_def list_all_iff is_hex_def is_digit_def)
  have amount: "parseIntAmount ''12.50'' = Inr 1250" by (simp add: parseIntAmount_def parse_eval Minor_def)
  have query: "vwq_Destination withdraw_query = sample_wallet" "vwq_Amount withdraw_query = ''12.50''" "vwq_Pin withdraw_query = ''314159''"
    by (simp_all add: withdraw_query_def)
  have deps: "d_Auth paused_deps = sample_auth" "d_Vault paused_deps = Some (sample_vault\<lparr>v_cfg := sample_cfg\<lparr>cfg_Mode := ''mock''\<rparr>\<rparr>)"
    "\<exists>s. d_Savings paused_deps = Some s" by (simp_all add: paused_deps_def sample_deps_def)
  then obtain s where s: "d_Savings paused_deps = Some s" by blast
  have panic: "\<not> is_panic ErrFeatureDisabled" by (simp add: is_panic_def)
  show ?thesis
    by (simp add: handleVaultWithdraw_def replies_def with_user_def configured_def with_body_def user valid amount query deps(1,2) s
        withdraw_body lift_def ret_def reject_def bnd_def attempt_eq sample_pin_ok sample_paused panic split: prod.splits sum.splits
        del: One_nat_def)
qed

theorem withdrawal_needs_pin_witness:
  "wdb (snd (handleVaultWithdraw paused_deps http_withdraw (sample_server [] sample_adb))) \<noteq> wdb (sample_server [] sample_adb)
   \<and> (\<exists>u. u \<in> set (users sample_adb) \<and> u_ID u = ''u1'' \<and> CompareHashAndPassword sample_auth (u_PINHash u) ''314159'')"
proof -
  let ?run = "handleVaultWithdraw paused_deps http_withdraw (sample_server [] sample_adb)"
  have w: "wdb (sample_server [] sample_adb) = sample_adb" by (simp add: sample_server_def)
  have "security_events sample_adb = []" by (simp add: sample_adb_def empty_db_def)
  then have changed: "wdb (snd ?run) \<noteq> wdb (sample_server [] sample_adb)"
    using sample_rejected [of sample_wallet ErrFeatureDisabled] unfolding sample_withdraw_run w by auto
  have "?run = (fst ?run, snd ?run)" by simp
  from withdrawal_needs_pin [OF this] changed obtain user req u where
    "UserFrom http_withdraw = Some user" "decodeJSON vault_withdraw_fields no_withdraw (rq_body http_withdraw) = Inr req"
    "u \<in> set (users sample_adb)" "u_ID u = u_ID user" "CompareHashAndPassword (d_Auth paused_deps) (u_PINHash u) (vwq_Pin req)"
    unfolding w by blast
  moreover have "UserFrom http_withdraw = Some sample_person" "u_ID sample_person = ''u1''" "d_Auth paused_deps = sample_auth"
    "vwq_Pin withdraw_query = ''314159''"
    by (simp_all add: UserFrom_def http_withdraw_def http_request_def sample_person_def paused_deps_def sample_deps_def withdraw_query_def)
  ultimately show ?thesis using changed withdraw_body by auto
qed

definition sample_site :: "(mock_chain, nat) site" where
  "sample_site = \<lparr>si_Deps = sample_deps, si_Origins = [], si_Chaos = \<lparr>cc_Enabled = False, cc_FailureRate = 0, cc_LatencyMaxMS = 0\<rparr>,
     si_Positive = (\<lambda>x. 0 < x), si_Metrics = (\<lambda>p. []), si_Stream = (\<lambda>u. ret (writeJSON 200 JNull))\<rparr>"

theorem guarded_routes_witness:
  "\<exists>resp p'. NewHandler sample_site False [] (api [''money'', ''deposit'']) (http_request ''POST'' JNull) (sample_server [] sample_adb)
       = (resp, p') \<and> rs_status resp \<in> {204, 401, 404, 405, 429, 503} \<and> wdb p' = sample_adb"
proof -
  let ?r = "http_request ''POST'' JNull" and ?p = "sample_server [] sample_adb"
  obtain resp p' where run: "NewHandler sample_site False [] (api [''money'', ''deposit'']) ?r ?p = (resp, p')" by (rule prod.exhaust)
  have h: "no_session ?r ?p" "\<not> operatorAuthorized (si_Deps sample_site) ?r" "api [''money'', ''deposit''] \<notin> set public_paths"
    by (simp_all add: no_session_def http_request_def bearer_token_def operatorAuthorized_def sample_site_def
        sample_deps_def public_paths_def api_def)
  show ?thesis using guarded_routes [OF run h] run by (auto simp: untouched_def sample_server_def)
qed

end
