(* ===== verification/AuthLive.thy ===== *)
theory AuthLive
  imports AuthGuess
begin

text \<open>
  A registration can be completed: without faults, a person who stages a sign-up gets a code by mail, and the code,
  handed in before it expires, creates the account and a session whose token is accepted. What can stand in the way
  is named: the address is free, the identifiers and tokens to come are unused, and the library functions succeed.
\<close>

section \<open>Worlds in which nothing stands in the way\<close>

definition ids_ahead :: "'z world_scheme \<Rightarrow> bool" where
  "ids_ahead w \<longleftrightarrow> inj (uuid w) \<and> (\<forall>n\<ge>uuid_n w. (\<forall>u\<in>set (users (wdb w)). u_ID u \<noteq> uuid w n)
     \<and> (\<forall>a\<in>set (accounts (wdb w)). acc_ID a \<noteq> uuid w n) \<and> (\<forall>s\<in>set (sessions (wdb w)). s_ID s \<noteq> uuid w n))"

definition next_token :: "'z aworld_scheme \<Rightarrow> string" where
  "next_token w = url_EncodeToString (map (\<lambda>i. rnd w (rnd_pos w + i)) [0..<32])"

definition tokens_ahead :: "'z aworld_scheme \<Rightarrow> bool" where
  "tokens_ahead w \<longleftrightarrow> (\<forall>n. \<not> rnd_fails w n) \<and>
     (\<forall>n\<ge>rnd_pos w. \<forall>s\<in>set (sessions (wdb w)). s_TokenHash s \<noteq> tokenHash (next_token (w\<lparr>rnd_pos := n\<rparr>)))"

text \<open>A statement that succeeds, and one that finds no row.\<close>

lemma quiet_write:
  assumes "faults w = []" and "txst w \<noteq> Aborted" and "q (uuid w (uuid_n w)) (clock w) (wdb w) = Inr (v, d)"
  shows "stmt q w = (Inr v, w\<lparr>uuid_n := Suc (uuid_n w), wdb := d\<rparr>)"
  using assms by (simp add: stmt_no_faults)

lemma rand_quiet:
  "\<not> rnd_fails w (rnd_pos w) \<Longrightarrow> rand_Read n w = (Inr (map (\<lambda>i. rnd w (rnd_pos w + i)) [0..<n]), w\<lparr>rnd_pos := rnd_pos w + n\<rparr>)"
  by (simp add: rand_Read_def Let_def)

definition next_code :: "'z aworld_scheme \<Rightarrow> string" where
  "next_code w = otp_digits (map (\<lambda>i. rnd w (rnd_pos w + i)) [0..<otpDigits])"

lemma code_quiet:
  "\<not> rnd_fails w (rnd_pos w) \<Longrightarrow> generateOTP otpDigits w = (Inr (next_code w), w\<lparr>rnd_pos := rnd_pos w + otpDigits\<rparr>)"
  by (simp add: generateOTP_def bnd_def rand_quiet ret_def next_code_def)

text \<open>The row a staged registration leaves, and the world after it.\<close>

definition staged_row :: "string \<Rightarrow> string \<Rightarrow> time \<Rightarrow> pendingRegistration \<Rightarrow> EmailOTP" where
  "staged_row email code t reg = (otp_row email code t (Some reg))\<lparr>otp_Attempts := 0, otp_CreatedAt := t, otp_UpdatedAt := t\<rparr>"

definition staged_world :: "string \<Rightarrow> pendingRegistration \<Rightarrow> 'z aworld_scheme \<Rightarrow> 'z aworld_scheme" where
  "staged_world email reg w =
     w\<lparr>uuid_n := Suc (Suc (uuid_n w)), rnd_pos := rnd_pos w + otpDigits,
       mail_log := mail_log w @ [(''SendOTP'', [email, next_code w])],
       wdb := (wdb w)\<lparr>email_otps := email_otps (wdb w) @ [staged_row email (next_code w) (clock w) reg]\<rparr>\<rparr>"

lemma issue_quiet:
  assumes "quiet_world w" and "otp_of (wdb w) email = None" and "\<not> rnd_fails w (rnd_pos w)"
    and "as_otpSender A = Some send" and "\<And>n c. send n email c = Inr ()"
  shows "issueAndSendOTP A email (Some reg) w = (Inr (next_code w, clock w + otpCooldown), staged_world email reg w)"
proof -
  have q: "faults w = []" "txst w = NoTx" using assms(1) by (simp_all add: quiet_world_def)
  have none: "\<forall>r\<in>set (email_otps (wdb w)). otp_Email r \<noteq> email" using assms(2) by (auto simp: otp_of_def find_None_iff)
  have em: "otp_Email (otp_row email code t r) = email" for code t r
    by (simp add: otp_row_def Let_def split: option.splits)
  have nc: "next_code (w\<lparr>uuid_n := n\<rparr>) = next_code w" for n by (simp add: next_code_def)
  show ?thesis
    using none
    by (simp add: issueAndSendOTP_def bnd_def quiet_find_otp [OF assms(1)] assms(2-5) otp_cooldown_def ret_def code_quiet gets_def
        EmailOTPRepo_Upsert_def mapped_def on_err_def stmt_no_faults q em nc send_code_def modify_def lift_def staged_world_def
        staged_row_def Let_def)
qed

lemma stage_quiet:
  assumes "quiet_world w" and "email = ToLower (TrimSpace (ri_Email req))" and "emailRe email" and "8 \<le> length (ri_Password req)"
    and "List.find (\<lambda>u. u_Email u = email) (users (wdb w)) = None" and "otp_of (wdb w) email = None"
    and "GenerateFromPassword A (ri_Password req) (rnd_pos w) = Inr hash" and "\<And>n. \<not> rnd_fails w n"
    and "as_otpSender A = Some send" and "\<And>n c. send n email c = Inr ()"
    and "reg = \<lparr>pr_FirstName = ri_FirstName req, pr_LastName = ri_LastName req, pr_Phone = ri_Phone req, pr_PasswordHash = hash\<rparr>"
  shows "StageRegistration A req w
    = (Inr (clock w + otpCooldown), staged_world email reg (w\<lparr>uuid_n := Suc (uuid_n w), rnd_pos := rnd_pos w + 16\<rparr>))"
proof -
  let ?w = "w\<lparr>uuid_n := Suc (uuid_n w), rnd_pos := rnd_pos w + 16\<rparr>"
  have q: "faults w = []" "txst w = NoTx" using assms(1) by (simp_all add: quiet_world_def)
  have "quiet_world ?w" using q by (simp add: quiet_world_def)
  from issue_quiet [OF this, of email A send reg] assms(6,8-10)
  have "issueAndSendOTP A email (Some reg) ?w = (Inr (next_code ?w, clock w + otpCooldown), staged_world email reg ?w)" by simp
  then show ?thesis
    using assms(3,4,5,7) q
    by (simp add: StageRegistration_def assms(2) [symmetric] assms(11) Let_def bnd_def reject_def ret_def if_found_def attempt_def
        UserRepo_FindByEmail_def mapped_def on_err_def stmt_no_faults select_def first_row_def mapPgErr_def errIs_def bcrypt_hash_def)
qed

section \<open>Creating the account\<close>

lemma ensure_quiet:
  assumes "faults w = []" and "txst w \<noteq> Aborted" and "has_user (wdb w) uid"
    and "\<forall>a\<in>set (accounts (wdb w)). acc_ID a \<noteq> uuid w (uuid_n w)"
  shows "\<exists>a accs. AccountRepo_EnsureAccount uid kind cur w = (Inr a, w\<lparr>uuid_n := Suc (uuid_n w), wdb := (wdb w)\<lparr>accounts := accs\<rparr>\<rparr>)
    \<and> acc_ID ` set accs \<subseteq> insert (uuid w (uuid_n w)) (acc_ID ` set (accounts (wdb w)))"
proof (cases "List.find (\<lambda>a. acc_UserID a = uid \<and> acc_Kind a = kind \<and> acc_Currency a = cur) (accounts (wdb w))")
  case None
  then show ?thesis using assms
    by (auto simp: AccountRepo_EnsureAccount_def mapped_def on_err_def stmt_no_faults Let_def intro!: exI)
next
  case (Some a)
  have "AccountRepo_EnsureAccount uid kind cur w = (Inr a, w\<lparr>uuid_n := Suc (uuid_n w), wdb := (wdb w)\<lparr>accounts := accounts (wdb w)\<rparr>\<rparr>)"
    using Some assms(1,2) by (simp add: AccountRepo_EnsureAccount_def mapped_def on_err_def stmt_no_faults Let_def)
  then show ?thesis by blast
qed

lemma defaults_quiet:
  assumes "faults w = []" and "txst w \<noteq> Aborted" and "has_user (wdb w) uid" and "inj (uuid w)"
    and "\<forall>n\<ge>uuid_n w. \<forall>a\<in>set (accounts (wdb w)). acc_ID a \<noteq> uuid w n"
  shows "\<exists>accs. AccountRepo_EnsureDefaultAccounts uid w
    = (Inr (), w\<lparr>uuid_n := Suc (Suc (uuid_n w)), wdb := (wdb w)\<lparr>accounts := accs\<rparr>\<rparr>)"
proof -
  obtain a accs where 1: "AccountRepo_EnsureAccount uid AccountKindAvailable ''NGN'' w
      = (Inr a, w\<lparr>uuid_n := Suc (uuid_n w), wdb := (wdb w)\<lparr>accounts := accs\<rparr>\<rparr>)"
    and ids: "acc_ID ` set accs \<subseteq> insert (uuid w (uuid_n w)) (acc_ID ` set (accounts (wdb w)))"
    using ensure_quiet assms by (metis order_refl)
  let ?w = "w\<lparr>uuid_n := Suc (uuid_n w), wdb := (wdb w)\<lparr>accounts := accs\<rparr>\<rparr>"
  have "\<forall>a\<in>set accs. acc_ID a \<noteq> uuid w (Suc (uuid_n w))"
  proof
    fix a assume "a \<in> set accs"
    then have "acc_ID a = uuid w (uuid_n w) \<or> acc_ID a \<in> acc_ID ` set (accounts (wdb w))" using ids by auto
    then show "acc_ID a \<noteq> uuid w (Suc (uuid_n w))"
    proof
      assume "acc_ID a = uuid w (uuid_n w)"
      then show ?thesis using injD [OF assms(4)] by (metis n_not_Suc_n)
    next
      assume "acc_ID a \<in> acc_ID ` set (accounts (wdb w))"
      then obtain b where "b \<in> set (accounts (wdb w))" "acc_ID b = acc_ID a" by auto
      then show ?thesis using assms(5) le_SucI [OF order_refl] by metis
    qed
  qed
  then obtain b accs' where 2: "AccountRepo_EnsureAccount uid AccountKindSavings ''NGN'' ?w
      = (Inr b, ?w\<lparr>uuid_n := Suc (uuid_n ?w), wdb := (wdb ?w)\<lparr>accounts := accs'\<rparr>\<rparr>)"
    using ensure_quiet [of ?w uid AccountKindSavings "''NGN''"] assms(1-3) by (auto simp: has_user_def)
  show ?thesis using 1 2 by (auto simp: AccountRepo_EnsureDefaultAccounts_def bnd_def ret_def)
qed

lemma create_quiet:
  assumes "quiet_world w" and "ids_ahead w" and "\<forall>u\<in>set (users (wdb w)). u_Email u \<noteq> email"
    and "user = registered_user email otp t"
  shows "\<exists>row d. create_account email user w = (Inr row, w\<lparr>uuid_n := uuid_n w + 4, wdb := d\<rparr>)
    \<and> u_ID row = uuid w (uuid_n w) \<and> u_Email row = email \<and> u_Status row = UserStatusActive
    \<and> users d = users (wdb w) @ [row] \<and> sessions d = sessions (wdb w)"
proof -
  have q: "faults w = []" "txst w = NoTx" using assms(1) by (simp_all add: quiet_world_def)
  have ids: "inj (uuid w)" "\<forall>u\<in>set (users (wdb w)). u_ID u \<noteq> uuid w (uuid_n w)"
    "\<forall>n\<ge>Suc (uuid_n w). \<forall>a\<in>set (accounts (wdb w)). acc_ID a \<noteq> uuid w n"
    using assms(2) by (auto simp: ids_ahead_def)
  let ?t = "w\<lparr>txst := InTx\<rparr>"
  have mail: "u_Email user = email" "u_Status user = UserStatusActive" by (simp_all add: assms(4) registered_user_def)
  obtain row where row: "UserRepo_Create user ?t = (Inr row, ?t\<lparr>uuid_n := Suc (uuid_n w), wdb := (wdb w)\<lparr>users := users (wdb w) @ [row]\<rparr>\<rparr>)"
      "u_ID row = uuid w (uuid_n w)" "u_Email row = email" "u_Status row = UserStatusActive"
    using q ids(2) assms(3) mail by (auto simp: UserRepo_Create_def mapped_def on_err_def stmt_no_faults Let_def)
  let ?t1 = "?t\<lparr>uuid_n := Suc (uuid_n w), wdb := (wdb w)\<lparr>users := users (wdb w) @ [row]\<rparr>\<rparr>"
  obtain accs where acc: "AccountRepo_EnsureDefaultAccounts (u_ID row) ?t1
      = (Inr (), ?t1\<lparr>uuid_n := Suc (Suc (uuid_n ?t1)), wdb := (wdb ?t1)\<lparr>accounts := accs\<rparr>\<rparr>)"
    using defaults_quiet [of ?t1 "u_ID row"] q ids by (auto simp: has_user_def)
  let ?t2 = "?t1\<lparr>uuid_n := Suc (Suc (uuid_n ?t1)), wdb := (wdb ?t1)\<lparr>accounts := accs\<rparr>\<rparr>"
  define os where "os = filter (\<lambda>r. otp_Email r \<noteq> email) (email_otps (wdb w))"
  have clear: "EmailOTPRepo_Clear email ?t2
      = (Inr (), ?t2\<lparr>uuid_n := Suc (uuid_n ?t2), wdb := (wdb ?t2)\<lparr>email_otps := os\<rparr>\<rparr>)"
    using q by (simp add: EmailOTPRepo_Clear_def mapped_def on_err_def stmt_no_faults os_def)
  have "create_account email user w
    = (Inr row, ?t2\<lparr>uuid_n := Suc (uuid_n ?t2), wdb := (wdb ?t2)\<lparr>email_otps := os\<rparr>, txst := NoTx\<rparr>)"
    unfolding create_account_def RunInTx_def consume_no_faults [OF q(1)] bnd_def row(1) prod.case sum.case if_False acc ignore_eq clear
      snd_conv ret_def
    using q by simp
  moreover have "?t2\<lparr>uuid_n := Suc (uuid_n ?t2), wdb := (wdb ?t2)\<lparr>email_otps := os\<rparr>, txst := NoTx\<rparr>
    = w\<lparr>uuid_n := uuid_n w + 4, wdb := (wdb ?t2)\<lparr>email_otps := os\<rparr>\<rparr>"
    using q(2) by (cases w) simp
  ultimately show ?thesis using row(2-4) by auto
qed

section \<open>The session\<close>

text \<open>Side effects leave a quiet world quiet, at the same time.\<close>

definition stays_quiet :: "'z world_scheme \<Rightarrow> 'z world_scheme \<Rightarrow> bool" where
  "stays_quiet w w' \<longleftrightarrow> clock w' = clock w \<and> (quiet_world w \<longrightarrow> quiet_world w')"

interpretation stays_quiet: go_preorder stays_quiet
  by unfold_locales (auto simp: stays_quiet_def)

lemma quiet_mapped_stmt: "keeps stays_quiet (mapped (stmt q))"
proof -
  have "stays_quiet w w'" if run: "stmt q w = (r, w')" for w :: "'c world_scheme" and r w'
  proof -
    have "env w' = env w"
    proof (cases r)
      case (Inl e)
      have "stmt q w = (Inl e, w')" using run Inl by simp
      then show ?thesis by (rule stmt_err(2))
    next
      case (Inr v)
      have "stmt q w = (Inr v, w')" using run Inr by simp
      then show ?thesis by (elim stmt_okE) simp
    qed
    moreover have "quiet_world w'" if "quiet_world w"
    proof -
      have "quiet_world (snd (stmt q w))"
        unfolding quiet_stmt [OF that] Let_def using that by (simp add: quiet_world_def split: sum.split prod.split)
      then show ?thesis by (simp only: run snd_conv)
    qed
    ultimately show ?thesis using env_clock unfolding stays_quiet_def by blast
  qed
  then have "keeps stays_quiet (stmt q)" unfolding keeps_def by (metis prod.collapse)
  then show ?thesis unfolding mapped_def by (rule stays_quiet.keeps_on_err)
qed

lemma quiet_side:
  "keeps stays_quiet (recordSecurity A u ty ti de ip dev)" "keeps stays_quiet (NotificationRepo_Create u c ti bo)"
proof -
  have m: "keeps stays_quiet (modify (\<lambda>w. w\<lparr>hub_log := f w\<rparr>))" for f :: "'c world_scheme \<Rightarrow> Event list"
    by (simp add: keeps_def modify_def stays_quiet_def quiet_world_def)
  show "keeps stays_quiet (NotificationRepo_Create u c ti bo)"
    unfolding NotificationRepo_Create_def by (rule quiet_mapped_stmt)
  have "keeps stays_quiet (SecurityEventRepo_Create e)" for e
    unfolding SecurityEventRepo_Create_def by (rule quiet_mapped_stmt)
  then show "keeps stays_quiet (recordSecurity A u ty ti de ip dev)"
    unfolding recordSecurity_def recordEvent_def published_def by (intro stays_quiet.keeps_rules m)
qed

lemma people_notification: "pres people_same (NotificationRepo_Create u c ti bo)"
  unfolding NotificationRepo_Create_def
  by (intro people.pres_mapped people.pres_stmt) (auto simp: people_same_def split: if_splits)

lemma session_quiet:
  assumes "quiet_world w" and "\<not> rnd_fails w (rnd_pos w)" and "has_user (wdb w) uid"
    and "\<forall>s\<in>set (sessions (wdb w)). s_TokenHash s \<noteq> tokenHash (next_token w) \<and> s_ID s \<noteq> uuid w (uuid_n w)"
  shows "issueSession A uid device ip w = (Inr (next_token w),
    w\<lparr>rnd_pos := rnd_pos w + 32, uuid_n := Suc (uuid_n w), wdb := (wdb w)\<lparr>sessions := sessions (wdb w) @
       [(session_row A uid (next_token w) device ip (clock w))\<lparr>s_ID := uuid w (uuid_n w), s_CreatedAt := clock w,
           s_LastActiveAt := clock w\<rparr>]\<rparr>\<rparr>)"
proof -
  have q: "faults w = []" "txst w = NoTx" using assms(1) by (simp_all add: quiet_world_def)
  have h: "s_TokenHash (session_row A uid tok device ip t) = tokenHash tok" "s_UserID (session_row A uid tok device ip t) = uid"
    "s_RevokedAt (session_row A uid tok device ip t) = None" for tok t by (simp_all add: session_row_def)
  show ?thesis
    using assms(3,4)
    by (auto simp: issueSession_def bnd_def rand_quiet assms(2) Let_def gets_def ret_def SessionRepo_Create_def mapped_def on_err_def
        stmt_no_faults q h next_token_def [symmetric] session_row_def)
qed

lemma token_accepted:
  assumes "quiet_world w" and "users (wdb w) = us @ [row]" and "\<forall>u\<in>set us. u_ID u \<noteq> u_ID row" and "u_Status row = UserStatusActive"
    and "sessions (wdb w) = ss @ [s]" and "\<forall>s\<in>set ss. s_TokenHash s \<noteq> tokenHash token" and "s_TokenHash s = tokenHash token"
    and "s_UserID s = u_ID row" and "s_RevokedAt s = None" and "clock w \<le> s_ExpiresAt s"
  shows "fst (Authenticate token w) = Inr row"
proof -
  have q: "faults w = []" "txst w = NoTx" using assms(1) by (simp_all add: quiet_world_def)
  have f: "List.find (\<lambda>s. s_TokenHash s = tokenHash token) (ss @ [s]) = Some s"
    using assms(6,7) by (induction ss) auto
  have g: "List.find (\<lambda>u. u_ID u = u_ID row) (us @ [row]) = Some row"
    using assms(3) by (induction us) auto
  show ?thesis
    using assms(4,9,10)
    by (simp add: Authenticate_def if_found_def bnd_def attempt_def SessionRepo_FindByTokenHash_def stmt_no_faults q select_def first_row_def
        assms(2,5,8) f g ret_def gets_def reject_def UserRepo_FindByID_def mapped_def on_err_def ignore_eq)
qed

section \<open>The whole registration\<close>

lemma find_append_None: "List.find P xs = None \<Longrightarrow> List.find P (xs @ ys) = List.find P ys"
  by (induction xs) (auto split: if_splits)

lemma fetch_quiet:
  assumes "quiet_world w" and "otp_of (wdb w) email = Some otp" and "length code = otpDigits" and "otp_CodeHash otp = hashOTP code"
    and "clock w \<le> otp_ExpiresAt otp" and "otp_Attempts otp < otpMaxAttempt"
  shows "fetchAndValidateOTP email code w = (Inr otp, w\<lparr>uuid_n := Suc (uuid_n w)\<rparr>)"
  using assms(2-6)
  by (simp add: fetchAndValidateOTP_def bnd_def reject_def ret_def quiet_find_otp [OF assms(1)] gets_def)

lemma ids_ahead_step: "ids_ahead w \<Longrightarrow> ids_ahead (w\<lparr>uuid_n := Suc (uuid_n w)\<rparr>)"
  by (simp add: ids_ahead_def)

lemma welcome_quiet:
  assumes "quiet_world w"
  obtains w1 where "(bnd (recordSecurity A uid ty ti de ip dev) (\<lambda>_. bnd (ignore (NotificationRepo_Create u c t b)) (\<lambda>_. ret v))) w = (Inr v, w1)"
    and "quiet_world w1" and "clock w1 = clock w" and "people_same (wdb w) (wdb w1)"
proof -
  obtain w' where r: "recordSecurity A uid ty ti de ip dev w = (Inr (), w')"
    by (cases "as_SecurityHub A") (simp_all add: recordSecurity_def recordEvent_def published_def bnd_def ignore_eq modify_def ret_def Let_def)
  obtain x w1 where n: "NotificationRepo_Create u c t b w' = (x, w1)" by (rule prod.exhaust)
  have "quiet_world w'" "clock w' = clock w"
    using keepsD [OF quiet_side(1) r] assms by (simp_all add: stays_quiet_def)
  then have "quiet_world w1" "clock w1 = clock w"
    using keepsD [OF quiet_side(2) n] by (simp_all add: stays_quiet_def)
  moreover have "people_same (wdb w) (wdb w1)"
    using presD [OF people_event r [unfolded recordSecurity_def]] presD [OF people_notification n] by (simp add: people_same_def)
  moreover have "(bnd (recordSecurity A uid ty ti de ip dev) (\<lambda>_. bnd (ignore (NotificationRepo_Create u c t b)) (\<lambda>_. ret v))) w
      = (Inr v, w1)"
    by (simp add: bnd_def r ignore_eq n ret_def)
  ultimately show thesis using that by blast
qed

lemma complete_quiet:
  assumes "quiet_world w" and "ids_ahead w" and "tokens_ahead w" and "emailRe email" and "email = ToLower (TrimSpace email0)"
    and "\<forall>u\<in>set (users (wdb w)). u_Email u \<noteq> email" and "0 \<le> as_sessionTTL A"
    and "otp_of (wdb w) email = Some otp" and "length code = otpDigits" and "otp_CodeHash otp = hashOTP code"
    and "clock w \<le> otp_ExpiresAt otp" and "otp_Attempts otp < otpMaxAttempt" and "otp_PasswordHash otp \<noteq> []"
  shows "\<exists>user token w'. CompleteRegistration A email0 code device ip w = (Inr (user, token), w') \<and> u_Email user = email
    \<and> fst (Authenticate token w') = Inr user"
proof -
  let ?w1 = "w\<lparr>uuid_n := Suc (uuid_n w)\<rparr>"
  have q1: "quiet_world ?w1" using assms(1) by (simp add: quiet_world_def)
  obtain row d where cr: "create_account email (registered_user email otp (clock w)) ?w1
      = (Inr row, ?w1\<lparr>uuid_n := uuid_n ?w1 + 4, wdb := d\<rparr>)"
    and row: "u_ID row = uuid w (Suc (uuid_n w))" "u_Email row = email" "u_Status row = UserStatusActive"
    and d: "users d = users (wdb w) @ [row]" "sessions d = sessions (wdb w)"
    using create_quiet [OF q1 ids_ahead_step [OF assms(2)], of email "registered_user email otp (clock w)" otp "clock w"] assms(6)
    by auto
  let ?w2 = "?w1\<lparr>uuid_n := uuid_n ?w1 + 4, wdb := d\<rparr>"
  define token where "token = next_token ?w2"
  have q2: "quiet_world ?w2" using assms(1) by (simp add: quiet_world_def)
  have token: "token = next_token (w\<lparr>rnd_pos := rnd_pos w\<rparr>)" by (simp add: token_def next_token_def)
  have hash: "\<forall>s\<in>set (sessions (wdb w)). s_TokenHash s \<noteq> tokenHash token"
    using assms(3) unfolding tokens_ahead_def token by blast
  have "\<forall>s\<in>set (sessions (wdb w)). s_ID s \<noteq> uuid w (uuid_n ?w2)"
    using assms(2) by (simp add: ids_ahead_def)
  with hash have new: "\<forall>s\<in>set (sessions (wdb ?w2)). s_TokenHash s \<noteq> tokenHash (next_token ?w2) \<and> s_ID s \<noteq> uuid ?w2 (uuid_n ?w2)"
    unfolding token_def by (simp add: d)
  have fails: "\<not> rnd_fails ?w2 (rnd_pos ?w2)" "has_user (wdb ?w2) (u_ID row)"
    using assms(3) by (simp_all add: tokens_ahead_def has_user_def d)
  define s where "s = (session_row A (u_ID row) token device ip (clock w))
    \<lparr>s_ID := uuid ?w2 (uuid_n ?w2), s_CreatedAt := clock w, s_LastActiveAt := clock w\<rparr>"
  let ?w3 = "?w2\<lparr>rnd_pos := rnd_pos ?w2 + 32, uuid_n := Suc (uuid_n ?w2), wdb := d\<lparr>sessions := sessions d @ [s]\<rparr>\<rparr>"
  have se: "issueSession A (u_ID row) device ip ?w2 = (Inr token, ?w3)"
    using session_quiet [OF q2 fails new, of A device ip] unfolding s_def token_def by simp
  have q3: "quiet_world ?w3" using assms(1) by (simp add: quiet_world_def)
  obtain w4 where we: "(bnd (recordSecurity A (u_ID row) ''register'' ''Account created'' ''Welcome to Globmint'' ip device) (\<lambda>_.
      bnd (ignore (NotificationRepo_Create (u_ID row) ''general'' ''Welcome to Globmint'' ''Your digital savings vault is ready.'')) (\<lambda>_.
      ret (row, token)))) ?w3 = (Inr (row, token), w4)"
    and q4: "quiet_world w4" "clock w4 = clock ?w3" and same: "people_same (wdb ?w3) (wdb w4)"
    by (rule welcome_quiet [OF q3]) (rule that; assumption)
  have "CompleteRegistration A email0 code device ip w = (Inr (row, token), w4)"
  proof -
    have checks: "reject (\<not> emailRe email) ErrInvalidCode w = (Inr (), w)"
      "reject (otp_PasswordHash otp = []) ErrNoPendingRegistration ?w1 = (Inr (), ?w1)" "gets clock ?w1 = (Inr (clock w), ?w1)"
      using assms(4,13) by (simp_all add: reject_def ret_def gets_def)
    note steps = checks(1) fetch_quiet [OF assms(1,8-12)] checks(2,3) cr se
    show ?thesis
      unfolding CompleteRegistration_def Let_def assms(5) [symmetric] by (simp only: bnd_Inr steps we)
  qed
  moreover have "fst (Authenticate token w4) = Inr row"
  proof (rule token_accepted [OF q4(1), where s = s])
    show "users (wdb w4) = users (wdb w) @ [row]" "sessions (wdb w4) = sessions (wdb w) @ [s]"
      using same by (simp_all add: people_same_def d)
    show "\<forall>u\<in>set (users (wdb w)). u_ID u \<noteq> u_ID row" using assms(2) by (simp add: ids_ahead_def row)
    show "\<forall>s\<in>set (sessions (wdb w)). s_TokenHash s \<noteq> tokenHash token" by (rule hash)
  qed (use assms(7) in \<open>simp_all add: row s_def session_row_def q4\<close>)
  ultimately show ?thesis using row(2) by blast
qed

text \<open>C16. A first sign-up for an address can be completed. The hypotheses: no statement fails and no transaction is
  open; the address is well-formed, no user has it, and no code row exists for it from an earlier attempt; the password
  has at least eight bytes; bcrypt makes a hash of it that is not empty; a sender is configured and delivers; the life
  time of sessions is not negative; random bytes can be read, and the identifiers and tokens still to be drawn are
  unused. Then staging ends with the code mailed to that address; and at any time up to ten minutes later, that code
  creates the account and opens a session whose token is accepted for it. The hypothesis on the code row cannot be
  dropped: over an earlier row, \<open>email_otp_repo.go\<close> keeps the names, phone and password hash of that row (empty ones
  when it was not a sign-up), although \<open>storage.go\<close> says they are replaced, so the new registration is not the one
  completed.\<close>

theorem registration_completes:
  assumes "quiet_world w" and "ids_ahead w" and "tokens_ahead w"
    and "email = ToLower (TrimSpace (ri_Email req))" and "emailRe email" and "8 \<le> length (ri_Password req)"
    and "\<forall>u\<in>set (users (wdb w)). u_Email u \<noteq> email" and "otp_of (wdb w) email = None"
    and "GenerateFromPassword A (ri_Password req) (rnd_pos w) = Inr hash" and "hash \<noteq> []"
    and "as_otpSender A = Some send" and "\<And>n c. send n email c = Inr ()" and "0 \<le> as_sessionTTL A"
  shows "\<exists>code w1. StageRegistration A req w = (Inr (clock w + otpCooldown), w1)
    \<and> mail_log w1 = mail_log w @ [(''SendOTP'', [email, code])]
    \<and> (\<forall>t. clock w \<le> t \<and> t \<le> clock w + otpTTL \<longrightarrow>
         (\<exists>user token w2. CompleteRegistration A (ri_Email req) code device ip (w1\<lparr>clock := t\<rparr>) = (Inr (user, token), w2)
           \<and> u_Email user = email \<and> fst (Authenticate token w2) = Inr user))"
proof -
  let ?w = "w\<lparr>uuid_n := Suc (uuid_n w), rnd_pos := rnd_pos w + 16\<rparr>"
  define reg where "reg = \<lparr>pr_FirstName = ri_FirstName req, pr_LastName = ri_LastName req, pr_Phone = ri_Phone req, pr_PasswordHash = hash\<rparr>"
  define w1 where "w1 = staged_world email reg ?w"
  have "List.find (\<lambda>u. u_Email u = email) (users (wdb w)) = None" using assms(7) by (simp add: find_None_iff)
  then have stage: "StageRegistration A req w = (Inr (clock w + otpCooldown), w1)"
    using stage_quiet [OF assms(1,4-6) _ assms(8,9) _ assms(11,12) reg_def] assms(3) unfolding w1_def tokens_ahead_def by blast
  define code where "code = next_code ?w"
  have len: "length code = otpDigits" by (simp add: code_def next_code_def otp_digits_def)
  have "\<forall>r\<in>set (email_otps (wdb w)). otp_Email r \<noteq> email" using assms(8) by (auto simp: otp_of_def find_None_iff)
  then have otp: "otp_of (wdb w1) email = Some (staged_row email code (clock w) reg)"
    unfolding otp_of_def w1_def staged_world_def code_def
    by (simp add: find_append_None staged_row_def otp_row_def Let_def find_None_iff)
  show ?thesis
  proof (rule exI [of _ code], rule exI [of _ w1], intro conjI allI impI)
    show "StageRegistration A req w = (Inr (clock w + otpCooldown), w1)" by (rule stage)
    show "mail_log w1 = mail_log w @ [(''SendOTP'', [email, code])]" by (simp add: w1_def staged_world_def code_def)
    fix t assume t: "clock w \<le> t \<and> t \<le> clock w + otpTTL"
    let ?w1 = "w1\<lparr>clock := t\<rparr>"
    have ready: "quiet_world ?w1" "ids_ahead ?w1" "tokens_ahead ?w1" "\<forall>u\<in>set (users (wdb ?w1)). u_Email u \<noteq> email"
      using assms(1-3,7) by (simp_all add: quiet_world_def w1_def staged_world_def ids_ahead_def tokens_ahead_def next_token_def)
    have row: "otp_of (wdb ?w1) email = Some (staged_row email code (clock w) reg)" using otp by simp
    show "\<exists>user token w2. CompleteRegistration A (ri_Email req) code device ip ?w1 = (Inr (user, token), w2)
        \<and> u_Email user = email \<and> fst (Authenticate token w2) = Inr user"
      by (rule complete_quiet [OF ready(1-3) assms(5,4) ready(4) assms(13) row len])
        (use t assms(10) in \<open>simp_all add: staged_row_def otp_row_def reg_def otpMaxAttempt_def\<close>)
  qed
qed

definition sample_sign_up :: RegisterInput where
  "sample_sign_up = \<lparr>ri_Email = '' ada@b.org'', ri_Phone = [], ri_FirstName = ''Ada'', ri_LastName = [],
     ri_Password = ''secret42'', ri_Device = ''phone'', ri_IP = []\<rparr>"

definition sample_empty_world :: aworld where
  "sample_empty_world = (sample_aworld empty_db)\<lparr>uuid := (\<lambda>n. replicate n CHR ''i'')\<rparr>"

theorem registration_completes_witness:
  "\<exists>code w1. StageRegistration sample_auth sample_sign_up sample_empty_world = (Inr (hour + otpCooldown), w1)
    \<and> mail_log w1 = [(''SendOTP'', [''ada@b.org'', code])]
    \<and> (\<exists>user token w2. CompleteRegistration sample_auth '' ada@b.org'' code ''phone'' [] (w1\<lparr>clock := hour + otpTTL\<rparr>)
         = (Inr (user, token), w2) \<and> u_Email user = ''ada@b.org'' \<and> fst (Authenticate token w2) = Inr user)"
proof -
  let ?w = sample_empty_world
  have world: "quiet_world ?w" "ids_ahead ?w" "tokens_ahead ?w" "clock ?w = hour" "mail_log ?w = []"
    "users (wdb ?w) = []" "otp_of (wdb ?w) ''ada@b.org'' = None"
    by (simp_all add: sample_empty_world_def sample_aworld_def quiet_world_def ids_ahead_def tokens_ahead_def otp_of_def empty_db_def
        inj_def)
  have req: "''ada@b.org'' = ToLower (TrimSpace (ri_Email sample_sign_up))" "emailRe ''ada@b.org''"
    "8 \<le> length (ri_Password sample_sign_up)" "ri_Email sample_sign_up = '' ada@b.org''"
    by (simp_all add: sample_sign_up_def TrimSpace_def ToLower_def to_lower_def is_space_def emailRe_def re_space_def)
  have lib: "GenerateFromPassword sample_auth (ri_Password sample_sign_up) (rnd_pos ?w) = Inr ''h:secret42''"
    "as_otpSender sample_auth = Some (\<lambda>n email code. Inr ())" "0 \<le> as_sessionTTL sample_auth"
    by (simp_all add: sample_auth_def sample_sign_up_def hour_def minute_def second_def)
  have ttl: "0 \<le> otpTTL" by (simp add: otpTTL_def minute_def second_def)
  have free: "\<forall>u\<in>set (users (wdb ?w)). u_Email u \<noteq> ''ada@b.org''" by (simp only: world(6) list.set ball_simps)
  have "''h:secret42'' \<noteq> []" "\<And>n c. (\<lambda>n email code. Inr () :: err + unit) n ''ada@b.org'' c = Inr ()" by simp_all
  note done_by = registration_completes [OF world(1-3) req(1-3) free world(7) lib(1) this(1) lib(2) this(2) lib(3), of "''phone''" "[]",
      unfolded world(4,5) req(4) append_Nil]
  show ?thesis using done_by ttl by (elim exE conjE) (rule exI, rule exI, intro conjI, assumption, assumption, simp)
qed

end
