(* ===== verification/Cluster.thy ===== *)
theory Cluster
  imports VaultProps
begin

text \<open>
  Several instances of the server on one database: \<open>RunIndexer\<close> (\<open>services/vault.go\<close>) and the election of the instance
  that scans, \<open>TryAcquireIndexerLeadership\<close> (\<open>storage/postgres/postgres.go\<close>). An instance has its own memory, a world of
  the vault; the database is shared and put into that world for each step. The advisory lock is held by the session of
  an instance; it is set free when the instance stops, and also when its session dies although the instance lives on.
  Between the steps of indexers everything else may happen to the database that leaves the stored cursor alone.
\<close>

section \<open>The loop of an indexer\<close>

record 'c peer =
  nd_leader :: bool
  nd_world :: "'c vworld"

record 'c cluster =
  cl_db :: db
  cl_lock :: "nat option"
  cl_nodes :: "nat \<Rightarrow> 'c peer option"

text \<open>\<open>broken\<close>: no connection, or the statement fails.\<close>

definition TryAcquireIndexerLeadership :: "nat \<Rightarrow> bool \<Rightarrow> nat option \<Rightarrow> (err + bool) \<times> nat option" where
  "TryAcquireIndexerLeadership i broken lock =
     (if broken then (Inl (Wrap ''try advisory lock'' ErrDB), lock)
      else case lock of None \<Rightarrow> (Inr True, Some i) | Some _ \<Rightarrow> (Inr False, lock))"

definition indexer_disabled :: "'c vault \<Rightarrow> bool" where
  "indexer_disabled v \<longleftrightarrow> cfg_Mode (v_cfg v) = ''mock'' \<or> cfg_VaultAddress (v_cfg v) = []"

text \<open>Before the loop: an error of \<open>resumeCursor\<close> is logged only.\<close>

definition start_indexer :: "'c vault \<Rightarrow> 'c vworld \<Rightarrow> 'c peer" where
  "start_indexer v w = \<lparr>nd_leader = False, nd_world = snd (resumeCursor w)\<rparr>"

text \<open>A tick: the database, the lock and the instance after it. An instance whose scan panics is gone, and its session
  with it.\<close>

definition scan_as_leader :: "'c vault \<Rightarrow> nat \<Rightarrow> 'c vworld \<Rightarrow> nat option \<Rightarrow> db \<times> nat option \<times> 'c peer option" where
  "scan_as_leader v i w lock =
     (case scan v w of (r, w') \<Rightarrow>
        if \<exists>e. r = Inl e \<and> is_panic e then (wdb w', if lock = Some i then None else lock, None)
        else (wdb w', lock, Some \<lparr>nd_leader = True, nd_world = w'\<rparr>))"

definition indexer_tick :: "'c vault \<Rightarrow> nat \<Rightarrow> bool \<Rightarrow> 'c peer \<Rightarrow> db \<Rightarrow> nat option \<Rightarrow> db \<times> nat option \<times> 'c peer option" where
  "indexer_tick v i broken nd d lock =
     (if nd_leader nd then scan_as_leader v i ((nd_world nd)\<lparr>wdb := d\<rparr>) lock
      else case TryAcquireIndexerLeadership i broken lock of
             (Inr True, lock') \<Rightarrow> scan_as_leader v i ((nd_world nd)\<lparr>wdb := d\<rparr>) lock'
           | (_, lock') \<Rightarrow> (d, lock', Some nd))"

text \<open>The other two loops of the service take no lock. Their ticks, without the gauge of the signer's balance; an error
  is logged only.\<close>

definition sweeper_tick :: "'c vault \<Rightarrow> ('c vworld, unit) go" where
  "sweeper_tick v = (if cfg_WithdrawElevationThresholdMinor (v_cfg v) \<le> 0 then ret () else ignore (sweepDueElevations v))"

definition reconciler_tick :: "'c vault \<Rightarrow> ('c vworld, unit) go" where
  "reconciler_tick v = (if indexer_disabled v then ret () else ignore (reconcileRecoveryCache v))"

section \<open>Runs of a cluster\<close>

datatype cluster_act = Started nat | Ticked nat | Stopped nat | SessionLost nat | Elsewhere

inductive cluster_step :: "'c vault \<Rightarrow> 'c cluster \<Rightarrow> cluster_act \<Rightarrow> 'c cluster \<Rightarrow> bool" for v :: "'c vault" where
  start_up: "\<not> indexer_disabled v \<Longrightarrow> cl_nodes c i = None \<Longrightarrow> vlastBlock w = cfg_StartBlock (v_cfg v) \<Longrightarrow>
     cluster_step v c (Started i) (c\<lparr>cl_nodes := (cl_nodes c)(i \<mapsto> start_indexer v (w\<lparr>wdb := cl_db c\<rparr>))\<rparr>)"
| tick: "cl_nodes c i = Some nd \<Longrightarrow> indexer_tick v i broken nd (cl_db c) (cl_lock c) = (d, lock, nd') \<Longrightarrow>
     cluster_step v c (Ticked i) \<lparr>cl_db = d, cl_lock = lock, cl_nodes = (cl_nodes c)(i := nd')\<rparr>"
| stop: "cluster_step v c (Stopped i)
     (c\<lparr>cl_nodes := (cl_nodes c)(i := None), cl_lock := (if cl_lock c = Some i then None else cl_lock c)\<rparr>)"
| session_lost: "cl_lock c = Some i \<Longrightarrow> cluster_step v c (SessionLost i) (c\<lparr>cl_lock := None\<rparr>)"
| elsewhere: "indexer_state d = indexer_state (cl_db c) \<Longrightarrow> cluster_step v c Elsewhere (c\<lparr>cl_db := d\<rparr>)"

inductive cluster_run :: "'c vault \<Rightarrow> cluster_act list \<Rightarrow> 'c cluster \<Rightarrow> bool" for v :: "'c vault" where
  fresh: "cl_lock c = None \<Longrightarrow> cl_nodes c = Map.empty \<Longrightarrow> cluster_run v [] c"
| more: "cluster_run v as c \<Longrightarrow> cluster_step v c a c' \<Longrightarrow> cluster_run v (as @ [a]) c'"

definition leads :: "'c cluster \<Rightarrow> nat \<Rightarrow> bool" where
  "leads c i \<longleftrightarrow> (\<exists>nd. cl_nodes c i = Some nd \<and> nd_leader nd)"

definition elected :: "'c cluster \<Rightarrow> bool" where
  "elected c \<longleftrightarrow> (\<forall>i. leads c i \<longrightarrow> cl_lock c = Some i)"

lemma tick_cases:
  assumes "indexer_tick v i broken nd d lock = (d', lock', nd')"
  obtains (idle) "d' = d" "lock' = lock" "nd' = Some nd" "\<not> nd_leader nd"
  | (scans) "lock' = (if nd_leader nd then lock else Some i)" "\<not> nd_leader nd \<Longrightarrow> lock = None" "nd' \<noteq> None"
  | (dies) "lock' = (if lock = Some i \<or> \<not> nd_leader nd then None else lock)" "\<not> nd_leader nd \<Longrightarrow> lock = None" "nd' = None"
  using assms
  by (cases "nd_leader nd"; cases lock)
    (auto simp: indexer_tick_def TryAcquireIndexerLeadership_def scan_as_leader_def split: if_splits prod.splits)

lemma elected_step:
  assumes "cluster_step v c a c'" and "elected c" and "\<forall>i. a \<noteq> SessionLost i"
  shows "elected c'"
  using assms(1)
proof cases
  case (start_up i w)
  then show ?thesis using assms(2) by (auto simp: elected_def leads_def start_indexer_def)
next
  case (tick i nd broken d lock nd')
  from tick(4) show ?thesis
  proof (cases rule: tick_cases)
    case idle
    then show ?thesis using tick assms(2) by (auto simp: elected_def leads_def)
  next
    case scans
    then show ?thesis using tick assms(2) by (auto simp: elected_def leads_def split: if_splits)
  next
    case dies
    then show ?thesis using tick assms(2) by (auto simp: elected_def leads_def split: if_splits)
  qed
next
  case (stop i)
  then show ?thesis using assms(2) by (auto simp: elected_def leads_def)
next
  case (session_lost i)
  then show ?thesis using assms(3) by blast
next
  case (elsewhere d)
  then show ?thesis using assms(2) by (auto simp: elected_def leads_def)
qed

lemma elected_run:
  assumes "cluster_run v as c" and "\<forall>i. SessionLost i \<notin> set as"
  shows "elected c"
  using assms
proof (induction rule: cluster_run.induct)
  case (fresh c)
  then show ?case by (simp add: elected_def leads_def)
next
  case (more as c a c')
  then have "elected c" "\<forall>i. a \<noteq> SessionLost i" by auto
  then show ?case using elected_step [OF more.hyps(2)] by blast
qed

text \<open>C38. One indexer at a time: as long as no instance loses its database session while it lives on, at most one instance
  of any number takes itself for the leader, it holds the lock, and only a tick of the instance that holds the lock
  after it (or that died in it) moves the stored cursor, in every interleaving of instances that start, tick, fail to
  reach the database, crash in a scan, stop, and of everything else that happens to the database.\<close>

theorem one_indexer:
  assumes "cluster_run v as c" and "\<forall>i. SessionLost i \<notin> set as" and "cluster_step v c a c'"
  shows "(\<forall>i j. leads c i \<and> leads c j \<longrightarrow> i = j \<and> cl_lock c = Some i)
    \<and> (indexer_state (cl_db c') \<noteq> indexer_state (cl_db c) \<longrightarrow> (\<exists>i. a = Ticked i \<and> (cl_lock c' = Some i \<or> cl_nodes c' i = None)))"
proof
  have e: "elected c" using elected_run assms(1,2) by blast
  then show "\<forall>i j. leads c i \<and> leads c j \<longrightarrow> i = j \<and> cl_lock c = Some i" by (metis elected_def option.inject)
  show "indexer_state (cl_db c') \<noteq> indexer_state (cl_db c) \<longrightarrow> (\<exists>i. a = Ticked i \<and> (cl_lock c' = Some i \<or> cl_nodes c' i = None))"
    using assms(3)
  proof cases
    case (tick i nd broken d lock nd')
    from tick(4) show ?thesis
    proof (cases rule: tick_cases)
      case scans
      then show ?thesis using tick e by (auto simp: elected_def leads_def split: if_splits)
    qed (use tick in auto)
  qed auto
qed

text \<open>Taking over can skip blocks: an instance that was started before any cursor was stored has the cursor 0 in memory,
  and reads the stored one never again. When it becomes the leader it takes the head of the chain for its first
  baseline, whatever the former leader had reached, and the blocks between are scanned by nobody.\<close>

lemma takeover_skips:
  assumes "cl_nodes c i = Some nd" and "\<not> nd_leader nd" and "cl_lock c = None"
    and "vlastBlock (nd_world nd) = 0" and "faults (nd_world nd) = []" and "txst (nd_world nd) = NoTx"
    and "ch_LatestBlock (v_chain v) (vchain (nd_world nd)) = (Inr latest, ch)"
    and "latest > cfg_MinConfirmations (v_cfg v)"
  shows "\<exists>c'. cluster_step v c (Ticked i) c' \<and> leads c' i \<and> cl_db c' = (cl_db c)\<lparr>indexer_state := Some latest\<rparr>"
proof -
  let ?w = "(nd_world nd)\<lparr>wdb := cl_db c\<rparr>"
  have "\<exists>w'. scan v ?w = (Inr (), w') \<and> wdb w' = (cl_db c)\<lparr>indexer_state := Some latest\<rparr>"
    using assms(4-8)
    by (simp add: scan_def bnd_def chain_read_def gets_def Let_def set_baseline_def modify_def ignore_eq
        IndexerStateRepo_SetLastBlock_def stmt_no_faults)
  then obtain w' where w': "scan v ?w = (Inr (), w')" "wdb w' = (cl_db c)\<lparr>indexer_state := Some latest\<rparr>" by blast
  have "indexer_tick v i False nd (cl_db c) (cl_lock c) = (wdb w', Some i, Some \<lparr>nd_leader = True, nd_world = w'\<rparr>)"
    using assms(2,3) by (simp add: indexer_tick_def TryAcquireIndexerLeadership_def scan_as_leader_def w')
  from cluster_step.tick [OF assms(1) this] show ?thesis
    by (intro exI conjI) (assumption, auto simp: leads_def w')
qed

definition fresh_vault :: "mock_chain vault" where
  "fresh_vault = sample_vault\<lparr>v_cfg := sample_cfg\<lparr>cfg_StartBlock := 0\<rparr>\<rparr>"

definition fresh_node :: "mock_chain peer" where
  "fresh_node = start_indexer fresh_vault ((sample_vworld sample_vdb sample_mock)\<lparr>vlastBlock := 0\<rparr>)"

definition cluster_at :: "(nat \<Rightarrow> mock_chain peer option) \<Rightarrow> mock_chain cluster" where
  "cluster_at nodes = \<lparr>cl_db = sample_vdb, cl_lock = None, cl_nodes = nodes\<rparr>"

lemma fresh_node_world:
  "\<not> nd_leader fresh_node" "vlastBlock (nd_world fresh_node) = 0" "faults (nd_world fresh_node) = []"
  "txst (nd_world fresh_node) = NoTx" "vchain (nd_world fresh_node) = sample_mock"
  by (simp_all add: fresh_node_def start_indexer_def resumeCursor_def bnd_def IndexerStateRepo_LastBlock_def stmt_no_faults
      select_def sample_vworld_def world.defs sample_world_def sample_vdb_def sample_db_def empty_db_def)

theorem one_indexer_witness:
  "\<exists>c c'. cluster_run fresh_vault [Started 0, Ticked 0] c \<and> leads c 0 \<and> indexer_state (cl_db c) = Some 10
     \<and> cluster_step fresh_vault c (Stopped 0) c' \<and> (\<forall>i j. leads c i \<and> leads c j \<longrightarrow> i = j \<and> cl_lock c = Some i)"
proof -
  let ?w = "(sample_vworld sample_vdb sample_mock)\<lparr>vlastBlock := 0\<rparr>"
  have w: "?w\<lparr>wdb := sample_vdb\<rparr> = ?w" by (simp add: sample_vworld_def world.defs sample_world_def)
  have on: "\<not> indexer_disabled fresh_vault" by (simp add: indexer_disabled_def fresh_vault_def sample_vault_def sample_cfg_def)
  have "cluster_step fresh_vault (cluster_at Map.empty) (Started 0) (cluster_at [0 \<mapsto> fresh_node])"
    using cluster_step.start_up [OF on, of "cluster_at Map.empty" 0 ?w] w
    by (simp add: cluster_at_def fresh_node_def fresh_vault_def)
  then have run: "cluster_run fresh_vault [Started 0] (cluster_at [0 \<mapsto> fresh_node])"
    using cluster_run.more [OF cluster_run.fresh [of "cluster_at Map.empty"]] by (force simp: cluster_at_def)
  have latest: "ch_LatestBlock (v_chain fresh_vault) (vchain (nd_world fresh_node)) = (Inr 10, sample_mock)"
    by (simp add: fresh_node_world fresh_vault_def sample_vault_def mock_service_def mock_LatestBlock_def gets_def sample_mock_def
        AddTransfer_def SetLatest_def NewMockBlockchainService_def err_or_def bnd_def ret_def)
  have "cl_nodes (cluster_at [0 \<mapsto> fresh_node]) 0 = Some fresh_node" "cl_lock (cluster_at [0 \<mapsto> fresh_node]) = None"
    "10 > cfg_MinConfirmations (v_cfg fresh_vault)" by (simp_all add: cluster_at_def fresh_vault_def sample_cfg_def)
  from takeover_skips [OF this(1) fresh_node_world(1) this(2) fresh_node_world(2-4) latest this(3)]
  obtain c where c: "cluster_step fresh_vault (cluster_at [0 \<mapsto> fresh_node]) (Ticked 0) c" "leads c 0" "indexer_state (cl_db c) = Some 10"
    by auto
  have run2: "cluster_run fresh_vault [Started 0, Ticked 0] c" using cluster_run.more [OF run c(1)] by simp
  from one_indexer [OF run2 _ cluster_step.stop [of fresh_vault c 0]] show ?thesis
    using run2 c cluster_step.stop [of fresh_vault c 0] by auto
qed

end
