(* ===== verification/Metrics.thy ===== *)
theory Metrics
  imports Router
begin

text \<open>
  \<open>observability/metrics.go\<close> and \<open>httpapi/middleware/logging.go\<close>: the registry of counters and latency histograms, the
  Prometheus text written from it, and the middleware that feeds it. Go's maps are partial functions; the order in which
  a \<open>range\<close> visits them, which Go leaves open, is an argument of the writer. Floating-point addition and formatting are
  arguments too; the latencies and the bounds of the buckets are whole milliseconds, which a \<open>float64\<close> holds exactly.
  Log lines themselves are not modelled.
\<close>

section \<open>Normalised paths\<close>

text \<open>\<open>uuidLike\<close> and \<open>numLike\<close> with \<open>ReplaceAllString\<close>: the leftmost matches, which do not overlap.\<close>

definition uuid_text :: "string \<Rightarrow> bool" where
  "uuid_text s \<longleftrightarrow> map length (split_on CHR ''-'' s) = [8, 4, 4, 4, 12] \<and> list_all (list_all is_hex) (split_on CHR ''-'' s)"

fun replace_uuid :: "string \<Rightarrow> string" where
  "replace_uuid [] = []"
| "replace_uuid (c # s) =
     (if uuid_text (take 36 (c # s)) then ''{id}'' @ replace_uuid (drop 35 s) else c # replace_uuid s)"

definition num_char :: "char \<Rightarrow> bool" where
  "num_char c \<longleftrightarrow> is_hex c \<or> c = CHR ''x''"

function replace_num :: "string \<Rightarrow> string" where
  "replace_num [] = []"
| "replace_num (c # s) =
     (if c = CHR ''/'' \<and> s \<noteq> [] \<and> num_char (hd s) then ''/{id}'' @ replace_num (dropWhile num_char s) else c # replace_num s)"
  by pat_completeness auto
termination
  by (relation "measure length") (auto simp: le_imp_less_Suc length_dropWhile_le)

definition NormalizePath :: "string \<Rightarrow> string" where
  "NormalizePath path = replace_num (replace_uuid path)"

section \<open>The registry\<close>

record 'f floats =
  fl_of_int :: "int \<Rightarrow> 'f"
  fl_add :: "'f \<Rightarrow> 'f \<Rightarrow> 'f"
  fl_format :: "'f \<Rightarrow> string"

definition durationBucketsMS :: "int list" where
  "durationBucketsMS = [5, 10, 25, 50, 100, 250, 500, 1000, 2500, 5000, 10000]"

definition incr_uint64 :: "nat \<Rightarrow> nat" where "incr_uint64 n = Suc n mod 2 ^ 64"

record 'f histogram =
  hg_buckets :: "int list"
  hg_counts :: "nat list"
  hg_count :: nat
  hg_sumMS :: 'f

definition observe :: "'f floats \<Rightarrow> int \<Rightarrow> 'f histogram \<Rightarrow> 'f histogram" where
  "observe F ms h =
     h\<lparr>hg_count := incr_uint64 (hg_count h), hg_sumMS := fl_add F (hg_sumMS h) (fl_of_int F ms),
       hg_counts := map2 (\<lambda>b c. if ms \<le> b then incr_uint64 c else c) (hg_buckets h) (hg_counts h)\<rparr>"

record 'f registry =
  mr_reqs :: "string \<rightharpoonup> int64"
  mr_durations :: "string \<rightharpoonup> 'f histogram"
  mr_login :: int64
  mr_withdraw :: int64
  mr_reconcil :: int64
  mr_outbound :: "string \<rightharpoonup> int64"
  mr_signerBalance :: 'f
  mr_indexerLag :: int64

definition New_registry :: "'f floats \<Rightarrow> 'f registry" where
  "New_registry F =
     \<lparr>mr_reqs = Map.empty, mr_durations = Map.empty, mr_login = 0, mr_withdraw = 0, mr_reconcil = 0, mr_outbound = Map.empty,
      mr_signerBalance = fl_of_int F 0, mr_indexerLag = - 1\<rparr>"

text \<open>A counter of a map is made at its first use.\<close>

definition count_up :: "string \<Rightarrow> (string \<rightharpoonup> int64) \<Rightarrow> (string \<rightharpoonup> int64)" where
  "count_up key m = m(key \<mapsto> wrap64 ((case m key of Some n \<Rightarrow> n | None \<Rightarrow> 0) + 1))"

definition request_key :: "string \<Rightarrow> string \<Rightarrow> nat \<Rightarrow> string" where
  "request_key method path status = method @ '' '' @ NormalizePath path @ '' '' @ show_nat status"

definition Request :: "string \<Rightarrow> string \<Rightarrow> nat \<Rightarrow> 'f registry \<Rightarrow> 'f registry" where
  "Request method path status reg = reg\<lparr>mr_reqs := count_up (request_key method path status) (mr_reqs reg)\<rparr>"

definition empty_histogram :: "'f floats \<Rightarrow> 'f histogram" where
  "empty_histogram F =
     \<lparr>hg_buckets = durationBucketsMS, hg_counts = replicate (length durationBucketsMS) 0, hg_count = 0, hg_sumMS = fl_of_int F 0\<rparr>"

definition ObserveDuration :: "'f floats \<Rightarrow> string \<Rightarrow> int \<Rightarrow> 'f registry \<Rightarrow> 'f registry" where
  "ObserveDuration F path ms reg =
     (let key = NormalizePath path;
          h = (case mr_durations reg key of Some h \<Rightarrow> h | None \<Rightarrow> empty_histogram F)
      in reg\<lparr>mr_durations := (mr_durations reg)(key \<mapsto> observe F ms h)\<rparr>)"

definition LoginFailure :: "'f registry \<Rightarrow> 'f registry" where
  "LoginFailure reg = reg\<lparr>mr_login := wrap64 (mr_login reg + 1)\<rparr>"

definition Withdrawal_done :: "'f registry \<Rightarrow> 'f registry" where
  "Withdrawal_done reg = reg\<lparr>mr_withdraw := wrap64 (mr_withdraw reg + 1)\<rparr>"

definition WithdrawalFailure :: "string \<Rightarrow> 'f registry \<Rightarrow> 'f registry" where
  "WithdrawalFailure reason reg =
     reg\<lparr>mr_outbound := count_up (if reason \<in> {''broadcast'', ''ledger'', ''elevation''} then reason else ''other'') (mr_outbound reg)\<rparr>"

definition SetSignerBalance :: "'f \<Rightarrow> 'f registry \<Rightarrow> 'f registry" where
  "SetSignerBalance x reg = reg\<lparr>mr_signerBalance := x\<rparr>"

definition SetIndexerLag :: "int64 \<Rightarrow> 'f registry \<Rightarrow> 'f registry" where
  "SetIndexerLag blocks reg = reg\<lparr>mr_indexerLag := blocks\<rparr>"

definition ReconcileFailure :: "'f registry \<Rightarrow> 'f registry" where
  "ReconcileFailure reg = reg\<lparr>mr_reconcil := wrap64 (mr_reconcil reg + 1)\<rparr>"

section \<open>The Prometheus text\<close>

text \<open>The verb \<open>%q\<close>, an argument: it quotes a text (\<open>strconv.Quote\<close>). \<open>formatFloat\<close> prints the bounds, whole numbers below
  a million, as decimals.\<close>

definition formatFloat :: "int \<Rightarrow> string" where "formatFloat b = show_int b"

fun cumulative :: "nat \<Rightarrow> nat list \<Rightarrow> nat list" where
  "cumulative cum [] = []"
| "cumulative cum (c # cs) = (let cum = (cum + c) mod 2 ^ 64 in cum # cumulative cum cs)"

text \<open>\<open>strings.SplitN(key, " ", 3)\<close> of a key, which has at least two blanks.\<close>

definition key_parts :: "string \<Rightarrow> string \<times> string \<times> string" where
  "key_parts key =
     (let rest = tl (dropWhile (\<lambda>c. c \<noteq> CHR '' '') key)
      in (takeWhile (\<lambda>c. c \<noteq> CHR '' '') key, takeWhile (\<lambda>c. c \<noteq> CHR '' '') rest, tl (dropWhile (\<lambda>c. c \<noteq> CHR '' '') rest)))"

definition request_line :: "(string \<Rightarrow> string) \<Rightarrow> (string \<rightharpoonup> int64) \<Rightarrow> string \<Rightarrow> string" where
  "request_line q m key =
     (case key_parts key of (method, path, status) \<Rightarrow>
        ''http_requests_total{method='' @ q method @ '',path='' @ q path @ '',status='' @ q status @ ''} '' @ show_int (the (m key)))"

definition histogram_lines :: "'f floats \<Rightarrow> (string \<Rightarrow> string) \<Rightarrow> (string \<rightharpoonup> 'f histogram) \<Rightarrow> string \<Rightarrow> string list" where
  "histogram_lines F q m key =
     (let h = the (m key) in
        map2 (\<lambda>b cum. ''http_request_duration_ms_bucket{path='' @ q key @ '',le='' @ q (formatFloat b) @ ''} '' @ show_nat cum)
          (hg_buckets h) (cumulative 0 (hg_counts h))
      @ [''http_request_duration_ms_bucket{path='' @ q key @ '',le=\"+Inf\"} '' @ show_nat (hg_count h),
         ''http_request_duration_ms_sum{path='' @ q key @ ''} '' @ fl_format F (hg_sumMS h),
         ''http_request_duration_ms_count{path='' @ q key @ ''} '' @ show_nat (hg_count h)])"

definition outbound_line :: "(string \<Rightarrow> string) \<Rightarrow> (string \<rightharpoonup> int64) \<Rightarrow> string \<Rightarrow> string" where
  "outbound_line q m reason = ''globmint_outbound_failures_total{reason='' @ q reason @ ''} '' @ show_int (the (m reason))"

definition WritePrometheus ::
    "'f floats \<Rightarrow> (string \<Rightarrow> string) \<Rightarrow> string list \<Rightarrow> string list \<Rightarrow> string list \<Rightarrow> 'f registry \<Rightarrow> string list" where
  "WritePrometheus F q reqs durations reasons reg =
     [''# HELP http_requests_total Total HTTP requests by method, path and status.'', ''# TYPE http_requests_total counter'']
     @ map (request_line q (mr_reqs reg)) reqs
     @ [''# HELP http_request_duration_ms Request latency by normalized path.'', ''# TYPE http_request_duration_ms histogram'']
     @ concat (map (histogram_lines F q (mr_durations reg)) durations)
     @ [''# HELP globmint_login_failures_total Rejected login attempts.'', ''# TYPE globmint_login_failures_total counter'',
        ''globmint_login_failures_total '' @ show_int (mr_login reg),
        ''# HELP globmint_withdrawals_total Executed vault withdrawals.'', ''# TYPE globmint_withdrawals_total counter'',
        ''globmint_withdrawals_total '' @ show_int (mr_withdraw reg),
        ''# HELP globmint_reconcile_failures_total Vault reconciliation mismatches.'',
        ''# TYPE globmint_reconcile_failures_total counter'',
        ''globmint_reconcile_failures_total '' @ show_int (mr_reconcil reg),
        ''# HELP globmint_outbound_failures_total Failed outbound on-chain operations by reason.'',
        ''# TYPE globmint_outbound_failures_total counter'']
     @ map (outbound_line q (mr_outbound reg)) reasons
     @ [''# HELP globmint_signer_balance Stablecoin balance of the withdrawal signer wallet (major units).'',
        ''# TYPE globmint_signer_balance gauge'',
        ''globmint_signer_balance '' @ fl_format F (mr_signerBalance reg),
        ''# HELP globmint_indexer_lag_blocks Blocks the vault indexer is behind the chain head.'',
        ''# TYPE globmint_indexer_lag_blocks gauge'',
        ''globmint_indexer_lag_blocks '' @ (if mr_indexerLag reg < 0 then ''NaN'' else show_int (mr_indexerLag reg))]"

section \<open>The middleware\<close>

text \<open>\<open>Logging\<close>: a request whose handler panics leaves no trace. \<open>dur\<close> is the measured latency.\<close>

definition Logging :: "'f floats \<Rightarrow> string \<Rightarrow> int \<Rightarrow> 'w handler \<Rightarrow> ('w \<times> 'f registry) handler" where
  "Logging F path dur next_handler r = (\<lambda>(w, reg). case next_handler r w of (resp, w') \<Rightarrow>
     (resp, w', if resp = aborted then reg
                else ObserveDuration F path dur (Request (rq_method r) path (rs_status resp) reg)))"

text \<open>The whole stack, in the order \<open>NewHandler\<close> installs it: only the check of the origin is outside the logging.\<close>

definition logged_site ::
    "'f floats \<Rightarrow> int \<Rightarrow> ('c, 'p) site \<Rightarrow> bool \<Rightarrow> byte list \<Rightarrow> string list \<Rightarrow> string \<Rightarrow> ('c server \<times> 'f registry) handler" where
  "logged_site F dur s drawn random path text =
     Origin (si_Origins s) (Logging F text dur (RequestID random (Chaos (si_Positive s) drawn (si_Chaos s)
       (serve_mux (routes (si_Deps s) (si_Metrics s) (si_Stream s)) path))))"

section \<open>What the numbers mean\<close>

text \<open>The middleware changes no answer and no state of the service.\<close>

lemma Logging_transparent:
  "(case Logging F path dur h r (w, reg) of (resp, w', _) \<Rightarrow> (resp, w')) = h r w"
  by (simp add: Logging_def split: prod.split)

lemma logged_site_transparent:
  "(case logged_site F dur s drawn random path text r (p, reg) of (resp, p', _) \<Rightarrow> (resp, p')) = NewHandler s drawn random path r p"
  by (simp add: logged_site_def NewHandler_def Origin_def Logging_def Let_def split: prod.split)

lemma fold_count_up:
  "fold count_up ks m key =
     (if key \<in> set ks then Some (wrap64 ((case m key of Some n \<Rightarrow> n | None \<Rightarrow> 0) + int (count_list ks key))) else m key)"
proof (induction ks arbitrary: m)
  case (Cons k ks)
  have up: "count_up k m key = (if key = k then Some (wrap64 ((case m k of Some n \<Rightarrow> n | None \<Rightarrow> 0) + 1)) else m key)"
    by (simp add: count_up_def)
  have none: "count_list ks key = 0" if "key \<notin> set ks" using that by (simp add: count_list_0_iff)
  have sum: "wrap64 (wrap64 (a + 1) + int n) = wrap64 (a + int (Suc n))" for a n
    by (simp only: wrap64_add_left of_nat_Suc add.assoc)
  show ?case
    using none by (auto simp only: fold_Cons comp_apply Cons.IH up sum count_list.simps list.set option.case if_True if_False
        insert_iff refl simp_thms of_nat_0 of_nat_1 add_0_right add_0 Suc_eq_plus1 split: if_splits)
qed simp

lemma Request_counts:
  "mr_reqs (fold (\<lambda>(m, p, s). Request m p s) rs reg) = fold count_up (map (\<lambda>(m, p, s). request_key m p s) rs) (mr_reqs reg)"
  by (induction rs arbitrary: reg) (auto simp: Request_def)

lemma cumulative_nth:
  "i < length cs \<Longrightarrow> cumulative cum cs ! i = (cum + sum_list (take (Suc i) cs)) mod 2 ^ 64 "
proof (induction cs arbitrary: cum i)
  case (Cons c cs)
  then show ?case by (cases i) (simp_all add: Let_def mod_simps add.assoc)
qed simp

lemma observed:
  assumes "length (hg_counts h) = length (hg_buckets h)" and "\<forall>c\<in>set (hg_counts h). c < 2 ^ 64" and "hg_count h < 2 ^ 64"
  shows "hg_buckets (fold (observe F) ds h) = hg_buckets h
    \<and> hg_count (fold (observe F) ds h) = (hg_count h + length ds) mod 2 ^ 64
    \<and> hg_counts (fold (observe F) ds h)
      = map2 (\<lambda>b c. (c + length (filter (\<lambda>d. d \<le> b) ds)) mod 2 ^ 64) (hg_buckets h) (hg_counts h)"
  using assms
proof (induction ds arbitrary: h)
  case Nil
  then show ?case by (simp add: list_eq_iff_nth_eq)
next
  case (Cons d ds)
  let ?h = "observe F d h"
  have "length (hg_counts ?h) = length (hg_buckets ?h)" "hg_count ?h < 2 ^ 64" "\<forall>c\<in>set (hg_counts ?h). c < 2 ^ 64"
    using Cons.prems by (auto simp: observe_def incr_uint64_def in_set_zip split: if_splits)
  note IH = Cons.IH [OF this(1,3,2)]
  show ?case
    using IH Cons.prems(1)
    by (auto simp: observe_def incr_uint64_def list_eq_iff_nth_eq mod_simps)
qed

lemma durations_observed:
  assumes "mr_durations reg (NormalizePath path) = None" and "ds \<noteq> []"
  shows "mr_durations (fold (ObserveDuration F path) ds reg) (NormalizePath path) = Some (fold (observe F) ds (empty_histogram F))"
proof -
  have later: "mr_durations (fold (ObserveDuration F path) xs reg) (NormalizePath path) = Some (fold (observe F) xs h)"
    if "mr_durations reg (NormalizePath path) = Some h" for xs h and reg :: "'a registry"
    using that by (induction xs arbitrary: reg h) (auto simp: ObserveDuration_def Let_def)
  obtain x xs where "ds = x # xs" using assms(2) by (cases ds) auto
  then show ?thesis using assms(1) by (auto simp: later ObserveDuration_def Let_def)
qed

abbreviation within :: "int list \<Rightarrow> nat \<Rightarrow> nat" where
  "within ds j \<equiv> length (filter (\<lambda>d. d \<le> durationBucketsMS ! j) ds)"

lemma buckets_counted:
  assumes "length ds < 2 ^ 64"
  shows "hg_counts (fold (observe F) ds (empty_histogram F)) = map (within ds) [0..<11]"
    and "hg_count (fold (observe F) ds (empty_histogram F)) = length ds"
proof -
  have small: "within ds j mod 2 ^ 64 = within ds j" for j
    using assms le_less_trans [OF length_filter_le] by (intro mod_less) blast
  have len: "length durationBucketsMS = 11" by (simp add: durationBucketsMS_def)
  have o: "hg_counts (fold (observe F) ds (empty_histogram F))
      = map2 (\<lambda>b c. (c + length (filter (\<lambda>d. d \<le> b) ds)) mod 2 ^ 64) durationBucketsMS (replicate 11 0)"
    "hg_count (fold (observe F) ds (empty_histogram F)) = (0 + length ds) mod 2 ^ 64"
    using observed [of "empty_histogram F" F ds] by (simp_all add: empty_histogram_def len)
  then show "hg_counts (fold (observe F) ds (empty_histogram F)) = map (within ds) [0..<11]"
    unfolding o(1) by (simp add: list_eq_iff_nth_eq small [simplified] len)
  show "hg_count (fold (observe F) ds (empty_histogram F)) = length ds" unfolding o(2) using assms by simp
qed

lemma buckets_sorted: "i \<le> j \<Longrightarrow> j < 11 \<Longrightarrow> durationBucketsMS ! i \<le> durationBucketsMS ! j"
  by (rule sorted_nth_mono) (simp_all add: durationBucketsMS_def)

lemma cumulative_within:
  assumes "11 * length ds < 2 ^ 64" and "i < 11"
  shows "cumulative 0 (map (within ds) [0..<11]) ! i = (\<Sum>j\<le>i. within ds j)"
proof -
  have "(\<Sum>j\<le>i. within ds j) \<le> (\<Sum>j\<le>i. length ds)" by (intro sum_mono) simp
  also have "\<dots> \<le> 11 * length ds" using assms(2) by simp
  finally have "(\<Sum>j\<le>i. within ds j) < 2 ^ 64" using assms(1) by simp
  moreover have "sum_list (take (Suc i) (map (within ds) [0..<11])) = (\<Sum>j\<le>i. within ds j)"
    using assms(2) by (simp add: take_map sum_list_distinct_conv_sum_set lessThan_atLeast0 [symmetric] lessThan_Suc_atMost del: upt_Suc)
  ultimately show ?thesis using assms(2) by (simp add: cumulative_nth)
qed

text \<open>C39. The histogram over-counts. After any latencies of a path were recorded, the total is their number, but the value
  written for a bucket is the sum, over that bucket and all smaller ones, of how many latencies lie within each, since
  the counts are cumulative already when they are recorded and are accumulated once more when they are written. It is
  the number of latencies within the bucket, which the text format asks for, exactly when no latency lies within the
  next smaller bucket.\<close>

theorem buckets_overcount:
  assumes "mr_durations reg (NormalizePath path) = None" and "ds \<noteq> []" and "11 * length ds < 2 ^ 64" and "i < 11"
  shows "\<exists>h. mr_durations (fold (ObserveDuration F path) ds reg) (NormalizePath path) = Some h
    \<and> hg_count h = length ds
    \<and> cumulative 0 (hg_counts h) ! i = (\<Sum>j\<le>i. length (filter (\<lambda>d. d \<le> durationBucketsMS ! j) ds))
    \<and> (cumulative 0 (hg_counts h) ! i = length (filter (\<lambda>d. d \<le> durationBucketsMS ! i) ds)
       \<longleftrightarrow> i = 0 \<or> (\<forall>d\<in>set ds. durationBucketsMS ! (i - 1) < d))"
proof -
  let ?h = "fold (observe F) ds (empty_histogram F)"
  have cum: "cumulative 0 (hg_counts ?h) ! i = (\<Sum>j\<le>i. within ds j)" and n: "hg_count ?h = length ds"
    using buckets_counted [of ds F] cumulative_within assms(3,4) by simp_all
  have "(\<Sum>j\<le>i. within ds j) = within ds i \<longleftrightarrow> (\<forall>j<i. within ds j = 0)"
    by (auto simp: lessThan_Suc_atMost [symmetric] simp del: length_0_conv)
  also have "\<dots> \<longleftrightarrow> (\<forall>j<i. \<forall>d\<in>set ds. durationBucketsMS ! j < d)" by (auto simp: filter_empty_conv not_le)
  also have "\<dots> \<longleftrightarrow> i = 0 \<or> (\<forall>d\<in>set ds. durationBucketsMS ! (i - 1) < d)"
  proof (cases i)
    case (Suc k)
    have "durationBucketsMS ! j < d" if "j < i" "durationBucketsMS ! k < d" for j d
      using buckets_sorted [of j k] assms(4) that Suc by simp
    then show ?thesis using Suc by auto
  qed simp
  finally show ?thesis using durations_observed [OF assms(1,2)] cum n by auto
qed

definition sample_floats :: "int floats" where
  "sample_floats = \<lparr>fl_of_int = id, fl_add = (+), fl_format = show_int\<rparr>"

theorem buckets_overcount_witness:
  "\<exists>h. mr_durations (fold (ObserveDuration sample_floats ''/health'') [1, 7] (New_registry sample_floats)) (NormalizePath ''/health'') = Some h
    \<and> hg_count h = 2 \<and> cumulative 0 (hg_counts h) ! 10 = 21"
proof -
  have "\<exists>h. mr_durations (fold (ObserveDuration sample_floats ''/health'') [1, 7] (New_registry sample_floats)) (NormalizePath ''/health'') = Some h
    \<and> hg_count h = length [1, 7 :: int]
    \<and> cumulative 0 (hg_counts h) ! 10 = (\<Sum>j\<le>10. length (filter (\<lambda>d. d \<le> durationBucketsMS ! j) [1, 7]))"
    using buckets_overcount [of "New_registry sample_floats" "''/health''" "[1, 7]" 10 sample_floats] by (auto simp: New_registry_def)
  moreover have "(\<Sum>j\<le>10. length (filter (\<lambda>d. d \<le> durationBucketsMS ! j) [1, 7 :: int])) = 21"
    by (simp add: durationBucketsMS_def atMost_nat_numeral)
  ultimately show ?thesis by (simp add: numeral_2_eq_2)
qed

text \<open>Words of a path that begin with a letter from a to f are taken for identifiers.\<close>

lemma paths_garbled: "NormalizePath ''/api/v1/devices'' = ''/{id}pi/v1/{id}vices''"
  by (simp add: NormalizePath_def uuid_text_def num_char_def is_hex_def is_digit_def)

end
