(* ===== verification/Mailer.thy ===== *)
theory Mailer
  imports Errors Codec
begin

text \<open>
  \<open>infrastructure/mailer/mailer.go\<close>: the choice between the console and the Resend API, the messages with their
  templates, and what is made of the API's answer. Filling a template escapes every value the way \<open>html/template\<close> does
  for the text of an element, the only place where the templates take one. The HTTP client and the logo, a file compiled
  into the program, are arguments; the encoding of the request as JSON and the log lines of the console are left out.
\<close>

section \<open>Templates\<close>

text \<open>\<open>htmlReplacementTable\<close>: the byte 0 becomes U+FFFD.\<close>

definition html_escape_char :: "char \<Rightarrow> string" where
  "html_escape_char c =
     (if c = CHR 0x00 then [CHR 0xEF, CHR 0xBF, CHR 0xBD]
      else if c = CHR 0x22 then ''&#34;''
      else if c = CHR ''&'' then ''&amp;''
      else if c = CHR 0x27 then ''&#39;''
      else if c = CHR ''+'' then ''&#43;''
      else if c = CHR ''<'' then ''&lt;''
      else if c = CHR ''>'' then ''&gt;''
      else [c])"

definition html_escape :: "string \<Rightarrow> string" where
  "html_escape s = concat (map html_escape_char s)"

fun unlines :: "string list \<Rightarrow> string" where
  "unlines [] = []"
| "unlines [l] = l"
| "unlines (l # ls) = l @ CHR 0x0A # unlines ls"

definition logoCID :: string where "logoCID = ''globmint-logo''"

text \<open>\<open>otpTmpl\<close>, before and after the code; the function \<open>logo\<close> is expanded.\<close>

definition otp_before :: string where
  "otp_before = unlines
    [''<!doctype html>'',
     ''<html>'',
     ''  <body style=\"margin:0;padding:0;background:#0a0a0a;font-family:-apple-system,'Segoe UI',Roboto,Helvetica,Arial,sans-serif\">'',
     ''    <div style=\"max-width:480px;margin:40px auto;background:#111;border:1px solid #2a2a2a;border-radius:16px;padding:32px;color:#f5f5f5\">'',
     ''      <div style=\"display:flex;align-items:center;gap:12px;margin:0 0 8px\">'',
     ''        <img src=\"cid:globmint-logo\" width=\"40\" height=\"40\" alt=\"Globmint logo\" style=\"width:40px;height:40px;border-radius:10px;display:block\">'',
     ''        <div style=\"font-weight:700;font-size:17px;letter-spacing:-0.3px;color:#f5f5f5\">Globmint</div>'',
     ''      </div>'',
     ''      <p style=\"margin:0 0 20px;color:#a0a0a0;font-size:14px\">Your one-time verification code</p>'',
     ''      <div style=\"background:#0a0a0a;border:1px solid #2a2a2a;border-radius:12px;text-align:center;padding:18px 0;font-size:34px;letter-spacing:14px;font-weight:700;color:#d6fb57\">'']"

definition otp_after :: string where
  "otp_after = unlines
    [''</div>'',
     ''      <p style=\"margin:18px 0 0;color:#a0a0a0;font-size:13px;line-height:1.5\">'',
     ''        This code expires in 10 minutes. If you did not request it, you can safely ignore this email.'',
     ''      </p>'',
     ''    </div>'',
     ''  </body>'',
     ''</html>'']"

definition otpBody :: "string \<Rightarrow> string" where
  "otpBody code = otp_before @ html_escape code @ otp_after"

text \<open>\<open>moneyTmpl\<close>\<close>

definition money_part0 :: string where
  "money_part0 = unlines
    [''<!doctype html>'',
     ''<html>'',
     ''  <body style=\"margin:0;padding:0;background:#0a0a0a;font-family:-apple-system,'Segoe UI',Roboto,Helvetica,Arial,sans-serif\">'',
     ''    <div style=\"max-width:480px;margin:40px auto;background:#111;border:1px solid #2a2a2a;border-radius:16px;padding:32px;color:#f5f5f5\">'',
     ''      <div style=\"display:flex;align-items:center;gap:12px;margin:0 0 24px\">'',
     ''        <img src=\"cid:globmint-logo\" width=\"40\" height=\"40\" alt=\"Globmint logo\" style=\"width:40px;height:40px;border-radius:10px;display:block\">'',
     ''        <div style=\"font-weight:700;font-size:15px;letter-spacing:-0.3px;color:#f5f5f5\">Globmint</div>'',
     ''      </div>'',
     ''      <p style=\"margin:0 0 8px;font-size:16px;font-weight:600;color:#f5f5f5\">'']"

definition money_part1 :: string where
  "money_part1 = unlines
    [''</p>'',
     ''      <p style=\"margin:0 0 24px;color:#a0a0a0;font-size:14px\">'']"

definition money_part2 :: string where
  "money_part2 = unlines
    [''</p>'',
     ''      <div style=\"background:#0a0a0a;border:1px solid #2a2a2a;border-radius:12px;text-align:center;padding:18px 0\">'',
     ''        <p style=\"margin:0 0 6px;font-size:12px;text-transform:uppercase;letter-spacing:1px;color:#a0a0a0\">'']"

definition money_part3 :: string where
  "money_part3 = unlines
    [''</p>'',
     ''        <p style=\"margin:0;font-size:30px;font-weight:700;color:#d6fb57\">'']"

definition money_part4 :: string where
  "money_part4 = unlines
    [''</p>'',
     ''      </div>'',
     ''      <p style=\"margin:24px 0 0;color:#a0a0a0;font-size:13px;line-height:1.5\">If you did not expect this transaction, please secure your account and contact support.</p>'',
     ''    </div>'',
     ''  </body>'',
     ''</html>'']"

record moneyNotification =
  mn_Greeting :: string
  mn_Amount :: string
  mn_Label :: string
  mn_Note :: string

definition moneyBody :: "moneyNotification \<Rightarrow> string" where
  "moneyBody n =
     money_part0 @ html_escape (mn_Greeting n) @ money_part1 @ html_escape (mn_Note n) @ money_part2
     @ html_escape (mn_Label n) @ money_part3 @ html_escape (mn_Amount n) @ money_part4"

definition greeting :: "string \<Rightarrow> string" where
  "greeting name = ''Hey, '' @ (let name = TrimSpace name in if name = [] then ''Globmint user'' else name)"

text \<open>\<open>securityAlertTmpl\<close>, with one copy of its inner part for each row\<close>

definition alert_part0 :: string where
  "alert_part0 = unlines
    [''<!doctype html>'',
     ''<html>'',
     ''  <body style=\"margin:0;padding:0;background:#0a0a0a;font-family:-apple-system,'Segoe UI',Roboto,Helvetica,Arial,sans-serif\">'',
     ''    <div style=\"max-width:480px;margin:40px auto;background:#111;border:1px solid #2a2a2a;border-radius:16px;padding:32px;color:#f5f5f5\">'',
     ''      <div style=\"display:flex;align-items:center;gap:12px;margin:0 0 8px\">'',
     ''        <img src=\"cid:globmint-logo\" width=\"40\" height=\"40\" alt=\"Globmint logo\" style=\"width:40px;height:40px;border-radius:10px;display:block\">'',
     ''        <div style=\"font-weight:700;font-size:17px;letter-spacing:-0.3px;color:#f5f5f5\">Globmint</div>'',
     ''      </div>'',
     ''      <p style=\"margin:0 0 20px;color:#a0a0a0;font-size:14px\">'']"

definition alert_part1 :: string where
  "alert_part1 = unlines
    [''</p>'',
     ''      <div style=\"background:#0a0a0a;border:1px solid #2a2a2a;border-radius:12px;padding:16px;margin:0 0 16px\">'',
     ''        '']"

definition alert_part2 :: string where
  "alert_part2 = unlines
    ['''',
     ''        <p style=\"margin:0 0 4px;font-size:13px;color:#a0a0a0;text-transform:uppercase;letter-spacing:0.5px\">'']"

definition alert_part3 :: string where
  "alert_part3 = unlines
    [''</p>'',
     ''        <p style=\"margin:0 0 12px;font-size:15px;color:#f5f5f5\">'']"

definition alert_part4 :: string where
  "alert_part4 = unlines
    [''</p>'',
     ''        '']"

definition alert_part5 :: string where
  "alert_part5 = unlines
    ['''',
     ''      </div>'',
     ''      <p style=\"margin:0;color:#a0a0a0;font-size:13px;line-height:1.5\">'']"

definition alert_part6 :: string where
  "alert_part6 = unlines
    [''</p>'',
     ''    </div>'',
     ''  </body>'',
     ''</html>'']"

record securityRow =
  row_Label :: string
  row_Value :: string

record securityAlert =
  sa_Heading :: string
  sa_Rows :: "securityRow list"
  sa_Note :: string

definition alert_row :: "securityRow \<Rightarrow> string" where
  "alert_row r = alert_part2 @ html_escape (row_Label r) @ alert_part3 @ html_escape (row_Value r) @ alert_part4"

definition securityAlertBody :: "securityAlert \<Rightarrow> string" where
  "securityAlertBody a =
     alert_part0 @ html_escape (sa_Heading a) @ alert_part1 @ concat (map alert_row (sa_Rows a))
     @ alert_part5 @ html_escape (sa_Note a) @ alert_part6"

section \<open>Senders\<close>

record resendClient =
  rc_apiKey :: string
  rc_from :: string

datatype sender = ConsoleSender | ResendSender resendClient

definition validateFrom :: "string \<Rightarrow> err + unit" where
  "validateFrom addr = (if addr = [] then Inl (ErrOpaque ''send-from address is empty'') else Inr ())"

definition New_sender :: "string \<Rightarrow> string \<Rightarrow> sender" where
  "New_sender apiKey addr =
     (case validateFrom addr of
        Inl _ \<Rightarrow> ConsoleSender
      | Inr _ \<Rightarrow> if apiKey = [] then ConsoleSender else ResendSender \<lparr>rc_apiKey = apiKey, rc_from = addr\<rparr>)"

record resendAttachment =
  ra_Filename :: string
  ra_Content :: string
  ra_ContentType :: string
  ra_ContentID :: string

record resendSendRequest =
  sr_From :: string
  sr_To :: "string list"
  sr_Subject :: string
  sr_HTML :: string
  sr_Attachments :: "resendAttachment list"

text \<open>The client's answer: a status code, the status line, and the field \<open>message\<close> of the body, empty when it does not
  decode. The client is given the headers of the request and its body.\<close>

record resendReply =
  rr_StatusCode :: nat
  rr_Status :: string
  rr_Message :: string

type_synonym http_client = "(string \<times> string) list \<Rightarrow> resendSendRequest \<Rightarrow> err + resendReply"

definition std_alphabet :: string where
  "std_alphabet = ''ABCDEFGHIJKLMNOPQRSTUVWXYZabcdefghijklmnopqrstuvwxyz0123456789+/''"

definition std_EncodeToString :: "byte list \<Rightarrow> string" where
  "std_EncodeToString bs =
     (let s = map (\<lambda>d. std_alphabet ! d) (enc_digits 6 bs) in s @ replicate ((4 - length s mod 4) mod 4) CHR ''='')"

definition resend_body :: "byte list \<Rightarrow> resendClient \<Rightarrow> string \<Rightarrow> string \<Rightarrow> string \<Rightarrow> resendSendRequest" where
  "resend_body logoPNG r to subject html =
     \<lparr>sr_From = rc_from r, sr_To = [to], sr_Subject = subject, sr_HTML = html,
      sr_Attachments = [\<lparr>ra_Filename = logoCID @ ''.png'', ra_Content = std_EncodeToString logoPNG,
                         ra_ContentType = ''image/png'', ra_ContentID = logoCID\<rparr>]\<rparr>"

definition sendEmail :: "http_client \<Rightarrow> byte list \<Rightarrow> resendClient \<Rightarrow> string \<Rightarrow> string \<Rightarrow> string \<Rightarrow> err + unit" where
  "sendEmail http_Do logoPNG r to subject html =
     (case http_Do [(''Authorization'', ''Bearer '' @ rc_apiKey r), (''Content-Type'', ''application/json''),
                    (''Accept'', ''application/json'')] (resend_body logoPNG r to subject html) of
        Inl err \<Rightarrow> Inl (Wrap (''mailer: send to '' @ to) err)
      | Inr resp \<Rightarrow>
          if rr_StatusCode resp \<ge> 300
          then Inl (ErrOpaque (''mailer: resend api status '' @ show_nat (rr_StatusCode resp) @ '': ''
                 @ (if rr_Message resp = [] then rr_Status resp else rr_Message resp)))
          else Inr ())"

text \<open>The five messages; the console only logs them.\<close>

definition deliver :: "http_client \<Rightarrow> byte list \<Rightarrow> sender \<Rightarrow> string \<Rightarrow> string \<Rightarrow> string \<Rightarrow> err + unit" where
  "deliver http_Do logoPNG s to subject html =
     (case s of ConsoleSender \<Rightarrow> Inr () | ResendSender r \<Rightarrow> sendEmail http_Do logoPNG r to subject html)"

definition SendOTP :: "http_client \<Rightarrow> byte list \<Rightarrow> sender \<Rightarrow> string \<Rightarrow> string \<Rightarrow> err + unit" where
  "SendOTP http_Do logoPNG s to code = deliver http_Do logoPNG s to ''Your Globmint verification code'' (otpBody code)"

definition SendMoneyReceived :: "http_client \<Rightarrow> byte list \<Rightarrow> sender \<Rightarrow> string \<Rightarrow> string \<Rightarrow> string \<Rightarrow> err + unit" where
  "SendMoneyReceived http_Do logoPNG s to name amount =
     deliver http_Do logoPNG s to (''You received '' @ amount @ '' in your Globmint account'')
       (moneyBody \<lparr>mn_Greeting = greeting name, mn_Amount = amount, mn_Label = ''Money received'',
                   mn_Note = ''Someone sent you money and your Globmint balance has been topped up.''\<rparr>)"

definition SendMoneySent :: "http_client \<Rightarrow> byte list \<Rightarrow> sender \<Rightarrow> string \<Rightarrow> string \<Rightarrow> string \<Rightarrow> err + unit" where
  "SendMoneySent http_Do logoPNG s to name amount =
     deliver http_Do logoPNG s to (''You sent '' @ amount @ '' from your Globmint account'')
       (moneyBody \<lparr>mn_Greeting = greeting name, mn_Amount = amount, mn_Label = ''Money sent'',
                   mn_Note = ''This is a confirmation that money left your Globmint account.''\<rparr>)"

definition alert_note :: string where
  "alert_note = ''If this wasn't you, please secure your account immediately and contact support.''"

definition SendNewSignIn :: "http_client \<Rightarrow> byte list \<Rightarrow> sender \<Rightarrow> string \<Rightarrow> string \<Rightarrow> string \<Rightarrow> string \<Rightarrow> err + unit" where
  "SendNewSignIn http_Do logoPNG s to deviceName ip timestamp =
     deliver http_Do logoPNG s to ''New sign-in to your Globmint account''
       (securityAlertBody \<lparr>sa_Heading = ''A new device signed in to your account'',
          sa_Rows = [\<lparr>row_Label = ''Device'', row_Value = deviceName\<rparr>, \<lparr>row_Label = ''IP address'', row_Value = ip\<rparr>,
                     \<lparr>row_Label = ''Time'', row_Value = timestamp\<rparr>],
          sa_Note = alert_note\<rparr>)"

definition SendFailedSignIn :: "http_client \<Rightarrow> byte list \<Rightarrow> sender \<Rightarrow> string \<Rightarrow> string \<Rightarrow> string \<Rightarrow> err + unit" where
  "SendFailedSignIn http_Do logoPNG s to ip timestamp =
     deliver http_Do logoPNG s to ''Failed sign-in attempts on your Globmint account''
       (securityAlertBody \<lparr>sa_Heading = ''There were repeated failed sign-in attempts on your account'',
          sa_Rows = [\<lparr>row_Label = ''IP address'', row_Value = ip\<rparr>, \<lparr>row_Label = ''Time'', row_Value = timestamp\<rparr>],
          sa_Note = alert_note\<rparr>)"

section \<open>No value becomes markup\<close>

definition markup :: "string \<Rightarrow> string" where
  "markup s = filter (\<lambda>c. c \<in> {CHR ''<'', CHR ''>'', CHR 0x22, CHR 0x27}) s"

lemma markup_append: "markup (s @ t) = markup s @ markup t"
  by (simp add: markup_def)

lemma markup_escaped: "markup (html_escape s) = []"
proof (induction s)
  case (Cons c s)
  have "markup (html_escape_char c) = []" by (simp add: markup_def html_escape_char_def)
  then show ?case using Cons by (simp add: html_escape_def markup_append)
qed (simp add: html_escape_def markup_def)

lemma markup_rows: "length rs = length rs' \<Longrightarrow> markup (concat (map alert_row rs)) = markup (concat (map alert_row rs'))"
  by (induction rs rs' rule: list_induct2) (simp_all add: alert_row_def markup_append markup_escaped)

text \<open>C40. Nothing a user can choose becomes markup of a mail: whatever the codes, names, amounts, devices, addresses and
  times of two messages of one kind (two alerts with equally many rows), the angle brackets and quotes of their bodies
  are the same characters in the same order, so a value can neither add a tag or an attribute nor close one.\<close>

theorem mail_markup_fixed:
  assumes "length (sa_Rows a) = length (sa_Rows b)"
  shows "markup (otpBody code) = markup (otpBody code') \<and> markup (moneyBody m) = markup (moneyBody n)
    \<and> markup (securityAlertBody a) = markup (securityAlertBody b)"
  using markup_rows [OF assms]
  by (simp add: otpBody_def moneyBody_def securityAlertBody_def markup_append markup_escaped)

definition device_alert :: "string \<Rightarrow> securityAlert" where
  "device_alert device = \<lparr>sa_Heading = ''New device'', sa_Rows = [\<lparr>row_Label = ''Device'', row_Value = device\<rparr>], sa_Note = alert_note\<rparr>"

definition sample_note :: "string \<Rightarrow> moneyNotification" where
  "sample_note name = \<lparr>mn_Greeting = greeting name, mn_Amount = ''1.00'', mn_Label = [], mn_Note = []\<rparr>"

theorem mail_markup_fixed_witness:
  "markup (securityAlertBody (device_alert ''<script>'')) = markup (securityAlertBody (device_alert ''phone''))
    \<and> markup ''<script>'' = ''<>''"
  using mail_markup_fixed [of "device_alert ''<script>''" "device_alert ''phone''" "[]" "[]" "sample_note Ada" "sample_note []"]
  by (simp add: device_alert_def markup_def)

text \<open>A message is reported as sent exactly when the API answered below 300, and what it was given is that message.\<close>

lemma sendEmail_ok:
  "sendEmail http_Do logoPNG r to subject html = Inr () \<longleftrightarrow>
     (\<exists>resp. http_Do [(''Authorization'', ''Bearer '' @ rc_apiKey r), (''Content-Type'', ''application/json''),
                    (''Accept'', ''application/json'')] (resend_body logoPNG r to subject html) = Inr resp \<and> rr_StatusCode resp < 300)"
  by (auto simp: sendEmail_def split: sum.splits)

lemma console_delivers: "SendOTP http_Do logoPNG ConsoleSender to code = Inr ()"
  by (simp add: SendOTP_def deliver_def)

end
