(* ===== verification/Spec2Isabelle.thy ===== *)
theory Spec2Isabelle
  imports MoneyProps VaultLocks EthProps AuthGuess Limits EventHub MarketProps SavingsProps
    RouterProps MoneyHandlerProps HandlerProps AuthLive Cluster Metrics Mailer
begin

text \<open>
  GlobMint backend: a verification development.

  The program (\<open>src/backend\<close>, in Go) is the server of a savings and payments application. Users register with an e-mail
  address, hold accounts in a double-entry ledger, move money between accounts and to banks, and are paid in by transfers
  of a stablecoin to a smart-contract clone of their own; withdrawals from a clone are relayed to the chain. The parts
  and how they interact: HTTP handlers behind a router and middleware (\<open>internal/httpapi\<close>) call the services
  (\<open>internal/services\<close>); the services use the repositories over PostgreSQL (\<open>internal/storage/postgres\<close>), the
  blockchain service (\<open>internal/infrastructure/blockchain\<close>), the typed-data signatures (\<open>internal/eip712\<close>), market rates
  (\<open>internal/infrastructure/rates\<close>), the mail sender (\<open>internal/infrastructure/mailer\<close>), the hub of change notifications
  (\<open>internal/events\<close>) and the metrics (\<open>internal/observability\<close>); the process is configured by \<open>internal/config\<close> and put
  together in \<open>cmd/server/main.go\<close>.

  How the code is translated. A function that returns a value or an error is a state-passing function
  \<open>world => (err + value) * world\<close> (type \<open>go\<close>, \<open>World.thy\<close>); \<open>bnd\<close> is the early return on an error, \<open>attempt\<close> and
  \<open>ignore\<close> are calls whose error is inspected or dropped. The world holds the database, the clock, and supplies of
  identifiers and references; services extend it by their memory: \<open>aworld\<close> (authentication: attempt windows, alert times,
  random bytes), \<open>vworld\<close> (vault: chain state, rate, scan cursor, routing tables, the log of chain calls) and \<open>server\<close>
  (both, and the rate limiters). A list of faults in the world decides which statements, transaction starts and commits
  fail; theorems hold for every such list, hence for a failure at any point. Inside a transaction a failed statement
  aborts it, and \<open>RunInTx\<close> restores the database. Integers of 64 bits are \<open>int\<close> with the wrap-around \<open>wrap64\<close> written out,
  bytes and hash words are \<open>word\<close>s, times are nanoseconds, strings are lists of bytes. Errors and panics are values of
  \<open>err\<close>; \<open>Wrap\<close> is \<open>%w\<close>.

  Which theory models what:

  \<open>Prelude\<close>: int64, strings, decimal printing and parsing of Go's library, and the collections of facts.
  \<open>Money\<close>, \<open>Errors\<close>, \<open>Domain\<close>: \<open>domain/money\<close>, \<open>domain/fees\<close>, \<open>domain/errors.go\<close>, the structs of \<open>domain\<close>.
  \<open>World\<close>, \<open>Store\<close>, \<open>Repos\<close>, \<open>Keeps\<close>: the world, the repositories as single SQL statements on tables with the constraints of
  the migrations, and the rules for what a computation keeps.
  \<open>Ledger\<close>, \<open>MoneyService\<close>: \<open>services/ledger.go\<close>, \<open>balance.go\<close>, \<open>ref.go\<close>, \<open>money.go\<close>.
  \<open>Codec\<close>, \<open>Totp\<close>, \<open>Security\<close>, \<open>Auth\<close>: hexadecimal, base64, base32, SHA-1, SHA-256 and HMAC, \<open>services/totp.go\<close>,
  \<open>security.go\<close>, \<open>auth.go\<close>.
  \<open>Eip712\<close>, \<open>Chain\<close>, \<open>EthClient\<close>: \<open>eip712/eip712.go\<close>; the blockchain interface with its mock, and the client of a node.
  \<open>Vault\<close>, \<open>VaultWithdraw\<close>, \<open>VaultIndexer\<close>, \<open>VaultRecovery\<close>: \<open>services/vault.go\<close>. \<open>Cluster\<close>: the loops of that file, several
  instances and the advisory lock of \<open>storage/postgres/postgres.go\<close>.
  \<open>Savings\<close>, \<open>Market\<close>, \<open>Config\<close>: \<open>services/savings.go\<close>, \<open>waitlist.go\<close>; \<open>services/market.go\<close>, \<open>infrastructure/rates\<close>, the pricing of
  \<open>cmd/server\<close>; \<open>config\<close>.
  \<open>EventHub\<close>, \<open>Mailer\<close>, \<open>Metrics\<close>: \<open>events/hub.go\<close> with the loop of \<open>httpapi/events_handler.go\<close>, \<open>infrastructure/mailer\<close>, \<open>observability\<close> with the logging middleware.
  \<open>Http\<close>, \<open>Server\<close>, \<open>MoneyHandlers\<close>, \<open>AccountHandlers\<close>, \<open>VaultHandlers\<close>, \<open>Router\<close>: \<open>httpapi\<close> and \<open>httpapi/middleware\<close>.

  Interfaces. The locale \<open>db_preorder\<close> (a reflexive and transitive relation of databases) gives the rules by which
  composed computations keep the relation at every outcome; \<open>go_preorder\<close> is the same for whole worlds. Each relation a
  component promises (books unchanged, ledger grown, session and user rows only changed in the allowed ways, time locks
  untouched, nothing sent to the chain) is an interpretation, and the operations' lemmas are its rules applied along the
  code. The locale \<open>keyed_operation\<close> is the contract of an operation that books its effect under an idempotency key, in
  whose context at-most-once execution is proved; \<open>money_operation\<close> extends it by the law that the effect agrees with the
  projection of balances. The six operations on one currency, and conversions between two currencies, are
  interpretations of \<open>money_operation\<close>; a conversion in general, from a currency to itself included, is one of
  \<open>keyed_operation\<close>.

  What the lemmas show, by group:

  Ledger and money (\<open>MoneyLaws\<close>, \<open>MoneyProps\<close>): the projection of balances equals the sums of the immutable entries in
  every reachable state; a key is used at most once; a failed operation changes nothing, except that a failed
  conversion may have opened empty accounts of its user; no overdraft; an external withdrawal takes amount and fee from a
  row of the accounts table that belongs to the user and gives the fee to one of the platform; amounts are printed and read back unchanged; the fee schedule.
  Vault (\<open>VaultLaws\<close>, \<open>VaultProps\<close>, \<open>VaultCalls\<close>, \<open>VaultLocks\<close>): scans, withdrawals and sweeps keep the ledger invariant; which
  chain calls a withdrawal makes and by whose signature; limits; the life cycle of a time lock as a machine with labelled
  events, of which each vault operation contributes only its own, refined by the elevations table; deposits credited once
  and to an account of the right user.
  Ethereum (\<open>EthProps\<close>, \<open>Eip712\<close>): the sliced log scan ends and is complete, a relay sends exactly the signed words, and a
  digest determines the request, the clone and the chain.
  Authentication (\<open>AuthLaws\<close>, \<open>AuthProps\<close>, \<open>AuthGuess\<close>, \<open>AuthLive\<close>): sessions are earned and stay ended, users are verified,
  guesses of codes and PINs are bounded, challenges are authentic, authenticator codes have the value of RFC 4226, and a first
  registration can be completed: without faults, and when the address has no code row from an earlier attempt (over such
  a row the code keeps the old registration, a finding).
  Start-up, savings, hub, limits (\<open>MarketProps\<close>, \<open>SavingsProps\<close>, \<open>EventHub\<close>, \<open>Limits\<close>): no price of zero, what the production
  gate establishes, links of addresses and salts, delivery of events under every interleaving, the bound of the limiter.
  Boundary (\<open>RouterProps\<close>, \<open>HandlerProps\<close>, \<open>MoneyHandlerProps\<close>): no change without a session or the operator's token, without
  the PIN, or a second time under one key; these compose the router, the middleware, the handlers and the services.
  Operation (\<open>Cluster\<close>, \<open>Metrics\<close>, \<open>Mailer\<close>): one indexer at a time, what the histogram reports, no markup from user input.

  Bounds and loops. Loops over lists are structural recursion. The slices of a log scan are driven by a fuel equal to the
  number of live checks of the context; the termination property says how many are enough. Everything else terminates
  by its definition. Counters, sums and cursors wrap where Go's do.

  Parameters. Code outside \<open>src\<close> is an argument of the definitions that use it, with what the code relies on as a
  hypothesis where a property needs it: bcrypt and the sender of codes (record \<open>auth\<close>), Keccak and the curve operations of
  go-ethereum (record \<open>eth\<close>), the RPC calls of a node, the chain behind the blockchain interface, floating-point
  operations of configuration and metrics, the feeds of rates, the HTTP client of the mailer. Witnesses instantiate them
  with concrete functions.

  Not modelled. Opening and migrating the database, sockets, goroutines and shutdown (\<open>storage/postgres/postgres.go\<close>,
  \<open>cmd/server\<close>): I/O. The interfaces of \<open>storage/storage.go\<close>, which the repositories implement. Concurrency inside the
  database: a statement is atomic and transactions are serial. The display-only queries of the blockchain service, which
  format with \<open>big.Float\<close>, and the gauge fed from them. The HTTP fetchers of rates (floating-point JSON). The JSON codec of
  money with its float fallback. The event stream is a parameter of the router; its loop is modelled beside the hub. Log lines, the delay injected
  by the fault middleware, the \<open>Allow\<close> header. Padding inside base32 text. The developer tools \<open>cmd/loadtest\<close>,
  \<open>cmd/gentestwallet\<close>, \<open>cmd/usdcsend\<close>, \<open>cmd/verifychain\<close>.
\<close>

end
